(* ===== verification/Prelude.thy ===== *)
theory Prelude
  imports Main "HOL-Library.Word" "HOL-Library.Sublist" "HOL-Library.AList"
begin

text \<open>Shared vocabulary of the development: the Rust result type and its
combinators, identifiers and timestamps, the string operations of the standard
library the source relies on (trim, trim_matches), association-list tables with
the semantics of a keyed SQL table, and the generic lemmas the component
theories share.\<close>

named_theorems lifecycle_defs "definitions of the lifecycle tables"
named_theorems codec_defs "definitions of the string codecs"
named_theorems store_simps "lookup and update laws of the stored tables"

section \<open>Results\<close>

text \<open>Rust's Result: every early return, question-mark propagation and panic of
the source is a branch that yields an Err value.\<close>

datatype ('a, 'e) result = is_ok: Ok (ok_val: 'a) | is_err: Err (err_val: 'e)

fun and_then :: "('a, 'e) result \<Rightarrow> ('a \<Rightarrow> ('b, 'e) result) \<Rightarrow> ('b, 'e) result" where
  "and_then (Ok a) f = f a"
| "and_then (Err e) f = Err e"

fun map_err :: "('e \<Rightarrow> 'f) \<Rightarrow> ('a, 'e) result \<Rightarrow> ('a, 'f) result" where
  "map_err f (Ok a) = Ok a"
| "map_err f (Err e) = Err (f e)"

fun ok_or :: "'e \<Rightarrow> 'a option \<Rightarrow> ('a, 'e) result" where
  "ok_or e (Some a) = Ok a"
| "ok_or e None = Err e"

lemma and_then_eq_Ok [simp]: "and_then r f = Ok b \<longleftrightarrow> (\<exists>a. r = Ok a \<and> f a = Ok b)"
  by (cases r) auto

lemma and_then_eq_Err:
  "and_then r f = Err e \<longleftrightarrow> r = Err e \<or> (\<exists>a. r = Ok a \<and> f a = Err e)"
  by (cases r) auto

lemma is_err_and_then [simp]:
  "is_err (and_then r f) \<longleftrightarrow> is_err r \<or> (\<exists>a. r = Ok a \<and> is_err (f a))"
  by (cases r) auto

lemma and_then_assoc: "and_then (and_then r f) g = and_then r (\<lambda>a. and_then (f a) g)"
  by (cases r) auto

lemma map_err_eq_Ok [simp]: "map_err f r = Ok a \<longleftrightarrow> r = Ok a"
  by (cases r) auto

lemma ok_or_eq_Ok [simp]: "ok_or e x = Ok a \<longleftrightarrow> x = Some a"
  by (cases x) auto

lemma ok_or_eq_Err [simp]: "ok_or e x = Err e' \<longleftrightarrow> x = None \<and> e' = e"
  by (cases x) auto

text \<open>Fallible operations on a mutable state: the state they leave behind, on success
and on failure alike, and their result. for\_each is a for loop whose body ends in a
question mark.\<close>

type_synonym ('s, 'a, 'e) op = "'s \<Rightarrow> 's \<times> ('a, 'e) result"

fun st_then :: "('s, 'a, 'e) op \<Rightarrow> ('a \<Rightarrow> ('s, 'b, 'e) op) \<Rightarrow> ('s, 'b, 'e) op" where
  "st_then m f s = (case m s of (s', Ok a) \<Rightarrow> f a s' | (s', Err e) \<Rightarrow> (s', Err e))"

fun for_each :: "('x \<Rightarrow> ('s, unit, 'e) op) \<Rightarrow> 'x list \<Rightarrow> ('s, unit, 'e) op" where
  "for_each f [] s = (s, Ok ())"
| "for_each f (x # xs) s = st_then (f x) (\<lambda>_. for_each f xs) s"

text \<open>An operation keeps a predicate of the state when it holds after it on every
branch, errors included.\<close>

definition keeps :: "('s \<Rightarrow> bool) \<Rightarrow> ('s, 'a, 'e) op \<Rightarrow> bool" where
  "keeps P m = (\<forall>s. P s \<longrightarrow> P (fst (m s)))"

lemma keepsI: "(\<And>s. P s \<Longrightarrow> P (fst (m s))) \<Longrightarrow> keeps P m"
  by (simp add: keeps_def)

lemma keepsD: "keeps P m \<Longrightarrow> P s \<Longrightarrow> P (fst (m s))"
  by (simp add: keeps_def)

lemma keeps_then:
  assumes "keeps P m" "\<And>a. keeps P (f a)"
  shows "keeps P (st_then m f)"
proof (rule keepsI)
  fix s assume "P s"
  then have "P (fst (m s))" using assms(1) by (rule keepsD [rotated])
  then show "P (fst (st_then m f s))"
    using assms(2) by (cases "m s"; cases "snd (m s)") (auto intro: keepsD)
qed

lemma keeps_for_each:
  assumes "\<And>x. x \<in> set xs \<Longrightarrow> keeps P (f x)"
  shows "keeps P (for_each f xs)"
  using assms
proof (induction xs)
  case (Cons x xs)
  then have "keeps P (st_then (f x) (\<lambda>_. for_each f xs))" by (intro keeps_then) auto
  then show ?case by (simp add: keeps_def)
qed (simp add: keeps_def)

lemma keeps_pure: "keeps P (\<lambda>s. (s, r s))"
  by (simp add: keeps_def)

text \<open>An operation that keeps a predicate of the state and, when it succeeds, returns a
value with a given property.\<close>

definition ensures :: "('s \<Rightarrow> bool) \<Rightarrow> ('s, 'a, 'e) op \<Rightarrow> ('a \<Rightarrow> bool) \<Rightarrow> bool" where
  "ensures P m Q = (\<forall>s. P s \<longrightarrow> P (fst (m s)) \<and> (\<forall>a. snd (m s) = Ok a \<longrightarrow> Q a))"

lemma ensuresI: "(\<And>s. P s \<Longrightarrow> P (fst (m s)) \<and> (\<forall>a. snd (m s) = Ok a \<longrightarrow> Q a)) \<Longrightarrow> ensures P m Q"
  by (simp add: ensures_def)

lemma ensures_keeps: "ensures P m Q \<Longrightarrow> keeps P m"
  by (simp add: ensures_def keeps_def)

lemma ensures_then:
  assumes "ensures P m Q" "\<And>a. Q a \<Longrightarrow> ensures P (f a) R"
  shows "ensures P (st_then m f) R"
proof (rule ensuresI)
  fix s assume p: "P s"
  obtain s1 r where m: "m s = (s1, r)" by (cases "m s")
  with assms(1) p have "P s1 \<and> (\<forall>a. r = Ok a \<longrightarrow> Q a)" by (metis ensures_def fst_conv snd_conv)
  with assms(2) m show "P (fst (st_then m f s)) \<and> (\<forall>b. snd (st_then m f s) = Ok b \<longrightarrow> R b)"
    by (cases r) (auto simp: ensures_def)
qed

text \<open>An operation moves along a relation when every branch ends in a related state.\<close>

definition moves :: "('s \<Rightarrow> 's \<Rightarrow> bool) \<Rightarrow> ('s, 'a, 'e) op \<Rightarrow> bool" where
  "moves R m = (\<forall>s. R s (fst (m s)))"

lemma moves_then:
  assumes "transp R" "moves R m" "\<And>a. moves R (f a)"
  shows "moves R (st_then m f)"
  unfolding moves_def
proof
  fix s
  obtain s1 r where m: "m s = (s1, r)" by (cases "m s")
  then have 1: "R s s1" using assms(2) by (metis fst_conv moves_def)
  show "R s (fst (st_then m f s))"
  proof (cases r)
    case (Ok a)
    have "R s1 (fst (f a s1))" using assms(3) by (simp add: moves_def)
    then show ?thesis using m Ok 1 transpD [OF assms(1)] by auto
  qed (use m 1 in simp)
qed

lemma moves_for_each:
  assumes "reflp R" "transp R" "\<And>x. x \<in> set xs \<Longrightarrow> moves R (f x)"
  shows "moves R (for_each f xs)"
  using assms(3)
proof (induction xs)
  case Nil
  then show ?case using assms(1) by (simp add: moves_def reflpD)
next
  case (Cons x xs)
  then have "moves R (st_then (f x) (\<lambda>_. for_each f xs))" by (intro moves_then assms(2)) auto
  then show ?case by (simp add: moves_def)
qed

lemma st_then_Ok:
  "st_then m f s = (s2, Ok b) \<longleftrightarrow> (\<exists>s1 a. m s = (s1, Ok a) \<and> f a s1 = (s2, Ok b))"
  by (auto split: prod.splits result.splits)

lemma for_each_Cons_Ok:
  "for_each f (x # xs) s = (s2, Ok ()) \<longleftrightarrow>
     (\<exists>s1. f x s = (s1, Ok ()) \<and> for_each f xs s1 = (s2, Ok ()))"
  by (auto split: prod.splits result.splits)

text \<open>A loop that threads a value through the operation of each element, and stops at the
first error.\<close>

fun fold_op :: "('x \<Rightarrow> 'a \<Rightarrow> ('s, 'a, 'e) op) \<Rightarrow> 'x list \<Rightarrow> 'a \<Rightarrow> ('s, 'a, 'e) op" where
  "fold_op f [] a s = (s, Ok a)"
| "fold_op f (x # xs) a s = st_then (f x a) (fold_op f xs) s"

text \<open>Total operations: from a state with the first predicate they succeed, in a state
with the second.\<close>

definition total :: "('s \<Rightarrow> bool) \<Rightarrow> ('s, 'a, 'e) op \<Rightarrow> ('s \<Rightarrow> bool) \<Rightarrow> bool" where
  "total P m Q = (\<forall>s. P s \<longrightarrow> Q (fst (m s)) \<and> is_ok (snd (m s)))"

lemma totalI: "(\<And>s. P s \<Longrightarrow> Q (fst (m s)) \<and> is_ok (snd (m s))) \<Longrightarrow> total P m Q"
  by (simp add: total_def)

lemma totalD: "total P m Q \<Longrightarrow> P s \<Longrightarrow> \<exists>s' a. m s = (s', Ok a) \<and> Q s'"
  by (cases "m s"; cases "snd (m s)") (auto simp: total_def)

lemma total_weaken: "total P m Q \<Longrightarrow> (\<And>s. P' s \<Longrightarrow> P s) \<Longrightarrow> (\<And>s. Q s \<Longrightarrow> Q' s) \<Longrightarrow> total P' m Q'"
  by (simp add: total_def)

lemma total_then:
  assumes "total P m Q" "\<And>a. total Q (f a) R"
  shows "total P (st_then m f) R"
proof (rule totalI)
  fix s assume "P s"
  then obtain s1 a where "m s = (s1, Ok a)" "Q s1" using totalD [OF assms(1)] by blast
  moreover from this obtain s2 b where "f a s1 = (s2, Ok b)" "R s2" using totalD [OF assms(2)] by blast
  ultimately show "R (fst (st_then m f s)) \<and> is_ok (snd (st_then m f s))" by simp
qed

text \<open>A loop whose rounds keep an invariant and establish a stable fact about their
element establishes the fact about all elements.\<close>

lemma total_fold_op:
  assumes "\<And>x a. x \<in> set xs \<Longrightarrow> total I (f x a) (\<lambda>s. I s \<and> Q x s)"
    "\<And>x y a s. x \<in> set xs \<Longrightarrow> I s \<Longrightarrow> Q y s \<Longrightarrow> Q y (fst (f x a s))"
  shows "total I (fold_op f xs a) (\<lambda>s. I s \<and> (\<forall>x \<in> set xs. Q x s))"
proof -
  have "total (\<lambda>s. I s \<and> (\<forall>y \<in> D. Q y s)) (fold_op f xs a) (\<lambda>s. I s \<and> (\<forall>x \<in> D \<union> set xs. Q x s))" for D
    using assms
  proof (induction xs arbitrary: a D)
    case Nil
    then show ?case by (simp add: total_def)
  next
    case (Cons x xs)
    have "total (\<lambda>s. I s \<and> (\<forall>y \<in> D. Q y s)) (f x a) (\<lambda>s. I s \<and> (\<forall>y \<in> insert x D. Q y s))"
    proof (rule totalI)
      fix s assume s: "I s \<and> (\<forall>y \<in> D. Q y s)"
      then obtain s' b where "f x a s = (s', Ok b)" "I s'" "Q x s'" using totalD [OF Cons.prems(1) [of x a], of s] by auto
      then show "(I (fst (f x a s)) \<and> (\<forall>y \<in> insert x D. Q y (fst (f x a s)))) \<and> is_ok (snd (f x a s))"
        using s Cons.prems(2) [of x s _ a] by auto
    qed
    moreover have "total (\<lambda>s. I s \<and> (\<forall>y \<in> insert x D. Q y s)) (fold_op f xs b)
        (\<lambda>s. I s \<and> (\<forall>y \<in> insert x D \<union> set xs. Q y s))" for b
      by (rule Cons.IH) (use Cons.prems in auto)
    ultimately have "total (\<lambda>s. I s \<and> (\<forall>y \<in> D. Q y s)) (st_then (f x a) (fold_op f xs))
        (\<lambda>s. I s \<and> (\<forall>y \<in> insert x D \<union> set xs. Q y s))"
      by (rule total_then)
    then show ?case by (simp add: total_def)
  qed
  from this [of "{}"] show ?thesis by simp
qed

declare st_then.simps [simp del] for_each.simps(2) [simp del] fold_op.simps(2) [simp del]

section \<open>Identifiers and time\<close>

text \<open>Identifiers are UUID newtypes; only equality is ever used, so they are
natural numbers. A timestamp is an integer number of milliseconds.\<close>

type_synonym ident = nat
type_synonym time = int

section \<open>Strings\<close>

text \<open>A string is a list of characters in the range U+0000 to U+00FF. On that
range char::is_whitespace holds of exactly the code points below.\<close>

definition is_whitespace :: "char \<Rightarrow> bool" where
  "is_whitespace c = (let n = (of_char c :: nat) in
     (9 \<le> n \<and> n \<le> 13) \<or> n = 32 \<or> n = 133 \<or> n = 160)"

definition trim_by :: "('a \<Rightarrow> bool) \<Rightarrow> 'a list \<Rightarrow> 'a list" where
  "trim_by P s = rev (dropWhile P (rev (dropWhile P s)))"

definition str_trim :: "string \<Rightarrow> string" where
  "str_trim s = trim_by is_whitespace s"

definition trim_matches :: "char \<Rightarrow> string \<Rightarrow> string" where
  "trim_matches c s = trim_by (\<lambda>d. d = c) s"

lemma dropWhile_append_all: "\<forall>x \<in> set u. P x \<Longrightarrow> dropWhile P (u @ w) = dropWhile P w"
  by (induction u) auto

lemma dropWhile_stop: "w \<noteq> [] \<Longrightarrow> \<not> P (hd w) \<Longrightarrow> dropWhile P (w @ v) = w @ v"
  by (cases w) auto

lemma trim_by_pad:
  assumes "\<forall>x \<in> set u. P x" "\<forall>x \<in> set v. P x" "w \<noteq> []" "\<not> P (hd w)" "\<not> P (last w)"
  shows "trim_by P (u @ w @ v) = w"
proof -
  have "dropWhile P (rev v @ rev w) = rev w"
    using assms dropWhile_append_all [of "rev v" P "rev w"] dropWhile_stop [of "rev w" P "[]"]
    by (simp add: hd_rev)
  then show ?thesis
    using assms by (simp add: trim_by_def dropWhile_append_all dropWhile_stop)
qed

lemma trim_by_idem: "trim_by P (trim_by P s) = trim_by P s"
proof (cases "dropWhile P s")
  case Nil
  have e: "trim_by P s = []" unfolding trim_by_def Nil by simp
  show ?thesis unfolding e by (simp add: trim_by_def)
next
  case (Cons a t)
  then have na: "\<not> P a" by (metis hd_dropWhile list.distinct(1) list.sel(1))
  let ?r = "dropWhile P (rev (dropWhile P s))"
  have r: "?r \<noteq> []" using Cons na by (auto simp: dropWhile_eq_Nil_conv)
  then have l: "\<not> P (hd ?r)" using hd_dropWhile by blast
  obtain p where p: "rev (a # t) = p @ ?r"
    using Cons by (metis takeWhile_dropWhile_id)
  then have "last ?r = a" using r by (metis last_appendR last_rev list.sel(1))
  then have "trim_by P (rev ?r) = rev ?r"
    using trim_by_pad [of "[]" P "[]" "rev ?r"] r l na by (simp add: hd_rev last_rev)
  then show ?thesis by (simp add: trim_by_def)
qed

end
