(* ===== verification/Lifecycle.thy ===== *)
theory Lifecycle
  imports Prelude
begin

text \<open>The contracts every lifecycle enum of plexis-core promises, as locales:
a checked transition function over a transition table (can_transition_to and
transition_to), and a string codec (as_str and from_str). The enums of States,
Entities and the recovery and verification models interpret them.\<close>

record StateTransitionError =
  from_state :: string
  to_state :: string
  reason :: string

abbreviation quote_char :: char where
  "quote_char \<equiv> CHR 0x22"

text \<open>A sequence of transition_to calls on one value; the first refused call stops
it, as the question mark operator does.\<close>

fun run_transitions :: "('s \<Rightarrow> 's \<Rightarrow> ('s, 'e) result) \<Rightarrow> 's \<Rightarrow> 's list \<Rightarrow> ('s, 'e) result" where
  "run_transitions tr s [] = Ok s"
| "run_transitions tr s (t # ts) = and_then (tr s t) (\<lambda>s'. run_transitions tr s' ts)"

locale lifecycle =
  fixes can :: "'s \<Rightarrow> 's \<Rightarrow> bool"
    and tr :: "'s \<Rightarrow> 's \<Rightarrow> ('s, StateTransitionError) result"
  assumes can_refl: "can s s"
    and tr_ok: "can s t \<Longrightarrow> tr s t = Ok t"
    and tr_err: "\<not> can s t \<Longrightarrow> \<exists>e. tr s t = Err e"
begin

lemma tr_eq_Ok: "tr s t = Ok u \<longleftrightarrow> can s t \<and> u = t"
  using tr_ok [of s t] tr_err [of s t] by (cases "can s t") auto

lemma tr_is_err: "is_err (tr s t) \<longleftrightarrow> \<not> can s t"
  using tr_ok [of s t] tr_err [of s t] by (cases "can s t") auto

lemma run_step: "run_transitions tr s (t # ts) = Ok u \<longleftrightarrow> can s t \<and> run_transitions tr t ts = Ok u"
  by (auto simp: tr_eq_Ok)

lemma run_last: "run_transitions tr s ts = Ok u \<Longrightarrow> u = last (s # ts)"
  by (induction ts arbitrary: s) (auto simp: tr_eq_Ok)

lemma run_iff_legal:
  "run_transitions tr s ts = Ok u \<longleftrightarrow>
     u = last (s # ts) \<and> (\<forall>i < length ts. can ((s # ts) ! i) (ts ! i))"
proof (induction ts arbitrary: s)
  case Nil
  then show ?case by auto
next
  case (Cons t ts)
  have "(\<forall>i < Suc (length ts). can ((s # t # ts) ! i) ((t # ts) ! i)) \<longleftrightarrow>
      can s t \<and> (\<forall>i < length ts. can ((t # ts) ! i) (ts ! i))"
    by (auto simp: less_Suc_eq_0_disj)
  then show ?case using Cons.IH [of t] unfolding run_step by auto
qed

text \<open>A set of states no allowed transition leaves keeps every run inside.\<close>

lemma run_closed:
  assumes "\<And>a b. a \<in> C \<Longrightarrow> can a b \<Longrightarrow> b \<in> C"
  shows "run_transitions tr s ts = Ok u \<Longrightarrow> s \<in> C \<Longrightarrow> u \<in> C \<and> set ts \<subseteq> C"
proof (induction ts arbitrary: s)
  case (Cons t ts)
  then have "can s t" "run_transitions tr t ts = Ok u" unfolding run_step by auto
  moreover from this have "t \<in> C" using assms Cons.prems(2) by blast
  ultimately show ?case using Cons.IH [of t] by auto
qed simp

text \<open>If a set of target states is entered only from a set of gate states, a run
that ends in a target and starts outside has been through a gate.\<close>

lemma run_gate:
  assumes "\<And>a b. can a b \<Longrightarrow> b \<in> T \<Longrightarrow> a \<notin> T \<Longrightarrow> a \<in> G"
  shows "run_transitions tr s ts = Ok u \<Longrightarrow> u \<in> T \<Longrightarrow> s \<notin> T \<Longrightarrow> \<exists>g \<in> G. g \<in> set (s # ts)"
proof (induction ts arbitrary: s)
  case (Cons t ts)
  then have c: "can s t" "run_transitions tr t ts = Ok u" unfolding run_step by auto
  show ?case
  proof (cases "t \<in> T")
    case True
    then show ?thesis using assms c(1) Cons.prems(3) by force
  next
    case False
    then show ?thesis using Cons.IH [OF c(2) Cons.prems(2)] by auto
  qed
qed simp

lemma run_absorbing:
  assumes "\<And>t. can s t \<Longrightarrow> t = s"
  shows "run_transitions tr s ts = Ok u \<Longrightarrow> u = s \<and> set ts \<subseteq> {s}"
  using run_closed [of "{s}" s ts u] assms by auto

end

section \<open>String codecs\<close>

definition trimmed_word :: "string \<Rightarrow> bool" where
  "trimmed_word w = (w \<noteq> [] \<and> hd w \<noteq> quote_char \<and> last w \<noteq> quote_char
     \<and> \<not> is_whitespace (hd w) \<and> \<not> is_whitespace (last w))"

definition trimmed_parse :: "(string \<Rightarrow> 'r) \<Rightarrow> string \<Rightarrow> 'r" where
  "trimmed_parse m s = m (trim_matches quote_char (str_trim s))"

lemma trimmed_parse_pad:
  assumes w: "trimmed_word w" and u: "\<forall>c \<in> set u. is_whitespace c" and v: "\<forall>c \<in> set v. is_whitespace c"
  shows "trimmed_parse m (u @ replicate j quote_char @ w @ replicate k quote_char @ v) = m w"
proof -
  let ?q = "replicate j quote_char @ w @ replicate k quote_char"
  have nws: "\<not> is_whitespace quote_char" by (simp add: is_whitespace_def)
  have "hd ?q = (if j = 0 then hd w else quote_char)" "last ?q = (if k = 0 then last w else quote_char)"
    using w by (cases j; simp add: trimmed_word_def)
      (cases k; use w in \<open>simp add: trimmed_word_def last_append\<close>)
  then have ends: "\<not> is_whitespace (hd ?q)" "\<not> is_whitespace (last ?q)"
    using w nws by (simp_all add: trimmed_word_def split: if_splits)
  have "trim_by is_whitespace (u @ ?q @ v) = ?q"
    using w by (intro trim_by_pad) (use u v ends in \<open>auto simp: trimmed_word_def\<close>)
  then have "str_trim (u @ ?q @ v) = ?q" by (simp add: str_trim_def)
  moreover have "trim_matches quote_char ?q = w"
    unfolding trim_matches_def using w by (intro trim_by_pad) (auto simp: trimmed_word_def)
  ultimately show ?thesis by (simp add: trimmed_parse_def)
qed

locale codec =
  fixes as_str :: "'s \<Rightarrow> string"
    and parse :: "string \<Rightarrow> ('s, StateTransitionError) result"
    and match_str :: "string \<Rightarrow> ('s, StateTransitionError) result"
  assumes parse_eq: "parse s = trimmed_parse match_str s"
    and match_print: "match_str (as_str x) = Ok x"
    and print_trimmed: "trimmed_word (as_str x)"
begin

lemma parse_padded:
  assumes "\<forall>c \<in> set u. is_whitespace c" "\<forall>c \<in> set v. is_whitespace c"
  shows "parse (u @ replicate j quote_char @ as_str x @ replicate k quote_char @ v) = Ok x"
  unfolding parse_eq by (simp only: trimmed_parse_pad [OF print_trimmed assms] match_print)

lemma parse_print: "parse (as_str x) = Ok x"
  using parse_padded [of "[]" "[]" 0 x 0] by simp

lemma print_inj: "as_str x = as_str y \<longleftrightarrow> x = y"
  by (metis parse_print result.inject(1))

end

end
