(* ===== verification/States.thy ===== *)
theory States
  imports Lifecycle
begin

text \<open>The lifecycle enums of plexis-core (state.rs): tasks, agents, workflows,
executions, commands and missions. Each enum keeps the constructors of the
source, qualified by the type's name, and has its printing (as_str), transition
table (can_transition_to), checked transition (transition_to), classification
predicates and parser (from_str). Every table interprets the lifecycle locale
and every pair of printer and parser the codec locale.\<close>

section \<open>TaskState\<close>

datatype TaskState =
    Backlog
  | Ready
  | Assigned
  | Running
  | AwaitingVerification
  | Verified
  | Blocked
  | NeedsHuman
  | Paused
  | Failed
  | Retrying
  | Quarantined
  | Cancelled
  | Discarded

fun TaskState_as_str :: "TaskState \<Rightarrow> string" where
  "TaskState_as_str TaskState.Backlog = ''backlog''"
| "TaskState_as_str TaskState.Ready = ''ready''"
| "TaskState_as_str TaskState.Assigned = ''assigned''"
| "TaskState_as_str TaskState.Running = ''running''"
| "TaskState_as_str TaskState.AwaitingVerification = ''awaiting_verification''"
| "TaskState_as_str TaskState.Verified = ''verified''"
| "TaskState_as_str TaskState.Blocked = ''blocked''"
| "TaskState_as_str TaskState.NeedsHuman = ''needs_human''"
| "TaskState_as_str TaskState.Paused = ''paused''"
| "TaskState_as_str TaskState.Failed = ''failed''"
| "TaskState_as_str TaskState.Retrying = ''retrying''"
| "TaskState_as_str TaskState.Quarantined = ''quarantined''"
| "TaskState_as_str TaskState.Cancelled = ''cancelled''"
| "TaskState_as_str TaskState.Discarded = ''discarded''"

definition TaskState_can_transition_to :: "TaskState \<Rightarrow> TaskState \<Rightarrow> bool" where
  "TaskState_can_transition_to self next =
    (self = next \<or> (case self of
      TaskState.Backlog \<Rightarrow> next \<in> {TaskState.Ready, TaskState.Blocked,
        TaskState.Paused, TaskState.Cancelled, TaskState.Discarded}
    | TaskState.Ready \<Rightarrow> next \<in> {TaskState.Assigned, TaskState.Blocked,
        TaskState.Paused, TaskState.NeedsHuman, TaskState.Cancelled, TaskState.Discarded}
    | TaskState.Assigned \<Rightarrow> next \<in> {TaskState.Running, TaskState.Ready,
        TaskState.NeedsHuman, TaskState.Failed, TaskState.Paused, TaskState.Cancelled}
    | TaskState.Running \<Rightarrow> next \<in> {TaskState.Ready,
        TaskState.AwaitingVerification, TaskState.Paused, TaskState.NeedsHuman,
        TaskState.Failed, TaskState.Retrying, TaskState.Blocked, TaskState.Cancelled}
    | TaskState.AwaitingVerification \<Rightarrow> next \<in> {TaskState.Verified,
        TaskState.Failed, TaskState.Retrying, TaskState.NeedsHuman, TaskState.Running,
        TaskState.Cancelled}
    | TaskState.Verified \<Rightarrow> next \<in> {TaskState.Retrying, TaskState.Discarded}
    | TaskState.Blocked \<Rightarrow> next \<in> {TaskState.Ready, TaskState.Backlog,
        TaskState.Cancelled, TaskState.Discarded}
    | TaskState.NeedsHuman \<Rightarrow> next \<in> {TaskState.Ready, TaskState.Running,
        TaskState.AwaitingVerification, TaskState.Failed, TaskState.Quarantined,
        TaskState.Cancelled, TaskState.Discarded}
    | TaskState.Paused \<Rightarrow> next \<in> {TaskState.Backlog, TaskState.Ready,
        TaskState.Running, TaskState.Cancelled, TaskState.Discarded}
    | TaskState.Failed \<Rightarrow> next \<in> {TaskState.Retrying, TaskState.Ready,
        TaskState.NeedsHuman, TaskState.Quarantined, TaskState.Cancelled, TaskState.Discarded}
    | TaskState.Retrying \<Rightarrow> next \<in> {TaskState.Ready, TaskState.Running,
        TaskState.Failed, TaskState.Quarantined, TaskState.Cancelled}
    | TaskState.Quarantined \<Rightarrow> next \<in> {TaskState.Backlog, TaskState.Ready,
        TaskState.NeedsHuman, TaskState.Cancelled, TaskState.Discarded}
    | TaskState.Cancelled \<Rightarrow> False
    | TaskState.Discarded \<Rightarrow> False))"

definition TaskState_transition_to :: "TaskState \<Rightarrow> TaskState \<Rightarrow> (TaskState, StateTransitionError) result" where
  "TaskState_transition_to self next =
    (if TaskState_can_transition_to self next then Ok next
     else Err \<lparr>from_state = TaskState_as_str self, to_state = TaskState_as_str next,
       reason = ''transition disallowed by task lifecycle rules''\<rparr>)"

definition TaskState_is_terminal :: "TaskState \<Rightarrow> bool" where
  "TaskState_is_terminal self = (self \<in> {TaskState.Verified, TaskState.Cancelled, TaskState.Discarded})"

definition TaskState_is_active :: "TaskState \<Rightarrow> bool" where
  "TaskState_is_active self = (self \<in> {TaskState.Assigned, TaskState.Running, TaskState.AwaitingVerification})"

definition TaskState_is_runnable_candidate :: "TaskState \<Rightarrow> bool" where
  "TaskState_is_runnable_candidate self = (self \<in> {TaskState.Ready, TaskState.Backlog})"

definition TaskState_match_str :: "string \<Rightarrow> (TaskState, StateTransitionError) result" where
  "TaskState_match_str s =
    (if s = ''backlog'' then Ok TaskState.Backlog
     else if s = ''ready'' then Ok TaskState.Ready
     else if s = ''assigned'' then Ok TaskState.Assigned
     else if s = ''running'' then Ok TaskState.Running
     else if s = ''awaiting_verification'' then Ok TaskState.AwaitingVerification
     else if s = ''verified'' then Ok TaskState.Verified
     else if s = ''blocked'' then Ok TaskState.Blocked
     else if s = ''needs_human'' then Ok TaskState.NeedsHuman
     else if s = ''paused'' then Ok TaskState.Paused
     else if s = ''failed'' then Ok TaskState.Failed
     else if s = ''retrying'' then Ok TaskState.Retrying
     else if s = ''quarantined'' then Ok TaskState.Quarantined
     else if s = ''cancelled'' then Ok TaskState.Cancelled
     else if s = ''discarded'' then Ok TaskState.Discarded
     else Err \<lparr>from_state = s, to_state = [], reason = ''unknown task state string''\<rparr>)"

definition TaskState_from_str :: "string \<Rightarrow> (TaskState, StateTransitionError) result" where
  "TaskState_from_str s = TaskState_match_str (trim_matches quote_char (str_trim s))"

section \<open>AgentState\<close>

datatype AgentState =
    Idle
  | Busy
  | WaitingForInput
  | Paused
  | Terminated
  | Failed

fun AgentState_as_str :: "AgentState \<Rightarrow> string" where
  "AgentState_as_str AgentState.Idle = ''idle''"
| "AgentState_as_str AgentState.Busy = ''busy''"
| "AgentState_as_str AgentState.WaitingForInput = ''waiting_for_input''"
| "AgentState_as_str AgentState.Paused = ''paused''"
| "AgentState_as_str AgentState.Terminated = ''terminated''"
| "AgentState_as_str AgentState.Failed = ''failed''"

definition AgentState_can_transition_to :: "AgentState \<Rightarrow> AgentState \<Rightarrow> bool" where
  "AgentState_can_transition_to self next =
    (self = next \<or> (case self of
      AgentState.Idle \<Rightarrow> next \<in> {AgentState.Busy, AgentState.Paused,
        AgentState.Terminated, AgentState.Failed}
    | AgentState.Busy \<Rightarrow> next \<in> {AgentState.Idle, AgentState.WaitingForInput,
        AgentState.Paused, AgentState.Failed, AgentState.Terminated}
    | AgentState.WaitingForInput \<Rightarrow> next \<in> {AgentState.Busy, AgentState.Idle,
        AgentState.Paused, AgentState.Failed, AgentState.Terminated}
    | AgentState.Paused \<Rightarrow> next \<in> {AgentState.Idle, AgentState.Busy,
        AgentState.WaitingForInput, AgentState.Terminated}
    | AgentState.Terminated \<Rightarrow> False
    | AgentState.Failed \<Rightarrow> next \<in> {AgentState.Idle, AgentState.Terminated}))"

definition AgentState_transition_to :: "AgentState \<Rightarrow> AgentState \<Rightarrow> (AgentState, StateTransitionError) result" where
  "AgentState_transition_to self next =
    (if AgentState_can_transition_to self next then Ok next
     else Err \<lparr>from_state = AgentState_as_str self, to_state = AgentState_as_str next,
       reason = ''transition disallowed by agent lifecycle rules''\<rparr>)"

definition AgentState_can_accept_work :: "AgentState \<Rightarrow> bool" where
  "AgentState_can_accept_work self = (self \<in> {AgentState.Idle})"

definition AgentState_match_str :: "string \<Rightarrow> (AgentState, StateTransitionError) result" where
  "AgentState_match_str s =
    (if s = ''idle'' then Ok AgentState.Idle
     else if s = ''busy'' then Ok AgentState.Busy
     else if s = ''waiting_for_input'' then Ok AgentState.WaitingForInput
     else if s = ''paused'' then Ok AgentState.Paused
     else if s = ''terminated'' then Ok AgentState.Terminated
     else if s = ''failed'' then Ok AgentState.Failed
     else Err \<lparr>from_state = s, to_state = [], reason = ''unknown agent state string''\<rparr>)"

definition AgentState_from_str :: "string \<Rightarrow> (AgentState, StateTransitionError) result" where
  "AgentState_from_str s = AgentState_match_str (trim_matches quote_char (str_trim s))"

section \<open>WorkflowState\<close>

datatype WorkflowState =
    Draft
  | Active
  | Paused
  | Completed
  | Failed
  | Cancelled

fun WorkflowState_as_str :: "WorkflowState \<Rightarrow> string" where
  "WorkflowState_as_str WorkflowState.Draft = ''draft''"
| "WorkflowState_as_str WorkflowState.Active = ''active''"
| "WorkflowState_as_str WorkflowState.Paused = ''paused''"
| "WorkflowState_as_str WorkflowState.Completed = ''completed''"
| "WorkflowState_as_str WorkflowState.Failed = ''failed''"
| "WorkflowState_as_str WorkflowState.Cancelled = ''cancelled''"

definition WorkflowState_can_transition_to :: "WorkflowState \<Rightarrow> WorkflowState \<Rightarrow> bool" where
  "WorkflowState_can_transition_to self next =
    (self = next \<or> (case self of
      WorkflowState.Draft \<Rightarrow> next \<in> {WorkflowState.Active,
        WorkflowState.Cancelled}
    | WorkflowState.Active \<Rightarrow> next \<in> {WorkflowState.Paused,
        WorkflowState.Completed, WorkflowState.Failed, WorkflowState.Cancelled}
    | WorkflowState.Paused \<Rightarrow> next \<in> {WorkflowState.Active,
        WorkflowState.Cancelled}
    | WorkflowState.Completed \<Rightarrow> False
    | WorkflowState.Failed \<Rightarrow> False
    | WorkflowState.Cancelled \<Rightarrow> False))"

definition WorkflowState_transition_to :: "WorkflowState \<Rightarrow> WorkflowState \<Rightarrow> (WorkflowState, StateTransitionError) result" where
  "WorkflowState_transition_to self next =
    (if WorkflowState_can_transition_to self next then Ok next
     else Err \<lparr>from_state = WorkflowState_as_str self, to_state = WorkflowState_as_str next,
       reason = ''transition disallowed by workflow lifecycle rules''\<rparr>)"

definition WorkflowState_match_str :: "string \<Rightarrow> (WorkflowState, StateTransitionError) result" where
  "WorkflowState_match_str s =
    (if s = ''draft'' then Ok WorkflowState.Draft
     else if s = ''active'' then Ok WorkflowState.Active
     else if s = ''paused'' then Ok WorkflowState.Paused
     else if s = ''completed'' then Ok WorkflowState.Completed
     else if s = ''failed'' then Ok WorkflowState.Failed
     else if s = ''cancelled'' then Ok WorkflowState.Cancelled
     else Err \<lparr>from_state = s, to_state = [], reason = ''unknown workflow state string''\<rparr>)"

definition WorkflowState_from_str :: "string \<Rightarrow> (WorkflowState, StateTransitionError) result" where
  "WorkflowState_from_str s = WorkflowState_match_str (trim_matches quote_char (str_trim s))"

section \<open>ExecutionState\<close>

datatype ExecutionState =
    Pending
  | Running
  | Completed
  | Failed
  | TimedOut
  | Cancelled

fun ExecutionState_as_str :: "ExecutionState \<Rightarrow> string" where
  "ExecutionState_as_str ExecutionState.Pending = ''pending''"
| "ExecutionState_as_str ExecutionState.Running = ''running''"
| "ExecutionState_as_str ExecutionState.Completed = ''completed''"
| "ExecutionState_as_str ExecutionState.Failed = ''failed''"
| "ExecutionState_as_str ExecutionState.TimedOut = ''timed_out''"
| "ExecutionState_as_str ExecutionState.Cancelled = ''cancelled''"

definition ExecutionState_can_transition_to :: "ExecutionState \<Rightarrow> ExecutionState \<Rightarrow> bool" where
  "ExecutionState_can_transition_to self next =
    (self = next \<or> (case self of
      ExecutionState.Pending \<Rightarrow> next \<in> {ExecutionState.Running,
        ExecutionState.Cancelled}
    | ExecutionState.Running \<Rightarrow> next \<in> {ExecutionState.Completed,
        ExecutionState.Failed, ExecutionState.TimedOut, ExecutionState.Cancelled}
    | ExecutionState.Completed \<Rightarrow> False
    | ExecutionState.Failed \<Rightarrow> False
    | ExecutionState.TimedOut \<Rightarrow> False
    | ExecutionState.Cancelled \<Rightarrow> False))"

definition ExecutionState_transition_to :: "ExecutionState \<Rightarrow> ExecutionState \<Rightarrow> (ExecutionState, StateTransitionError) result" where
  "ExecutionState_transition_to self next =
    (if ExecutionState_can_transition_to self next then Ok next
     else Err \<lparr>from_state = ExecutionState_as_str self, to_state = ExecutionState_as_str next,
       reason = ''transition disallowed by execution lifecycle rules''\<rparr>)"

definition ExecutionState_match_str :: "string \<Rightarrow> (ExecutionState, StateTransitionError) result" where
  "ExecutionState_match_str s =
    (if s = ''pending'' then Ok ExecutionState.Pending
     else if s = ''running'' then Ok ExecutionState.Running
     else if s = ''completed'' then Ok ExecutionState.Completed
     else if s = ''failed'' then Ok ExecutionState.Failed
     else if s = ''timed_out'' then Ok ExecutionState.TimedOut
     else if s = ''cancelled'' then Ok ExecutionState.Cancelled
     else Err \<lparr>from_state = s, to_state = [], reason = ''unknown execution state string''\<rparr>)"

definition ExecutionState_from_str :: "string \<Rightarrow> (ExecutionState, StateTransitionError) result" where
  "ExecutionState_from_str s = ExecutionState_match_str (trim_matches quote_char (str_trim s))"

section \<open>CommandState\<close>

datatype CommandState =
    Queued
  | Dispatched
  | Delivered
  | Confirmed
  | Failed
  | Retrying
  | DeadLettered
  | Cancelled

fun CommandState_as_str :: "CommandState \<Rightarrow> string" where
  "CommandState_as_str CommandState.Queued = ''queued''"
| "CommandState_as_str CommandState.Dispatched = ''dispatched''"
| "CommandState_as_str CommandState.Delivered = ''delivered''"
| "CommandState_as_str CommandState.Confirmed = ''confirmed''"
| "CommandState_as_str CommandState.Failed = ''failed''"
| "CommandState_as_str CommandState.Retrying = ''retrying''"
| "CommandState_as_str CommandState.DeadLettered = ''dead_lettered''"
| "CommandState_as_str CommandState.Cancelled = ''cancelled''"

definition CommandState_can_transition_to :: "CommandState \<Rightarrow> CommandState \<Rightarrow> bool" where
  "CommandState_can_transition_to self next =
    (self = next \<or> (case self of
      CommandState.Queued \<Rightarrow> next \<in> {CommandState.Dispatched,
        CommandState.Cancelled}
    | CommandState.Dispatched \<Rightarrow> next \<in> {CommandState.Delivered,
        CommandState.Confirmed, CommandState.Failed, CommandState.Retrying,
        CommandState.Cancelled}
    | CommandState.Delivered \<Rightarrow> next \<in> {CommandState.Confirmed,
        CommandState.Failed, CommandState.Retrying, CommandState.Cancelled}
    | CommandState.Confirmed \<Rightarrow> False
    | CommandState.Failed \<Rightarrow> next \<in> {CommandState.Retrying,
        CommandState.DeadLettered, CommandState.Cancelled}
    | CommandState.Retrying \<Rightarrow> next \<in> {CommandState.Queued,
        CommandState.Dispatched, CommandState.DeadLettered, CommandState.Cancelled}
    | CommandState.DeadLettered \<Rightarrow> False
    | CommandState.Cancelled \<Rightarrow> False))"

definition CommandState_transition_to :: "CommandState \<Rightarrow> CommandState \<Rightarrow> (CommandState, StateTransitionError) result" where
  "CommandState_transition_to self next =
    (if CommandState_can_transition_to self next then Ok next
     else Err \<lparr>from_state = CommandState_as_str self, to_state = CommandState_as_str next,
       reason = ''transition disallowed by command lifecycle rules''\<rparr>)"

definition CommandState_match_str :: "string \<Rightarrow> (CommandState, StateTransitionError) result" where
  "CommandState_match_str s =
    (if s = ''queued'' then Ok CommandState.Queued
     else if s = ''dispatched'' then Ok CommandState.Dispatched
     else if s = ''delivered'' then Ok CommandState.Delivered
     else if s = ''confirmed'' then Ok CommandState.Confirmed
     else if s = ''failed'' then Ok CommandState.Failed
     else if s = ''retrying'' then Ok CommandState.Retrying
     else if s = ''dead_lettered'' then Ok CommandState.DeadLettered
     else if s = ''cancelled'' then Ok CommandState.Cancelled
     else Err \<lparr>from_state = s, to_state = [], reason = ''unknown command state string''\<rparr>)"

definition CommandState_from_str :: "string \<Rightarrow> (CommandState, StateTransitionError) result" where
  "CommandState_from_str s = CommandState_match_str (trim_matches quote_char (str_trim s))"

section \<open>MissionState\<close>

datatype MissionState =
    Created
  | Planning
  | Running
  | Waiting
  | Replanning
  | NeedsHuman
  | Verifying
  | AwaitingAcceptance
  | Accepted
  | Integrating
  | Integrated
  | Rejected
  | Completed
  | Failed
  | Cancelled
  | BudgetExhausted

fun MissionState_as_str :: "MissionState \<Rightarrow> string" where
  "MissionState_as_str MissionState.Created = ''created''"
| "MissionState_as_str MissionState.Planning = ''planning''"
| "MissionState_as_str MissionState.Running = ''running''"
| "MissionState_as_str MissionState.Waiting = ''waiting''"
| "MissionState_as_str MissionState.Replanning = ''replanning''"
| "MissionState_as_str MissionState.NeedsHuman = ''needs_human''"
| "MissionState_as_str MissionState.Verifying = ''verifying''"
| "MissionState_as_str MissionState.AwaitingAcceptance = ''awaiting_acceptance''"
| "MissionState_as_str MissionState.Accepted = ''accepted''"
| "MissionState_as_str MissionState.Integrating = ''integrating''"
| "MissionState_as_str MissionState.Integrated = ''integrated''"
| "MissionState_as_str MissionState.Rejected = ''rejected''"
| "MissionState_as_str MissionState.Completed = ''completed''"
| "MissionState_as_str MissionState.Failed = ''failed''"
| "MissionState_as_str MissionState.Cancelled = ''cancelled''"
| "MissionState_as_str MissionState.BudgetExhausted = ''budget_exhausted''"

definition MissionState_can_transition_to :: "MissionState \<Rightarrow> MissionState \<Rightarrow> bool" where
  "MissionState_can_transition_to self next =
    (self = next \<or> (case self of
      MissionState.Created \<Rightarrow> next \<in> {MissionState.Planning,
        MissionState.Cancelled}
    | MissionState.Planning \<Rightarrow> next \<in> {MissionState.Running,
        MissionState.Waiting, MissionState.NeedsHuman, MissionState.Verifying,
        MissionState.AwaitingAcceptance, MissionState.Completed, MissionState.Failed,
        MissionState.Cancelled, MissionState.BudgetExhausted}
    | MissionState.Running \<Rightarrow> next \<in> {MissionState.Waiting,
        MissionState.Replanning, MissionState.NeedsHuman, MissionState.Verifying,
        MissionState.AwaitingAcceptance, MissionState.Completed, MissionState.Failed,
        MissionState.Cancelled, MissionState.BudgetExhausted}
    | MissionState.Waiting \<Rightarrow> next \<in> {MissionState.Running,
        MissionState.Planning, MissionState.Replanning, MissionState.NeedsHuman,
        MissionState.Cancelled, MissionState.BudgetExhausted}
    | MissionState.Replanning \<Rightarrow> next \<in> {MissionState.Running,
        MissionState.Planning, MissionState.Waiting, MissionState.NeedsHuman,
        MissionState.Failed, MissionState.Cancelled, MissionState.BudgetExhausted}
    | MissionState.NeedsHuman \<Rightarrow> next \<in> {MissionState.Planning,
        MissionState.Running, MissionState.Replanning, MissionState.Waiting,
        MissionState.Cancelled, MissionState.Failed}
    | MissionState.Verifying \<Rightarrow> next \<in> {MissionState.AwaitingAcceptance,
        MissionState.Completed, MissionState.Replanning, MissionState.NeedsHuman,
        MissionState.Running, MissionState.Failed, MissionState.Cancelled,
        MissionState.BudgetExhausted}
    | MissionState.AwaitingAcceptance \<Rightarrow> next \<in> {MissionState.Accepted,
        MissionState.Integrated, MissionState.Rejected, MissionState.Replanning,
        MissionState.Cancelled}
    | MissionState.Accepted \<Rightarrow> next \<in> {MissionState.Integrating,
        MissionState.Integrated, MissionState.Rejected, MissionState.Cancelled}
    | MissionState.Integrating \<Rightarrow> next \<in> {MissionState.Integrated,
        MissionState.Accepted, MissionState.Cancelled}
    | MissionState.Integrated \<Rightarrow> False
    | MissionState.Rejected \<Rightarrow> next \<in> {MissionState.Replanning,
        MissionState.Cancelled}
    | MissionState.Completed \<Rightarrow> next \<in> {MissionState.AwaitingAcceptance,
        MissionState.Accepted, MissionState.Integrating, MissionState.Integrated}
    | MissionState.Failed \<Rightarrow> False
    | MissionState.Cancelled \<Rightarrow> False
    | MissionState.BudgetExhausted \<Rightarrow> False))"

definition MissionState_transition_to :: "MissionState \<Rightarrow> MissionState \<Rightarrow> (MissionState, StateTransitionError) result" where
  "MissionState_transition_to self next =
    (if MissionState_can_transition_to self next then Ok next
     else Err \<lparr>from_state = MissionState_as_str self, to_state = MissionState_as_str next,
       reason = ''transition disallowed by mission lifecycle rules''\<rparr>)"

definition MissionState_is_terminal :: "MissionState \<Rightarrow> bool" where
  "MissionState_is_terminal self = (self \<in> {MissionState.Integrated, MissionState.Completed, MissionState.Failed, MissionState.Cancelled, MissionState.BudgetExhausted, MissionState.Rejected})"

definition MissionState_is_active :: "MissionState \<Rightarrow> bool" where
  "MissionState_is_active self = (self \<in> {MissionState.Planning, MissionState.Running, MissionState.Waiting, MissionState.Replanning, MissionState.NeedsHuman, MissionState.Verifying, MissionState.Integrating})"

definition MissionState_match_str :: "string \<Rightarrow> (MissionState, StateTransitionError) result" where
  "MissionState_match_str s =
    (if s = ''created'' then Ok MissionState.Created
     else if s = ''planning'' then Ok MissionState.Planning
     else if s = ''running'' then Ok MissionState.Running
     else if s = ''waiting'' then Ok MissionState.Waiting
     else if s = ''replanning'' then Ok MissionState.Replanning
     else if s = ''needs_human'' then Ok MissionState.NeedsHuman
     else if s = ''verifying'' then Ok MissionState.Verifying
     else if s = ''awaiting_acceptance'' \<or> s = ''ready_for_review'' \<or> s = ''verified'' then Ok MissionState.AwaitingAcceptance
     else if s = ''accepted'' then Ok MissionState.Accepted
     else if s = ''integrating'' then Ok MissionState.Integrating
     else if s = ''integrated'' then Ok MissionState.Integrated
     else if s = ''rejected'' then Ok MissionState.Rejected
     else if s = ''completed'' then Ok MissionState.Completed
     else if s = ''failed'' then Ok MissionState.Failed
     else if s = ''cancelled'' then Ok MissionState.Cancelled
     else if s = ''budget_exhausted'' then Ok MissionState.BudgetExhausted
     else Err \<lparr>from_state = s, to_state = [], reason = ''unknown mission state string''\<rparr>)"

definition MissionState_from_str :: "string \<Rightarrow> (MissionState, StateTransitionError) result" where
  "MissionState_from_str s = MissionState_match_str (trim_matches quote_char (str_trim s))"

section \<open>Contracts\<close>

interpretation task_lc: lifecycle TaskState_can_transition_to TaskState_transition_to
  by unfold_locales (auto simp: TaskState_can_transition_to_def TaskState_transition_to_def)

interpretation task_codec: codec TaskState_as_str TaskState_from_str TaskState_match_str
proof
  fix s :: string and x :: TaskState
  show "TaskState_from_str s = trimmed_parse TaskState_match_str s"
    by (simp add: TaskState_from_str_def trimmed_parse_def)
  show "TaskState_match_str (TaskState_as_str x) = Ok x"
    by (cases x) (simp_all add: TaskState_match_str_def)
  show "trimmed_word (TaskState_as_str x)"
    by (cases x) (simp_all add: trimmed_word_def is_whitespace_def)
qed

interpretation agent_lc: lifecycle AgentState_can_transition_to AgentState_transition_to
  by unfold_locales (auto simp: AgentState_can_transition_to_def AgentState_transition_to_def)

interpretation agent_codec: codec AgentState_as_str AgentState_from_str AgentState_match_str
proof
  fix s :: string and x :: AgentState
  show "AgentState_from_str s = trimmed_parse AgentState_match_str s"
    by (simp add: AgentState_from_str_def trimmed_parse_def)
  show "AgentState_match_str (AgentState_as_str x) = Ok x"
    by (cases x) (simp_all add: AgentState_match_str_def)
  show "trimmed_word (AgentState_as_str x)"
    by (cases x) (simp_all add: trimmed_word_def is_whitespace_def)
qed

interpretation workflow_lc: lifecycle WorkflowState_can_transition_to WorkflowState_transition_to
  by unfold_locales (auto simp: WorkflowState_can_transition_to_def WorkflowState_transition_to_def)

interpretation workflow_codec: codec WorkflowState_as_str WorkflowState_from_str WorkflowState_match_str
proof
  fix s :: string and x :: WorkflowState
  show "WorkflowState_from_str s = trimmed_parse WorkflowState_match_str s"
    by (simp add: WorkflowState_from_str_def trimmed_parse_def)
  show "WorkflowState_match_str (WorkflowState_as_str x) = Ok x"
    by (cases x) (simp_all add: WorkflowState_match_str_def)
  show "trimmed_word (WorkflowState_as_str x)"
    by (cases x) (simp_all add: trimmed_word_def is_whitespace_def)
qed

interpretation execution_lc: lifecycle ExecutionState_can_transition_to ExecutionState_transition_to
  by unfold_locales (auto simp: ExecutionState_can_transition_to_def ExecutionState_transition_to_def)

interpretation execution_codec: codec ExecutionState_as_str ExecutionState_from_str ExecutionState_match_str
proof
  fix s :: string and x :: ExecutionState
  show "ExecutionState_from_str s = trimmed_parse ExecutionState_match_str s"
    by (simp add: ExecutionState_from_str_def trimmed_parse_def)
  show "ExecutionState_match_str (ExecutionState_as_str x) = Ok x"
    by (cases x) (simp_all add: ExecutionState_match_str_def)
  show "trimmed_word (ExecutionState_as_str x)"
    by (cases x) (simp_all add: trimmed_word_def is_whitespace_def)
qed

interpretation command_lc: lifecycle CommandState_can_transition_to CommandState_transition_to
  by unfold_locales (auto simp: CommandState_can_transition_to_def CommandState_transition_to_def)

interpretation command_codec: codec CommandState_as_str CommandState_from_str CommandState_match_str
proof
  fix s :: string and x :: CommandState
  show "CommandState_from_str s = trimmed_parse CommandState_match_str s"
    by (simp add: CommandState_from_str_def trimmed_parse_def)
  show "CommandState_match_str (CommandState_as_str x) = Ok x"
    by (cases x) (simp_all add: CommandState_match_str_def)
  show "trimmed_word (CommandState_as_str x)"
    by (cases x) (simp_all add: trimmed_word_def is_whitespace_def)
qed

interpretation mission_lc: lifecycle MissionState_can_transition_to MissionState_transition_to
  by unfold_locales (auto simp: MissionState_can_transition_to_def MissionState_transition_to_def)

interpretation mission_codec: codec MissionState_as_str MissionState_from_str MissionState_match_str
proof
  fix s :: string and x :: MissionState
  show "MissionState_from_str s = trimmed_parse MissionState_match_str s"
    by (simp add: MissionState_from_str_def trimmed_parse_def)
  show "MissionState_match_str (MissionState_as_str x) = Ok x"
    by (cases x) (simp_all add: MissionState_match_str_def)
  show "trimmed_word (MissionState_as_str x)"
    by (cases x) (simp_all add: trimmed_word_def is_whitespace_def)
qed

end
