(* ===== verification/Entities.thy ===== *)
theory Entities
  imports States
begin

text \<open>The durable entities of plexis-core (task.rs, execution.rs, command.rs,
lease.rs, agent.rs, session.rs, approval.rs, workflow.rs, recovery.rs) as
records, with their constructors and operations. A constructor takes the fresh
identifier and the clock reading the source obtains from the platform; an
operation that reads the clock takes that reading. An operation on a mutable
borrow returns the updated record; where it fails before changing anything the
result holds the error alone.\<close>

type_synonym u32 = "32 word"
type_synonym u64 = "64 word"

section \<open>JSON values\<close>

text \<open>serde\_json values; an object is an association list of its keys.\<close>

datatype json =
    JNull
  | JBool bool
  | JNum int
  | JStr string
  | JArr "json list"
  | JObj "(string \<times> json) list"

definition json_get :: "string \<Rightarrow> json \<Rightarrow> json option" where
  "json_get k v = (case v of JObj kvs \<Rightarrow> map_of kvs k | _ \<Rightarrow> None)"

definition json_insert :: "string \<Rightarrow> json \<Rightarrow> json \<Rightarrow> json" where
  "json_insert k x v = (case v of JObj kvs \<Rightarrow> JObj (AList.update k x kvs) | _ \<Rightarrow> v)"

definition json_str :: "json \<Rightarrow> string option" where
  "json_str v = (case v of JStr s \<Rightarrow> Some s | _ \<Rightarrow> None)"

definition json_strings :: "json \<Rightarrow> string list option" where
  "json_strings v = (case v of JArr xs \<Rightarrow> those (map json_str xs) | _ \<Rightarrow> None)"

lemma json_get_insert:
  "json_get k' (json_insert k x (JObj kvs)) = (if k' = k then Some x else json_get k' (JObj kvs))"
  by (simp add: json_get_def json_insert_def update_conv)

lemma those_Some: "those xs = Some ys \<longleftrightarrow> xs = map Some ys"
  by (induction xs arbitrary: ys) (auto split: option.splits)

lemma json_strings_arr: "json_strings (JArr (map JStr ss)) = Some ss"
  by (simp add: json_strings_def json_str_def o_def those_Some)

section \<open>Tasks\<close>

record Task =
  t_id :: ident
  t_workflow_id :: ident
  t_workspace_id :: "ident option"
  t_objective :: string
  t_description :: "string option"
  t_parent_id :: "ident option"
  t_state :: TaskState
  t_priority :: int
  t_criteria :: "string list"
  t_assigned_agent_id :: "ident option"
  t_attempts :: u32
  t_max_attempts :: u32
  t_metadata :: json
  t_created_at :: time
  t_updated_at :: time

definition Task_new :: "ident \<Rightarrow> time \<Rightarrow> ident \<Rightarrow> string \<Rightarrow> Task" where
  "Task_new fresh now workflow_id objective =
    \<lparr>t_id = fresh, t_workflow_id = workflow_id, t_workspace_id = None,
     t_objective = objective, t_description = None, t_parent_id = None,
     t_state = TaskState.Backlog, t_priority = 0, t_criteria = [],
     t_assigned_agent_id = None, t_attempts = 0, t_max_attempts = 3,
     t_metadata = JObj [], t_created_at = now, t_updated_at = now\<rparr>"

definition Task_with_required_capabilities :: "string list \<Rightarrow> Task \<Rightarrow> Task" where
  "Task_with_required_capabilities caps t =
    t\<lparr>t_metadata := json_insert ''required_capabilities'' (JArr (map JStr caps)) (t_metadata t)\<rparr>"

definition Task_required_capabilities :: "Task \<Rightarrow> string list" where
  "Task_required_capabilities t =
    (case json_get ''required_capabilities'' (t_metadata t) of
       None \<Rightarrow> []
     | Some v \<Rightarrow> (case json_strings v of None \<Rightarrow> [] | Some cs \<Rightarrow> cs))"

definition Task_transition_to :: "time \<Rightarrow> TaskState \<Rightarrow> Task \<Rightarrow> (Task, StateTransitionError) result" where
  "Task_transition_to now next t =
    and_then (TaskState_transition_to (t_state t) next)
      (\<lambda>s. Ok (t\<lparr>t_state := s, t_updated_at := now\<rparr>))"

definition Task_assign_to :: "time \<Rightarrow> ident \<Rightarrow> Task \<Rightarrow> (Task, StateTransitionError) result" where
  "Task_assign_to now agent_id t =
    and_then (if t_state t = TaskState.Backlog then Task_transition_to now TaskState.Ready t else Ok t)
      (\<lambda>t1. and_then (Task_transition_to now TaskState.Assigned t1)
        (\<lambda>t2. Ok (t2\<lparr>t_assigned_agent_id := Some agent_id, t_updated_at := now\<rparr>)))"

definition Task_unassign :: "time \<Rightarrow> Task \<Rightarrow> (Task, StateTransitionError) result" where
  "Task_unassign now t =
    and_then (Task_transition_to now TaskState.Ready t)
      (\<lambda>t1. Ok (t1\<lparr>t_assigned_agent_id := None, t_updated_at := now\<rparr>))"

definition Task_record_attempt :: "time \<Rightarrow> Task \<Rightarrow> Task" where
  "Task_record_attempt now t = t\<lparr>t_attempts := t_attempts t + 1, t_updated_at := now\<rparr>"

lemma Task_transition_to_eq_Ok:
  "Task_transition_to now s t = Ok t' \<longleftrightarrow>
     TaskState_can_transition_to (t_state t) s \<and> t' = t\<lparr>t_state := s, t_updated_at := now\<rparr>"
  by (auto simp: Task_transition_to_def task_lc.tr_eq_Ok)

lemma Task_assign_to_eq_Ok:
  "Task_assign_to now a t = Ok t' \<longleftrightarrow>
     t_state t \<in> {TaskState.Backlog, TaskState.Ready, TaskState.Assigned} \<and>
     t' = t\<lparr>t_state := TaskState.Assigned, t_assigned_agent_id := Some a, t_updated_at := now\<rparr>"
  by (cases "t_state t")
    (auto simp: Task_assign_to_def Task_transition_to_eq_Ok TaskState_can_transition_to_def)

lemma Task_unassign_eq_Ok:
  "Task_unassign now t = Ok t' \<longleftrightarrow>
     TaskState_can_transition_to (t_state t) TaskState.Ready \<and>
     t' = t\<lparr>t_state := TaskState.Ready, t_assigned_agent_id := None, t_updated_at := now\<rparr>"
  by (auto simp: Task_unassign_def Task_transition_to_eq_Ok)

lemma required_capabilities_roundtrip:
  "t_metadata t = JObj kvs \<Longrightarrow>
   Task_required_capabilities (Task_with_required_capabilities caps t) = caps"
  by (simp add: Task_required_capabilities_def Task_with_required_capabilities_def
      json_get_insert json_strings_arr)

section \<open>Executions\<close>

record Execution =
  x_id :: ident
  x_task_id :: ident
  x_agent_id :: ident
  x_session_id :: "ident option"
  x_lease_id :: "ident option"
  x_state :: ExecutionState
  x_attempt :: u32
  x_started_at :: "time option"
  x_completed_at :: "time option"
  x_error_message :: "string option"
  x_metadata :: json
  x_created_at :: time
  x_updated_at :: time

definition Execution_new :: "ident \<Rightarrow> time \<Rightarrow> ident \<Rightarrow> ident \<Rightarrow> u32 \<Rightarrow> Execution" where
  "Execution_new fresh now task_id agent_id attempt =
    \<lparr>x_id = fresh, x_task_id = task_id, x_agent_id = agent_id, x_session_id = None,
     x_lease_id = None, x_state = ExecutionState.Pending, x_attempt = attempt,
     x_started_at = None, x_completed_at = None, x_error_message = None,
     x_metadata = JObj [], x_created_at = now, x_updated_at = now\<rparr>"

definition Execution_mark_running :: "time \<Rightarrow> Execution \<Rightarrow> (Execution, StateTransitionError) result" where
  "Execution_mark_running now x =
    and_then (ExecutionState_transition_to (x_state x) ExecutionState.Running)
      (\<lambda>s. Ok (x\<lparr>x_state := s, x_started_at := Some now, x_updated_at := now\<rparr>))"

definition Execution_mark_completed :: "time \<Rightarrow> Execution \<Rightarrow> (Execution, StateTransitionError) result" where
  "Execution_mark_completed now x =
    and_then (ExecutionState_transition_to (x_state x) ExecutionState.Completed)
      (\<lambda>s. Ok (x\<lparr>x_state := s, x_completed_at := Some now, x_updated_at := now\<rparr>))"

definition Execution_mark_failed ::
  "time \<Rightarrow> string \<Rightarrow> Execution \<Rightarrow> (Execution, StateTransitionError) result" where
  "Execution_mark_failed now msg x =
    and_then (ExecutionState_transition_to (x_state x) ExecutionState.Failed)
      (\<lambda>s. Ok (x\<lparr>x_state := s, x_completed_at := Some now, x_error_message := Some msg,
                 x_updated_at := now\<rparr>))"

definition Execution_mark_timed_out :: "time \<Rightarrow> Execution \<Rightarrow> (Execution, StateTransitionError) result" where
  "Execution_mark_timed_out now x =
    and_then (ExecutionState_transition_to (x_state x) ExecutionState.TimedOut)
      (\<lambda>s. Ok (x\<lparr>x_state := s, x_completed_at := Some now,
                 x_error_message := Some ''execution duration budget exceeded'', x_updated_at := now\<rparr>))"

definition Execution_mark_cancelled :: "time \<Rightarrow> Execution \<Rightarrow> (Execution, StateTransitionError) result" where
  "Execution_mark_cancelled now x =
    and_then (ExecutionState_transition_to (x_state x) ExecutionState.Cancelled)
      (\<lambda>s. Ok (x\<lparr>x_state := s, x_completed_at := Some now, x_updated_at := now\<rparr>))"

lemmas Execution_mark_defs =
  Execution_mark_running_def Execution_mark_completed_def Execution_mark_failed_def
  Execution_mark_timed_out_def Execution_mark_cancelled_def

text \<open>The only way an operation changes an execution in a final state is to mark it
with the state it already has.\<close>

definition execution_final :: "ExecutionState \<Rightarrow> bool" where
  "execution_final s = (s \<in> {ExecutionState.Completed, ExecutionState.Failed,
     ExecutionState.TimedOut, ExecutionState.Cancelled})"

lemma execution_final_absorbing:
  "execution_final s \<Longrightarrow> ExecutionState_can_transition_to s t \<Longrightarrow> t = s"
  by (auto simp: execution_final_def ExecutionState_can_transition_to_def)

lemma Execution_mark_final:
  assumes "execution_final (x_state x)"
    and "f \<in> {Execution_mark_running now, Execution_mark_completed now, Execution_mark_failed now m,
       Execution_mark_timed_out now, Execution_mark_cancelled now}"
    and "f x = Ok y"
  shows "x_state y = x_state x"
  using assms execution_final_absorbing [of "x_state x"]
  by (auto simp: Execution_mark_defs execution_lc.tr_eq_Ok)

section \<open>Commands\<close>

datatype CommandTarget = Agent ident | Task ident | Workflow ident | System

datatype CommandType =
    ExecuteTask
  | SendMessage
  | VerifyTask
  | ReviewArtifact
  | ContinueAgent
  | PauseAgent
  | ResumeAgent
  | CancelExecution
  | CreateAgent
  | RequestApproval
  | SubmitApproval
  | ResumeTask

record Command =
  c_id :: ident
  c_target :: CommandTarget
  c_command_type :: CommandType
  c_payload :: json
  c_state :: CommandState
  c_idempotency_key :: string
  c_attempts :: u32
  c_max_attempts :: u32
  c_created_at :: time
  c_dispatched_at :: "time option"
  c_completed_at :: "time option"

definition Command_new ::
  "ident \<Rightarrow> time \<Rightarrow> CommandTarget \<Rightarrow> CommandType \<Rightarrow> json \<Rightarrow> string \<Rightarrow> Command" where
  "Command_new fresh now target command_type payload idempotency_key =
    \<lparr>c_id = fresh, c_target = target, c_command_type = command_type, c_payload = payload,
     c_state = CommandState.Queued, c_idempotency_key = idempotency_key, c_attempts = 0,
     c_max_attempts = 3, c_created_at = now, c_dispatched_at = None, c_completed_at = None\<rparr>"

definition Command_mark_dispatched :: "time \<Rightarrow> Command \<Rightarrow> Command" where
  "Command_mark_dispatched now c =
    c\<lparr>c_state := CommandState.Dispatched, c_attempts := c_attempts c + 1, c_dispatched_at := Some now\<rparr>"

definition Command_mark_confirmed :: "time \<Rightarrow> Command \<Rightarrow> Command" where
  "Command_mark_confirmed now c =
    c\<lparr>c_state := CommandState.Confirmed, c_completed_at := Some now\<rparr>"

definition Command_mark_completed :: "time \<Rightarrow> Command \<Rightarrow> Command" where
  "Command_mark_completed now c = Command_mark_confirmed now c"

definition Command_mark_failed :: "time \<Rightarrow> Command \<Rightarrow> Command" where
  "Command_mark_failed now c =
    (if c_max_attempts c \<le> c_attempts c
     then c\<lparr>c_state := CommandState.DeadLettered, c_completed_at := Some now\<rparr>
     else c\<lparr>c_state := CommandState.Retrying\<rparr>)"

section \<open>Leases\<close>

datatype LeaseError =
    Expired time time
  | GenerationMismatch u64 u64
  | AgentMismatch ident ident

record Lease =
  l_id :: ident
  l_task_id :: ident
  l_agent_id :: ident
  l_generation :: u64
  l_acquired_at :: time
  l_expires_at :: time

definition Lease_new :: "ident \<Rightarrow> time \<Rightarrow> ident \<Rightarrow> ident \<Rightarrow> time \<Rightarrow> Lease" where
  "Lease_new fresh now task_id agent_id ttl =
    \<lparr>l_id = fresh, l_task_id = task_id, l_agent_id = agent_id, l_generation = 1,
     l_acquired_at = now, l_expires_at = now + ttl\<rparr>"

definition Lease_is_expired :: "Lease \<Rightarrow> time \<Rightarrow> bool" where
  "Lease_is_expired l now = (l_expires_at l \<le> now)"

definition Lease_renew :: "time \<Rightarrow> time \<Rightarrow> Lease \<Rightarrow> (Lease, LeaseError) result" where
  "Lease_renew extension now l =
    (if Lease_is_expired l now then Err (Expired (l_expires_at l) now)
     else Ok (l\<lparr>l_expires_at := now + extension\<rparr>))"

definition Lease_reassign :: "ident \<Rightarrow> time \<Rightarrow> time \<Rightarrow> Lease \<Rightarrow> Lease" where
  "Lease_reassign new_agent_id ttl now l =
    l\<lparr>l_agent_id := new_agent_id, l_generation := l_generation l + 1,
      l_acquired_at := now, l_expires_at := now + ttl\<rparr>"

definition Lease_validate_token :: "u64 \<Rightarrow> time \<Rightarrow> Lease \<Rightarrow> (unit, LeaseError) result" where
  "Lease_validate_token generation now l =
    (if l_generation l \<noteq> generation then Err (GenerationMismatch (l_generation l) generation)
     else if Lease_is_expired l now then Err (Expired (l_expires_at l) now)
     else Ok ())"

lemma Lease_validate_token_eq_Ok:
  "Lease_validate_token g now l = Ok () \<longleftrightarrow> l_generation l = g \<and> now < l_expires_at l"
  by (auto simp: Lease_validate_token_def Lease_is_expired_def)

section \<open>Agents\<close>

record ExecutionProfile =
  p_provider :: string
  p_model :: string
  p_parameters :: json

record Agent =
  a_id :: ident
  a_display_name :: string
  a_role :: string
  a_provider_profile :: ExecutionProfile
  a_capabilities :: "string list"
  a_permissions :: "string list"
  a_state :: AgentState
  a_current_execution_id :: "ident option"
  a_configuration :: json
  a_created_at :: time
  a_updated_at :: time

definition ExecutionProfile_new :: "string \<Rightarrow> string \<Rightarrow> ExecutionProfile" where
  "ExecutionProfile_new provider model =
    \<lparr>p_provider = provider, p_model = model, p_parameters = JObj []\<rparr>"

definition Agent_new :: "ident \<Rightarrow> time \<Rightarrow> string \<Rightarrow> string \<Rightarrow> ExecutionProfile \<Rightarrow> Agent" where
  "Agent_new fresh now display_name role profile =
    \<lparr>a_id = fresh, a_display_name = display_name, a_role = role, a_provider_profile = profile,
     a_capabilities = [], a_permissions = [], a_state = AgentState.Idle,
     a_current_execution_id = None, a_configuration = JObj [], a_created_at = now, a_updated_at = now\<rparr>"

definition Agent_set_state :: "time \<Rightarrow> AgentState \<Rightarrow> Agent \<Rightarrow> Agent" where
  "Agent_set_state now s a = a\<lparr>a_state := s, a_updated_at := now\<rparr>"

definition Agent_bind_execution :: "time \<Rightarrow> ident \<Rightarrow> Agent \<Rightarrow> Agent" where
  "Agent_bind_execution now exec_id a =
    a\<lparr>a_current_execution_id := Some exec_id, a_state := AgentState.Busy, a_updated_at := now\<rparr>"

definition Agent_clear_execution :: "time \<Rightarrow> Agent \<Rightarrow> Agent" where
  "Agent_clear_execution now a =
    a\<lparr>a_current_execution_id := None, a_state := AgentState.Idle, a_updated_at := now\<rparr>"

section \<open>Sessions\<close>

datatype SessionState = Active | Paused | Closed

fun SessionState_as_str :: "SessionState \<Rightarrow> string" where
  "SessionState_as_str SessionState.Active = ''active''"
| "SessionState_as_str SessionState.Paused = ''paused''"
| "SessionState_as_str SessionState.Closed = ''closed''"

definition SessionState_can_transition_to :: "SessionState \<Rightarrow> SessionState \<Rightarrow> bool" where
  "SessionState_can_transition_to self next =
    (self = next \<or> (case self of
      SessionState.Active \<Rightarrow> next \<in> {SessionState.Paused, SessionState.Closed}
    | SessionState.Paused \<Rightarrow> next \<in> {SessionState.Active, SessionState.Closed}
    | SessionState.Closed \<Rightarrow> False))"

definition SessionState_transition_to ::
  "SessionState \<Rightarrow> SessionState \<Rightarrow> (SessionState, StateTransitionError) result" where
  "SessionState_transition_to self next =
    (if SessionState_can_transition_to self next then Ok next
     else Err \<lparr>from_state = SessionState_as_str self, to_state = SessionState_as_str next,
       reason = ''transition disallowed by session lifecycle rules''\<rparr>)"

definition SessionState_is_terminal :: "SessionState \<Rightarrow> bool" where
  "SessionState_is_terminal self = (self \<in> {SessionState.Closed})"

interpretation session_lc: lifecycle SessionState_can_transition_to SessionState_transition_to
  by unfold_locales (auto simp: SessionState_can_transition_to_def SessionState_transition_to_def)

record Session =
  s_id :: ident
  s_agent_id :: ident
  s_state :: SessionState
  s_provider_session_id :: "string option"
  s_working_directory :: "string option"
  s_metadata :: json
  s_created_at :: time
  s_updated_at :: time
  s_closed_at :: "time option"

definition Session_new :: "ident \<Rightarrow> time \<Rightarrow> ident \<Rightarrow> Session" where
  "Session_new fresh now agent_id =
    \<lparr>s_id = fresh, s_agent_id = agent_id, s_state = SessionState.Active,
     s_provider_session_id = None, s_working_directory = None, s_metadata = JObj [],
     s_created_at = now, s_updated_at = now, s_closed_at = None\<rparr>"

definition Session_is_active :: "Session \<Rightarrow> bool" where
  "Session_is_active s = (s_state s = SessionState.Active \<and> s_closed_at s = None)"

definition Session_close :: "time \<Rightarrow> Session \<Rightarrow> (Session, StateTransitionError) result" where
  "Session_close now s =
    and_then (SessionState_transition_to (s_state s) SessionState.Closed)
      (\<lambda>st. Ok (s\<lparr>s_state := st, s_closed_at := Some now, s_updated_at := now\<rparr>))"

definition Session_pause :: "time \<Rightarrow> Session \<Rightarrow> (Session, StateTransitionError) result" where
  "Session_pause now s =
    and_then (SessionState_transition_to (s_state s) SessionState.Paused)
      (\<lambda>st. Ok (s\<lparr>s_state := st, s_updated_at := now\<rparr>))"

definition Session_resume :: "time \<Rightarrow> Session \<Rightarrow> (Session, StateTransitionError) result" where
  "Session_resume now s =
    and_then (SessionState_transition_to (s_state s) SessionState.Active)
      (\<lambda>st. Ok (s\<lparr>s_state := st, s_updated_at := now\<rparr>))"

text \<open>A session is closed exactly when its closing time is set; the three operations
keep that.\<close>

definition session_inv :: "Session \<Rightarrow> bool" where
  "session_inv s = ((s_state s = SessionState.Closed) = (s_closed_at s \<noteq> None))"

lemma session_inv_new: "session_inv (Session_new i now a)"
  by (simp add: session_inv_def Session_new_def)

lemma session_inv_ops:
  assumes "session_inv s" "f \<in> {Session_close now, Session_pause now, Session_resume now}" "f s = Ok s'"
  shows "session_inv s'"
  using assms by (cases "s_state s")
    (auto simp: session_inv_def Session_close_def Session_pause_def Session_resume_def
      session_lc.tr_eq_Ok SessionState_can_transition_to_def)

section \<open>Approvals\<close>

datatype ApprovalState = Pending | Approved | Rejected

fun ApprovalState_as_str :: "ApprovalState \<Rightarrow> string" where
  "ApprovalState_as_str ApprovalState.Pending = ''pending''"
| "ApprovalState_as_str ApprovalState.Approved = ''approved''"
| "ApprovalState_as_str ApprovalState.Rejected = ''rejected''"

definition ApprovalState_can_transition_to :: "ApprovalState \<Rightarrow> ApprovalState \<Rightarrow> bool" where
  "ApprovalState_can_transition_to self next =
    (self = next \<or> (case self of
      ApprovalState.Pending \<Rightarrow> next \<in> {ApprovalState.Approved, ApprovalState.Rejected}
    | ApprovalState.Approved \<Rightarrow> False
    | ApprovalState.Rejected \<Rightarrow> False))"

definition ApprovalState_transition_to ::
  "ApprovalState \<Rightarrow> ApprovalState \<Rightarrow> (ApprovalState, StateTransitionError) result" where
  "ApprovalState_transition_to self next =
    (if ApprovalState_can_transition_to self next then Ok next
     else Err \<lparr>from_state = ApprovalState_as_str self, to_state = ApprovalState_as_str next,
       reason = ''transition disallowed by approval lifecycle rules''\<rparr>)"

definition ApprovalState_is_terminal :: "ApprovalState \<Rightarrow> bool" where
  "ApprovalState_is_terminal self = (self \<in> {ApprovalState.Approved, ApprovalState.Rejected})"

interpretation approval_lc: lifecycle ApprovalState_can_transition_to ApprovalState_transition_to
  by unfold_locales (auto simp: ApprovalState_can_transition_to_def ApprovalState_transition_to_def)

record ApprovalRecord =
  ap_id :: ident
  ap_task_id :: ident
  ap_workflow_id :: ident
  ap_requested_by :: "ident option"
  ap_action_description :: string
  ap_state :: ApprovalState
  ap_reason :: "string option"
  ap_created_at :: time
  ap_decided_at :: "time option"

definition ApprovalRecord_new :: "ident \<Rightarrow> time \<Rightarrow> ident \<Rightarrow> ident \<Rightarrow> string \<Rightarrow> ApprovalRecord" where
  "ApprovalRecord_new fresh now task_id workflow_id descr =
    \<lparr>ap_id = fresh, ap_task_id = task_id, ap_workflow_id = workflow_id, ap_requested_by = None,
     ap_action_description = descr, ap_state = ApprovalState.Pending, ap_reason = None,
     ap_created_at = now, ap_decided_at = None\<rparr>"

definition ApprovalRecord_approve ::
  "time \<Rightarrow> string option \<Rightarrow> ApprovalRecord \<Rightarrow> (ApprovalRecord, StateTransitionError) result" where
  "ApprovalRecord_approve now notes r =
    and_then (ApprovalState_transition_to (ap_state r) ApprovalState.Approved)
      (\<lambda>st. Ok (let r1 = r\<lparr>ap_state := st, ap_decided_at := Some now\<rparr> in
         case notes of Some n \<Rightarrow> r1\<lparr>ap_reason := Some n\<rparr> | None \<Rightarrow> r1))"

definition ApprovalRecord_reject ::
  "time \<Rightarrow> string option \<Rightarrow> ApprovalRecord \<Rightarrow> (ApprovalRecord, StateTransitionError) result" where
  "ApprovalRecord_reject now notes r =
    and_then (ApprovalState_transition_to (ap_state r) ApprovalState.Rejected)
      (\<lambda>st. Ok (let r1 = r\<lparr>ap_state := st, ap_decided_at := Some now\<rparr> in
         case notes of Some n \<Rightarrow> r1\<lparr>ap_reason := Some n\<rparr> | None \<Rightarrow> r1))"

text \<open>The two decisions exclude each other.\<close>

lemma ApprovalRecord_approve_state:
  "ApprovalRecord_approve now n r = Ok r' \<Longrightarrow>
     ap_state r \<noteq> ApprovalState.Rejected \<and> ap_state r' = ApprovalState.Approved \<and> ap_decided_at r' = Some now"
  by (cases "ap_state r"; cases n)
    (auto simp: ApprovalRecord_approve_def approval_lc.tr_eq_Ok ApprovalState_can_transition_to_def)

lemma ApprovalRecord_reject_state:
  "ApprovalRecord_reject now n r = Ok r' \<Longrightarrow>
     ap_state r \<noteq> ApprovalState.Approved \<and> ap_state r' = ApprovalState.Rejected \<and> ap_decided_at r' = Some now"
  by (cases "ap_state r"; cases n)
    (auto simp: ApprovalRecord_reject_def approval_lc.tr_eq_Ok ApprovalState_can_transition_to_def)

lemma approve_then_reject:
  "ApprovalRecord_approve now n r = Ok r' \<Longrightarrow> is_err (ApprovalRecord_reject now' n' r')"
  using ApprovalRecord_approve_state [of now n r r'] ApprovalRecord_reject_state [of now' n' r']
  by (cases "ApprovalRecord_reject now' n' r'") auto

lemma reject_then_approve:
  "ApprovalRecord_reject now n r = Ok r' \<Longrightarrow> is_err (ApprovalRecord_approve now' n' r')"
  using ApprovalRecord_reject_state [of now n r r'] ApprovalRecord_approve_state [of now' n' r']
  by (cases "ApprovalRecord_approve now' n' r'") auto

section \<open>Workflows\<close>

record Workflow =
  w_id :: ident
  w_workspace_id :: "ident option"
  w_title :: string
  w_objective :: string
  w_state :: WorkflowState
  w_metadata :: json
  w_created_at :: time
  w_updated_at :: time

definition Workflow_new :: "ident \<Rightarrow> time \<Rightarrow> string \<Rightarrow> string \<Rightarrow> Workflow" where
  "Workflow_new fresh now title objective =
    \<lparr>w_id = fresh, w_workspace_id = None, w_title = title, w_objective = objective,
     w_state = WorkflowState.Draft, w_metadata = JObj [], w_created_at = now, w_updated_at = now\<rparr>"

definition Workflow_set_state :: "time \<Rightarrow> WorkflowState \<Rightarrow> Workflow \<Rightarrow> Workflow" where
  "Workflow_set_state now s w = w\<lparr>w_state := s, w_updated_at := now\<rparr>"

end
