(* ===== verification/Task_Graph.thy ===== *)
theory Task_Graph
  imports Entities "HOL-Library.Product_Lexorder"
begin

text \<open>The task graph of plexis-core (graph.rs): tasks with their dependency and
dependent sets, edge insertion with cycle refusal, Kahn's algorithm, topological
sorting, runnable-task discovery and the decomposition primitives.

A HashMap is an association list whose order stands for the iteration order at
that moment, a HashSet a list without duplicates. The order is arbitrary in the
source, and every theorem here holds for all graphs, so for every order.
SubtractOverflow stands for the panic of the checked decrement of an in-degree;
it is proved unreachable.\<close>

datatype GraphError =
    TaskNotFound ident
  | CycleDetected ident
  | InvalidDecomposition string
  | SubtractOverflow

record TaskGraph =
  g_tasks :: "(ident \<times> Task) list"
  g_dependencies :: "ident \<rightharpoonup> ident list"
  g_dependents :: "ident \<rightharpoonup> ident list"

definition task_ids :: "TaskGraph \<Rightarrow> ident list" where
  "task_ids g = map fst (g_tasks g)"

section \<open>Operations\<close>

text \<open>The entry API: or\_default, then insert into or remove from the set.\<close>

definition entry_or_default :: "ident \<Rightarrow> (ident \<rightharpoonup> ident list) \<Rightarrow> (ident \<rightharpoonup> ident list)" where
  "entry_or_default k m = (case m k of None \<Rightarrow> m(k \<mapsto> []) | Some _ \<Rightarrow> m)"

definition entry_insert :: "ident \<Rightarrow> ident \<Rightarrow> (ident \<rightharpoonup> ident list) \<Rightarrow> (ident \<rightharpoonup> ident list)" where
  "entry_insert k v m = m(k \<mapsto> List.insert v (case m k of None \<Rightarrow> [] | Some xs \<Rightarrow> xs))"

definition entry_remove :: "ident \<Rightarrow> ident \<Rightarrow> (ident \<rightharpoonup> ident list) \<Rightarrow> (ident \<rightharpoonup> ident list)" where
  "entry_remove k v m = m(k \<mapsto> removeAll v (case m k of None \<Rightarrow> [] | Some xs \<Rightarrow> xs))"

definition get_mut_remove :: "ident \<Rightarrow> ident \<Rightarrow> (ident \<rightharpoonup> ident list) \<Rightarrow> (ident \<rightharpoonup> ident list)" where
  "get_mut_remove k v m = (case m k of None \<Rightarrow> m | Some xs \<Rightarrow> m(k \<mapsto> removeAll v xs))"

definition graph_new :: TaskGraph where
  "graph_new = \<lparr>g_tasks = [], g_dependencies = Map.empty, g_dependents = Map.empty\<rparr>"

definition add_task :: "Task \<Rightarrow> TaskGraph \<Rightarrow> TaskGraph" where
  "add_task task g =
    g\<lparr>g_tasks := AList.update (t_id task) task (g_tasks g),
      g_dependencies := entry_or_default (t_id task) (g_dependencies g),
      g_dependents := entry_or_default (t_id task) (g_dependents g)\<rparr>"

definition contains_task :: "ident \<Rightarrow> TaskGraph \<Rightarrow> bool" where
  "contains_task i g = (map_of (g_tasks g) i \<noteq> None)"

definition get_task :: "ident \<Rightarrow> TaskGraph \<Rightarrow> Task option" where
  "get_task i g = map_of (g_tasks g) i"

definition direct_dependencies :: "ident \<Rightarrow> TaskGraph \<Rightarrow> ident list" where
  "direct_dependencies i g = (case g_dependencies g i of None \<Rightarrow> [] | Some xs \<Rightarrow> xs)"

definition direct_dependents :: "ident \<Rightarrow> TaskGraph \<Rightarrow> ident list" where
  "direct_dependents i g = (case g_dependents g i of None \<Rightarrow> [] | Some xs \<Rightarrow> xs)"

definition task_count :: "TaskGraph \<Rightarrow> nat" where
  "task_count g = length (g_tasks g)"

text \<open>The in-degree table of Kahn's algorithm and the inner loop over the
downstream set of a popped node: decrement each in-degree, enqueue a task whose
in-degree reaches zero.\<close>

definition in_degrees :: "TaskGraph \<Rightarrow> (ident \<times> nat) list" where
  "in_degrees g = map (\<lambda>i. (i, length (direct_dependencies i g))) (task_ids g)"

fun relax :: "ident list \<Rightarrow> (ident \<times> nat) list \<Rightarrow> ident list
    \<Rightarrow> ((ident \<times> nat) list \<times> ident list) option" where
  "relax [] deg queue = Some (deg, queue)"
| "relax (nxt # ns) deg queue =
    (case map_of deg nxt of
       None \<Rightarrow> relax ns deg queue
     | Some 0 \<Rightarrow> None
     | Some (Suc d) \<Rightarrow> relax ns (AList.update nxt d deg) (if d = 0 then queue @ [nxt] else queue))"

lemma sum_list_update:
  "map_of deg k = Some (Suc d) \<Longrightarrow>
   Suc (sum_list (map snd (AList.update k d deg))) = sum_list (map snd deg)"
  by (induction deg) auto

lemma relax_measure:
  "relax ns deg queue = Some (deg', queue') \<Longrightarrow>
   sum_list (map snd deg') + length queue' \<le> sum_list (map snd deg) + length queue"
proof (induction ns arbitrary: deg queue)
  case (Cons a ns)
  show ?case
  proof (cases "map_of deg a")
    case (Some n)
    then obtain d where d: "n = Suc d" using Cons.prems by (cases n) auto
    then show ?thesis
      using Cons.prems Some Cons.IH [of "AList.update a d deg" "if d = 0 then queue @ [a] else queue"]
        sum_list_update [of deg a d] by (auto split: if_splits)
  qed (use Cons in auto)
qed simp

text \<open>The outer loop pops the front of the queue; order collects the popped nodes
(validate\_acyclic only counts them).\<close>

function kahn :: "(ident \<rightharpoonup> ident list) \<Rightarrow> (ident \<times> nat) list \<Rightarrow> ident list \<Rightarrow> ident list
    \<Rightarrow> ((ident \<times> nat) list \<times> ident list) option" where
  "kahn dependents deg [] order = Some (deg, order)"
| "kahn dependents deg (node # queue) order =
    (case (case dependents node of None \<Rightarrow> Some (deg, queue) | Some ns \<Rightarrow> relax ns deg queue) of
       None \<Rightarrow> None
     | Some (deg', queue') \<Rightarrow> kahn dependents deg' queue' (order @ [node]))"
  by pat_completeness auto
termination
  by (relation "measure (\<lambda>(_, deg, queue, _). sum_list (map snd deg) + length queue)")
    (auto split: option.splits dest: relax_measure)

definition initial_queue :: "TaskGraph \<Rightarrow> ident list" where
  "initial_queue g = map fst (filter (\<lambda>(_, deg). deg = 0) (in_degrees g))"

definition validate_acyclic :: "TaskGraph \<Rightarrow> (unit, GraphError) result" where
  "validate_acyclic g =
    (case kahn (g_dependents g) (in_degrees g) (initial_queue g) [] of
       None \<Rightarrow> Err SubtractOverflow
     | Some (deg, order) \<Rightarrow>
         if length order \<noteq> task_count g
         then (case List.find (\<lambda>(_, d). 0 < d) deg of
                 Some (i, _) \<Rightarrow> Err (CycleDetected i)
               | None \<Rightarrow> Ok ())
         else Ok ())"

definition topological_sort :: "ident \<Rightarrow> TaskGraph \<Rightarrow> (ident list, GraphError) result" where
  "topological_sort default_id g =
    (case kahn (g_dependents g) (in_degrees g) (initial_queue g) [] of
       None \<Rightarrow> Err SubtractOverflow
     | Some (_, order) \<Rightarrow>
         if length order \<noteq> task_count g
         then Err (CycleDetected (if order = [] then default_id else last order))
         else Ok order)"

definition add_dependency :: "ident \<Rightarrow> ident \<Rightarrow> (TaskGraph, unit, GraphError) op" where
  "add_dependency task_id depends_on_id g =
    (if task_id = depends_on_id then (g, Err (CycleDetected task_id))
     else if \<not> contains_task task_id g then (g, Err (TaskNotFound task_id))
     else if \<not> contains_task depends_on_id g then (g, Err (TaskNotFound depends_on_id))
     else
       let g1 = g\<lparr>g_dependencies := entry_insert task_id depends_on_id (g_dependencies g),
                  g_dependents := entry_insert depends_on_id task_id (g_dependents g)\<rparr>
       in case validate_acyclic g1 of
            Err e \<Rightarrow> (g1\<lparr>g_dependencies := entry_remove task_id depends_on_id (g_dependencies g1),
                        g_dependents := entry_remove depends_on_id task_id (g_dependents g1)\<rparr>, Err e)
          | Ok _ \<Rightarrow> (g1, Ok ()))"

definition remove_dependency :: "ident \<Rightarrow> ident \<Rightarrow> (TaskGraph, unit, GraphError) op" where
  "remove_dependency task_id depends_on_id g =
    (if \<not> contains_task task_id g then (g, Err (TaskNotFound task_id))
     else if \<not> contains_task depends_on_id g then (g, Err (TaskNotFound depends_on_id))
     else (g\<lparr>g_dependencies := get_mut_remove task_id depends_on_id (g_dependencies g),
             g_dependents := get_mut_remove depends_on_id task_id (g_dependents g)\<rparr>, Ok ()))"

definition remove_task :: "ident \<Rightarrow> (TaskGraph, Task option, GraphError) op" where
  "remove_task task_id g =
    (if direct_dependents task_id g \<noteq> []
     then (g, Err (InvalidDecomposition ''cannot remove task because other tasks still depend on it''))
     else
       let dependents1 = (case g_dependencies g task_id of
                            None \<Rightarrow> g_dependents g
                          | Some deps \<Rightarrow> fold (\<lambda>dep m. get_mut_remove dep task_id m) deps (g_dependents g))
       in (g\<lparr>g_tasks := AList.delete task_id (g_tasks g),
             g_dependencies := (g_dependencies g)(task_id := None),
             g_dependents := dependents1(task_id := None)\<rparr>,
           Ok (map_of (g_tasks g) task_id)))"

definition is_runnable :: "TaskGraph \<Rightarrow> ident \<Rightarrow> Task \<Rightarrow> bool" where
  "is_runnable g i task =
    (TaskState_is_runnable_candidate (t_state task) \<and> t_assigned_agent_id task = None \<and>
     (case g_dependencies g i of
        Some deps \<Rightarrow> list_all (\<lambda>d. case map_of (g_tasks g) d of
                       Some dep_task \<Rightarrow> t_state dep_task = TaskState.Verified
                     | None \<Rightarrow> False) deps
      | None \<Rightarrow> True))"

definition find_runnable_tasks :: "TaskGraph \<Rightarrow> ident list" where
  "find_runnable_tasks g =
    map t_id (sort_key (\<lambda>t. (- t_priority t, t_created_at t))
      (map snd (filter (\<lambda>(i, t). is_runnable g i t) (g_tasks g))))"

section \<open>Decomposition primitives\<close>

definition add_children :: "ident \<Rightarrow> Task list \<Rightarrow> (TaskGraph, unit, GraphError) op" where
  "add_children parent_id = for_each (\<lambda>child g.
     if t_parent_id child \<noteq> Some parent_id
     then (g, Err (InvalidDecomposition ''child task parent_id must match''))
     else (add_task child g, Ok ()))"

text \<open>The children of the parent are collected from the whole graph before the loop
that lets those without a dependency inherit the dependencies of the parent.\<close>

definition inherit_deps :: "ident list \<Rightarrow> ident \<Rightarrow> (TaskGraph, unit, GraphError) op" where
  "inherit_deps parent_deps child_id g =
    (if direct_dependencies child_id g = []
     then for_each (\<lambda>p_dep. add_dependency child_id p_dep) parent_deps g
     else (g, Ok ()))"

definition rewire_dependent :: "ident \<Rightarrow> ident list \<Rightarrow> ident \<Rightarrow> (TaskGraph, unit, GraphError) op" where
  "rewire_dependent parent_id terminals dep_on_parent =
    st_then (remove_dependency dep_on_parent parent_id)
      (\<lambda>_. for_each (\<lambda>term_id. add_dependency dep_on_parent term_id) terminals)"

definition child_ids_of :: "ident \<Rightarrow> TaskGraph \<Rightarrow> ident list" where
  "child_ids_of parent_id g =
    map t_id (filter (\<lambda>t. t_parent_id t = Some parent_id) (map snd (g_tasks g)))"

definition check_acyclic :: "(TaskGraph, unit, GraphError) op" where
  "check_acyclic g = (g, validate_acyclic g)"

definition decompose_task ::
  "ident \<Rightarrow> Task list \<Rightarrow> (ident \<times> ident) list \<Rightarrow> ident list \<Rightarrow> (TaskGraph, unit, GraphError) op" where
  "decompose_task parent_id children child_dependencies terminal_child_ids g =
    (if \<not> contains_task parent_id g then (g, Err (TaskNotFound parent_id))
     else
       let parent_deps = direct_dependencies parent_id g;
           parent_dependents = direct_dependents parent_id g
       in st_then (add_children parent_id children)
            (\<lambda>_. st_then (for_each (\<lambda>(task_id, depends_on). add_dependency task_id depends_on) child_dependencies)
            (\<lambda>_. st_then (\<lambda>g1. for_each (inherit_deps parent_deps) (child_ids_of parent_id g1) g1)
            (\<lambda>_. st_then (for_each (rewire_dependent parent_id terminal_child_ids) parent_dependents)
            (\<lambda>_. check_acyclic)))) g)"

text \<open>The result of the removal is dropped, as in the source.\<close>

definition insert_task_between :: "Task \<Rightarrow> ident \<Rightarrow> ident \<Rightarrow> (TaskGraph, unit, GraphError) op" where
  "insert_task_between new_task upstream_id downstream_id g =
    (if \<not> contains_task upstream_id g then (g, Err (TaskNotFound upstream_id))
     else if \<not> contains_task downstream_id g then (g, Err (TaskNotFound downstream_id))
     else
       let g1 = add_task new_task g;
           g2 = fst (remove_dependency downstream_id upstream_id g1)
       in st_then (add_dependency (t_id new_task) upstream_id)
            (\<lambda>_. st_then (add_dependency downstream_id (t_id new_task)) (\<lambda>_. check_acyclic)) g2)"

definition replace_task_with_children ::
  "ident \<Rightarrow> Task list \<Rightarrow> (ident \<times> ident) list \<Rightarrow> ident list \<Rightarrow> (TaskGraph, unit, GraphError) op" where
  "replace_task_with_children parent_id children child_dependencies terminal_child_ids =
    st_then (decompose_task parent_id children child_dependencies terminal_child_ids)
      (\<lambda>_. st_then (remove_task parent_id) (\<lambda>_ g. (g, Ok ())))"

definition reassign_ownership :: "ident \<Rightarrow> ident option \<Rightarrow> (TaskGraph, unit, GraphError) op" where
  "reassign_ownership task_id new_agent_id g =
    (case map_of (g_tasks g) task_id of
       None \<Rightarrow> (g, Err (TaskNotFound task_id))
     | Some task \<Rightarrow>
         (g\<lparr>g_tasks := AList.update task_id (task\<lparr>t_assigned_agent_id := new_agent_id\<rparr>) (g_tasks g)\<rparr>, Ok ()))"

end
