(* ===== verification/Graph_Kahn.thy ===== *)
theory Graph_Kahn
  imports Task_Graph
begin

text \<open>Correctness of Kahn's algorithm on the task graph: the loop invariant, the
absence of an in-degree underflow, validate\_acyclic as a decision procedure for
acyclicity of the dependency relation, and topological\_sort as a total order of the
tasks that respects it.\<close>

section \<open>The dependency relation and well-formed graphs\<close>

definition edges :: "TaskGraph \<Rightarrow> (ident \<times> ident) set" where
  "edges g = {(i, j). j \<in> set (direct_dependencies i g)}"

definition graph_wf :: "TaskGraph \<Rightarrow> bool" where
  "graph_wf g =
    (distinct (task_ids g) \<and>
     (\<forall>(i, t) \<in> set (g_tasks g). t_id t = i) \<and>
     dom (g_dependencies g) = set (task_ids g) \<and>
     dom (g_dependents g) = set (task_ids g) \<and>
     (\<forall>i. distinct (direct_dependencies i g)) \<and>
     (\<forall>i. distinct (direct_dependents i g)) \<and>
     (\<forall>i j. j \<in> set (direct_dependencies i g) \<longrightarrow> j \<in> set (task_ids g)) \<and>
     (\<forall>i j. i \<in> set (direct_dependents j g) \<longleftrightarrow> j \<in> set (direct_dependencies i g)))"

definition graph_inv :: "TaskGraph \<Rightarrow> bool" where
  "graph_inv g = (graph_wf g \<and> acyclic (edges g))"

lemma graph_wfD:
  assumes "graph_wf g"
  shows "distinct (task_ids g)"
    and "dom (g_dependencies g) = set (task_ids g)"
    and "dom (g_dependents g) = set (task_ids g)"
    and "distinct (direct_dependencies i g)"
    and "distinct (direct_dependents i g)"
    and "i \<in> set (direct_dependents j g) \<longleftrightarrow> j \<in> set (direct_dependencies i g)"
  using assms by (simp_all add: graph_wf_def)

lemma graph_wf_closed:
  assumes "graph_wf g" "j \<in> set (direct_dependencies i g)"
  shows "i \<in> set (task_ids g)" "j \<in> set (task_ids g)"
proof -
  show "j \<in> set (task_ids g)" using assms by (auto simp: graph_wf_def)
  have "i \<in> dom (g_dependencies g)"
    using assms(2) by (cases "g_dependencies g i") (auto simp: direct_dependencies_def)
  then show "i \<in> set (task_ids g)" using graph_wfD(2) [OF assms(1)] by simp
qed

lemma edges_subset: "graph_wf g \<Longrightarrow> edges g \<subseteq> set (task_ids g) \<times> set (task_ids g)"
  by (auto simp: edges_def graph_wf_closed)

lemma finite_edges: "graph_wf g \<Longrightarrow> finite (edges g)"
  using edges_subset finite_subset by fastforce

lemma contains_task_iff: "contains_task i g \<longleftrightarrow> i \<in> set (task_ids g)"
  by (auto simp: contains_task_def task_ids_def map_of_eq_None_iff)

section \<open>The inner loop\<close>

lemma relax_spec:
  assumes "distinct ns" "\<forall>n \<in> set ns. \<exists>d. map_of deg n = Some (Suc d)"
  shows "\<exists>deg'. relax ns deg queue = Some (deg', queue @ filter (\<lambda>n. map_of deg n = Some (Suc 0)) ns) \<and>
    map fst deg' = map fst deg \<and>
    (\<forall>k. map_of deg' k = (if k \<in> set ns then map_option (\<lambda>d. d - 1) (map_of deg k) else map_of deg k))"
  using assms
proof (induction ns arbitrary: deg queue)
  case (Cons n ns)
  obtain d where d: "map_of deg n = Some (Suc d)" using Cons.prems by auto
  let ?deg = "AList.update n d deg" and ?q = "if d = 0 then queue @ [n] else queue"
  have same: "map_of ?deg k = map_of deg k" if "k \<in> set ns" for k
    using Cons.prems(1) that by (auto simp: update_conv)
  have "n \<in> fst ` set deg" using d by (auto simp: image_iff dest!: map_of_SomeD intro!: bexI)
  then have keys: "map fst ?deg = map fst deg" by (simp add: update_keys)
  obtain deg' where deg': "relax ns ?deg ?q = Some (deg', ?q @ filter (\<lambda>n. map_of ?deg n = Some (Suc 0)) ns)"
    "map fst deg' = map fst ?deg"
    "\<forall>k. map_of deg' k = (if k \<in> set ns then map_option (\<lambda>d. d - 1) (map_of ?deg k) else map_of ?deg k)"
    using Cons.IH [of ?deg ?q] Cons.prems same by auto
  have "filter (\<lambda>n. map_of ?deg n = Some (Suc 0)) ns = filter (\<lambda>n. map_of deg n = Some (Suc 0)) ns"
    using same by (intro filter_cong) auto
  then have "relax (n # ns) deg queue =
      Some (deg', queue @ filter (\<lambda>n. map_of deg n = Some (Suc 0)) (n # ns))"
    using d deg'(1) by auto
  moreover have "map_of deg' k = (if k \<in> set (n # ns) then map_option (\<lambda>d. d - 1) (map_of deg k)
      else map_of deg k)" for k
    using deg'(3) d Cons.prems(1) by (auto simp: update_conv)
  ultimately show ?case using deg'(2) keys by auto
qed simp

section \<open>The loop invariant\<close>

definition pending :: "TaskGraph \<Rightarrow> ident list \<Rightarrow> ident \<Rightarrow> ident list" where
  "pending g done i = filter (\<lambda>j. j \<notin> set done) (direct_dependencies i g)"

definition kahn_inv :: "TaskGraph \<Rightarrow> (ident \<times> nat) list \<Rightarrow> ident list \<Rightarrow> ident list \<Rightarrow> bool" where
  "kahn_inv g deg queue order =
    (map fst deg = task_ids g \<and>
     distinct (order @ queue) \<and> set (order @ queue) \<subseteq> set (task_ids g) \<and>
     (\<forall>i \<in> set (task_ids g). map_of deg i = Some (length (pending g order i))) \<and>
     (\<forall>i \<in> set (task_ids g). i \<in> set (order @ queue) \<longleftrightarrow> pending g order i = []) \<and>
     (\<forall>k < length order. set (direct_dependencies (order ! k) g) \<subseteq> set (take k order)))"

lemma pending_snoc:
  assumes "graph_wf g" "n \<notin> set order"
  shows "length (pending g (order @ [n]) i) =
    (if n \<in> set (direct_dependencies i g) then length (pending g order i) - 1 else length (pending g order i))"
proof -
  have "pending g (order @ [n]) i = filter (\<lambda>j. j \<noteq> n) (pending g order i)"
    by (simp add: pending_def conj_commute)
  moreover have "distinct (pending g order i)"
    using graph_wfD(4) [OF assms(1)] by (simp add: pending_def)
  moreover have "n \<in> set (pending g order i) \<longleftrightarrow> n \<in> set (direct_dependencies i g)"
    using assms(2) by (auto simp: pending_def)
  moreover have "filter (\<lambda>j. j \<noteq> n) xs = removeAll n xs" for xs
    by (auto simp: removeAll_filter_not_eq intro: filter_cong)
  ultimately show ?thesis
    by (simp add: distinct_remove1_removeAll [symmetric] length_remove1)
qed

lemma pending_deps: "n \<in> set (direct_dependencies i g) \<Longrightarrow> n \<notin> set order \<Longrightarrow> pending g order i \<noteq> []"
  by (auto simp: pending_def filter_empty_conv)

lemma kahn_inv_init:
  assumes "graph_wf g"
  shows "kahn_inv g (in_degrees g) (initial_queue g) []"
proof -
  have keys: "map fst (in_degrees g) = task_ids g" by (simp add: in_degrees_def o_def)
  have lookup: "map_of (in_degrees g) i = Some (length (direct_dependencies i g))"
    if "i \<in> set (task_ids g)" for i
    using that by (simp add: in_degrees_def map_of_map_restrict restrict_map_def)
  have queue: "initial_queue g = filter (\<lambda>i. direct_dependencies i g = []) (task_ids g)"
    by (simp add: initial_queue_def in_degrees_def filter_map o_def)
  show ?thesis
    using graph_wfD(1) [OF assms] keys lookup by (auto simp: kahn_inv_def queue pending_def)
qed

text \<open>Popping one node: the decremented in-degrees are those of its dependents, and
exactly the dependents with no other pending dependency are enqueued.\<close>

lemma kahn_inv_step:
  assumes wf: "graph_wf g" and inv: "kahn_inv g deg (n # queue) order"
  shows "\<exists>deg' queue'. relax (direct_dependents n g) deg queue = Some (deg', queue') \<and>
    kahn_inv g deg' queue' (order @ [n])"
proof -
  let ?ns = "direct_dependents n g" and ?ids = "set (task_ids g)"
  have n: "n \<notin> set order" "n \<notin> set queue" "n \<in> ?ids" "pending g order n = []"
    using inv by (auto simp: kahn_inv_def)
  have deg: "map_of deg i = Some (length (pending g order i))" if "i \<in> ?ids" for i
    using inv that by (simp add: kahn_inv_def)
  have down: "i \<in> set ?ns \<longleftrightarrow> n \<in> set (direct_dependencies i g)" for i
    by (rule graph_wfD(6) [OF wf])
  have ids: "i \<in> ?ids" if "i \<in> set ?ns" for i
    using that down graph_wf_closed [OF wf] by blast
  have "\<forall>i \<in> set ?ns. \<exists>d. map_of deg i = Some (Suc d)"
    using deg ids down pending_deps [OF _ n(1)] by (metis length_0_conv not0_implies_Suc)
  from relax_spec [OF graph_wfD(5) [OF wf] this, of queue]
  obtain deg' where r: "relax ?ns deg queue = Some (deg', queue @ filter (\<lambda>i. map_of deg i = Some (Suc 0)) ?ns)"
    and keys: "map fst deg' = map fst deg"
    and deg': "\<And>k. map_of deg' k = (if k \<in> set ?ns then map_option (\<lambda>d. d - 1) (map_of deg k) else map_of deg k)"
    by blast
  let ?q = "queue @ filter (\<lambda>i. map_of deg i = Some (Suc 0)) ?ns"
  have pend: "length (pending g (order @ [n]) i) =
      (if i \<in> set ?ns then length (pending g order i) - 1 else length (pending g order i))" for i
    using pending_snoc [OF wf n(1)] down by simp
  have before: "i \<in> set (order @ n # queue) \<longleftrightarrow> pending g order i = []" if "i \<in> ?ids" for i
    using inv that by (simp add: kahn_inv_def)
  have new: "i \<notin> set (order @ n # queue) \<and> pending g order i \<noteq> []" if "i \<in> set ?ns" for i
    using before ids [OF that] down that pending_deps n(1) by blast
  have members: "i \<in> set (order @ [n] @ ?q) \<longleftrightarrow> pending g (order @ [n]) i = []" if i: "i \<in> ?ids" for i
  proof (cases "i \<in> set ?ns")
    case True
    have "i \<in> set (order @ [n] @ ?q) \<longleftrightarrow> length (pending g order i) = Suc 0"
      using True new [OF True] deg [OF i] by auto
    moreover have "length (pending g order i) = Suc 0 \<longleftrightarrow> length (pending g (order @ [n]) i) = 0"
      using pend [of i] True new [OF True] by (cases "pending g order i") auto
    ultimately show ?thesis by (metis length_0_conv)
  next
    case False
    then have "length (pending g (order @ [n]) i) = length (pending g order i)" using pend by simp
    then have "pending g (order @ [n]) i = [] \<longleftrightarrow> pending g order i = []" by (metis length_0_conv)
    then show ?thesis using before [OF i] False by auto
  qed
  have "set (direct_dependencies ((order @ [n]) ! k) g) \<subseteq> set (take k (order @ [n]))"
    if "k < Suc (length order)" for k
    using inv n(4) that
    by (auto simp: kahn_inv_def nth_append less_Suc_eq pending_def filter_empty_conv split: if_splits)
  moreover have "distinct ((order @ [n]) @ ?q)"
  proof -
    have "set ?ns \<inter> set (order @ n # queue) = {}" using new by blast
    then show ?thesis using inv n graph_wfD(5) [OF wf, of n] by (auto simp: kahn_inv_def)
  qed
  moreover have "set ((order @ [n]) @ ?q) \<subseteq> set (task_ids g)"
    using inv ids n(3) by (auto simp: kahn_inv_def)
  moreover have "\<forall>i \<in> ?ids. map_of deg' i = Some (length (pending g (order @ [n]) i))"
    using deg deg' pend by simp
  moreover have "map fst deg' = task_ids g" using inv keys by (simp add: kahn_inv_def)
  ultimately have "kahn_inv g deg' ?q (order @ [n])"
    using members by (simp add: kahn_inv_def)
  then show ?thesis using r by blast
qed

lemma kahn_terminates_inv:
  assumes wf: "graph_wf g"
  shows "kahn_inv g deg queue order \<Longrightarrow>
    \<exists>deg' order'. kahn (g_dependents g) deg queue order = Some (deg', order') \<and> kahn_inv g deg' [] order'"
proof (induction "g_dependents g" deg queue order rule: kahn.induct)
  case (1 deg order)
  then show ?case by simp
next
  case (2 deg node queue order)
  then have "node \<in> dom (g_dependents g)"
    using graph_wfD(3) [OF wf] by (auto simp: kahn_inv_def)
  then obtain ns where ns: "g_dependents g node = Some ns" by auto
  then have "direct_dependents node g = ns" by (simp add: direct_dependents_def)
  then obtain deg' queue' where "relax ns deg queue = Some (deg', queue')"
    "kahn_inv g deg' queue' (order @ [node])"
    using kahn_inv_step [OF wf 2(2)] by auto
  then show ?case using 2(1) ns by simp
qed

section \<open>Acyclicity and topological order\<close>

definition respects_deps :: "TaskGraph \<Rightarrow> ident list \<Rightarrow> bool" where
  "respects_deps g order =
    (\<forall>k < length order. set (direct_dependencies (order ! k) g) \<subseteq> set (take k order))"

lemma acyclic_if_ordered:
  assumes wf: "graph_wf g" and order: "respects_deps g order" "set (task_ids g) \<subseteq> set order"
    and dist: "distinct order"
  shows "acyclic (edges g)"
proof -
  let ?pos = "\<lambda>i. THE k. k < length order \<and> order ! k = i"
  have pos: "?pos (order ! k) = k" if "k < length order" for k
    using that dist by (auto intro!: the_equality simp: nth_eq_iff_index_eq)
  have "?pos j < ?pos i" if "(i, j) \<in> edges g" for i j
  proof -
    have "i \<in> set order" using that wf order(2) graph_wf_closed by (auto simp: edges_def)
    then obtain k where k: "k < length order" "order ! k = i" by (auto simp: in_set_conv_nth)
    then have "j \<in> set (take k order)"
      using that order(1) by (auto simp: edges_def respects_deps_def)
    then obtain m where m: "m < k" "order ! m = j" by (auto simp: in_set_conv_nth)
    show ?thesis using pos [of k] pos [of m] k m by simp
  qed
  then have "(edges g)\<inverse> \<subseteq> measure ?pos" by auto
  then have "wf ((edges g)\<inverse>)" using wf_subset wf_measure by blast
  then show ?thesis using wf_acyclic acyclic_converse by blast
qed

lemma kahn_complete:
  assumes wf: "graph_wf g" and ac: "acyclic (edges g)" and inv: "kahn_inv g deg [] order"
  shows "set (task_ids g) \<subseteq> set order"
proof (rule ccontr)
  assume "\<not> set (task_ids g) \<subseteq> set order"
  then obtain i where i: "i \<in> set (task_ids g) - set order" by auto
  have "wf ((edges g)\<inverse>)"
    using finite_acyclic_wf_converse [OF finite_edges [OF wf] ac] .
  from wfE_min [OF this i] obtain z where z: "z \<in> set (task_ids g) - set order"
    "\<And>y. (z, y) \<in> edges g \<Longrightarrow> y \<notin> set (task_ids g) - set order"
    by (metis converse_iff)
  then have "set (direct_dependencies z g) \<subseteq> set order"
    using graph_wf_closed(2) [OF wf] by (auto simp: edges_def)
  then have "pending g order z = []" by (auto simp: pending_def filter_empty_conv)
  then show False using inv z(1) by (auto simp: kahn_inv_def)
qed

text \<open>The outcome of the whole run, from which both callers are read off.\<close>

lemma kahn_result:
  assumes wf: "graph_wf g"
  obtains deg order where
    "kahn (g_dependents g) (in_degrees g) (initial_queue g) [] = Some (deg, order)"
    "distinct order" "set order \<subseteq> set (task_ids g)" "respects_deps g order"
    "length order = task_count g \<longleftrightarrow> acyclic (edges g)"
    "length order = task_count g \<longleftrightarrow> set order = set (task_ids g)"
    "\<And>i. i \<in> set (task_ids g) \<Longrightarrow> map_of deg i = Some (length (pending g order i))"
    "map fst deg = task_ids g"
    "\<And>i. i \<in> set (task_ids g) \<Longrightarrow> i \<in> set order \<longleftrightarrow> pending g order i = []"
proof -
  obtain deg order where r:
    "kahn (g_dependents g) (in_degrees g) (initial_queue g) [] = Some (deg, order)"
    and inv: "kahn_inv g deg [] order"
    using kahn_terminates_inv [OF wf kahn_inv_init [OF wf]] by blast
  have o: "distinct order" "set order \<subseteq> set (task_ids g)" "respects_deps g order"
    using inv by (auto simp: kahn_inv_def respects_deps_def)
  have "length order = card (set order)" "task_count g = card (set (task_ids g))"
    using o(1) graph_wfD(1) [OF wf] distinct_card [of "task_ids g"]
    by (simp_all add: distinct_card task_count_def task_ids_def)
  then have len: "length order = task_count g \<longleftrightarrow> set order = set (task_ids g)"
    using o(2) by (metis List.finite_set card_subset_eq)
  moreover have "set order = set (task_ids g) \<longleftrightarrow> acyclic (edges g)"
    using kahn_complete [OF wf _ inv] acyclic_if_ordered [OF wf o(3) _ o(1)] o(2) by blast
  ultimately show thesis
    using that [OF r o] inv by (simp add: kahn_inv_def)
qed

lemma validate_acyclic_iff:
  assumes wf: "graph_wf g"
  shows "validate_acyclic g = Ok () \<longleftrightarrow> acyclic (edges g)"
proof (rule kahn_result [OF wf])
  fix deg order
  assume r: "kahn (g_dependents g) (in_degrees g) (initial_queue g) [] = Some (deg, order)"
    and ac: "length order = task_count g \<longleftrightarrow> acyclic (edges g)"
    and len: "length order = task_count g \<longleftrightarrow> set order = set (task_ids g)"
    and sub: "set order \<subseteq> set (task_ids g)"
    and deg: "\<And>i. i \<in> set (task_ids g) \<Longrightarrow> map_of deg i = Some (length (pending g order i))"
    and mem: "\<And>i. i \<in> set (task_ids g) \<Longrightarrow> i \<in> set order \<longleftrightarrow> pending g order i = []"
  show ?thesis
  proof (cases "length order = task_count g")
    case False
    then obtain i where i: "i \<in> set (task_ids g)" "i \<notin> set order" using len sub by blast
    then have "(i, length (pending g order i)) \<in> set deg" "pending g order i \<noteq> []"
      using map_of_SomeD [OF deg [OF i(1)]] mem [OF i(1)] by blast+
    then have "List.find (\<lambda>(_, d). 0 < d) deg \<noteq> None"
      by (auto simp: find_None_iff)
    then show ?thesis using False ac r by (auto simp: validate_acyclic_def)
  qed (use ac r in \<open>simp add: validate_acyclic_def\<close>)
qed

lemma validate_acyclic_no_overflow:
  assumes "graph_wf g"
  shows "validate_acyclic g \<noteq> Err SubtractOverflow"
  by (rule kahn_result [OF assms]) (auto simp: validate_acyclic_def split: option.splits)

lemma topological_sort_Ok:
  assumes wf: "graph_wf g"
  shows "acyclic (edges g) \<longleftrightarrow> (\<exists>order. topological_sort d g = Ok order)"
    and "topological_sort d g = Ok order \<Longrightarrow>
      distinct order \<and> set order = set (task_ids g) \<and> respects_deps g order"
  by (rule kahn_result [OF wf]; simp add: topological_sort_def split: if_splits)+

text \<open>The task a failed validation names is upstream-bound to a cycle: following
dependencies from it leads to one.\<close>

lemma unresolved_reaches_cycle:
  assumes wf: "graph_wf g" and U: "\<And>i. i \<in> U \<Longrightarrow> \<exists>j \<in> U. (i, j) \<in> edges g" and i: "i \<in> U"
  shows "\<exists>j. (i, j) \<in> (edges g)\<^sup>* \<and> (j, j) \<in> (edges g)\<^sup>+"
proof -
  define S where "S = {j \<in> U. (i, j) \<in> (edges g)\<^sup>*}"
  let ?r = "edges g \<inter> S \<times> S"
  have step: "\<exists>k \<in> S. (j, k) \<in> edges g" if "j \<in> S" for j
    using that U unfolding S_def by (blast intro: rtrancl_into_rtrancl)
  have "\<not> acyclic ?r"
  proof
    assume "acyclic ?r"
    then have w: "wf (?r\<inverse>)"
      using finite_acyclic_wf_converse finite_edges [OF wf] by blast
    have "i \<in> S" using i by (simp add: S_def)
    from wfE_min [OF w this] obtain z where z: "z \<in> S" "\<And>y. (y, z) \<in> ?r\<inverse> \<Longrightarrow> y \<notin> S" by blast
    then show False using step [OF z(1)] by blast
  qed
  then obtain j where j: "(j, j) \<in> ?r\<^sup>+" by (auto simp: acyclic_def)
  then have "j \<in> S" by (meson IntE SigmaE2 tranclE)
  moreover have "(j, j) \<in> (edges g)\<^sup>+" using j by (rule trancl_mono) auto
  ultimately show ?thesis by (auto simp: S_def)
qed

lemma validate_acyclic_Err:
  assumes wf: "graph_wf g" and err: "validate_acyclic g = Err e"
  shows "\<exists>i j. e = CycleDetected i \<and> i \<in> set (task_ids g) \<and> (i, j) \<in> (edges g)\<^sup>* \<and> (j, j) \<in> (edges g)\<^sup>+"
proof (rule kahn_result [OF wf])
  fix deg order
  assume r: "kahn (g_dependents g) (in_degrees g) (initial_queue g) [] = Some (deg, order)"
    and keys: "map fst deg = task_ids g"
    and deg: "\<And>i. i \<in> set (task_ids g) \<Longrightarrow> map_of deg i = Some (length (pending g order i))"
    and mem: "\<And>i. i \<in> set (task_ids g) \<Longrightarrow> i \<in> set order \<longleftrightarrow> pending g order i = []"
  let ?U = "set (task_ids g) - set order"
  obtain i d where f: "List.find (\<lambda>(_, d). 0 < d) deg = Some (i, d)" and e: "e = CycleDetected i"
    using err r by (auto simp: validate_acyclic_def split: if_splits option.splits)
  then have id: "(i, d) \<in> set deg" "0 < d" by (auto simp: find_Some_iff) (metis nth_mem)
  have "distinct (map fst deg)" using keys graph_wfD(1) [OF wf] by simp
  then have look: "map_of deg i = Some d" using id(1) by simp
  have "i \<in> set (map fst deg)" using id(1) by force
  then have i: "i \<in> set (task_ids g)" "map_of deg i = Some d" unfolding keys using look by simp_all
  have "\<exists>k \<in> ?U. (j, k) \<in> edges g" if j: "j \<in> ?U" for j
  proof -
    have "pending g order j \<noteq> []" using j mem by blast
    then show ?thesis using graph_wf_closed [OF wf] by (auto simp: pending_def filter_empty_conv edges_def)
  qed
  moreover have "i \<in> ?U" using i deg mem id(2) by auto
  ultimately show ?thesis using unresolved_reaches_cycle [OF wf, of ?U i] e i by blast
qed

end
