(* ===== verification/Graph_Invariant.thy ===== *)
theory Graph_Invariant
  imports Graph_Kahn
begin

text \<open>Every operation of the task graph, on every branch, keeps the graph
well-formed and acyclic; the effect of each operation on the dependency relation;
reachable graphs; the runnable tasks.\<close>

section \<open>The edge maps\<close>

lemma deps_entry_or_default [simp]:
  "direct_dependencies i (g\<lparr>g_tasks := ts, g_dependencies := entry_or_default k (g_dependencies g),
      g_dependents := es\<rparr>) = direct_dependencies i g"
  "direct_dependents i (g\<lparr>g_tasks := ts, g_dependencies := ds,
      g_dependents := entry_or_default k (g_dependents g)\<rparr>) = direct_dependents i g"
  by (auto simp: direct_dependencies_def direct_dependents_def entry_or_default_def split: option.splits)

lemma dom_entry_or_default [simp]: "dom (entry_or_default k m) = insert k (dom m)"
  by (auto simp: entry_or_default_def split: option.splits)

lemma dom_entry_insert [simp]: "dom (entry_insert k v m) = insert k (dom m)"
  by (auto simp: entry_insert_def)

lemma dom_get_mut_remove [simp]: "dom (get_mut_remove k v m) = dom m"
  by (auto simp: get_mut_remove_def split: option.splits)

definition add_edge :: "ident \<Rightarrow> ident \<Rightarrow> TaskGraph \<Rightarrow> TaskGraph" where
  "add_edge i j g = g\<lparr>g_dependencies := entry_insert i j (g_dependencies g),
     g_dependents := entry_insert j i (g_dependents g)\<rparr>"

definition drop_edge :: "ident \<Rightarrow> ident \<Rightarrow> TaskGraph \<Rightarrow> TaskGraph" where
  "drop_edge i j g = g\<lparr>g_dependencies := get_mut_remove i j (g_dependencies g),
     g_dependents := get_mut_remove j i (g_dependents g)\<rparr>"

lemma deps_add_edge:
  "direct_dependencies k (add_edge i j g) =
     (if k = i then List.insert j (direct_dependencies i g) else direct_dependencies k g)"
  "direct_dependents k (add_edge i j g) =
     (if k = j then List.insert i (direct_dependents j g) else direct_dependents k g)"
  by (auto simp: direct_dependencies_def direct_dependents_def add_edge_def entry_insert_def)

lemma deps_drop_edge:
  "direct_dependencies k (drop_edge i j g) =
     (if k = i then removeAll j (direct_dependencies i g) else direct_dependencies k g)"
  "direct_dependents k (drop_edge i j g) =
     (if k = j then removeAll i (direct_dependents j g) else direct_dependents k g)"
  by (auto simp: direct_dependencies_def direct_dependents_def drop_edge_def get_mut_remove_def
      split: option.splits)

lemma tasks_edge [simp]:
  "g_tasks (add_edge i j g) = g_tasks g" "g_tasks (drop_edge i j g) = g_tasks g"
  "task_ids (add_edge i j g) = task_ids g" "task_ids (drop_edge i j g) = task_ids g"
  by (simp_all add: add_edge_def drop_edge_def task_ids_def)

lemma edges_add_edge: "edges (add_edge i j g) = insert (i, j) (edges g)"
  by (auto simp: edges_def deps_add_edge split: if_splits)

lemma edges_drop_edge: "edges (drop_edge i j g) = edges g - {(i, j)}"
  by (auto simp: edges_def deps_drop_edge split: if_splits)

lemma graph_wf_add_edge:
  assumes "graph_wf g" "i \<in> set (task_ids g)" "j \<in> set (task_ids g)"
  shows "graph_wf (add_edge i j g)"
proof -
  have "dom (g_dependencies (add_edge i j g)) = set (task_ids g)"
    "dom (g_dependents (add_edge i j g)) = set (task_ids g)"
    using assms graph_wfD(2,3) [OF assms(1)] by (auto simp: add_edge_def)
  then show ?thesis
    using assms by (auto simp: graph_wf_def deps_add_edge)
qed

lemma graph_wf_drop_edge:
  assumes "graph_wf g"
  shows "graph_wf (drop_edge i j g)"
proof -
  have "dom (g_dependencies (drop_edge i j g)) = set (task_ids g)"
    "dom (g_dependents (drop_edge i j g)) = set (task_ids g)"
    using graph_wfD(2,3) [OF assms] by (auto simp: drop_edge_def)
  then show ?thesis
    using assms by (auto simp: graph_wf_def deps_drop_edge distinct_removeAll split: if_splits)
qed

text \<open>The revert on a detected cycle restores the graph.\<close>

lemma revert_edge:
  assumes wf: "graph_wf g" and ij: "i \<in> set (task_ids g)" "j \<in> set (task_ids g)" "(i, j) \<notin> edges g"
  shows "(add_edge i j g)\<lparr>g_dependencies := entry_remove i j (g_dependencies (add_edge i j g)),
    g_dependents := entry_remove j i (g_dependents (add_edge i j g))\<rparr> = g"
proof -
  obtain xs ys where xs: "g_dependencies g i = Some xs" and ys: "g_dependents g j = Some ys"
    using ij graph_wfD(2,3) [OF wf] by blast
  have "j \<notin> set xs" "i \<notin> set ys"
    using ij(3) xs ys graph_wfD(6) [OF wf, of i j]
    by (auto simp: edges_def direct_dependencies_def direct_dependents_def)
  then have "entry_remove i j (entry_insert i j (g_dependencies g)) = g_dependencies g"
    "entry_remove j i (entry_insert j i (g_dependents g)) = g_dependents g"
    using xs ys by (auto simp: entry_remove_def entry_insert_def fun_upd_idem)
  then show ?thesis by (simp add: add_edge_def)
qed

section \<open>Adding and removing dependencies\<close>

lemma add_dependency_cases:
  assumes inv: "graph_inv g"
  shows "(\<exists>e. add_dependency i j g = (g, Err e) \<and>
       (i = j \<or> i \<notin> set (task_ids g) \<or> j \<notin> set (task_ids g) \<or> (j, i) \<in> (edges g)\<^sup>*)) \<or>
     (add_dependency i j g = (add_edge i j g, Ok ()) \<and>
       i \<noteq> j \<and> i \<in> set (task_ids g) \<and> j \<in> set (task_ids g) \<and> (j, i) \<notin> (edges g)\<^sup>* \<and>
       graph_inv (add_edge i j g))"
proof (cases "i \<noteq> j \<and> i \<in> set (task_ids g) \<and> j \<in> set (task_ids g)")
  case False
  then show ?thesis by (auto simp: add_dependency_def contains_task_iff)
next
  case True
  have wf: "graph_wf g" and ac: "acyclic (edges g)" using inv by (auto simp: graph_inv_def)
  have wf1: "graph_wf (add_edge i j g)" using graph_wf_add_edge wf True by blast
  have ok: "validate_acyclic (add_edge i j g) = Ok () \<longleftrightarrow> (j, i) \<notin> (edges g)\<^sup>*"
    using validate_acyclic_iff [OF wf1] ac by (simp add: edges_add_edge acyclic_insert)
  have step: "add_dependency i j g = (case validate_acyclic (add_edge i j g) of
      Err e \<Rightarrow> ((add_edge i j g)\<lparr>g_dependencies := entry_remove i j (g_dependencies (add_edge i j g)),
        g_dependents := entry_remove j i (g_dependents (add_edge i j g))\<rparr>, Err e)
    | Ok _ \<Rightarrow> (add_edge i j g, Ok ()))"
    using True by (simp add: add_dependency_def contains_task_iff Let_def add_edge_def split: result.split)
  show ?thesis
  proof (cases "validate_acyclic (add_edge i j g)")
    case (Ok u)
    then show ?thesis
      using step True ok wf1 ac by (simp add: graph_inv_def edges_add_edge acyclic_insert)
  next
    case (Err e)
    then have cyc: "(j, i) \<in> (edges g)\<^sup>*" using ok by simp
    then have "(i, j) \<notin> edges g"
      using ac True by (metis acyclic_insert insert_absorb)
    then show ?thesis using step Err True cyc revert_edge [OF wf] by auto
  qed
qed

lemma add_dependency_inv: "keeps graph_inv (add_dependency i j)"
proof (rule keepsI)
  fix g assume "graph_inv g"
  then show "graph_inv (fst (add_dependency i j g))" using add_dependency_cases [of g i j] by auto
qed

lemma add_dependency_edges:
  "graph_inv g \<Longrightarrow> add_dependency i j g = (g', Ok ()) \<Longrightarrow>
     edges g' = insert (i, j) (edges g) \<and> task_ids g' = task_ids g \<and> g_tasks g' = g_tasks g \<and>
     graph_inv g' \<and> i \<in> set (task_ids g) \<and> j \<in> set (task_ids g)"
  using add_dependency_cases [of g i j] by (auto simp: edges_add_edge)

lemma remove_dependency_eq:
  "remove_dependency i j g =
     (if i \<notin> set (task_ids g) then (g, Err (TaskNotFound i))
      else if j \<notin> set (task_ids g) then (g, Err (TaskNotFound j))
      else (drop_edge i j g, Ok ()))"
  by (simp add: remove_dependency_def contains_task_iff drop_edge_def)

lemma graph_inv_drop_edge: "graph_inv g \<Longrightarrow> graph_inv (drop_edge i j g)"
  by (auto simp: graph_inv_def graph_wf_drop_edge edges_drop_edge intro: acyclic_subset)

lemma remove_dependency_inv: "keeps graph_inv (remove_dependency i j)"
  by (rule keepsI) (simp add: remove_dependency_eq graph_inv_drop_edge)

section \<open>Adding and removing tasks\<close>

lemma task_ids_add_task:
  "set (task_ids (add_task t g)) = insert (t_id t) (set (task_ids g))"
  "distinct (task_ids g) \<Longrightarrow> distinct (task_ids (add_task t g))"
  by (auto simp: task_ids_def add_task_def dom_update [unfolded dom_def] distinct_update
      update_keys)

lemma edges_add_task [simp]: "edges (add_task t g) = edges g"
  by (simp add: edges_def add_task_def)

lemma deps_add_task [simp]:
  "direct_dependencies i (add_task t g) = direct_dependencies i g"
  "direct_dependents i (add_task t g) = direct_dependents i g"
  by (simp_all add: add_task_def)

lemma set_AList_update:
  "distinct (map fst xs) \<Longrightarrow> set (AList.update k v xs) = insert (k, v) {p \<in> set xs. fst p \<noteq> k}"
  by (induction xs) (auto simp: image_iff)

lemma graph_wf_add_task:
  assumes "graph_wf g"
  shows "graph_wf (add_task t g)"
proof -
  have d: "distinct (task_ids g)" using assms by (simp add: graph_wf_def)
  have "\<forall>(i, s) \<in> set (g_tasks (add_task t g)). t_id s = i"
    using assms d set_AList_update [of "g_tasks g" "t_id t" t]
    by (auto simp: graph_wf_def task_ids_def add_task_def)
  moreover have "dom (g_dependencies (add_task t g)) = set (task_ids (add_task t g))"
    "dom (g_dependents (add_task t g)) = set (task_ids (add_task t g))"
    using graph_wfD(2,3) [OF assms] by (simp_all add: task_ids_add_task) (simp_all add: add_task_def)
  ultimately show ?thesis
    using assms task_ids_add_task(2) [OF d] by (auto simp: graph_wf_def task_ids_add_task)
qed

lemma add_task_inv: "graph_inv g \<Longrightarrow> graph_inv (add_task t g)"
  by (simp add: graph_inv_def graph_wf_add_task)

lemma fold_get_mut_remove:
  "fold (\<lambda>dep m. get_mut_remove dep v m) deps m k =
     (if k \<in> set deps then map_option (removeAll v) (m k) else m k)"
  by (induction deps arbitrary: m)
    (auto simp: get_mut_remove_def split: option.splits)

lemma remove_task_refused:
  "direct_dependents i g \<noteq> [] \<Longrightarrow> fst (remove_task i g) = g \<and> is_err (snd (remove_task i g))"
  by (simp add: remove_task_def)

lemma remove_task_effect:
  assumes wf: "graph_wf g" and none: "direct_dependents i g = []"
  shows "\<exists>g'. remove_task i g = (g', Ok (get_task i g)) \<and> graph_wf g' \<and>
    set (task_ids g') = set (task_ids g) - {i} \<and> edges g' = {(a, b). (a, b) \<in> edges g \<and> a \<noteq> i}"
proof -
  let ?deps = "direct_dependencies i g"
  define R where "R = (fold (\<lambda>dep m. get_mut_remove dep i m) ?deps (g_dependents g))(i := None)"
  define g' where "g' = g\<lparr>g_tasks := AList.delete i (g_tasks g),
    g_dependencies := (g_dependencies g)(i := None), g_dependents := R\<rparr>"
  have op: "remove_task i g = (g', Ok (get_task i g))"
    using none by (auto simp: remove_task_def g'_def R_def direct_dependencies_def get_task_def
        Let_def split: option.splits)
  have deps: "direct_dependencies k g' = (if k = i then [] else direct_dependencies k g)" for k
    by (simp add: direct_dependencies_def g'_def)
  have rdeps: "direct_dependents k g' = (if k = i then [] else if k \<in> set ?deps
      then removeAll i (direct_dependents k g) else direct_dependents k g)" for k
    by (auto simp: direct_dependents_def g'_def R_def fold_get_mut_remove split: option.splits)
  have ids: "task_ids g' = removeAll i (task_ids g)"
    by (simp add: task_ids_def g'_def AList.delete_keys)
  have "i \<notin> set (direct_dependencies k g)" for k
    using none graph_wfD(6) [OF wf, of k i] by simp
  moreover have "dom (g_dependents g') = dom (g_dependents g) - {i}"
    by (auto simp: g'_def R_def fold_get_mut_remove split: if_splits)
  moreover have "dom (g_dependencies g') = dom (g_dependencies g) - {i}"
    by (auto simp: g'_def)
  moreover have "set (g_tasks g') \<subseteq> set (g_tasks g)" by (auto simp: g'_def AList.delete_eq)
  ultimately have "graph_wf g'"
    using wf unfolding graph_wf_def ids deps rdeps by (auto simp: distinct_removeAll)
  then show ?thesis using op ids deps by (auto simp: edges_def split: if_splits)
qed

lemma remove_task_inv: "keeps graph_inv (remove_task i)"
proof (rule keepsI)
  fix g assume inv: "graph_inv g"
  show "graph_inv (fst (remove_task i g))"
  proof (cases "direct_dependents i g = []")
  case True
  obtain g' where "remove_task i g = (g', Ok (get_task i g))" "graph_wf g'"
    "edges g' = {(a, b). (a, b) \<in> edges g \<and> a \<noteq> i}"
    using remove_task_effect [OF _ True] inv by (auto simp: graph_inv_def)
  moreover from this have "edges g' \<subseteq> edges g" by auto
  ultimately show ?thesis using inv acyclic_subset by (auto simp: graph_inv_def)
  qed (simp add: remove_task_refused inv)
qed

section \<open>The decomposition primitives\<close>

lemma add_children_inv: "keeps graph_inv (add_children p cs)"
  unfolding add_children_def by (rule keeps_for_each, rule keepsI) (simp add: add_task_inv)

lemma inherit_deps_inv: "keeps graph_inv (inherit_deps ds c)"
proof (rule keepsI)
  fix g assume "graph_inv g"
  moreover have "keeps graph_inv (for_each (\<lambda>d. add_dependency c d) ds)"
    by (intro keeps_for_each add_dependency_inv)
  ultimately show "graph_inv (fst (inherit_deps ds c g))"
    by (simp add: inherit_deps_def keepsD)
qed

lemma rewire_dependent_inv: "keeps graph_inv (rewire_dependent p ts d)"
  unfolding rewire_dependent_def
  by (intro keeps_then keeps_for_each add_dependency_inv remove_dependency_inv)

lemma check_acyclic_inv: "keeps graph_inv check_acyclic"
  by (rule keepsI) (simp add: check_acyclic_def)

lemma decompose_task_inv: "keeps graph_inv (decompose_task p cs cds ts)"
proof (rule keepsI)
  fix g assume inv: "graph_inv g"
  have edges: "keeps graph_inv (for_each (\<lambda>(i, j). add_dependency i j) cds)"
    by (rule keeps_for_each) (auto simp: add_dependency_inv)
  have inherit: "keeps graph_inv (\<lambda>g1. for_each (inherit_deps ds) (child_ids_of p g1) g1)" for ds
    by (rule keepsI, rule keepsD [OF keeps_for_each]) (simp_all add: inherit_deps_inv)
  have rewire: "keeps graph_inv (for_each (rewire_dependent p ts) xs)" for xs
    by (intro keeps_for_each rewire_dependent_inv)
  have "keeps graph_inv (st_then (add_children p cs)
      (\<lambda>_. st_then (for_each (\<lambda>(i, j). add_dependency i j) cds)
      (\<lambda>_. st_then (\<lambda>g1. for_each (inherit_deps ds) (child_ids_of p g1) g1)
      (\<lambda>_. st_then (for_each (rewire_dependent p ts) xs) (\<lambda>_. check_acyclic)))))" for ds xs
    by (intro keeps_then add_children_inv edges inherit rewire check_acyclic_inv)
  from keepsD [OF this inv] show "graph_inv (fst (decompose_task p cs cds ts g))"
    using inv by (simp add: decompose_task_def Let_def)
qed

lemma insert_task_between_inv: "keeps graph_inv (insert_task_between t u d)"
proof (rule keepsI)
  fix g assume inv: "graph_inv g"
  then have "graph_inv (fst (remove_dependency d u (add_task t g)))"
    by (simp add: add_task_inv keepsD [OF remove_dependency_inv])
  moreover have "keeps graph_inv (st_then (add_dependency (t_id t) u)
      (\<lambda>_. st_then (add_dependency d (t_id t)) (\<lambda>_. check_acyclic)))"
    by (intro keeps_then add_dependency_inv check_acyclic_inv)
  ultimately show "graph_inv (fst (insert_task_between t u d g))"
    using inv by (simp add: insert_task_between_def Let_def keepsD)
qed

lemma replace_task_with_children_inv: "keeps graph_inv (replace_task_with_children p cs cds ts)"
  unfolding replace_task_with_children_def
  by (intro keeps_then decompose_task_inv remove_task_inv keeps_pure)

lemma reassign_ownership_inv: "keeps graph_inv (reassign_ownership i a)"
proof (rule keepsI)
  fix g assume inv: "graph_inv g"
  show "graph_inv (fst (reassign_ownership i a g))"
  proof (cases "map_of (g_tasks g) i")
    case (Some t)
    then have mem: "(i, t) \<in> set (g_tasks g)" by (rule map_of_SomeD)
    then have id: "t_id t = i" using inv by (auto simp: graph_inv_def graph_wf_def)
    let ?t = "t\<lparr>t_assigned_agent_id := a\<rparr>"
    have wf: "graph_wf g" using inv by (simp add: graph_inv_def)
    have "i \<in> fst ` set (g_tasks g)" using mem by (metis fst_conv image_eqI)
    then have "i \<in> dom (g_dependencies g)" "i \<in> dom (g_dependents g)"
      by (simp_all add: graph_wfD(2,3) [OF wf] task_ids_def)
    then have "fst (reassign_ownership i a g) = add_task ?t g"
      using Some id by (auto simp: reassign_ownership_def add_task_def entry_or_default_def)
    then show ?thesis using inv add_task_inv by simp
  qed (use inv in \<open>simp add: reassign_ownership_def\<close>)
qed

section \<open>Reachable graphs\<close>

inductive graph_step :: "TaskGraph \<Rightarrow> TaskGraph \<Rightarrow> bool" where
  step_add_task: "graph_step g (add_task t g)"
| step_add_dependency: "graph_step g (fst (add_dependency i j g))"
| step_remove_dependency: "graph_step g (fst (remove_dependency i j g))"
| step_remove_task: "graph_step g (fst (remove_task i g))"
| step_decompose: "graph_step g (fst (decompose_task p cs cds ts g))"
| step_insert_between: "graph_step g (fst (insert_task_between t u d g))"
| step_replace: "graph_step g (fst (replace_task_with_children p cs cds ts g))"
| step_reassign: "graph_step g (fst (reassign_ownership i a g))"

inductive_cases graph_stepE: "graph_step g g'"

definition reachable_graph :: "TaskGraph \<Rightarrow> bool" where
  "reachable_graph g = graph_step\<^sup>*\<^sup>* graph_new g"

lemma graph_step_inv: "graph_step g g' \<Longrightarrow> graph_inv g \<Longrightarrow> graph_inv g'"
  by (erule graph_stepE)
    (simp_all add: add_task_inv keepsD [OF add_dependency_inv] keepsD [OF remove_dependency_inv]
      keepsD [OF remove_task_inv] keepsD [OF decompose_task_inv] keepsD [OF insert_task_between_inv]
      keepsD [OF replace_task_with_children_inv] keepsD [OF reassign_ownership_inv])

lemma graph_inv_new: "graph_inv graph_new"
  by (auto simp: graph_inv_def graph_wf_def graph_new_def edges_def direct_dependencies_def
      direct_dependents_def task_ids_def acyclic_def)

lemma reachable_graph_inv: "reachable_graph g \<Longrightarrow> graph_inv g"
  unfolding reachable_graph_def
  by (induction rule: rtranclp_induct) (auto simp: graph_inv_new intro: graph_step_inv)

end
