(* ===== verification/Graph_Queries.thy ===== *)
theory Graph_Queries
  imports Graph_Invariant
begin

text \<open>What the compound operations of the task graph compute: the exact dependency
relation after a decomposition and after an insertion, the removal of a replaced
parent, and the runnable tasks with their order.\<close>

section \<open>Loops over dependencies\<close>

lemma add_pairs_effect:
  "graph_inv g \<Longrightarrow> for_each (\<lambda>(i, j). add_dependency i j) ps g = (g', Ok ()) \<Longrightarrow>
     edges g' = edges g \<union> set ps \<and> g_tasks g' = g_tasks g \<and> graph_inv g'"
proof (induction ps arbitrary: g)
  case (Cons p ps)
  obtain i j where p: "p = (i, j)" by (cases p)
  then obtain g1 where 1: "add_dependency i j g = (g1, Ok ())"
    "for_each (\<lambda>(i, j). add_dependency i j) ps g1 = (g', Ok ())"
    using Cons.prems(2) by (auto simp: for_each_Cons_Ok)
  then show ?case
    using add_dependency_edges [OF Cons.prems(1) 1(1)] Cons.IH [of g1] p by auto
qed simp

lemma for_each_map: "for_each f (map h xs) s = for_each (\<lambda>x. f (h x)) xs s"
  by (induction xs arbitrary: s) (auto simp: for_each.simps st_then.simps split: prod.splits result.splits)

lemma add_star_effect:
  assumes "graph_inv g" "for_each (\<lambda>d. add_dependency c d) ds g = (g', Ok ())"
  shows "edges g' = edges g \<union> {c} \<times> set ds \<and> g_tasks g' = g_tasks g \<and> graph_inv g'"
  using add_pairs_effect [OF assms(1), of "map (Pair c) ds" g'] assms(2)
  by (auto simp: for_each_map)

lemma inherit_deps_effect:
  assumes inv: "graph_inv g" and ok: "inherit_deps ds c g = (g', Ok ())"
  shows "edges g' = edges g \<union> {(a, d). a = c \<and> d \<in> set ds \<and> (\<forall>j. (c, j) \<notin> edges g)} \<and>
    g_tasks g' = g_tasks g \<and> graph_inv g'"
proof (cases "direct_dependencies c g = []")
  case True
  then have "\<forall>j. (c, j) \<notin> edges g" by (simp add: edges_def)
  then show ?thesis
    using add_star_effect [OF inv, of c ds g'] ok True by (auto simp: inherit_deps_def)
next
  case False
  then have "\<exists>j. (c, j) \<in> edges g"
    by (auto simp: edges_def) (metis last_in_set)
  then show ?thesis using ok False inv by (auto simp: inherit_deps_def)
qed

lemma inherit_loop_effect:
  "graph_inv g \<Longrightarrow> for_each (inherit_deps ds) cs g = (g', Ok ()) \<Longrightarrow>
     edges g' = edges g \<union> {(c, d). c \<in> set cs \<and> d \<in> set ds \<and> (\<forall>j. (c, j) \<notin> edges g)} \<and>
     g_tasks g' = g_tasks g \<and> graph_inv g'"
proof (induction cs arbitrary: g)
  case (Cons c cs)
  obtain g1 where 1: "inherit_deps ds c g = (g1, Ok ())" "for_each (inherit_deps ds) cs g1 = (g', Ok ())"
    using Cons.prems(2) by (auto simp: for_each_Cons_Ok)
  have e1: "edges g1 = edges g \<union> {(a, d). a = c \<and> d \<in> set ds \<and> (\<forall>j. (c, j) \<notin> edges g)}"
    "g_tasks g1 = g_tasks g" "graph_inv g1"
    using inherit_deps_effect [OF Cons.prems(1) 1(1)] by auto
  have "edges g' = edges g1 \<union> {(a, d). a \<in> set cs \<and> d \<in> set ds \<and> (\<forall>j. (a, j) \<notin> edges g1)}"
    "g_tasks g' = g_tasks g1" "graph_inv g'"
    using Cons.IH [OF e1(3) 1(2)] by auto
  then show ?case unfolding e1(1) using e1(2) by (auto; blast)
qed simp

lemma rewire_effect:
  assumes inv: "graph_inv g" and ok: "rewire_dependent p ts d g = (g', Ok ())"
  shows "edges g' = (edges g - {(d, p)}) \<union> {d} \<times> set ts \<and> g_tasks g' = g_tasks g \<and> graph_inv g'"
proof -
  obtain g1 where 1: "remove_dependency d p g = (g1, Ok ())"
    "for_each (\<lambda>t. add_dependency d t) ts g1 = (g', Ok ())"
    using ok by (auto simp: rewire_dependent_def st_then_Ok)
  then have "g1 = drop_edge d p g" by (auto simp: remove_dependency_eq split: if_splits)
  then show ?thesis
    using add_star_effect [OF _ 1(2)] graph_inv_drop_edge [OF inv] by (auto simp: edges_drop_edge)
qed

lemma rewire_loop_effect:
  "graph_inv g \<Longrightarrow> for_each (rewire_dependent p ts) ds g = (g', Ok ()) \<Longrightarrow>
     edges g' = (edges g - set ds \<times> {p}) \<union> set ds \<times> set ts \<and> g_tasks g' = g_tasks g \<and> graph_inv g'"
proof (induction ds arbitrary: g)
  case (Cons d ds)
  obtain g1 where 1: "rewire_dependent p ts d g = (g1, Ok ())"
    "for_each (rewire_dependent p ts) ds g1 = (g', Ok ())"
    using Cons.prems(2) by (auto simp: for_each_Cons_Ok)
  have e1: "edges g1 = (edges g - {(d, p)}) \<union> {d} \<times> set ts" "g_tasks g1 = g_tasks g" "graph_inv g1"
    using rewire_effect [OF Cons.prems(1) 1(1)] by auto
  have "edges g' = (edges g1 - set ds \<times> {p}) \<union> set ds \<times> set ts" "g_tasks g' = g_tasks g1" "graph_inv g'"
    using Cons.IH [OF e1(3) 1(2)] by auto
  then show ?case unfolding e1(1) using e1(2) by auto
qed simp

section \<open>Decomposition\<close>

lemma add_children_effect:
  "add_children p cs g = (g', Ok ()) \<Longrightarrow>
     g' = fold add_task cs g \<and> (\<forall>c \<in> set cs. t_parent_id c = Some p)"
proof (induction cs arbitrary: g)
  case (Cons c cs)
  then have c: "t_parent_id c = Some p" "add_children p cs (add_task c g) = (g', Ok ())"
    by (auto simp: add_children_def for_each_Cons_Ok split: if_splits)
  then show ?case using Cons.IH [OF c(2)] by simp
qed (simp add: add_children_def)

lemma fold_add_task:
  "graph_inv g \<Longrightarrow> graph_inv (fold add_task cs g) \<and> edges (fold add_task cs g) = edges g"
  by (induction cs arbitrary: g) (auto simp: add_task_inv)

definition decomposed_edges ::
  "TaskGraph \<Rightarrow> ident \<Rightarrow> Task list \<Rightarrow> (ident \<times> ident) list \<Rightarrow> ident list \<Rightarrow> (ident \<times> ident) set" where
  "decomposed_edges g p cs cds ts =
    (let internal = edges g \<union> set cds;
         inherited = {(c, d). c \<in> set (child_ids_of p (fold add_task cs g)) \<and>
           (p, d) \<in> edges g \<and> (\<forall>j. (c, j) \<notin> internal)};
         waiting = {d. (d, p) \<in> edges g}
     in ((internal \<union> inherited) - waiting \<times> {p}) \<union> waiting \<times> set ts)"

lemma decompose_task_effect:
  assumes inv: "graph_inv g" and ok: "decompose_task p cs cds ts g = (g', Ok ())"
  shows "edges g' = decomposed_edges g p cs cds ts"
    and "g_tasks g' = g_tasks (fold add_task cs g)"
    and "graph_inv g'"
    and "\<forall>c \<in> set cs. t_parent_id c = Some p"
proof -
  let ?pd = "direct_dependencies p g" and ?pt = "direct_dependents p g"
  obtain g1 g2 g3 where 1: "add_children p cs g = (g1, Ok ())"
    and 2: "for_each (\<lambda>(i, j). add_dependency i j) cds g1 = (g2, Ok ())"
    and 3: "for_each (inherit_deps ?pd) (child_ids_of p g2) g2 = (g3, Ok ())"
    and 4: "for_each (rewire_dependent p ts) ?pt g3 = (g', Ok ())"
    using ok by (auto simp: decompose_task_def Let_def st_then_Ok check_acyclic_def split: if_splits)
  have g1: "g1 = fold add_task cs g" "\<forall>c \<in> set cs. t_parent_id c = Some p"
    using add_children_effect [OF 1] by auto
  then have i1: "graph_inv g1" "edges g1 = edges g" using fold_add_task [OF inv] by auto
  have e2: "edges g2 = edges g \<union> set cds" "g_tasks g2 = g_tasks g1" "graph_inv g2"
    using add_pairs_effect [OF i1(1) 2] i1(2) by auto
  have e3: "edges g3 = edges g2 \<union> {(c, d). c \<in> set (child_ids_of p g2) \<and> d \<in> set ?pd \<and> (\<forall>j. (c, j) \<notin> edges g2)}"
    "g_tasks g3 = g_tasks g2" "graph_inv g3"
    using inherit_loop_effect [OF e2(3) 3] by auto
  have e4: "edges g' = (edges g3 - set ?pt \<times> {p}) \<union> set ?pt \<times> set ts" "g_tasks g' = g_tasks g3" "graph_inv g'"
    using rewire_loop_effect [OF e3(3) 4] by auto
  have pt: "set ?pt = {d. (d, p) \<in> edges g}" and pd: "set ?pd = {d. (p, d) \<in> edges g}"
    using graph_wfD(6) inv by (auto simp: edges_def graph_inv_def)
  have ch: "child_ids_of p g2 = child_ids_of p (fold add_task cs g)"
    using e2(2) g1(1) by (simp add: child_ids_of_def)
  show "edges g' = decomposed_edges g p cs cds ts"
    unfolding e4(1) e3(1) e2(1) pt pd ch by (simp add: decomposed_edges_def Let_def)
  show "g_tasks g' = g_tasks (fold add_task cs g)" "graph_inv g'" "\<forall>c \<in> set cs. t_parent_id c = Some p"
    using e2 e3 e4 g1 by simp_all
qed

lemma insert_task_between_effect:
  assumes inv: "graph_inv g" and ok: "insert_task_between t u d g = (g', Ok ())"
  shows "edges g' = (edges g - {(d, u)}) \<union> {(t_id t, u), (d, t_id t)}"
    and "graph_inv g'" and "g_tasks g' = g_tasks (add_task t g)"
proof -
  let ?g1 = "add_task t g"
  have ud: "contains_task u g" "contains_task d g"
    using ok by (auto simp: insert_task_between_def split: if_splits)
  then have g2: "fst (remove_dependency d u ?g1) = drop_edge d u ?g1"
    by (simp add: remove_dependency_eq contains_task_iff task_ids_add_task)
  have i2: "graph_inv (drop_edge d u ?g1)" using inv by (simp add: add_task_inv graph_inv_drop_edge)
  obtain g3 where 3: "add_dependency (t_id t) u (drop_edge d u ?g1) = (g3, Ok ())"
    and 4: "add_dependency d (t_id t) g3 = (g', Ok ())"
    using ok ud g2 by (auto simp: insert_task_between_def Let_def st_then_Ok check_acyclic_def)
  have e3: "edges g3 = insert (t_id t, u) (edges g - {(d, u)})" "g_tasks g3 = g_tasks ?g1" "graph_inv g3"
    using add_dependency_edges [OF i2 3] by (auto simp: edges_drop_edge)
  show "edges g' = (edges g - {(d, u)}) \<union> {(t_id t, u), (d, t_id t)}" "graph_inv g'"
    "g_tasks g' = g_tasks (add_task t g)"
    using add_dependency_edges [OF e3(3) 4] e3 by auto
qed

lemma replace_task_effect:
  assumes inv: "graph_inv g" and ok: "replace_task_with_children p cs cds ts g = (g', Ok ())"
  shows "\<not> contains_task p g'" and "graph_inv g'"
    and "edges g' = {(a, b). (a, b) \<in> decomposed_edges g p cs cds ts \<and> a \<noteq> p}"
proof -
  obtain g1 x where 1: "decompose_task p cs cds ts g = (g1, Ok ())" and 2: "remove_task p g1 = (g', Ok x)"
    using ok by (auto simp: replace_task_with_children_def st_then_Ok)
  have e: "edges g1 = decomposed_edges g p cs cds ts" "graph_inv g1"
    using decompose_task_effect [OF inv 1] by auto
  have "direct_dependents p g1 = []"
    using 2 remove_task_refused [of p g1] by auto
  from remove_task_effect [OF _ this] e(2) 2
  show "\<not> contains_task p g'" "edges g' = {(a, b). (a, b) \<in> decomposed_edges g p cs cds ts \<and> a \<noteq> p}"
    by (auto simp: graph_inv_def contains_task_iff e(1))
  show "graph_inv g'" using keepsD [OF remove_task_inv e(2), of p] 2 by simp
qed

section \<open>Runnable tasks\<close>

definition dependencies_verified :: "TaskGraph \<Rightarrow> ident \<Rightarrow> bool" where
  "dependencies_verified g i =
    (\<forall>j. (i, j) \<in> edges g \<longrightarrow> (\<exists>u. get_task j g = Some u \<and> t_state u = TaskState.Verified))"

definition run_key :: "Task \<Rightarrow> int \<times> time" where
  "run_key t = (- t_priority t, t_created_at t)"

lemma is_runnable_iff:
  "is_runnable g i t \<longleftrightarrow>
     t_state t \<in> {TaskState.Ready, TaskState.Backlog} \<and> t_assigned_agent_id t = None \<and> dependencies_verified g i"
proof -
  have "(case g_dependencies g i of
      Some deps \<Rightarrow> list_all (\<lambda>d. case map_of (g_tasks g) d of
         Some dep_task \<Rightarrow> t_state dep_task = TaskState.Verified | None \<Rightarrow> False) deps
    | None \<Rightarrow> True) \<longleftrightarrow> dependencies_verified g i"
    by (auto simp: dependencies_verified_def edges_def direct_dependencies_def get_task_def list_all_iff
        split: option.splits)
  then show ?thesis by (simp add: is_runnable_def TaskState_is_runnable_candidate_def)
qed

lemma get_task_iff: "graph_wf g \<Longrightarrow> get_task i g = Some t \<longleftrightarrow> (i, t) \<in> set (g_tasks g)"
  by (auto simp: get_task_def graph_wf_def task_ids_def)

lemma graph_wf_id: "graph_wf g \<Longrightarrow> (i, t) \<in> set (g_tasks g) \<Longrightarrow> t_id t = i"
  by (auto simp: graph_wf_def)

lemma runnable_ids:
  assumes wf: "graph_wf g"
  shows "i \<in> set (find_runnable_tasks g) \<longleftrightarrow> (\<exists>t. get_task i g = Some t \<and> is_runnable g i t)"
  using graph_wf_id [OF wf] by (auto simp: find_runnable_tasks_def get_task_iff [OF wf]; force)

lemma distinct_map_sort_key: "distinct (map h (sort_key f xs)) \<longleftrightarrow> distinct (map h xs)"
  by (simp add: distinct_map)

lemma runnable_distinct:
  assumes wf: "graph_wf g"
  shows "distinct (find_runnable_tasks g)"
proof -
  let ?ts = "filter (\<lambda>(i, t). is_runnable g i t) (g_tasks g)"
  have "map t_id (map snd ?ts) = map fst ?ts"
    using graph_wf_id [OF wf] by auto
  moreover have "distinct (map fst ?ts)"
    using graph_wfD(1) [OF wf] by (simp add: task_ids_def distinct_map_filter)
  ultimately have "distinct (map t_id (map snd ?ts))" by metis
  then show ?thesis unfolding find_runnable_tasks_def distinct_map_sort_key .
qed

lemma runnable_sorted:
  assumes wf: "graph_wf g"
  shows "sorted (map (\<lambda>i. run_key (the (get_task i g))) (find_runnable_tasks g))"
proof -
  let ?ts = "sort_key run_key (map snd (filter (\<lambda>(i, t). is_runnable g i t) (g_tasks g)))"
  have ids: "find_runnable_tasks g = map t_id ?ts"
    by (simp add: find_runnable_tasks_def run_key_def [abs_def])
  have "get_task (t_id t) g = Some t" if "t \<in> set ?ts" for t
    using that graph_wf_id [OF wf] get_task_iff [OF wf] by force
  then have "map (\<lambda>i. run_key (the (get_task i g))) (map t_id ?ts) = map run_key ?ts" by simp
  then show ?thesis unfolding ids by (simp only: sorted_sort_key)
qed

end
