(* ===== verification/Workspace_Model.thy ===== *)
theory Workspace_Model
  imports Entities
begin

text \<open>Workspaces of plexis-core (workspace.rs): the record, the security policy and the
path confinement check. A path is a string; its components are those of
std::path::Path on Unix. Canonicalisation asks the file system and is a parameter,
None when it fails.\<close>

section \<open>Paths\<close>

datatype path_component = RootDir | CurDir | ParentDir | Normal string

fun split_slash :: "string \<Rightarrow> string list" where
  "split_slash [] = [[]]"
| "split_slash (c # s) =
    (if c = CHR ''/'' then [] # split_slash s
     else case split_slash s of [] \<Rightarrow> [[c]] | p # ps \<Rightarrow> (c # p) # ps)"

definition path_is_absolute :: "string \<Rightarrow> bool" where
  "path_is_absolute s = (s \<noteq> [] \<and> hd s = CHR ''/'')"

definition component_of :: "string \<Rightarrow> path_component" where
  "component_of p = (if p = ''..'' then ParentDir else Normal p)"

definition path_components :: "string \<Rightarrow> path_component list" where
  "path_components s =
    (if path_is_absolute s
     then RootDir # map component_of (filter (\<lambda>p. p \<noteq> [] \<and> p \<noteq> ''.'') (split_slash s))
     else case split_slash s of
            [] \<Rightarrow> []
          | p # ps \<Rightarrow> (if p = ''.'' then [CurDir] else if p = [] then [] else [component_of p])
                     @ map component_of (filter (\<lambda>q. q \<noteq> [] \<and> q \<noteq> ''.'') ps))"

text \<open>Path::join: an absolute argument replaces the base.\<close>

definition path_join :: "string \<Rightarrow> string \<Rightarrow> string" where
  "path_join base p =
    (if path_is_absolute p then p
     else if base = [] \<or> last base = CHR ''/'' then base @ p
     else base @ ''/'' @ p)"

text \<open>The lexical normalisation: a parent component removes the component before it,
whatever that is.\<close>

fun lexical_step :: "path_component list \<Rightarrow> path_component \<Rightarrow> path_component list" where
  "lexical_step acc ParentDir = butlast acc"
| "lexical_step acc CurDir = acc"
| "lexical_step acc c = acc @ [c]"

definition lexical_normalize :: "path_component list \<Rightarrow> path_component list" where
  "lexical_normalize cs = foldl lexical_step [] cs"

definition file_name :: "path_component list \<Rightarrow> string option" where
  "file_name cs = (if cs = [] then None else case last cs of Normal n \<Rightarrow> Some n | _ \<Rightarrow> None)"

section \<open>Workspaces\<close>

record WorkspaceSecurityPolicy =
  allowed_tools :: "string list"
  enforce_confinement :: bool
  forbidden_patterns :: "string list"
  require_approval_for_writes :: bool
  require_approval_for_shell :: bool

definition WorkspaceSecurityPolicy_default :: WorkspaceSecurityPolicy where
  "WorkspaceSecurityPolicy_default =
    \<lparr>allowed_tools = [''filesystem'', ''git'', ''shell'', ''test''], enforce_confinement = True,
     forbidden_patterns = [''.env*'', ''*.pem'', ''*.key'', ''id_rsa*'', ''id_ed25519*''],
     require_approval_for_writes = False, require_approval_for_shell = True\<rparr>"

text \<open>The resource limits and the VCS metadata, which no modelled operation reads, are
left out of the record.\<close>

record Workspace =
  ws_id :: ident
  ws_name :: string
  ws_canonical_path :: string
  ws_policy :: WorkspaceSecurityPolicy
  ws_metadata :: json
  ws_created_at :: time
  ws_updated_at :: time

definition Workspace_new :: "ident \<Rightarrow> time \<Rightarrow> string \<Rightarrow> string \<Rightarrow> Workspace" where
  "Workspace_new fresh now name path =
    \<lparr>ws_id = fresh, ws_name = name, ws_canonical_path = path,
     ws_policy = WorkspaceSecurityPolicy_default, ws_metadata = JObj [],
     ws_created_at = now, ws_updated_at = now\<rparr>"

definition matches_pattern :: "string \<Rightarrow> string \<Rightarrow> bool" where
  "matches_pattern pattern text =
    (pattern = text \<or>
     (pattern \<noteq> [] \<and> last pattern = CHR ''*'' \<and> prefix (butlast pattern) text) \<or>
     (pattern \<noteq> [] \<and> hd pattern = CHR ''*'' \<and> suffix (tl pattern) text))"

definition normalized_path :: "(string \<Rightarrow> string option) \<Rightarrow> Workspace \<Rightarrow> string \<Rightarrow> path_component list" where
  "normalized_path canonicalize ws path =
    (let resolved = (if path_is_absolute path then path else path_join (ws_canonical_path ws) path)
     in case canonicalize resolved of
          Some canon \<Rightarrow> path_components canon
        | None \<Rightarrow> lexical_normalize (path_components resolved))"

definition canonical_root :: "(string \<Rightarrow> string option) \<Rightarrow> Workspace \<Rightarrow> string" where
  "canonical_root canonicalize ws =
    (case canonicalize (ws_canonical_path ws) of Some c \<Rightarrow> c | None \<Rightarrow> ws_canonical_path ws)"

definition is_path_allowed :: "(string \<Rightarrow> string option) \<Rightarrow> Workspace \<Rightarrow> string \<Rightarrow> bool" where
  "is_path_allowed canonicalize ws path =
    (let normalized = normalized_path canonicalize ws path in
     if enforce_confinement (ws_policy ws) \<and>
        \<not> prefix (path_components (canonical_root canonicalize ws)) normalized then False
     else case file_name normalized of
            Some filename \<Rightarrow> \<not> list_ex (\<lambda>pattern. matches_pattern pattern filename) (forbidden_patterns (ws_policy ws))
          | None \<Rightarrow> True)"

section \<open>The confinement contract\<close>

text \<open>A path without parent components stays where it points.\<close>

lemma lexical_step_keeps:
  "ParentDir \<notin> set acc \<Longrightarrow> ParentDir \<notin> set (lexical_step acc c)"
  by (cases c) (auto dest: in_set_butlastD)

lemma lexical_normalize_no_parent: "ParentDir \<notin> set (lexical_normalize cs)"
proof -
  have "ParentDir \<notin> set acc \<Longrightarrow> ParentDir \<notin> set (foldl lexical_step acc cs)" for acc
    by (induction cs arbitrary: acc) (simp_all add: lexical_step_keeps)
  then show ?thesis by (simp add: lexical_normalize_def)
qed

lemma lexical_normalize_id:
  "ParentDir \<notin> set cs \<Longrightarrow> CurDir \<notin> set cs \<Longrightarrow> lexical_normalize cs = cs"
proof -
  have "ParentDir \<notin> set cs \<Longrightarrow> CurDir \<notin> set cs \<Longrightarrow> foldl lexical_step acc cs = acc @ cs" for acc
  proof (induction cs arbitrary: acc)
    case (Cons c cs)
    then show ?case by (cases c) auto
  qed simp
  then show "ParentDir \<notin> set cs \<Longrightarrow> CurDir \<notin> set cs \<Longrightarrow> lexical_normalize cs = cs"
    by (simp add: lexical_normalize_def)
qed

lemma is_path_allowed_confined:
  "is_path_allowed canonicalize ws path \<Longrightarrow> enforce_confinement (ws_policy ws) \<Longrightarrow>
     prefix (path_components (canonical_root canonicalize ws)) (normalized_path canonicalize ws path)"
  by (simp add: is_path_allowed_def Let_def split: if_splits)

lemma is_path_allowed_pattern:
  "is_path_allowed canonicalize ws path \<Longrightarrow> file_name (normalized_path canonicalize ws path) = Some n \<Longrightarrow>
     p \<in> set (forbidden_patterns (ws_policy ws)) \<Longrightarrow> \<not> matches_pattern p n"
  by (auto simp: is_path_allowed_def Let_def list_ex_iff split: if_splits)

end
