(* ===== verification/Text_Ops.thy ===== *)
theory Text_Ops
  imports Prelude
begin

text \<open>The methods of Rust strings that several components use, on strings of characters
in the range U+0000 to U+00FF. The lower case of a letter outside ASCII is the Latin-1
one.\<close>

definition to_lower :: "char \<Rightarrow> char" where
  "to_lower c = (let n = (of_char c :: nat) in
     if (65 \<le> n \<and> n \<le> 90) \<or> (192 \<le> n \<and> n \<le> 222 \<and> n \<noteq> 215) then char_of (n + 32) else c)"

definition str_to_lowercase :: "string \<Rightarrow> string" where
  "str_to_lowercase s = map to_lower s"

definition str_contains :: "string \<Rightarrow> string \<Rightarrow> bool" where
  "str_contains p s = list_ex (prefix p) (suffixes s)"

fun split_ws_acc :: "string \<Rightarrow> string \<Rightarrow> string list" where
  "split_ws_acc acc [] = (if acc = [] then [] else [rev acc])"
| "split_ws_acc acc (c # s) =
    (if is_whitespace c then (if acc = [] then [] else [rev acc]) @ split_ws_acc [] s
     else split_ws_acc (c # acc) s)"

definition split_whitespace :: "string \<Rightarrow> string list" where
  "split_whitespace s = split_ws_acc [] s"

definition ascii_lower :: "char \<Rightarrow> char" where
  "ascii_lower c = (let n = (of_char c :: nat) in if 65 \<le> n \<and> n \<le> 90 then char_of (n + 32) else c)"

definition eq_ignore_ascii_case :: "string \<Rightarrow> string \<Rightarrow> bool" where
  "eq_ignore_ascii_case s t = (map ascii_lower s = map ascii_lower t)"

definition single_quoted :: "string \<Rightarrow> string" where
  "single_quoted s = CHR 0x27 # s @ [CHR 0x27]"

definition starts_with :: "string \<Rightarrow> string \<Rightarrow> bool" where
  "starts_with p s = prefix p s"

definition ends_with :: "string \<Rightarrow> string \<Rightarrow> bool" where
  "ends_with p s = suffix p s"

text \<open>The length in bytes of the UTF-8 encoding.\<close>

definition utf8_length :: "string \<Rightarrow> nat" where
  "utf8_length s = sum_list (map (\<lambda>c. if (of_char c :: nat) < 128 then 1 else 2) s)"

text \<open>The first bytes of a string; none when they end inside a character.\<close>

fun utf8_take :: "nat \<Rightarrow> string \<Rightarrow> string option" where
  "utf8_take n [] = Some []"
| "utf8_take n (c # s) =
    (if n = 0 then Some []
     else if n < utf8_length [c] then None
     else map_option ((#) c) (utf8_take (n - utf8_length [c]) s))"

definition newline :: string where
  "newline = [CHR 0x0A]"

text \<open>The parts of a string between the occurrences of a separator.\<close>

function split_on :: "string \<Rightarrow> string \<Rightarrow> string list" where
  "split_on sep s =
    (if sep = [] then [s]
     else case List.find (\<lambda>n. prefix sep (drop n s)) [0..<length s] of
       None \<Rightarrow> [s]
     | Some n \<Rightarrow> take n s # split_on sep (drop (n + length sep) s))"
  by pat_completeness auto

termination
proof (relation "measure (\<lambda>(sep, s). length s)")
  show "((sep, drop (n + length sep) s), sep, s) \<in> measure (\<lambda>(sep, s). length s)"
    if "sep \<noteq> []" "List.find (\<lambda>n. prefix sep (drop n s)) [0..<length s] = Some n" for sep s n
    using that by (cases sep) (auto simp: find_Some_iff)
qed simp

declare split_on.simps [simp del]

fun join :: "string \<Rightarrow> string list \<Rightarrow> string" where
  "join sep [] = []"
| "join sep [s] = s"
| "join sep (s # r # rs) = s @ sep @ join sep (r # rs)"

definition str_replace :: "string \<Rightarrow> string \<Rightarrow> string \<Rightarrow> string" where
  "str_replace old new s = join new (split_on old s)"

text \<open>The decimal text of a counter, as the formatting macros print it; an identifier
prints as its number.\<close>

fun decimal :: "nat \<Rightarrow> string" where
  "decimal n = (if n < 10 then [char_of (48 + n)] else decimal (n div 10) @ [char_of (48 + n mod 10)])"

declare decimal.simps [simp del]

definition dec_word :: "'a::len word \<Rightarrow> string" where
  "dec_word w = decimal (unat w)"

definition int_text :: "int \<Rightarrow> string" where
  "int_text n = (if n < 0 then ''-'' @ decimal (nat (- n)) else decimal (nat n))"

text \<open>Reading an identifier back from its text.\<close>

fun digits_value :: "nat \<Rightarrow> string \<Rightarrow> nat option" where
  "digits_value acc [] = Some acc"
| "digits_value acc (c # s) =
    (let d = of_char c in if 48 \<le> d \<and> d \<le> 57 then digits_value (10 * acc + (d - 48)) s else None)"

definition parse_ident :: "string \<Rightarrow> ident option" where
  "parse_ident s = (if s = [] then None else digits_value 0 s)"

lemma digits_value_append:
  "digits_value acc (u @ v) = (case digits_value acc u of Some n \<Rightarrow> digits_value n v | None \<Rightarrow> None)"
  by (induction u arbitrary: acc) (auto simp: Let_def)

lemma digit_char: "n < 10 \<Longrightarrow> (of_char (char_of (48 + n) :: char) :: nat) = 48 + n"
  by (simp add: of_char_of)

lemma digits_value_decimal: "digits_value 0 (decimal n) = Some n"
proof (induction n rule: decimal.induct)
  case (1 n)
  show ?case
  proof (cases "n < 10")
    case True
    then show ?thesis by (simp add: decimal.simps [of n] digit_char)
  next
    case False
    have d: "(of_char (char_of (48 + n mod 10) :: char) :: nat) = 48 + n mod 10" by (rule digit_char) simp
    have "digits_value 0 (decimal n) = digits_value (n div 10) [char_of (48 + n mod 10)]"
      using False 1 [OF False] by (simp add: decimal.simps [of n] digits_value_append)
    also have "\<dots> = Some n" by (simp only: digits_value.simps Let_def d) simp
    finally show ?thesis .
  qed
qed

lemma decimal_not_Nil: "decimal n \<noteq> []"
  by (simp add: decimal.simps [of n])

lemma parse_ident_decimal [simp]: "parse_ident (decimal n) = Some n"
  by (simp add: parse_ident_def digits_value_decimal decimal_not_Nil)

section \<open>Searching and replacing\<close>

lemma str_contains_iff: "str_contains p s \<longleftrightarrow> sublist p s"
proof -
  have "str_contains p s \<longleftrightarrow> (\<exists>x. suffix x s \<and> prefix p x)" by (auto simp: str_contains_def list_ex_iff in_set_suffixes)
  then show ?thesis by (auto simp: prefix_def suffix_def sublist_def)
qed

lemma sublist_separator:
  assumes "c \<notin> set t"
  shows "sublist t (u @ c # v) \<longleftrightarrow> sublist t u \<or> sublist t v"
proof
  assume "sublist t (u @ c # v)"
  then obtain a b where ab: "u @ c # v = a @ t @ b" by (auto simp: sublist_def)
  then consider w where "u = a @ w" "w @ c # v = t @ b" | w where "a = u @ w" "c # v = w @ t @ b"
    by (auto simp: append_eq_append_conv2)
  then show "sublist t u \<or> sublist t v"
  proof cases
    case 1
    then consider x where "w = t @ x" | x where "t = w @ x" "c # v = x @ b" by (auto simp: append_eq_append_conv2)
    then show ?thesis
    proof cases
      case 1
      then show ?thesis using \<open>u = a @ w\<close> by (auto simp: sublist_def)
    next
      case 2
      then show ?thesis using 1 assms by (cases x) (auto simp: sublist_def intro: exI [of _ a] exI [of _ "[]"])
    qed
  next
    case 2
    then show ?thesis using assms by (cases w) (auto simp: Cons_eq_append_conv intro: sublist_appendI)
  qed
next
  assume "sublist t u \<or> sublist t v"
  then show "sublist t (u @ c # v)"
    using sublist_order.order.trans [of t u "u @ c # v"] sublist_order.order.trans [of t v "u @ c # v"]
      sublist_append_rightI [of u "c # v"] sublist_appendI [of v "u @ [c]" "[]"] by auto
qed

lemma split_on_pieces: "sep \<noteq> [] \<Longrightarrow> p \<in> set (split_on sep s) \<Longrightarrow> \<not> sublist sep p \<and> sublist p s"
proof (induction sep s rule: split_on.induct)
  case (1 sep s)
  show ?case
  proof (cases "List.find (\<lambda>n. prefix sep (drop n s)) [0..<length s]")
    case None
    then have none: "\<not> prefix sep (drop n s)" if "n < length s" for n using that by (auto simp: find_None_iff)
    have "p = s" using "1.prems" None by (simp add: split_on.simps [of sep s])
    moreover have "\<not> sublist sep s"
    proof
      assume "sublist sep s"
      then obtain a b where "s = a @ sep @ b" by (auto simp: sublist_def)
      then show False using none [of "length a"] "1.prems"(1) by (cases sep) (auto simp: prefix_def)
    qed
    ultimately show ?thesis by simp
  next
    case (Some n)
    then have n: "n < length s" "prefix sep (drop n s)" "\<And>k. k < n \<Longrightarrow> \<not> prefix sep (drop k s)"
      by (auto simp: find_Some_iff)
    have "\<not> sublist sep (take n s)"
    proof
      assume "sublist sep (take n s)"
      then obtain a b where ab: "take n s = a @ sep @ b" by (auto simp: sublist_def)
      then have d: "drop (length a) s = sep @ b @ drop n s" using append_take_drop_id [of n s] by (metis append.assoc append_eq_conv_conj)
      have "length a + length sep \<le> n" using arg_cong [OF ab, of length] n(1) by simp
      then have before: "length a < n" using "1.prems"(1) by (cases sep) auto
      show False using n(3) [OF before] d by (simp add: prefix_def)
    qed
    moreover have "sublist (take n s) s" "sublist q (drop k s) \<Longrightarrow> sublist q s" for q k
      by (metis append_take_drop_id sublist_append_rightI) (metis append_take_drop_id sublist_append_leftI sublist_order.order.trans)
    moreover have "p = take n s \<or> p \<in> set (split_on sep (drop (n + length sep) s))"
      using "1.prems" Some by (simp add: split_on.simps [of sep s])
    ultimately show ?thesis using "1.IH" [OF "1.prems"(1) Some] "1.prems"(1) by auto
  qed
qed

end
