(* ===== verification/Mission_Model.thy ===== *)
theory Mission_Model
  imports Entities Text_Ops
begin

text \<open>The mission entities of plexis-core (mission.rs) with budgets and stopping
conditions, and the budget tracker and liveness evaluator of plexis-runtime
(mission/budget.rs, mission/liveness.rs). Counters are words of the width of the
source, so an increment wraps where the release build of the source wraps.\<close>

section \<open>Budgets\<close>

datatype MissionHealth = Healthy | Stagnant | Stalled | Degraded | Escalated

record MissionBudget =
  max_duration_secs :: u64
  max_concurrent_agents :: u64
  max_executions :: u32
  max_recovery_attempts :: u32
  max_planner_iterations :: u32
  max_stagnant_cycles :: u32

definition MissionBudget_default :: MissionBudget where
  "MissionBudget_default = \<lparr>max_duration_secs = 3600, max_concurrent_agents = 4, max_executions = 20,
     max_recovery_attempts = 5, max_planner_iterations = 10, max_stagnant_cycles = 3\<rparr>"

record MissionBudgetConsumed =
  duration_secs :: u64
  total_executions :: u32
  recovery_attempts :: u32
  planner_iterations :: u32
  stagnant_cycles :: u32

definition MissionBudgetConsumed_default :: MissionBudgetConsumed where
  "MissionBudgetConsumed_default = \<lparr>duration_secs = 0, total_executions = 0, recovery_attempts = 0,
     planner_iterations = 0, stagnant_cycles = 0\<rparr>"

definition has_exhausted :: "MissionBudgetConsumed \<Rightarrow> MissionBudget \<Rightarrow> string option" where
  "has_exhausted c b =
    (if max_duration_secs b \<le> duration_secs c then
       Some (''Maximum mission duration of '' @ dec_word (max_duration_secs b) @ ''s exceeded (consumed '' @
             dec_word (duration_secs c) @ ''s)'')
     else if max_executions b \<le> total_executions c then
       Some (''Maximum process executions limit of '' @ dec_word (max_executions b) @ '' reached (launched '' @
             dec_word (total_executions c) @ '')'')
     else if max_recovery_attempts b \<le> recovery_attempts c then
       Some (''Maximum recovery attempts of '' @ dec_word (max_recovery_attempts b) @ '' reached (triggered '' @
             dec_word (recovery_attempts c) @ '')'')
     else if max_planner_iterations b \<le> planner_iterations c then
       Some (''Maximum planner iterations of '' @ dec_word (max_planner_iterations b) @ '' reached (run '' @
             dec_word (planner_iterations c) @ '')'')
     else if max_stagnant_cycles b \<le> stagnant_cycles c then
       Some (''Maximum consecutive stagnant cycles of '' @ dec_word (max_stagnant_cycles b) @ '' exceeded ('' @
             dec_word (stagnant_cycles c) @ '' cycles without progress)'')
     else None)"

lemma has_exhausted_None:
  "has_exhausted c b = None \<longleftrightarrow>
     duration_secs c < max_duration_secs b \<and> total_executions c < max_executions b \<and>
     recovery_attempts c < max_recovery_attempts b \<and> planner_iterations c < max_planner_iterations b \<and>
     stagnant_cycles c < max_stagnant_cycles b"
  by (auto simp: has_exhausted_def not_le)

record BudgetTracker =
  tr_budget :: MissionBudget
  tr_consumed :: MissionBudgetConsumed

definition record_execution :: "BudgetTracker \<Rightarrow> BudgetTracker" where
  "record_execution t = t\<lparr>tr_consumed := (tr_consumed t)\<lparr>total_executions := total_executions (tr_consumed t) + 1\<rparr>\<rparr>"

definition record_duration :: "u64 \<Rightarrow> BudgetTracker \<Rightarrow> BudgetTracker" where
  "record_duration secs t = t\<lparr>tr_consumed := (tr_consumed t)\<lparr>duration_secs := duration_secs (tr_consumed t) + secs\<rparr>\<rparr>"

definition record_recovery :: "BudgetTracker \<Rightarrow> BudgetTracker" where
  "record_recovery t = t\<lparr>tr_consumed := (tr_consumed t)\<lparr>recovery_attempts := recovery_attempts (tr_consumed t) + 1\<rparr>\<rparr>"

definition record_planner_iteration :: "BudgetTracker \<Rightarrow> BudgetTracker" where
  "record_planner_iteration t =
    t\<lparr>tr_consumed := (tr_consumed t)\<lparr>planner_iterations := planner_iterations (tr_consumed t) + 1\<rparr>\<rparr>"

definition record_stagnant_cycle :: "BudgetTracker \<Rightarrow> BudgetTracker" where
  "record_stagnant_cycle t =
    t\<lparr>tr_consumed := (tr_consumed t)\<lparr>stagnant_cycles := stagnant_cycles (tr_consumed t) + 1\<rparr>\<rparr>"

definition reset_stagnant_cycles :: "BudgetTracker \<Rightarrow> BudgetTracker" where
  "reset_stagnant_cycles t = t\<lparr>tr_consumed := (tr_consumed t)\<lparr>stagnant_cycles := 0\<rparr>\<rparr>"

definition check_exhaustion :: "BudgetTracker \<Rightarrow> string option" where
  "check_exhaustion t = has_exhausted (tr_consumed t) (tr_budget t)"

lemmas tracker_defs = record_execution_def record_duration_def record_recovery_def
  record_planner_iteration_def record_stagnant_cycle_def reset_stagnant_cycles_def

section \<open>Missions\<close>

record StoppingCondition =
  required_tests_pass :: bool
  working_tree_clean :: bool
  required_commit_exists :: bool
  custom_verifier :: "string option"

definition StoppingCondition_default :: StoppingCondition where
  "StoppingCondition_default = \<lparr>required_tests_pass = True, working_tree_clean = True,
     required_commit_exists = True, custom_verifier = None\<rparr>"

record MissionOutcome =
  o_success :: bool
  o_summary :: string
  o_verified_commit_sha :: "string option"
  o_cycles_count :: u32
  o_completion_reason :: string

record Mission =
  m_id :: ident
  m_workspace_id :: "ident option"
  m_active_workflow_id :: "ident option"
  m_title :: string
  m_objective :: string
  m_state :: MissionState
  m_cycle_index :: u32
  m_budget :: MissionBudget
  m_budget_consumed :: MissionBudgetConsumed
  m_health_status :: MissionHealth
  m_stopping_condition :: StoppingCondition
  m_latest_verified_commit :: "string option"
  m_final_outcome :: "MissionOutcome option"
  m_escalation_reason :: "string option"
  m_metadata :: json
  m_created_at :: time
  m_updated_at :: time

definition Mission_new :: "ident \<Rightarrow> time \<Rightarrow> string \<Rightarrow> string \<Rightarrow> Mission" where
  "Mission_new fresh now title objective =
    \<lparr>m_id = fresh, m_workspace_id = None, m_active_workflow_id = None, m_title = title,
     m_objective = objective, m_state = MissionState.Created, m_cycle_index = 0,
     m_budget = MissionBudget_default, m_budget_consumed = MissionBudgetConsumed_default,
     m_health_status = Healthy, m_stopping_condition = StoppingCondition_default,
     m_latest_verified_commit = None, m_final_outcome = None, m_escalation_reason = None,
     m_metadata = JObj [], m_created_at = now, m_updated_at = now\<rparr>"

text \<open>The effect of transition\_to on a mission when its result is dropped: a refused
transition leaves the state.\<close>

definition try_transition :: "MissionState \<Rightarrow> Mission \<Rightarrow> Mission" where
  "try_transition next m =
    (case MissionState_transition_to (m_state m) next of Ok s \<Rightarrow> m\<lparr>m_state := s\<rparr> | Err _ \<Rightarrow> m)"

lemma try_transition_state:
  "m_state (try_transition s m) = (if MissionState_can_transition_to (m_state m) s then s else m_state m)"
  by (auto simp: try_transition_def MissionState_transition_to_def)

lemma try_transition_eq:
  "try_transition s m = (if MissionState_can_transition_to (m_state m) s then m\<lparr>m_state := s\<rparr> else m)"
  by (auto simp: try_transition_def MissionState_transition_to_def)

record MissionCheckpoint =
  ck_id :: ident
  ck_mission_id :: ident
  ck_cycle_index :: u32
  ck_workflow_id :: ident
  ck_task_states_summary :: "(ident \<times> string) list"
  ck_active_executions :: "ident list"
  ck_completed_tasks :: "ident list"
  ck_unresolved_tasks :: "ident list"
  ck_budget_consumed :: MissionBudgetConsumed
  ck_latest_verified_commit :: "string option"
  ck_planner_context :: json
  ck_created_at :: time

text \<open>The key of a cycle record is built from the mission and the cycle index.\<close>

record MissionCycle =
  cy_mission_id :: ident
  cy_cycle_index :: u32
  cy_workflow_id :: ident
  cy_phase :: string
  cy_started_at :: time
  cy_completed_at :: "time option"
  cy_outcome :: "string option"
  cy_discovered_tasks_count :: u32

definition MissionCycle_new :: "time \<Rightarrow> ident \<Rightarrow> u32 \<Rightarrow> ident \<Rightarrow> string \<Rightarrow> MissionCycle" where
  "MissionCycle_new now mission_id cycle_index workflow_id phase =
    \<lparr>cy_mission_id = mission_id, cy_cycle_index = cycle_index, cy_workflow_id = workflow_id,
     cy_phase = phase, cy_started_at = now, cy_completed_at = None, cy_outcome = None,
     cy_discovered_tasks_count = 0\<rparr>"

section \<open>Liveness\<close>

record ProgressSnapshot =
  ps_completed_tasks_count :: nat
  ps_task_graph_node_count :: nat
  ps_latest_git_commit :: "string option"

definition has_progressed_from :: "ProgressSnapshot \<Rightarrow> ProgressSnapshot \<Rightarrow> bool" where
  "has_progressed_from self previous =
    (ps_completed_tasks_count previous < ps_completed_tasks_count self \<or>
     ps_task_graph_node_count previous < ps_task_graph_node_count self \<or>
     (ps_latest_git_commit self \<noteq> None \<and> ps_latest_git_commit self \<noteq> ps_latest_git_commit previous))"

record LivenessEvaluator =
  le_last_progress :: ProgressSnapshot
  le_consecutive_stagnant_cycles :: u32
  le_max_stagnant_cycles :: u32

definition LivenessEvaluator_new :: "u32 \<Rightarrow> ProgressSnapshot \<Rightarrow> LivenessEvaluator" where
  "LivenessEvaluator_new limit initial =
    \<lparr>le_last_progress = initial, le_consecutive_stagnant_cycles = 0, le_max_stagnant_cycles = limit\<rparr>"

definition evaluate :: "ProgressSnapshot \<Rightarrow> LivenessEvaluator \<Rightarrow> LivenessEvaluator \<times> MissionHealth \<times> bool" where
  "evaluate current e =
    (if has_progressed_from current (le_last_progress e)
     then (e\<lparr>le_consecutive_stagnant_cycles := 0, le_last_progress := current\<rparr>, Healthy, True)
     else let n = le_consecutive_stagnant_cycles e + 1 in
       (e\<lparr>le_consecutive_stagnant_cycles := n\<rparr>,
        if le_max_stagnant_cycles e \<le> n then Stagnant else Degraded, False))"

lemma not_progressed_from_self: "\<not> has_progressed_from s s"
  by (simp add: has_progressed_from_def)

end
