(* ===== verification/Records.thy ===== *)
theory Records
  imports Entities Text_Ops
begin

text \<open>The durable records of plexis-core around the execution of tasks (verification.rs,
message.rs, planning.rs, memory.rs, recovery.rs): their enums with the texts of the
columns, constructors and operations. A floating point number is an integer number of
the least positive single (2 to the -149), which represents every finite single.\<close>

section \<open>Case-insensitive codecs\<close>

text \<open>An enum whose text is matched after lower-casing, without trimming.\<close>

locale lower_codec =
  fixes as_str :: "'s \<Rightarrow> string"
    and parse :: "string \<Rightarrow> ('s, string) result"
    and match_str :: "string \<Rightarrow> ('s, string) result"
  assumes parse_eq: "parse s = match_str (str_to_lowercase s)"
    and match_print: "match_str (as_str x) = Ok x"
    and print_lower: "str_to_lowercase (as_str x) = as_str x"
begin

lemma parse_cased: "str_to_lowercase s = as_str x \<Longrightarrow> parse s = Ok x"
  by (simp add: parse_eq match_print)

lemma parse_print: "parse (as_str x) = Ok x"
  by (rule parse_cased) (rule print_lower)

lemma print_inj: "as_str x = as_str y \<longleftrightarrow> x = y"
  by (metis parse_print result.inject(1))

end

section \<open>Verifications\<close>

datatype VerificationVerdict = Passed | Failed | Inconclusive

fun verdict_str :: "VerificationVerdict \<Rightarrow> string" where
  "verdict_str Passed = ''passed''"
| "verdict_str VerificationVerdict.Failed = ''failed''"
| "verdict_str Inconclusive = ''inconclusive''"

definition verdict_of_str :: "string \<Rightarrow> VerificationVerdict" where
  "verdict_of_str s =
    (if s = ''passed'' then Passed else if s = ''failed'' then VerificationVerdict.Failed else Inconclusive)"

lemma verdict_roundtrip: "verdict_of_str (verdict_str v) = v"
  by (cases v) (simp_all add: verdict_of_str_def)

record Verification =
  v_id :: ident
  v_task_id :: ident
  v_verifier_kind :: string
  v_verdict :: VerificationVerdict
  v_evidence :: json
  v_failure_reason :: "string option"
  v_duration_ms :: u64
  v_created_at :: time

definition Verification_new ::
  "ident \<Rightarrow> time \<Rightarrow> ident \<Rightarrow> string \<Rightarrow> VerificationVerdict \<Rightarrow> json \<Rightarrow> u64 \<Rightarrow> Verification" where
  "Verification_new fresh now task_id kind verdict evidence duration_ms =
    \<lparr>v_id = fresh, v_task_id = task_id, v_verifier_kind = kind, v_verdict = verdict, v_evidence = evidence,
     v_failure_reason = None, v_duration_ms = duration_ms, v_created_at = now\<rparr>"

definition Verification_with_failure_reason :: "string \<Rightarrow> Verification \<Rightarrow> Verification" where
  "Verification_with_failure_reason why v = v\<lparr>v_failure_reason := Some why\<rparr>"

section \<open>Messages\<close>

datatype MessageType =
    Question
  | Request
  | Result
  | Handoff
  | Warning
  | Review
  | Rejection
  | Proposal
  | ArtifactReference

fun message_type_str :: "MessageType \<Rightarrow> string" where
  "message_type_str Question = ''question''"
| "message_type_str Request = ''request''"
| "message_type_str Result = ''result''"
| "message_type_str Handoff = ''handoff''"
| "message_type_str Warning = ''warning''"
| "message_type_str Review = ''review''"
| "message_type_str Rejection = ''rejection''"
| "message_type_str Proposal = ''proposal''"
| "message_type_str ArtifactReference = ''artifact_reference''"

record AgentMessage =
  msg_id :: ident
  msg_from_agent :: ident
  msg_to_agent :: ident
  msg_workflow_id :: ident
  msg_task_id :: "ident option"
  msg_message_type :: MessageType
  msg_content :: string
  msg_payload :: json
  msg_created_at :: time

definition AgentMessage_new :: "ident \<Rightarrow> time \<Rightarrow> ident \<Rightarrow> ident \<Rightarrow> ident \<Rightarrow> MessageType \<Rightarrow> string \<Rightarrow> AgentMessage" where
  "AgentMessage_new fresh now from_agent to_agent workflow_id message_type content =
    \<lparr>msg_id = fresh, msg_from_agent = from_agent, msg_to_agent = to_agent, msg_workflow_id = workflow_id,
     msg_task_id = None, msg_message_type = message_type, msg_content = content, msg_payload = JNull,
     msg_created_at = now\<rparr>"

section \<open>Planning records\<close>

datatype PlanStatus = Proposed | Validated | Applied | Rejected

fun PlanStatus_as_str :: "PlanStatus \<Rightarrow> string" where
  "PlanStatus_as_str Proposed = ''proposed''"
| "PlanStatus_as_str Validated = ''validated''"
| "PlanStatus_as_str Applied = ''applied''"
| "PlanStatus_as_str PlanStatus.Rejected = ''rejected''"

definition plan_status_of_str :: "string \<Rightarrow> PlanStatus" where
  "plan_status_of_str s =
    (if s = ''validated'' then Validated else if s = ''applied'' then Applied
     else if s = ''rejected'' then PlanStatus.Rejected else Proposed)"

lemma plan_status_roundtrip: "plan_status_of_str (PlanStatus_as_str s) = s"
  by (cases s) (simp_all add: plan_status_of_str_def)

record PlanningRecord =
  pl_id :: ident
  pl_workflow_id :: ident
  pl_parent_task_id :: "ident option"
  pl_objective :: string
  pl_provider :: string
  pl_model :: string
  pl_proposal :: json
  pl_status :: PlanStatus
  pl_validation_errors :: "string list"
  pl_applied_mutations :: json
  pl_latency_ms :: u64
  pl_prompt_tokens :: "u32 option"
  pl_completion_tokens :: "u32 option"
  pl_created_at :: time

definition PlanningRecord_new ::
  "ident \<Rightarrow> time \<Rightarrow> ident \<Rightarrow> string \<Rightarrow> string \<Rightarrow> string \<Rightarrow> json \<Rightarrow> PlanningRecord" where
  "PlanningRecord_new fresh now workflow_id objective provider model proposal =
    \<lparr>pl_id = fresh, pl_workflow_id = workflow_id, pl_parent_task_id = None, pl_objective = objective,
     pl_provider = provider, pl_model = model, pl_proposal = proposal, pl_status = Proposed,
     pl_validation_errors = [], pl_applied_mutations = JNull, pl_latency_ms = 0, pl_prompt_tokens = None,
     pl_completion_tokens = None, pl_created_at = now\<rparr>"

definition PlanningRecord_with_validation :: "bool \<Rightarrow> string list \<Rightarrow> PlanningRecord \<Rightarrow> PlanningRecord" where
  "PlanningRecord_with_validation is_valid errors p =
    (if is_valid then p\<lparr>pl_status := Validated\<rparr>
     else p\<lparr>pl_status := PlanStatus.Rejected, pl_validation_errors := errors\<rparr>)"

definition PlanningRecord_mark_applied :: "json \<Rightarrow> PlanningRecord \<Rightarrow> PlanningRecord" where
  "PlanningRecord_mark_applied mutations p = p\<lparr>pl_status := Applied, pl_applied_mutations := mutations\<rparr>"

definition PlanningRecord_with_telemetry ::
  "u64 \<Rightarrow> u32 option \<Rightarrow> u32 option \<Rightarrow> PlanningRecord \<Rightarrow> PlanningRecord" where
  "PlanningRecord_with_telemetry latency prompt completion p =
    p\<lparr>pl_latency_ms := latency, pl_prompt_tokens := prompt, pl_completion_tokens := completion\<rparr>"

section \<open>Memories\<close>

datatype MemoryScope = System | User | Project | Workflow | Task | Agent | Session | Artifact

fun MemoryScope_as_str :: "MemoryScope \<Rightarrow> string" where
  "MemoryScope_as_str MemoryScope.System = ''system''"
| "MemoryScope_as_str User = ''user''"
| "MemoryScope_as_str Project = ''project''"
| "MemoryScope_as_str MemoryScope.Workflow = ''workflow''"
| "MemoryScope_as_str MemoryScope.Task = ''task''"
| "MemoryScope_as_str MemoryScope.Agent = ''agent''"
| "MemoryScope_as_str Session = ''session''"
| "MemoryScope_as_str Artifact = ''artifact''"

definition MemoryScope_match_str :: "string \<Rightarrow> (MemoryScope, string) result" where
  "MemoryScope_match_str s =
    (if s = ''system'' then Ok MemoryScope.System else if s = ''user'' then Ok User
     else if s = ''project'' then Ok Project else if s = ''workflow'' then Ok MemoryScope.Workflow
     else if s = ''task'' then Ok MemoryScope.Task else if s = ''agent'' then Ok MemoryScope.Agent
     else if s = ''session'' then Ok Session else if s = ''artifact'' then Ok Artifact
     else Err (''Unknown memory scope: '' @ s))"

definition MemoryScope_from_str :: "string \<Rightarrow> (MemoryScope, string) result" where
  "MemoryScope_from_str s = MemoryScope_match_str (str_to_lowercase s)"

datatype MemoryState = Active | Superseded | Archived | Deleted

fun MemoryState_as_str :: "MemoryState \<Rightarrow> string" where
  "MemoryState_as_str MemoryState.Active = ''active''"
| "MemoryState_as_str Superseded = ''superseded''"
| "MemoryState_as_str Archived = ''archived''"
| "MemoryState_as_str Deleted = ''deleted''"

definition MemoryState_match_str :: "string \<Rightarrow> (MemoryState, string) result" where
  "MemoryState_match_str s =
    (if s = ''active'' then Ok MemoryState.Active else if s = ''superseded'' then Ok Superseded
     else if s = ''archived'' then Ok Archived else if s = ''deleted'' then Ok Deleted
     else Err (''Unknown memory state: '' @ s))"

definition MemoryState_from_str :: "string \<Rightarrow> (MemoryState, string) result" where
  "MemoryState_from_str s = MemoryState_match_str (str_to_lowercase s)"

text \<open>Equal strings of the two enums are the same: the columns are read back unchanged.\<close>

interpretation scope_codec: lower_codec MemoryScope_as_str MemoryScope_from_str MemoryScope_match_str
proof
  fix s show "MemoryScope_from_str s = MemoryScope_match_str (str_to_lowercase s)" by (simp add: MemoryScope_from_str_def)
  fix x show "MemoryScope_match_str (MemoryScope_as_str x) = Ok x" by (cases x) (simp_all add: MemoryScope_match_str_def)
  show "str_to_lowercase (MemoryScope_as_str x) = MemoryScope_as_str x" by (induction x) code_simp+
qed

interpretation memory_codec: lower_codec MemoryState_as_str MemoryState_from_str MemoryState_match_str
proof
  fix s show "MemoryState_from_str s = MemoryState_match_str (str_to_lowercase s)" by (simp add: MemoryState_from_str_def)
  fix x show "MemoryState_match_str (MemoryState_as_str x) = Ok x" by (cases x) (simp_all add: MemoryState_match_str_def)
  show "str_to_lowercase (MemoryState_as_str x) = MemoryState_as_str x" by (induction x) code_simp+
qed

type_synonym single = int

definition single_one :: single where
  "single_one = 2 ^ 149"

record MemoryProvenance =
  originating_task_id :: "ident option"
  originating_workflow_id :: "ident option"
  originating_session_id :: "ident option"
  originating_agent_id :: "ident option"
  source_event_id :: "ident option"
  retrieval_reason :: "string option"

definition MemoryProvenance_default :: MemoryProvenance where
  "MemoryProvenance_default = \<lparr>originating_task_id = None, originating_workflow_id = None, originating_session_id = None,
     originating_agent_id = None, source_event_id = None, retrieval_reason = None\<rparr>"

record MemoryRecord =
  mem_id :: ident
  mem_scope :: MemoryScope
  mem_scope_id :: "string option"
  mem_source :: string
  mem_content :: string
  mem_embedding :: "single list option"
  mem_importance :: single
  mem_metadata :: json
  mem_provenance :: MemoryProvenance
  mem_state :: MemoryState
  mem_superseded_by :: "ident option"
  mem_created_at :: time
  mem_updated_at :: time
  mem_accessed_at :: "time option"
  mem_access_count :: u32

definition MemoryRecord_new :: "ident \<Rightarrow> time \<Rightarrow> MemoryScope \<Rightarrow> string \<Rightarrow> string \<Rightarrow> MemoryRecord" where
  "MemoryRecord_new fresh now scope source content =
    \<lparr>mem_id = fresh, mem_scope = scope, mem_scope_id = None, mem_source = source, mem_content = content,
     mem_embedding = None, mem_importance = single_one div 2, mem_metadata = JObj [],
     mem_provenance = MemoryProvenance_default, mem_state = MemoryState.Active, mem_superseded_by = None,
     mem_created_at = now, mem_updated_at = now, mem_accessed_at = None, mem_access_count = 0\<rparr>"

definition MemoryRecord_with_importance :: "single \<Rightarrow> MemoryRecord \<Rightarrow> MemoryRecord" where
  "MemoryRecord_with_importance x m = m\<lparr>mem_importance := max 0 (min single_one x)\<rparr>"

definition MemoryRecord_mark_accessed :: "time \<Rightarrow> MemoryRecord \<Rightarrow> MemoryRecord" where
  "MemoryRecord_mark_accessed now m = m\<lparr>mem_accessed_at := Some now, mem_access_count := mem_access_count m + 1\<rparr>"

definition MemoryRecord_supersede_with :: "time \<Rightarrow> ident \<Rightarrow> MemoryRecord \<Rightarrow> MemoryRecord" where
  "MemoryRecord_supersede_with now i m =
    m\<lparr>mem_state := Superseded, mem_superseded_by := Some i, mem_updated_at := now\<rparr>"

definition MemoryRecord_archive :: "time \<Rightarrow> MemoryRecord \<Rightarrow> MemoryRecord" where
  "MemoryRecord_archive now m = m\<lparr>mem_state := Archived, mem_updated_at := now\<rparr>"

definition MemoryRecord_soft_delete :: "time \<Rightarrow> MemoryRecord \<Rightarrow> MemoryRecord" where
  "MemoryRecord_soft_delete now m = m\<lparr>mem_state := Deleted, mem_updated_at := now\<rparr>"

section \<open>Recovery records\<close>

datatype RecoveryResult = InProgress | Succeeded | Failed | Escalated

fun RecoveryResult_as_str :: "RecoveryResult \<Rightarrow> string" where
  "RecoveryResult_as_str InProgress = ''in_progress''"
| "RecoveryResult_as_str Succeeded = ''succeeded''"
| "RecoveryResult_as_str RecoveryResult.Failed = ''failed''"
| "RecoveryResult_as_str Escalated = ''escalated''"

definition RecoveryResult_match_str :: "string \<Rightarrow> (RecoveryResult, string) result" where
  "RecoveryResult_match_str s =
    (if s = ''in_progress'' then Ok InProgress else if s = ''succeeded'' then Ok Succeeded
     else if s = ''failed'' then Ok RecoveryResult.Failed else if s = ''escalated'' then Ok Escalated
     else Err (''Unknown recovery result: '' @ s))"

definition RecoveryResult_from_str :: "string \<Rightarrow> (RecoveryResult, string) result" where
  "RecoveryResult_from_str s = RecoveryResult_match_str (str_to_lowercase s)"

interpretation recovery_codec: lower_codec RecoveryResult_as_str RecoveryResult_from_str RecoveryResult_match_str
proof
  fix s show "RecoveryResult_from_str s = RecoveryResult_match_str (str_to_lowercase s)" by (simp add: RecoveryResult_from_str_def)
  fix x show "RecoveryResult_match_str (RecoveryResult_as_str x) = Ok x" by (cases x) (simp_all add: RecoveryResult_match_str_def)
  show "str_to_lowercase (RecoveryResult_as_str x) = RecoveryResult_as_str x" by (induction x) code_simp+
qed

record RecoveryRecord =
  rv_id :: ident
  rv_task_id :: ident
  rv_workflow_id :: ident
  rv_execution_id :: "ident option"
  rv_attempt :: u32
  rv_strategy :: string
  rv_strategy_version :: u32
  rv_failure_reason :: string
  rv_diagnosis :: json
  rv_recovery_action :: string
  rv_action_reason :: "string option"
  rv_result :: RecoveryResult
  rv_created_at :: time
  rv_updated_at :: time

definition RecoveryRecord_new ::
  "ident \<Rightarrow> time \<Rightarrow> ident \<Rightarrow> ident \<Rightarrow> u32 \<Rightarrow> string \<Rightarrow> string \<Rightarrow> string \<Rightarrow> RecoveryRecord" where
  "RecoveryRecord_new fresh now task_id workflow_id attempt strategy failure_reason recovery_action =
    \<lparr>rv_id = fresh, rv_task_id = task_id, rv_workflow_id = workflow_id, rv_execution_id = None, rv_attempt = attempt,
     rv_strategy = strategy, rv_strategy_version = 1, rv_failure_reason = failure_reason, rv_diagnosis = JObj [],
     rv_recovery_action = recovery_action, rv_action_reason = None, rv_result = InProgress,
     rv_created_at = now, rv_updated_at = now\<rparr>"

definition RecoveryRecord_mark :: "RecoveryResult \<Rightarrow> time \<Rightarrow> RecoveryRecord \<Rightarrow> RecoveryRecord" where
  "RecoveryRecord_mark result now r = r\<lparr>rv_result := result, rv_updated_at := now\<rparr>"

definition RecoveryRecord_mark_succeeded :: "time \<Rightarrow> RecoveryRecord \<Rightarrow> RecoveryRecord" where
  "RecoveryRecord_mark_succeeded = RecoveryRecord_mark Succeeded"

definition RecoveryRecord_mark_failed :: "time \<Rightarrow> RecoveryRecord \<Rightarrow> RecoveryRecord" where
  "RecoveryRecord_mark_failed = RecoveryRecord_mark RecoveryResult.Failed"

definition RecoveryRecord_mark_escalated :: "time \<Rightarrow> RecoveryRecord \<Rightarrow> RecoveryRecord" where
  "RecoveryRecord_mark_escalated = RecoveryRecord_mark Escalated"

end
