(* ===== verification/Storage.thy ===== *)
theory Storage
  imports Graph_Queries Workspace_Model Mission_Model Records
begin

text \<open>The SQLite store of plexis-storage (sqlite/store.rs and the schema of the
migrations): tables as lists of rows in rowid order, with the primary keys, unique
columns and foreign keys of the schema checked by every insertion. A method is a
function of the database that returns the database it leaves; a transaction that
returns an error leaves the database as it was. The text encoding of a column
(identifiers, JSON, RFC 3339 timestamps) is taken to be faithful and order
preserving; state columns hold the as\_str text of the state, which the codec
contracts of States show to be read back unchanged. An error message keeps its
constructor and its entity, not its text.\<close>

datatype StorageError =
    Sqlite string
  | StateTransition StateTransitionError
  | NotFound string ident
  | IdempotencyConflict string
  | LeaseConflict ident
  | Migration string

section \<open>Rows and the database\<close>

record TaskRow =
  r_task :: Task
  r_generation :: nat

text \<open>Of an event the store keeps here what its queries and its pruning read: the JSON
payload and the actor, causation and correlation texts, which the program writes for
the audit and only returns to clients, are left out.\<close>

record Event =
  e_id :: ident
  e_aggregate_type :: string
  e_aggregate_id :: ident
  e_event_type :: string
  e_timestamp :: time
  e_sequence :: "nat option"

record Db =
  db_workflows :: "Workflow list"
  db_tasks :: "TaskRow list"
  db_deps :: "(ident \<times> ident) list"
  db_agents :: "Agent list"
  db_sessions :: "Session list"
  db_leases :: "Lease list"
  db_executions :: "Execution list"
  db_commands :: "Command list"
  db_events :: "(nat \<times> Event) list"
  db_messages :: "AgentMessage list"
  db_approvals :: "ApprovalRecord list"
  db_workspaces :: "Workspace list"
  db_missions :: "Mission list"
  db_cycles :: "MissionCycle list"
  db_checkpoints :: "MissionCheckpoint list"
  db_verifications :: "Verification list"
  db_plans :: "PlanningRecord list"
  db_memories :: "MemoryRecord list"
  db_recoveries :: "RecoveryRecord list"

definition db_empty :: Db where
  "db_empty = \<lparr>db_workflows = [], db_tasks = [], db_deps = [], db_agents = [], db_sessions = [],
     db_leases = [], db_executions = [], db_commands = [], db_events = [], db_messages = [],
     db_approvals = [], db_workspaces = [], db_missions = [], db_cycles = [], db_checkpoints = [],
     db_verifications = [], db_plans = [], db_memories = [], db_recoveries = []\<rparr>"

text \<open>Keyed access to a table: the SELECT, UPDATE and DELETE statements with an
equality on the key column.\<close>

definition tbl_get :: "('r \<Rightarrow> 'k) \<Rightarrow> 'k \<Rightarrow> 'r list \<Rightarrow> 'r option" where
  "tbl_get key k rows = List.find (\<lambda>r. key r = k) rows"

definition tbl_has :: "('r \<Rightarrow> 'k) \<Rightarrow> 'k \<Rightarrow> 'r list \<Rightarrow> bool" where
  "tbl_has key k rows = (k \<in> key ` set rows)"

definition tbl_modify :: "('r \<Rightarrow> 'k) \<Rightarrow> 'k \<Rightarrow> ('r \<Rightarrow> 'r) \<Rightarrow> 'r list \<Rightarrow> 'r list" where
  "tbl_modify key k f rows = map (\<lambda>r. if key r = k then f r else r) rows"

definition tbl_delete :: "('r \<Rightarrow> bool) \<Rightarrow> 'r list \<Rightarrow> 'r list" where
  "tbl_delete P rows = filter (\<lambda>r. \<not> P r) rows"

lemma tbl_get_None: "tbl_get key k rows = None \<longleftrightarrow> \<not> tbl_has key k rows"
  by (auto simp: tbl_get_def tbl_has_def find_None_iff)

lemma tbl_get_key: "tbl_get key k rows = Some r \<Longrightarrow> r \<in> set rows \<and> key r = k"
  by (auto simp: tbl_get_def find_Some_iff)

lemma tbl_get_unique:
  "distinct (map key rows) \<Longrightarrow> tbl_get key k rows = Some r \<longleftrightarrow> r \<in> set rows \<and> key r = k"
  by (induction rows) (auto simp: tbl_get_def)

lemma tbl_get_append:
  "tbl_get key k (rows @ [r]) = (case tbl_get key k rows of Some q \<Rightarrow> Some q
     | None \<Rightarrow> if key r = k then Some r else None)"
  by (induction rows) (auto simp: tbl_get_def)

lemma tbl_modify_keys: "(\<And>r. key (f r) = key r) \<Longrightarrow> map key (tbl_modify key k f rows) = map key rows"
  by (induction rows) (auto simp: tbl_modify_def)

lemma tbl_get_modify:
  "(\<And>r. key (f r) = key r) \<Longrightarrow> tbl_get key j (tbl_modify key k f rows) =
     (if j = k then map_option f (tbl_get key j rows) else tbl_get key j rows)"
  by (induction rows) (auto simp: tbl_get_def tbl_modify_def)

lemma tbl_get_overwrite:
  "(\<And>r. key (f r) = k) \<Longrightarrow> tbl_get key j (tbl_modify key k f rows) =
     (if j = k then map_option f (tbl_get key j rows) else tbl_get key j rows)"
  by (induction rows) (auto simp: tbl_get_def tbl_modify_def)

lemma tbl_has_overwrite [simp]:
  "(\<And>r. key (f r) = k) \<Longrightarrow> tbl_has key j (tbl_modify key k f rows) \<longleftrightarrow> tbl_has key j rows"
  by (induction rows) (auto simp: tbl_has_def tbl_modify_def)

lemma tbl_has_modify [simp]:
  "(\<And>r. key (f r) = key r) \<Longrightarrow> tbl_has key j (tbl_modify key k f rows) \<longleftrightarrow> tbl_has key j rows"
  by (simp add: tbl_has_def tbl_modify_keys flip: set_map)

lemma tbl_delete_subset: "set (tbl_delete P rows) \<subseteq> set rows"
  by (auto simp: tbl_delete_def)

lemma tbl_get_Cons:
  "tbl_get key k (r # rows) = (if key r = k then Some r else tbl_get key k rows)"
  by (simp add: tbl_get_def)

lemma tbl_delete_Cons:
  "tbl_delete P (r # rows) = (if P r then tbl_delete P rows else r # tbl_delete P rows)"
  by (simp add: tbl_delete_def)

lemma tbl_get_delete:
  "distinct (map key rows) \<Longrightarrow> tbl_get key k (tbl_delete P rows) =
     (case tbl_get key k rows of None \<Rightarrow> None | Some r \<Rightarrow> if P r then None else Some r)"
proof (induction rows)
  case Nil
  then show ?case by (simp add: tbl_get_def tbl_delete_def)
next
  case (Cons a rows)
  show ?case
  proof (cases "key a = k")
    case True
    then have "tbl_get key k rows = None" using Cons.prems by (auto simp: tbl_get_None tbl_has_def)
    then show ?thesis using Cons True by (simp add: tbl_get_Cons tbl_delete_Cons)
  next
    case False
    then show ?thesis using Cons by (simp add: tbl_get_Cons tbl_delete_Cons)
  qed
qed

section \<open>Workflows, agents and sessions\<close>

definition row_id :: "TaskRow \<Rightarrow> ident" where
  "row_id r = t_id (r_task r)"

definition create_workflow :: "Workflow \<Rightarrow> (Db, unit, StorageError) op" where
  "create_workflow w db =
    (if tbl_has w_id (w_id w) (db_workflows db) then (db, Err (Sqlite ''UNIQUE constraint failed''))
     else (db\<lparr>db_workflows := db_workflows db @ [w]\<rparr>, Ok ()))"

definition get_workflow :: "ident \<Rightarrow> Db \<Rightarrow> Workflow option" where
  "get_workflow i db = tbl_get w_id i (db_workflows db)"

definition update_workflow :: "Workflow \<Rightarrow> (Db, unit, StorageError) op" where
  "update_workflow w db =
    (if tbl_has w_id (w_id w) (db_workflows db)
     then (db\<lparr>db_workflows := tbl_modify w_id (w_id w) (\<lambda>r. r\<lparr>w_workspace_id := w_workspace_id w,
             w_title := w_title w, w_objective := w_objective w, w_state := w_state w,
             w_metadata := w_metadata w, w_updated_at := w_updated_at w\<rparr>) (db_workflows db)\<rparr>, Ok ())
     else (db, Err (NotFound ''Workflow'' (w_id w))))"

definition list_workflows :: "Db \<Rightarrow> Workflow list" where
  "list_workflows db = sort_key (\<lambda>w. - w_created_at w) (db_workflows db)"

definition create_agent :: "Agent \<Rightarrow> (Db, unit, StorageError) op" where
  "create_agent a db =
    (if tbl_has a_id (a_id a) (db_agents db) then (db, Err (Sqlite ''UNIQUE constraint failed''))
     else (db\<lparr>db_agents := db_agents db @ [a]\<rparr>, Ok ()))"

definition get_agent :: "ident \<Rightarrow> Db \<Rightarrow> Agent option" where
  "get_agent i db = tbl_get a_id i (db_agents db)"

definition update_agent :: "Agent \<Rightarrow> (Db, unit, StorageError) op" where
  "update_agent a db =
    (if tbl_has a_id (a_id a) (db_agents db)
     then (db\<lparr>db_agents := tbl_modify a_id (a_id a)
             (\<lambda>r. a\<lparr>a_created_at := a_created_at r\<rparr>) (db_agents db)\<rparr>, Ok ())
     else (db, Err (NotFound ''Agent'' (a_id a))))"

definition list_agents :: "Db \<Rightarrow> Agent list" where
  "list_agents db = sort_key a_created_at (db_agents db)"

text \<open>The sessions table has no state column: a loaded session is closed when its
closing time is set and active otherwise.\<close>

definition session_of_row :: "Session \<Rightarrow> Session" where
  "session_of_row r =
    r\<lparr>s_state := (if s_closed_at r \<noteq> None then SessionState.Closed else SessionState.Active)\<rparr>"

definition create_session :: "Session \<Rightarrow> (Db, unit, StorageError) op" where
  "create_session s db =
    (if tbl_has s_id (s_id s) (db_sessions db) then (db, Err (Sqlite ''UNIQUE constraint failed''))
     else if \<not> tbl_has a_id (s_agent_id s) (db_agents db)
     then (db, Err (Sqlite ''FOREIGN KEY constraint failed''))
     else (db\<lparr>db_sessions := db_sessions db @ [s]\<rparr>, Ok ()))"

definition get_session :: "ident \<Rightarrow> Db \<Rightarrow> Session option" where
  "get_session i db = map_option session_of_row (tbl_get s_id i (db_sessions db))"

definition update_session :: "Session \<Rightarrow> (Db, unit, StorageError) op" where
  "update_session s db =
    (if tbl_has s_id (s_id s) (db_sessions db)
     then (db\<lparr>db_sessions := tbl_modify s_id (s_id s) (\<lambda>r. r\<lparr>s_provider_session_id := s_provider_session_id s,
             s_working_directory := s_working_directory s, s_metadata := s_metadata s,
             s_updated_at := s_updated_at s, s_closed_at := s_closed_at s\<rparr>) (db_sessions db)\<rparr>, Ok ())
     else (db, Err (NotFound ''Session'' (s_id s))))"

definition list_sessions_by_agent :: "ident \<Rightarrow> Db \<Rightarrow> Session list" where
  "list_sessions_by_agent a db =
    sort_key (\<lambda>s. - s_created_at s) (map session_of_row (filter (\<lambda>s. s_agent_id s = a) (db_sessions db)))"

section \<open>Tasks and dependencies\<close>

definition insert_task_row :: "Task \<Rightarrow> (Db, unit, StorageError) op" where
  "insert_task_row t db =
    (if tbl_has row_id (t_id t) (db_tasks db) then (db, Err (Sqlite ''UNIQUE constraint failed''))
     else if \<not> tbl_has w_id (t_workflow_id t) (db_workflows db)
     then (db, Err (Sqlite ''FOREIGN KEY constraint failed''))
     else if (case t_parent_id t of None \<Rightarrow> False
               | Some p \<Rightarrow> p \<noteq> t_id t \<and> \<not> tbl_has row_id p (db_tasks db))
     then (db, Err (Sqlite ''FOREIGN KEY constraint failed''))
     else (db\<lparr>db_tasks := db_tasks db @ [\<lparr>r_task = t, r_generation = 0\<rparr>]\<rparr>, Ok ()))"

definition create_task :: "Task \<Rightarrow> (Db, unit, StorageError) op" where
  "create_task t = insert_task_row t"

definition db_get_task :: "ident \<Rightarrow> Db \<Rightarrow> Task option" where
  "db_get_task i db = map_option r_task (tbl_get row_id i (db_tasks db))"

definition update_task :: "Task \<Rightarrow> (Db, unit, StorageError) op" where
  "update_task t db =
    (if \<not> tbl_has row_id (t_id t) (db_tasks db) then (db, Err (NotFound ''Task'' (t_id t)))
     else if (case t_parent_id t of None \<Rightarrow> False | Some p \<Rightarrow> \<not> tbl_has row_id p (db_tasks db))
     then (db, Err (Sqlite ''FOREIGN KEY constraint failed''))
     else (db\<lparr>db_tasks := tbl_modify row_id (t_id t) (\<lambda>r. r\<lparr>r_task := t\<lparr>
             t_workflow_id := t_workflow_id (r_task r), t_created_at := t_created_at (r_task r)\<rparr>\<rparr>)
             (db_tasks db)\<rparr>, Ok ()))"

definition list_tasks_by_workflow :: "ident \<Rightarrow> Db \<Rightarrow> Task list" where
  "list_tasks_by_workflow w db =
    sort_key (\<lambda>t. (- t_priority t, t_created_at t))
      (filter (\<lambda>t. t_workflow_id t = w) (map r_task (db_tasks db)))"

text \<open>INSERT OR IGNORE: a duplicate pair is ignored, a foreign key violation is not.\<close>

definition db_add_dependency :: "ident \<Rightarrow> ident \<Rightarrow> (Db, unit, StorageError) op" where
  "db_add_dependency task_id depends_on_id db =
    (if (task_id, depends_on_id) \<in> set (db_deps db) then (db, Ok ())
     else if \<not> tbl_has row_id task_id (db_tasks db) \<or> \<not> tbl_has row_id depends_on_id (db_tasks db)
     then (db, Err (Sqlite ''FOREIGN KEY constraint failed''))
     else (db\<lparr>db_deps := db_deps db @ [(task_id, depends_on_id)]\<rparr>, Ok ()))"

definition db_remove_dependency :: "ident \<Rightarrow> ident \<Rightarrow> (Db, unit, StorageError) op" where
  "db_remove_dependency task_id depends_on_id db =
    (db\<lparr>db_deps := tbl_delete (\<lambda>e. e = (task_id, depends_on_id)) (db_deps db)\<rparr>, Ok ())"

definition get_dependencies :: "ident \<Rightarrow> Db \<Rightarrow> ident list" where
  "get_dependencies i db = map snd (filter (\<lambda>e. fst e = i) (db_deps db))"

definition get_dependents :: "ident \<Rightarrow> Db \<Rightarrow> ident list" where
  "get_dependents i db = map fst (filter (\<lambda>e. snd e = i) (db_deps db))"

text \<open>The rows of the join: dependencies whose task belongs to the workflow.\<close>

definition workflow_edges :: "ident \<Rightarrow> Db \<Rightarrow> (ident \<times> ident) list" where
  "workflow_edges w db =
    filter (\<lambda>(i, _). \<exists>r \<in> set (db_tasks db). row_id r = i \<and> t_workflow_id (r_task r) = w) (db_deps db)"

definition load_task_graph :: "ident \<Rightarrow> Db \<Rightarrow> (TaskGraph, StorageError) result" where
  "load_task_graph w db =
    (let graph = fold add_task (list_tasks_by_workflow w db) graph_new
     in case for_each (\<lambda>(i, j). add_dependency i j) (workflow_edges w db) graph of
          (g, Ok _) \<Rightarrow> Ok g
        | (_, Err _) \<Rightarrow> Err (Migration ''graph''))"

definition get_current_lease_generation :: "ident \<Rightarrow> Db \<Rightarrow> nat" where
  "get_current_lease_generation i db =
    (case tbl_get row_id i (db_tasks db) of Some r \<Rightarrow> r_generation r | None \<Rightarrow> 0)"

end
