(* ===== verification/Storage_Commands.thy ===== *)
theory Storage_Commands
  imports Storage
begin

text \<open>The remaining stores of plexis-storage: the transactional decomposition, leases
with their fencing generations, executions, commands with their idempotency keys and
atomic claims, audit events with their sequence numbers, approvals and retention.\<close>

section \<open>Transactional decomposition\<close>

text \<open>The statements run in a transaction that is rolled back on the first error.\<close>

definition transaction :: "(Db, 'a, StorageError) op \<Rightarrow> (Db, 'a, StorageError) op" where
  "transaction m db = (case m db of (db', Ok a) \<Rightarrow> (db', Ok a) | (_, Err e) \<Rightarrow> (db, Err e))"

definition insert_deps :: "(ident \<times> ident) list \<Rightarrow> (Db, unit, StorageError) op" where
  "insert_deps = for_each (\<lambda>(i, j). db_add_dependency i j)"

definition rewire_downstream :: "ident \<Rightarrow> ident list \<Rightarrow> ident \<Rightarrow> (Db, unit, StorageError) op" where
  "rewire_downstream parent_id terminals downstream =
    st_then (db_remove_dependency downstream parent_id)
      (\<lambda>_. insert_deps (map (\<lambda>term_id. (downstream, term_id)) terminals))"

definition discard_parent :: "time \<Rightarrow> ident \<Rightarrow> (Db, unit, StorageError) op" where
  "discard_parent now parent_id db =
    (db\<lparr>db_tasks := tbl_modify row_id parent_id
        (\<lambda>r. r\<lparr>r_task := (r_task r)\<lparr>t_state := TaskState.Discarded, t_updated_at := now\<rparr>\<rparr>) (db_tasks db)\<rparr>, Ok ())"

definition inherited_deps :: "Task list \<Rightarrow> (ident \<times> ident) list \<Rightarrow> ident list \<Rightarrow> (ident \<times> ident) list" where
  "inherited_deps children child_dependencies parent_upstream =
    concat (map (\<lambda>c. map (Pair (t_id c)) parent_upstream)
      (filter (\<lambda>c. t_id c \<notin> fst ` set child_dependencies) children))"

definition decompose_task_transactional ::
  "time \<Rightarrow> ident \<Rightarrow> Task list \<Rightarrow> (ident \<times> ident) list \<Rightarrow> ident list \<Rightarrow> (Db, unit, StorageError) op" where
  "decompose_task_transactional now parent_id children child_dependencies terminal_child_ids db =
    (if \<not> tbl_has row_id parent_id (db_tasks db) then (db, Err (NotFound ''Task'' parent_id))
     else
       let upstream = get_dependencies parent_id db;
           downstream = get_dependents parent_id db
       in transaction
            (st_then (for_each (\<lambda>c. insert_task_row (c\<lparr>t_parent_id := Some parent_id\<rparr>)) children)
            (\<lambda>_. st_then (insert_deps child_dependencies)
            (\<lambda>_. st_then (insert_deps (inherited_deps children child_dependencies upstream))
            (\<lambda>_. st_then (for_each (rewire_downstream parent_id terminal_child_ids) downstream)
            (\<lambda>_. discard_parent now parent_id))))) db)"

section \<open>Leases\<close>

text \<open>The generation column is a signed 64-bit integer; incrementing its largest value
no longer reads back as an integer. Deleting a lease sets the lease column of the
executions that refer to it to NULL.\<close>

definition max_generation :: nat where
  "max_generation = 2 ^ 63 - 1"

definition increment_lease_generation :: "ident \<Rightarrow> (Db, u64, StorageError) op" where
  "increment_lease_generation i db =
    (case tbl_get row_id i (db_tasks db) of
       None \<Rightarrow> (db, Err (Sqlite ''Query returned no rows''))
     | Some r \<Rightarrow>
         if max_generation \<le> r_generation r then (db, Err (Sqlite ''Integer out of range''))
         else (db\<lparr>db_tasks := tbl_modify row_id i (\<lambda>r. r\<lparr>r_generation := r_generation r + 1\<rparr>) (db_tasks db)\<rparr>,
               Ok (of_nat (r_generation r + 1))))"

definition delete_leases :: "(Lease \<Rightarrow> bool) \<Rightarrow> Db \<Rightarrow> Db" where
  "delete_leases P db =
    db\<lparr>db_leases := tbl_delete P (db_leases db),
       db_executions := map (\<lambda>x. case x_lease_id x of None \<Rightarrow> x
           | Some i \<Rightarrow> if \<exists>l \<in> set (db_leases db). l_id l = i \<and> P l then x\<lparr>x_lease_id := None\<rparr> else x)
         (db_executions db)\<rparr>"

definition get_lease_by_task :: "ident \<Rightarrow> Db \<Rightarrow> Lease option" where
  "get_lease_by_task i db = tbl_get l_task_id i (db_leases db)"

definition insert_lease :: "Lease \<Rightarrow> (Db, Lease, StorageError) op" where
  "insert_lease l db =
    (if tbl_has l_id (l_id l) (db_leases db) \<or> tbl_has l_task_id (l_task_id l) (db_leases db)
     then (db, Err (Sqlite ''UNIQUE constraint failed''))
     else if \<not> tbl_has row_id (l_task_id l) (db_tasks db) \<or> \<not> tbl_has a_id (l_agent_id l) (db_agents db)
     then (db, Err (Sqlite ''FOREIGN KEY constraint failed''))
     else (db\<lparr>db_leases := db_leases db @ [l]\<rparr>, Ok l))"

definition acquire_lease :: "time \<Rightarrow> Lease \<Rightarrow> (Db, Lease, StorageError) op" where
  "acquire_lease now lease db =
    (case get_lease_by_task (l_task_id lease) db of
       Some old \<Rightarrow>
         if now < l_expires_at old then (db, Err (LeaseConflict (l_task_id lease)))
         else transaction
           (st_then (\<lambda>db. (delete_leases (\<lambda>l. l_id l = l_id old) db, Ok ()))
           (\<lambda>_. st_then (increment_lease_generation (l_task_id lease))
           (\<lambda>g. insert_lease (lease\<lparr>l_generation := g\<rparr>)))) db
     | None \<Rightarrow> transaction
           (st_then (increment_lease_generation (l_task_id lease))
           (\<lambda>g. insert_lease (lease\<lparr>l_generation := g\<rparr>))) db)"

definition renew_lease :: "ident \<Rightarrow> time \<Rightarrow> (Db, unit, StorageError) op" where
  "renew_lease lease_id new_expiry db =
    (if tbl_has l_id lease_id (db_leases db)
     then (db\<lparr>db_leases := tbl_modify l_id lease_id (\<lambda>l. l\<lparr>l_expires_at := new_expiry\<rparr>) (db_leases db)\<rparr>, Ok ())
     else (db, Err (NotFound ''Lease'' lease_id)))"

definition release_lease :: "ident \<Rightarrow> (Db, unit, StorageError) op" where
  "release_lease lease_id db = (delete_leases (\<lambda>l. l_id l = lease_id) db, Ok ())"

definition reclaim_expired_leases :: "time \<Rightarrow> (Db, ident list, StorageError) op" where
  "reclaim_expired_leases now db =
    (delete_leases (\<lambda>l. l_expires_at l \<le> now) db,
     Ok (map l_task_id (filter (\<lambda>l. l_expires_at l \<le> now) (db_leases db))))"

section \<open>Executions\<close>

definition create_execution :: "Execution \<Rightarrow> (Db, unit, StorageError) op" where
  "create_execution x db =
    (if tbl_has x_id (x_id x) (db_executions db) then (db, Err (Sqlite ''UNIQUE constraint failed''))
     else if \<not> tbl_has row_id (x_task_id x) (db_tasks db) \<or> \<not> tbl_has a_id (x_agent_id x) (db_agents db)
       \<or> (case x_session_id x of None \<Rightarrow> False | Some s \<Rightarrow> \<not> tbl_has s_id s (db_sessions db))
       \<or> (case x_lease_id x of None \<Rightarrow> False | Some l \<Rightarrow> \<not> tbl_has l_id l (db_leases db))
     then (db, Err (Sqlite ''FOREIGN KEY constraint failed''))
     else (db\<lparr>db_executions := db_executions db @ [x]\<rparr>, Ok ()))"

definition get_execution :: "ident \<Rightarrow> Db \<Rightarrow> Execution option" where
  "get_execution i db = tbl_get x_id i (db_executions db)"

definition update_execution :: "Execution \<Rightarrow> (Db, unit, StorageError) op" where
  "update_execution x db =
    (if tbl_has x_id (x_id x) (db_executions db)
     then (db\<lparr>db_executions := tbl_modify x_id (x_id x) (\<lambda>r. r\<lparr>x_state := x_state x,
             x_started_at := x_started_at x, x_completed_at := x_completed_at x,
             x_error_message := x_error_message x, x_metadata := x_metadata x,
             x_updated_at := x_updated_at x\<rparr>) (db_executions db)\<rparr>, Ok ())
     else (db, Err (NotFound ''Execution'' (x_id x))))"

definition list_executions_by_task :: "ident \<Rightarrow> Db \<Rightarrow> Execution list" where
  "list_executions_by_task i db =
    sort_key (\<lambda>x. unat (x_attempt x)) (filter (\<lambda>x. x_task_id x = i) (db_executions db))"

section \<open>Commands\<close>

definition enqueue_command :: "Command \<Rightarrow> (Db, unit, StorageError) op" where
  "enqueue_command c db =
    (if tbl_has c_id (c_id c) (db_commands db) \<or> tbl_has c_idempotency_key (c_idempotency_key c) (db_commands db)
     then (db, Err (IdempotencyConflict (c_idempotency_key c)))
     else (db\<lparr>db_commands := db_commands db @ [c]\<rparr>, Ok ()))"

definition get_command :: "ident \<Rightarrow> Db \<Rightarrow> Command option" where
  "get_command i db = tbl_get c_id i (db_commands db)"

definition get_by_idempotency_key :: "string \<Rightarrow> Db \<Rightarrow> Command option" where
  "get_by_idempotency_key k db = tbl_get c_idempotency_key k (db_commands db)"

definition claimable :: "Command \<Rightarrow> bool" where
  "claimable c = (CommandState_as_str (c_state c) \<in> {''queued'', ''retrying''})"

text \<open>The UPDATE of a claim and the SELECT that reads the row back; an attempt counter
that leaves the range of u32 is an error, and the transaction is rolled back.\<close>

definition dispatch_row :: "time \<Rightarrow> Command \<Rightarrow> Command" where
  "dispatch_row now c =
    c\<lparr>c_state := CommandState.Dispatched, c_attempts := c_attempts c + 1, c_dispatched_at := Some now\<rparr>"

definition claim_row :: "time \<Rightarrow> ident \<Rightarrow> (Db, Command option, StorageError) op" where
  "claim_row now i db =
    (case get_command i db of
       None \<Rightarrow> (db, Err (Sqlite ''Query returned no rows''))
     | Some c \<Rightarrow>
         if c_attempts c = - 1 then (db, Err (Sqlite ''Integer out of range''))
         else (db\<lparr>db_commands := tbl_modify c_id i (dispatch_row now) (db_commands db)\<rparr>,
               Ok (Some (dispatch_row now c))))"

definition claim_next_queued_command :: "time \<Rightarrow> (Db, Command option, StorageError) op" where
  "claim_next_queued_command now db =
    (case sort_key c_created_at (filter claimable (db_commands db)) of
       [] \<Rightarrow> (db, Ok None)
     | c # _ \<Rightarrow> claim_row now (c_id c) db)"

definition claim_command_by_id :: "time \<Rightarrow> ident \<Rightarrow> (Db, Command option, StorageError) op" where
  "claim_command_by_id now i db =
    (case List.find (\<lambda>c. c_id c = i \<and> claimable c) (db_commands db) of
       None \<Rightarrow> (db, Ok None)
     | Some c \<Rightarrow> claim_row now (c_id c) db)"

definition list_commands_by_state :: "CommandState \<Rightarrow> Db \<Rightarrow> Command list" where
  "list_commands_by_state s db =
    sort_key c_created_at (filter (\<lambda>c. CommandState_as_str (c_state c) = CommandState_as_str s) (db_commands db))"

definition update_command :: "Command \<Rightarrow> (Db, unit, StorageError) op" where
  "update_command c db =
    (db\<lparr>db_commands := tbl_modify c_id (c_id c) (\<lambda>r. r\<lparr>c_state := c_state c, c_attempts := c_attempts c,
        c_dispatched_at := c_dispatched_at c, c_completed_at := c_completed_at c\<rparr>) (db_commands db)\<rparr>, Ok ())"

section \<open>Events\<close>

text \<open>The sequence number of an event is its rowid. The table has no AUTOINCREMENT key,
so SQLite assigns one more than the largest rowid present, and 1 in an empty table.\<close>

definition next_rowid :: "(nat \<times> Event) list \<Rightarrow> nat" where
  "next_rowid rows = foldr max (map fst rows) 0 + 1"

definition append_event :: "Event \<Rightarrow> (Db, unit, StorageError) op" where
  "append_event e db =
    (if tbl_has (e_id \<circ> snd) (e_id e) (db_events db) then (db, Err (Sqlite ''UNIQUE constraint failed''))
     else (db\<lparr>db_events := db_events db @ [(next_rowid (db_events db), e)]\<rparr>, Ok ()))"

definition event_of_row :: "nat \<times> Event \<Rightarrow> Event" where
  "event_of_row r = (snd r)\<lparr>e_sequence := Some (fst r)\<rparr>"

definition list_events_by_aggregate :: "string \<Rightarrow> ident \<Rightarrow> Db \<Rightarrow> Event list" where
  "list_events_by_aggregate ty i db =
    map event_of_row (sort_key fst
      (filter (\<lambda>r. e_aggregate_type (snd r) = ty \<and> e_aggregate_id (snd r) = i) (db_events db)))"

definition list_recent_events :: "nat \<Rightarrow> Db \<Rightarrow> Event list" where
  "list_recent_events limit db = map event_of_row (take limit (rev (sort_key fst (db_events db))))"

definition list_events_after :: "nat \<Rightarrow> nat \<Rightarrow> Db \<Rightarrow> Event list" where
  "list_events_after after_sequence limit db =
    map event_of_row (take limit (sort_key fst (filter (\<lambda>r. after_sequence < fst r) (db_events db))))"

definition get_latest_event_sequence :: "Db \<Rightarrow> nat" where
  "get_latest_event_sequence db = foldr max (map fst (db_events db)) 0"

section \<open>Approvals\<close>

definition create_approval :: "ApprovalRecord \<Rightarrow> (Db, unit, StorageError) op" where
  "create_approval a db =
    (if tbl_has ap_id (ap_id a) (db_approvals db) then (db, Err (Sqlite ''UNIQUE constraint failed''))
     else if \<not> tbl_has row_id (ap_task_id a) (db_tasks db) \<or> \<not> tbl_has w_id (ap_workflow_id a) (db_workflows db)
     then (db, Err (Sqlite ''FOREIGN KEY constraint failed''))
     else (db\<lparr>db_approvals := db_approvals db @ [a]\<rparr>, Ok ()))"

definition get_approval :: "ident \<Rightarrow> Db \<Rightarrow> ApprovalRecord option" where
  "get_approval i db = tbl_get ap_id i (db_approvals db)"

definition update_approval :: "ApprovalRecord \<Rightarrow> (Db, unit, StorageError) op" where
  "update_approval a db =
    (if tbl_has ap_id (ap_id a) (db_approvals db)
     then (db\<lparr>db_approvals := tbl_modify ap_id (ap_id a) (\<lambda>r. r\<lparr>ap_state := ap_state a,
             ap_reason := ap_reason a, ap_decided_at := ap_decided_at a\<rparr>) (db_approvals db)\<rparr>, Ok ())
     else (db, Err (NotFound ''ApprovalRecord'' (ap_id a))))"

definition list_pending_approvals :: "Db \<Rightarrow> ApprovalRecord list" where
  "list_pending_approvals db =
    sort_key ap_created_at (filter (\<lambda>a. ApprovalState_as_str (ap_state a) = ''pending'') (db_approvals db))"

section \<open>Retention\<close>

record RetentionPruneReport =
  pruned_events :: nat
  pruned_messages :: nat
  pruned_commands :: nat

text \<open>The state filter of the third statement is the literal text of the source. A NULL
completion time is never smaller than the bound.\<close>

definition prunable_command :: "time \<Rightarrow> Command \<Rightarrow> bool" where
  "prunable_command older_than c =
    ((case c_completed_at c of None \<Rightarrow> False | Some t \<Rightarrow> t < older_than) \<and>
     CommandState_as_str (c_state c) \<in> {''completed'', ''failed''})"

definition prune_historical_records :: "time \<Rightarrow> (Db, RetentionPruneReport, StorageError) op" where
  "prune_historical_records older_than db =
    (db\<lparr>db_events := tbl_delete (\<lambda>r. e_timestamp (snd r) < older_than) (db_events db),
        db_messages := tbl_delete (\<lambda>m. msg_created_at m < older_than) (db_messages db),
        db_commands := tbl_delete (prunable_command older_than) (db_commands db)\<rparr>,
     Ok \<lparr>pruned_events = length (filter (\<lambda>r. e_timestamp (snd r) < older_than) (db_events db)),
         pruned_messages = length (filter (\<lambda>m. msg_created_at m < older_than) (db_messages db)),
         pruned_commands = length (filter (prunable_command older_than) (db_commands db))\<rparr>)"

end
