(* ===== verification/Storage_Missions.thy ===== *)
theory Storage_Missions
  imports Storage_Commands
begin

text \<open>The workspace and mission tables of the SQLite store (sqlite/store.rs): a
workspace path is unique, a mission refers to an existing workspace and workflow, a
cycle record is keyed by its mission and cycle index, and updates of missions and
cycles that match no row succeed.\<close>

definition fk_ok :: "('r \<Rightarrow> 'k) \<Rightarrow> 'k option \<Rightarrow> 'r list \<Rightarrow> bool" where
  "fk_ok key ref rows = (case ref of None \<Rightarrow> True | Some k \<Rightarrow> tbl_has key k rows)"

section \<open>Workspaces\<close>

definition create_workspace :: "Workspace \<Rightarrow> (Db, unit, StorageError) op" where
  "create_workspace ws db =
    (if tbl_has ws_id (ws_id ws) (db_workspaces db) \<or>
        tbl_has ws_canonical_path (ws_canonical_path ws) (db_workspaces db)
     then (db, Err (Sqlite ''UNIQUE constraint failed''))
     else (db\<lparr>db_workspaces := db_workspaces db @ [ws]\<rparr>, Ok ()))"

definition get_workspace :: "ident \<Rightarrow> Db \<Rightarrow> Workspace option" where
  "get_workspace i db = tbl_get ws_id i (db_workspaces db)"

definition get_workspace_by_path :: "string \<Rightarrow> Db \<Rightarrow> Workspace option" where
  "get_workspace_by_path p db = tbl_get ws_canonical_path p (db_workspaces db)"

definition update_workspace :: "Workspace \<Rightarrow> (Db, unit, StorageError) op" where
  "update_workspace ws db =
    (if \<not> tbl_has ws_id (ws_id ws) (db_workspaces db) then (db, Err (NotFound ''Workspace'' (ws_id ws)))
     else if \<exists>r \<in> set (db_workspaces db). ws_id r \<noteq> ws_id ws \<and> ws_canonical_path r = ws_canonical_path ws
     then (db, Err (Sqlite ''UNIQUE constraint failed''))
     else (db\<lparr>db_workspaces := tbl_modify ws_id (ws_id ws)
             (\<lambda>r. ws\<lparr>ws_created_at := ws_created_at r\<rparr>) (db_workspaces db)\<rparr>, Ok ()))"

text \<open>ON DELETE SET NULL clears the reference of the missions of a deleted workspace.\<close>

definition delete_workspace :: "ident \<Rightarrow> (Db, unit, StorageError) op" where
  "delete_workspace i db =
    (db\<lparr>db_workspaces := tbl_delete (\<lambda>w. ws_id w = i) (db_workspaces db),
        db_missions := map (\<lambda>m. if m_workspace_id m = Some i then m\<lparr>m_workspace_id := None\<rparr> else m)
                         (db_missions db)\<rparr>, Ok ())"

definition list_workspaces :: "Db \<Rightarrow> Workspace list" where
  "list_workspaces db = sort_key (\<lambda>w. - ws_created_at w) (db_workspaces db)"

section \<open>Missions\<close>

definition mission_refs_ok :: "Mission \<Rightarrow> Db \<Rightarrow> bool" where
  "mission_refs_ok m db =
    (fk_ok ws_id (m_workspace_id m) (db_workspaces db) \<and>
     fk_ok w_id (m_active_workflow_id m) (db_workflows db))"

definition create_mission :: "Mission \<Rightarrow> (Db, unit, StorageError) op" where
  "create_mission m db =
    (if tbl_has m_id (m_id m) (db_missions db) then (db, Err (Sqlite ''UNIQUE constraint failed''))
     else if \<not> mission_refs_ok m db then (db, Err (Sqlite ''FOREIGN KEY constraint failed''))
     else (db\<lparr>db_missions := db_missions db @ [m]\<rparr>, Ok ()))"

definition get_mission :: "ident \<Rightarrow> Db \<Rightarrow> Mission option" where
  "get_mission i db = tbl_get m_id i (db_missions db)"

definition update_mission :: "Mission \<Rightarrow> (Db, unit, StorageError) op" where
  "update_mission m db =
    (if tbl_has m_id (m_id m) (db_missions db) \<and> \<not> mission_refs_ok m db
     then (db, Err (Sqlite ''FOREIGN KEY constraint failed''))
     else (db\<lparr>db_missions := tbl_modify m_id (m_id m)
             (\<lambda>r. m\<lparr>m_created_at := m_created_at r\<rparr>) (db_missions db)\<rparr>, Ok ()))"

definition list_missions :: "Db \<Rightarrow> Mission list" where
  "list_missions db = sort_key (\<lambda>m. - m_created_at m) (db_missions db)"

definition list_missions_by_workspace :: "ident \<Rightarrow> Db \<Rightarrow> Mission list" where
  "list_missions_by_workspace w db =
    sort_key (\<lambda>m. - m_created_at m) (filter (\<lambda>m. m_workspace_id m = Some w) (db_missions db))"

section \<open>Checkpoints and cycles\<close>

definition store_checkpoint :: "MissionCheckpoint \<Rightarrow> (Db, unit, StorageError) op" where
  "store_checkpoint c db =
    (if tbl_has ck_id (ck_id c) (db_checkpoints db) then (db, Err (Sqlite ''UNIQUE constraint failed''))
     else if \<not> tbl_has m_id (ck_mission_id c) (db_missions db)
     then (db, Err (Sqlite ''FOREIGN KEY constraint failed''))
     else (db\<lparr>db_checkpoints := db_checkpoints db @ [c]\<rparr>, Ok ()))"

definition get_checkpoint :: "ident \<Rightarrow> Db \<Rightarrow> MissionCheckpoint option" where
  "get_checkpoint i db = tbl_get ck_id i (db_checkpoints db)"

definition list_checkpoints :: "ident \<Rightarrow> Db \<Rightarrow> MissionCheckpoint list" where
  "list_checkpoints i db =
    sort_key (\<lambda>c. (unat (ck_cycle_index c), ck_created_at c))
      (filter (\<lambda>c. ck_mission_id c = i) (db_checkpoints db))"

text \<open>ORDER BY both columns DESC LIMIT 1.\<close>

definition get_latest_checkpoint :: "ident \<Rightarrow> Db \<Rightarrow> MissionCheckpoint option" where
  "get_latest_checkpoint i db =
    (case sort_key (\<lambda>c. (- int (unat (ck_cycle_index c)), - ck_created_at c))
            (filter (\<lambda>c. ck_mission_id c = i) (db_checkpoints db)) of
       [] \<Rightarrow> None | c # _ \<Rightarrow> Some c)"

definition cycle_key :: "MissionCycle \<Rightarrow> ident \<times> u32" where
  "cycle_key c = (cy_mission_id c, cy_cycle_index c)"

definition create_cycle :: "MissionCycle \<Rightarrow> (Db, unit, StorageError) op" where
  "create_cycle c db =
    (if tbl_has cycle_key (cycle_key c) (db_cycles db) then (db, Err (Sqlite ''UNIQUE constraint failed''))
     else if \<not> tbl_has m_id (cy_mission_id c) (db_missions db)
     then (db, Err (Sqlite ''FOREIGN KEY constraint failed''))
     else (db\<lparr>db_cycles := db_cycles db @ [c]\<rparr>, Ok ()))"

definition list_cycles :: "ident \<Rightarrow> Db \<Rightarrow> MissionCycle list" where
  "list_cycles i db =
    sort_key (\<lambda>c. (unat (cy_cycle_index c), cy_started_at c))
      (filter (\<lambda>c. cy_mission_id c = i) (db_cycles db))"

definition update_cycle :: "MissionCycle \<Rightarrow> (Db, unit, StorageError) op" where
  "update_cycle c db =
    (db\<lparr>db_cycles := tbl_modify cycle_key (cycle_key c) (\<lambda>r. r\<lparr>cy_phase := cy_phase c,
        cy_completed_at := cy_completed_at c, cy_outcome := cy_outcome c,
        cy_discovered_tasks_count := cy_discovered_tasks_count c\<rparr>) (db_cycles db)\<rparr>, Ok ())"

section \<open>Laws\<close>

lemma tbl_modify_absent: "\<not> tbl_has key k rows \<Longrightarrow> tbl_modify key k f rows = rows"
  by (induction rows) (auto simp: tbl_modify_def tbl_has_def)

text \<open>Integrity of the mission tables: keys are unique and every reference of a mission
is to an existing row.\<close>

definition missions_ok :: "Db \<Rightarrow> bool" where
  "missions_ok db = (distinct (map m_id (db_missions db)) \<and>
     (\<forall>m \<in> set (db_missions db). mission_refs_ok m db))"

lemma get_mission_update:
  "get_mission j (fst (update_mission m db)) =
     (if snd (update_mission m db) = Ok () \<and> j = m_id m
      then map_option (\<lambda>r. m\<lparr>m_created_at := m_created_at r\<rparr>) (get_mission j db)
      else get_mission j db)"
  by (auto simp: update_mission_def get_mission_def tbl_get_overwrite)

lemma get_mission_create:
  "snd (create_mission m db) = Ok () \<Longrightarrow> get_mission (m_id m) (fst (create_mission m db)) = Some m"
  by (auto simp: create_mission_def get_mission_def tbl_get_append tbl_get_None [symmetric]
      split: if_splits option.split)

lemma get_mission_id: "get_mission i db = Some m \<Longrightarrow> m_id m = i"
  unfolding get_mission_def by (drule tbl_get_key) simp

lemma update_mission_Ok:
  "mission_refs_ok m db \<Longrightarrow> update_mission m db =
     (db\<lparr>db_missions := tbl_modify m_id (m_id m) (\<lambda>r. m\<lparr>m_created_at := m_created_at r\<rparr>) (db_missions db)\<rparr>, Ok ())"
  by (simp add: update_mission_def)

lemma get_mission_after_update:
  assumes "mission_refs_ok m db" "get_mission (m_id m) db = Some m0" "m_created_at m = m_created_at m0"
  shows "get_mission (m_id m) (fst (update_mission m db)) = Some m"
proof -
  have "snd (update_mission m db) = Ok ()" using assms(1) by (simp add: update_mission_Ok)
  then show ?thesis using assms(2,3) unfolding get_mission_update by simp
qed

lemma fk_ok_modify [simp]:
  "(\<And>r. key (f r) = key r) \<Longrightarrow> fk_ok key ref (tbl_modify key k f rows) = fk_ok key ref rows"
  by (simp add: fk_ok_def split: option.split)

text \<open>A checkpoint just stored with the largest cycle index and time is the latest one.\<close>

lemma get_latest_checkpoint_max:
  "get_latest_checkpoint i db = Some c \<Longrightarrow>
     c \<in> set (db_checkpoints db) \<and> ck_mission_id c = i \<and>
     (\<forall>d \<in> set (db_checkpoints db). ck_mission_id d = i \<longrightarrow> ck_cycle_index d \<le> ck_cycle_index c)"
proof -
  let ?k = "\<lambda>c. (- int (unat (ck_cycle_index c)), - ck_created_at c)"
  let ?xs = "filter (\<lambda>c. ck_mission_id c = i) (db_checkpoints db)"
  assume "get_latest_checkpoint i db = Some c"
  then obtain rest where s: "sort_key ?k ?xs = c # rest"
    by (auto simp: get_latest_checkpoint_def split: list.splits)
  have m: "set ?xs = set (c # rest)" using arg_cong [OF s, of set] by simp
  have "sorted (map ?k (c # rest))" unfolding s [symmetric] by (rule sorted_sort_key)
  then have le: "\<forall>d \<in> set ?xs. ?k c \<le> ?k d" unfolding m by (simp del: less_eq_prod_simp)
  have "\<forall>d \<in> set ?xs. unat (ck_cycle_index d) \<le> unat (ck_cycle_index c)"
  proof
    fix d assume "d \<in> set ?xs"
    with le have "?k c \<le> ?k d" by blast
    then show "unat (ck_cycle_index d) \<le> unat (ck_cycle_index c)" by (auto simp: word_le_nat_alt [symmetric] word_le_def)
  qed
  moreover have "c \<in> set ?xs" unfolding m by simp
  ultimately show ?thesis by (auto simp: word_le_nat_alt)
qed

text \<open>An operation outside the mission tables: missions and workspaces are unchanged and
no workflow disappears.\<close>

definition mission_frame :: "Db \<Rightarrow> Db \<Rightarrow> bool" where
  "mission_frame db db' =
    (db_missions db' = db_missions db \<and> db_workspaces db' = db_workspaces db \<and>
     w_id ` set (db_workflows db) \<subseteq> w_id ` set (db_workflows db'))"

lemma mission_frame_refl [simp]: "mission_frame db db"
  by (simp add: mission_frame_def)

lemma mission_frame_trans: "mission_frame a b \<Longrightarrow> mission_frame b c \<Longrightarrow> mission_frame a c"
  unfolding mission_frame_def by (metis subset_trans)

lemma mission_frame_get: "mission_frame db db' \<Longrightarrow> get_mission i db' = get_mission i db"
  by (simp add: mission_frame_def get_mission_def)

lemma mission_frame_refs: "mission_frame db db' \<Longrightarrow> mission_refs_ok m db \<Longrightarrow> mission_refs_ok m db'"
  by (auto simp: mission_frame_def mission_refs_ok_def fk_ok_def tbl_has_def split: option.splits)

lemma mission_frame_ok: "mission_frame db db' \<Longrightarrow> missions_ok db \<Longrightarrow> missions_ok db'"
  unfolding missions_ok_def by (metis mission_frame_def mission_frame_refs)

lemma missions_ok_get: "missions_ok db \<Longrightarrow> get_mission i db = Some m \<Longrightarrow> mission_refs_ok m db"
  unfolding missions_ok_def get_mission_def using tbl_get_key by fast

lemma missions_ok_update: "missions_ok db \<Longrightarrow> missions_ok (fst (update_mission m db))"
proof -
  assume ok: "missions_ok db"
  have r: "mission_refs_ok q (db\<lparr>db_missions := ms\<rparr>) = mission_refs_ok q db" for q ms
    by (simp add: mission_refs_ok_def)
  have c: "mission_refs_ok (m\<lparr>m_created_at := t\<rparr>) db = mission_refs_ok m db" for t
    by (simp add: mission_refs_ok_def)
  show ?thesis
  proof (cases "mission_refs_ok m db")
    case True
    have d: "map m_id (tbl_modify m_id (m_id m) (\<lambda>r. m\<lparr>m_created_at := m_created_at r\<rparr>) rows) = map m_id rows" for rows
      by (induction rows) (auto simp: tbl_modify_def)
    have "q \<in> set (tbl_modify m_id (m_id m) (\<lambda>r. m\<lparr>m_created_at := m_created_at r\<rparr>) (db_missions db)) \<Longrightarrow>
        mission_refs_ok q db" for q
      using ok True by (auto simp: missions_ok_def tbl_modify_def c)
    then show ?thesis using ok True
      by (simp add: missions_ok_def update_mission_Ok r d)
  next
    case False
    then show ?thesis using ok
      by (auto simp: missions_ok_def update_mission_def r tbl_modify_absent)
  qed
qed

lemma mission_frame_store:
  "mission_frame db (fst (create_workflow w db))"
  "mission_frame db (fst (append_event e db))" 
  "mission_frame db (fst (create_cycle c db))"
  "mission_frame db (fst (store_checkpoint k db))"
  by (auto simp: mission_frame_def create_workflow_def append_event_def create_cycle_def store_checkpoint_def)

end
