(* ===== verification/Storage_Records.thy ===== *)
theory Storage_Records
  imports Storage_Missions
begin

text \<open>The record tables of the SQLite store (sqlite/store.rs): verifications, messages,
approvals by workflow and task, planning records, memories and recovery records. A
verification and a recovery record refer to an existing task, a message and a planning
record to an existing workflow and, when given, an existing task.\<close>

section \<open>Verifications\<close>

definition create_verification :: "Verification \<Rightarrow> (Db, unit, StorageError) op" where
  "create_verification v db =
    (if tbl_has v_id (v_id v) (db_verifications db) then (db, Err (Sqlite ''UNIQUE constraint failed''))
     else if \<not> tbl_has row_id (v_task_id v) (db_tasks db) then (db, Err (Sqlite ''FOREIGN KEY constraint failed''))
     else (db\<lparr>db_verifications := db_verifications db @ [v]\<rparr>, Ok ()))"

definition get_verification :: "ident \<Rightarrow> Db \<Rightarrow> Verification option" where
  "get_verification i db = tbl_get v_id i (db_verifications db)"

definition list_verifications_by_task :: "ident \<Rightarrow> Db \<Rightarrow> Verification list" where
  "list_verifications_by_task i db = sort_key v_created_at (filter (\<lambda>v. v_task_id v = i) (db_verifications db))"

definition list_verifications_by_workflow :: "ident \<Rightarrow> Db \<Rightarrow> Verification list" where
  "list_verifications_by_workflow w db =
    sort_key v_created_at (filter (\<lambda>v. \<exists>r \<in> set (db_tasks db). row_id r = v_task_id v \<and> t_workflow_id (r_task r) = w)
      (db_verifications db))"

section \<open>Messages\<close>

definition send_message :: "AgentMessage \<Rightarrow> (Db, unit, StorageError) op" where
  "send_message m db =
    (if tbl_has msg_id (msg_id m) (db_messages db) then (db, Err (Sqlite ''UNIQUE constraint failed''))
     else if \<not> tbl_has w_id (msg_workflow_id m) (db_workflows db) \<or> \<not> fk_ok row_id (msg_task_id m) (db_tasks db)
     then (db, Err (Sqlite ''FOREIGN KEY constraint failed''))
     else (db\<lparr>db_messages := db_messages db @ [m]\<rparr>, Ok ()))"

definition get_message :: "ident \<Rightarrow> Db \<Rightarrow> AgentMessage option" where
  "get_message i db = tbl_get msg_id i (db_messages db)"

definition list_messages_by_workflow :: "ident \<Rightarrow> Db \<Rightarrow> AgentMessage list" where
  "list_messages_by_workflow w db = sort_key msg_created_at (filter (\<lambda>m. msg_workflow_id m = w) (db_messages db))"

definition list_messages_by_task :: "ident \<Rightarrow> Db \<Rightarrow> AgentMessage list" where
  "list_messages_by_task i db = sort_key msg_created_at (filter (\<lambda>m. msg_task_id m = Some i) (db_messages db))"

definition list_messages_for_agent :: "ident \<Rightarrow> Db \<Rightarrow> AgentMessage list" where
  "list_messages_for_agent a db = sort_key msg_created_at (filter (\<lambda>m. msg_to_agent m = a) (db_messages db))"

section \<open>Approvals\<close>

definition list_approvals_by_workflow :: "ident \<Rightarrow> Db \<Rightarrow> ApprovalRecord list" where
  "list_approvals_by_workflow w db =
    sort_key (\<lambda>a. - ap_created_at a) (filter (\<lambda>a. ap_workflow_id a = w) (db_approvals db))"

definition list_approvals_by_task :: "ident \<Rightarrow> Db \<Rightarrow> ApprovalRecord list" where
  "list_approvals_by_task i db =
    sort_key (\<lambda>a. - ap_created_at a) (filter (\<lambda>a. ap_task_id a = i) (db_approvals db))"

definition list_all_approvals :: "Db \<Rightarrow> ApprovalRecord list" where
  "list_all_approvals db = sort_key (\<lambda>a. - ap_created_at a) (db_approvals db)"

section \<open>Planning records\<close>

definition save_plan_record :: "PlanningRecord \<Rightarrow> (Db, unit, StorageError) op" where
  "save_plan_record p db =
    (if tbl_has pl_id (pl_id p) (db_plans db) then (db, Err (Sqlite ''UNIQUE constraint failed''))
     else if \<not> tbl_has w_id (pl_workflow_id p) (db_workflows db) \<or> \<not> fk_ok row_id (pl_parent_task_id p) (db_tasks db)
     then (db, Err (Sqlite ''FOREIGN KEY constraint failed''))
     else (db\<lparr>db_plans := db_plans db @ [p]\<rparr>, Ok ()))"

definition get_plan_record :: "ident \<Rightarrow> Db \<Rightarrow> PlanningRecord option" where
  "get_plan_record i db = tbl_get pl_id i (db_plans db)"

definition list_plan_records_by_workflow :: "ident \<Rightarrow> Db \<Rightarrow> PlanningRecord list" where
  "list_plan_records_by_workflow w db =
    sort_key (\<lambda>p. - pl_created_at p) (filter (\<lambda>p. pl_workflow_id p = w) (db_plans db))"

section \<open>Memories\<close>

definition save_memory :: "MemoryRecord \<Rightarrow> (Db, unit, StorageError) op" where
  "save_memory m db =
    (if tbl_has mem_id (mem_id m) (db_memories db) then (db, Err (Sqlite ''UNIQUE constraint failed''))
     else (db\<lparr>db_memories := db_memories db @ [m]\<rparr>, Ok ()))"

definition get_memory :: "ident \<Rightarrow> Db \<Rightarrow> MemoryRecord option" where
  "get_memory i db = tbl_get mem_id i (db_memories db)"

definition update_memory :: "MemoryRecord \<Rightarrow> (Db, unit, StorageError) op" where
  "update_memory m db =
    (if tbl_has mem_id (mem_id m) (db_memories db)
     then (db\<lparr>db_memories := tbl_modify mem_id (mem_id m) (\<lambda>r. m\<lparr>mem_created_at := mem_created_at r\<rparr>)
             (db_memories db)\<rparr>, Ok ())
     else (db, Err (NotFound ''MemoryRecord'' (mem_id m))))"

definition list_memories_by_scope :: "MemoryScope \<Rightarrow> string option \<Rightarrow> Db \<Rightarrow> MemoryRecord list" where
  "list_memories_by_scope scope scope_id db =
    sort_key (\<lambda>m. - mem_created_at m)
      (filter (\<lambda>m. mem_scope m = scope \<and> mem_state m \<noteq> Deleted \<and>
          (case scope_id of Some sid \<Rightarrow> mem_scope_id m = Some sid | None \<Rightarrow> True)) (db_memories db))"

text \<open>The limit is applied by the query, the scope filters to the rows it returned.\<close>

definition list_active_memories :: "MemoryScope list option \<Rightarrow> string option \<Rightarrow> nat \<Rightarrow> Db \<Rightarrow> MemoryRecord list" where
  "list_active_memories scopes scope_id limit db =
    filter (\<lambda>m. (case scopes of Some ss \<Rightarrow> mem_scope m \<in> set ss | None \<Rightarrow> True) \<and>
        (case scope_id of Some sid \<Rightarrow> mem_scope_id m = Some sid | None \<Rightarrow> True))
      (take limit (sort_key (\<lambda>m. - mem_created_at m)
        (filter (\<lambda>m. mem_state m = MemoryState.Active) (db_memories db))))"

section \<open>Recovery records\<close>

definition save_recovery_record :: "RecoveryRecord \<Rightarrow> (Db, unit, StorageError) op" where
  "save_recovery_record r db =
    (if tbl_has rv_id (rv_id r) (db_recoveries db) then (db, Err (Sqlite ''UNIQUE constraint failed''))
     else if \<not> tbl_has row_id (rv_task_id r) (db_tasks db) \<or> \<not> tbl_has w_id (rv_workflow_id r) (db_workflows db)
     then (db, Err (Sqlite ''FOREIGN KEY constraint failed''))
     else (db\<lparr>db_recoveries := db_recoveries db @ [r]\<rparr>, Ok ()))"

definition get_recovery_record :: "ident \<Rightarrow> Db \<Rightarrow> RecoveryRecord option" where
  "get_recovery_record i db = tbl_get rv_id i (db_recoveries db)"

definition update_recovery_record :: "RecoveryRecord \<Rightarrow> (Db, unit, StorageError) op" where
  "update_recovery_record r db =
    (if tbl_has rv_id (rv_id r) (db_recoveries db)
     then (db\<lparr>db_recoveries := tbl_modify rv_id (rv_id r)
             (\<lambda>q. r\<lparr>rv_task_id := rv_task_id q, rv_workflow_id := rv_workflow_id q, rv_created_at := rv_created_at q\<rparr>)
             (db_recoveries db)\<rparr>, Ok ())
     else (db, Err (NotFound ''RecoveryRecord'' (rv_id r))))"

definition list_recovery_records_by_task :: "ident \<Rightarrow> Db \<Rightarrow> RecoveryRecord list" where
  "list_recovery_records_by_task i db =
    sort_key (\<lambda>r. (unat (rv_attempt r), rv_created_at r)) (filter (\<lambda>r. rv_task_id r = i) (db_recoveries db))"

definition list_recovery_records_by_workflow :: "ident \<Rightarrow> Db \<Rightarrow> RecoveryRecord list" where
  "list_recovery_records_by_workflow w db =
    sort_key rv_created_at (filter (\<lambda>r. rv_workflow_id r = w) (db_recoveries db))"

section \<open>The tables a method leaves\<close>

lemmas record_table_defs =
  create_verification_def send_message_def save_plan_record_def save_memory_def update_memory_def
  save_recovery_record_def update_recovery_record_def

end
