(* ===== verification/Storage_Invariant.thy ===== *)
theory Storage_Invariant
  imports Storage_Records
begin

text \<open>The integrity of the store: the keys, unique columns and foreign keys of the
tables, kept by every method; the histories of the store; the generations of the
leases along a history.\<close>

section \<open>Integrity\<close>

definition lease_integrity :: "Db \<Rightarrow> bool" where
  "lease_integrity db =
    (distinct (map row_id (db_tasks db)) \<and>
     distinct (map l_id (db_leases db)) \<and>
     distinct (map l_task_id (db_leases db)) \<and>
     (\<forall>r \<in> set (db_tasks db). r_generation r \<le> max_generation) \<and>
     (\<forall>l \<in> set (db_leases db). \<exists>r \<in> set (db_tasks db).
        row_id r = l_task_id l \<and> unat (l_generation l) \<le> r_generation r))"

definition command_integrity :: "Db \<Rightarrow> bool" where
  "command_integrity db =
    (distinct (map c_id (db_commands db)) \<and> distinct (map c_idempotency_key (db_commands db)))"

definition dependency_integrity :: "Db \<Rightarrow> bool" where
  "dependency_integrity db =
    (distinct (db_deps db) \<and>
     (\<forall>(i, j) \<in> set (db_deps db). tbl_has row_id i (db_tasks db) \<and> tbl_has row_id j (db_tasks db)))"

definition event_integrity :: "Db \<Rightarrow> bool" where
  "event_integrity db =
    (distinct (map fst (db_events db)) \<and> distinct (map (e_id \<circ> snd) (db_events db)) \<and>
     (\<forall>r \<in> set (db_events db). 0 < fst r))"

definition db_inv :: "Db \<Rightarrow> bool" where
  "db_inv db = (lease_integrity db \<and> command_integrity db \<and> dependency_integrity db \<and> event_integrity db)"

text \<open>What the integrity depends on: the task keys with their generations, the leases,
the dependencies, the commands and the events.\<close>

definition generations :: "Db \<Rightarrow> (ident \<times> nat) list" where
  "generations db = map (\<lambda>r. (row_id r, r_generation r)) (db_tasks db)"

definition same_tables :: "Db \<Rightarrow> Db \<Rightarrow> bool" where
  "same_tables db db' =
    (generations db' = generations db \<and> db_leases db' = db_leases db \<and> db_deps db' = db_deps db \<and>
     db_commands db' = db_commands db \<and> db_events db' = db_events db)"

lemma row_ids_generations: "map row_id (db_tasks db) = map fst (generations db)"
  by (simp add: generations_def o_def)

lemma has_row_generations: "tbl_has row_id i (db_tasks db) \<longleftrightarrow> i \<in> fst ` set (generations db)"
  by (auto simp: tbl_has_def generations_def image_iff)

lemma lease_integrity_generations:
  "lease_integrity db =
    (distinct (map fst (generations db)) \<and>
     distinct (map l_id (db_leases db)) \<and> distinct (map l_task_id (db_leases db)) \<and>
     (\<forall>(i, n) \<in> set (generations db). n \<le> max_generation) \<and>
     (\<forall>l \<in> set (db_leases db). \<exists>n. (l_task_id l, n) \<in> set (generations db) \<and> unat (l_generation l) \<le> n))"
proof -
  have "(\<exists>n. (l_task_id l, n) \<in> set (generations db) \<and> unat (l_generation l) \<le> n) \<longleftrightarrow>
      (\<exists>r \<in> set (db_tasks db). row_id r = l_task_id l \<and> unat (l_generation l) \<le> r_generation r)" for l :: Lease
    by (force simp: generations_def)
  moreover have "(\<forall>(i, n) \<in> set (generations db). n \<le> max_generation) \<longleftrightarrow>
      (\<forall>r \<in> set (db_tasks db). r_generation r \<le> max_generation)"
    by (auto simp: generations_def)
  ultimately show ?thesis
    unfolding lease_integrity_def row_ids_generations by simp
qed

lemma same_tables_inv:
  assumes "same_tables db db'"
  shows "db_inv db' \<longleftrightarrow> db_inv db"
proof -
  have "tbl_has row_id i (db_tasks db') \<longleftrightarrow> tbl_has row_id i (db_tasks db)" for i
    using assms by (simp add: has_row_generations same_tables_def)
  then show ?thesis
    using assms by (simp add: db_inv_def lease_integrity_generations command_integrity_def
        dependency_integrity_def event_integrity_def same_tables_def)
qed

lemma same_tables_refl [simp]: "same_tables db db"
  by (simp add: same_tables_def)

lemma keeps_same_tables: "(\<And>db. same_tables db (fst (m db))) \<Longrightarrow> keeps db_inv m"
  using same_tables_inv by (blast intro: keepsI)

lemma generations_modify:
  "(\<And>r. row_id r = i \<Longrightarrow> row_id (f r) = i \<and> r_generation (f r) = r_generation r) \<Longrightarrow>
   map (\<lambda>r. (row_id r, r_generation r)) (tbl_modify row_id i f rows) =
   map (\<lambda>r. (row_id r, r_generation r)) rows"
  by (induction rows) (auto simp: tbl_modify_def)

lemma row_id_update [simp]:
  "row_id (r\<lparr>r_task := t\<rparr>) = t_id t" "row_id (r\<lparr>r_generation := n\<rparr>) = row_id r"
  "t_id (r_task r) = row_id r" "row_id \<lparr>r_task = t, r_generation = n\<rparr> = t_id t"
  by (simp_all add: row_id_def)

section \<open>Methods that leave the keyed tables as they are\<close>

lemma create_workflow_inv: "keeps db_inv (create_workflow w)"
  by (rule keeps_same_tables) (simp add: create_workflow_def same_tables_def generations_def)

lemma update_workflow_inv: "keeps db_inv (update_workflow w)"
  by (rule keeps_same_tables) (simp add: update_workflow_def same_tables_def generations_def)

lemma create_agent_inv: "keeps db_inv (create_agent a)"
  by (rule keeps_same_tables) (simp add: create_agent_def same_tables_def generations_def)

lemma update_agent_inv: "keeps db_inv (update_agent a)"
  by (rule keeps_same_tables) (simp add: update_agent_def same_tables_def generations_def)

lemma create_session_inv: "keeps db_inv (create_session s)"
  by (rule keeps_same_tables) (simp add: create_session_def same_tables_def generations_def)

lemma update_session_inv: "keeps db_inv (update_session s)"
  by (rule keeps_same_tables) (simp add: update_session_def same_tables_def generations_def)

lemma update_task_same: "same_tables db (fst (update_task t db))"
  by (simp add: update_task_def same_tables_def generations_def generations_modify)

lemma update_task_inv: "keeps db_inv (update_task t)"
  by (rule keeps_same_tables) (rule update_task_same)

lemma discard_parent_inv: "keeps db_inv (discard_parent now i)"
  by (rule keeps_same_tables)
    (simp add: discard_parent_def same_tables_def generations_def generations_modify)

lemma create_execution_inv: "keeps db_inv (create_execution x)"
  by (rule keeps_same_tables) (simp add: create_execution_def same_tables_def generations_def)

lemma update_execution_inv: "keeps db_inv (update_execution x)"
  by (rule keeps_same_tables) (simp add: update_execution_def same_tables_def generations_def)

lemma create_approval_inv: "keeps db_inv (create_approval a)"
  by (rule keeps_same_tables) (simp add: create_approval_def same_tables_def generations_def)

lemma update_approval_inv: "keeps db_inv (update_approval a)"
  by (rule keeps_same_tables) (simp add: update_approval_def same_tables_def generations_def)

text \<open>Workspaces, missions, cycles and checkpoints share no column with these tables.\<close>

lemmas mission_table_defs = create_workspace_def update_workspace_def delete_workspace_def
  create_mission_def update_mission_def store_checkpoint_def create_cycle_def update_cycle_def

lemma mission_tables_same:
  "same_tables db (fst (create_workspace ws db))" "same_tables db (fst (update_workspace ws db))"
  "same_tables db (fst (delete_workspace i db))" "same_tables db (fst (create_mission m db))"
  "same_tables db (fst (update_mission m db))" "same_tables db (fst (store_checkpoint k db))"
  "same_tables db (fst (create_cycle c db))" "same_tables db (fst (update_cycle c db))"
  by (simp_all add: mission_table_defs same_tables_def generations_def)

lemma record_tables_same:
  "same_tables db (fst (create_verification v db))" "same_tables db (fst (send_message msg db))"
  "same_tables db (fst (save_plan_record pl db))" "same_tables db (fst (save_memory mem db))"
  "same_tables db (fst (update_memory mem db))" "same_tables db (fst (save_recovery_record rv db))"
  "same_tables db (fst (update_recovery_record rv db))"
  by (simp_all add: record_table_defs same_tables_def generations_def)

section \<open>Tasks and dependencies\<close>

lemma tbl_get_row_generations:
  "tbl_get row_id i (db_tasks db) = Some r \<Longrightarrow> (i, r_generation r) \<in> set (generations db)"
  using tbl_get_key [of row_id i] by (force simp: generations_def)

lemma generation_map_of: "get_current_lease_generation i db = (case map_of (generations db) i of None \<Rightarrow> 0 | Some n \<Rightarrow> n)"
proof -
  have "map_of (map (\<lambda>r. (row_id r, r_generation r)) rows) i =
      map_option r_generation (tbl_get row_id i rows)" for rows
    by (induction rows) (auto simp: tbl_get_def)
  then show ?thesis
    by (auto simp: get_current_lease_generation_def generations_def split: option.splits)
qed

lemma insert_task_row_inv: "keeps db_inv (insert_task_row t)"
proof (rule keepsI)
  fix db assume inv: "db_inv db"
  let ?db = "db\<lparr>db_tasks := db_tasks db @ [\<lparr>r_task = t, r_generation = 0\<rparr>]\<rparr>"
  have "db_inv ?db" if "\<not> tbl_has row_id (t_id t) (db_tasks db)"
  proof -
    have g: "generations ?db = generations db @ [(t_id t, 0)]"
      by (simp add: generations_def)
    have "t_id t \<notin> fst ` set (generations db)" using that by (simp add: has_row_generations)
    moreover have "lease_integrity db" using inv by (simp add: db_inv_def)
    ultimately have "lease_integrity ?db"
      unfolding lease_integrity_generations g by (simp add: Bex_def) blast
    moreover have "dependency_integrity ?db"
      using inv by (auto simp: db_inv_def dependency_integrity_def tbl_has_def)
    ultimately show ?thesis
      using inv by (simp add: db_inv_def command_integrity_def event_integrity_def)
  qed
  then show "db_inv (fst (insert_task_row t db))" using inv by (simp add: insert_task_row_def)
qed

lemma create_task_inv: "keeps db_inv (create_task t)"
  unfolding create_task_def [abs_def] by (rule insert_task_row_inv)

lemma db_add_dependency_inv: "keeps db_inv (db_add_dependency i j)"
  by (rule keepsI)
    (auto simp: db_add_dependency_def db_inv_def lease_integrity_def command_integrity_def
      dependency_integrity_def event_integrity_def)

lemma db_remove_dependency_inv: "keeps db_inv (db_remove_dependency i j)"
  by (rule keepsI)
    (auto simp: db_remove_dependency_def db_inv_def lease_integrity_def command_integrity_def
      dependency_integrity_def event_integrity_def tbl_delete_def)

lemma transaction_inv: "keeps P m \<Longrightarrow> keeps P (transaction m)"
  by (auto simp: keeps_def transaction_def split: prod.splits result.splits)

lemma insert_deps_inv: "keeps db_inv (insert_deps es)"
  unfolding insert_deps_def by (rule keeps_for_each) (auto simp: db_add_dependency_inv)

lemma decompose_task_transactional_inv: "keeps db_inv (decompose_task_transactional now p cs cds ts)"
proof (rule keepsI)
  fix db assume inv: "db_inv db"
  have "keeps db_inv (rewire_downstream p ts d)" for d
    unfolding rewire_downstream_def by (intro keeps_then db_remove_dependency_inv insert_deps_inv)
  then have "keeps db_inv (transaction (st_then (for_each (\<lambda>c. insert_task_row (c\<lparr>t_parent_id := Some p\<rparr>)) cs)
      (\<lambda>_. st_then (insert_deps cds) (\<lambda>_. st_then (insert_deps es)
      (\<lambda>_. st_then (for_each (rewire_downstream p ts) ds) (\<lambda>_. discard_parent now p))))))" for es ds
    by (intro transaction_inv keeps_then keeps_for_each insert_task_row_inv insert_deps_inv discard_parent_inv)
  from keepsD [OF this inv] show "db_inv (fst (decompose_task_transactional now p cs cds ts db))"
    using inv by (simp add: decompose_task_transactional_def Let_def)
qed

section \<open>Leases\<close>

lemma delete_leases_fields [simp]:
  "db_tasks (delete_leases P db) = db_tasks db" "db_deps (delete_leases P db) = db_deps db"
  "db_commands (delete_leases P db) = db_commands db" "db_events (delete_leases P db) = db_events db"
  "db_agents (delete_leases P db) = db_agents db"
  "db_leases (delete_leases P db) = tbl_delete P (db_leases db)"
  "generations (delete_leases P db) = generations db"
  by (simp_all add: delete_leases_def generations_def)

lemma delete_leases_inv: "db_inv db \<Longrightarrow> db_inv (delete_leases P db)"
  by (auto simp: db_inv_def lease_integrity_generations command_integrity_def dependency_integrity_def
      event_integrity_def tbl_delete_def distinct_map_filter)

definition bump :: "ident \<Rightarrow> (ident \<times> nat) list \<Rightarrow> (ident \<times> nat) list" where
  "bump i gens = map (\<lambda>(k, n). (k, if k = i then n + 1 else n)) gens"

lemma bump_keys [simp]: "map fst (bump i gens) = map fst gens"
  by (simp add: bump_def o_def split_def)

lemma map_of_bump:
  "map_of (bump i gens) k = (if k = i then map_option Suc (map_of gens k) else map_of gens k)"
  by (induction gens) (auto simp: bump_def)

lemma increment_Ok:
  assumes "increment_lease_generation i db = (db', Ok g)"
  shows "\<exists>n. map_of (generations db) i = Some n \<and> n < max_generation \<and> g = of_nat (n + 1) \<and>
    generations db' = bump i (generations db) \<and> db_leases db' = db_leases db \<and> db_deps db' = db_deps db \<and>
    db_commands db' = db_commands db \<and> db_events db' = db_events db \<and> db_agents db' = db_agents db \<and>
    tbl_has row_id i (db_tasks db)"
proof -
  obtain r where r: "tbl_get row_id i (db_tasks db) = Some r"
    using assms by (auto simp: increment_lease_generation_def split: option.splits)
  have "map_of (map (\<lambda>r. (row_id r, r_generation r)) rows) i = map_option r_generation (tbl_get row_id i rows)" for rows
    by (induction rows) (auto simp: tbl_get_def)
  then have m: "map_of (generations db) i = Some (r_generation r)" using r by (simp add: generations_def)
  have "map (\<lambda>r. (row_id r, r_generation r)) (tbl_modify row_id i (\<lambda>r. r\<lparr>r_generation := r_generation r + 1\<rparr>) rows)
      = bump i (map (\<lambda>r. (row_id r, r_generation r)) rows)" for rows
    by (induction rows) (auto simp: tbl_modify_def bump_def)
  then show ?thesis
    using assms r m tbl_get_None [of row_id i "db_tasks db"]
    by (auto simp: increment_lease_generation_def generations_def split: if_splits)
qed

text \<open>A generation within the range of the column keeps its value as a u64.\<close>

lemma generation_word: "n < max_generation \<Longrightarrow> unat (of_nat (n + 1) :: u64) = n + 1"
  by (rule of_nat_inverse [OF refl]) (simp add: max_generation_def)

definition stale :: "time \<Rightarrow> ident \<Rightarrow> Db \<Rightarrow> bool" where
  "stale now i db = (\<forall>l. get_lease_by_task i db = Some l \<longrightarrow> l_expires_at l \<le> now)"

lemma delete_by_id_task:
  assumes "distinct (map l_id ls)" "distinct (map l_task_id ls)" "tbl_get l_task_id i ls = Some old"
  shows "tbl_delete (\<lambda>l. l_id l = l_id old) ls = tbl_delete (\<lambda>l. l_task_id l = i) ls"
proof -
  have old: "old \<in> set ls" "l_task_id old = i" using tbl_get_key [OF assms(3)] by auto
  have "l_id l = l_id old \<longleftrightarrow> l_task_id l = i" if "l \<in> set ls" for l
    using assms(1,2) old that by (auto simp: distinct_map inj_on_def)
  then show ?thesis unfolding tbl_delete_def by (intro filter_cong) auto
qed

lemma acquire_lease_Ok:
  assumes inv: "db_inv db" and ok: "acquire_lease now l db = (db', Ok g)"
  shows "\<exists>n. map_of (generations db) (l_task_id l) = Some n \<and> n < max_generation \<and>
    g = l\<lparr>l_generation := of_nat (n + 1)\<rparr> \<and>
    stale now (l_task_id l) db \<and>
    generations db' = bump (l_task_id l) (generations db) \<and>
    db_leases db' = tbl_delete (\<lambda>q. l_task_id q = l_task_id l) (db_leases db) @ [g] \<and>
    l_id l \<notin> l_id ` {q \<in> set (db_leases db). l_task_id q \<noteq> l_task_id l} \<and>
    db_deps db' = db_deps db \<and> db_commands db' = db_commands db \<and> db_events db' = db_events db"
proof -
  let ?i = "l_task_id l"
  define grant where "grant = st_then (increment_lease_generation ?i) (\<lambda>g. insert_lease (l\<lparr>l_generation := g\<rparr>))"
  have grantE: "\<exists>n. map_of (generations d) ?i = Some n \<and> n < max_generation \<and>
      g = l\<lparr>l_generation := of_nat (n + 1)\<rparr> \<and> generations db' = bump ?i (generations d) \<and>
      db_leases db' = db_leases d @ [g] \<and> l_id l \<notin> l_id ` set (db_leases d) \<and>
      db_deps db' = db_deps d \<and> db_commands db' = db_commands d \<and> db_events db' = db_events d"
    if "grant d = (db', Ok g)" for d
  proof -
    obtain d1 w where 1: "increment_lease_generation ?i d = (d1, Ok w)"
      and 2: "insert_lease (l\<lparr>l_generation := w\<rparr>) d1 = (db', Ok g)"
      using \<open>grant d = (db', Ok g)\<close> by (auto simp: grant_def st_then_Ok)
    from 2 have "g = l\<lparr>l_generation := w\<rparr>" "db' = d1\<lparr>db_leases := db_leases d1 @ [g]\<rparr>"
      "\<not> tbl_has l_id (l_id l) (db_leases d1)"
      by (auto simp: insert_lease_def split: if_splits)
    then show ?thesis using increment_Ok [OF 1] by (auto simp: generations_def tbl_has_def)
  qed
  have lk: "distinct (map l_id (db_leases db))" "distinct (map l_task_id (db_leases db))"
    using inv by (simp_all add: db_inv_def lease_integrity_def)
  show ?thesis
  proof (cases "get_lease_by_task ?i db")
    case None
    then have "grant db = (db', Ok g)"
      using ok by (auto simp: acquire_lease_def transaction_def grant_def split: prod.splits result.splits)
    moreover have "tbl_delete (\<lambda>q. l_task_id q = ?i) (db_leases db) = db_leases db"
      using None by (auto simp: get_lease_by_task_def tbl_get_None tbl_has_def tbl_delete_def
          filter_id_conv) (metis image_eqI)
    ultimately show ?thesis using grantE None by (fastforce simp: stale_def)
  next
    case (Some old)
    then have exp: "l_expires_at old \<le> now" and g: "grant (delete_leases (\<lambda>q. l_id q = l_id old) db) = (db', Ok g)"
      using ok by (auto simp: acquire_lease_def transaction_def grant_def st_then.simps [of "\<lambda>db. (delete_leases _ db, Ok ())"]
          split: prod.splits result.splits if_splits)
    have del: "tbl_delete (\<lambda>q. l_id q = l_id old) (db_leases db) = tbl_delete (\<lambda>q. l_task_id q = ?i) (db_leases db)"
      using delete_by_id_task [OF lk] Some by (simp add: get_lease_by_task_def)
    show ?thesis using grantE [OF g, unfolded delete_leases_fields del] exp Some
      by (auto simp: stale_def tbl_delete_def)
  qed
qed

lemma increment_Err: "increment_lease_generation i db = (db', Err e) \<Longrightarrow> db' = db"
  by (auto simp: increment_lease_generation_def split: option.splits if_splits)

text \<open>The generation of a task can also be raised without a grant: no lease is newer than the
generation before, so none is newer than the one after.\<close>

lemma increment_lease_generation_inv: "keeps db_inv (increment_lease_generation i)"
proof (rule keepsI)
  fix db assume inv: "db_inv db"
  show "db_inv (fst (increment_lease_generation i db))"
  proof (cases "increment_lease_generation i db")
    case (Pair db' r)
    show ?thesis
    proof (cases r)
      case (Err e)
      then show ?thesis using increment_Err Pair inv by fastforce
    next
      case (Ok g)
      obtain n where n: "map_of (generations db) i = Some n" "n < max_generation"
        and gens: "generations db' = bump i (generations db)"
        and same: "db_leases db' = db_leases db" "db_deps db' = db_deps db" "db_commands db' = db_commands db"
          "db_events db' = db_events db" "db_agents db' = db_agents db"
        using increment_Ok Pair Ok by blast
      have lease: "lease_integrity db" using inv by (simp add: db_inv_def)
      have small: "\<forall>(k, m) \<in> set (generations db'). m \<le> max_generation"
      proof
        fix p assume "p \<in> set (generations db')"
        then obtain k m where p: "p = (k, if k = i then m + 1 else m)" "(k, m) \<in> set (generations db)"
          by (auto simp: gens bump_def)
        have "m \<le> max_generation" "k = i \<Longrightarrow> m = n"
          using lease p(2) n(1) map_of_is_SomeI by (fastforce simp: lease_integrity_generations)+
        then show "case p of (k, m) \<Rightarrow> m \<le> max_generation" using n(2) by (auto simp: p(1))
      qed
      have "\<exists>m. (k, m) \<in> set (generations db') \<and> unat w \<le> m" if "(k, m0) \<in> set (generations db)" "unat w \<le> m0"
        for k m0 and w :: u64
        using that by (force simp: gens bump_def)
      then have "lease_integrity db'"
        using lease small by (simp add: lease_integrity_generations same) (simp add: gens Bex_def, meson)
      then show ?thesis
        using inv Pair same
        by (simp add: db_inv_def command_integrity_def dependency_integrity_def event_integrity_def
            has_row_generations gens flip: set_map)
    qed
  qed
qed

lemma acquire_lease_Err: "acquire_lease now l db = (db', Err e) \<Longrightarrow> db' = db"
  by (auto simp: acquire_lease_def transaction_def split: option.splits prod.splits result.splits if_splits)

lemma acquire_lease_inv: "keeps db_inv (acquire_lease now l)"
proof (rule keepsI)
  fix db assume inv: "db_inv db"
  show "db_inv (fst (acquire_lease now l db))"
  proof (cases "acquire_lease now l db")
    case (Pair db' r)
    show ?thesis
    proof (cases r)
      case (Err e)
      then show ?thesis using acquire_lease_Err Pair inv by fastforce
    next
      case (Ok g)
      obtain n where n: "map_of (generations db) (l_task_id l) = Some n" "n < max_generation"
        "g = l\<lparr>l_generation := of_nat (n + 1)\<rparr>"
        and gens: "generations db' = bump (l_task_id l) (generations db)"
        and leases: "db_leases db' = tbl_delete (\<lambda>q. l_task_id q = l_task_id l) (db_leases db) @ [g]"
        and fresh: "l_id l \<notin> l_id ` {q \<in> set (db_leases db). l_task_id q \<noteq> l_task_id l}"
        and same: "db_deps db' = db_deps db" "db_commands db' = db_commands db" "db_events db' = db_events db"
        using acquire_lease_Ok [OF inv] Pair Ok by blast
      have li: "lease_integrity db" using inv by (simp add: db_inv_def)
      have wit: "\<exists>m. (l_task_id q, m) \<in> set (bump (l_task_id l) (generations db)) \<and> unat (l_generation q) \<le> m"
        if q: "q \<in> set (db_leases db')" for q
      proof (cases "q = g")
        case True
        have "(l_task_id l, n + 1) \<in> set (bump (l_task_id l) (generations db))"
          using map_of_SomeD [of "bump (l_task_id l) (generations db)" "l_task_id l" "n + 1"] n(1)
          by (simp add: map_of_bump)
        then show ?thesis using True n(2,3) generation_word [OF n(2)] by (metis Lease.select_convs(2) Lease.surjective Lease.update_convs(4) Lease.select_convs(4) order_refl)
      next
        case False
        then have q': "q \<in> set (db_leases db)" "l_task_id q \<noteq> l_task_id l"
          using q by (auto simp: leases tbl_delete_def)
        then obtain m where "(l_task_id q, m) \<in> set (generations db)" "unat (l_generation q) \<le> m"
          using li by (auto simp: lease_integrity_generations)
        then show ?thesis using q'(2) by (force simp: bump_def)
      qed
      have small: "\<forall>(i, m) \<in> set (bump (l_task_id l) (generations db)). m \<le> max_generation"
      proof -
        have "m = n" if "(l_task_id l, m) \<in> set (generations db)" for m
          using that n(1) li by (auto simp: lease_integrity_generations)
        then show ?thesis
          using li n(2) by (fastforce simp: lease_integrity_generations bump_def split: if_splits)
      qed
      have "distinct (map l_id (db_leases db'))" "distinct (map l_task_id (db_leases db'))"
        using li fresh n(3) by (auto simp: leases lease_integrity_def tbl_delete_def distinct_map_filter)
      then have "lease_integrity db'"
        using li wit small unfolding lease_integrity_generations gens bump_keys by blast
      moreover have "tbl_has row_id i (db_tasks db') \<longleftrightarrow> tbl_has row_id i (db_tasks db)" for i
        by (simp add: has_row_generations gens flip: set_map)
      ultimately show ?thesis
        using inv Pair same
        by (simp add: db_inv_def command_integrity_def dependency_integrity_def event_integrity_def)
    qed
  qed
qed

lemma tbl_modify_set:
  "q \<in> set (tbl_modify key k f rows) \<Longrightarrow> \<exists>r \<in> set rows. q = (if key r = k then f r else r)"
  by (auto simp: tbl_modify_def)

lemma renew_lease_inv: "keeps db_inv (renew_lease i t)"
proof (rule keepsI)
  fix db assume inv: "db_inv db"
  let ?ls = "tbl_modify l_id i (\<lambda>l. l\<lparr>l_expires_at := t\<rparr>) (db_leases db)"
  have "map l_id ?ls = map l_id (db_leases db)" by (rule tbl_modify_keys) simp
  moreover have "map l_task_id ?ls = map l_task_id (db_leases db)"
    by (simp add: tbl_modify_def o_def if_distrib cong: if_cong)
  moreover have "\<exists>l \<in> set (db_leases db). l_task_id l = l_task_id q \<and> l_generation l = l_generation q"
    if "q \<in> set ?ls" for q
    using tbl_modify_set [OF that] by (auto split: if_splits)
  ultimately show "db_inv (fst (renew_lease i t db))"
    using inv by (auto simp: renew_lease_def db_inv_def lease_integrity_def command_integrity_def
        dependency_integrity_def event_integrity_def) metis
qed

lemma release_lease_inv: "keeps db_inv (release_lease i)"
  by (rule keepsI) (simp add: release_lease_def delete_leases_inv)

lemma reclaim_expired_leases_inv: "keeps db_inv (reclaim_expired_leases now)"
  by (rule keepsI) (simp add: reclaim_expired_leases_def delete_leases_inv)

section \<open>Commands and events\<close>

lemma enqueue_command_inv: "keeps db_inv (enqueue_command c)"
  by (rule keepsI)
    (auto simp: enqueue_command_def db_inv_def lease_integrity_def command_integrity_def
      dependency_integrity_def event_integrity_def tbl_has_def)

lemma commands_modified_inv:
  assumes "db_inv db" "\<And>c. c_id (f c) = c_id c \<and> c_idempotency_key (f c) = c_idempotency_key c"
  shows "db_inv (db\<lparr>db_commands := tbl_modify c_id i f (db_commands db)\<rparr>)"
proof -
  have "map c_id (tbl_modify c_id i f (db_commands db)) = map c_id (db_commands db)"
    "map c_idempotency_key (tbl_modify c_id i f (db_commands db)) = map c_idempotency_key (db_commands db)"
    using assms(2) by (simp_all add: tbl_modify_def)
  then show ?thesis
    using assms(1) by (simp add: db_inv_def lease_integrity_def command_integrity_def
        dependency_integrity_def event_integrity_def)
qed

lemma claim_row_inv: "keeps db_inv (claim_row now i)"
  by (rule keepsI) (auto simp: claim_row_def dispatch_row_def commands_modified_inv split: option.splits)

lemma claim_next_queued_command_inv: "keeps db_inv (claim_next_queued_command now)"
  by (rule keepsI) (auto simp: claim_next_queued_command_def keepsD [OF claim_row_inv] split: list.splits)

lemma claim_command_by_id_inv: "keeps db_inv (claim_command_by_id now i)"
  by (rule keepsI) (auto simp: claim_command_by_id_def keepsD [OF claim_row_inv] split: option.splits)

lemma update_command_inv: "keeps db_inv (update_command c)"
  by (rule keepsI) (simp add: update_command_def commands_modified_inv)

lemma rowid_le_next: "r \<in> set rows \<Longrightarrow> fst r < next_rowid rows"
  by (induction rows) (auto simp: next_rowid_def)

lemma append_event_inv: "keeps db_inv (append_event e)"
proof (rule keepsI)
  fix db assume inv: "db_inv db"
  have "next_rowid (db_events db) \<notin> fst ` set (db_events db)"
    using rowid_le_next by fastforce
  then show "db_inv (fst (append_event e db))"
    using inv by (auto simp: append_event_def db_inv_def lease_integrity_def command_integrity_def
        dependency_integrity_def event_integrity_def tbl_has_def next_rowid_def)
qed

lemma prune_historical_records_inv: "keeps db_inv (prune_historical_records t)"
  by (rule keepsI)
    (auto simp: prune_historical_records_def db_inv_def lease_integrity_def command_integrity_def
      dependency_integrity_def event_integrity_def tbl_delete_def distinct_map_filter)

section \<open>Histories of the store\<close>

inductive db_step :: "Db \<Rightarrow> Db \<Rightarrow> bool" where
  "db_step db (fst (create_workflow w db))"
| "db_step db (fst (update_workflow w db))"
| "db_step db (fst (create_agent a db))"
| "db_step db (fst (update_agent a db))"
| "db_step db (fst (create_session s db))"
| "db_step db (fst (update_session s db))"
| "db_step db (fst (create_task t db))"
| "db_step db (fst (update_task t db))"
| "db_step db (fst (db_add_dependency i j db))"
| "db_step db (fst (db_remove_dependency i j db))"
| "db_step db (fst (decompose_task_transactional now p cs cds ts db))"
| "db_step db (fst (acquire_lease now l db))"
| "db_step db (fst (renew_lease i t0 db))"
| "db_step db (fst (release_lease i db))"
| "db_step db (fst (reclaim_expired_leases now db))"
| "db_step db (fst (create_execution x db))"
| "db_step db (fst (update_execution x db))"
| "db_step db (fst (enqueue_command c db))"
| "db_step db (fst (claim_next_queued_command now db))"
| "db_step db (fst (claim_command_by_id now i db))"
| "db_step db (fst (update_command c db))"
| "db_step db (fst (append_event e db))"
| "db_step db (fst (create_approval ap db))"
| "db_step db (fst (update_approval ap db))"
| "db_step db (fst (prune_historical_records now db))"
| "db_step db (fst (create_workspace ws db))"
| "db_step db (fst (update_workspace ws db))"
| "db_step db (fst (delete_workspace i db))"
| "db_step db (fst (create_mission m db))"
| "db_step db (fst (update_mission m db))"
| "db_step db (fst (store_checkpoint k db))"
| "db_step db (fst (create_cycle cy db))"
| "db_step db (fst (update_cycle cy db))"
| "db_step db (fst (create_verification v db))"
| "db_step db (fst (send_message msg db))"
| "db_step db (fst (save_plan_record pl db))"
| "db_step db (fst (save_memory mem db))"
| "db_step db (fst (update_memory mem db))"
| "db_step db (fst (save_recovery_record rv db))"
| "db_step db (fst (update_recovery_record rv db))"
| "db_step db (fst (increment_lease_generation i db))"

inductive_cases db_stepE: "db_step db db'"

lemmas store_invs =
  create_workflow_inv update_workflow_inv create_agent_inv update_agent_inv create_session_inv
  update_session_inv create_task_inv update_task_inv db_add_dependency_inv db_remove_dependency_inv
  decompose_task_transactional_inv acquire_lease_inv renew_lease_inv release_lease_inv
  reclaim_expired_leases_inv create_execution_inv update_execution_inv enqueue_command_inv
  claim_next_queued_command_inv claim_command_by_id_inv update_command_inv append_event_inv
  create_approval_inv update_approval_inv prune_historical_records_inv increment_lease_generation_inv

lemma db_step_inv: "db_step db db' \<Longrightarrow> db_inv db \<Longrightarrow> db_inv db'"
  by (erule db_stepE) (simp_all add: store_invs [THEN keepsD] same_tables_inv [OF mission_tables_same(1)]
    same_tables_inv [OF mission_tables_same(2)] same_tables_inv [OF mission_tables_same(3)]
    same_tables_inv [OF mission_tables_same(4)] same_tables_inv [OF mission_tables_same(5)]
    same_tables_inv [OF mission_tables_same(6)] same_tables_inv [OF mission_tables_same(7)]
    same_tables_inv [OF mission_tables_same(8)] same_tables_inv [OF record_tables_same(1)]
    same_tables_inv [OF record_tables_same(2)] same_tables_inv [OF record_tables_same(3)]
    same_tables_inv [OF record_tables_same(4)] same_tables_inv [OF record_tables_same(5)]
    same_tables_inv [OF record_tables_same(6)] same_tables_inv [OF record_tables_same(7)])

definition reachable_db :: "Db \<Rightarrow> bool" where
  "reachable_db db = db_step\<^sup>*\<^sup>* db_empty db"

lemma db_inv_empty: "db_inv db_empty"
  by (simp add: db_inv_def lease_integrity_def command_integrity_def dependency_integrity_def
      event_integrity_def db_empty_def)

lemma db_steps_inv: "db_step\<^sup>*\<^sup>* db db' \<Longrightarrow> db_inv db \<Longrightarrow> db_inv db'"
  by (induction rule: rtranclp_induct) (auto intro: db_step_inv)

lemma reachable_db_inv: "reachable_db db \<Longrightarrow> db_inv db"
  unfolding reachable_db_def using db_steps_inv db_inv_empty by blast

end
