(* ===== verification/Lease_Manager.thy ===== *)
theory Lease_Manager
  imports Storage_Invariant
begin

text \<open>The lease manager of plexis-runtime (lease\_manager.rs) over the contract of a
lease store: generations never decrease, a grant raises the generation of its task, a
live lease excludes a second grant. The contract is a locale; the fencing lemmas are
proved in it and the SQLite store interprets it.\<close>

section \<open>Along a history of the store\<close>

definition lease_step :: "Db \<Rightarrow> Db \<Rightarrow> bool" where
  "lease_step db db' =
    ((\<forall>i. get_current_lease_generation i db \<le> get_current_lease_generation i db') \<and>
     (\<forall>l' \<in> set (db_leases db').
        (\<exists>l \<in> set (db_leases db). l_task_id l = l_task_id l' \<and> l_generation l = l_generation l') \<or>
        get_current_lease_generation (l_task_id l') db < unat (l_generation l')))"

lemma lease_step_refl: "reflp lease_step"
  by (rule reflpI) (auto simp: lease_step_def)

lemma lease_step_trans: "transp lease_step"
proof (rule transpI)
  fix a b c assume 1: "lease_step a b" and 2: "lease_step b c"
  have "(\<exists>l \<in> set (db_leases a). l_task_id l = l_task_id l' \<and> l_generation l = l_generation l') \<or>
      get_current_lease_generation (l_task_id l') a < unat (l_generation l')"
    if l': "l' \<in> set (db_leases c)" for l'
  proof -
    consider (old) m where "m \<in> set (db_leases b)" "l_task_id m = l_task_id l'" "l_generation m = l_generation l'"
      | (new) "get_current_lease_generation (l_task_id l') b < unat (l_generation l')"
      using 2 l' by (auto simp: lease_step_def)
    then show ?thesis
    proof cases
      case old
      then show ?thesis using 1 unfolding lease_step_def by metis
    next
      case new
      then show ?thesis using 1 unfolding lease_step_def by (meson le_less_trans)
    qed
  qed
  moreover have "get_current_lease_generation i a \<le> get_current_lease_generation i c" for i
    using 1 2 le_trans unfolding lease_step_def by blast
  ultimately show "lease_step a c" unfolding lease_step_def by blast
qed

lemma lease_step_same:
  assumes "generations db' = generations db" "db_leases db' = db_leases db"
  shows "lease_step db db'"
  using assms by (auto simp: lease_step_def generation_map_of)

lemma lease_step_same_tables: "same_tables db db' \<Longrightarrow> lease_step db db'"
  by (rule lease_step_same) (simp_all add: same_tables_def)

lemma lease_step_insert_task: "moves lease_step (insert_task_row t)"
  unfolding moves_def
proof
  fix db :: Db
  let ?db = "db\<lparr>db_tasks := db_tasks db @ [\<lparr>r_task = t, r_generation = 0\<rparr>]\<rparr>"
  have "generations ?db = generations db @ [(t_id t, 0)]" by (simp add: generations_def)
  then have "lease_step db ?db"
    by (auto simp: lease_step_def generation_map_of map_add_def split: option.splits)
  then show "lease_step db (fst (insert_task_row t db))"
    using reflpD [OF lease_step_refl] by (simp add: insert_task_row_def)
qed

lemma lease_step_delete: "lease_step db (delete_leases P db)"
  by (auto simp: lease_step_def generation_map_of tbl_delete_def)

lemma lease_step_renew: "lease_step db (fst (renew_lease i t db))"
  by (auto simp: lease_step_def renew_lease_def generation_map_of generations_def dest!: tbl_modify_set
      split: if_splits)

lemma lease_step_decompose: "moves lease_step (decompose_task_transactional now p cs cds ts)"
  unfolding moves_def
proof
  fix db :: Db
  note rt = lease_step_refl lease_step_trans
  have add: "moves lease_step (db_add_dependency i j)" for i j
    by (simp add: moves_def db_add_dependency_def lease_step_same generations_def)
  have deps: "moves lease_step (insert_deps es)" for es
    unfolding insert_deps_def by (rule moves_for_each [OF rt]) (auto simp: add)
  have rem: "moves lease_step (db_remove_dependency i j)" for i j
    by (simp add: moves_def db_remove_dependency_def lease_step_same generations_def)
  have rew: "moves lease_step (rewire_downstream p ts d)" for d
    unfolding rewire_downstream_def by (intro moves_then rt rem deps)
  have dis: "moves lease_step (discard_parent now p)"
    by (simp add: moves_def discard_parent_def lease_step_same generations_def generations_modify)
  have tx: "moves lease_step (transaction m)" if "moves lease_step m" for m :: "(Db, unit, StorageError) op"
    using that reflpD [OF lease_step_refl]
    by (auto simp: moves_def transaction_def split: prod.splits result.splits) (metis fst_conv)
  have "moves lease_step (transaction (st_then (for_each (\<lambda>c. insert_task_row (c\<lparr>t_parent_id := Some p\<rparr>)) cs)
      (\<lambda>_. st_then (insert_deps cds) (\<lambda>_. st_then (insert_deps es)
      (\<lambda>_. st_then (for_each (rewire_downstream p ts) ds) (\<lambda>_. discard_parent now p))))))" for es ds
    by (intro tx moves_then moves_for_each rt lease_step_insert_task deps rew dis)
  then show "lease_step db (fst (decompose_task_transactional now p cs cds ts db))"
    using reflpD [OF lease_step_refl]
    by (simp add: decompose_task_transactional_def Let_def moves_def)
qed

lemma lease_of_unique:
  "db_inv db \<Longrightarrow> get_lease_by_task i db = Some l \<longleftrightarrow> l \<in> set (db_leases db) \<and> l_task_id l = i"
  by (simp add: get_lease_by_task_def db_inv_def lease_integrity_def tbl_get_unique)

lemma lease_generation_bound:
  assumes inv: "db_inv db" and l: "l \<in> set (db_leases db)"
  shows "unat (l_generation l) \<le> get_current_lease_generation (l_task_id l) db"
proof -
  have "lease_integrity db" using inv by (simp add: db_inv_def)
  then obtain n where n: "(l_task_id l, n) \<in> set (generations db)" "unat (l_generation l) \<le> n"
    and d: "distinct (map fst (generations db))"
    using l by (auto simp: lease_integrity_generations)
  then have "map_of (generations db) (l_task_id l) = Some n" by simp
  then show ?thesis using n(2) by (simp add: generation_map_of)
qed

lemma acquire_grant:
  assumes inv: "db_inv db" and ok: "acquire_lease now l db = (db', Ok g)"
  shows "get_lease_by_task (l_task_id l) db' = Some g"
    and "get_current_lease_generation (l_task_id l) db < unat (l_generation g)"
    and "unat (l_generation g) = get_current_lease_generation (l_task_id l) db'"
    and "g = l\<lparr>l_generation := l_generation g\<rparr>"
    and "stale now (l_task_id l) db"
    and "lease_step db db'"
proof -
  obtain n where n: "map_of (generations db) (l_task_id l) = Some n" "n < max_generation"
    and g: "g = l\<lparr>l_generation := of_nat (n + 1)\<rparr>" and st: "stale now (l_task_id l) db"
    and gens: "generations db' = bump (l_task_id l) (generations db)"
    and leases: "db_leases db' = tbl_delete (\<lambda>q. l_task_id q = l_task_id l) (db_leases db) @ [g]"
    using acquire_lease_Ok [OF inv ok] by blast
  have w: "unat (l_generation g) = n + 1" using generation_word [OF n(2)] by (simp add: g)
  have old: "get_current_lease_generation (l_task_id l) db = n" using n by (simp add: generation_map_of)
  have new: "get_current_lease_generation i db' =
      (if i = l_task_id l then n + 1 else get_current_lease_generation i db)" for i
    using n by (simp add: generation_map_of gens map_of_bump)
  have "keeps db_inv (acquire_lease now l)" by (rule acquire_lease_inv)
  then have inv': "db_inv db'" using inv ok keepsD by fastforce
  show "get_lease_by_task (l_task_id l) db' = Some g"
    unfolding lease_of_unique [OF inv'] by (simp add: leases g)
  show "get_current_lease_generation (l_task_id l) db < unat (l_generation g)" using w old by simp
  show "unat (l_generation g) = get_current_lease_generation (l_task_id l) db'" using w new by simp
  show "g = l\<lparr>l_generation := l_generation g\<rparr>" by (simp add: g)
  show "stale now (l_task_id l) db" by (rule st)
  show "lease_step db db'"
    using w old new by (auto simp: lease_step_def leases tbl_delete_def g)
qed

lemma acquire_grant_fields:
  assumes "db_inv db" "acquire_lease now l db = (db', Ok g)"
  shows "l_id g = l_id l \<and> l_task_id g = l_task_id l \<and> l_agent_id g = l_agent_id l \<and> l_expires_at g = l_expires_at l"
  by (subst (1 2 3 4) acquire_grant(4) [OF assms]) simp

lemma lease_step_acquire:
  assumes "db_inv db"
  shows "lease_step db (fst (acquire_lease now l db))"
proof (cases "acquire_lease now l db")
  case (Pair db' r)
  then show ?thesis
    using acquire_grant(6) [OF assms] acquire_lease_Err [of now l db db'] reflpD [OF lease_step_refl]
    by (cases r) auto
qed

lemma lease_step_increment: "lease_step db (fst (increment_lease_generation i db))"
proof (cases "increment_lease_generation i db")
  case (Pair db' r)
  show ?thesis
  proof (cases r)
    case (Ok g)
    then have "generations db' = bump i (generations db)" "db_leases db' = db_leases db"
      using increment_Ok Pair by blast+
    then show ?thesis using Pair by (auto simp: lease_step_def generation_map_of map_of_bump split: option.splits)
  qed (use Pair increment_Err reflpD [OF lease_step_refl] in fastforce)
qed

lemma db_step_lease:
  assumes "db_inv db" "db_step db db'"
  shows "lease_step db db'"
  using assms(2)
proof (cases rule: db_step.cases)
  case (7 t)
  then show ?thesis using lease_step_insert_task by (simp add: create_task_def moves_def)
next
  case (11 now p cs cds ts)
  then show ?thesis using lease_step_decompose by (simp add: moves_def)
next
  case (12 now l)
  then show ?thesis using lease_step_acquire [OF assms(1)] by simp
next
  case (13 i t)
  then show ?thesis by (simp add: lease_step_renew)
next
  case (14 i)
  then show ?thesis by (simp add: release_lease_def lease_step_delete)
next
  case (15 now)
  then show ?thesis by (simp add: reclaim_expired_leases_def lease_step_delete)
next
  case (8 t)
  then show ?thesis using update_task_same lease_step_same_tables by simp
next
  case (41 i)
  then show ?thesis by (simp add: lease_step_increment)
qed (auto intro!: lease_step_same simp: create_workflow_def update_workflow_def create_agent_def
    update_agent_def create_session_def update_session_def db_add_dependency_def db_remove_dependency_def
    create_execution_def update_execution_def enqueue_command_def claim_next_queued_command_def
    claim_command_by_id_def claim_row_def update_command_def append_event_def create_approval_def
    update_approval_def prune_historical_records_def mission_table_defs record_table_defs generations_def
    split: list.splits option.splits)

section \<open>The contract of a lease store\<close>

locale lease_store =
  fixes inv :: "'s \<Rightarrow> bool"
    and step :: "'s \<Rightarrow> 's \<Rightarrow> bool"
    and lease_of :: "ident \<Rightarrow> 's \<Rightarrow> Lease option"
    and generation :: "ident \<Rightarrow> 's \<Rightarrow> nat"
    and acquire :: "time \<Rightarrow> Lease \<Rightarrow> ('s, Lease, StorageError) op"
  assumes step_inv: "inv s \<Longrightarrow> step s s' \<Longrightarrow> inv s'"
    and step_generation: "inv s \<Longrightarrow> step s s' \<Longrightarrow> generation i s \<le> generation i s'"
    and step_lease: "inv s \<Longrightarrow> step s s' \<Longrightarrow> lease_of i s' = Some l' \<Longrightarrow>
      (\<exists>l. lease_of i s = Some l \<and> l_generation l = l_generation l') \<or> generation i s < unat (l_generation l')"
    and lease_bound: "inv s \<Longrightarrow> lease_of i s = Some l \<Longrightarrow> unat (l_generation l) \<le> generation i s"
    and acquire_is_step: "step s (fst (acquire now l s))"
    and acquire_grants: "inv s \<Longrightarrow> acquire now l s = (s', Ok g) \<Longrightarrow>
      lease_of (l_task_id l) s' = Some g \<and> l_task_id g = l_task_id l \<and>
      generation (l_task_id l) s < unat (l_generation g)"
    and acquire_excludes: "inv s \<Longrightarrow> lease_of (l_task_id l) s = Some old \<Longrightarrow> now < l_expires_at old \<Longrightarrow>
      acquire now l s = (s, Err (LeaseConflict (l_task_id l)))"
begin

lemma steps_inv: "step\<^sup>*\<^sup>* s s' \<Longrightarrow> inv s \<Longrightarrow> inv s'"
  by (induction rule: rtranclp_induct) (auto intro: step_inv)

lemma steps_generation: "step\<^sup>*\<^sup>* s s' \<Longrightarrow> inv s \<Longrightarrow> generation i s \<le> generation i s'"
proof (induction rule: rtranclp_induct)
  case (step y z)
  then show ?case using step_generation steps_inv le_trans by blast
qed simp

lemma granted_generation:
  assumes "inv s" "acquire now l s = (s', Ok g)"
  shows "inv s'" and "unat (l_generation g) \<le> generation (l_task_id l) s'"
proof -
  have "step s s'" using acquire_is_step [of s now l] assms(2) by simp
  then show i: "inv s'" using assms(1) step_inv by blast
  show "unat (l_generation g) \<le> generation (l_task_id l) s'"
    using acquire_grants [OF assms] lease_bound [OF i] by blast
qed

text \<open>Fencing: a later grant for the task carries a larger generation, whatever happened
in between.\<close>

lemma grants_increase:
  assumes i: "inv s" and 1: "acquire now l s = (s1, Ok g1)" and h: "step\<^sup>*\<^sup>* s1 s2"
    and 2: "acquire now' l' s2 = (s3, Ok g2)" and t: "l_task_id l' = l_task_id l"
  shows "l_generation g1 < l_generation g2"
proof -
  note g = granted_generation [OF i 1]
  have "unat (l_generation g1) \<le> generation (l_task_id l) s2"
    using g(2) steps_generation [OF h g(1), of "l_task_id l"] by simp
  also have "\<dots> < unat (l_generation g2)"
    using acquire_grants [OF steps_inv [OF h g(1)] 2] t by simp
  finally show ?thesis by (simp add: word_less_nat_alt)
qed

text \<open>Once a larger generation has been granted, no lease of the task ever carries the
older one again.\<close>

lemma newer_generation_stays:
  assumes "step\<^sup>*\<^sup>* s s'" "inv s" "n < generation i s"
    "\<forall>l. lease_of i s = Some l \<longrightarrow> n < unat (l_generation l)"
  shows "\<forall>l. lease_of i s' = Some l \<longrightarrow> n < unat (l_generation l)"
  using assms
proof (induction rule: rtranclp_induct)
  case (step y z)
  have y: "inv y" "n < generation i y"
    using steps_inv steps_generation step by (blast, meson less_le_trans)
  show ?case
  proof (intro allI impI)
    fix l assume "lease_of i z = Some l"
    from step_lease [OF y(1) step.hyps(2) this] show "n < unat (l_generation l)"
      using step.IH [OF step.prems] y(2) by (metis less_trans)
  qed
qed simp

lemma stale_token_rejected:
  assumes i: "inv s" and 1: "acquire now l s = (s1, Ok g1)" and h: "step\<^sup>*\<^sup>* s1 s2"
    and 2: "acquire now' l' s2 = (s3, Ok g2)" and t: "l_task_id l' = l_task_id l"
    and h': "step\<^sup>*\<^sup>* s3 s4" and q: "lease_of (l_task_id l) s4 = Some q"
  shows "Lease_validate_token (l_generation g1) t0 q = Err (GenerationMismatch (l_generation q) (l_generation g1))"
proof -
  have i2: "inv s2" using steps_inv [OF h] granted_generation(1) [OF i 1] by blast
  note g2 = granted_generation [OF i2 2]
  have less: "unat (l_generation g1) < unat (l_generation g2)"
    using grants_increase [OF i 1 h 2 t] by (simp add: word_less_nat_alt)
  have "lease_of (l_task_id l) s3 = Some g2" using acquire_grants [OF i2 2] t by simp
  then have "\<forall>q. lease_of (l_task_id l) s4 = Some q \<longrightarrow> unat (l_generation g1) < unat (l_generation q)"
    using newer_generation_stays [OF h' g2(1), of "unat (l_generation g1)" "l_task_id l"] less g2(2) t by auto
  then show ?thesis using q by (auto simp: Lease_validate_token_def)
qed

end

interpretation sqlite_leases: lease_store db_inv db_step get_lease_by_task get_current_lease_generation acquire_lease
proof
  fix s s' :: Db and i and l l' g old :: Lease and now
  show "db_inv s \<Longrightarrow> db_step s s' \<Longrightarrow> db_inv s'" by (rule db_step_inv)
  show "db_inv s \<Longrightarrow> db_step s s' \<Longrightarrow> get_current_lease_generation i s \<le> get_current_lease_generation i s'"
    using db_step_lease by (auto simp: lease_step_def)
  show "(\<exists>l. get_lease_by_task i s = Some l \<and> l_generation l = l_generation l') \<or>
      get_current_lease_generation i s < unat (l_generation l')"
    if "db_inv s" "db_step s s'" "get_lease_by_task i s' = Some l'"
  proof -
    have "l' \<in> set (db_leases s')" "l_task_id l' = i"
      using that db_step_inv lease_of_unique by blast+
    then show ?thesis
      using db_step_lease [OF that(1,2)] lease_of_unique [OF that(1)] unfolding lease_step_def by blast
  qed
  show "unat (l_generation l) \<le> get_current_lease_generation i s"
    if "db_inv s" "get_lease_by_task i s = Some l"
    using that lease_generation_bound [OF that(1), of l] lease_of_unique [OF that(1), of i l] by simp
  show "db_step s (fst (acquire_lease now l s))" by (rule db_step.intros)
  show "get_lease_by_task (l_task_id l) s' = Some g \<and> l_task_id g = l_task_id l \<and>
      get_current_lease_generation (l_task_id l) s < unat (l_generation g)"
    if "db_inv s" "acquire_lease now l s = (s', Ok g)"
    using acquire_grant(1,2) [OF that] acquire_grant_fields [OF that] by blast
  show "acquire_lease now l s = (s, Err (LeaseConflict (l_task_id l)))"
    if "db_inv s" "get_lease_by_task (l_task_id l) s = Some old" "now < l_expires_at old"
    using that(2,3) unfolding acquire_lease_def by simp
qed

section \<open>The lease manager\<close>

text \<open>An error keeps its constructor and its cause; a lease error without a cause reports
that the task has no lease.\<close>

datatype RuntimeError =
    Core StateTransitionError
  | Storage StorageError
  | Dispatch string
  | InvalidCommand string
  | Execution string
  | Lease "LeaseError option"
  | Reconciliation string
  | Verification string
  | Security string
  | NotFound string
  | Conflict string
  | Mission string
  | Timeout string

definition lm_acquire ::
  "ident \<Rightarrow> time \<Rightarrow> time \<Rightarrow> ident \<Rightarrow> ident \<Rightarrow> time \<Rightarrow> (Db, Lease, RuntimeError) op" where
  "lm_acquire fresh now now' task_id agent_id ttl db =
    (case acquire_lease now' (Lease_new fresh now task_id agent_id ttl) db of
       (db', r) \<Rightarrow> (db', map_err Storage r))"

definition lm_validate_token :: "ident \<Rightarrow> u64 \<Rightarrow> time \<Rightarrow> Db \<Rightarrow> (Lease, RuntimeError) result" where
  "lm_validate_token task_id generation now db =
    and_then (ok_or (Lease None) (get_lease_by_task task_id db))
      (\<lambda>lease. and_then (map_err (\<lambda>e. Lease (Some e)) (Lease_validate_token generation now lease))
        (\<lambda>_. Ok lease))"

definition lm_renew :: "ident \<Rightarrow> time \<Rightarrow> time \<Rightarrow> (Db, unit, RuntimeError) op" where
  "lm_renew lease_id extension now db =
    (case renew_lease lease_id (now + extension) db of (db', r) \<Rightarrow> (db', map_err Storage r))"

definition lm_release :: "ident \<Rightarrow> (Db, unit, RuntimeError) op" where
  "lm_release lease_id db = (case release_lease lease_id db of (db', r) \<Rightarrow> (db', map_err Storage r))"

end
