(* ===== verification/Mission_Engine.thy ===== *)
theory Mission_Engine
  imports Storage_Missions Lease_Manager Text_Ops
begin

text \<open>The mission engine and the checkpoint manager of plexis-runtime
(mission/engine.rs, mission/checkpoint.rs). The engine holds the store and the set of
running missions. What one operation reads from outside is a record: the clock, the
workflow executor, and the processes it runs (git, cargo, the custom verifier), each
giving None when the process cannot be started. A new identifier is one that no row
of its table has. Event payloads and log lines are left out; where the source drops
the result of a call, the definition drops it too.\<close>

section \<open>The environment\<close>

record WorkflowExecutionSummary =
  su_executed_tasks_count :: nat
  su_completed_tasks_count :: nat
  su_failed_tasks_count :: nat
  su_discovered_tasks_count :: nat
  su_active_executions :: "ident list"

type_synonym executor = "ident \<Rightarrow> ident \<Rightarrow> (Db, WorkflowExecutionSummary, RuntimeError) op"

record MissionEnv =
  env_now :: time
  env_executor :: "executor option"
  env_path_exists :: "string \<Rightarrow> bool"
  env_git_rev_parse :: "string \<Rightarrow> (bool \<times> string) option"
  env_git_status :: "string \<Rightarrow> string option"
  env_cargo_test :: "string \<Rightarrow> bool option"
  env_run :: "string list \<Rightarrow> string \<Rightarrow> bool option"

record MissionEngine =
  en_store :: Db
  en_running :: "ident list"

definition fresh_id :: "ident list \<Rightarrow> ident" where
  "fresh_id used = foldr max used 0 + 1"

lemma fresh_id_notin: "fresh_id used \<notin> set used"
proof -
  have "i \<in> set used \<Longrightarrow> i \<le> foldr max used 0" for i by (induction used) auto
  then show ?thesis unfolding fresh_id_def by fastforce
qed

definition is_running :: "ident \<Rightarrow> MissionEngine \<Rightarrow> bool" where
  "is_running i s = (i \<in> set (en_running s))"

definition mark_running :: "ident \<Rightarrow> MissionEngine \<Rightarrow> MissionEngine" where
  "mark_running i s = s\<lparr>en_running := List.insert i (en_running s)\<rparr>"

definition unmark_running :: "ident \<Rightarrow> MissionEngine \<Rightarrow> MissionEngine" where
  "unmark_running i s = s\<lparr>en_running := removeAll i (en_running s)\<rparr>"

definition Event_new :: "ident \<Rightarrow> time \<Rightarrow> string \<Rightarrow> ident \<Rightarrow> string \<Rightarrow> Event" where
  "Event_new fresh now ty agg event_type =
    \<lparr>e_id = fresh, e_aggregate_type = ty, e_aggregate_id = agg, e_event_type = event_type,
     e_timestamp = now, e_sequence = None\<rparr>"

definition emit :: "time \<Rightarrow> ident \<Rightarrow> string \<Rightarrow> Db \<Rightarrow> Db" where
  "emit now i event_type db =
    fst (append_event (Event_new (fresh_id (map (e_id \<circ> snd) (db_events db))) now ''mission'' i event_type) db)"

definition emit_mission_event :: "MissionEnv \<Rightarrow> ident \<Rightarrow> string \<Rightarrow> MissionEngine \<Rightarrow> MissionEngine" where
  "emit_mission_event env i event_type s = s\<lparr>en_store := emit (env_now env) i event_type (en_store s)\<rparr>"

text \<open>A call of the store with its error converted by the question mark.\<close>

definition on_store :: "(Db, 'a, StorageError) op \<Rightarrow> (MissionEngine, 'a, RuntimeError) op" where
  "on_store f s = (case f (en_store s) of (db', r) \<Rightarrow> (s\<lparr>en_store := db'\<rparr>, map_err Storage r))"

text \<open>A call whose result is dropped.\<close>

definition ignoring :: "(Db, 'a, StorageError) op \<Rightarrow> MissionEngine \<Rightarrow> MissionEngine" where
  "ignoring f s = s\<lparr>en_store := fst (f (en_store s))\<rparr>"

definition find_mission :: "ident \<Rightarrow> (MissionEngine, Mission, RuntimeError) op" where
  "find_mission i s = (s, ok_or (NotFound ''Mission not found'') (get_mission i (en_store s)))"

section \<open>Processes\<close>

definition get_git_commit_sha :: "MissionEnv \<Rightarrow> string \<Rightarrow> string option" where
  "get_git_commit_sha env dir =
    (case env_git_rev_parse env dir of
       None \<Rightarrow> None
     | Some (success, out) \<Rightarrow>
         (let sha = str_trim out in if success \<and> sha \<noteq> [] then Some sha else None))"

definition evaluate_stopping_condition :: "MissionEnv \<Rightarrow> string \<Rightarrow> StoppingCondition \<Rightarrow> bool \<times> string option" where
  "evaluate_stopping_condition env path cond =
    (let sha = get_git_commit_sha env path in
     if required_commit_exists cond \<and> sha = None then (False, None)
     else if working_tree_clean cond \<and>
             (case env_git_status env path of Some out \<Rightarrow> str_trim out \<noteq> [] | None \<Rightarrow> True) then (False, sha)
     else if required_tests_pass cond \<and>
             (case env_cargo_test env path of Some success \<Rightarrow> \<not> success | None \<Rightarrow> True) then (False, sha)
     else if (case custom_verifier cond of
                None \<Rightarrow> False
              | Some cmd \<Rightarrow> (let parts = split_whitespace cmd in
                  parts \<noteq> [] \<and>
                  (case env_run env parts path of Some success \<Rightarrow> \<not> success | None \<Rightarrow> True))) then (False, sha)
     else (True, sha))"

section \<open>Checkpoints\<close>

definition checkpoint_of ::
  "MissionEnv \<Rightarrow> ident \<Rightarrow> ident \<Rightarrow> u32 \<Rightarrow> ident \<Rightarrow> MissionBudgetConsumed \<Rightarrow> string option \<Rightarrow>
   ident list \<Rightarrow> json \<Rightarrow> Task list \<Rightarrow> MissionCheckpoint" where
  "checkpoint_of env fresh mission_id idx workflow_id consumed commit active ctx tasks =
    \<lparr>ck_id = fresh, ck_mission_id = mission_id, ck_cycle_index = idx, ck_workflow_id = workflow_id,
     ck_task_states_summary =
       fold (\<lambda>t. AList.update (t_id t) (TaskState_as_str (t_state t))) tasks [],
     ck_active_executions = active,
     ck_completed_tasks = map t_id (filter (\<lambda>t. t_state t = TaskState.Verified) tasks),
     ck_unresolved_tasks = map t_id (filter (\<lambda>t. t_state t \<noteq> TaskState.Verified \<and>
                                                 \<not> TaskState_is_terminal (t_state t)) tasks),
     ck_budget_consumed = consumed, ck_latest_verified_commit = commit,
     ck_planner_context = ctx, ck_created_at = env_now env\<rparr>"

definition create_checkpoint ::
  "MissionEnv \<Rightarrow> ident \<Rightarrow> u32 \<Rightarrow> ident \<Rightarrow> MissionBudgetConsumed \<Rightarrow> string option \<Rightarrow> ident list \<Rightarrow> json \<Rightarrow>
   (Db, MissionCheckpoint, StorageError) op" where
  "create_checkpoint env mission_id idx workflow_id consumed commit active ctx db =
    (let c = checkpoint_of env (fresh_id (map ck_id (db_checkpoints db))) mission_id idx workflow_id
               consumed commit active ctx (list_tasks_by_workflow workflow_id db)
     in case store_checkpoint c db of
          (db', Ok _) \<Rightarrow> (db', Ok c)
        | (db', Err e) \<Rightarrow> (db', Err e))"

section \<open>Administrative operations\<close>

definition engine_create_mission ::
  "MissionEnv \<Rightarrow> string \<Rightarrow> string \<Rightarrow> ident option \<Rightarrow> MissionBudget option \<Rightarrow> StoppingCondition option \<Rightarrow>
   (MissionEngine, Mission, RuntimeError) op" where
  "engine_create_mission env title objective workspace_id budget stopping s =
    (let m0 = Mission_new (fresh_id (map m_id (db_missions (en_store s)))) (env_now env) title objective;
         m = m0\<lparr>m_workspace_id := workspace_id,
                m_budget := (case budget of Some b \<Rightarrow> b | None \<Rightarrow> m_budget m0),
                m_stopping_condition := (case stopping of Some c \<Rightarrow> c | None \<Rightarrow> m_stopping_condition m0)\<rparr>
     in st_then (on_store (create_mission m))
          (\<lambda>_ s1. (emit_mission_event env (m_id m) ''mission_created'' s1, Ok m)) s)"

definition start_mission :: "MissionEnv \<Rightarrow> ident \<Rightarrow> (MissionEngine, Mission, RuntimeError) op" where
  "start_mission env i = st_then (find_mission i) (\<lambda>m s.
    if MissionState_is_terminal (m_state m) then (s, Err (Conflict ''Cannot start mission in terminal state''))
    else case (if m_state m = MissionState.Created then MissionState_transition_to (m_state m) MissionState.Planning
               else if m_state m = MissionState.Waiting \<or> m_state m = MissionState.NeedsHuman
               then MissionState_transition_to (m_state m) MissionState.Running
               else Ok (m_state m)) of
           Err e \<Rightarrow> (s, Err (Core e))
         | Ok st \<Rightarrow> (let m1 = m\<lparr>m_state := st\<rparr> in
             st_then (on_store (update_mission m1))
               (\<lambda>_ s1. (emit_mission_event env i ''mission_started'' (mark_running i s1), Ok m1)) s))"

definition pause_mission :: "MissionEnv \<Rightarrow> ident \<Rightarrow> (MissionEngine, Mission, RuntimeError) op" where
  "pause_mission env i = st_then (find_mission i) (\<lambda>m s.
    if MissionState_is_terminal (m_state m) then (s, Err (Conflict ''Cannot pause mission in terminal state''))
    else case MissionState_transition_to (m_state m) MissionState.Waiting of
           Err e \<Rightarrow> (s, Err (Core e))
         | Ok st \<Rightarrow> (let m1 = m\<lparr>m_state := st\<rparr> in
             st_then (on_store (update_mission m1))
               (\<lambda>_ s1. (emit_mission_event env i ''mission_paused'' (unmark_running i s1), Ok m1)) s))"

definition resume_mission :: "MissionEnv \<Rightarrow> ident \<Rightarrow> (MissionEngine, Mission, RuntimeError) op" where
  "resume_mission env i = start_mission env i"

definition cancel_mission :: "MissionEnv \<Rightarrow> ident \<Rightarrow> (MissionEngine, Mission, RuntimeError) op" where
  "cancel_mission env i = st_then (find_mission i) (\<lambda>m s.
    case MissionState_transition_to (m_state m) MissionState.Cancelled of
      Err e \<Rightarrow> (s, Err (Core e))
    | Ok st \<Rightarrow> (let m1 = m\<lparr>m_state := st\<rparr> in
        st_then (on_store (update_mission m1))
          (\<lambda>_ s1. (emit_mission_event env i ''mission_cancelled'' (unmark_running i s1), Ok m1)) s))"

definition escalate_human :: "MissionEnv \<Rightarrow> ident \<Rightarrow> string \<Rightarrow> (MissionEngine, Mission, RuntimeError) op" where
  "escalate_human env i why = st_then (find_mission i) (\<lambda>m s.
    let m1 = try_transition MissionState.NeedsHuman
               (m\<lparr>m_escalation_reason := Some why,
                  m_metadata := json_insert ''escalation_reason'' (JStr why) (m_metadata m),
                  m_health_status := MissionHealth.Escalated\<rparr>)
    in st_then (on_store (update_mission m1))
         (\<lambda>_ s1. (emit_mission_event env i ''human_escalation'' (unmark_running i s1), Ok m1)) s)"

definition resolve_escalation :: "MissionEnv \<Rightarrow> ident \<Rightarrow> string \<Rightarrow> (MissionEngine, Mission, RuntimeError) op" where
  "resolve_escalation env i decision = st_then (find_mission i) (\<lambda>m s.
    if m_state m \<noteq> MissionState.NeedsHuman then (s, Err (Conflict ''Mission is not in NeedsHuman state''))
    else let m1 = m\<lparr>m_escalation_reason := None, m_health_status := Healthy\<rparr>;
             d = str_to_lowercase decision;
             m2 = try_transition (if d = ''cancel'' then MissionState.Cancelled
                                  else if d = ''replan'' then MissionState.Replanning
                                  else MissionState.Running) m1
         in st_then (on_store (update_mission m2))
              (\<lambda>_ s1. (emit_mission_event env i ''human_resolution'' s1, Ok m2)) s)"

end
