(* ===== verification/Mission_Step.thy ===== *)
theory Mission_Step
  imports Mission_Engine
begin

text \<open>The autonomous step of the mission engine (step\_mission in mission/engine.rs),
in the order of the source: budget check, active workflow, execution of the cycle,
choice of the candidate worktree, stopping condition, escalations, liveness,
replanning, checkpoint.\<close>

section \<open>Budget and workflow\<close>

definition halt_exhausted :: "MissionEnv \<Rightarrow> Mission \<Rightarrow> string \<Rightarrow> (MissionEngine, Mission, RuntimeError) op" where
  "halt_exhausted env m why s =
    (let m1 = (try_transition MissionState.BudgetExhausted m)\<lparr>m_final_outcome := Some
           \<lparr>o_success = False, o_summary = ''Mission halted due to budget exhaustion: '' @ why,
            o_verified_commit_sha = m_latest_verified_commit m, o_cycles_count = m_cycle_index m,
            o_completion_reason = why\<rparr>\<rparr>
     in st_then (on_store (update_mission m1))
          (\<lambda>_ s1. (emit_mission_event env (m_id m) ''budget_warning'' (unmark_running (m_id m) s1), Ok m1)) s)"

definition workspace_path :: "Mission \<Rightarrow> Db \<Rightarrow> string option" where
  "workspace_path m db =
    (case m_workspace_id m of
       None \<Rightarrow> None
     | Some i \<Rightarrow> map_option ws_canonical_path (get_workspace i db))"

definition past_outcomes :: "MissionCycle list \<Rightarrow> string list" where
  "past_outcomes cycles = concat (map (\<lambda>c. case cy_outcome c of
       None \<Rightarrow> []
     | Some o' \<Rightarrow> [''Cycle '' @ dec_word (cy_cycle_index c) @ '' ['' @ cy_phase c @ '']: '' @ o']) cycles)"

fun join_lines :: "string list \<Rightarrow> string" where
  "join_lines [] = []"
| "join_lines [x] = x"
| "join_lines (x # xs) = x @ CHR 0x0A # join_lines xs"

definition cycle_workflow :: "MissionEnv \<Rightarrow> Mission \<Rightarrow> Db \<Rightarrow> Workflow" where
  "cycle_workflow env m db =
    (let w0 = Workflow_new (fresh_id (map w_id (db_workflows db))) (env_now env)
               (m_title m @ '' - Cycle '' @ dec_word (m_cycle_index m + 1)) (m_objective m);
         w1 = w0\<lparr>w_workspace_id := m_workspace_id m,
                 w_metadata := json_insert ''worktree_isolation'' (JBool True)
                   (json_insert ''cycle_index'' (JNum (uint (m_cycle_index m))) (w_metadata w0))\<rparr>;
         past = past_outcomes (list_cycles (m_id m) db);
         w2 = (if 0 < m_cycle_index m \<and> past \<noteq> []
               then w1\<lparr>w_metadata := json_insert ''failure_diagnostics'' (JStr (join_lines past)) (w_metadata w1)\<rparr>
               else w1);
         backend = (case json_get ''backend'' (m_metadata m) of Some b \<Rightarrow> b | None \<Rightarrow> JStr ''gemini_cli'')
     in w2\<lparr>w_metadata := json_insert ''backend'' backend (w_metadata w2)\<rparr>)"

definition ensure_workflow :: "MissionEnv \<Rightarrow> Mission \<Rightarrow> (MissionEngine, ident \<times> Mission, RuntimeError) op" where
  "ensure_workflow env m s =
    (case m_active_workflow_id m of
       Some w \<Rightarrow> (s, Ok (w, m))
     | None \<Rightarrow> (let wf = cycle_workflow env m (en_store s) in
         st_then (on_store (create_workflow wf))
           (\<lambda>_ s1. (s1, Ok (w_id wf, m\<lparr>m_active_workflow_id := Some (w_id wf)\<rparr>))) s))"

text \<open>The execution of the cycle: the tracker counts one execution per executed task,
or one when no executor is registered.\<close>

definition record_executions :: "nat \<Rightarrow> BudgetTracker \<Rightarrow> BudgetTracker" where
  "record_executions n t = fold (\<lambda>_. record_execution) [0..<n] t"

definition with_executions :: "BudgetTracker \<Rightarrow> Mission \<Rightarrow> Mission" where
  "with_executions t m = m\<lparr>m_budget_consumed := (m_budget_consumed m)\<lparr>
     total_executions := total_executions (tr_consumed t)\<rparr>\<rparr>"

definition execute_cycle ::
  "MissionEnv \<Rightarrow> ident \<Rightarrow> BudgetTracker \<Rightarrow> Mission \<Rightarrow>
   (MissionEngine, BudgetTracker \<times> Mission \<times> WorkflowExecutionSummary option, RuntimeError) op" where
  "execute_cycle env workflow_id t m s =
    (case env_executor env of
       Some ex \<Rightarrow>
         (case ex workflow_id (m_id m) (en_store s) of
            (db', Err e) \<Rightarrow> (s\<lparr>en_store := db'\<rparr>, Err e)
          | (db', Ok summary) \<Rightarrow>
              (s\<lparr>en_store := db'\<rparr>,
               if 0 < su_executed_tasks_count summary
               then (let t1 = record_executions (su_executed_tasks_count summary) t
                     in Ok (t1, with_executions t1 m, Some summary))
               else Ok (t, m, Some summary)))
     | None \<Rightarrow> (s, let t1 = record_execution t in Ok (t1, with_executions t1 m, None)))"

section \<open>The candidate and the stopping condition\<close>

definition has_key :: "string \<Rightarrow> Task \<Rightarrow> bool" where
  "has_key k t = (json_get k (t_metadata t) \<noteq> None)"

definition str_key :: "string \<Rightarrow> Task \<Rightarrow> string option" where
  "str_key k t = Option.bind (json_get k (t_metadata t)) json_str"

definition deliverable :: "Task \<Rightarrow> bool" where
  "deliverable t = (t_state t = TaskState.Verified \<or> t_state t = TaskState.AwaitingVerification)"

definition candidate_worktree :: "Task list \<Rightarrow> Task option" where
  "candidate_worktree tasks =
    (case List.find (\<lambda>t. deliverable t \<and> has_key ''commit_sha'' t \<and> has_key ''worktree_path'' t) (rev tasks) of
       Some t \<Rightarrow> Some t
     | None \<Rightarrow> (case List.find (\<lambda>t. deliverable t \<and> has_key ''worktree_path'' t) (rev tasks) of
         Some t \<Rightarrow> Some t
       | None \<Rightarrow> List.find (\<lambda>t. has_key ''commit_sha'' t \<and> has_key ''worktree_path'' t) (rev tasks)))"

definition evaluation_target ::
  "MissionEnv \<Rightarrow> string option \<Rightarrow> Task list \<Rightarrow> string option \<times> string option" where
  "evaluation_target env workspace tasks =
    (case candidate_worktree tasks of
       None \<Rightarrow> (workspace, None)
     | Some t \<Rightarrow>
         (case str_key ''worktree_path'' t of
            Some p \<Rightarrow> (if env_path_exists env p then Some p else workspace)
          | None \<Rightarrow> workspace, str_key ''commit_sha'' t))"

definition active_executions_of :: "WorkflowExecutionSummary option \<Rightarrow> ident list" where
  "active_executions_of summary = (case summary of Some x \<Rightarrow> su_active_executions x | None \<Rightarrow> [])"

definition with_discovered :: "WorkflowExecutionSummary option \<Rightarrow> MissionCycle \<Rightarrow> MissionCycle" where
  "with_discovered summary c = (case summary of
     Some x \<Rightarrow> c\<lparr>cy_discovered_tasks_count := of_nat (su_discovered_tasks_count x)\<rparr> | None \<Rightarrow> c)"

definition finished_cycle ::
  "MissionEnv \<Rightarrow> Mission \<Rightarrow> ident \<Rightarrow> string \<Rightarrow> string \<Rightarrow> WorkflowExecutionSummary option \<Rightarrow> MissionCycle" where
  "finished_cycle env m workflow_id phase outcome summary =
    with_discovered summary
      ((MissionCycle_new (env_now env) (m_id m) (m_cycle_index m) workflow_id phase)
        \<lparr>cy_completed_at := Some (env_now env), cy_outcome := Some outcome\<rparr>)"

text \<open>The branch taken when the stopping condition holds.\<close>

definition awaiting_mission :: "string option \<Rightarrow> Mission \<Rightarrow> Mission" where
  "awaiting_mission commit m =
    (try_transition MissionState.AwaitingAcceptance (try_transition MissionState.Verifying m))
      \<lparr>m_latest_verified_commit := commit,
       m_final_outcome := Some
         \<lparr>o_success = True,
          o_summary = ''Mission stopping conditions physically verified after '' @ dec_word (m_cycle_index m + 1) @
            '' cycles. Review package ready; awaiting human acceptance.'',
          o_verified_commit_sha = commit, o_cycles_count = m_cycle_index m + 1,
          o_completion_reason = ''All verified stopping conditions satisfied on disk; awaiting human acceptance''\<rparr>\<rparr>"

definition conclude_verified ::
  "MissionEnv \<Rightarrow> ident \<Rightarrow> string option \<Rightarrow> WorkflowExecutionSummary option \<Rightarrow> Mission \<Rightarrow>
   (MissionEngine, Mission, RuntimeError) op" where
  "conclude_verified env workflow_id commit summary m s =
    (let s1 = emit_mission_event env (m_id m) ''verification_passed'' s;
         m1 = awaiting_mission commit m;
         c = finished_cycle env m1 workflow_id ''verification''
               ''All physical stopping conditions verified on disk. Awaiting human acceptance.'' summary;
         s2 = ignoring (create_cycle c) s1;
         s3 = ignoring (create_checkpoint env (m_id m1) (m_cycle_index m1) workflow_id (m_budget_consumed m1)
                (m_latest_verified_commit m1) (active_executions_of summary)
                (JObj [(''completion'', JStr ''stopping_condition_satisfied''), (''awaiting_acceptance'', JBool True)])) s2
     in st_then (on_store (update_mission m1))
          (\<lambda>_ s4. (emit_mission_event env (m_id m1) ''mission_awaiting_acceptance'' (unmark_running (m_id m1) s4),
                   Ok m1)) s3)"

section \<open>Escalations\<close>

definition escalate_and_reload :: "MissionEnv \<Rightarrow> ident \<Rightarrow> string \<Rightarrow> (MissionEngine, Mission, RuntimeError) op" where
  "escalate_and_reload env i why = st_then (escalate_human env i why) (\<lambda>_. find_mission i)"

definition human_reason :: "Task \<Rightarrow> string" where
  "human_reason t =
    (case (case json_get ''fatal_reason'' (t_metadata t) of Some v \<Rightarrow> Some v
             | None \<Rightarrow> json_get ''escalation_reason'' (t_metadata t)) of
       Some v \<Rightarrow> (case json_str v of Some x \<Rightarrow> x | None \<Rightarrow> ''Task requires human intervention'')
     | None \<Rightarrow> ''Task requires human intervention'')"

definition provider_failure :: "string \<Rightarrow> bool" where
  "provider_failure msg =
    (let low = str_to_lowercase msg in
     str_contains ''not installed'' low \<or> str_contains ''not found on path'' low \<or>
     str_contains ''authentication_required'' low \<or> str_contains ''executable not found'' low)"

definition error_messages :: "Db \<Rightarrow> Task \<Rightarrow> string list" where
  "error_messages db t =
    concat (map (\<lambda>e. case x_error_message e of Some msg \<Rightarrow> [msg] | None \<Rightarrow> []) (list_executions_by_task (t_id t) db))"

definition provider_error :: "Db \<Rightarrow> Task list \<Rightarrow> string option" where
  "provider_error db tasks =
    List.find provider_failure (concat (map (error_messages db) (filter (\<lambda>t. t_state t = TaskState.Failed) tasks)))"

text \<open>The first error message of the workflow, task by task.\<close>

definition last_error_context :: "Db \<Rightarrow> Task list \<Rightarrow> string" where
  "last_error_context db tasks =
    (case concat (map (error_messages db) tasks) of [] \<Rightarrow> [] | msg # _ \<Rightarrow> '': '' @ msg)"

section \<open>Liveness, replanning and the step\<close>

definition snapshot_of :: "MissionEnv \<Rightarrow> string option \<Rightarrow> string option \<Rightarrow> Task list \<Rightarrow> ProgressSnapshot" where
  "snapshot_of env workspace candidate_commit tasks =
    \<lparr>ps_completed_tasks_count = length (filter (\<lambda>t. t_state t = TaskState.Verified) tasks),
     ps_task_graph_node_count = length tasks,
     ps_latest_git_commit = (case candidate_commit of Some c \<Rightarrow> Some c
       | None \<Rightarrow> Option.bind workspace (get_git_commit_sha env))\<rparr>"

text \<open>The evaluator is built on the snapshot it is then asked about.\<close>

definition assess_liveness :: "ProgressSnapshot \<Rightarrow> Mission \<Rightarrow> MissionHealth \<times> bool" where
  "assess_liveness snapshot m =
    snd (evaluate snapshot
      ((LivenessEvaluator_new (max_stagnant_cycles (m_budget m)) snapshot)
        \<lparr>le_consecutive_stagnant_cycles := stagnant_cycles (m_budget_consumed m)\<rparr>))"

definition escalate_stagnation ::
  "MissionEnv \<Rightarrow> Task list \<Rightarrow> Mission \<Rightarrow> (MissionEngine, Mission, RuntimeError) op" where
  "escalate_stagnation env tasks m s =
    (let s1 = emit_mission_event env (m_id m) ''stagnation_detected'' s;
         s2 = fst (escalate_human env (m_id m)
                (''Stagnation detected: '' @ dec_word (stagnant_cycles (m_budget_consumed m)) @
                 '' consecutive cycles with no observable code or task progress'' @
                 last_error_context (en_store s1) tasks) s1)
     in find_mission (m_id m) s2)"

definition failed_or_blocked :: "Task list \<Rightarrow> WorkflowExecutionSummary option \<Rightarrow> bool" where
  "failed_or_blocked tasks summary =
    (list_ex (\<lambda>t. t_state t = TaskState.Failed \<or> t_state t = TaskState.Blocked) tasks \<or>
     (case summary of Some x \<Rightarrow> 0 < su_failed_tasks_count x | None \<Rightarrow> False))"

definition replan ::
  "MissionEnv \<Rightarrow> ident \<Rightarrow> bool \<Rightarrow> WorkflowExecutionSummary option \<Rightarrow> BudgetTracker \<Rightarrow> Mission \<Rightarrow>
   MissionEngine \<Rightarrow> MissionEngine \<times> Mission" where
  "replan env workflow_id failed summary t m s =
    (let m1 = try_transition MissionState.Replanning m;
         c = finished_cycle env m1 workflow_id (if failed then ''recovery'' else ''continuation'')
               (if failed then ''Cycle failed verification or encountered task error; replanning required''
                else ''Cycle tasks completed without satisfying stopping condition; replanning required'') summary;
         s1 = ignoring (create_cycle c) s;
         m2 = m1\<lparr>m_cycle_index := m_cycle_index m1 + 1,
                 m_budget_consumed := tr_consumed (record_planner_iteration t),
                 m_active_workflow_id := None\<rparr>
     in (emit_mission_event env (m_id m2) ''replan_started'' s1, m2))"

definition checkpoint_step ::
  "MissionEnv \<Rightarrow> ident \<Rightarrow> bool \<Rightarrow> ProgressSnapshot \<Rightarrow> WorkflowExecutionSummary option \<Rightarrow> Mission \<Rightarrow>
   (MissionEngine, Mission, RuntimeError) op" where
  "checkpoint_step env workflow_id failed snapshot summary m s =
    (let s1 = ignoring (create_checkpoint env (m_id m) (m_cycle_index m) workflow_id (m_budget_consumed m)
           (ps_latest_git_commit snapshot) (active_executions_of summary)
           (JObj [(''cycle_index'', JNum (uint (m_cycle_index m))),
                  (''completed_tasks'', JNum (int (ps_completed_tasks_count snapshot))),
                  (''total_tasks'', JNum (int (ps_task_graph_node_count snapshot))),
                  (''failed_or_blocked'', JBool failed)])) s
     in st_then (on_store (update_mission m))
          (\<lambda>_ s2. (emit_mission_event env (m_id m) ''progress_checkpoint'' s2, Ok m)) s1)"

definition conclude_unverified ::
  "MissionEnv \<Rightarrow> ident \<Rightarrow> Task list \<Rightarrow> ProgressSnapshot \<Rightarrow> WorkflowExecutionSummary option \<Rightarrow> BudgetTracker \<Rightarrow>
   Mission \<Rightarrow> (MissionEngine, Mission, RuntimeError) op" where
  "conclude_unverified env workflow_id tasks snapshot summary t m s =
    (let (health, progressed) = assess_liveness snapshot m;
         m1 = m\<lparr>m_health_status := health\<rparr>;
         t1 = (if progressed then reset_stagnant_cycles t else record_stagnant_cycle t);
         m2 = m1\<lparr>m_budget_consumed := (m_budget_consumed m1)\<lparr>stagnant_cycles := stagnant_cycles (tr_consumed t1)\<rparr>\<rparr>
     in if \<not> progressed \<and> max_stagnant_cycles (m_budget m2) \<le> stagnant_cycles (m_budget_consumed m2)
        then escalate_stagnation env tasks m2 s
        else let failed = failed_or_blocked tasks summary;
                 done = (ps_completed_tasks_count snapshot = length tasks \<and> tasks \<noteq> []);
                 (s1, m3) = (if failed \<or> done then replan env workflow_id failed summary t1 m2 s else (s, m2))
             in checkpoint_step env workflow_id failed snapshot summary m3 s1)"

definition conclude_cycle ::
  "MissionEnv \<Rightarrow> string option \<Rightarrow> ident \<Rightarrow> BudgetTracker \<times> Mission \<times> WorkflowExecutionSummary option \<Rightarrow>
   (MissionEngine, Mission, RuntimeError) op" where
  "conclude_cycle env workspace workflow_id executed s =
    (let (t, m, summary) = executed;
         tasks = list_tasks_by_workflow workflow_id (en_store s);
         (eval_path, candidate_commit) = evaluation_target env workspace tasks;
         (satisfied, commit) = (case eval_path of None \<Rightarrow> (False, None)
           | Some p \<Rightarrow> evaluate_stopping_condition env p (m_stopping_condition m))
     in if satisfied
        then conclude_verified env workflow_id
               (case commit of Some c \<Rightarrow> Some c | None \<Rightarrow> candidate_commit) summary m s
        else case List.find (\<lambda>t. t_state t = TaskState.NeedsHuman) tasks of
          Some h \<Rightarrow> escalate_and_reload env (m_id m)
            (''Task '' @ CHR 0x27 # decimal (t_id h) @ CHR 0x27 # '' escalated: '' @ human_reason h) s
        | None \<Rightarrow>
          (case provider_error (en_store s) tasks of
             Some msg \<Rightarrow> escalate_and_reload env (m_id m) (''Provider unavailable: '' @ msg) s
           | None \<Rightarrow> conclude_unverified env workflow_id tasks
                       (snapshot_of env workspace candidate_commit tasks) summary t m s))"

definition step_mission :: "MissionEnv \<Rightarrow> ident \<Rightarrow> (MissionEngine, Mission, RuntimeError) op" where
  "step_mission env i = st_then (find_mission i) (\<lambda>m s.
    if MissionState_is_terminal (m_state m) \<or> m_state m = MissionState.NeedsHuman then (s, Ok m)
    else let t = \<lparr>tr_budget = m_budget m, tr_consumed = m_budget_consumed m\<rparr> in
      case check_exhaustion t of
        Some why \<Rightarrow> halt_exhausted env m why s
      | None \<Rightarrow>
          (let m1 = (if m_state m = MissionState.Planning \<or> m_state m = MissionState.Replanning
                     then try_transition MissionState.Running m else m);
               workspace = workspace_path m1 (en_store s)
           in st_then (ensure_workflow env m1)
                (\<lambda>(w, m2). st_then (execute_cycle env w t m2) (conclude_cycle env workspace w)) s))"

end
