(* ===== verification/Mission_Laws.thy ===== *)
theory Mission_Laws
  imports Mission_Step
begin

text \<open>What a step of the mission engine does: the frame of the operations outside the
mission table, the outcome of an escalation, and the case analysis of a successful
step that the properties of the engine rest on.\<close>

section \<open>Frames\<close>

abbreviation store_of :: "MissionEngine \<Rightarrow> Db" where
  "store_of s \<equiv> en_store s"

lemma running_simps [simp]:
  "is_running i (unmark_running i s) = False"
  "en_store (unmark_running i s) = en_store s"
  "en_store (mark_running i s) = en_store s"
  "is_running i (emit_mission_event env j ty s) = is_running i s"
  "is_running i (ignoring f s) = is_running i s"
  by (auto simp: is_running_def unmark_running_def mark_running_def emit_mission_event_def ignoring_def)

lemma emit_frame: "mission_frame db (emit now i ty db)"
  unfolding emit_def by (rule mission_frame_store)

lemma emit_event_frame: "mission_frame (store_of s) (store_of (emit_mission_event env i ty s))"
  by (simp add: emit_mission_event_def emit_frame)

lemma get_mission_emit [simp]:
  "get_mission j (store_of (emit_mission_event env i ty s)) = get_mission j (store_of s)"
  by (rule mission_frame_get [OF emit_event_frame])

lemma create_checkpoint_fst:
  "fst (create_checkpoint env i n w b c a ctx db) =
     fst (store_checkpoint (checkpoint_of env (fresh_id (map ck_id (db_checkpoints db))) i n w b c a ctx
            (list_tasks_by_workflow w db)) db)"
  by (simp add: create_checkpoint_def Let_def split: prod.splits result.splits)

lemma create_checkpoint_frame: "mission_frame db (fst (create_checkpoint env i n w b c a ctx db))"
  unfolding create_checkpoint_fst by (rule mission_frame_store)

lemma ignoring_frame: "(\<And>db. mission_frame db (fst (f db))) \<Longrightarrow> mission_frame (store_of s) (store_of (ignoring f s))"
  by (simp add: ignoring_def)

lemma on_store_Ok:
  "on_store f s = (s1, Ok a) \<longleftrightarrow> (\<exists>db. f (store_of s) = (db, Ok a) \<and> s1 = s\<lparr>en_store := db\<rparr>)"
  by (auto simp: on_store_def split: prod.splits)

lemma find_mission_Ok:
  "find_mission i s = (s1, Ok m) \<longleftrightarrow> s1 = s \<and> get_mission i (store_of s) = Some m"
  by (auto simp: find_mission_def)

lemma find_mission_Some: "get_mission i (store_of s) = Some m \<Longrightarrow> find_mission i s = (s, Ok m)"
  by (simp add: find_mission_def)

text \<open>The workflow executor touches neither missions nor workspaces, and removes no
workflow.\<close>

definition exec_frame :: "MissionEnv \<Rightarrow> bool" where
  "exec_frame env = (\<forall>ex w i db. env_executor env = Some ex \<longrightarrow> mission_frame db (fst (ex w i db)))"

lemma on_store_frame:
  "(\<And>db. mission_frame db (fst (f db))) \<Longrightarrow> on_store f s = (s1, r) \<Longrightarrow>
     mission_frame (store_of s) (store_of s1) \<and> (\<forall>i. is_running i s1 = is_running i s)"
  by (auto simp: on_store_def is_running_def split: prod.splits) (metis fst_conv)

lemma ensure_workflow_frame:
  assumes "ensure_workflow env m s = (s1, Ok (w, m1))"
  shows "mission_frame (store_of s) (store_of s1)" "\<forall>i. is_running i s1 = is_running i s"
    "m1 = m\<lparr>m_active_workflow_id := Some w\<rparr>"
proof -
  have "mission_frame (store_of s) (store_of s1) \<and> (\<forall>i. is_running i s1 = is_running i s) \<and>
      m1 = m\<lparr>m_active_workflow_id := Some w\<rparr>"
  proof (cases "m_active_workflow_id m")
    case None
    then obtain wf s2 where o1: "on_store (create_workflow wf) s = (s2, Ok ())"
      and r: "s1 = s2" "w = w_id wf" "m1 = m\<lparr>m_active_workflow_id := Some (w_id wf)\<rparr>"
      using assms by (auto simp: ensure_workflow_def Let_def st_then_Ok)
    have "mission_frame (store_of s) (store_of s2) \<and> (\<forall>i. is_running i s2 = is_running i s)"
      by (rule on_store_frame [OF _ o1]) (rule mission_frame_store(1))
    then show ?thesis using r by simp
  qed (use assms in \<open>auto simp: ensure_workflow_def\<close>)
  then show "mission_frame (store_of s) (store_of s1)" "\<forall>i. is_running i s1 = is_running i s"
    "m1 = m\<lparr>m_active_workflow_id := Some w\<rparr>" by auto
qed

lemma record_executions_consumed:
  "tr_budget (record_executions n t) = tr_budget t \<and>
   tr_consumed (record_executions n t) = (tr_consumed t)\<lparr>total_executions := total_executions (tr_consumed t) + of_nat n\<rparr>"
proof (induction n)
  case 0
  then show ?case by (simp add: record_executions_def)
next
  case (Suc n)
  have e: "record_executions (Suc n) t = record_execution (record_executions n t)"
    by (simp add: record_executions_def)
  show ?case unfolding e using Suc.IH by (simp add: record_execution_def)
qed

text \<open>What the execution of the cycle does to the tracker and the mission.\<close>

definition executed :: "u32 \<Rightarrow> BudgetTracker \<Rightarrow> BudgetTracker" where
  "executed n t = t\<lparr>tr_consumed := (tr_consumed t)\<lparr>total_executions := total_executions (tr_consumed t) + n\<rparr>\<rparr>"

lemma execute_cycle_Ok:
  assumes "execute_cycle env w t m s = (s1, Ok (t1, m1, summary))" "exec_frame env"
    "total_executions (m_budget_consumed m) = total_executions (tr_consumed t)"
  obtains n where "t1 = executed n t"
    "m1 = m\<lparr>m_budget_consumed := (m_budget_consumed m)\<lparr>total_executions := total_executions (tr_consumed t) + n\<rparr>\<rparr>"
    "mission_frame (store_of s) (store_of s1)" "\<And>i. is_running i s1 = is_running i s"
    "env_executor env = None \<Longrightarrow> n = 1"
proof (cases "env_executor env")
  case None
  then show ?thesis using assms that [of 1]
    by (auto simp: execute_cycle_def Let_def executed_def record_execution_def with_executions_def)
next
  case (Some ex)
  obtain db r where e: "ex w (m_id m) (store_of s) = (db, r)" by (cases "ex w (m_id m) (store_of s)")
  then have f: "mission_frame (store_of s) db" using assms(2) Some unfolding exec_frame_def by (metis fst_conv)
  obtain su where r: "r = Ok su" using assms(1) Some e by (auto simp: execute_cycle_def split: result.splits)
  show ?thesis
  proof (cases "0 < su_executed_tasks_count su")
    case True
    let ?n = "of_nat (su_executed_tasks_count su) :: u32"
    have "record_executions (su_executed_tasks_count su) t = executed ?n t"
      using record_executions_consumed [of "su_executed_tasks_count su" t] by (simp add: executed_def)
    then show ?thesis using assms(1) Some e r True f that [of ?n]
      by (auto simp: execute_cycle_def Let_def with_executions_def executed_def is_running_def)
  next
    case False
    then show ?thesis using assms Some e r f that [of 0]
      by (auto simp: execute_cycle_def executed_def is_running_def)
  qed
qed

section \<open>Escalation\<close>

definition escalated :: "string \<Rightarrow> Mission \<Rightarrow> Mission" where
  "escalated why m = try_transition MissionState.NeedsHuman
     (m\<lparr>m_escalation_reason := Some why,
        m_metadata := json_insert ''escalation_reason'' (JStr why) (m_metadata m),
        m_health_status := MissionHealth.Escalated\<rparr>)"

lemma escalated_simps [simp]:
  "m_id (escalated why m) = m_id m" "m_created_at (escalated why m) = m_created_at m"
  "mission_refs_ok (escalated why m) db = mission_refs_ok m db"
  "m_state (escalated why m) = (if MissionState_can_transition_to (m_state m) MissionState.NeedsHuman
     then MissionState.NeedsHuman else m_state m)"
  "m_budget_consumed (escalated why m) = m_budget_consumed m" "m_budget (escalated why m) = m_budget m"
  by (auto simp: escalated_def try_transition_eq mission_refs_ok_def)

lemma stored_after_update:
  assumes "get_mission (m_id m) (store_of s) = Some m0" "m_created_at m = m_created_at m0"
    "on_store (update_mission m) s = (s1, Ok ())"
  shows "get_mission (m_id m) (store_of s1) = Some m" "is_running i s1 = is_running i s"
    "en_running s1 = en_running s"
proof -
  obtain db where u: "update_mission m (store_of s) = (db, Ok ())" and s1: "s1 = s\<lparr>en_store := db\<rparr>"
    using assms(3) by (auto simp: on_store_Ok)
  then show "get_mission (m_id m) (store_of s1) = Some m"
    using get_mission_update [of "m_id m" m "store_of s"] assms(1,2) by simp
  show "is_running i s1 = is_running i s" "en_running s1 = en_running s"
    using s1 by (simp_all add: is_running_def)
qed

lemma update_mission_stored:
  assumes "mission_refs_ok m (store_of s)"
  obtains s1 where "on_store (update_mission m) s = (s1, Ok ())"
  using assms by (simp add: on_store_def update_mission_Ok)

lemma escalate_human_Ok:
  assumes "get_mission i (store_of s) = Some m" "escalate_human env i why s = (s', Ok m')"
  shows "m' = escalated why m" "get_mission i (store_of s') = Some m'" "\<not> is_running i s'"
proof -
  have id: "m_id m = i" using assms(1) by (rule get_mission_id)
  obtain s1 where s1: "on_store (update_mission (escalated why m)) s = (s1, Ok ())"
    and r: "s' = emit_mission_event env i ''human_escalation'' (unmark_running i s1)" "m' = escalated why m"
    using assms by (auto simp: escalate_human_def find_mission_Some Let_def st_then_Ok escalated_def find_mission_Ok)
  show "m' = escalated why m" by (rule r)
  have "get_mission (m_id (escalated why m)) (store_of s1) = Some (escalated why m)"
    by (rule stored_after_update(1) [OF _ _ s1]) (use assms(1) id in auto)
  then show "get_mission i (store_of s') = Some m'" using r id by simp
  show "\<not> is_running i s'" using r by simp
qed

lemma escalate_human_runs:
  assumes "get_mission i (store_of s) = Some m" "mission_refs_ok m (store_of s)"
  obtains s' where "escalate_human env i why s = (s', Ok (escalated why m))"
proof -
  have "mission_refs_ok (escalated why m) (store_of s)" using assms(2) by simp
  then obtain s1 where u: "on_store (update_mission (escalated why m)) s = (s1, Ok ())"
    by (rule update_mission_stored)
  have "escalate_human env i why s =
      (emit_mission_event env i ''human_escalation'' (unmark_running i s1), Ok (escalated why m))"
    using u by (simp add: escalate_human_def st_then.simps find_mission_Some [OF assms(1)] Let_def flip: escalated_def)
  then show ?thesis by (rule that)
qed

lemma escalate_and_reload_Ok:
  assumes "get_mission i (store_of s) = Some m" "escalate_and_reload env i why s = (s', Ok m')"
  shows "m' = escalated why m \<and> get_mission i (store_of s') = Some m' \<and> \<not> is_running i s'"
proof -
  obtain s1 m1 where e: "escalate_human env i why s = (s1, Ok m1)" and "s' = s1" "get_mission i (store_of s1) = Some m'"
    using assms(2) by (auto simp: escalate_and_reload_def st_then_Ok find_mission_Ok)
  then show ?thesis using escalate_human_Ok [OF assms(1) e] by simp
qed

section \<open>The ends of a cycle\<close>

lemma awaiting_simps [simp]:
  "m_id (awaiting_mission c m) = m_id m" "m_created_at (awaiting_mission c m) = m_created_at m"
  "m_budget (awaiting_mission c m) = m_budget m" "m_budget_consumed (awaiting_mission c m) = m_budget_consumed m"
  "m_latest_verified_commit (awaiting_mission c m) = c"
  by (auto simp: awaiting_mission_def try_transition_eq)

lemma conclude_verified_Ok:
  assumes "get_mission (m_id m) (store_of s) = Some m0" "m_created_at m = m_created_at m0"
    "conclude_verified env w commit summary m s = (s', Ok m')"
  shows "m' = awaiting_mission commit m \<and> get_mission (m_id m) (store_of s') = Some m' \<and> \<not> is_running (m_id m) s'"
proof -
  let ?m1 = "awaiting_mission commit m"
  have fr: "mission_frame (store_of s) (store_of (ignoring (create_checkpoint env i n w b c a x)
      (ignoring (create_cycle cy) (emit_mission_event env i ty s))))" for i n w b c a x cy ty
    by (rule mission_frame_trans [OF mission_frame_trans [OF emit_event_frame
        ignoring_frame [OF mission_frame_store(3)]] ignoring_frame [OF create_checkpoint_frame]])
  obtain s3 s4 where f: "mission_frame (store_of s) (store_of s3)"
    and u: "on_store (update_mission ?m1) s3 = (s4, Ok ())"
    and r: "s' = emit_mission_event env (m_id m) ''mission_awaiting_acceptance'' (unmark_running (m_id m) s4)" "m' = ?m1"
    using assms(3) [unfolded conclude_verified_def Let_def st_then_Ok] fr by fastforce
  have "get_mission (m_id ?m1) (store_of s4) = Some ?m1"
    by (rule stored_after_update(1) [OF _ _ u]) (use assms mission_frame_get [OF f] in auto)
  then show ?thesis using r by simp
qed

lemma assess_liveness_eq:
  "assess_liveness snapshot m =
     (if max_stagnant_cycles (m_budget m) \<le> stagnant_cycles (m_budget_consumed m) + 1 then Stagnant else Degraded, False)"
  by (simp add: assess_liveness_def evaluate_def LivenessEvaluator_new_def not_progressed_from_self Let_def)

lemma escalate_stagnation_Ok:
  assumes "get_mission (m_id m) (store_of s) = Some m0" "missions_ok (store_of s)"
    "escalate_stagnation env tasks m s = (s', Ok m')"
  shows "\<exists>why. m' = escalated why m0 \<and> get_mission (m_id m) (store_of s') = Some m' \<and> \<not> is_running (m_id m) s'"
proof -
  let ?s1 = "emit_mission_event env (m_id m) ''stagnation_detected'' s"
  obtain why where d: "find_mission (m_id m) (fst (escalate_human env (m_id m) why ?s1)) = (s', Ok m')"
    using assms(3) by (auto simp: escalate_stagnation_def Let_def)
  have g: "get_mission (m_id m) (store_of ?s1) = Some m0" using assms(1) by simp
  have "mission_refs_ok m0 (store_of ?s1)"
    by (rule mission_frame_refs [OF emit_event_frame missions_ok_get [OF assms(2,1)]])
  then obtain s2 where e: "escalate_human env (m_id m) why ?s1 = (s2, Ok (escalated why m0))"
    by (rule escalate_human_runs [OF g])
  show ?thesis using d escalate_human_Ok [OF g e] by (auto simp: e find_mission_Ok)
qed

text \<open>The mission a cycle without verification leaves: one more stagnant cycle, and a
new cycle when the workflow ended.\<close>

definition stagnated :: "Mission \<Rightarrow> Mission" where
  "stagnated m = m\<lparr>m_health_status := Degraded,
     m_budget_consumed := (m_budget_consumed m)\<lparr>stagnant_cycles := stagnant_cycles (m_budget_consumed m) + 1\<rparr>\<rparr>"

definition replanned :: "Mission \<Rightarrow> Mission" where
  "replanned m = (try_transition MissionState.Replanning m)\<lparr>m_cycle_index := m_cycle_index m + 1,
     m_budget_consumed := (m_budget_consumed m)\<lparr>planner_iterations := planner_iterations (m_budget_consumed m) + 1\<rparr>,
     m_active_workflow_id := None\<rparr>"

lemma stagnated_simps [simp]:
  "m_id (stagnated m) = m_id m" "m_created_at (stagnated m) = m_created_at m" "m_budget (stagnated m) = m_budget m"
  "m_state (stagnated m) = m_state m" "m_cycle_index (stagnated m) = m_cycle_index m"
  by (simp_all add: stagnated_def)

lemma replanned_simps [simp]:
  "m_id (replanned m) = m_id m" "m_created_at (replanned m) = m_created_at m" "m_budget (replanned m) = m_budget m"
  by (simp_all add: replanned_def try_transition_eq)

lemma replan_eq:
  assumes "replan env w failed summary t m s = (s1, m1)" "tr_consumed t = m_budget_consumed m"
  shows "m1 = replanned m \<and> mission_frame (store_of s) (store_of s1) \<and> (\<forall>i. is_running i s1 = is_running i s)"
proof -
  have "mission_frame (store_of s) (store_of (emit_mission_event env i ty (ignoring (create_cycle c) s)))" for i ty c
    by (rule mission_frame_trans [OF ignoring_frame [OF mission_frame_store(3)] emit_event_frame])
  then show ?thesis using assms
    by (auto simp: replan_def Let_def replanned_def record_planner_iteration_def try_transition_eq)
qed

lemma checkpoint_step_Ok:
  assumes "get_mission (m_id m) (store_of s) = Some m0" "m_created_at m = m_created_at m0"
    "checkpoint_step env w failed snapshot summary m s = (s', Ok m')"
  shows "m' = m \<and> get_mission (m_id m) (store_of s') = Some m \<and> (\<forall>i. is_running i s' = is_running i s)"
proof -
  have fr: "mission_frame (store_of s) (store_of (ignoring (create_checkpoint env i n w b c a x) s))"
    for i n w b c a x by (rule ignoring_frame [OF create_checkpoint_frame])
  obtain s1 s2 where f: "mission_frame (store_of s) (store_of s1)" "\<forall>i. is_running i s1 = is_running i s"
    and u: "on_store (update_mission m) s1 = (s2, Ok ())"
    and r: "s' = emit_mission_event env (m_id m) ''progress_checkpoint'' s2" "m' = m"
    using assms(3) [unfolded checkpoint_step_def Let_def st_then_Ok] fr by fastforce
  have "get_mission (m_id m) (store_of s2) = Some m" "is_running i s2 = is_running i s1" for i
    by (rule stored_after_update [OF _ _ u]; use assms mission_frame_get [OF f(1)] in auto)+
  then show ?thesis using r f by simp
qed

lemma conclude_unverified_eq:
  assumes "tr_consumed t = m_budget_consumed m"
  shows "conclude_unverified env w tasks snapshot summary t m s =
    (let n = stagnant_cycles (m_budget_consumed m) + 1; failed = failed_or_blocked tasks summary in
     if max_stagnant_cycles (m_budget m) \<le> n
     then escalate_stagnation env tasks (m\<lparr>m_health_status := Stagnant,
            m_budget_consumed := (m_budget_consumed m)\<lparr>stagnant_cycles := n\<rparr>\<rparr>) s
     else if failed \<or> ps_completed_tasks_count snapshot = length tasks \<and> tasks \<noteq> []
     then (case replan env w failed summary (record_stagnant_cycle t) (stagnated m) s of
             (s1, m1) \<Rightarrow> checkpoint_step env w failed snapshot summary m1 s1)
     else checkpoint_step env w failed snapshot summary (stagnated m) s)"
  by (simp add: conclude_unverified_def assess_liveness_eq Let_def record_stagnant_cycle_def stagnated_def assms)

lemma conclude_unverified_cases:
  assumes "conclude_unverified env w tasks snapshot summary t m s = (s', Ok m')"
    "get_mission (m_id m) (store_of s) = Some m0" "m_created_at m = m_created_at m0"
    "missions_ok (store_of s)" "tr_consumed t = m_budget_consumed m"
  obtains (escalate) why where "m' = escalated why m0" "get_mission (m_id m) (store_of s') = Some m'"
      "\<not> is_running (m_id m) s'"
  | (checkpoint) "m' = stagnated m \<or> m' = replanned (stagnated m)" "get_mission (m_id m) (store_of s') = Some m'"
      "is_running (m_id m) s' = is_running (m_id m) s"
      "stagnant_cycles (m_budget_consumed m) + 1 < max_stagnant_cycles (m_budget m)"
proof -
  let ?n = "stagnant_cycles (m_budget_consumed m) + 1"
  let ?t = "record_stagnant_cycle t"
  let ?failed = "failed_or_blocked tasks summary"
  let ?ends = "?failed \<or> ps_completed_tasks_count snapshot = length tasks \<and> tasks \<noteq> []"
  have t: "stagnant_cycles (tr_consumed ?t) = ?n"
      "tr_consumed ?t = (m_budget_consumed m)\<lparr>stagnant_cycles := ?n\<rparr>"
    using assms(5) by (simp_all add: record_stagnant_cycle_def)
  note eq = assms(1) [unfolded conclude_unverified_eq [OF assms(5)] Let_def]
  show thesis
  proof (cases "max_stagnant_cycles (m_budget m) \<le> ?n")
    case True
    let ?m2 = "m\<lparr>m_health_status := Stagnant, m_budget_consumed := (m_budget_consumed m)\<lparr>stagnant_cycles := ?n\<rparr>\<rparr>"
    have "escalate_stagnation env tasks ?m2 s = (s', Ok m')"
      using eq True by simp
    then have "\<exists>why. m' = escalated why m0 \<and> get_mission (m_id ?m2) (store_of s') = Some m' \<and> \<not> is_running (m_id ?m2) s'"
      by (rule escalate_stagnation_Ok [rotated 2]) (use assms in simp_all)
    then show thesis using escalate by auto
  next
    case False
    define m3 where "m3 = (if ?ends then replanned (stagnated m) else stagnated m)"
    have ts: "tr_consumed ?t = m_budget_consumed (stagnated m)" using t(2) by (simp add: stagnated_def)
    obtain s1 where f: "mission_frame (store_of s) (store_of s1)" "\<forall>i. is_running i s1 = is_running i s"
      and "checkpoint_step env w ?failed snapshot summary m3 s1 = (s', Ok m')"
    proof (cases ?ends)
      case True
      obtain s1 m1 where r: "replan env w ?failed summary ?t (stagnated m) s = (s1, m1)" by fastforce
      have "checkpoint_step env w ?failed snapshot summary m1 s1 = (s', Ok m')"
        using eq False True r by simp
      then show ?thesis using replan_eq [OF r ts] True by (intro that [of s1]) (simp_all add: m3_def)
    next
      case noend: False
      have "checkpoint_step env w ?failed snapshot summary (stagnated m) s = (s', Ok m')"
        using eq False noend by simp
      then show ?thesis using that [of s] noend by (simp add: m3_def)
    qed
    note c = this(3)
    have "m_id m3 = m_id m" "m_created_at m3 = m_created_at m0" using assms(3) by (simp_all add: m3_def)
    then have "m' = m3 \<and> get_mission (m_id m3) (store_of s') = Some m3 \<and> (\<forall>i. is_running i s' = is_running i s1)"
      by (intro checkpoint_step_Ok [OF _ _ c, of m0]) (simp_all add: mission_frame_get [OF f(1)] assms(2))
    then show thesis using checkpoint f False by (auto simp: m3_def split: if_splits)
  qed
qed

section \<open>The step\<close>

definition started :: "ident \<Rightarrow> u32 \<Rightarrow> Mission \<Rightarrow> Mission" where
  "started w n m = (if m_state m = MissionState.Planning \<or> m_state m = MissionState.Replanning
       then try_transition MissionState.Running m else m)
     \<lparr>m_active_workflow_id := Some w,
      m_budget_consumed := (m_budget_consumed m)\<lparr>total_executions := total_executions (m_budget_consumed m) + n\<rparr>\<rparr>"

lemma started_simps [simp]:
  "m_id (started w n m) = m_id m" "m_created_at (started w n m) = m_created_at m" "m_budget (started w n m) = m_budget m"
  "m_cycle_index (started w n m) = m_cycle_index m"
  "m_stopping_condition (started w n m) = m_stopping_condition m"
  "m_budget_consumed (started w n m) =
     (m_budget_consumed m)\<lparr>total_executions := total_executions (m_budget_consumed m) + n\<rparr>"
  "m_state (started w n m) = (if m_state m = MissionState.Planning \<or> m_state m = MissionState.Replanning
     then MissionState.Running else m_state m)"
  by (auto simp: started_def try_transition_eq MissionState_can_transition_to_def)

lemma conclude_cycle_cases:
  assumes "conclude_cycle env workspace w (t, m, summary) s = (s', Ok m')"
    "get_mission (m_id m) (store_of s) = Some m0" "m_created_at m = m_created_at m0"
    "missions_ok (store_of s)" "tr_consumed t = m_budget_consumed m"
  obtains (verified) path commit where "fst (evaluate_stopping_condition env path (m_stopping_condition m))"
      "m' = awaiting_mission commit m" "get_mission (m_id m) (store_of s') = Some m'" "\<not> is_running (m_id m) s'"
  | (escalate) why where "m' = escalated why m0" "get_mission (m_id m) (store_of s') = Some m'"
      "\<not> is_running (m_id m) s'"
  | (checkpoint) "m' = stagnated m \<or> m' = replanned (stagnated m)" "get_mission (m_id m) (store_of s') = Some m'"
      "is_running (m_id m) s' = is_running (m_id m) s"
      "stagnant_cycles (m_budget_consumed m) + 1 < max_stagnant_cycles (m_budget m)"
proof -
  let ?tasks = "list_tasks_by_workflow w (store_of s)"
  obtain ep cc where et: "evaluation_target env workspace ?tasks = (ep, cc)" by fastforce
  obtain ok c where sc: "(case ep of None \<Rightarrow> (False, None)
      | Some p \<Rightarrow> evaluate_stopping_condition env p (m_stopping_condition m)) = (ok, c)" by fastforce
  show thesis
  proof (cases ok)
    case True
    then obtain p where p: "fst (evaluate_stopping_condition env p (m_stopping_condition m))"
      using sc by (metis (no_types, lifting) fst_conv option.case_eq_if)
    let ?c = "case c of Some x \<Rightarrow> Some x | None \<Rightarrow> cc"
    have "conclude_verified env w ?c summary m s = (s', Ok m')"
      using assms(1) et sc True by (simp add: conclude_cycle_def Let_def)
    then have "m' = awaiting_mission ?c m \<and> get_mission (m_id m) (store_of s') = Some m' \<and> \<not> is_running (m_id m) s'"
      by (rule conclude_verified_Ok [OF assms(2,3)])
    then show thesis using verified [OF p] by blast
  next
    case False
    note e = assms(1) [unfolded conclude_cycle_def Let_def prod.case et sc]
    show thesis
    proof (cases "\<exists>why. escalate_and_reload env (m_id m) why s = (s', Ok m')")
      case True
      then show thesis using escalate escalate_and_reload_Ok [OF assms(2)] by blast
    next
      case none: False
      have "conclude_unverified env w ?tasks (snapshot_of env workspace cc ?tasks) summary t m s = (s', Ok m')"
        using e False none by (auto split: option.splits if_splits)
      then show thesis
        by (rule conclude_unverified_cases [OF _ assms(2-5)]) (use escalate checkpoint in blast)+
    qed
  qed
qed

lemma step_mission_cases:
  assumes step: "step_mission env i s = (s', Ok m')"
    and m: "get_mission i (store_of s) = Some m"
    and ok: "missions_ok (store_of s)"
    and frame: "exec_frame env"
  obtains (idle) "MissionState_is_terminal (m_state m) \<or> m_state m = MissionState.NeedsHuman" "m' = m" "s' = s"
  | (exhausted) why where "has_exhausted (m_budget_consumed m) (m_budget m) = Some why"
      "halt_exhausted env m why s = (s', Ok m')"
  | (verified) w n path commit where "has_exhausted (m_budget_consumed m) (m_budget m) = None"
      "fst (evaluate_stopping_condition env path (m_stopping_condition m))"
      "m' = awaiting_mission commit (started w n m)" "get_mission i (store_of s') = Some m'" "\<not> is_running i s'"
      "env_executor env = None \<longrightarrow> n = 1"
  | (escalate) why where "has_exhausted (m_budget_consumed m) (m_budget m) = None"
      "m' = escalated why m" "get_mission i (store_of s') = Some m'" "\<not> is_running i s'"
  | (checkpoint) w n where "has_exhausted (m_budget_consumed m) (m_budget m) = None"
      "m' = stagnated (started w n m) \<or> m' = replanned (stagnated (started w n m))"
      "get_mission i (store_of s') = Some m'" "is_running i s' = is_running i s"
      "stagnant_cycles (m_budget_consumed m) + 1 < max_stagnant_cycles (m_budget m)"
      "env_executor env = None \<longrightarrow> n = 1"
proof -
  let ?t = "\<lparr>tr_budget = m_budget m, tr_consumed = m_budget_consumed m\<rparr>"
  have id: "m_id m = i" using m by (rule get_mission_id)
  note e = step [unfolded step_mission_def st_then.simps [of "find_mission i"] find_mission_Some [OF m], simplified]
  show thesis
  proof (cases "MissionState_is_terminal (m_state m) \<or> m_state m = MissionState.NeedsHuman")
    case True
    then show thesis using idle e by simp
  next
    case active: False
    show thesis
    proof (cases "has_exhausted (m_budget_consumed m) (m_budget m)")
      case (Some why)
      then show thesis using exhausted e active by (simp add: check_exhaustion_def)
    next
      case none: None
      let ?m1 = "if m_state m = MissionState.Planning \<or> m_state m = MissionState.Replanning
        then try_transition MissionState.Running m else m"
      have m1: "m_id ?m1 = m_id m" "m_created_at ?m1 = m_created_at m" "m_budget_consumed ?m1 = m_budget_consumed m"
        by (simp_all add: try_transition_eq)
      obtain s1 w m2 s2 t3 m3 summary where 1: "ensure_workflow env ?m1 s = (s1, Ok (w, m2))"
        and 2: "execute_cycle env w ?t m2 s1 = (s2, Ok (t3, m3, summary))"
        and 3: "conclude_cycle env (workspace_path ?m1 (store_of s)) w (t3, m3, summary) s2 = (s', Ok m')"
        using e active none by (auto simp: check_exhaustion_def Let_def st_then_Ok)
      note f1 = ensure_workflow_frame [OF 1]
      have te: "total_executions (m_budget_consumed m2) = total_executions (tr_consumed ?t)"
        using f1(3) m1 by simp
      obtain n where t3: "t3 = executed n ?t"
        and m3: "m3 = m2\<lparr>m_budget_consumed := (m_budget_consumed m2)\<lparr>total_executions := total_executions (m_budget_consumed m) + n\<rparr>\<rparr>"
        and f2: "mission_frame (store_of s1) (store_of s2)" "\<And>j. is_running j s2 = is_running j s1"
        and n: "env_executor env = None \<Longrightarrow> n = 1"
      proof (rule execute_cycle_Ok [OF 2 frame te])
        fix n assume a: "t3 = executed n ?t"
          "m3 = m2\<lparr>m_budget_consumed := (m_budget_consumed m2)\<lparr>total_executions := total_executions (tr_consumed ?t) + n\<rparr>\<rparr>"
          "mission_frame (store_of s1) (store_of s2)" "\<And>j. is_running j s2 = is_running j s1"
          "env_executor env = None \<Longrightarrow> n = 1"
        show thesis by (rule that [OF a(1) _ a(3,4,5)]) (simp_all add: a(2))
      qed
      have fr: "mission_frame (store_of s) (store_of s2)" by (rule mission_frame_trans [OF f1(1) f2(1)])
      have m3': "m3 = started w n m" using m3 f1(3) m1 by (simp add: started_def)
      have g: "get_mission (m_id m3) (store_of s2) = Some m"
        using mission_frame_get [OF fr] m m3' id by simp
      have cr: "m_created_at m3 = m_created_at m" and tc: "tr_consumed t3 = m_budget_consumed m3"
        and i3: "m_id m3 = i" by (simp_all add: t3 executed_def m3' id)
      have run: "is_running i s2 = is_running i s" using f1(2) f2(2) by simp
      note cases = conclude_cycle_cases [OF 3 g cr mission_frame_ok [OF fr ok] tc, unfolded i3]
      show thesis
      proof (rule cases)
        fix path commit
        assume v: "fst (evaluate_stopping_condition env path (m_stopping_condition m3))"
          "m' = awaiting_mission commit m3" "get_mission i (store_of s') = Some m'" "\<not> is_running i s'"
        show thesis by (rule verified [OF none _ _ v(3,4)]) (use v(1,2) m3' n in auto)
      next
        fix why assume v: "m' = escalated why m" "get_mission i (store_of s') = Some m'" "\<not> is_running i s'"
        show thesis by (rule escalate [OF none v])
      next
        assume v: "m' = stagnated m3 \<or> m' = replanned (stagnated m3)" "get_mission i (store_of s') = Some m'"
          "is_running i s' = is_running i s2"
          "stagnant_cycles (m_budget_consumed m3) + 1 < max_stagnant_cycles (m_budget m3)"
        show thesis by (rule checkpoint [OF none _ v(2)]) (use v m3' run n in auto)
      qed
    qed
  qed
qed

end
