(* ===== verification/Mission_Run.thy ===== *)
theory Mission_Run
  imports Mission_Laws
begin

text \<open>Preservation of the mission tables by the operations of the engine, the budget
discipline of a step, and the background loop that steps a running mission
(plexis-server, routes.rs), with the bound on its rounds.\<close>

section \<open>The tables stay intact\<close>

definition engine_ok :: "MissionEngine \<Rightarrow> bool" where
  "engine_ok s = missions_ok (en_store s)"

lemma engine_ok_frame: "mission_frame (en_store s) (en_store s') \<Longrightarrow> engine_ok s \<Longrightarrow> engine_ok s'"
  unfolding engine_ok_def by (rule mission_frame_ok)

lemma engine_ok_emit [intro]: "engine_ok s \<Longrightarrow> engine_ok (emit_mission_event env i ty s)"
  by (rule engine_ok_frame [OF emit_event_frame])

lemma engine_ok_running [simp]:
  "engine_ok (unmark_running i s) = engine_ok s" "engine_ok (mark_running i s) = engine_ok s"
  by (simp_all add: engine_ok_def)

lemma keeps_find [intro]: "keeps engine_ok (find_mission i)"
  unfolding find_mission_def by (rule keeps_pure)

lemma keeps_update_then:
  "(\<And>s. engine_ok s \<Longrightarrow> engine_ok (f s)) \<Longrightarrow>
     keeps engine_ok (st_then (on_store (update_mission m)) (\<lambda>_ s. (f s, r)))"
proof (rule keeps_then)
  show "keeps engine_ok (on_store (update_mission m))"
    by (auto simp: keeps_def on_store_def engine_ok_def split: prod.splits dest: missions_ok_update [of _ m])
qed (auto simp: keeps_def)

lemma engine_ok_ignoring:
  "(\<And>db. mission_frame db (fst (f db))) \<Longrightarrow> engine_ok s \<Longrightarrow> engine_ok (ignoring f s)"
  by (rule engine_ok_frame [OF ignoring_frame])

lemmas engine_ok_intros = engine_ok_emit engine_ok_ignoring [OF mission_frame_store(3)]
  engine_ok_ignoring [OF create_checkpoint_frame]

lemma keeps_update_from:
  "(\<And>s. engine_ok s \<Longrightarrow> engine_ok (f s)) \<Longrightarrow> engine_ok s \<Longrightarrow>
     engine_ok (fst (st_then (on_store (update_mission m)) (\<lambda>_ s. (f s, r)) s))"
  by (rule keepsD [OF keeps_update_then])

lemma keeps_escalate: "keeps engine_ok (escalate_human env i why)"
  unfolding escalate_human_def Let_def by (intro keeps_then keeps_find keeps_update_then) auto

lemma keeps_escalate_reload: "keeps engine_ok (escalate_and_reload env i why)"
  unfolding escalate_and_reload_def by (intro keeps_then keeps_escalate keeps_find)

lemma keeps_verified: "keeps engine_ok (conclude_verified env w c summary m)"
proof (rule keepsI)
  fix s assume "engine_ok s"
  then show "engine_ok (fst (conclude_verified env w c summary m s))"
    unfolding conclude_verified_def Let_def by (intro keeps_update_from engine_ok_intros) auto
qed

lemma keeps_checkpoint: "keeps engine_ok (checkpoint_step env w failed snapshot summary m)"
proof (rule keepsI)
  fix s assume "engine_ok s"
  then show "engine_ok (fst (checkpoint_step env w failed snapshot summary m s))"
    unfolding checkpoint_step_def Let_def by (intro keeps_update_from engine_ok_intros) auto
qed

lemma engine_ok_replan: "engine_ok s \<Longrightarrow> engine_ok (fst (replan env w failed summary t m s))"
  by (auto simp: replan_def Let_def intro!: engine_ok_intros)

lemma keeps_stagnation: "keeps engine_ok (escalate_stagnation env tasks m)"
proof (rule keepsI)
  fix s assume "engine_ok s"
  then show "engine_ok (fst (escalate_stagnation env tasks m s))"
    unfolding escalate_stagnation_def Let_def
    by (intro keepsD [OF keeps_find] keepsD [OF keeps_escalate] engine_ok_intros)
qed

lemma keeps_unverified: "keeps engine_ok (conclude_unverified env w tasks snapshot summary t m)"
proof (rule keepsI)
  fix s assume ok: "engine_ok s"
  then show "engine_ok (fst (conclude_unverified env w tasks snapshot summary t m s))"
    unfolding conclude_unverified_def Let_def
    by (auto simp: split_beta intro!: keepsD [OF keeps_stagnation] keepsD [OF keeps_checkpoint] engine_ok_replan)
qed

lemma keeps_conclude: "keeps engine_ok (conclude_cycle env ws w x)"
proof (rule keepsI)
  fix s assume "engine_ok s"
  then show "engine_ok (fst (conclude_cycle env ws w x s))"
    unfolding conclude_cycle_def Let_def
    by (auto simp: split_beta split: option.split intro!: keepsD [OF keeps_verified]
        keepsD [OF keeps_escalate_reload] keepsD [OF keeps_unverified])
qed

lemma keeps_ensure: "keeps engine_ok (ensure_workflow env m)"
proof (rule keepsI)
  fix s assume ok: "engine_ok s"
  have "keeps engine_ok (on_store (create_workflow w))" for w
    by (auto simp: keeps_def on_store_def engine_ok_def split: prod.splits)
      (metis fst_conv mission_frame_ok mission_frame_store(1))
  then have k: "keeps engine_ok (st_then (on_store (create_workflow w)) (\<lambda>_ s1. (s1, r)))" for w r
    by (rule keeps_then) (rule keeps_pure)
  show "engine_ok (fst (ensure_workflow env m s))"
    using ok keepsD [OF k ok] by (cases "m_active_workflow_id m") (simp_all add: ensure_workflow_def Let_def)
qed

lemma keeps_execute: "exec_frame env \<Longrightarrow> keeps engine_ok (execute_cycle env w t m)"
proof (rule keepsI)
  fix s assume fr: "exec_frame env" and ok: "engine_ok s"
  show "engine_ok (fst (execute_cycle env w t m s))"
  proof (cases "env_executor env")
    case (Some ex)
    then have "missions_ok (fst (ex w (m_id m) (en_store s)))"
      using fr ok mission_frame_ok unfolding exec_frame_def engine_ok_def by blast
    then show ?thesis using Some
      by (cases "ex w (m_id m) (en_store s)"; cases "snd (ex w (m_id m) (en_store s))")
        (simp_all add: execute_cycle_def engine_ok_def)
  qed (use ok in \<open>simp add: execute_cycle_def\<close>)
qed

lemma keeps_halt: "keeps engine_ok (halt_exhausted env m why)"
  unfolding halt_exhausted_def Let_def by (intro keeps_update_then) auto

theorem step_mission_keeps_tables:
  assumes "exec_frame env"
  shows "keeps engine_ok (step_mission env i)"
proof -
  have "keeps engine_ok (\<lambda>s. if MissionState_is_terminal (m_state m) \<or> m_state m = MissionState.NeedsHuman then (s, Ok m)
    else let t = \<lparr>tr_budget = m_budget m, tr_consumed = m_budget_consumed m\<rparr> in
      case check_exhaustion t of
        Some why \<Rightarrow> halt_exhausted env m why s
      | None \<Rightarrow>
          (let m1 = (if m_state m = MissionState.Planning \<or> m_state m = MissionState.Replanning
                     then try_transition MissionState.Running m else m);
               workspace = workspace_path m1 (en_store s)
           in st_then (ensure_workflow env m1)
                (\<lambda>(w, m2). st_then (execute_cycle env w t m2) (conclude_cycle env workspace w)) s))" for m
    by (rule keepsI)
      (auto simp: Let_def split: option.split intro!: keepsD [OF keeps_halt] keepsD [OF keeps_then [OF keeps_ensure]]
        keeps_then [OF keeps_execute [OF assms]] keeps_conclude)
  then show ?thesis unfolding step_mission_def by (rule keeps_then [OF keeps_find])
qed

section \<open>The background loop\<close>

text \<open>The loop of a spawned run: it stops when the mission is no longer marked running,
on an error, and when a step ends in a resting state. The list holds the environment
of each round; None means that it was used up and the loop goes on.\<close>

definition loop_exit :: "MissionState \<Rightarrow> bool" where
  "loop_exit st = (MissionState_is_terminal st \<or> st = MissionState.AwaitingAcceptance \<or>
     st = MissionState.Accepted \<or> st = MissionState.NeedsHuman \<or> st = MissionState.Waiting)"

fun auto_step :: "MissionEnv list \<Rightarrow> ident \<Rightarrow> MissionEngine \<Rightarrow> MissionEngine option" where
  "auto_step envs i s =
    (if \<not> is_running i s then Some s
     else case envs of
       [] \<Rightarrow> None
     | env # rest \<Rightarrow>
         (case step_mission env i s of
            (s', Err _) \<Rightarrow> Some s'
          | (s', Ok m) \<Rightarrow> if loop_exit (m_state m) then Some s' else auto_step rest i s'))"

declare auto_step.simps [simp del]

lemma halt_exhausted_Ok:
  assumes "halt_exhausted env m why s = (s', Ok m')"
  shows "m' = (try_transition MissionState.BudgetExhausted m)\<lparr>m_final_outcome := m_final_outcome m'\<rparr>"
    "\<exists>o'. m_final_outcome m' = Some o' \<and> \<not> o_success o' \<and> o_completion_reason o' = why"
    "\<not> is_running (m_id m) s'"
  using assms by (auto simp: halt_exhausted_def Let_def st_then_Ok)

lemma auto_step_stopped: "\<not> is_running i s \<Longrightarrow> auto_step envs i s = Some s"
  by (simp add: auto_step.simps)

lemma stagnant_increase:
  fixes n b :: u32
  assumes "n < b"
  shows "unat (n + 1) = unat n + 1" "unat n < unat b"
proof -
  have "unat n < unat b" "unat b < 2 ^ 32" using assms unsigned_less [where w = b and 'a = nat] by (auto simp: word_less_nat_alt)
  then show "unat (n + 1) = unat n + 1" "unat n < unat b" by (simp_all add: unat_plus_if')
qed

text \<open>A loop of as many rounds as the stagnation limit leaves, and of one at least, has ended.\<close>

lemma auto_step_ends:
  assumes "engine_ok s" "\<forall>env \<in> set envs. exec_frame env" "envs \<noteq> []"
    "\<And>m. get_mission i (en_store s) = Some m \<Longrightarrow>
       unat (max_stagnant_cycles (m_budget m)) \<le> length envs + unat (stagnant_cycles (m_budget_consumed m))"
  shows "auto_step envs i s \<noteq> None"
  using assms
proof (induction envs arbitrary: s)
  case (Cons env envs)
  obtain s' r where step: "step_mission env i s = (s', r)" by fastforce
  have ok': "engine_ok s'"
    using keepsD [OF step_mission_keeps_tables [of env i], of s] Cons.prems(1,2) step by simp
  show ?case
  proof (cases r)
    case (Ok m')
    then obtain m where m: "get_mission i (en_store s) = Some m"
      using step by (auto simp: step_mission_def st_then_Ok find_mission_Ok)
    have id: "m_id m = i" by (rule get_mission_id [OF m])
    have fr: "exec_frame env" using Cons.prems(2) by simp
    have "auto_step envs i s' \<noteq> None \<or> loop_exit (m_state m')"
      using step [unfolded Ok] m Cons.prems(1) [unfolded engine_ok_def] fr
    proof (cases rule: step_mission_cases)
      case idle then show ?thesis by (auto simp: loop_exit_def)
    next
      case (exhausted why)
      then show ?thesis using halt_exhausted_Ok(3) id by (auto simp: auto_step_stopped)
    next
      case (verified w n path commit)
      then show ?thesis by (auto simp: auto_step_stopped)
    next
      case (escalate why)
      then show ?thesis by (auto simp: auto_step_stopped)
    next
      case (checkpoint w n)
      let ?n = "stagnant_cycles (m_budget_consumed m)" and ?b = "max_stagnant_cycles (m_budget m)"
      have nb: "?n < ?b" using checkpoint(1) by (simp add: has_exhausted_None)
      have c: "stagnant_cycles (m_budget_consumed m') = ?n + 1" "m_budget m' = m_budget m"
        using checkpoint(2) by (auto simp: stagnated_def replanned_def try_transition_eq started_def)
      have "unat ?b \<le> length (env # envs) + unat ?n" by (rule Cons.prems(4) [OF m])
      then have l: "unat ?b \<le> length envs + unat (?n + 1)" using stagnant_increase [OF nb] by simp
      have "unat (?n + 1) < unat ?b" using checkpoint(5) by (simp add: word_less_nat_alt)
      then have ne: "envs \<noteq> []" using l by auto
      have "auto_step envs i s' \<noteq> None"
        by (rule Cons.IH [OF ok' _ ne]) (use Cons.prems(2) checkpoint(3) l c in auto)
      then show ?thesis by simp
    qed
    then show ?thesis using step Ok by (subst auto_step.simps) auto
  qed (use step in \<open>subst auto_step.simps; simp\<close>)
qed simp

section \<open>Budgets\<close>

text \<open>The counters of a mission are within its limits.\<close>

definition within_budget :: "Mission \<Rightarrow> bool" where
  "within_budget m = (let c = m_budget_consumed m; b = m_budget m in
     total_executions c \<le> max_executions b \<and> planner_iterations c \<le> max_planner_iterations b \<and>
     stagnant_cycles c \<le> max_stagnant_cycles b)"

lemma no_executor_frame: "env_executor env = None \<Longrightarrow> exec_frame env"
  by (simp add: exec_frame_def)

lemma word_inc_le: "(n :: u32) < b \<Longrightarrow> n + 1 \<le> b"
  by (rule inc_le)

lemma step_within_budget:
  assumes "step_mission env i s = (s', Ok m')" "get_mission i (en_store s) = Some m"
    "engine_ok s" "env_executor env = None" "within_budget m"
  shows "within_budget m'"
  using assms(1,2) assms(3) [unfolded engine_ok_def] no_executor_frame [OF assms(4)]
proof (cases rule: step_mission_cases)
  case idle then show ?thesis using assms by simp
next
  case (exhausted why)
  have "m_budget m' = m_budget m" "m_budget_consumed m' = m_budget_consumed m"
    by (subst halt_exhausted_Ok(1) [OF exhausted(2)], simp add: try_transition_eq)+
  then show ?thesis using assms(5) by (simp add: within_budget_def)
next
  case (escalate why)
  then show ?thesis using assms(5) by (simp add: within_budget_def)
next
  case (verified w n path commit)
  then show ?thesis using assms(4,5)
    by (auto simp: within_budget_def has_exhausted_None Let_def intro: word_inc_le)
next
  case (checkpoint w n)
  then show ?thesis using assms(4,5)
    by (auto simp: within_budget_def has_exhausted_None stagnated_def replanned_def try_transition_eq Let_def
        intro: word_inc_le)
qed

end
