(* ===== verification/Mission_Acceptance.thy ===== *)
theory Mission_Acceptance
  imports Mission_Run
begin

text \<open>The human decisions on a mission in plexis-server (routes.rs): acceptance,
rejection and integration. The handlers work on the store; the integration of a commit
into the repository (git.rs, which drives the git program) and the formatting of a
timestamp are parameters. Integration has a check before the workspace lock is taken
and a critical section under it, so the two are separate definitions.\<close>

datatype StatusCode = BAD_REQUEST | NOT_FOUND | CONFLICT | INTERNAL_SERVER_ERROR

type_synonym api_error = "StatusCode \<times> string"

record ServerEnv =
  se_now :: time
  se_rfc3339 :: "time \<Rightarrow> string"
  se_integrate :: "string \<Rightarrow> string \<Rightarrow> string \<Rightarrow> string option \<Rightarrow> string option \<Rightarrow> (string, string) result"

definition now_text :: "ServerEnv \<Rightarrow> string" where
  "now_text env = se_rfc3339 env (se_now env)"

record IntegrateMissionRequest =
  iq_target_branch :: "string option"
  iq_commit_message :: "string option"
  iq_expected_target_head :: "string option"
  iq_force :: "bool option"

record IntegrateMissionResponse =
  ir_mission_id :: ident
  ir_integrated :: bool
  ir_already_integrated :: "bool option"
  ir_verified_commit :: string
  ir_integration_summary :: string
  ir_timestamp :: string

record AcceptMissionRequest =
  aq_feedback :: "string option"
  aq_integrate :: "bool option"
  aq_target_branch :: "string option"
  aq_commit_message :: "string option"
  aq_expected_target_head :: "string option"
  aq_force :: "bool option"

record AcceptMissionResponse =
  ar_mission_id :: ident
  ar_state :: MissionState
  ar_accepted_at :: string
  ar_integrated :: bool
  ar_integration_summary :: "string option"
  ar_verified_commit :: "string option"

record RejectMissionRequest =
  rq_reason :: string
  rq_continue_mission :: "bool option"

record RejectMissionResponse =
  rr_mission_id :: ident
  rr_state :: MissionState
  rr_rejected_at :: string
  rr_reason :: string
  rr_will_replan :: bool

section \<open>Helpers\<close>

definition meta_str :: "string \<Rightarrow> Mission \<Rightarrow> string option" where
  "meta_str k m = Option.bind (json_get k (m_metadata m)) json_str"

text \<open>The first of two keys that is present, read as text.\<close>

definition meta_str2 :: "string \<Rightarrow> string \<Rightarrow> Mission \<Rightarrow> string option" where
  "meta_str2 k1 k2 m =
    Option.bind (case json_get k1 (m_metadata m) of Some v \<Rightarrow> Some v | None \<Rightarrow> json_get k2 (m_metadata m)) json_str"

definition or_empty :: "string option \<Rightarrow> string" where
  "or_empty x = (case x of Some s \<Rightarrow> s | None \<Rightarrow> [])"

definition set_meta :: "string \<Rightarrow> json \<Rightarrow> Mission \<Rightarrow> Mission" where
  "set_meta k v m = m\<lparr>m_metadata := json_insert k v (m_metadata m)\<rparr>"

definition remove_meta :: "string \<Rightarrow> Mission \<Rightarrow> Mission" where
  "remove_meta k m = m\<lparr>m_metadata := (case m_metadata m of
     JObj kvs \<Rightarrow> JObj (filter (\<lambda>kv. fst kv \<noteq> k) kvs) | v \<Rightarrow> v)\<rparr>"

definition api_store :: "(Db, unit, StorageError) op \<Rightarrow> (Db, unit, api_error) op" where
  "api_store f db = (case f db of (db', r) \<Rightarrow> (db', map_err (\<lambda>_. (INTERNAL_SERVER_ERROR, ''storage error'')) r))"

definition api_mission :: "ident \<Rightarrow> (Db, Mission, api_error) op" where
  "api_mission i db = (db, ok_or (NOT_FOUND, ''Mission not found'') (get_mission i db))"

section \<open>Creation\<close>

record CreateMissionRequest =
  cq_title :: string
  cq_objective :: string
  cq_workspace_id :: "ident option"
  cq_budget :: "MissionBudget option"
  cq_stopping_condition :: "StoppingCondition option"
  cq_backend :: "string option"
  cq_metadata :: "json option"

text \<open>Index assignment turns null into an object and panics on other values, which ends
the request; head asks git for the commit checked out at a path.\<close>

definition json_index_set :: "string \<Rightarrow> json \<Rightarrow> json \<Rightarrow> (json, api_error) result" where
  "json_index_set k x v =
    (case v of
       JObj kvs \<Rightarrow> Ok (json_insert k x v)
     | JNull \<Rightarrow> Ok (JObj [(k, x)])
     | _ \<Rightarrow> Err (INTERNAL_SERVER_ERROR, ''panic: cannot access key in JSON value''))"

definition request_metadata ::
  "(string \<Rightarrow> string option) \<Rightarrow> CreateMissionRequest \<Rightarrow> Mission \<Rightarrow> Db \<Rightarrow> (json, api_error) result" where
  "request_metadata head req m db =
    (let meta = (case cq_metadata req of Some v \<Rightarrow> v | None \<Rightarrow> m_metadata m)
     in and_then
          (case cq_backend req of
             Some b \<Rightarrow> json_index_set ''backend'' (JStr b) meta
           | None \<Rightarrow> (if json_get ''backend'' meta = None
                       then json_index_set ''backend'' (JStr ''gemini_cli'') meta else Ok meta))
          (\<lambda>meta1. Ok (case Option.bind (workspace_path m db) head of
                         Some sha \<Rightarrow> json_insert ''initial_commit'' (JStr sha) meta1
                       | None \<Rightarrow> meta1)))"

definition create_mission_route ::
  "MissionEnv \<Rightarrow> (string \<Rightarrow> string option) \<Rightarrow> CreateMissionRequest \<Rightarrow> (MissionEngine, Mission, api_error) op" where
  "create_mission_route env head req s =
    (if str_trim (cq_title req) = [] then (s, Err (BAD_REQUEST, ''Mission title cannot be empty''))
     else if str_trim (cq_objective req) = [] then (s, Err (BAD_REQUEST, ''Mission objective cannot be empty''))
     else case engine_create_mission env (cq_title req) (cq_objective req) (cq_workspace_id req)
                 (cq_budget req) (cq_stopping_condition req) s of
       (s1, Err _) \<Rightarrow> (s1, Err (INTERNAL_SERVER_ERROR, ''storage error''))
     | (s1, Ok m) \<Rightarrow>
         (case request_metadata head req m (en_store s1) of
            Err e \<Rightarrow> (s1, Err e)
          | Ok meta \<Rightarrow>
              (let m1 = m\<lparr>m_metadata := meta\<rparr> in
               case api_store (update_mission m1) (en_store s1) of
                 (db, Err e) \<Rightarrow> (s1\<lparr>en_store := db\<rparr>, Err e)
               | (db, Ok _) \<Rightarrow> (s1\<lparr>en_store := db\<rparr>, Ok m1))))"

section \<open>Rejection\<close>

definition reject_mission ::
  "ServerEnv \<Rightarrow> ident \<Rightarrow> RejectMissionRequest \<Rightarrow> (Db, RejectMissionResponse, api_error) op" where
  "reject_mission env i req db =
    (if str_trim (rq_reason req) = [] then (db, Err (BAD_REQUEST, ''Rejection reason cannot be empty''))
     else st_then (api_mission i) (\<lambda>m db.
       if m_state m = MissionState.Integrated
       then (db, Err (CONFLICT, ''Cannot reject an already-integrated mission''))
       else if m_state m \<noteq> MissionState.AwaitingAcceptance \<and> m_state m \<noteq> MissionState.Accepted
       then (db, Err (CONFLICT, ''Cannot reject mission''))
       else if rq_continue_mission req = Some True
       then (let m1 = set_meta ''rejected_for_replan_at'' (JStr (now_text env))
                        (set_meta ''rejection_reason'' (JStr (rq_reason req))
                          (try_transition MissionState.Replanning m));
                 m2 = m1\<lparr>m_budget_consumed := (m_budget_consumed m1)\<lparr>planner_iterations :=
                          planner_iterations (m_budget_consumed m1) + 1\<rparr>\<rparr>
             in st_then (api_store (update_mission m2)) (\<lambda>_ db1.
                  (emit (se_now env) i ''mission_rejected_for_replan'' db1,
                   Ok \<lparr>rr_mission_id = i, rr_state = MissionState.Replanning, rr_rejected_at = now_text env,
                       rr_reason = rq_reason req, rr_will_replan = True\<rparr>)) db)
       else (let m1 = set_meta ''rejection_reason'' (JStr (rq_reason req))
                        (set_meta ''rejected_at'' (JStr (now_text env))
                          (set_meta ''rejected'' (JBool True) (try_transition MissionState.Rejected m)))
             in st_then (api_store (update_mission m1)) (\<lambda>_ db1.
                  (emit (se_now env) i ''mission_rejected'' db1,
                   Ok \<lparr>rr_mission_id = i, rr_state = MissionState.Rejected, rr_rejected_at = now_text env,
                       rr_reason = rq_reason req, rr_will_replan = False\<rparr>)) db)) db)"

section \<open>Integration\<close>

definition already_integrated :: "Mission \<Rightarrow> IntegrateMissionResponse" where
  "already_integrated m =
    (let verified = or_empty (m_latest_verified_commit m);
         target = (case meta_str ''integration_target_branch'' m of Some b \<Rightarrow> b | None \<Rightarrow> ''main'')
     in \<lparr>ir_mission_id = m_id m, ir_integrated = True, ir_already_integrated = Some True,
         ir_verified_commit = verified,
         ir_integration_summary = ''Mission '' @ CHR 0x27 # m_title m @ CHR 0x27 # '' commit '' @ verified @
           '' was already integrated into branch '' @ CHR 0x27 # target @ CHR 0x27 # ''.'',
         ir_timestamp = or_empty (meta_str ''integrated_at'' m)\<rparr>)"

text \<open>The check made before the lock: None lets the request go on.\<close>

definition integration_precheck :: "Mission \<Rightarrow> (IntegrateMissionResponse, api_error) result option" where
  "integration_precheck m =
    (if m_state m = MissionState.Integrated then Some (Ok (already_integrated m))
     else if m_state m = MissionState.AwaitingAcceptance
     then Some (Err (CONFLICT, ''Cannot integrate mission: human acceptance is required before integration''))
     else if m_state m = MissionState.Integrating
     then Some (Err (CONFLICT, ''Cannot integrate mission: integration is currently in progress for this mission.''))
     else if m_state m \<noteq> MissionState.Accepted \<and> m_state m \<noteq> MissionState.Completed
     then Some (Err (CONFLICT, ''Cannot integrate mission: must be accepted''))
     else None)"

definition expected_head_of :: "Mission \<Rightarrow> IntegrateMissionRequest \<Rightarrow> string option" where
  "expected_head_of m req =
    (if iq_force req = Some True then None
     else case iq_expected_target_head req of
            Some h \<Rightarrow> Some h
          | None \<Rightarrow> meta_str2 ''verified_target_head'' ''initial_commit'' m)"

definition git_error_status :: "string \<Rightarrow> StatusCode" where
  "git_error_status err =
    (if str_contains ''dirty working tree'' err \<or> str_contains ''conflict'' err \<or>
        str_contains ''Conflict'' err \<or> str_contains ''changed since verification'' err
     then CONFLICT else BAD_REQUEST)"

definition integration_intent :: "ServerEnv \<Rightarrow> Mission \<Rightarrow> string \<Rightarrow> string \<Rightarrow> string option \<Rightarrow> Mission" where
  "integration_intent env m target commit expected =
    set_meta ''integration_intent'' (JObj
      [(''target_branch'', JStr target), (''candidate_commit'', JStr commit),
       (''expected_target_head'', (case expected of Some h \<Rightarrow> JStr h | None \<Rightarrow> JNull)),
       (''started_at'', JStr (now_text env))])
      (try_transition MissionState.Integrating m)"

definition integrated_mission :: "ServerEnv \<Rightarrow> Mission \<Rightarrow> string \<Rightarrow> Mission" where
  "integrated_mission env m target =
    remove_meta ''integration_error''
      (set_meta ''integration_target_branch'' (JStr target)
        (set_meta ''integrated_at'' (JStr (now_text env))
          (set_meta ''integrated'' (JBool True) (try_transition MissionState.Integrated m))))"

text \<open>The physical integration; without a bound or known workspace nothing is done.\<close>

definition physical_integration ::
  "ServerEnv \<Rightarrow> Mission \<Rightarrow> string \<Rightarrow> string \<Rightarrow> string option \<Rightarrow> string option \<Rightarrow> Db \<Rightarrow> (string, string) result" where
  "physical_integration env m target commit message expected db =
    (case Option.bind (m_workspace_id m) (\<lambda>w. get_workspace w db) of
       Some ws \<Rightarrow> se_integrate env (ws_canonical_path ws) target commit message expected
     | None \<Rightarrow> Ok (''Mission '' @ CHR 0x27 # m_title m @ CHR 0x27 # '' verified commit '' @ commit @
                   '' successfully integrated into repository.''))"

definition integration_finish ::
  "ServerEnv \<Rightarrow> ident \<Rightarrow> Mission \<Rightarrow> string \<Rightarrow> string \<Rightarrow> string \<Rightarrow> (Db, IntegrateMissionResponse, api_error) op" where
  "integration_finish env i m target commit summary =
    st_then (api_store (update_mission (integrated_mission env m target))) (\<lambda>_ db.
      (emit (se_now env) i ''mission_integrated'' (emit (se_now env) i ''mission_integration_succeeded'' db),
       Ok \<lparr>ir_mission_id = i, ir_integrated = True, ir_already_integrated = Some False,
           ir_verified_commit = commit, ir_integration_summary = summary, ir_timestamp = now_text env\<rparr>))"

definition integration_rollback ::
  "ServerEnv \<Rightarrow> ident \<Rightarrow> Mission \<Rightarrow> string \<Rightarrow> (Db, IntegrateMissionResponse, api_error) op" where
  "integration_rollback env i m err db =
    (let m1 = set_meta ''integration_error'' (JStr err) (try_transition MissionState.Accepted m);
         db1 = fst (update_mission m1 db)
     in (emit (se_now env) i ''mission_integration_failed'' db1,
         Err (git_error_status err, ''Git integration rejected: '' @ err)))"

text \<open>The critical section under the workspace lock.\<close>

definition integration_locked ::
  "ServerEnv \<Rightarrow> ident \<Rightarrow> IntegrateMissionRequest \<Rightarrow> (Db, IntegrateMissionResponse, api_error) op" where
  "integration_locked env i req = st_then (api_mission i) (\<lambda>m db.
    if m_state m = MissionState.Integrated then (db, Ok (already_integrated m))
    else if m_state m = MissionState.Integrating
    then (db, Err (CONFLICT, ''Cannot integrate mission: integration is currently in progress for this mission.''))
    else if m_state m \<noteq> MissionState.Accepted \<and> m_state m \<noteq> MissionState.Completed
    then (db, Err (CONFLICT, ''Cannot integrate mission: must be accepted''))
    else case m_latest_verified_commit m of
      None \<Rightarrow> (db, Err (CONFLICT, ''Cannot integrate mission: no verified commit recorded on disk''))
    | Some commit \<Rightarrow>
        if (case m_final_outcome m of Some out \<Rightarrow> \<not> o_success out | None \<Rightarrow> False)
        then (db, Err (CONFLICT, ''Cannot integrate mission: final outcome reports verification failure''))
        else let target = (case iq_target_branch req of Some b \<Rightarrow> b | None \<Rightarrow> ''main'');
                 expected = expected_head_of m req;
                 m1 = integration_intent env m target commit expected
             in st_then (api_store (update_mission m1)) (\<lambda>_ db1.
                  let db2 = emit (se_now env) i ''mission_integration_started'' db1 in
                  case physical_integration env m1 target commit (iq_commit_message req) expected db2 of
                    Ok summary \<Rightarrow> integration_finish env i m1 target commit summary db2
                  | Err err \<Rightarrow> integration_rollback env i m1 err db2) db)"

definition execute_canonical_integration ::
  "ServerEnv \<Rightarrow> ident \<Rightarrow> IntegrateMissionRequest \<Rightarrow> (Db, IntegrateMissionResponse, api_error) op" where
  "execute_canonical_integration env i req = st_then (api_mission i) (\<lambda>m db.
    case integration_precheck m of
      Some r \<Rightarrow> (db, r)
    | None \<Rightarrow> integration_locked env i req db)"

section \<open>Acceptance\<close>

definition accepted_mission :: "ServerEnv \<Rightarrow> AcceptMissionRequest \<Rightarrow> Mission \<Rightarrow> Mission" where
  "accepted_mission env req m =
    (let m1 = set_meta ''accepted_at'' (JStr (now_text env))
                (set_meta ''accepted'' (JBool True) (try_transition MissionState.Accepted m))
     in case aq_feedback req of
          Some fb \<Rightarrow> set_meta ''acceptance_feedback'' (JStr fb) m1
        | None \<Rightarrow> m1)"

definition after_acceptance ::
  "ServerEnv \<Rightarrow> ident \<Rightarrow> AcceptMissionRequest \<Rightarrow> string \<Rightarrow> (Db, AcceptMissionResponse, api_error) op" where
  "after_acceptance env i req commit db =
    (let db2 = emit (se_now env) i ''mission_accepted''
                 (emit (se_now env) i ''mission_acceptance_recorded'' db)
     in if aq_integrate req = Some True
        then st_then (execute_canonical_integration env i
               \<lparr>iq_target_branch = aq_target_branch req, iq_commit_message = aq_commit_message req,
                iq_expected_target_head = aq_expected_target_head req, iq_force = aq_force req\<rparr>)
             (\<lambda>res db3. (db3, Ok \<lparr>ar_mission_id = i, ar_state = MissionState.Integrated,
                ar_accepted_at = now_text env, ar_integrated = True,
                ar_integration_summary = Some (ir_integration_summary res), ar_verified_commit = Some commit\<rparr>)) db2
        else (db2, Ok \<lparr>ar_mission_id = i, ar_state = MissionState.Accepted, ar_accepted_at = now_text env,
                       ar_integrated = False, ar_integration_summary = None, ar_verified_commit = Some commit\<rparr>))"

definition accept_mission ::
  "ServerEnv \<Rightarrow> ident \<Rightarrow> AcceptMissionRequest \<Rightarrow> (Db, AcceptMissionResponse, api_error) op" where
  "accept_mission env i req = st_then (api_mission i) (\<lambda>m db.
    if m_state m = MissionState.Integrated
    then (db, Ok \<lparr>ar_mission_id = i, ar_state = m_state m,
                  ar_accepted_at = or_empty (meta_str2 ''accepted_at'' ''integrated_at'' m), ar_integrated = True,
                  ar_integration_summary = Some ''Mission was already accepted and integrated.'',
                  ar_verified_commit = m_latest_verified_commit m\<rparr>)
    else if m_state m = MissionState.Accepted \<and> aq_integrate req \<noteq> Some True
    then (db, Ok \<lparr>ar_mission_id = i, ar_state = m_state m,
                  ar_accepted_at = or_empty (meta_str ''accepted_at'' m), ar_integrated = False,
                  ar_integration_summary = None, ar_verified_commit = m_latest_verified_commit m\<rparr>)
    else if m_state m \<noteq> MissionState.AwaitingAcceptance \<and> m_state m \<noteq> MissionState.Accepted
    then (db, Err (CONFLICT, ''Cannot accept mission''))
    else case m_latest_verified_commit m of
      None \<Rightarrow> (db, Err (CONFLICT, ''Cannot accept mission: no verified commit recorded on disk''))
    | Some commit \<Rightarrow>
        if (case m_final_outcome m of Some out \<Rightarrow> \<not> o_success out | None \<Rightarrow> False)
        then (db, Err (CONFLICT, ''Cannot accept mission: physical stopping condition verification failed''))
        else st_then (api_store (update_mission (accepted_mission env req m)))
               (\<lambda>_. after_acceptance env i req commit) db)"

section \<open>The command line\<close>

text \<open>The mission commands of cli.rs work on the same store, with fewer checks than the
handlers; the printed text is left out. The integrate command is the canonical integration
with no expected head.\<close>

datatype cli_error = CliText string | CliStorage StorageError | CliApi api_error | CliRuntime RuntimeError

definition cli_mission :: "ident \<Rightarrow> (Db, Mission, cli_error) op" where
  "cli_mission i db = (db, ok_or (CliText ''Mission not found'') (get_mission i db))"

definition cli_store :: "(Db, unit, StorageError) op \<Rightarrow> (Db, unit, cli_error) op" where
  "cli_store f db = (case f db of (db', r) \<Rightarrow> (db', map_err CliStorage r))"

definition cli_accept ::
  "ServerEnv \<Rightarrow> ident \<Rightarrow> bool \<Rightarrow> string option \<Rightarrow> string option \<Rightarrow> (Db, unit, cli_error) op" where
  "cli_accept env i integrate branch message = st_then (cli_mission i) (\<lambda>m db.
    if m_state m = MissionState.Integrated then (db, Ok ())
    else if m_state m \<noteq> MissionState.AwaitingAcceptance \<and> m_state m \<noteq> MissionState.Accepted
    then (db, Err (CliText ''Cannot accept mission''))
    else if m_latest_verified_commit m = None
    then (db, Err (CliText ''Cannot accept: no verified commit found on disk''))
    else let m1 = set_meta ''accepted_at'' (JStr (now_text env))
                    (set_meta ''accepted'' (JBool True) (try_transition MissionState.Accepted m))
         in st_then (cli_store (update_mission m1)) (\<lambda>_ db1.
              if integrate
              then (case execute_canonical_integration env i
                      \<lparr>iq_target_branch = branch, iq_commit_message = message,
                       iq_expected_target_head = None, iq_force = None\<rparr> db1 of
                      (db2, Ok _) \<Rightarrow> (db2, Ok ())
                    | (db2, Err e) \<Rightarrow> (db2, Err (CliApi e)))
              else (db1, Ok ())) db)"

definition cli_reject :: "ServerEnv \<Rightarrow> ident \<Rightarrow> string \<Rightarrow> bool \<Rightarrow> (Db, unit, cli_error) op" where
  "cli_reject env i why again = st_then (cli_mission i) (\<lambda>m db.
    if m_state m = MissionState.Integrated
    then (db, Err (CliText ''Cannot reject an already-integrated mission''))
    else if m_state m \<noteq> MissionState.AwaitingAcceptance \<and> m_state m \<noteq> MissionState.Accepted
    then (db, Err (CliText ''Cannot reject mission''))
    else if again
    then (let m1 = set_meta ''rejected_for_replan_at'' (JStr (now_text env))
                     (set_meta ''rejection_reason'' (JStr why) (try_transition MissionState.Replanning m))
          in cli_store (update_mission (m1\<lparr>m_budget_consumed := (m_budget_consumed m1)\<lparr>planner_iterations :=
                          planner_iterations (m_budget_consumed m1) + 1\<rparr>\<rparr>)) db)
    else cli_store (update_mission (set_meta ''rejection_reason'' (JStr why)
           (set_meta ''rejected_at'' (JStr (now_text env))
             (set_meta ''rejected'' (JBool True) (try_transition MissionState.Rejected m))))) db)"

definition cli_integrate :: "ServerEnv \<Rightarrow> ident \<Rightarrow> string option \<Rightarrow> string option \<Rightarrow> (Db, unit, cli_error) op" where
  "cli_integrate env i branch message db =
    (case execute_canonical_integration env i
            \<lparr>iq_target_branch = branch, iq_commit_message = message,
             iq_expected_target_head = None, iq_force = None\<rparr> db of
       (db1, Ok _) \<Rightarrow> (db1, Ok ())
     | (db1, Err e) \<Rightarrow> (db1, Err (CliApi e)))"

text \<open>The create command works on an engine of its own process. canonicalize resolves a path of
the file system; the name of a new workspace is the last component of the resolved path, which
is absolute and has no slash at its end. head asks git for the commit checked out there.\<close>

definition canonical_name :: "string \<Rightarrow> string" where
  "canonical_name p =
    (let n = rev (takeWhile (\<lambda>c. c \<noteq> CHR 0x2F) (rev p)) in if n = [] then ''default_workspace'' else n)"

definition cli_db :: "(Db, unit, StorageError) op \<Rightarrow> (MissionEngine, unit, cli_error) op" where
  "cli_db f s = (case f (en_store s) of (db, r) \<Rightarrow> (s\<lparr>en_store := db\<rparr>, map_err CliStorage r))"

definition cli_engine :: "(MissionEngine, Mission, RuntimeError) op \<Rightarrow> (MissionEngine, Mission, cli_error) op" where
  "cli_engine f s = (case f s of (s1, r) \<Rightarrow> (s1, map_err CliRuntime r))"

definition cli_workspace :: "MissionEnv \<Rightarrow> string \<Rightarrow> (MissionEngine, ident, cli_error) op" where
  "cli_workspace env p s =
    (case find (\<lambda>w. ws_canonical_path w = p) (list_workspaces (en_store s)) of
       Some w \<Rightarrow> (s, Ok (ws_id w))
     | None \<Rightarrow>
         (let w = Workspace_new (fresh_id (map ws_id (db_workspaces (en_store s)))) (env_now env) (canonical_name p) p
          in st_then (cli_db (create_workspace w)) (\<lambda>_ s1. (s1, Ok (ws_id w))) s))"

definition cli_initial_commit :: "string option \<Rightarrow> Mission \<Rightarrow> (MissionEngine, Mission, cli_error) op" where
  "cli_initial_commit sha m s =
    (case sha of
       None \<Rightarrow> (s, Ok m)
     | Some c \<Rightarrow> (let m1 = set_meta ''initial_commit'' (JStr c) m
                 in st_then (cli_db (update_mission m1)) (\<lambda>_ s1. (s1, Ok m1)) s))"

definition cli_create ::
  "MissionEnv \<Rightarrow> (string \<Rightarrow> string option) \<Rightarrow> (string \<Rightarrow> string option) \<Rightarrow> string \<Rightarrow> string \<Rightarrow> string option \<Rightarrow> bool \<Rightarrow>
   (MissionEngine, Mission, cli_error) op" where
  "cli_create env canonicalize head path objective title auto_start s =
    (case canonicalize path of
       None \<Rightarrow> (s, Err (CliText ''No such file or directory''))
     | Some p \<Rightarrow>
         (let t = (case title of Some t \<Rightarrow> t | None \<Rightarrow> ''Mission: '' @ take 40 objective)
          in st_then (cli_workspace env p) (\<lambda>w.
             st_then (cli_engine (engine_create_mission env t objective (Some w) None None)) (\<lambda>m.
             st_then (cli_initial_commit (head p) m) (\<lambda>m1.
               if auto_start then cli_engine (start_mission env (m_id m1)) else (\<lambda>s1. (s1, Ok m1))))) s))"

section \<open>Reconciliation at startup\<close>

text \<open>The mission part of the startup reconciler (plexis-runtime, reconciler.rs): a
mission found integrating is resolved by asking git whether the candidate commit is
reachable from the target branch; re\_is\_ancestor is that question, False when the
process fails.\<close>

record ReconcileEnv =
  re_now :: time
  re_rfc3339 :: "time \<Rightarrow> string"
  re_is_ancestor :: "string \<Rightarrow> string \<Rightarrow> string \<Rightarrow> bool"
  re_has_workspace_store :: bool

definition intent_str :: "string \<Rightarrow> Mission \<Rightarrow> string option" where
  "intent_str k m =
    Option.bind (Option.bind (json_get ''integration_intent'' (m_metadata m)) (json_get k)) json_str"

definition candidate_of :: "Mission \<Rightarrow> string option" where
  "candidate_of m = (case m_latest_verified_commit m of Some c \<Rightarrow> Some c | None \<Rightarrow> intent_str ''candidate_commit'' m)"

definition target_branch_of :: "Mission \<Rightarrow> string" where
  "target_branch_of m =
    (case intent_str ''target_branch'' m of Some b \<Rightarrow> b
     | None \<Rightarrow> (case meta_str ''integration_target_branch'' m of Some b \<Rightarrow> b | None \<Rightarrow> ''main''))"

definition commit_on_target :: "ReconcileEnv \<Rightarrow> Mission \<Rightarrow> Db \<Rightarrow> bool" where
  "commit_on_target env m db =
    (re_has_workspace_store env \<and>
     (case (Option.bind (m_workspace_id m) (\<lambda>w. get_workspace w db), candidate_of m) of
        (Some ws, Some cand) \<Rightarrow> re_is_ancestor env (ws_canonical_path ws) cand (target_branch_of m)
      | _ \<Rightarrow> False))"

definition resolve_integrating :: "ReconcileEnv \<Rightarrow> Mission \<Rightarrow> Db \<Rightarrow> Mission" where
  "resolve_integrating env m db =
    (let now = re_rfc3339 env (re_now env); done = commit_on_target env m db;
         m1 = m\<lparr>m_state := (if done then MissionState.Integrated else MissionState.Accepted)\<rparr>;
         m2 = (if done
               then set_meta ''integration_target_branch'' (JStr (target_branch_of m))
                      (set_meta ''integrated_at'' (JStr now) (set_meta ''integrated'' (JBool True) m1))
               else set_meta ''integration_error'' (JStr (''Integration interrupted by server restart; candidate commit '' @
                      ''not reachable in target branch. Reset to accepted.'')) m1)
     in set_meta ''reconciliation_reason''
          (JStr (if done then ''candidate_commit_reachable_in_target_branch'' else ''candidate_commit_not_integrated_on_disk''))
          (set_meta ''reconciled_at'' (JStr now) m2))"

definition reconcile_mission :: "ReconcileEnv \<Rightarrow> Mission \<Rightarrow> Db \<Rightarrow> Db" where
  "reconcile_mission env m db =
    (if m_state m = MissionState.Integrating
     then emit (re_now env) (m_id m) ''mission_integration_reconciled''
            (fst (update_mission (resolve_integrating env m db) db))
     else if m_state m \<in> {MissionState.Planning, MissionState.Running, MissionState.Replanning, MissionState.Verifying}
     then emit (re_now env) (m_id m) ''mission.reconciled_resumable'' db
     else db)"

definition reconcile_missions :: "ReconcileEnv \<Rightarrow> Db \<Rightarrow> Db" where
  "reconcile_missions env db = fold (reconcile_mission env) (list_missions db) db"

end
