(* ===== verification/Task_Reconciler.thy ===== *)
theory Task_Reconciler
  imports Mission_Acceptance Text_Ops
begin

text \<open>The reconciler of plexis-runtime (reconciler.rs), with every store configured, as
the server builds it: expired leases are reclaimed and their tasks requeued, commands in
flight whose task is not running under a lease are marked failed, and at startup the
tasks of active workflows that run without a lease are requeued. The store calls whose
result the source ignores are applied for their effect. One reading of the clock stands
for the readings of a pass; an anomaly text leaves out the cause of a refused transition.\<close>

record ReconciliationReport =
  expired_leases_reclaimed :: "ident list"
  tasks_unassigned :: "ident list"
  resumable_workflows :: "ident list"
  resumable_missions :: "ident list"
  missions_reconciled :: "ident list"
  commands_reconciled :: "ident list"
  executions_reconciled :: "ident list"
  anomalies :: "string list"

definition ReconciliationReport_default :: ReconciliationReport where
  "ReconciliationReport_default = \<lparr>expired_leases_reclaimed = [], tasks_unassigned = [], resumable_workflows = [],
     resumable_missions = [], missions_reconciled = [], commands_reconciled = [], executions_reconciled = [],
     anomalies = []\<rparr>"

definition quoted :: "string \<Rightarrow> string" where
  "quoted s = CHR 0x27 # s @ [CHR 0x27]"

type_synonym 'a pass = "(Db, 'a, StorageError) op"

definition emit_event :: "time \<Rightarrow> string \<Rightarrow> ident \<Rightarrow> string \<Rightarrow> Db \<Rightarrow> Db" where
  "emit_event now ty agg event_type db =
    fst (append_event (Event_new (fresh_id (map (e_id \<circ> snd) (db_events db))) now ty agg event_type) db)"

section \<open>Requeueing a task\<close>

definition fail_execution :: "time \<Rightarrow> string \<Rightarrow> Execution \<Rightarrow> Db \<Rightarrow> Db" where
  "fail_execution now msg x db =
    emit_event now ''execution'' (x_id x) ''execution_failed''
      (fst (update_execution (case Execution_mark_failed now msg x of Ok x' \<Rightarrow> x' | Err _ \<Rightarrow> x) db))"

definition running_executions :: "ident \<Rightarrow> Db \<Rightarrow> Execution list" where
  "running_executions i db = filter (\<lambda>x. x_state x = ExecutionState.Running) (list_executions_by_task i db)"

definition requeue_task :: "time \<Rightarrow> string \<Rightarrow> string \<Rightarrow> Task \<Rightarrow> ReconciliationReport \<Rightarrow> ReconciliationReport pass" where
  "requeue_task now msg event_type t rep =
    st_then (update_task t)
      (\<lambda>_ db. let xs = running_executions (t_id t) db in
        (emit_event now ''task'' (t_id t) event_type (fold (fail_execution now msg) xs db),
         Ok (rep\<lparr>tasks_unassigned := tasks_unassigned rep @ [t_id t],
                 executions_reconciled := executions_reconciled rep @ map x_id xs\<rparr>)))"

definition in_progress :: "Task \<Rightarrow> bool" where
  "in_progress t = (t_state t = TaskState.Assigned \<or> t_state t = TaskState.Running)"

definition reconcile_task :: "time \<Rightarrow> ident \<Rightarrow> ReconciliationReport \<Rightarrow> ReconciliationReport pass" where
  "reconcile_task now i rep0 db =
    (let rep = rep0\<lparr>expired_leases_reclaimed := expired_leases_reclaimed rep0 @ [i]\<rparr> in
     case db_get_task i db of
       None \<Rightarrow> (db, Ok (rep\<lparr>anomalies := anomalies rep @ [''Lease existed for non-existent task '' @ quoted (decimal i)]\<rparr>))
     | Some t \<Rightarrow>
         if in_progress t
         then (case Task_unassign now t of
                 Err _ \<Rightarrow> (db, Ok (rep\<lparr>anomalies := anomalies rep @ [''Failed to transition task '' @ quoted (decimal i) @ '' to Ready'']\<rparr>))
               | Ok t' \<Rightarrow> requeue_task now
                   ''Orphaned external agent execution reconciled after server restart / lease expiry''
                   ''task.lease_reclaimed'' t' rep db)
         else (db, Ok rep))"

section \<open>Commands in flight\<close>

definition command_task :: "Command \<Rightarrow> ident option" where
  "command_task c =
    (case c_target c of CommandTarget.Task i \<Rightarrow> Some i
     | _ \<Rightarrow> Option.bind (Option.bind (json_get ''task_id'' (c_payload c)) json_str) parse_ident)"

definition task_abandoned :: "ident \<Rightarrow> Db \<Rightarrow> bool" where
  "task_abandoned i db =
    (case db_get_task i db of
       None \<Rightarrow> True
     | Some t \<Rightarrow> (t_state t \<noteq> TaskState.Running \<and> t_state t \<noteq> TaskState.Assigned) \<or> get_lease_by_task i db = None)"

definition reconcile_command :: "time \<Rightarrow> Command \<Rightarrow> ReconciliationReport \<Rightarrow> ReconciliationReport pass" where
  "reconcile_command now c rep db =
    (case command_task c of
       None \<Rightarrow> (db, Ok rep)
     | Some i \<Rightarrow>
         if task_abandoned i db
         then st_then (update_command (Command_mark_failed now c))
                (\<lambda>_ db1. (emit_event now ''command'' (c_id c) ''command.orphaned_reconciled'' db1,
                          Ok (rep\<lparr>commands_reconciled := commands_reconciled rep @ [c_id c]\<rparr>))) db
         else (db, Ok rep))"

definition commands_in_flight :: "Db \<Rightarrow> Command list" where
  "commands_in_flight db =
    list_commands_by_state CommandState.Dispatched db @ list_commands_by_state CommandState.Delivered db"

definition reconcile_commands :: "time \<Rightarrow> ReconciliationReport \<Rightarrow> ReconciliationReport pass" where
  "reconcile_commands now rep db = fold_op (reconcile_command now) (commands_in_flight db) rep db"

definition reconcile :: "time \<Rightarrow> ReconciliationReport pass" where
  "reconcile now =
    st_then (reclaim_expired_leases now)
      (\<lambda>ids. st_then (fold_op (reconcile_task now) ids ReconciliationReport_default) (reconcile_commands now))"

section \<open>Startup\<close>

definition startup_task :: "time \<Rightarrow> Task \<Rightarrow> ReconciliationReport \<times> bool \<Rightarrow> (ReconciliationReport \<times> bool) pass" where
  "startup_task now t acc db =
    (case acc of (rep, runnable) \<Rightarrow>
      if in_progress t \<and> get_lease_by_task (t_id t) db = None
      then (case Task_unassign now t of
              Err _ \<Rightarrow> (db, Ok (rep, runnable \<or> TaskState_is_runnable_candidate (t_state t)))
            | Ok t' \<Rightarrow> st_then (requeue_task now ''Orphaned external agent execution reconciled during startup''
                         ''task.startup_orphaned_recovered'' t' rep)
                       (\<lambda>rep' db'. (db', Ok (rep', runnable \<or> TaskState_is_runnable_candidate (t_state t')))) db)
      else (db, Ok (rep, runnable \<or> TaskState_is_runnable_candidate (t_state t))))"

definition startup_workflow :: "time \<Rightarrow> Workflow \<Rightarrow> ReconciliationReport \<Rightarrow> ReconciliationReport pass" where
  "startup_workflow now w rep db =
    st_then (fold_op (startup_task now) (list_tasks_by_workflow (w_id w) db) (rep, False))
      (\<lambda>(rep', runnable) db'. (db', Ok (if runnable \<and> w_state w = WorkflowState.Active
         then rep'\<lparr>resumable_workflows := resumable_workflows rep' @ [w_id w]\<rparr> else rep'))) db"

definition reconcile_workflows :: "time \<Rightarrow> ReconciliationReport \<Rightarrow> ReconciliationReport pass" where
  "reconcile_workflows now rep db =
    fold_op (startup_workflow now) (filter (\<lambda>w. w_state w = WorkflowState.Active) (list_workflows db)) rep db"

definition report_missions :: "Db \<Rightarrow> ReconciliationReport \<Rightarrow> ReconciliationReport" where
  "report_missions db rep =
    rep\<lparr>missions_reconciled := missions_reconciled rep @
          map m_id (filter (\<lambda>m. m_state m = MissionState.Integrating) (list_missions db)),
        resumable_missions := resumable_missions rep @
          map m_id (filter (\<lambda>m. m_state m \<in> {MissionState.Planning, MissionState.Running,
            MissionState.Replanning, MissionState.Verifying}) (list_missions db))\<rparr>"

definition reconcile_startup :: "ReconcileEnv \<Rightarrow> (Db, ReconciliationReport, RuntimeError) op" where
  "reconcile_startup env db =
    (case st_then (reconcile (re_now env)) (reconcile_workflows (re_now env)) db of
       (db1, Err e) \<Rightarrow> (db1, Err (Storage e))
     | (db1, Ok rep) \<Rightarrow> (reconcile_missions env db1, Ok (report_missions db1 rep)))"

end
