(* ===== verification/Selection.thy ===== *)
theory Selection
  imports Entities Text_Ops "HOL-Library.Product_Lexorder"
begin

text \<open>Agent selection: the capability matrix of plexis-providers (capabilities.rs) and the
deterministic selector of plexis-runtime (selector.rs). A price is a whole number of
hundred-thousandths of a dollar per thousand tokens, in which all prices of the matrix
are exact; the cost of a call, a floating point product, is not modelled. Scores are
integers: an i32 score would overflow only with tens of millions of capabilities.\<close>

section \<open>The capability matrix\<close>

datatype ReasoningTier = TierNone | Low | Medium | High

definition tier_rank :: "ReasoningTier \<Rightarrow> nat" where
  "tier_rank t = (case t of TierNone \<Rightarrow> 0 | Low \<Rightarrow> 1 | Medium \<Rightarrow> 2 | High \<Rightarrow> 3)"

instantiation ReasoningTier :: linorder
begin

definition less_eq_ReasoningTier :: "ReasoningTier \<Rightarrow> ReasoningTier \<Rightarrow> bool" where
  "s \<le> t \<longleftrightarrow> tier_rank s \<le> tier_rank t"

definition less_ReasoningTier :: "ReasoningTier \<Rightarrow> ReasoningTier \<Rightarrow> bool" where
  "s < t \<longleftrightarrow> tier_rank s < tier_rank t"

instance
proof
  fix s t :: ReasoningTier
  show "s \<le> t \<Longrightarrow> t \<le> s \<Longrightarrow> s = t"
    by (cases s; cases t) (simp_all add: less_eq_ReasoningTier_def tier_rank_def)
qed (auto simp: less_eq_ReasoningTier_def less_ReasoningTier_def)

end

record ModelPricing =
  cost_per_1k_input_tokens :: nat
  cost_per_1k_output_tokens :: nat

definition ModelPricing_free :: ModelPricing where
  "ModelPricing_free = \<lparr>cost_per_1k_input_tokens = 0, cost_per_1k_output_tokens = 0\<rparr>"

definition ModelPricing_new :: "nat \<Rightarrow> nat \<Rightarrow> ModelPricing" where
  "ModelPricing_new i out = \<lparr>cost_per_1k_input_tokens = i, cost_per_1k_output_tokens = out\<rparr>"

record ProviderCapabilities =
  pc_provider :: string
  pc_model :: string
  supports_tools :: bool
  supports_streaming :: bool
  context_window_tokens :: nat
  supports_vision :: bool
  reasoning_tier :: ReasoningTier
  pricing :: ModelPricing
  is_local :: bool

definition capabilities_for_model :: "string \<Rightarrow> string \<Rightarrow> ProviderCapabilities" where
  "capabilities_for_model provider model =
    (let p = str_to_lowercase provider; m = str_to_lowercase model in
     if str_contains ''ollama'' p then
       (let known = str_contains ''llama'' m \<or> str_contains ''qwen'' m \<or> str_contains ''mistral'' m \<or> str_contains ''coder'' m
        in \<lparr>pc_provider = ''ollama'', pc_model = model, supports_tools = known, supports_streaming = True,
            context_window_tokens = (if known then 8192 else 4096),
            supports_vision = (str_contains ''llava'' m \<or> str_contains ''vision'' m),
            reasoning_tier = Medium, pricing = ModelPricing_free, is_local = True\<rparr>)
     else if str_contains ''gemini'' p then
       \<lparr>pc_provider = ''gemini'', pc_model = model, supports_tools = True, supports_streaming = True,
        context_window_tokens = (if str_contains ''pro'' m then 1000000 else 500000), supports_vision = True,
        reasoning_tier = (if str_contains ''pro'' m then High else Medium),
        pricing = ModelPricing_new 125 500, is_local = False\<rparr>
     else if str_contains ''openai'' p then
       (let (tier, context, price) =
          (if str_contains ''o1'' m \<or> str_contains ''o3'' m then (High, 200000, ModelPricing_new 1500 6000)
           else if str_contains ''gpt-4o-mini'' m then (Low, 128000, ModelPricing_new 15 60)
           else (Medium, 128000, ModelPricing_new 500 1500))
        in \<lparr>pc_provider = ''openai'', pc_model = model, supports_tools = True, supports_streaming = True,
            context_window_tokens = context, supports_vision = True, reasoning_tier = tier,
            pricing = price, is_local = False\<rparr>)
     else
       \<lparr>pc_provider = provider, pc_model = model, supports_tools = False, supports_streaming = False,
        context_window_tokens = 4096, supports_vision = False, reasoning_tier = Low,
        pricing = ModelPricing_free, is_local = False\<rparr>)"

definition satisfies_requirements :: "bool \<Rightarrow> nat \<Rightarrow> ReasoningTier \<Rightarrow> ProviderCapabilities \<Rightarrow> bool" where
  "satisfies_requirements requires_tools required_context min_reasoning c =
    (\<not> (requires_tools \<and> \<not> supports_tools c) \<and> \<not> context_window_tokens c < required_context \<and>
     \<not> reasoning_tier c < min_reasoning)"

definition standard_capability_matrix :: "ProviderCapabilities list" where
  "standard_capability_matrix =
    [capabilities_for_model ''ollama'' ''qwen2.5-coder'', capabilities_for_model ''ollama'' ''llama3.2'',
     capabilities_for_model ''ollama'' ''mistral'', capabilities_for_model ''openai'' ''gpt-4o'',
     capabilities_for_model ''openai'' ''gpt-4o-mini'', capabilities_for_model ''openai'' ''o1-preview'',
     capabilities_for_model ''gemini'' ''gemini-1.5-pro'', capabilities_for_model ''gemini'' ''gemini-1.5-flash'']"

definition first_of :: "'a list \<Rightarrow> 'a option" where
  "first_of xs = (case xs of [] \<Rightarrow> None | x # _ \<Rightarrow> Some x)"

definition select_best_provider ::
  "ProviderCapabilities list \<Rightarrow> bool \<Rightarrow> nat \<Rightarrow> ReasoningTier \<Rightarrow> bool \<Rightarrow> ProviderCapabilities option" where
  "select_best_provider available requires_tools required_context min_reasoning prefer_local =
    (let eligible = filter (satisfies_requirements requires_tools required_context min_reasoning) available in
     if eligible = [] then None
     else case (if prefer_local then List.find is_local eligible else None) of
            Some c \<Rightarrow> Some c
          | None \<Rightarrow> first_of (sort_key (\<lambda>c. (int (cost_per_1k_input_tokens (pricing c)), - int (context_window_tokens c))) eligible))"

section \<open>Requirements of a task\<close>

record TaskRequirements =
  tq_caps :: "string list"
  tq_role :: "string option"
  tq_min_reasoning :: ReasoningTier
  tq_tools :: bool
  tq_vision :: bool
  tq_context :: nat

definition json_bool :: "json \<Rightarrow> bool option" where
  "json_bool v = (case v of JBool b \<Rightarrow> Some b | _ \<Rightarrow> None)"

definition json_u64 :: "json \<Rightarrow> nat option" where
  "json_u64 v = (case v of JNum n \<Rightarrow> if 0 \<le> n \<and> n < 2 ^ 64 then Some (nat n) else None | _ \<Rightarrow> None)"

definition tier_of_str :: "string \<Rightarrow> ReasoningTier option" where
  "tier_of_str s =
    (if s = ''none'' then Some TierNone else if s = ''low'' then Some Low
     else if s = ''medium'' then Some Medium else if s = ''high'' then Some High else None)"

definition or_default :: "'a \<Rightarrow> 'a option \<Rightarrow> 'a" where
  "or_default d x = (case x of Some a \<Rightarrow> a | None \<Rightarrow> d)"

definition task_requirements :: "Task \<Rightarrow> TaskRequirements" where
  "task_requirements t =
    \<lparr>tq_caps = Task_required_capabilities t,
     tq_role = map_option str_to_lowercase (Option.bind (json_get ''suggested_role'' (t_metadata t)) json_str),
     tq_min_reasoning = or_default TierNone (Option.bind
       (Option.bind (json_get ''min_reasoning_tier'' (t_metadata t)) json_str) (\<lambda>s. tier_of_str (str_to_lowercase s))),
     tq_tools = or_default False (Option.bind (json_get ''requires_tools'' (t_metadata t)) json_bool),
     tq_vision = or_default False (Option.bind (json_get ''requires_vision'' (t_metadata t)) json_bool),
     tq_context = or_default 0 (Option.bind (json_get ''required_context_tokens'' (t_metadata t)) json_u64)\<rparr>"

section \<open>Selection\<close>

definition has_capabilities :: "string list \<Rightarrow> Agent \<Rightarrow> bool" where
  "has_capabilities caps a = list_all (\<lambda>req. list_ex (\<lambda>c. eq_ignore_ascii_case c req) (a_capabilities a)) caps"

text \<open>The row of an agent's model, or else the first of its provider; an agent whose
provider has no row passes.\<close>

definition matrix_row :: "ProviderCapabilities list \<Rightarrow> ExecutionProfile \<Rightarrow> ProviderCapabilities option" where
  "matrix_row matrix p =
    (case List.find (\<lambda>c. eq_ignore_ascii_case (pc_provider c) (p_provider p) \<and>
                          eq_ignore_ascii_case (pc_model c) (p_model p)) matrix of
       Some c \<Rightarrow> Some c
     | None \<Rightarrow> List.find (\<lambda>c. eq_ignore_ascii_case (pc_provider c) (p_provider p)) matrix)"

definition provider_fits :: "ProviderCapabilities list \<Rightarrow> TaskRequirements \<Rightarrow> Agent \<Rightarrow> bool" where
  "provider_fits matrix q a =
    (if TierNone < tq_min_reasoning q \<or> tq_tools q \<or> tq_vision q \<or> 0 < tq_context q
     then (case matrix_row matrix (a_provider_profile a) of
             None \<Rightarrow> True
           | Some c \<Rightarrow> \<not> reasoning_tier c < tq_min_reasoning q \<and> \<not> (tq_tools q \<and> \<not> supports_tools c) \<and>
               \<not> (tq_vision q \<and> \<not> supports_vision c) \<and>
               \<not> (0 < tq_context q \<and> context_window_tokens c < tq_context q))
     else True)"

definition is_eligible :: "ProviderCapabilities list \<Rightarrow> TaskRequirements \<Rightarrow> Agent \<Rightarrow> bool" where
  "is_eligible matrix q a =
    (a_state a = AgentState.Idle \<and> a_current_execution_id a = None \<and> has_capabilities (tq_caps q) a \<and>
     provider_fits matrix q a)"

definition matches_domain :: "string \<Rightarrow> string \<Rightarrow> bool" where
  "matches_domain cap role =
    (((str_contains ''plan'' cap \<or> str_contains ''architect'' cap) \<and> str_contains ''plan'' role) \<or>
     ((str_contains ''research'' cap \<or> str_contains ''search'' cap \<or> str_contains ''read'' cap) \<and> str_contains ''research'' role) \<or>
     ((str_contains ''write'' cap \<or> str_contains ''code'' cap \<or> str_contains ''develop'' cap) \<and> str_contains ''develop'' role) \<or>
     ((str_contains ''test'' cap \<or> str_contains ''runner'' cap \<or> str_contains ''qa'' cap) \<and> str_contains ''test'' role) \<or>
     ((str_contains ''review'' cap \<or> str_contains ''diagnostic'' cap) \<and> str_contains ''review'' role) \<or>
     ((str_contains ''integrat'' cap \<or> str_contains ''git'' cap) \<and> str_contains ''integrat'' role) \<or>
     ((str_contains ''verif'' cap \<or> str_contains ''proof'' cap) \<and> str_contains ''verif'' role))"

definition score_agent :: "Agent \<Rightarrow> string list \<Rightarrow> string option \<Rightarrow> int" where
  "score_agent a caps role =
    (let r = str_to_lowercase (a_role a) in
     (case role of Some s \<Rightarrow> if str_contains s r \<or> str_contains r s then 50 else 0 | None \<Rightarrow> 0) +
     30 * int (length (filter (\<lambda>c. matches_domain (str_to_lowercase c) r) caps)) +
     (if length (a_capabilities a) = length caps then 10 else 0))"

definition select_best_agent_with_matrix :: "Task \<Rightarrow> Agent list \<Rightarrow> ProviderCapabilities list \<Rightarrow> Agent option" where
  "select_best_agent_with_matrix t candidates matrix =
    (let q = task_requirements t in
     first_of (sort_key (\<lambda>a. (- score_agent a (tq_caps q) (tq_role q), a_id a)) (filter (is_eligible matrix q) candidates)))"

definition select_best_agent :: "Task \<Rightarrow> Agent list \<Rightarrow> Agent option" where
  "select_best_agent t candidates = select_best_agent_with_matrix t candidates standard_capability_matrix"

section \<open>Laws\<close>

lemma first_of_sort_key:
  "first_of (sort_key f xs) = Some x \<Longrightarrow> x \<in> set xs \<and> (\<forall>y \<in> set xs. f x \<le> f y)"
proof -
  assume "first_of (sort_key f xs) = Some x"
  then obtain ys where e: "sort_key f xs = x # ys" by (auto simp: first_of_def split: list.splits)
  have "sorted (map f (x # ys))" unfolding e [symmetric] by simp
  moreover have "set xs = set (x # ys)" unfolding e [symmetric] by simp
  ultimately show ?thesis by auto
qed

lemma first_of_None [simp]: "first_of xs = None \<longleftrightarrow> xs = []"
  by (auto simp: first_of_def split: list.splits)

lemma first_of_sort_key_None [simp]: "first_of (sort_key f xs) = None \<longleftrightarrow> xs = []"
  by (metis first_of_None set_empty set_sort)

abbreviation agent_score :: "Task \<Rightarrow> Agent \<Rightarrow> int" where
  "agent_score t a \<equiv> score_agent a (tq_caps (task_requirements t)) (tq_role (task_requirements t))"

lemma select_Some:
  assumes "select_best_agent_with_matrix t cs mx = Some a"
  shows "a \<in> set cs" "is_eligible mx (task_requirements t) a"
    "\<And>b. b \<in> set cs \<Longrightarrow> is_eligible mx (task_requirements t) b \<Longrightarrow>
       agent_score t b < agent_score t a \<or> agent_score t b = agent_score t a \<and> a_id a \<le> a_id b"
  using first_of_sort_key [OF assms [unfolded select_best_agent_with_matrix_def Let_def]]
  by (auto simp: less_eq_prod_simp)

lemma select_None:
  "select_best_agent_with_matrix t cs mx = None \<longleftrightarrow> (\<forall>a \<in> set cs. \<not> is_eligible mx (task_requirements t) a)"
  by (simp only: select_best_agent_with_matrix_def Let_def first_of_sort_key_None filter_empty_conv)

text \<open>The order in which the candidates are listed does not matter.\<close>

lemma select_order_irrelevant:
  assumes "set cs = set cs'" "inj_on a_id (set cs)"
  shows "select_best_agent_with_matrix t cs mx = select_best_agent_with_matrix t cs' mx"
proof (cases "select_best_agent_with_matrix t cs mx")
  case None
  then show ?thesis using assms(1) by (metis select_None)
next
  case (Some a)
  then obtain b where b: "select_best_agent_with_matrix t cs' mx = Some b"
    using assms(1) by (metis not_None_eq select_None select_Some(1,2))
  have "agent_score t b < agent_score t a \<or> agent_score t b = agent_score t a \<and> a_id a \<le> a_id b"
    using select_Some(3) [OF Some] select_Some(1,2) [OF b] assms(1) by blast
  moreover have "agent_score t a < agent_score t b \<or> agent_score t a = agent_score t b \<and> a_id b \<le> a_id a"
    using select_Some(3) [OF b] select_Some(1,2) [OF Some] assms(1) by blast
  ultimately have "a_id a = a_id b" by linarith
  then have "a = b" using select_Some(1) [OF Some] select_Some(1) [OF b] assms by (metis inj_onD)
  then show ?thesis using Some b by simp
qed

end
