(* ===== verification/Storage_Laws.thy ===== *)
theory Storage_Laws
  imports Storage_Invariant
begin

text \<open>What the methods of the store return on the data they keep: which workflows load
as a task graph, the exclusivity of a command claim, the audit log read through its
cursor, retention, and the round trips of tasks and sessions.\<close>

section \<open>Loading a task graph\<close>

lemma acyclic_insert_iff: "acyclic (insert (i, j) E) \<longleftrightarrow> acyclic E \<and> (j, i) \<notin> E\<^sup>*"
  by (simp add: acyclic_insert)

text \<open>A sequence of dependency insertions succeeds exactly when the final graph is legal.\<close>

lemma add_pairs_Ok_iff:
  assumes "graph_inv g"
  shows "is_ok (snd (for_each (\<lambda>(i, j). add_dependency i j) ps g)) \<longleftrightarrow>
    (\<forall>(i, j) \<in> set ps. contains_task i g \<and> contains_task j g) \<and> acyclic (edges g \<union> set ps)"
  using assms
proof (induction ps arbitrary: g)
  case Nil
  then show ?case by (simp add: graph_inv_def)
next
  case (Cons p ps)
  obtain i j where p: "p = (i, j)" by fastforce
  show ?case
  proof (cases "is_ok (snd (add_dependency i j g))")
    case True
    then obtain g1 where g1: "add_dependency i j g = (g1, Ok ())"
      by (cases "add_dependency i j g"; cases "snd (add_dependency i j g)") auto
    have e: "edges g1 = insert (i, j) (edges g)" "task_ids g1 = task_ids g" "graph_inv g1"
      "i \<in> set (task_ids g)" "j \<in> set (task_ids g)"
      using add_dependency_edges [OF Cons.prems g1] by auto
    have "for_each (\<lambda>(i, j). add_dependency i j) (p # ps) g = for_each (\<lambda>(i, j). add_dependency i j) ps g1"
      by (simp add: for_each.simps st_then.simps p g1)
    then show ?thesis using Cons.IH [OF e(3)] e p by (auto simp: contains_task_iff)
  next
    case False
    have bad: "\<not> (contains_task i g \<and> contains_task j g \<and> acyclic (edges g \<union> set (p # ps)))"
    proof
      assume a: "contains_task i g \<and> contains_task j g \<and> acyclic (edges g \<union> set (p # ps))"
      have "insert (i, j) (edges g) \<subseteq> edges g \<union> set (p # ps)" using p by auto
      with a have "acyclic (insert (i, j) (edges g))" by (metis acyclic_subset)
      then have n: "(j, i) \<notin> (edges g)\<^sup>*" "i \<noteq> j" by (auto simp: acyclic_insert_iff)
      then show False using add_dependency_cases [OF Cons.prems, of i j] a False by (auto simp: contains_task_iff)
    qed
    have "\<not> is_ok (snd (for_each (\<lambda>(i, j). add_dependency i j) (p # ps) g))"
      using False by (cases "add_dependency i j g"; cases "snd (add_dependency i j g)")
        (auto simp: for_each.simps st_then.simps p)
    then show ?thesis using bad p by auto
  qed
qed

lemma task_ids_fold_add: "set (task_ids (fold add_task ts g)) = set (task_ids g) \<union> t_id ` set ts"
  by (induction ts arbitrary: g) (auto simp: task_ids_add_task)

lemma load_task_graph_iff:
  "is_ok (load_task_graph w db) \<longleftrightarrow>
    (\<forall>(i, j) \<in> set (workflow_edges w db). \<exists>t \<in> set (list_tasks_by_workflow w db). t_id t = j) \<and>
    acyclic (set (workflow_edges w db))"
  "load_task_graph w db = Ok g \<Longrightarrow> graph_inv g \<and> edges g = set (workflow_edges w db) \<and>
    set (task_ids g) = t_id ` set (list_tasks_by_workflow w db)"
proof -
  let ?g = "fold add_task (list_tasks_by_workflow w db) graph_new"
  let ?f = "for_each (\<lambda>(i, j). add_dependency i j) (workflow_edges w db) ?g"
  have inv: "graph_inv ?g" using fold_add_task [OF graph_inv_new] by blast
  have "edges graph_new = {}" by (auto simp: edges_def graph_new_def direct_dependencies_def)
  then have e: "edges ?g = {}" using fold_add_task [OF graph_inv_new] by blast
  have ids: "set (task_ids ?g) = t_id ` set (list_tasks_by_workflow w db)"
  proof -
    have "task_ids graph_new = []" by (simp add: graph_new_def task_ids_def)
    then show ?thesis by (simp add: task_ids_fold_add)
  qed
  have src: "(i, j) \<in> set (workflow_edges w db) \<Longrightarrow> i \<in> t_id ` set (list_tasks_by_workflow w db)" for i j
  proof -
    assume "(i, j) \<in> set (workflow_edges w db)"
    then obtain r where r: "r \<in> set (db_tasks db)" "row_id r = i" "t_workflow_id (r_task r) = w"
      by (auto simp: workflow_edges_def)
    have "r_task r \<in> set (list_tasks_by_workflow w db)"
      unfolding list_tasks_by_workflow_def set_sort set_filter set_map using r(1,3) by blast
    moreover have "t_id (r_task r) = i" using r(2) unfolding row_id_def .
    ultimately show "i \<in> t_id ` set (list_tasks_by_workflow w db)" by blast
  qed
  obtain g1 r where f: "?f = (g1, r)" by (meson surj_pair)
  have l: "load_task_graph w db = (case r of Ok _ \<Rightarrow> Ok g1 | Err _ \<Rightarrow> Err (Migration ''graph''))"
    by (simp add: load_task_graph_def Let_def f)
  have "is_ok (load_task_graph w db) \<longleftrightarrow> is_ok (snd ?f)"
    unfolding l f by (simp split: result.split)
  also have "\<dots> \<longleftrightarrow> (\<forall>(i, j) \<in> set (workflow_edges w db). \<exists>t \<in> set (list_tasks_by_workflow w db). t_id t = j) \<and>
      acyclic (set (workflow_edges w db))"
    unfolding add_pairs_Ok_iff [OF inv] contains_task_iff ids e using src by auto
  finally show "is_ok (load_task_graph w db) \<longleftrightarrow>
    (\<forall>(i, j) \<in> set (workflow_edges w db). \<exists>t \<in> set (list_tasks_by_workflow w db). t_id t = j) \<and>
    acyclic (set (workflow_edges w db))" .
  assume "load_task_graph w db = Ok g"
  then have "?f = (g, Ok ())" unfolding l f by (simp split: result.splits)
  from add_pairs_effect [OF inv this] show "graph_inv g \<and> edges g = set (workflow_edges w db) \<and>
    set (task_ids g) = t_id ` set (list_tasks_by_workflow w db)"
    using e ids by (simp add: task_ids_def)
qed

section \<open>Command claims\<close>

lemma dispatched_not_claimable: "\<not> claimable (dispatch_row now c)"
  by (simp add: claimable_def dispatch_row_def)

lemma claim_row_Ok:
  assumes "claim_row now i db = (db', Ok r)"
  shows "\<exists>c. r = Some (dispatch_row now c) \<and> get_command i db = Some c \<and>
    db' = db\<lparr>db_commands := tbl_modify c_id i (dispatch_row now) (db_commands db)\<rparr>"
  using assms by (auto simp: claim_row_def split: option.splits if_splits)

lemma claimed_rows:
  assumes "claim_row now i db = (db', Ok r)" "c \<in> set (db_commands db')" "claimable c"
  shows "c_id c \<noteq> i \<and> c \<in> set (db_commands db)"
  using claim_row_Ok [OF assms(1)] assms(2,3) by (auto simp: tbl_modify_def dispatched_not_claimable split: if_splits)

lemma claim_by_id_Ok:
  assumes "claim_command_by_id now i db = (db', Ok (Some c))"
  shows "claim_row now i db = (db', Ok (Some c))" "c_id c = i" "c_state c = CommandState.Dispatched"
    "\<exists>q \<in> set (db_commands db). c_id q = i \<and> claimable q"
proof -
  obtain q where q: "List.find (\<lambda>c. c_id c = i \<and> claimable c) (db_commands db) = Some q"
    and r: "claim_row now (c_id q) db = (db', Ok (Some c))"
    using assms by (auto simp: claim_command_by_id_def split: option.splits)
  have q': "q \<in> set (db_commands db)" "c_id q = i" "claimable q" using q by (auto simp: find_Some_iff)
  then show "claim_row now i db = (db', Ok (Some c))" "\<exists>q \<in> set (db_commands db). c_id q = i \<and> claimable q"
    using r by auto
  then obtain p where "c = dispatch_row now p" "get_command i db = Some p" using claim_row_Ok by blast
  then show "c_id c = i" "c_state c = CommandState.Dispatched"
    using tbl_get_key [of c_id i "db_commands db" p] by (simp_all add: get_command_def dispatch_row_def)
qed

lemma no_claim_by_id:
  "\<forall>c \<in> set (db_commands db). claimable c \<longrightarrow> c_id c \<noteq> i \<Longrightarrow> claim_command_by_id now i db = (db, Ok None)"
proof -
  assume "\<forall>c \<in> set (db_commands db). claimable c \<longrightarrow> c_id c \<noteq> i"
  then have "List.find (\<lambda>c. c_id c = i \<and> claimable c) (db_commands db) = None" by (auto simp: find_None_iff)
  then show ?thesis by (simp add: claim_command_by_id_def)
qed

lemma claim_next_Ok:
  assumes "claim_next_queued_command now db = (db', Ok (Some c))"
  obtains q where "q \<in> set (db_commands db)" "claimable q" "claim_row now (c_id q) db = (db', Ok (Some c))"
    "\<forall>p \<in> set (db_commands db). claimable p \<longrightarrow> c_created_at q \<le> c_created_at p"
proof -
  let ?xs = "filter claimable (db_commands db)"
  obtain q rest where s: "sort_key c_created_at ?xs = q # rest" and r: "claim_row now (c_id q) db = (db', Ok (Some c))"
    using assms by (auto simp: claim_next_queued_command_def split: list.splits)
  have m: "set ?xs = set (q # rest)" using arg_cong [OF s, of set] by simp
  have "sorted (map c_created_at (q # rest))" unfolding s [symmetric] by (rule sorted_sort_key)
  then have "\<forall>p \<in> set ?xs. c_created_at q \<le> c_created_at p" unfolding m by auto
  then show thesis by (intro that [OF _ _ r]) (use m in auto)
qed

section \<open>The audit log\<close>

lemma foldr_max_ge: "x \<in> set xs \<Longrightarrow> x \<le> foldr max xs (0 :: nat)"
  by (induction xs) auto

lemma list_events_after_append:
  assumes "append_event e db = (db', Ok ())" "0 < limit"
  shows "list_events_after (get_latest_event_sequence db) limit db' =
    [e\<lparr>e_sequence := Some (get_latest_event_sequence db + 1)\<rparr>]"
proof -
  let ?n = "get_latest_event_sequence db"
  have db': "db_events db' = db_events db @ [(?n + 1, e)]"
    using assms(1) by (auto simp: append_event_def next_rowid_def get_latest_event_sequence_def split: if_splits)
  have "filter (\<lambda>r. ?n < fst r) (db_events db) = []"
    using foldr_max_ge by (auto simp: filter_empty_conv get_latest_event_sequence_def not_less)
  then show ?thesis using assms(2) by (simp add: list_events_after_def db' event_of_row_def)
qed

section \<open>Round trips\<close>

lemma tbl_get_fresh:
  "\<not> tbl_has key (key r) rows \<Longrightarrow> tbl_get key k (rows @ [r]) = (if key r = k then Some r else tbl_get key k rows)"
  by (auto simp: tbl_get_append tbl_get_None [THEN iffD2] split: option.split)

lemma create_task_get:
  assumes "create_task t db = (db', Ok ())"
  shows "db_get_task i db' = (if i = t_id t then Some t else db_get_task i db)"
proof -
  let ?r = "\<lparr>r_task = t, r_generation = 0\<rparr>"
  have id: "row_id ?r = t_id t" by (simp add: row_id_def)
  have "\<not> tbl_has row_id (row_id ?r) (db_tasks db)" "db_tasks db' = db_tasks db @ [?r]"
    using assms unfolding id by (auto simp: create_task_def insert_task_row_def split: if_splits option.splits)
  then show ?thesis by (simp add: db_get_task_def tbl_get_fresh id)
qed

lemma create_session_get:
  "create_session s db = (db', Ok ()) \<Longrightarrow> get_session (s_id s) db' = Some (session_of_row s)"
  by (auto simp: create_session_def get_session_def tbl_get_fresh split: if_splits)

lemma prune_keeps_command:
  "c \<in> set (db_commands db) \<Longrightarrow> c_state c \<noteq> CommandState.Failed \<Longrightarrow>
     c \<in> set (db_commands (fst (prune_historical_records t db)))"
  by (cases "c_state c") (auto simp: prune_historical_records_def tbl_delete_def prunable_command_def)

end
