(* ===== verification/Scheduler.thy ===== *)
theory Scheduler
  imports Selection Storage_Laws Mission_Engine
begin

text \<open>The deterministic scheduler of plexis-runtime (scheduler.rs). A tick visits the
active workflows; for each one it leases runnable tasks to idle agents, enqueues and
claims a command per assignment, and then runs the claimed commands. The runner that
executes a command is a parameter; the jobs, which the source runs concurrently, run
one after the other here.\<close>

record SchedEnv =
  sd_now :: time
  sd_run :: "Command \<Rightarrow> (Db, unit, RuntimeError) op"

type_synonym job = "Command \<times> ident"

definition lease_ttl :: time where
  "lease_ttl = 300000"

definition execute_payload :: "ident \<Rightarrow> Task \<Rightarrow> Agent \<Rightarrow> Lease \<Rightarrow> json" where
  "execute_payload w t a l = JObj
    [(''task_id'', JStr (decimal (t_id t))), (''agent_id'', JStr (decimal (a_id a))), (''workflow_id'', JStr (decimal w)),
     (''lease_id'', JStr (decimal (l_id l))), (''lease_generation'', JNum (uint (l_generation l)))]"

definition execute_key :: "Task \<Rightarrow> string" where
  "execute_key t = ''task-exec-'' @ decimal (t_id t) @ ''-attempt-'' @ dec_word (t_attempts t + 1)"

definition execute_command_for :: "SchedEnv \<Rightarrow> ident \<Rightarrow> Task \<Rightarrow> Agent \<Rightarrow> Lease \<Rightarrow> Db \<Rightarrow> Command" where
  "execute_command_for env w t a l db =
    Command_new (fresh_id (map c_id (db_commands db))) (sd_now env) (CommandTarget.Agent (a_id a)) ExecuteTask
      (execute_payload w t a l) (execute_key t)"

text \<open>The steps after the lease was granted: the assignment of the task and the command,
enqueued and claimed. A lost claim leaves the queued command.\<close>

definition assigned_task :: "SchedEnv \<Rightarrow> Task \<Rightarrow> (Task, StateTransitionError) result" where
  "assigned_task env t =
    Task_transition_to (sd_now env) TaskState.Assigned
      (case Task_transition_to (sd_now env) TaskState.Ready t of Ok t1 \<Rightarrow> t1 | Err _ \<Rightarrow> t)"

definition enqueue_job :: "SchedEnv \<Rightarrow> ident \<Rightarrow> Task \<Rightarrow> Agent \<Rightarrow> Lease \<Rightarrow> (Db, job, StorageError) op" where
  "enqueue_job env w t a l db =
    (let c = execute_command_for env w t a l db in
     st_then (enqueue_command c)
       (\<lambda>_. st_then (claim_command_by_id (sd_now env) (c_id c))
         (\<lambda>r db2. (db2, Ok (case r of Some c' \<Rightarrow> c' | None \<Rightarrow> c, l_id l)))) db)"

definition dispatch_job :: "SchedEnv \<Rightarrow> ident \<Rightarrow> Task \<Rightarrow> Agent \<Rightarrow> Lease \<Rightarrow> (Db, job, StorageError) op" where
  "dispatch_job env w t a l =
    st_then (update_task (t\<lparr>t_assigned_agent_id := Some (a_id a)\<rparr>))
      (\<lambda>_. enqueue_job env w (t\<lparr>t_assigned_agent_id := Some (a_id a)\<rparr>) a l)"

definition acquire_for :: "SchedEnv \<Rightarrow> Task \<Rightarrow> Agent \<Rightarrow> (Db, Lease, RuntimeError) op" where
  "acquire_for env t a db =
    lm_acquire (fresh_id (map l_id (db_leases db))) (sd_now env) (sd_now env) (t_id t) (a_id a) lease_ttl db"

fun schedule_tasks ::
  "SchedEnv \<Rightarrow> ident \<Rightarrow> ident list \<Rightarrow> Agent list \<Rightarrow> job list \<Rightarrow> (Db, job list, RuntimeError) op" where
  "schedule_tasks env w [] agents jobs db = (db, Ok jobs)"
| "schedule_tasks env w (i # ids) agents jobs db =
    (case db_get_task i db of
       None \<Rightarrow> schedule_tasks env w ids agents jobs db
     | Some t \<Rightarrow>
         if t_state t \<noteq> TaskState.Ready \<and> t_state t \<noteq> TaskState.Backlog then schedule_tasks env w ids agents jobs db
         else if agents = [] then (db, Ok jobs)
         else case select_best_agent t agents of
           None \<Rightarrow> schedule_tasks env w ids agents jobs db
         | Some a \<Rightarrow>
             (case acquire_for env t a db of
                (db1, Err _) \<Rightarrow> schedule_tasks env w ids agents jobs db1
              | (db1, Ok l) \<Rightarrow>
                  (let agents' = filter (\<lambda>b. a_id b \<noteq> a_id a) agents in
                   case assigned_task env t of
                     Err _ \<Rightarrow> schedule_tasks env w ids agents' jobs (fst (lm_release (l_id l) db1))
                   | Ok t1 \<Rightarrow>
                       (case dispatch_job env w t1 a l db1 of
                          (db2, Err e) \<Rightarrow> (db2, Err (Storage e))
                        | (db2, Ok j) \<Rightarrow> schedule_tasks env w ids agents' (jobs @ [j]) db2))))"

declare schedule_tasks.simps(2) [simp del]

definition run_job :: "SchedEnv \<Rightarrow> job \<Rightarrow> Db \<Rightarrow> Db \<times> bool" where
  "run_job env j db =
    (case sd_run env (fst j) db of (db1, r) \<Rightarrow> (fst (lm_release (snd j) db1), is_ok r))"

fun run_jobs :: "SchedEnv \<Rightarrow> job list \<Rightarrow> Db \<Rightarrow> Db \<times> nat" where
  "run_jobs env [] db = (db, 0)"
| "run_jobs env (j # js) db =
    (case run_job env j db of (db1, ok) \<Rightarrow>
       (case run_jobs env js db1 of (db2, n) \<Rightarrow> (db2, if ok then n + 1 else n)))"

definition idle_agents :: "Db \<Rightarrow> Agent list" where
  "idle_agents db = filter (\<lambda>a. a_state a = AgentState.Idle \<and> a_current_execution_id a = None) (list_agents db)"

definition schedule_workflow :: "SchedEnv \<Rightarrow> Workflow \<Rightarrow> (Db, nat, RuntimeError) op" where
  "schedule_workflow env wk db =
    (if w_state wk \<noteq> WorkflowState.Active then (db, Ok 0)
     else case load_task_graph (w_id wk) db of
       Err e \<Rightarrow> (db, Err (Storage e))
     | Ok graph \<Rightarrow>
         (let runnable = find_runnable_tasks graph in
          if runnable = [] then (db, Ok 0)
          else st_then (schedule_tasks env (w_id wk) runnable (idle_agents db) [])
                 (\<lambda>jobs db1. (case run_jobs env jobs db1 of (db2, n) \<Rightarrow> (db2, Ok n))) db))"

fun schedule_workflows :: "SchedEnv \<Rightarrow> Workflow list \<Rightarrow> (Db, nat, RuntimeError) op" where
  "schedule_workflows env [] db = (db, Ok 0)"
| "schedule_workflows env (wk # wks) db =
    st_then (schedule_workflow env wk)
      (\<lambda>n. st_then (schedule_workflows env wks) (\<lambda>m db2. (db2, Ok (n + m)))) db"

definition tick :: "SchedEnv \<Rightarrow> (Db, nat, RuntimeError) op" where
  "tick env db = schedule_workflows env (list_workflows db) db"

section \<open>What an assignment leaves\<close>

lemma tbl_get_map_task: "map_option r_task (tbl_get row_id i rows) = tbl_get t_id i (map r_task rows)"
  by (induction rows) (simp_all add: tbl_get_Cons tbl_get_def [of _ _ "[]"])

lemma db_get_task_cong: "map r_task (db_tasks db') = map r_task (db_tasks db) \<Longrightarrow> db_get_task i db' = db_get_task i db"
  by (simp add: db_get_task_def tbl_get_map_task)

lemma db_get_task_id: "db_get_task i db = Some t \<Longrightarrow> t_id t = i"
  using tbl_get_key [of row_id i] by (fastforce simp: db_get_task_def)

lemma acquire_lease_tasks: "map r_task (db_tasks (fst (acquire_lease now l db))) = map r_task (db_tasks db)"
proof -
  have m: "map r_task (tbl_modify row_id i (\<lambda>r. r\<lparr>r_generation := f r\<rparr>) rows) = map r_task rows" for i f rows
    by (simp add: tbl_modify_def)
  show ?thesis
    by (auto simp: acquire_lease_def transaction_def st_then.simps increment_lease_generation_def insert_lease_def
        delete_leases_def m split: option.splits)
qed

lemma acquire_lease_other:
  assumes "db_inv db" "k \<noteq> l_task_id l"
  shows "get_lease_by_task k (fst (acquire_lease now l db)) = get_lease_by_task k db"
proof (cases "acquire_lease now l db")
  case (Pair db' r)
  show ?thesis
  proof (cases r)
    case (Ok g)
    have d: "distinct (map l_task_id (db_leases db))" using assms(1) by (simp add: db_inv_def lease_integrity_def)
    have "db_leases db' = tbl_delete (\<lambda>q. l_task_id q = l_task_id l) (db_leases db) @ [g]" "l_task_id g = l_task_id l"
      using acquire_lease_Ok [OF assms(1) Pair [unfolded Ok]] by auto
    then show ?thesis using assms(2) Pair d
      by (auto simp: get_lease_by_task_def tbl_get_append tbl_get_delete split: option.splits dest: tbl_get_key)
  next
    case (Err e)
    then have "db' = db" using Pair acquire_lease_Err by blast
    then show ?thesis using Pair by simp
  qed
qed

lemma acquire_for_eq:
  "acquire_for env t a db = (case acquire_lease (sd_now env)
     (Lease_new (fresh_id (map l_id (db_leases db))) (sd_now env) (t_id t) (a_id a) lease_ttl) db of
       (db', r) \<Rightarrow> (db', map_err Storage r))"
  by (simp add: acquire_for_def lm_acquire_def)

lemma acquire_for_frame:
  assumes "db_inv db"
  shows "db_inv (fst (acquire_for env t a db))"
    "db_get_task k (fst (acquire_for env t a db)) = db_get_task k db"
    "k \<noteq> t_id t \<Longrightarrow> get_lease_by_task k (fst (acquire_for env t a db)) = get_lease_by_task k db"
proof -
  let ?l = "Lease_new (fresh_id (map l_id (db_leases db))) (sd_now env) (t_id t) (a_id a) lease_ttl"
  have f: "fst (acquire_for env t a db) = fst (acquire_lease (sd_now env) ?l db)"
    by (simp add: acquire_for_eq split: prod.split)
  show "db_inv (fst (acquire_for env t a db))" unfolding f by (rule keepsD [OF acquire_lease_inv assms])
  show "db_get_task k (fst (acquire_for env t a db)) = db_get_task k db"
    unfolding f by (rule db_get_task_cong [OF acquire_lease_tasks])
  show "k \<noteq> t_id t \<Longrightarrow> get_lease_by_task k (fst (acquire_for env t a db)) = get_lease_by_task k db"
    unfolding f by (rule acquire_lease_other [OF assms]) (simp add: Lease_new_def)
qed

lemma acquire_for_Ok:
  assumes "db_inv db" "acquire_for env t a db = (db1, Ok l)"
  shows "get_lease_by_task (t_id t) db1 = Some l" "l_agent_id l = a_id a" "l_expires_at l = sd_now env + lease_ttl"
proof -
  let ?l = "Lease_new (fresh_id (map l_id (db_leases db))) (sd_now env) (t_id t) (a_id a) lease_ttl"
  have ok: "acquire_lease (sd_now env) ?l db = (db1, Ok l)"
    using assms(2) by (auto simp: acquire_for_eq split: prod.splits)
  show "get_lease_by_task (t_id t) db1 = Some l"
    using acquire_grant(1) [OF assms(1) ok] by (simp add: Lease_new_def)
  show "l_agent_id l = a_id a" "l_expires_at l = sd_now env + lease_ttl"
    using acquire_grant_fields [OF assms(1) ok] by (auto simp: Lease_new_def)
qed

lemma update_task_Ok:
  assumes "update_task t db = (db', Ok ())"
  shows "db_get_task k db' = (if k = t_id t
      then map_option (\<lambda>r. t\<lparr>t_workflow_id := t_workflow_id r, t_created_at := t_created_at r\<rparr>) (db_get_task k db)
      else db_get_task k db)"
    "db_leases db' = db_leases db"
proof -
  have e: "db' = db\<lparr>db_tasks := tbl_modify row_id (t_id t) (\<lambda>r. r\<lparr>r_task := t\<lparr>
      t_workflow_id := t_workflow_id (r_task r), t_created_at := t_created_at (r_task r)\<rparr>\<rparr>) (db_tasks db)\<rparr>"
    using assms by (auto simp: update_task_def split: if_splits)
  have g: "tbl_get row_id k (tbl_modify row_id (t_id t) (\<lambda>r. r\<lparr>r_task := t\<lparr>
      t_workflow_id := t_workflow_id (r_task r), t_created_at := t_created_at (r_task r)\<rparr>\<rparr>) rows) =
    (if k = t_id t then map_option (\<lambda>r. r\<lparr>r_task := t\<lparr>t_workflow_id := t_workflow_id (r_task r),
       t_created_at := t_created_at (r_task r)\<rparr>\<rparr>) (tbl_get row_id k rows) else tbl_get row_id k rows)" for rows
    by (rule tbl_get_overwrite) (simp flip: row_id_update(3))
  show "db_get_task k db' = (if k = t_id t
      then map_option (\<lambda>r. t\<lparr>t_workflow_id := t_workflow_id r, t_created_at := t_created_at r\<rparr>) (db_get_task k db)
      else db_get_task k db)"
    unfolding db_get_task_def e by (simp add: g option.map_comp o_def)
  show "db_leases db' = db_leases db" by (simp add: e)
qed

lemma enqueue_job_Ok:
  assumes "enqueue_job env w t a l db = (db', Ok j)" "db_inv db"
  shows "db_tasks db' = db_tasks db" "db_leases db' = db_leases db" "snd j = l_id l"
    "c_target (fst j) = CommandTarget.Agent (a_id a)" "db_inv db'"
proof -
  let ?c = "execute_command_for env w t a l db"
  obtain db1 r where 1: "enqueue_command ?c db = (db1, Ok ())" and 2: "claim_command_by_id (sd_now env) (c_id ?c) db1 = (db', Ok r)"
    and j: "j = (case r of Some c' \<Rightarrow> c' | None \<Rightarrow> ?c, l_id l)"
    using assms(1) by (auto simp: enqueue_job_def Let_def st_then_Ok)
  have d1: "db1 = db\<lparr>db_commands := db_commands db @ [?c]\<rparr>" and f: "\<not> tbl_has c_id (c_id ?c) (db_commands db)"
    using 1 by (auto simp: enqueue_command_def split: if_splits)
  have i1: "db_inv db1" using keepsD [OF enqueue_command_inv assms(2), of ?c] 1 by simp
  then show "db_inv db'" using keepsD [OF claim_command_by_id_inv, of db1 "sd_now env" "c_id ?c"] 2 by simp
  have g: "get_command (c_id ?c) db1 = Some ?c"
    using f by (simp add: d1 get_command_def tbl_get_append flip: tbl_get_None)
  have claim: "db_tasks db' = db_tasks db1 \<and> db_leases db' = db_leases db1 \<and>
      c_target (case r of Some c' \<Rightarrow> c' | None \<Rightarrow> ?c) = c_target ?c"
  proof (cases r)
    case None
    then show ?thesis using 2 by (auto simp: claim_command_by_id_def claim_row_def split: option.splits if_splits)
  next
    case (Some c')
    have "claim_row (sd_now env) (c_id ?c) db1 = (db', Ok (Some c'))" by (rule claim_by_id_Ok(1) [OF 2 [unfolded Some]])
    from claim_row_Ok [OF this] g show ?thesis using Some by (auto simp: dispatch_row_def)
  qed
  then show "db_tasks db' = db_tasks db" "db_leases db' = db_leases db" by (simp_all add: d1)
  show "snd j = l_id l" "c_target (fst j) = CommandTarget.Agent (a_id a)"
    using claim by (simp_all add: j execute_command_for_def Command_new_def)
qed

section \<open>Exclusive assignments\<close>

text \<open>A job holds its task: the command is addressed to the agent, the agent has the live
lease the job will release, and the task is assigned to the agent.\<close>

definition job_holds :: "SchedEnv \<Rightarrow> Db \<Rightarrow> job \<Rightarrow> ident \<Rightarrow> ident \<Rightarrow> bool" where
  "job_holds env db j i a =
    (c_target (fst j) = CommandTarget.Agent a \<and>
     (\<exists>l. get_lease_by_task i db = Some l \<and> l_id l = snd j \<and> l_agent_id l = a \<and> sd_now env < l_expires_at l) \<and>
     (\<exists>t. db_get_task i db = Some t \<and> t_state t = TaskState.Assigned \<and> t_assigned_agent_id t = Some a))"

lemma job_holds_frame:
  "job_holds env db j k a \<Longrightarrow> db_get_task k db' = db_get_task k db \<Longrightarrow>
     get_lease_by_task k db' = get_lease_by_task k db \<Longrightarrow> job_holds env db' j k a"
  by (simp add: job_holds_def)

lemma assigned_task_Ok:
  "t_state t = TaskState.Ready \<or> t_state t = TaskState.Backlog \<Longrightarrow>
     \<exists>t1. assigned_task env t = Ok t1 \<and> t_state t1 = TaskState.Assigned \<and> t_id t1 = t_id t"
  by (auto simp: assigned_task_def Task_transition_to_def TaskState_transition_to_def TaskState_can_transition_to_def)

lemma assign_effect:
  assumes inv: "db_inv db" and t: "db_get_task i db = Some t" "t_state t1 = TaskState.Assigned" "t_id t1 = t_id t"
    and acq: "acquire_for env t a db = (db1, Ok l)" and job: "dispatch_job env w t1 a l db1 = (db2, r)"
  shows "db_inv db2" "r = Ok j \<Longrightarrow> job_holds env db2 j i (a_id a)"
    "r = Ok j \<Longrightarrow> k \<noteq> i \<Longrightarrow> db_get_task k db2 = db_get_task k db \<and> get_lease_by_task k db2 = get_lease_by_task k db"
proof -
  have id: "t_id t = i" using db_get_task_id [OF t(1)] .
  let ?t = "t1\<lparr>t_assigned_agent_id := Some (a_id a)\<rparr>"
  note fr = acquire_for_frame [OF inv, where env = env and t = t and a = a, unfolded acq fst_conv]
  note got = acquire_for_Ok [OF inv acq, unfolded id]
  have i2: "keeps db_inv (enqueue_job env w q a l)" for q
    unfolding enqueue_job_def Let_def
    by (rule keepsI, rule keepsD [OF keeps_then [OF enqueue_command_inv]], rule keeps_then [OF claim_command_by_id_inv])
      (auto simp: keeps_def)
  have "keeps db_inv (dispatch_job env w t1 a l)"
    unfolding dispatch_job_def by (rule keeps_then [OF update_task_inv]) (rule i2)
  then show "db_inv db2" using keepsD [of db_inv "dispatch_job env w t1 a l" db1] fr(1) job by simp
  assume "r = Ok j"
  then obtain dbu where u: "update_task ?t db1 = (dbu, Ok ())" and e: "enqueue_job env w ?t a l dbu = (db2, Ok j)"
    using job by (auto simp: dispatch_job_def st_then_Ok)
  have iu: "db_inv dbu" using keepsD [OF update_task_inv, of db1 ?t] fr(1) u by simp
  note q = enqueue_job_Ok [OF e iu]
  have tasks: "db_get_task k db2 = db_get_task k dbu" for k by (rule db_get_task_cong) (simp add: q(1))
  have leases: "get_lease_by_task k db2 = get_lease_by_task k db1" for k
    using q(2) update_task_Ok(2) [OF u] by (simp add: get_lease_by_task_def)
  show "job_holds env db2 j i (a_id a)"
    using got q(3,4) t fr(2) id update_task_Ok(1) [OF u, of i]
    by (simp add: job_holds_def tasks leases lease_ttl_def)
  show "k \<noteq> i \<Longrightarrow> db_get_task k db2 = db_get_task k db \<and> get_lease_by_task k db2 = get_lease_by_task k db"
    using fr(2,3) update_task_Ok(1) [OF u, of k] id t(3) by (simp add: tasks leases)
qed

text \<open>The jobs collected by the loop hold distinct tasks and have distinct agents.\<close>

definition jobs_exclusive :: "SchedEnv \<Rightarrow> Db \<Rightarrow> job list \<Rightarrow> (ident \<times> ident) list \<Rightarrow> bool" where
  "jobs_exclusive env db jobs holders =
    (list_all2 (\<lambda>j (i, a). job_holds env db j i a) jobs holders \<and>
     distinct (map fst holders) \<and> distinct (map snd holders))"

lemma acquire_for_Err:
  assumes "acquire_for env t a db = (db1, Err e)"
  shows "db1 = db"
proof -
  obtain r where "acquire_lease (sd_now env)
      (Lease_new (fresh_id (map l_id (db_leases db))) (sd_now env) (t_id t) (a_id a) lease_ttl) db = (db1, r)"
    and "map_err Storage r = Err e" using assms by (auto simp: acquire_for_eq split: prod.splits)
  then show ?thesis using acquire_lease_Err by (cases r) auto
qed

text \<open>One round of the loop: it stops without agents, skips the task, or assigns it.\<close>

lemma schedule_round:
  assumes "schedule_tasks env w (i # ids) agents jobs db = (db', Ok jobs')"
  obtains (stop) "db' = db" "jobs' = jobs"
  | (skip) "schedule_tasks env w ids agents jobs db = (db', Ok jobs')"
  | (assign) t a db1 l t1 db2 j where "db_get_task i db = Some t" "a \<in> set agents"
      "acquire_for env t a db = (db1, Ok l)" "t_state t1 = TaskState.Assigned" "t_id t1 = t_id t"
      "dispatch_job env w t1 a l db1 = (db2, Ok j)"
      "schedule_tasks env w ids (filter (\<lambda>b. a_id b \<noteq> a_id a) agents) (jobs @ [j]) db2 = (db', Ok jobs')"
proof (cases "db_get_task i db")
  case None
  then show thesis using skip assms by (simp add: schedule_tasks.simps(2))
next
  case t: (Some t)
  show thesis
  proof (cases "(t_state t = TaskState.Ready \<or> t_state t = TaskState.Backlog) \<and> agents \<noteq> [] \<and> select_best_agent t agents \<noteq> None")
    case False
    then show thesis using assms t by (auto simp: schedule_tasks.simps(2) split: if_splits intro: skip stop)
  next
    case True
    then obtain a where a: "select_best_agent t agents = Some a" by blast
    obtain t1 where t1: "assigned_task env t = Ok t1" "t_state t1 = TaskState.Assigned" "t_id t1 = t_id t"
      using assigned_task_Ok True by blast
    have amem: "a \<in> set agents" using a unfolding select_best_agent_def by (rule select_Some(1))
    obtain db1 q where acq: "acquire_for env t a db = (db1, q)" by fastforce
    show thesis
    proof (cases q)
      case (Err e)
      then show thesis using assms t True a acq acquire_for_Err [OF acq [unfolded Err]]
        by (auto simp: schedule_tasks.simps(2) intro: skip)
    next
      case (Ok l)
      obtain db2 r where job: "dispatch_job env w t1 a l db1 = (db2, r)" by fastforce
      then show thesis using assms t True a acq Ok t1
        by (cases r) (auto simp: schedule_tasks.simps(2) Let_def intro: assign [OF t amem acq [unfolded Ok] t1(2,3)])
    qed
  qed
qed

lemma jobs_exclusive_extend:
  assumes "jobs_exclusive env db jobs holders" "job_holds env db2 j i a" "i \<notin> fst ` set holders" "a \<notin> snd ` set holders"
    "\<And>k. k \<noteq> i \<Longrightarrow> db_get_task k db2 = db_get_task k db \<and> get_lease_by_task k db2 = get_lease_by_task k db"
  shows "jobs_exclusive env db2 (jobs @ [j]) (holders @ [(i, a)])"
proof -
  have "list_all2 (\<lambda>j (i, a). job_holds env db2 j i a) jobs holders"
  proof (rule list.rel_mono_strong)
    show "list_all2 (\<lambda>j (i, a). job_holds env db j i a) jobs holders" using assms(1) by (simp add: jobs_exclusive_def)
    fix j' x assume x: "x \<in> set holders" "case x of (i, a) \<Rightarrow> job_holds env db j' i a"
    then have "fst x \<noteq> i" using assms(3) by auto
    from assms(5) [OF this] x(2) show "case x of (i, a) \<Rightarrow> job_holds env db2 j' i a"
      by (auto simp: split_beta intro: job_holds_frame)
  qed
  then show ?thesis using assms(1-4) by (auto simp: jobs_exclusive_def intro!: list_all2_appendI)
qed

lemma schedule_tasks_exclusive:
  assumes "schedule_tasks env w ids agents jobs db = (db', Ok jobs')" "db_inv db" "distinct ids"
    "jobs_exclusive env db jobs holders" "set ids \<inter> fst ` set holders = {}"
    "a_id ` set agents \<inter> snd ` set holders = {}"
  shows "\<exists>more. jobs_exclusive env db' jobs' (holders @ more) \<and> fst ` set more \<subseteq> set ids \<and>
    snd ` set more \<subseteq> a_id ` set agents \<and> db_inv db'"
  using assms
proof (induction ids arbitrary: agents jobs db holders)
  case Nil
  then show ?case by (intro exI [of _ "[]"]) simp
next
  case (Cons i ids)
  from Cons.prems(1) show ?case
  proof (cases rule: schedule_round)
    case stop
    then show ?thesis using Cons.prems(2,4) by (intro exI [of _ "[]"]) simp
  next
    case skip
    have "\<exists>more. jobs_exclusive env db' jobs' (holders @ more) \<and> fst ` set more \<subseteq> set ids \<and>
        snd ` set more \<subseteq> a_id ` set agents \<and> db_inv db'"
      by (rule Cons.IH [OF skip Cons.prems(2) _ Cons.prems(4)]) (use Cons.prems(3,5,6) in auto)
    then show ?thesis by auto
  next
    case (assign t a db1 l t1 db2 j)
    note ef = assign_effect [OF Cons.prems(2) assign(1,4,5,3,6)]
    let ?ag = "filter (\<lambda>b. a_id b \<noteq> a_id a) agents" and ?h = "holders @ [(i, a_id a)]"
    have ex: "jobs_exclusive env db2 (jobs @ [j]) ?h"
      by (rule jobs_exclusive_extend [OF Cons.prems(4) ef(2) [OF refl]])
        (use Cons.prems(5,6) assign(2) ef(3) [OF refl] in auto)
    have s: "distinct ids" "set ids \<inter> fst ` set ?h = {}" "a_id ` set ?ag \<inter> snd ` set ?h = {}"
      using Cons.prems(3,5,6) by auto
    obtain more where "jobs_exclusive env db' jobs' (?h @ more)" "fst ` set more \<subseteq> set ids"
      "snd ` set more \<subseteq> a_id ` set ?ag" "db_inv db'"
      using Cons.IH [OF assign(7) ef(1) s(1) ex s(2,3)] by blast
    then show ?thesis using assign(2) by (intro exI [of _ "(i, a_id a) # more"]) auto
  qed
qed

end
