(* ===== verification/Reconcile_Laws.thy ===== *)
theory Reconcile_Laws
  imports Task_Reconciler Scheduler
begin

text \<open>What a startup reconciliation leaves: no task of an active workflow runs without a
lease, no expired lease remains, and no command is in flight for a task that is not
running under a lease. The parents of the stored tasks exist along every history, so no
update of the pass can fail.\<close>

section \<open>Parents of stored tasks\<close>

definition parent_in :: "Task \<Rightarrow> Db \<Rightarrow> bool" where
  "parent_in t db = (case t_parent_id t of None \<Rightarrow> True | Some p \<Rightarrow> tbl_has row_id p (db_tasks db))"

definition parents_ok :: "Db \<Rightarrow> bool" where
  "parents_ok db = (\<forall>r \<in> set (db_tasks db). parent_in (r_task r) db)"

lemma parents_ok_tasks: "db_tasks db' = db_tasks db \<Longrightarrow> parents_ok db' = parents_ok db"
  by (simp add: parents_ok_def parent_in_def split: option.split)

lemma parents_ok_rows:
  assumes "parents_ok db" "map row_id (db_tasks db') = map row_id (db_tasks db)"
    "\<forall>r' \<in> set (db_tasks db'). parent_in (r_task r') db \<or> (\<exists>r \<in> set (db_tasks db). t_parent_id (r_task r) = t_parent_id (r_task r'))"
  shows "parents_ok db'"
proof -
  have "tbl_has row_id i (db_tasks db') = tbl_has row_id i (db_tasks db)" for i
    using assms(2) by (simp add: tbl_has_def flip: set_map)
  then have p: "parent_in t db' = parent_in t db" for t by (simp add: parent_in_def split: option.split)
  have "t_parent_id u = t_parent_id t \<Longrightarrow> parent_in u db = parent_in t db" for u t by (simp add: parent_in_def)
  then show ?thesis using assms(1,3) unfolding parents_ok_def p by metis
qed

lemma parents_insert_task: "keeps parents_ok (insert_task_row t)"
proof (rule keepsI)
  fix db assume ok: "parents_ok db"
  have "parent_in u db \<Longrightarrow> parent_in u (db\<lparr>db_tasks := db_tasks db @ [r]\<rparr>)" for u r
    by (auto simp: parent_in_def tbl_has_def split: option.splits)
  with ok show "parents_ok (fst (insert_task_row t db))"
    by (auto simp: insert_task_row_def parents_ok_def)
      (auto simp: parent_in_def tbl_has_def split: option.splits simp flip: row_id_update(3))
qed

lemma parents_update_task: "keeps parents_ok (update_task t)"
proof (rule keepsI)
  fix db assume ok: "parents_ok db"
  let ?f = "\<lambda>r. r\<lparr>r_task := t\<lparr>t_workflow_id := t_workflow_id (r_task r), t_created_at := t_created_at (r_task r)\<rparr>\<rparr>"
  have k: "map row_id (tbl_modify row_id (t_id t) ?f (db_tasks db)) = map row_id (db_tasks db)"
    by (auto simp: tbl_modify_def simp flip: row_id_update(3))
  have "parents_ok (db\<lparr>db_tasks := tbl_modify row_id (t_id t) ?f (db_tasks db)\<rparr>)" if "parent_in t db"
    by (rule parents_ok_rows [OF ok]) (use k that in \<open>auto simp: tbl_modify_def parent_in_def\<close>)
  then show "parents_ok (fst (update_task t db))"
    using ok by (auto simp: update_task_def parent_in_def split: option.splits)
qed

lemma parents_ok_map: "map r_task (db_tasks db') = map r_task (db_tasks db) \<Longrightarrow> parents_ok db \<Longrightarrow> parents_ok db'"
proof -
  assume m: "map r_task (db_tasks db') = map r_task (db_tasks db)" and ok: "parents_ok db"
  have "map row_id (db_tasks db') = map t_id (map r_task (db_tasks db'))" by simp
  also have "\<dots> = map row_id (db_tasks db)" unfolding m by simp
  finally have k: "map row_id (db_tasks db') = map row_id (db_tasks db)" .
  show ?thesis
  proof (rule parents_ok_rows [OF ok k], intro ballI disjI1)
    fix r' assume "r' \<in> set (db_tasks db')"
    then have "r_task r' \<in> r_task ` set (db_tasks db)" using m by (metis imageI list.set_map)
    then show "parent_in (r_task r') db" using ok by (auto simp: parents_ok_def)
  qed
qed

lemma parents_discard: "keeps parents_ok (discard_parent now p)"
proof (rule keepsI)
  fix db assume ok: "parents_ok db"
  show "parents_ok (fst (discard_parent now p db))"
    by (rule parents_ok_rows [OF ok]) (auto simp: discard_parent_def tbl_modify_def)
qed

lemma parents_deps: "keeps parents_ok (db_add_dependency i j)" "keeps parents_ok (db_remove_dependency i j)"
    "keeps parents_ok (insert_deps es)"
proof -
  show 1: "keeps parents_ok (db_add_dependency i j)" for i j
    by (rule keepsI) (auto simp: db_add_dependency_def intro: parents_ok_tasks [THEN iffD2, rotated])
  show "keeps parents_ok (db_remove_dependency i j)"
    by (rule keepsI) (auto simp: db_remove_dependency_def intro: parents_ok_tasks [THEN iffD2, rotated])
  show "keeps parents_ok (insert_deps es)"
    unfolding insert_deps_def by (rule keeps_for_each) (auto simp: 1)
qed

lemma parents_decompose: "keeps parents_ok (decompose_task_transactional now p cs cds ts)"
proof (rule keepsI)
  fix db assume ok: "parents_ok db"
  have "keeps parents_ok (rewire_downstream p ts d)" for d
    unfolding rewire_downstream_def by (intro keeps_then parents_deps)
  then have "keeps parents_ok (transaction (st_then (for_each (\<lambda>c. insert_task_row (c\<lparr>t_parent_id := Some p\<rparr>)) cs)
      (\<lambda>_. st_then (insert_deps cds) (\<lambda>_. st_then (insert_deps es)
      (\<lambda>_. st_then (for_each (rewire_downstream p ts) ds) (\<lambda>_. discard_parent now p))))))" for es ds
    by (intro transaction_inv keeps_then keeps_for_each parents_insert_task parents_deps parents_discard)
  from keepsD [OF this ok] show "parents_ok (fst (decompose_task_transactional now p cs cds ts db))"
    using ok by (simp add: decompose_task_transactional_def Let_def)
qed

text \<open>Every other method leaves the task table as it is.\<close>

lemma tasks_untouched:
  "db_tasks (fst (create_workflow w db)) = db_tasks db" "db_tasks (fst (update_workflow w db)) = db_tasks db"
  "db_tasks (fst (create_agent a db)) = db_tasks db" "db_tasks (fst (update_agent a db)) = db_tasks db"
  "db_tasks (fst (create_session s db)) = db_tasks db" "db_tasks (fst (update_session s db)) = db_tasks db"
  "db_tasks (fst (renew_lease i t0 db)) = db_tasks db" "db_tasks (fst (release_lease i db)) = db_tasks db"
  "db_tasks (fst (reclaim_expired_leases now db)) = db_tasks db" "db_tasks (fst (create_execution x db)) = db_tasks db"
  "db_tasks (fst (update_execution x db)) = db_tasks db" "db_tasks (fst (enqueue_command c db)) = db_tasks db"
  "db_tasks (fst (update_command c db)) = db_tasks db" "db_tasks (fst (append_event e db)) = db_tasks db"
  "db_tasks (fst (create_approval ap db)) = db_tasks db" "db_tasks (fst (update_approval ap db)) = db_tasks db"
  "db_tasks (fst (prune_historical_records now db)) = db_tasks db"
  by (simp_all add: create_workflow_def update_workflow_def create_agent_def update_agent_def create_session_def
      update_session_def renew_lease_def release_lease_def reclaim_expired_leases_def create_execution_def
      update_execution_def enqueue_command_def update_command_def append_event_def create_approval_def
      update_approval_def prune_historical_records_def)

lemma claims_tasks:
  "db_tasks (fst (claim_next_queued_command now db)) = db_tasks db"
  "db_tasks (fst (claim_command_by_id now i db)) = db_tasks db"
  by (simp_all add: claim_next_queued_command_def claim_command_by_id_def claim_row_def split: option.split list.split)

lemma mission_tables_tasks:
  "db_tasks (fst (create_workspace ws db)) = db_tasks db" "db_tasks (fst (update_workspace ws db)) = db_tasks db"
  "db_tasks (fst (delete_workspace i db)) = db_tasks db" "db_tasks (fst (create_mission m db)) = db_tasks db"
  "db_tasks (fst (update_mission m db)) = db_tasks db" "db_tasks (fst (store_checkpoint k db)) = db_tasks db"
  "db_tasks (fst (create_cycle c db)) = db_tasks db" "db_tasks (fst (update_cycle c db)) = db_tasks db"
  by (simp_all add: mission_table_defs)

lemma record_tables_tasks:
  "db_tasks (fst (create_verification v db)) = db_tasks db" "db_tasks (fst (send_message msg db)) = db_tasks db"
  "db_tasks (fst (save_plan_record pl db)) = db_tasks db" "db_tasks (fst (save_memory mem db)) = db_tasks db"
  "db_tasks (fst (update_memory mem db)) = db_tasks db" "db_tasks (fst (save_recovery_record rv db)) = db_tasks db"
  "db_tasks (fst (update_recovery_record rv db)) = db_tasks db"
  by (simp_all add: record_table_defs)

lemma increment_tasks: "map r_task (db_tasks (fst (increment_lease_generation i db))) = map r_task (db_tasks db)"
  by (auto simp: increment_lease_generation_def tbl_modify_def split: option.split)

lemma db_step_parents: "db_step db db' \<Longrightarrow> parents_ok db \<Longrightarrow> parents_ok db'"
  by (erule db_stepE)
    (simp_all add: parents_ok_tasks [OF tasks_untouched(1)] parents_ok_tasks [OF tasks_untouched(2)]
      parents_ok_tasks [OF tasks_untouched(3)] parents_ok_tasks [OF tasks_untouched(4)]
      parents_ok_tasks [OF tasks_untouched(5)] parents_ok_tasks [OF tasks_untouched(6)]
      parents_ok_tasks [OF tasks_untouched(7)] parents_ok_tasks [OF tasks_untouched(8)]
      parents_ok_tasks [OF tasks_untouched(9)] parents_ok_tasks [OF tasks_untouched(10)]
      parents_ok_tasks [OF tasks_untouched(11)] parents_ok_tasks [OF tasks_untouched(12)]
      parents_ok_tasks [OF tasks_untouched(13)] parents_ok_tasks [OF tasks_untouched(14)]
      parents_ok_tasks [OF tasks_untouched(15)] parents_ok_tasks [OF tasks_untouched(16)]
      parents_ok_tasks [OF tasks_untouched(17)] parents_ok_tasks [OF claims_tasks(1)]
      parents_ok_tasks [OF claims_tasks(2)] parents_ok_tasks [OF mission_tables_tasks(1)]
      parents_ok_tasks [OF mission_tables_tasks(2)] parents_ok_tasks [OF mission_tables_tasks(3)]
      parents_ok_tasks [OF mission_tables_tasks(4)] parents_ok_tasks [OF mission_tables_tasks(5)]
      parents_ok_tasks [OF mission_tables_tasks(6)] parents_ok_tasks [OF mission_tables_tasks(7)]
      parents_ok_tasks [OF mission_tables_tasks(8)] parents_ok_tasks [OF record_tables_tasks(1)]
      parents_ok_tasks [OF record_tables_tasks(2)] parents_ok_tasks [OF record_tables_tasks(3)]
      parents_ok_tasks [OF record_tables_tasks(4)] parents_ok_tasks [OF record_tables_tasks(5)]
      parents_ok_tasks [OF record_tables_tasks(6)] parents_ok_tasks [OF record_tables_tasks(7)] create_task_def keepsD [OF parents_insert_task]
      keepsD [OF parents_update_task] keepsD [OF parents_deps(1)] keepsD [OF parents_deps(2)]
      keepsD [OF parents_decompose] parents_ok_map [OF acquire_lease_tasks] parents_ok_map [OF increment_tasks])

lemma reachable_parents: "reachable_db db \<Longrightarrow> parents_ok db"
  unfolding reachable_db_def
proof (induction rule: rtranclp_induct)
  case base
  show ?case by (simp add: parents_ok_def db_empty_def)
next
  case (step y z)
  then show ?case using db_step_parents by blast
qed

section \<open>Requeueing\<close>

text \<open>The tables a pass over the tasks does not touch.\<close>

definition same_frame :: "Db \<Rightarrow> Db \<Rightarrow> bool" where
  "same_frame db db' =
    (db_leases db' = db_leases db \<and> db_workflows db' = db_workflows db \<and> db_commands db' = db_commands db)"

lemma same_frame_trans: "same_frame a b \<Longrightarrow> same_frame b c \<Longrightarrow> same_frame a c"
  by (simp add: same_frame_def)

lemma emit_event_same:
  "same_frame db (emit_event now ty agg et db)" "db_tasks (emit_event now ty agg et db) = db_tasks db"
  by (simp_all add: emit_event_def append_event_def same_frame_def)

lemma emit_event_inv: "db_inv db \<Longrightarrow> db_inv (emit_event now ty agg et db)"
  unfolding emit_event_def by (rule keepsD [OF append_event_inv])

lemma fail_execution_frame:
  "same_frame db (fail_execution now msg x db)" "db_tasks (fail_execution now msg x db) = db_tasks db"
  using emit_event_same by (simp_all add: fail_execution_def same_frame_def update_execution_def)

lemma fail_execution_inv: "db_inv db \<Longrightarrow> db_inv (fail_execution now msg x db)"
  unfolding fail_execution_def by (intro emit_event_inv keepsD [OF update_execution_inv])

lemma fail_executions_frame:
  "same_frame db (fold (fail_execution now msg) xs db) \<and> db_tasks (fold (fail_execution now msg) xs db) = db_tasks db \<and>
   (db_inv db \<longrightarrow> db_inv (fold (fail_execution now msg) xs db))"
proof (induction xs arbitrary: db)
  case (Cons x xs)
  then show ?case using fail_execution_frame [where db = db and now = now and msg = msg and x = x] fail_execution_inv [where db = db and now = now and msg = msg and x = x]
    by (auto simp: same_frame_def)
qed (simp add: same_frame_def)

lemma requeue_total:
  assumes inv: "db_inv db" "parents_ok db" and t: "db_get_task (t_id t) db = Some t0" "parent_in t db"
  obtains db' rep' where "requeue_task now msg et t rep db = (db', Ok rep')" "db_inv db'" "parents_ok db'"
    "same_frame db db'" "\<And>k. k \<noteq> t_id t \<Longrightarrow> db_get_task k db' = db_get_task k db"
    "\<exists>t'. db_get_task (t_id t) db' = Some t' \<and> t_state t' = t_state t \<and> t_workflow_id t' = t_workflow_id t0"
proof -
  have "tbl_has row_id (t_id t) (db_tasks db)"
    using t(1) tbl_get_None [of row_id "t_id t" "db_tasks db"] by (auto simp: db_get_task_def)
  then have ok: "update_task t db = (fst (update_task t db), Ok ())"
    using t(2) by (cases "t_parent_id t") (simp_all add: update_task_def parent_in_def)
  let ?u = "fst (update_task t db)"
  have u: "same_frame db ?u" using ok by (auto simp: update_task_def same_frame_def split: if_splits)
  let ?v = "emit_event now ''task'' (t_id t) et (fold (fail_execution now msg) (running_executions (t_id t) ?u) ?u)"
  note g = update_task_Ok(1) [OF ok]
  have "fst (requeue_task now msg et t rep db) = ?v \<and> is_ok (snd (requeue_task now msg et t rep db))"
    unfolding requeue_task_def st_then.simps by (subst ok, subst (2) ok) (simp add: Let_def)
  then obtain rep' where r: "requeue_task now msg et t rep db = (?v, Ok rep')"
    by (cases "requeue_task now msg et t rep db"; cases "snd (requeue_task now msg et t rep db)") auto
  have "db_inv ?u" using keepsD [OF update_task_inv inv(1)] .
  then have 1: "db_inv ?v" using emit_event_inv fail_executions_frame by blast
  have tasks: "db_tasks ?v = db_tasks ?u" using emit_event_same(2) fail_executions_frame by metis
  have "parents_ok ?u" using keepsD [OF parents_update_task inv(2)] .
  then have 2: "parents_ok ?v" by (simp only: parents_ok_tasks [OF tasks])
  have 3: "same_frame db ?v"
    using same_frame_trans [OF same_frame_trans [OF u] emit_event_same(1)] fail_executions_frame by blast
  have get: "db_get_task k ?v = db_get_task k ?u" for k by (rule db_get_task_cong) (simp add: tasks)
  show thesis
    by (rule that [OF r 1 2 3]) (use g t(1) in \<open>auto simp: get\<close>)
qed

section \<open>The passes over the tasks\<close>

text \<open>A pass changes a task only when it has no lease, and then makes it ready.\<close>

definition task_from :: "ident \<Rightarrow> Db \<Rightarrow> Db \<Rightarrow> bool" where
  "task_from i db0 db =
    (db_get_task i db = db_get_task i db0 \<or>
     get_lease_by_task i db0 = None \<and> (\<exists>t t0. db_get_task i db = Some t \<and> t_state t = TaskState.Ready \<and>
       db_get_task i db0 = Some t0 \<and> t_workflow_id t = t_workflow_id t0))"

definition requeued_from :: "Db \<Rightarrow> Db \<Rightarrow> bool" where
  "requeued_from db0 db = (db_inv db \<and> parents_ok db \<and> same_frame db0 db \<and> (\<forall>i. task_from i db0 db))"

definition settled :: "ident \<Rightarrow> Db \<Rightarrow> bool" where
  "settled i db = (\<forall>t. db_get_task i db = Some t \<and> in_progress t \<longrightarrow> get_lease_by_task i db \<noteq> None)"

lemma requeued_from_refl: "db_inv db \<Longrightarrow> parents_ok db \<Longrightarrow> requeued_from db db"
  by (simp add: requeued_from_def same_frame_def task_from_def)

lemma same_frame_lease: "same_frame db db' \<Longrightarrow> get_lease_by_task i db' = get_lease_by_task i db"
  by (simp add: same_frame_def get_lease_by_task_def)

lemma task_from_trans:
  assumes f: "same_frame a b" and 1: "task_from i a b" and 2: "task_from i b c"
  shows "task_from i a c"
proof (cases "db_get_task i b = db_get_task i a")
  case True
  then show ?thesis using 2 same_frame_lease [OF f, of i] by (simp add: task_from_def)
next
  case False
  then obtain t t0 where l: "get_lease_by_task i a = None" and t: "db_get_task i b = Some t" "t_state t = TaskState.Ready"
    "db_get_task i a = Some t0" "t_workflow_id t = t_workflow_id t0" using 1 by (auto simp: task_from_def)
  have "\<exists>t'. db_get_task i c = Some t' \<and> t_state t' = TaskState.Ready \<and> t_workflow_id t' = t_workflow_id t"
    using 2 t by (auto simp: task_from_def)
  then show ?thesis using l t by (auto simp: task_from_def)
qed

lemma requeued_from_trans: "requeued_from a b \<Longrightarrow> requeued_from b c \<Longrightarrow> requeued_from a c"
  unfolding requeued_from_def by (metis same_frame_trans task_from_trans)

lemma settled_requeued:
  assumes "requeued_from db0 db" "settled i db0"
  shows "settled i db"
proof -
  have "task_from i db0 db" "same_frame db0 db" using assms(1) by (simp_all add: requeued_from_def)
  then show ?thesis using assms(2) by (auto simp: task_from_def settled_def in_progress_def same_frame_lease)
qed

text \<open>Requeueing a task that had no lease.\<close>

lemma requeue_step:
  assumes r: "requeued_from db0 db" and t: "db_get_task (t_id t) db = Some t0" "parent_in t db" "t_state t = TaskState.Ready"
    and l: "get_lease_by_task (t_id t) db = None"
  shows "\<exists>db' rep'. requeue_task now msg et t rep db = (db', Ok rep') \<and> requeued_from db db' \<and> settled (t_id t) db'"
proof -
  have inv: "db_inv db" "parents_ok db" using r by (auto simp: requeued_from_def)
  obtain db' rep' where q: "requeue_task now msg et t rep db = (db', Ok rep')" "db_inv db'" "parents_ok db'"
      "same_frame db db'" "\<And>k. k \<noteq> t_id t \<Longrightarrow> db_get_task k db' = db_get_task k db"
      "\<exists>t'. db_get_task (t_id t) db' = Some t' \<and> t_state t' = t_state t \<and> t_workflow_id t' = t_workflow_id t0"
    using requeue_total [OF inv t(1,2), of now msg et rep] by blast
  have "task_from k db db'" for k
    using q(5) [of k] q(6) t(1,3) l by (cases "k = t_id t") (auto simp: task_from_def)
  then have "requeued_from db db'" using q(2-4) by (simp add: requeued_from_def)
  moreover have "settled (t_id t) db'" using q(6) t(3) by (auto simp: settled_def in_progress_def)
  ultimately show ?thesis using q(1) by blast
qed

lemma unassign_in_progress:
  "in_progress t \<Longrightarrow> \<exists>t'. Task_unassign now t = Ok t' \<and> t_id t' = t_id t \<and> t_state t' = TaskState.Ready \<and>
     t_parent_id t' = t_parent_id t"
  by (auto simp: in_progress_def Task_unassign_eq_Ok TaskState_can_transition_to_def)

lemma stored_parent: "parents_ok db \<Longrightarrow> db_get_task i db = Some t \<Longrightarrow> parent_in t db"
  using tbl_get_key [of row_id i "db_tasks db"] by (auto simp: parents_ok_def db_get_task_def)

text \<open>A reclaimed task has lost its lease; the pass settles it.\<close>

lemma reconcile_task_step:
  assumes "get_lease_by_task i db0 = None" and r: "requeued_from db0 s"
  shows "\<exists>s' a. reconcile_task now i rep s = (s', Ok a) \<and> requeued_from s s' \<and> settled i s'"
proof -
  have l: "get_lease_by_task i s = None" using r assms same_frame_lease [of db0 s i] by (simp add: requeued_from_def)
  have refl: "requeued_from s s" using r by (intro requeued_from_refl) (simp_all add: requeued_from_def)
  show ?thesis
  proof (cases "\<exists>t. db_get_task i s = Some t \<and> in_progress t")
    case True
    then obtain t where t: "db_get_task i s = Some t" "in_progress t" by blast
    obtain t' where u: "Task_unassign now t = Ok t'" "t_id t' = i" "t_state t' = TaskState.Ready" "t_parent_id t' = t_parent_id t"
      using unassign_in_progress [OF t(2)] db_get_task_id [OF t(1)] by metis
    have "parent_in t s" using stored_parent [OF _ t(1)] r by (simp add: requeued_from_def)
    then have p: "parent_in t' s" using u(4) by (simp add: parent_in_def)
    have "\<exists>db' rep'. requeue_task now msg et t' rp s = (db', Ok rep') \<and> requeued_from s db' \<and> settled (t_id t') db'" for msg et rp
      by (rule requeue_step [OF r _ p u(3)]) (use t(1) u(2) l in simp_all)
    moreover have "\<exists>msg et rp. reconcile_task now i rep s = requeue_task now msg et t' rp s"
      using t u(1) by (auto simp: reconcile_task_def Let_def)
    ultimately obtain db' rep' where "reconcile_task now i rep s = (db', Ok rep')" "requeued_from s db'" "settled i db'"
      using u(2) by metis
    then show ?thesis by blast
  next
    case False
    then show ?thesis using refl
      by (auto simp: reconcile_task_def Let_def settled_def split: option.split)
  qed
qed

lemma startup_task_step:
  assumes t: "db_get_task (t_id t) db0 = Some t" and ok: "parents_ok db0" and r: "requeued_from db0 s"
  shows "\<exists>s' a. startup_task now t acc s = (s', Ok a) \<and> requeued_from s s' \<and> settled (t_id t) s'"
proof -
  obtain rep b where acc: "acc = (rep, b)" by fastforce
  have f: "task_from (t_id t) db0 s" "get_lease_by_task (t_id t) s = get_lease_by_task (t_id t) db0"
    using r same_frame_lease by (auto simp: requeued_from_def)
  have refl: "requeued_from s s" using r by (intro requeued_from_refl) (simp_all add: requeued_from_def)
  show ?thesis
  proof (cases "in_progress t \<and> get_lease_by_task (t_id t) s = None")
    case True
    then obtain t' where u: "Task_unassign now t = Ok t'" "t_id t' = t_id t" "t_state t' = TaskState.Ready"
        "t_parent_id t' = t_parent_id t" using unassign_in_progress by blast
    obtain t1 where t1: "db_get_task (t_id t') s = Some t1" using f(1) t u(2) by (auto simp: task_from_def)
    have keys: "tbl_has row_id k (db_tasks s) = tbl_has row_id k (db_tasks db0)" for k
    proof -
      have "task_from k db0 s" using r by (simp add: requeued_from_def)
      then have "db_get_task k s = None \<longleftrightarrow> db_get_task k db0 = None" by (auto simp: task_from_def)
      then show ?thesis by (simp add: db_get_task_def tbl_get_None)
    qed
    have "parent_in t db0" by (rule stored_parent [OF ok t])
    then have p: "parent_in t' s" using u(4) keys by (cases "t_parent_id t") (simp_all add: parent_in_def)
    have "\<exists>db' rep'. requeue_task now msg et t' rp s = (db', Ok rep') \<and> requeued_from s db' \<and> settled (t_id t') db'" for msg et rp
      by (rule requeue_step [OF r t1 p u(3)]) (use True u(2) in simp)
    moreover have "\<exists>msg et g. startup_task now t acc s = st_then (requeue_task now msg et t' rep) (\<lambda>r s. (s, Ok (r, g))) s"
      using True u(1) acc by (auto simp: startup_task_def)
    ultimately obtain msg et g db' rep' where e: "startup_task now t acc s = st_then (requeue_task now msg et t' rep) (\<lambda>r s. (s, Ok (r, g))) s"
      and q: "requeue_task now msg et t' rep s = (db', Ok rep')" "requeued_from s db'" "settled (t_id t') db'" by meson
    have "startup_task now t acc s = (db', Ok (rep', g))" unfolding e by (simp add: st_then.simps q(1))
    with q(2,3) u(2) have "startup_task now t acc s = (db', Ok (rep', g)) \<and> requeued_from s db' \<and> settled (t_id t) db'" by simp
    then show ?thesis by blast
  next
    case False
    then have "settled (t_id t) s" using f t by (auto simp: settled_def task_from_def in_progress_def)
    moreover have "\<exists>a. startup_task now t acc s = (s, Ok a)" using False by (auto simp: startup_task_def acc)
    ultimately show ?thesis using refl by blast
  qed
qed

text \<open>The loops over tasks and workflows.\<close>

lemma total_fold_rel:
  assumes trans: "transp R" and step: "\<And>x a s. x \<in> set xs \<Longrightarrow> R s0 s \<Longrightarrow> \<exists>s' b. f x a s = (s', Ok b) \<and> R s s' \<and> Q x s'"
    and stable: "\<And>x s s'. R s s' \<Longrightarrow> Q x s \<Longrightarrow> Q x s'"
  shows "total (R s0) (fold_op f xs a) (\<lambda>s. R s0 s \<and> (\<forall>x \<in> set xs. Q x s))"
proof (rule total_fold_op)
  fix x a assume x: "x \<in> set xs"
  show "total (R s0) (f x a) (\<lambda>s. R s0 s \<and> Q x s)"
  proof (rule totalI)
    fix s assume r: "R s0 s"
    obtain s' b where "f x a s = (s', Ok b)" "R s s'" "Q x s'" using step [OF x r] by blast
    then show "(R s0 (fst (f x a s)) \<and> Q x (fst (f x a s))) \<and> is_ok (snd (f x a s))"
      using transpD [OF trans r] by simp
  qed
  fix y s assume r: "R s0 s" and q: "Q y s"
  obtain s' b where "f x a s = (s', Ok b)" "R s s'" using step [OF x r] by blast
  then show "Q y (fst (f x a s))" using stable q by simp
qed

lemma transp_requeued: "transp requeued_from"
  by (rule transpI) (rule requeued_from_trans)

lemma task_from_row:
  "task_from i db0 db \<Longrightarrow> db_get_task i db = Some t \<Longrightarrow>
     \<exists>t0. db_get_task i db0 = Some t0 \<and> t_workflow_id t0 = t_workflow_id t"
  by (cases "db_get_task i db0") (auto simp: task_from_def)

definition wf_settled :: "ident \<Rightarrow> Db \<Rightarrow> bool" where
  "wf_settled w db = (\<forall>i t. db_get_task i db = Some t \<and> t_workflow_id t = w \<longrightarrow> settled i db)"

lemma wf_settled_requeued:
  assumes r: "requeued_from s s'" and w: "wf_settled w s"
  shows "wf_settled w s'"
  unfolding wf_settled_def
proof (intro allI impI)
  fix i t assume t: "db_get_task i s' = Some t \<and> t_workflow_id t = w"
  have "task_from i s s'" using r by (simp add: requeued_from_def)
  then obtain t0 where "db_get_task i s = Some t0" "t_workflow_id t0 = w" using task_from_row t by blast
  then have "settled i s" using w by (auto simp: wf_settled_def)
  then show "settled i s'" by (rule settled_requeued [OF r])
qed

lemma listed_tasks:
  assumes "db_inv db"
  shows "t \<in> set (list_tasks_by_workflow w db) \<longleftrightarrow> db_get_task (t_id t) db = Some t \<and> t_workflow_id t = w"
proof -
  have d: "distinct (map row_id (db_tasks db))" using assms by (simp add: db_inv_def lease_integrity_def)
  have "db_get_task (t_id t) db = Some t \<longleftrightarrow> (\<exists>r \<in> set (db_tasks db). r_task r = t)"
    unfolding db_get_task_def by (auto simp: tbl_get_unique [OF d] simp flip: row_id_update(3))
  then show ?thesis by (auto simp: list_tasks_by_workflow_def)
qed

lemma startup_workflow_step:
  assumes r: "requeued_from db0 s"
  shows "\<exists>s' a. startup_workflow now w rep s = (s', Ok a) \<and> requeued_from s s' \<and> wf_settled (w_id w) s'"
proof -
  have inv: "db_inv s" "parents_ok s" using r by (simp_all add: requeued_from_def)
  let ?ts = "list_tasks_by_workflow (w_id w) s"
  have "total (requeued_from s) (fold_op (startup_task now) ?ts (rep, False))
      (\<lambda>s'. requeued_from s s' \<and> (\<forall>t \<in> set ?ts. settled (t_id t) s'))"
    by (rule total_fold_rel [OF transp_requeued startup_task_step]) (use inv listed_tasks settled_requeued in auto)
  from totalD [OF this requeued_from_refl [OF inv]] obtain s' rb where
    f: "fold_op (startup_task now) ?ts (rep, False) s = (s', Ok rb)" "requeued_from s s'"
      "\<forall>t \<in> set ?ts. settled (t_id t) s'" by blast
  have "wf_settled (w_id w) s'"
    unfolding wf_settled_def
  proof (intro allI impI)
    fix i t assume t: "db_get_task i s' = Some t \<and> t_workflow_id t = w_id w"
    have "task_from i s s'" using f(2) by (simp add: requeued_from_def)
    then obtain t0 where t0: "db_get_task i s = Some t0" "t_workflow_id t0 = w_id w" using task_from_row t by metis
    then have "t_id t0 = i" "t0 \<in> set ?ts" using db_get_task_id [OF t0(1)] listed_tasks [OF inv(1), of t0] by auto
    then show "settled i s'" using f(3) by auto
  qed
  moreover have "\<exists>a. startup_workflow now w rep s = (s', Ok a)"
    by (simp add: startup_workflow_def st_then.simps f(1) split: prod.split)
  ultimately show ?thesis using f(2) by blast
qed

section \<open>The pass over the commands\<close>

definition in_flight :: "Command \<Rightarrow> bool" where
  "in_flight c = (c_state c = CommandState.Dispatched \<or> c_state c = CommandState.Delivered)"

definition command_owned :: "Db \<Rightarrow> Command \<Rightarrow> bool" where
  "command_owned db c = (in_flight c \<longrightarrow> (\<forall>i. command_task c = Some i \<longrightarrow> \<not> task_abandoned i db))"

definition commands_from :: "Db \<Rightarrow> Db \<Rightarrow> bool" where
  "commands_from db0 db =
    (db_inv db \<and> db_tasks db = db_tasks db0 \<and> db_leases db = db_leases db0 \<and> db_workflows db = db_workflows db0 \<and>
     (\<forall>c \<in> set (db_commands db). in_flight c \<longrightarrow> c \<in> set (db_commands db0)))"

lemma commands_from_abandoned: "commands_from db0 db \<Longrightarrow> task_abandoned i db = task_abandoned i db0"
  by (simp add: commands_from_def task_abandoned_def db_get_task_def get_lease_by_task_def split: option.split)

lemma transp_commands: "transp commands_from"
  by (rule transpI) (auto simp: commands_from_def)

lemma as_str_inj: "CommandState_as_str s = CommandState_as_str t \<longleftrightarrow> s = t"
  by (cases s; cases t) simp_all

lemma in_flight_listed: "c \<in> set (commands_in_flight db) \<longleftrightarrow> c \<in> set (db_commands db) \<and> in_flight c"
  unfolding commands_in_flight_def list_commands_by_state_def in_flight_def as_str_inj by auto

lemma failed_not_in_flight: "\<not> in_flight (Command_mark_failed now c)"
  by (simp add: Command_mark_failed_def in_flight_def)

definition id_owned :: "Command \<Rightarrow> Db \<Rightarrow> bool" where
  "id_owned c db = (\<forall>d \<in> set (db_commands db). c_id d = c_id c \<longrightarrow> command_owned db d)"

lemma id_owned_stable:
  assumes r: "commands_from s s'" and o: "id_owned c s"
  shows "id_owned c s'"
  using o r commands_from_abandoned [OF r] unfolding id_owned_def command_owned_def commands_from_def by blast

lemma reconcile_command_step:
  assumes c: "c \<in> set (commands_in_flight db0)" and inv0: "db_inv db0" and r: "commands_from db0 s"
  shows "\<exists>s' a. reconcile_command now c rep s = (s', Ok a) \<and> commands_from s s' \<and> id_owned c s'"
proof (cases "\<exists>i. command_task c = Some i \<and> task_abandoned i s")
  case True
  let ?c = "Command_mark_failed now c"
  let ?u = "fst (update_command ?c s)" and ?s' = "emit_event now ''command'' (c_id c) ''command.orphaned_reconciled'' (fst (update_command ?c s))"
  have u: "db_commands ?u = tbl_modify c_id (c_id c) (\<lambda>q. q\<lparr>c_state := c_state ?c, c_attempts := c_attempts ?c,
      c_dispatched_at := c_dispatched_at ?c, c_completed_at := c_completed_at ?c\<rparr>) (db_commands s)"
    by (simp add: update_command_def Command_mark_failed_def)
  have "db_inv s" using r by (simp add: commands_from_def)
  then have inv: "db_inv ?s'" by (intro emit_event_inv keepsD [OF update_command_inv])
  have flight: "d \<in> set (db_commands s) \<and> c_id d \<noteq> c_id c" if "d \<in> set (db_commands ?u)" "in_flight d" for d
    using that failed_not_in_flight [of now c] unfolding u by (auto simp: tbl_modify_def in_flight_def split: if_splits)
  have "db_tasks ?u = db_tasks s" "db_leases ?u = db_leases s" "db_workflows ?u = db_workflows s"
    by (simp_all add: update_command_def)
  then have "commands_from s ?s'"
    using inv flight emit_event_same [where db = ?u]
    by (auto simp: commands_from_def same_frame_def)
  moreover have "id_owned c ?s'"
    using flight emit_event_same(1) [where db = ?u]
    by (auto simp: id_owned_def command_owned_def same_frame_def)
  moreover have "\<exists>a. reconcile_command now c rep s = (?s', Ok a)"
    using True by (auto simp: reconcile_command_def st_then.simps update_command_def)
  ultimately show ?thesis by blast
next
  case False
  have d: "distinct (map c_id (db_commands db0))" using inv0 by (simp add: db_inv_def command_integrity_def)
  have "d = c" if "d \<in> set (db_commands s)" "c_id d = c_id c" "in_flight d" for d
  proof -
    have "d \<in> set (db_commands db0)" using r that by (simp add: commands_from_def)
    moreover have "c \<in> set (db_commands db0)" using c by (simp add: in_flight_listed)
    ultimately show ?thesis using d that(2) by (metis distinct_map inj_onD)
  qed
  then have "id_owned c s" using False by (auto simp: id_owned_def command_owned_def)
  moreover have "commands_from s s" using r by (simp add: commands_from_def)
  moreover have "\<exists>a. reconcile_command now c rep s = (s, Ok a)"
    using False by (auto simp: reconcile_command_def split: option.split)
  ultimately show ?thesis by blast
qed

lemma reconcile_commands_total:
  assumes inv: "db_inv db"
  shows "\<exists>db' a. reconcile_commands now rep db = (db', Ok a) \<and> commands_from db db' \<and>
    (\<forall>c \<in> set (db_commands db'). command_owned db' c)"
proof -
  have "total (commands_from db) (fold_op (reconcile_command now) (commands_in_flight db) rep)
      (\<lambda>s. commands_from db s \<and> (\<forall>c \<in> set (commands_in_flight db). id_owned c s))"
  proof (rule total_fold_rel [OF transp_commands])
    show "\<exists>s' b. reconcile_command now c rep s = (s', Ok b) \<and> commands_from s s' \<and> id_owned c s'"
      if "c \<in> set (commands_in_flight db)" "commands_from db s" for c rep s
      by (rule reconcile_command_step [OF that(1) inv that(2)])
  qed (rule id_owned_stable)
  moreover have "commands_from db db" using inv by (simp add: commands_from_def)
  ultimately obtain db' a where f: "fold_op (reconcile_command now) (commands_in_flight db) rep db = (db', Ok a)"
    "commands_from db db'" "\<forall>c \<in> set (commands_in_flight db). id_owned c db'" using totalD [of "commands_from db"] by blast
  have "command_owned db' c" if c: "c \<in> set (db_commands db')" for c
  proof (cases "in_flight c")
    case True
    then have "c \<in> set (commands_in_flight db)" using f(2) c by (auto simp: in_flight_listed commands_from_def)
    then show ?thesis using f(3) c by (auto simp: id_owned_def)
  qed (simp add: command_owned_def)
  then show ?thesis using f by (auto simp: reconcile_commands_def)
qed

lemma command_owned_requeued:
  assumes r: "requeued_from s s'" and o: "command_owned s c"
  shows "command_owned s' c"
proof -
  have "\<not> task_abandoned i s'" if "\<not> task_abandoned i s" for i
  proof -
    have "task_from i s s'" "get_lease_by_task i s' = get_lease_by_task i s"
      using r same_frame_lease by (auto simp: requeued_from_def)
    then show ?thesis using that by (auto simp: task_abandoned_def task_from_def split: option.splits)
  qed
  then show ?thesis using o by (auto simp: command_owned_def)
qed

section \<open>The whole startup\<close>

lemma reclaim_effect:
  assumes "reclaim_expired_leases now db = (db1, Ok ids)" "db_inv db" "parents_ok db"
  shows "db_inv db1" "parents_ok db1" "\<forall>l \<in> set (db_leases db1). now < l_expires_at l"
    "\<forall>i \<in> set ids. get_lease_by_task i db1 = None"
proof -
  have e: "db1 = delete_leases (\<lambda>l. l_expires_at l \<le> now) db"
    "ids = map l_task_id (filter (\<lambda>l. l_expires_at l \<le> now) (db_leases db))"
    using assms(1) by (auto simp: reclaim_expired_leases_def)
  show "db_inv db1" unfolding e by (rule delete_leases_inv [OF assms(2)])
  have t: "db_tasks db1 = db_tasks db" by (simp add: e)
  show "parents_ok db1" using assms(3) by (simp only: parents_ok_tasks [OF t])
  show "\<forall>l \<in> set (db_leases db1). now < l_expires_at l" by (auto simp: e tbl_delete_def)
  have d: "distinct (map l_task_id (db_leases db))" using assms(2) by (simp add: db_inv_def lease_integrity_def)
  show "\<forall>i \<in> set ids. get_lease_by_task i db1 = None"
    using d by (auto simp: e get_lease_by_task_def tbl_get_delete [OF d] tbl_get_unique [OF d] distinct_map
        split: option.split dest: inj_onD)
qed

lemma reconcile_missions_frame:
  "db_tasks (reconcile_missions env db) = db_tasks db \<and> same_frame db (reconcile_missions env db)"
proof -
  have 1: "db_tasks (reconcile_mission env m db) = db_tasks db \<and> same_frame db (reconcile_mission env m db)" for m db
    by (simp add: reconcile_mission_def emit_def append_event_def update_mission_def same_frame_def)
  have "db_tasks (fold (reconcile_mission env) ms db) = db_tasks db \<and> same_frame db (fold (reconcile_mission env) ms db)" for ms
  proof (induction ms arbitrary: db)
    case (Cons m ms)
    then show ?case using 1 [of m db] same_frame_trans by fastforce
  qed (simp add: same_frame_def)
  then show ?thesis by (simp add: reconcile_missions_def)
qed

lemma reconcile_total:
  assumes "db_inv db" "parents_ok db"
  shows "\<exists>db' rep. reconcile now db = (db', Ok rep) \<and> db_inv db' \<and> parents_ok db' \<and>
    (\<forall>l \<in> set (db_leases db'). now < l_expires_at l) \<and> (\<forall>c \<in> set (db_commands db'). command_owned db' c)"
proof -
  obtain db1 ids where 1: "reclaim_expired_leases now db = (db1, Ok ids)" by (auto simp: reclaim_expired_leases_def)
  note r = reclaim_effect [OF 1 assms]
  have "total (requeued_from db1) (fold_op (reconcile_task now) ids ReconciliationReport_default)
      (\<lambda>s. requeued_from db1 s \<and> (\<forall>i \<in> set ids. settled i s))"
  proof (rule total_fold_rel [OF transp_requeued])
    show "\<exists>s' b. reconcile_task now i rep s = (s', Ok b) \<and> requeued_from s s' \<and> settled i s'"
      if "i \<in> set ids" "requeued_from db1 s" for i rep s
      using reconcile_task_step that r(4) by blast
  qed (rule settled_requeued)
  from totalD [OF this requeued_from_refl [OF r(1,2)]] obtain db2 rep
    where 2: "fold_op (reconcile_task now) ids ReconciliationReport_default db1 = (db2, Ok rep)"
      "requeued_from db1 db2" by blast
  have inv: "db_inv db2" "parents_ok db2" using 2(2) by (simp_all add: requeued_from_def)
  obtain db3 rep' where 3: "reconcile_commands now rep db2 = (db3, Ok rep')" "commands_from db2 db3"
      "\<forall>c \<in> set (db_commands db3). command_owned db3 c" using reconcile_commands_total [OF inv(1)] by metis
  have "db_tasks db3 = db_tasks db2" "db_leases db3 = db_leases db1" "db_inv db3"
    using 2(2) 3(2) by (simp_all add: commands_from_def requeued_from_def same_frame_def)
  moreover from this(1) have "parents_ok db3" using inv(2) parents_ok_tasks by blast
  moreover have "reconcile now db = (db3, Ok rep')" by (simp add: reconcile_def st_then.simps 1 2 3)
  ultimately show ?thesis using r(3) 3(3) by auto
qed

lemma startup_settles:
  assumes "db_inv db" "parents_ok db"
  shows "\<exists>db' rep. reconcile_startup env db = (db', Ok rep) \<and>
    (\<forall>l \<in> set (db_leases db'). re_now env < l_expires_at l) \<and>
    (\<forall>w \<in> set (db_workflows db'). w_state w = WorkflowState.Active \<longrightarrow> wf_settled (w_id w) db') \<and>
    (\<forall>c \<in> set (db_commands db'). command_owned db' c)"
proof -
  let ?now = "re_now env"
  obtain db1 rep where 1: "reconcile ?now db = (db1, Ok rep)" "db_inv db1" "parents_ok db1"
      "\<forall>l \<in> set (db_leases db1). ?now < l_expires_at l" "\<forall>c \<in> set (db_commands db1). command_owned db1 c"
    using reconcile_total [OF assms] by blast
  let ?ws = "filter (\<lambda>w. w_state w = WorkflowState.Active) (list_workflows db1)"
  have "total (requeued_from db1) (fold_op (startup_workflow ?now) ?ws rep)
      (\<lambda>s. requeued_from db1 s \<and> (\<forall>w \<in> set ?ws. wf_settled (w_id w) s))"
    by (rule total_fold_rel [OF transp_requeued startup_workflow_step wf_settled_requeued]) assumption+
  from totalD [OF this requeued_from_refl [OF 1(2,3)]] obtain db2 rep'
    where 2: "fold_op (startup_workflow ?now) ?ws rep db1 = (db2, Ok rep')" "requeued_from db1 db2"
      "\<forall>w \<in> set ?ws. wf_settled (w_id w) db2" by blast
  let ?db = "reconcile_missions env db2"
  have f: "db_tasks ?db = db_tasks db2" "db_leases ?db = db_leases db1" "db_workflows ?db = db_workflows db1"
      "db_commands ?db = db_commands db1" "db_leases db2 = db_leases db1"
    using reconcile_missions_frame [of env db2] 2(2) by (auto simp: requeued_from_def same_frame_def)
  have get: "db_get_task i ?db = db_get_task i db2" "get_lease_by_task i ?db = get_lease_by_task i db2" for i
    using f by (simp_all add: db_get_task_def get_lease_by_task_def)
  have "wf_settled (w_id w) ?db" if "w \<in> set (db_workflows ?db)" "w_state w = WorkflowState.Active" for w
    proof -
    have "w \<in> set ?ws" using that by (simp add: f list_workflows_def)
    then have "wf_settled (w_id w) db2" using 2(3) by blast
    then show ?thesis by (simp add: wf_settled_def settled_def get)
  qed
  moreover have "command_owned ?db c" if "c \<in> set (db_commands ?db)" for c
  proof -
    have "command_owned db2 c" using command_owned_requeued [OF 2(2)] 1(5) that f(4) by auto
    moreover have "task_abandoned i ?db = task_abandoned i db2" for i
      by (simp add: task_abandoned_def get split: option.split)
    ultimately show ?thesis by (simp add: command_owned_def)
  qed
  moreover have "\<exists>rp. reconcile_startup env db = (?db, Ok rp)"
    by (simp add: reconcile_startup_def st_then.simps 1(1) reconcile_workflows_def 2(1))
  ultimately show ?thesis using 1(4) f(2) by auto
qed

end
