(* ===== verification/Runtime_Properties.thy ===== *)
theory Runtime_Properties
  imports Reconcile_Laws "HOL-Library.Code_Target_Nat"
begin

text \<open>The properties of the agent selector, of the scheduler and of the startup reconciler.\<close>

section \<open>Selection\<close>


definition coder :: Agent where
  "coder = (Agent_new 5 0 ''c'' ''Developer'' (ExecutionProfile_new ''ollama'' ''mistral''))\<lparr>a_capabilities := [''code.write'']\<rparr>"

definition tester :: Agent where
  "tester = (Agent_new 4 0 ''t'' ''Tester'' (ExecutionProfile_new ''ollama'' ''mistral''))\<lparr>a_capabilities := [''code.write'']\<rparr>"

definition coding_task :: Task where
  "coding_task = (Task_with_required_capabilities [''code.write''] (Task_new 2 0 7 ''a''))\<lparr>t_state := TaskState.Ready\<rparr>"

lemma select_coder: "select_best_agent coding_task [tester, coder] = Some coder"
  by code_simp


text \<open>The selection does not depend on the order in which the candidates are listed.\<close>

theorem selection_deterministic:
  assumes "set cs = set cs'" "inj_on a_id (set cs)"
  shows "select_best_agent t cs = select_best_agent t cs'"
  unfolding select_best_agent_def by (rule select_order_irrelevant [OF assms])

theorem selection_deterministic_witness:
  "select_best_agent coding_task [coder, tester] = Some coder"
proof -
  have "a_id coder \<noteq> a_id tester" by code_simp
  then show ?thesis
    using selection_deterministic [of "[coder, tester]" "[tester, coder]" coding_task] select_coder
    by (auto simp: inj_on_def)
qed

section \<open>Scheduling\<close>

text \<open>C20: the jobs a tick collects for a workflow are exclusive: each is addressed to
an agent that was idle, the agent holds the live lease of a runnable task that is now
assigned to it, and no two jobs share a task or an agent.\<close>

theorem schedule_exclusive:
  assumes "reachable_db db" "load_task_graph w db = Ok g"
    "schedule_tasks env w (find_runnable_tasks g) (idle_agents db) [] db = (db', Ok jobs)"
  shows "\<exists>holders. length holders = length jobs \<and> distinct (map fst holders) \<and> distinct (map snd holders) \<and>
    (\<forall>n < length jobs. job_holds env db' (jobs ! n) (fst (holders ! n)) (snd (holders ! n)) \<and>
       fst (holders ! n) \<in> set (find_runnable_tasks g) \<and> snd (holders ! n) \<in> a_id ` set (idle_agents db))"
proof -
  have inv: "db_inv db" by (rule reachable_db_inv [OF assms(1)])
  have "graph_wf g" using load_task_graph_iff(2) [OF assms(2)] by (simp add: graph_inv_def)
  then have "distinct (find_runnable_tasks g)" by (rule runnable_distinct)
  then obtain hs where h: "jobs_exclusive env db' jobs hs" "fst ` set hs \<subseteq> set (find_runnable_tasks g)"
    "snd ` set hs \<subseteq> a_id ` set (idle_agents db)"
    using schedule_tasks_exclusive [OF assms(3) inv, of "[]"] by (auto simp: jobs_exclusive_def)
  have l: "length jobs = length hs" using h(1) by (auto simp: jobs_exclusive_def dest: list_all2_lengthD)
  show ?thesis
  proof (intro exI [of _ hs] conjI allI impI)
    fix n assume n: "n < length jobs"
    show "job_holds env db' (jobs ! n) (fst (hs ! n)) (snd (hs ! n))"
      using h(1) n by (auto simp: jobs_exclusive_def split_beta dest: list_all2_nthD)
    show "fst (hs ! n) \<in> set (find_runnable_tasks g)" "snd (hs ! n) \<in> a_id ` set (idle_agents db)"
      using h(2,3) n l nth_mem [of n hs] by auto
  qed (use h(1) l in \<open>auto simp: jobs_exclusive_def\<close>)
qed

definition sched_env :: "time \<Rightarrow> SchedEnv" where
  "sched_env now = \<lparr>sd_now = now, sd_run = \<lambda>_ db. (db, Ok ())\<rparr>"

definition sched_db :: Db where
  "sched_db = fst (create_task coding_task (fst (create_agent coder
     (fst (create_workflow (Workflow_set_state 0 WorkflowState.Active (Workflow_new 7 0 ''w'' ''o'')) db_empty)))))"

definition claimed :: "Db \<times> (job list, RuntimeError) result" where
  "claimed = schedule_tasks (sched_env 100) 7 [2] (idle_agents sched_db) [] sched_db"

lemma sched_db_reachable: "reachable_db sched_db"
  unfolding sched_db_def reachable_db_def
  by (meson db_step.intros(1,3,7) rtranclp.rtrancl_refl rtranclp.rtrancl_into_rtrancl)

lemma claimed_facts:
  "is_ok (snd claimed)" "(case snd claimed of Ok jobs \<Rightarrow> length jobs = 1 | Err _ \<Rightarrow> False)"
  "(case load_task_graph 7 sched_db of Ok g \<Rightarrow> find_runnable_tasks g = [2] | Err _ \<Rightarrow> False)"
  "map a_id (idle_agents sched_db) = [5]"
  by code_simp+

theorem schedule_exclusive_witness:
  "\<exists>j. snd claimed = Ok [j] \<and> job_holds (sched_env 100) (fst claimed) j 2 5"
proof -
  obtain g where g: "load_task_graph 7 sched_db = Ok g" "find_runnable_tasks g = [2]"
    using claimed_facts(3) by (auto split: result.splits)
  obtain db r where p: "claimed = (db, r)" by fastforce
  then obtain jobs where "r = Ok jobs" "length jobs = 1" using claimed_facts(2) [unfolded p snd_conv] by (cases r) auto
  with p have c: "claimed = (db, Ok jobs)" "length jobs = 1" by simp_all
  have "schedule_tasks (sched_env 100) 7 (find_runnable_tasks g) (idle_agents sched_db) [] sched_db = (db, Ok jobs)"
    using c(1) g(2) by (simp add: claimed_def)
  from schedule_exclusive [OF sched_db_reachable g(1) this] obtain hs where
    "job_holds (sched_env 100) db (jobs ! 0) (fst (hs ! 0)) (snd (hs ! 0))" "fst (hs ! 0) \<in> set (find_runnable_tasks g)"
    "snd (hs ! 0) \<in> a_id ` set (idle_agents sched_db)" using c(2) by auto
  moreover from this(3) have "snd (hs ! 0) \<in> set (map a_id (idle_agents sched_db))" by simp
  ultimately have "job_holds (sched_env 100) db (jobs ! 0) 2 5" using g(2) claimed_facts(4) by simp
  moreover obtain j where "jobs = [j]" using c(2) by (cases jobs) auto
  ultimately show ?thesis unfolding c(1) by (intro exI [of _ j]) simp
qed

section \<open>Startup\<close>

text \<open>C21: a startup reconciliation always succeeds. Afterwards no stored lease has
expired, no task of an active workflow is assigned or running without a lease, and no
command is dispatched or delivered for a task that is not running under a lease.\<close>

theorem startup_reconciles:
  assumes "reachable_db db"
  shows "\<exists>db' rep. reconcile_startup env db = (db', Ok rep) \<and>
    (\<forall>l \<in> set (db_leases db'). re_now env < l_expires_at l) \<and>
    (\<forall>i t. db_get_task i db' = Some t \<and> (\<exists>w \<in> set (db_workflows db'). w_id w = t_workflow_id t \<and> w_state w = WorkflowState.Active) \<and>
       (t_state t = TaskState.Assigned \<or> t_state t = TaskState.Running) \<longrightarrow> get_lease_by_task i db' \<noteq> None) \<and>
    (\<forall>c \<in> set (db_commands db'). c_state c = CommandState.Dispatched \<or> c_state c = CommandState.Delivered \<longrightarrow>
       (\<forall>i. command_task c = Some i \<longrightarrow> \<not> task_abandoned i db'))"
proof -
  obtain db' rep where r: "reconcile_startup env db = (db', Ok rep)" "\<forall>l \<in> set (db_leases db'). re_now env < l_expires_at l"
    "\<forall>w \<in> set (db_workflows db'). w_state w = WorkflowState.Active \<longrightarrow> wf_settled (w_id w) db'"
    "\<forall>c \<in> set (db_commands db'). command_owned db' c"
    using startup_settles [OF reachable_db_inv [OF assms] reachable_parents [OF assms], of env] by blast
  then show ?thesis
    by (intro exI [of _ db'] exI [of _ rep])
      (auto simp: wf_settled_def settled_def in_progress_def command_owned_def in_flight_def)
qed

definition startup_env :: "time \<Rightarrow> ReconcileEnv" where
  "startup_env now = \<lparr>re_now = now, re_rfc3339 = (\<lambda>_. ''t''), re_is_ancestor = (\<lambda>_ _ _. False), re_has_workspace_store = True\<rparr>"

definition stuck_db :: Db where
  "stuck_db = fst (create_task (coding_task\<lparr>t_state := TaskState.Running\<rparr>)
     (fst (create_workflow (Workflow_set_state 0 WorkflowState.Active (Workflow_new 7 0 ''w'' ''o'')) db_empty)))"

lemma stuck_db_reachable: "reachable_db stuck_db"
  unfolding stuck_db_def reachable_db_def
  by (meson db_step.intros(1,7) rtranclp.rtrancl_refl rtranclp.rtrancl_into_rtrancl)

lemma stuck_reconciled:
  "(case reconcile_startup (startup_env 9) stuck_db of (db, r) \<Rightarrow>
      map_option t_state (db_get_task 2 db) = Some TaskState.Ready \<and> db_leases db = [])"
  by code_simp

theorem startup_reconciles_witness:
  "\<exists>db' rep. reconcile_startup (startup_env 9) stuck_db = (db', Ok rep) \<and>
     map_option t_state (db_get_task 2 db') = Some TaskState.Ready"
  using startup_reconciles [OF stuck_db_reachable, of "startup_env 9"] stuck_reconciled by auto

definition restarted :: "Db \<times> (ReconciliationReport, RuntimeError) result" where
  "restarted = reconcile_startup (startup_env 400000) (fst claimed)"

text \<open>After a crash between the claim of a command and its execution, the task is
requeued at startup with the attempt it had, and the next tick fails on the idempotency
key of the lost command, with the task assigned and leased again.\<close>

theorem restart_blocks_task:
  "(case restarted of (db, r) \<Rightarrow> is_ok r \<and> map_option t_state (db_get_task 2 db) = Some TaskState.Ready) \<and>
   (case tick (sched_env 500000) (fst restarted) of (db, r) \<Rightarrow>
      r = Err (Storage (IdempotencyConflict ''task-exec-2-attempt-1'')) \<and>
      map_option t_state (db_get_task 2 db) = Some TaskState.Assigned \<and>
      map_option l_generation (get_lease_by_task 2 db) = Some 2)"
  by code_simp

end
