(* ===== verification/Mission_Gate.thy ===== *)
theory Mission_Gate
  imports Mission_Acceptance
begin

text \<open>The human gate of the mission lifecycle as a step relation over the store: every
operation that writes missions (engine, HTTP handlers, command line, startup
reconciliation) keeps the invariant that a mission past acceptance carries the record
of its acceptance.\<close>

section \<open>The invariant\<close>

fun is_object :: "json \<Rightarrow> bool" where
  "is_object (JObj kvs) = True"
| "is_object _ = False"

definition past_acceptance :: "MissionState \<Rightarrow> bool" where
  "past_acceptance st = (st = MissionState.Accepted \<or> st = MissionState.Integrating \<or> st = MissionState.Integrated)"

definition accepted_gate :: "Mission \<Rightarrow> bool" where
  "accepted_gate m =
    (is_object (m_metadata m) \<and> m_state m \<noteq> MissionState.Completed \<and>
     (past_acceptance (m_state m) \<longrightarrow> json_get ''accepted'' (m_metadata m) = Some (JBool True)))"

definition gate_db :: "Db \<Rightarrow> bool" where
  "gate_db db = (\<forall>m \<in> set (db_missions db). accepted_gate m)"

definition gated :: "MissionEngine \<Rightarrow> bool" where
  "gated s = gate_db (en_store s)"

lemma is_object_insert [simp]: "is_object (json_insert k v j) = is_object j"
  by (cases j) (simp_all add: json_insert_def)

lemma json_get_insert_obj:
  "is_object j \<Longrightarrow> json_get k (json_insert k' v j) = (if k = k' then Some v else json_get k j)"
  by (cases j) (auto simp: json_get_insert)

lemma set_meta_simps [simp]:
  "m_state (set_meta k v m) = m_state m" "m_id (set_meta k v m) = m_id m"
  "m_created_at (set_meta k v m) = m_created_at m" "m_workspace_id (set_meta k v m) = m_workspace_id m"
  "m_active_workflow_id (set_meta k v m) = m_active_workflow_id m"
  "m_latest_verified_commit (set_meta k v m) = m_latest_verified_commit m"
  "m_budget_consumed (set_meta k v m) = m_budget_consumed m"
  "m_final_outcome (set_meta k v m) = m_final_outcome m"
  by (simp_all add: set_meta_def)

lemma gate_set_meta: "accepted_gate m \<Longrightarrow> k \<noteq> ''accepted'' \<Longrightarrow> accepted_gate (set_meta k v m)"
  by (auto simp: accepted_gate_def set_meta_def json_get_insert_obj)

lemma gate_remove_meta: "accepted_gate m \<Longrightarrow> k \<noteq> ''accepted'' \<Longrightarrow> accepted_gate (remove_meta k m)"
proof (cases "m_metadata m")
  case (JObj kvs)
  assume g: "accepted_gate m" "k \<noteq> ''accepted''"
  have "map_of (filter (\<lambda>kv. fst kv \<noteq> k) kvs) x = map_of kvs x" if "x \<noteq> k" for x
    using that by (induction kvs) auto
  then show ?thesis using g JObj by (auto simp: accepted_gate_def remove_meta_def json_get_def)
qed (auto simp: accepted_gate_def)

lemma gate_cong:
  "accepted_gate m \<Longrightarrow> m_metadata m' = m_metadata m \<Longrightarrow> m_state m' = m_state m \<Longrightarrow> accepted_gate m'"
  by (simp add: accepted_gate_def)

text \<open>A transition to a state before acceptance, or from one past it.\<close>

lemma gate_transition:
  "accepted_gate m \<Longrightarrow> \<not> past_acceptance st \<Longrightarrow> st \<noteq> MissionState.Completed \<Longrightarrow> accepted_gate (try_transition st m)"
  by (auto simp: accepted_gate_def try_transition_eq)

lemma gate_transition_past:
  "accepted_gate m \<Longrightarrow> past_acceptance (m_state m) \<Longrightarrow> st \<noteq> MissionState.Completed \<Longrightarrow> accepted_gate (try_transition st m)"
  by (auto simp: accepted_gate_def try_transition_eq)

lemma gate_accept:
  "accepted_gate m \<Longrightarrow> accepted_gate (set_meta ''accepted'' (JBool True) (try_transition MissionState.Accepted m))"
  by (auto simp: accepted_gate_def set_meta_def try_transition_eq json_get_insert_obj)

lemma not_past [simp]:
  "\<not> past_acceptance MissionState.Planning" "\<not> past_acceptance MissionState.Running"
  "\<not> past_acceptance MissionState.Waiting" "\<not> past_acceptance MissionState.Cancelled"
  "\<not> past_acceptance MissionState.NeedsHuman" "\<not> past_acceptance MissionState.Replanning"
  "\<not> past_acceptance MissionState.Verifying" "\<not> past_acceptance MissionState.AwaitingAcceptance"
  "\<not> past_acceptance MissionState.BudgetExhausted" "\<not> past_acceptance MissionState.Rejected"
  "\<not> past_acceptance MissionState.Created"
  by (simp_all add: past_acceptance_def)

lemmas gate_intros = gate_set_meta gate_remove_meta gate_transition gate_accept

section \<open>The store operations\<close>

lemma gate_update_mission: "gate_db db \<Longrightarrow> accepted_gate m \<Longrightarrow> gate_db (fst (update_mission m db))"
  by (auto simp: gate_db_def update_mission_def tbl_modify_def intro: gate_cong)

lemma gate_frame: "mission_frame db db' \<Longrightarrow> gate_db db \<Longrightarrow> gate_db db'"
  by (simp add: gate_db_def mission_frame_def)

lemma gate_emit: "gate_db db \<Longrightarrow> gate_db (emit now i ty db)"
  by (rule gate_frame [OF emit_frame])

lemma gate_get: "gate_db db \<Longrightarrow> get_mission i db = Some m \<Longrightarrow> accepted_gate m"
  unfolding gate_db_def get_mission_def using tbl_get_key by fast

lemma gated_simps [simp]:
  "gated (unmark_running i s) = gated s" "gated (mark_running i s) = gated s"
  by (simp_all add: gated_def)

lemma gated_emit: "gated s \<Longrightarrow> gated (emit_mission_event env i ty s)"
  by (simp add: gated_def emit_mission_event_def gate_emit)

lemma gated_ignoring: "(\<And>db. mission_frame db (fst (f db))) \<Longrightarrow> gated s \<Longrightarrow> gated (ignoring f s)"
  unfolding gated_def by (rule gate_frame [OF ignoring_frame])

lemmas gated_intros = gated_emit gated_ignoring [OF mission_frame_store(3)] gated_ignoring [OF create_checkpoint_frame]

lemma gate_find: "ensures gated (find_mission i) accepted_gate"
  by (rule ensuresI) (auto simp: find_mission_def gated_def intro: gate_get)

lemma gate_find_then: "(\<And>m. accepted_gate m \<Longrightarrow> keeps gated (f m)) \<Longrightarrow> keeps gated (st_then (find_mission i) f)"
  by (rule ensures_keeps [OF ensures_then [OF gate_find, where R = "\<lambda>_. True"]]) (simp add: ensures_def keeps_def)

lemma gate_write:
  assumes "accepted_gate m" "\<And>s. gated s \<Longrightarrow> gated (f s)"
  shows "keeps gated (st_then (on_store (update_mission m)) (\<lambda>_ s. (f s, r)))"
proof (rule keeps_then)
  show "keeps gated (on_store (update_mission m))"
    by (auto simp: keeps_def on_store_def gated_def split: prod.splits dest: gate_update_mission [OF _ assms(1)])
qed (auto simp: keeps_def assms(2))

lemma gate_write_from:
  "accepted_gate m \<Longrightarrow> (\<And>s. gated s \<Longrightarrow> gated (f s)) \<Longrightarrow> gated s \<Longrightarrow>
     gated (fst (st_then (on_store (update_mission m)) (\<lambda>_ s. (f s, r)) s))"
  by (rule keepsD [OF gate_write])

section \<open>The engine\<close>

lemma gate_escalate: "keeps gated (escalate_human env i why)"
  unfolding escalate_human_def Let_def
proof (rule gate_find_then)
  fix m assume g: "accepted_gate m"
  have "accepted_gate (m\<lparr>m_escalation_reason := Some why,
      m_metadata := json_insert ''escalation_reason'' (JStr why) (m_metadata m), m_health_status := MissionHealth.Escalated\<rparr>)"
    by (rule gate_cong [OF gate_set_meta [OF g, of "''escalation_reason''" "JStr why"]]) (simp_all add: set_meta_def)
  then show "keeps gated (\<lambda>s. st_then (on_store (update_mission (try_transition MissionState.NeedsHuman
      (m\<lparr>m_escalation_reason := Some why,
         m_metadata := json_insert ''escalation_reason'' (JStr why) (m_metadata m), m_health_status := MissionHealth.Escalated\<rparr>))))
      (\<lambda>_ s1. (emit_mission_event env i ''human_escalation'' (unmark_running i s1),
         Ok (try_transition MissionState.NeedsHuman (m\<lparr>m_escalation_reason := Some why,
         m_metadata := json_insert ''escalation_reason'' (JStr why) (m_metadata m), m_health_status := MissionHealth.Escalated\<rparr>)))) s)"
    by (intro gate_write gate_transition gated_intros) auto
qed

lemma gate_started: "accepted_gate m \<Longrightarrow> accepted_gate (started w n m)"
  unfolding started_def
  by (rule gate_cong [where m = "if m_state m = MissionState.Planning \<or> m_state m = MissionState.Replanning
       then try_transition MissionState.Running m else m"]) (auto intro: gate_transition)

lemma gate_awaiting: "accepted_gate m \<Longrightarrow> accepted_gate (awaiting_mission c m)"
  unfolding awaiting_mission_def
  by (rule gate_cong [where m = "try_transition MissionState.AwaitingAcceptance (try_transition MissionState.Verifying m)"])
    (simp_all add: gate_transition)

lemma gate_budget: "accepted_gate m \<Longrightarrow> accepted_gate (m\<lparr>m_health_status := h, m_budget_consumed := c\<rparr>)"
  by (erule gate_cong) simp_all

lemma gate_replanned: "accepted_gate m \<Longrightarrow> accepted_gate (try_transition MissionState.Replanning m)"
  by (rule gate_transition) simp_all

lemma gate_verified: "accepted_gate m \<Longrightarrow> keeps gated (conclude_verified env w c summary m)"
  unfolding conclude_verified_def Let_def
  by (rule keepsI, intro gate_write_from gate_awaiting gated_intros) auto

lemma gate_stagnation: "keeps gated (escalate_stagnation env tasks m)"
  unfolding escalate_stagnation_def Let_def
  by (rule keepsI, intro keepsD [OF ensures_keeps [OF gate_find]] keepsD [OF gate_escalate] gated_intros)

lemma gate_checkpoint: "accepted_gate m \<Longrightarrow> keeps gated (checkpoint_step env w failed snapshot summary m)"
  unfolding checkpoint_step_def Let_def
  by (rule keepsI, intro gate_write_from gated_intros) auto

lemma gate_replan:
  assumes "gated s" "accepted_gate m" "replan env w failed summary t m s = (s1, m1)"
  shows "gated s1 \<and> accepted_gate m1"
proof -
  have "accepted_gate m1" using assms(3) gate_cong [OF gate_replanned [OF assms(2)], of m1]
    by (auto simp: replan_def Let_def)
  moreover have "gated s1" using assms(3) by (auto simp: replan_def Let_def intro!: gated_intros assms(1))
  ultimately show ?thesis by simp
qed

lemma gate_unverified: "accepted_gate m \<Longrightarrow> keeps gated (conclude_unverified env w tasks snapshot summary t m)"
proof (rule keepsI)
  fix s assume g: "accepted_gate m" "gated s"
  obtain h p where l: "assess_liveness snapshot m = (h, p)" by fastforce
  let ?t = "if p then reset_stagnant_cycles t else record_stagnant_cycle t"
  let ?m = "m\<lparr>m_health_status := h, m_budget_consumed := (m_budget_consumed m)\<lparr>stagnant_cycles := stagnant_cycles (tr_consumed ?t)\<rparr>\<rparr>"
  obtain s1 m1 where r: "replan env w (failed_or_blocked tasks summary) summary ?t ?m s = (s1, m1)" by fastforce
  note gm = gate_budget [OF g(1), where h = h]
  show "gated (fst (conclude_unverified env w tasks snapshot summary t m s))"
    using keepsD [OF gate_stagnation g(2)] keepsD [OF gate_checkpoint [OF gm] g(2)]
      gate_replan [OF g(2) gm r] keepsD [OF gate_checkpoint, of m1 s1] r
    by (auto simp: conclude_unverified_def l Let_def)
qed

lemma gate_conclude:
  assumes "accepted_gate m" shows "keeps gated (conclude_cycle env ws w (t, m, summary))"
proof (rule keepsI)
  fix s assume g: "gated s"
  have e: "keeps gated (escalate_and_reload env i why)" for i why
    unfolding escalate_and_reload_def by (intro keeps_then gate_escalate ensures_keeps [OF gate_find])
  show "gated (fst (conclude_cycle env ws w (t, m, summary) s))"
    using keepsD [OF gate_verified [OF assms] g] keepsD [OF e g] keepsD [OF gate_unverified [OF assms] g]
    unfolding conclude_cycle_def Let_def prod.case by (simp split: prod.split option.split)
qed

lemma gate_halt: "accepted_gate m \<Longrightarrow> keeps gated (halt_exhausted env m why)"
proof -
  assume g: "accepted_gate m"
  have "accepted_gate ((try_transition MissionState.BudgetExhausted m)\<lparr>m_final_outcome := out\<rparr>)" for out
    by (rule gate_cong [OF gate_transition [OF g]]) simp_all
  then show ?thesis unfolding halt_exhausted_def Let_def by (intro gate_write gated_intros) auto
qed

lemma gate_ensure: "accepted_gate m \<Longrightarrow> ensures gated (ensure_workflow env m) (\<lambda>(w, m'). accepted_gate m')"
proof (rule ensuresI)
  fix s assume g: "accepted_gate m" "gated s"
  have c: "accepted_gate (m\<lparr>m_active_workflow_id := Some w\<rparr>)" for w by (rule gate_cong [OF g(1)]) simp_all
  show "gated (fst (ensure_workflow env m s)) \<and>
      (\<forall>a. snd (ensure_workflow env m s) = Ok a \<longrightarrow> (case a of (w, m') \<Rightarrow> accepted_gate m'))"
  proof (cases "m_active_workflow_id m")
    case None
    let ?wf = "cycle_workflow env m (en_store s)"
    have f: "gate_db (fst (create_workflow ?wf (en_store s)))"
      using g(2) gate_frame [OF mission_frame_store(1)] by (simp add: gated_def)
    then show ?thesis using None c
      by (cases "create_workflow ?wf (en_store s)"; cases "snd (create_workflow ?wf (en_store s))")
        (auto simp: ensure_workflow_def Let_def st_then.simps on_store_def gated_def)
  qed (use g in \<open>simp add: ensure_workflow_def\<close>)
qed

lemma gate_execute:
  assumes "exec_frame env" "accepted_gate m"
  shows "ensures gated (execute_cycle env w t m) (\<lambda>(t1, m1, su). accepted_gate m1)"
proof (rule ensuresI)
  fix s assume g: "gated s"
  have c: "accepted_gate (with_executions t1 m)" for t1 by (rule gate_cong [OF assms(2)]) (simp_all add: with_executions_def)
  show "gated (fst (execute_cycle env w t m s)) \<and>
      (\<forall>a. snd (execute_cycle env w t m s) = Ok a \<longrightarrow> (case a of (t1, m1, su) \<Rightarrow> accepted_gate m1))"
  proof (cases "env_executor env")
    case (Some ex)
    obtain db r where e: "ex w (m_id m) (en_store s) = (db, r)" by fastforce
    have "mission_frame (en_store s) db" using assms(1) Some e unfolding exec_frame_def by (metis fst_conv)
    then have "gate_db db" using g gate_frame by (simp add: gated_def)
    then show ?thesis using Some e c assms(2) by (cases r) (auto simp: execute_cycle_def gated_def Let_def)
  qed (use g c in \<open>auto simp: execute_cycle_def Let_def\<close>)
qed

lemma gate_step: "exec_frame env \<Longrightarrow> keeps gated (step_mission env i)"
  unfolding step_mission_def
proof (rule gate_find_then)
  fix m assume fr: "exec_frame env" and g: "accepted_gate m"
  let ?m1 = "if m_state m = MissionState.Planning \<or> m_state m = MissionState.Replanning
    then try_transition MissionState.Running m else m"
  have g1: "accepted_gate ?m1" using g by (auto intro: gate_transition)
  have "ensures gated (st_then (ensure_workflow env ?m1) (\<lambda>(w, m2). st_then (execute_cycle env w t m2)
      (conclude_cycle env ws w))) (\<lambda>_. True)" for t ws
  proof (rule ensures_then [OF gate_ensure [OF g1]])
    fix a :: "ident \<times> Mission" assume "case a of (w, m') \<Rightarrow> accepted_gate m'"
    then obtain w m2 where a: "a = (w, m2)" "accepted_gate m2" by auto
    have "ensures gated (st_then (execute_cycle env w t m2) (conclude_cycle env ws w)) (\<lambda>_. True)"
    proof (rule ensures_then [OF gate_execute [OF fr a(2)]])
      fix b :: "BudgetTracker \<times> Mission \<times> WorkflowExecutionSummary option"
      assume "case b of (t1, m1, su) \<Rightarrow> accepted_gate m1"
      then show "ensures gated (conclude_cycle env ws w b) (\<lambda>_. True)"
        using gate_conclude by (cases b) (auto simp: ensures_def keeps_def)
    qed
    then show "ensures gated (case a of (w, m2) \<Rightarrow> st_then (execute_cycle env w t m2) (conclude_cycle env ws w)) (\<lambda>_. True)"
      using a by simp
  qed
  note run = keepsD [OF ensures_keeps [OF this]]
  show "keeps gated (\<lambda>s. if MissionState_is_terminal (m_state m) \<or> m_state m = MissionState.NeedsHuman then (s, Ok m)
    else let t = \<lparr>tr_budget = m_budget m, tr_consumed = m_budget_consumed m\<rparr> in
      case check_exhaustion t of
        Some why \<Rightarrow> halt_exhausted env m why s
      | None \<Rightarrow>
          (let m1 = ?m1; workspace = workspace_path m1 (en_store s)
           in st_then (ensure_workflow env m1)
                (\<lambda>(w, m2). st_then (execute_cycle env w t m2) (conclude_cycle env workspace w)) s))"
  proof (rule keepsI)
    fix s assume "gated s"
    then show "gated (fst (if MissionState_is_terminal (m_state m) \<or> m_state m = MissionState.NeedsHuman then (s, Ok m)
      else let t = \<lparr>tr_budget = m_budget m, tr_consumed = m_budget_consumed m\<rparr> in
        case check_exhaustion t of
          Some why \<Rightarrow> halt_exhausted env m why s
        | None \<Rightarrow>
            (let m1 = ?m1; workspace = workspace_path m1 (en_store s)
             in st_then (ensure_workflow env m1)
                  (\<lambda>(w, m2). st_then (execute_cycle env w t m2) (conclude_cycle env workspace w)) s)))"
      by (cases "MissionState_is_terminal (m_state m) \<or> m_state m = MissionState.NeedsHuman";
          cases "check_exhaustion \<lparr>tr_budget = m_budget m, tr_consumed = m_budget_consumed m\<rparr>")
        (simp_all only: Let_def if_True if_False option.case fst_conv run keepsD [OF gate_halt [OF g]])
  qed
qed

section \<open>Administrative operations\<close>

lemma gate_admin:
  assumes "accepted_gate m" "MissionState_transition_to (m_state m) st = Ok st'"
    "\<not> past_acceptance st" "st \<noteq> MissionState.Completed"
  shows "accepted_gate (m\<lparr>m_state := st'\<rparr>)"
  using assms by (auto simp: accepted_gate_def MissionState_transition_to_def split: if_splits)

lemma gate_start: "keeps gated (start_mission env i)"
  unfolding start_mission_def
proof (rule gate_find_then)
  fix m assume g: "accepted_gate m"
  have "accepted_gate (m\<lparr>m_state := st\<rparr>)"
    if "(if m_state m = MissionState.Created then MissionState_transition_to (m_state m) MissionState.Planning
         else if m_state m = MissionState.Waiting \<or> m_state m = MissionState.NeedsHuman
         then MissionState_transition_to (m_state m) MissionState.Running else Ok (m_state m)) = Ok st" for st
    using that g gate_admin [OF g, of MissionState.Planning st] gate_admin [OF g, of MissionState.Running st]
    by (auto split: if_splits)
  then show "keeps gated (\<lambda>s. if MissionState_is_terminal (m_state m)
      then (s, Err (RuntimeError.Conflict ''Cannot start mission in terminal state''))
      else case (if m_state m = MissionState.Created then MissionState_transition_to (m_state m) MissionState.Planning
                 else if m_state m = MissionState.Waiting \<or> m_state m = MissionState.NeedsHuman
                 then MissionState_transition_to (m_state m) MissionState.Running else Ok (m_state m)) of
           Err e \<Rightarrow> (s, Err (Core e))
         | Ok st \<Rightarrow> (let m1 = m\<lparr>m_state := st\<rparr> in
             st_then (on_store (update_mission m1))
               (\<lambda>_ s1. (emit_mission_event env i ''mission_started'' (mark_running i s1), Ok m1)) s))"
    by (intro keepsI) (auto simp: Let_def split: result.split intro!: gate_write_from gated_intros)
qed

lemma gate_pause: "keeps gated (pause_mission env i)"
  unfolding pause_mission_def
  by (rule gate_find_then, intro keepsI)
    (auto simp: Let_def split: result.split intro!: gate_write_from gated_intros gate_admin)

lemma gate_cancel: "keeps gated (cancel_mission env i)"
  unfolding cancel_mission_def
  by (rule gate_find_then, intro keepsI)
    (auto simp: Let_def split: result.split intro!: gate_write_from gated_intros gate_admin)

lemma gate_resolve: "keeps gated (resolve_escalation env i decision)"
  unfolding resolve_escalation_def
proof (rule gate_find_then)
  fix m assume g: "accepted_gate m"
  have c: "accepted_gate (m\<lparr>m_escalation_reason := None, m_health_status := Healthy\<rparr>)" by (rule gate_cong [OF g]) simp_all
  show "keeps gated (\<lambda>s. if m_state m \<noteq> MissionState.NeedsHuman
      then (s, Err (RuntimeError.Conflict ''Mission is not in NeedsHuman state''))
      else let m1 = m\<lparr>m_escalation_reason := None, m_health_status := Healthy\<rparr>;
               d = str_to_lowercase decision;
               m2 = try_transition (if d = ''cancel'' then MissionState.Cancelled
                                    else if d = ''replan'' then MissionState.Replanning
                                    else MissionState.Running) m1
           in st_then (on_store (update_mission m2))
                (\<lambda>_ s1. (emit_mission_event env i ''human_resolution'' s1, Ok m2)) s)"
    by (rule keepsI) (auto simp: Let_def intro!: gate_write_from gated_emit gate_transition c)
qed

lemma gate_create: "keeps gated (engine_create_mission env title objective ws budget stopping)"
proof (rule keepsI)
  fix s assume g: "gated s"
  let ?m0 = "Mission_new (fresh_id (map m_id (db_missions (en_store s)))) (env_now env) title objective"
  let ?m = "?m0\<lparr>m_workspace_id := ws, m_budget := (case budget of Some b \<Rightarrow> b | None \<Rightarrow> m_budget ?m0),
    m_stopping_condition := (case stopping of Some c \<Rightarrow> c | None \<Rightarrow> m_stopping_condition ?m0)\<rparr>"
  have "accepted_gate ?m" by (simp add: accepted_gate_def Mission_new_def past_acceptance_def)
  then have "keeps gated (on_store (create_mission ?m))"
    by (auto simp: keeps_def on_store_def gated_def create_mission_def gate_db_def)
  then have "keeps gated (st_then (on_store (create_mission ?m)) (\<lambda>_ s1. (emit_mission_event env i ''mission_created'' s1, r)))"
    for i r by (rule keeps_then) (auto simp: keeps_def gated_emit)
  from keepsD [OF this g] show "gated (fst (engine_create_mission env title objective ws budget stopping s))"
    by (simp add: engine_create_mission_def Let_def)
qed

lemma gate_create_route: "keeps gated (create_mission_route env head req)"
proof (rule keepsI)
  fix s assume g: "gated s"
  let ?c = "engine_create_mission env (cq_title req) (cq_objective req) (cq_workspace_id req)
    (cq_budget req) (cq_stopping_condition req) s"
  obtain s1 r where c: "?c = (s1, r)" by fastforce
  have g1: "gated s1" using keepsD [OF gate_create g] c by (metis fst_conv)
  have obj: "is_object meta" if "request_metadata head req m db = Ok meta" "is_object (m_metadata m)" for m db meta
  proof -
    have set: "is_object j'" if "json_index_set k x j = Ok j'" for k x j j'
      using that by (cases j) (auto simp: json_index_set_def json_insert_def)
    have got: "is_object j" if "json_get k j = Some v" for k j v using that by (cases j) (auto simp: json_get_def)
    show ?thesis using that
      by (auto simp: request_metadata_def Let_def split: option.splits if_splits) (meson set got)+
  qed
  have new: "is_object (m_metadata m) \<and> m_state m = MissionState.Created" if "r = Ok m" for m
    using c that by (auto simp: engine_create_mission_def Let_def st_then_Ok Mission_new_def)
  have "accepted_gate (m\<lparr>m_metadata := meta\<rparr>)" if "r = Ok m" "request_metadata head req m (en_store s1) = Ok meta" for m meta
    using new [OF that(1)] obj [OF that(2)] by (simp add: accepted_gate_def)
  then have "gate_db (fst (update_mission (m\<lparr>m_metadata := meta\<rparr>) (en_store s1)))"
    if "r = Ok m" "request_metadata head req m (en_store s1) = Ok meta" for m meta
    using gate_update_mission g1 that by (simp add: gated_def)
  then show "gated (fst (create_mission_route env head req s))"
    using g g1 c
    by (auto simp: create_mission_route_def api_store_def Let_def gated_def split: result.split prod.split)
      (metis fst_conv)+
qed

section \<open>Decisions\<close>

lemma gate_api_find: "(\<And>m. accepted_gate m \<Longrightarrow> keeps gate_db (f m)) \<Longrightarrow> keeps gate_db (st_then (api_mission i) f)"
  by (rule ensures_keeps [OF ensures_then [where Q = accepted_gate and R = "\<lambda>_. True"]])
    (auto simp: ensures_def keeps_def api_mission_def intro: gate_get)

lemma gate_cli_find: "(\<And>m. accepted_gate m \<Longrightarrow> keeps gate_db (f m)) \<Longrightarrow> keeps gate_db (st_then (cli_mission i) f)"
  by (rule ensures_keeps [OF ensures_then [where Q = accepted_gate and R = "\<lambda>_. True"]])
    (auto simp: ensures_def keeps_def cli_mission_def intro: gate_get)

lemma gate_api_write: "accepted_gate m \<Longrightarrow> keeps gate_db (api_store (update_mission m))"
  by (auto simp: keeps_def api_store_def split: prod.splits dest: gate_update_mission [of _ m])

lemma gate_cli_write: "accepted_gate m \<Longrightarrow> keeps gate_db (cli_store (update_mission m))"
  by (auto simp: keeps_def cli_store_def split: prod.splits dest: gate_update_mission [of _ m])

lemma keeps_result: "(\<And>s. P s \<Longrightarrow> P (f s)) \<Longrightarrow> keeps P (\<lambda>s. (f s, r s))"
  by (simp add: keeps_def)

lemma gate_counter: "accepted_gate m \<Longrightarrow> accepted_gate (m\<lparr>m_budget_consumed := c\<rparr>)"
  by (erule gate_cong) simp_all

lemma gate_reject: "keeps gate_db (reject_mission env i req)"
proof -
  have r: "accepted_gate m \<Longrightarrow> accepted_gate (set_meta ''rejection_reason'' x (set_meta ''rejected_at'' y
      (set_meta ''rejected'' z (try_transition MissionState.Rejected m))))" for m x y z
    by (intro gate_set_meta gate_transition) auto
  have p: "accepted_gate m \<Longrightarrow> accepted_gate (set_meta ''rejected_for_replan_at'' y (set_meta ''rejection_reason'' x
      (try_transition MissionState.Replanning m)))" for m x y
    by (intro gate_set_meta gate_transition) auto
  have "keeps gate_db (st_then (api_store (update_mission m)) (\<lambda>_ db1. (emit now i ty db1, r)))"
    if "accepted_gate m" for m now ty and r :: "(RejectMissionResponse, api_error) result"
    by (intro keeps_then gate_api_write that keeps_result gate_emit)
  note w = keepsD [OF this]
  have "keeps gate_db (st_then (api_mission i) (\<lambda>m db.
       if m_state m = MissionState.Integrated
       then (db, Err (CONFLICT, ''Cannot reject an already-integrated mission''))
       else if m_state m \<noteq> MissionState.AwaitingAcceptance \<and> m_state m \<noteq> MissionState.Accepted
       then (db, Err (CONFLICT, ''Cannot reject mission''))
       else if rq_continue_mission req = Some True
       then (let m1 = set_meta ''rejected_for_replan_at'' (JStr (now_text env))
                        (set_meta ''rejection_reason'' (JStr (rq_reason req))
                          (try_transition MissionState.Replanning m));
                 m2 = m1\<lparr>m_budget_consumed := (m_budget_consumed m1)\<lparr>planner_iterations :=
                          planner_iterations (m_budget_consumed m1) + 1\<rparr>\<rparr>
             in st_then (api_store (update_mission m2)) (\<lambda>_ db1.
                  (emit (se_now env) i ''mission_rejected_for_replan'' db1,
                   Ok \<lparr>rr_mission_id = i, rr_state = MissionState.Replanning, rr_rejected_at = now_text env,
                       rr_reason = rq_reason req, rr_will_replan = True\<rparr>)) db)
       else (let m1 = set_meta ''rejection_reason'' (JStr (rq_reason req))
                        (set_meta ''rejected_at'' (JStr (now_text env))
                          (set_meta ''rejected'' (JBool True) (try_transition MissionState.Rejected m)))
             in st_then (api_store (update_mission m1)) (\<lambda>_ db1.
                  (emit (se_now env) i ''mission_rejected'' db1,
                   Ok \<lparr>rr_mission_id = i, rr_state = MissionState.Rejected, rr_rejected_at = now_text env,
                       rr_reason = rq_reason req, rr_will_replan = False\<rparr>)) db)))"
    by (rule gate_api_find, rule keepsI) (auto simp: Let_def intro!: w gate_counter r p)
  from keepsD [OF this] show ?thesis by (intro keepsI) (auto simp: reject_mission_def)
qed

lemma gate_past: "accepted_gate m \<Longrightarrow> m_state m = MissionState.Accepted \<or> m_state m = MissionState.Completed \<Longrightarrow>
    past_acceptance (m_state m)"
  by (auto simp: accepted_gate_def past_acceptance_def)

lemma try_past: "past_acceptance (m_state m) \<Longrightarrow> past_acceptance st \<Longrightarrow> past_acceptance (m_state (try_transition st m))"
  by (simp add: try_transition_eq)

lemma past_simps [simp]:
  "past_acceptance MissionState.Accepted" "past_acceptance MissionState.Integrating" "past_acceptance MissionState.Integrated"
  by (simp_all add: past_acceptance_def)

lemma gate_intent:
  "accepted_gate m \<Longrightarrow> past_acceptance (m_state m) \<Longrightarrow>
     accepted_gate (integration_intent env m target commit expected) \<and>
     past_acceptance (m_state (integration_intent env m target commit expected))"
  unfolding integration_intent_def by (auto intro!: gate_set_meta gate_transition_past try_past)

lemma remove_meta_simps [simp]: "m_state (remove_meta k m) = m_state m" "m_id (remove_meta k m) = m_id m"
  "m_created_at (remove_meta k m) = m_created_at m" "m_workspace_id (remove_meta k m) = m_workspace_id m"
  "m_active_workflow_id (remove_meta k m) = m_active_workflow_id m"
  "m_latest_verified_commit (remove_meta k m) = m_latest_verified_commit m"
  by (simp_all add: remove_meta_def)

lemma gate_integrated:
  "accepted_gate m \<Longrightarrow> past_acceptance (m_state m) \<Longrightarrow> accepted_gate (integrated_mission env m target)"
  unfolding integrated_mission_def
  by (intro gate_remove_meta gate_set_meta gate_transition_past) simp_all

lemma gate_finish:
  assumes "accepted_gate m" "past_acceptance (m_state m)"
  shows "keeps gate_db (integration_finish env i m target commit summary)"
  unfolding integration_finish_def
  by (intro keeps_then gate_api_write gate_integrated assms keeps_result gate_emit)

lemma gate_rollback:
  assumes "accepted_gate m" "past_acceptance (m_state m)"
  shows "keeps gate_db (integration_rollback env i m err)"
  unfolding integration_rollback_def Let_def
  by (intro keeps_result gate_emit gate_update_mission gate_set_meta gate_transition_past assms) simp_all

lemma gate_locked: "keeps gate_db (integration_locked env i req)"
  unfolding integration_locked_def
proof (rule gate_api_find)
  fix m assume g: "accepted_gate m"
  let ?t = "case iq_target_branch req of Some b \<Rightarrow> b | None \<Rightarrow> ''main''"
  show "keeps gate_db (\<lambda>db. if m_state m = MissionState.Integrated then (db, Ok (already_integrated m))
    else if m_state m = MissionState.Integrating
    then (db, Err (CONFLICT, ''Cannot integrate mission: integration is currently in progress for this mission.''))
    else if m_state m \<noteq> MissionState.Accepted \<and> m_state m \<noteq> MissionState.Completed
    then (db, Err (CONFLICT, ''Cannot integrate mission: must be accepted''))
    else case m_latest_verified_commit m of
      None \<Rightarrow> (db, Err (CONFLICT, ''Cannot integrate mission: no verified commit recorded on disk''))
    | Some commit \<Rightarrow>
        if (case m_final_outcome m of Some out \<Rightarrow> \<not> o_success out | None \<Rightarrow> False)
        then (db, Err (CONFLICT, ''Cannot integrate mission: final outcome reports verification failure''))
        else let target = ?t;
                 expected = expected_head_of m req;
                 m1 = integration_intent env m target commit expected
             in st_then (api_store (update_mission m1)) (\<lambda>_ db1.
                  let db2 = emit (se_now env) i ''mission_integration_started'' db1 in
                  case physical_integration env m1 target commit (iq_commit_message req) expected db2 of
                    Ok summary \<Rightarrow> integration_finish env i m1 target commit summary db2
                  | Err err \<Rightarrow> integration_rollback env i m1 err db2) db)"
  proof (cases "m_state m = MissionState.Accepted \<or> m_state m = MissionState.Completed")
    case True
    note past = gate_past [OF g True]
    have k: "keeps gate_db (\<lambda>db1. let db2 = emit (se_now env) i ''mission_integration_started'' db1 in
        case physical_integration env (integration_intent env m t c e) t c (iq_commit_message req) e db2 of
          Ok summary \<Rightarrow> integration_finish env i (integration_intent env m t c e) t c summary db2
        | Err err \<Rightarrow> integration_rollback env i (integration_intent env m t c e) err db2)" for t c e
      using gate_intent [OF g past]
      by (intro keepsI) (auto simp: Let_def split: result.split
          intro: keepsD [OF gate_finish] keepsD [OF gate_rollback] gate_emit)
    have "keeps gate_db (st_then (api_store (update_mission (integration_intent env m t c e))) (\<lambda>_ db1.
        let db2 = emit (se_now env) i ''mission_integration_started'' db1 in
        case physical_integration env (integration_intent env m t c e) t c (iq_commit_message req) e db2 of
          Ok summary \<Rightarrow> integration_finish env i (integration_intent env m t c e) t c summary db2
        | Err err \<Rightarrow> integration_rollback env i (integration_intent env m t c e) err db2))" for t c e
      by (rule keeps_then [OF gate_api_write k]) (use gate_intent [OF g past] in simp)
    note kk = keepsD [OF this, unfolded Let_def]
    show ?thesis by (rule keepsI) (cases "m_latest_verified_commit m"; simp add: kk Let_def)
  qed (auto simp: keeps_def)
qed

lemma gate_canonical: "keeps gate_db (execute_canonical_integration env i req)"
  unfolding execute_canonical_integration_def
  by (rule gate_api_find, rule keepsI) (auto split: option.split intro: keepsD [OF gate_locked])

lemma gate_accepted_mission: "accepted_gate m \<Longrightarrow> accepted_gate (accepted_mission env req m)"
  unfolding accepted_mission_def Let_def
  by (auto split: option.split intro!: gate_accept gate_set_meta)

lemma gate_after_acceptance: "keeps gate_db (after_acceptance env i req commit)"
  unfolding after_acceptance_def Let_def
  by (rule keepsI) (auto intro!: keepsD [OF keeps_then [OF gate_canonical keeps_pure]] gate_emit)

lemma gate_accept_mission: "keeps gate_db (accept_mission env i req)"
proof -
  have w: "keeps gate_db (st_then (api_store (update_mission (accepted_mission env req m)))
      (\<lambda>_. after_acceptance env i req c))" if "accepted_gate m" for m c
    by (intro keeps_then gate_api_write gate_accepted_mission that gate_after_acceptance)
  show ?thesis unfolding accept_mission_def
    by (rule gate_api_find, rule keepsI) (auto split: option.split intro: keepsD [OF w])
qed

lemma gate_cli_accept: "keeps gate_db (cli_accept env i integrate branch message)"
proof -
  let ?iq = "\<lparr>iq_target_branch = branch, iq_commit_message = message, iq_expected_target_head = None, iq_force = None\<rparr>"
  have "keeps gate_db (st_then (cli_store (update_mission m)) (\<lambda>_ db1.
      if integrate then (case execute_canonical_integration env i ?iq db1 of
          (db2, Ok _) \<Rightarrow> (db2, Ok ()) | (db2, Err e) \<Rightarrow> (db2, Err (CliApi e)))
      else (db1, Ok ())))" if "accepted_gate m" for m
    by (intro keeps_then gate_cli_write that keepsI)
      (auto split: prod.split result.split, (metis fst_conv gate_canonical keepsD)+)
  note w = keepsD [OF this]
  show ?thesis unfolding cli_accept_def
    by (rule gate_cli_find, rule keepsI) (auto simp: Let_def intro!: w gate_accept gate_set_meta)
qed

lemma gate_cli_reject: "keeps gate_db (cli_reject env i why again)"
  unfolding cli_reject_def
  by (rule gate_cli_find, rule keepsI)
    (auto simp: Let_def intro!: keepsD [OF gate_cli_write] gate_counter gate_set_meta gate_transition)

lemma gate_resolve_integrating:
  "accepted_gate m \<Longrightarrow> m_state m = MissionState.Integrating \<Longrightarrow> accepted_gate (resolve_integrating env m db)"
  unfolding resolve_integrating_def Let_def
  by (auto intro!: gate_set_meta) (auto simp: accepted_gate_def)

lemma gate_reconcile: "gate_db db \<Longrightarrow> gate_db (reconcile_missions env db)"
proof -
  assume g: "gate_db db"
  have "\<forall>m \<in> set ms. accepted_gate m \<Longrightarrow> gate_db d \<Longrightarrow> gate_db (fold (reconcile_mission env) ms d)" for ms d
  proof (induction ms arbitrary: d)
    case (Cons m ms)
    have "gate_db (reconcile_mission env m d)" using Cons.prems
      by (auto simp: reconcile_mission_def intro!: gate_emit gate_update_mission gate_resolve_integrating)
    then show ?case using Cons by simp
  qed simp
  moreover have "\<forall>m \<in> set (list_missions db). accepted_gate m" using g by (simp add: list_missions_def gate_db_def)
  ultimately show ?thesis using g by (simp add: reconcile_missions_def)
qed

section \<open>Workspaces\<close>

text \<open>A deleted workspace is cleared from its missions, which keep their state and metadata.\<close>

lemma gate_workspaces:
  "gate_db db \<Longrightarrow> gate_db (fst (create_workspace ws db))" "gate_db db \<Longrightarrow> gate_db (fst (update_workspace ws db))"
  "gate_db db \<Longrightarrow> gate_db (fst (delete_workspace i db))"
  by (auto simp: gate_db_def create_workspace_def update_workspace_def delete_workspace_def intro: gate_cong)

lemma gate_cli_integrate: "keeps gate_db (cli_integrate env i branch message)"
  by (rule keepsI) (auto simp: cli_integrate_def split: prod.split result.split, (metis fst_conv gate_canonical keepsD)+)

lemma gate_cli_engine: "keeps gated f \<Longrightarrow> keeps gated (cli_engine f)"
  by (auto simp: keeps_def cli_engine_def split: prod.split)

lemma gate_cli_workspace: "keeps gated (cli_workspace env p)"
proof (rule keepsI)
  fix s assume g: "gated s"
  have "keeps gated (cli_db (create_workspace w))" for w
    by (auto simp: keeps_def cli_db_def gated_def split: prod.split dest: gate_workspaces(1) [of _ w])
  then have "keeps gated (st_then (cli_db (create_workspace w)) (\<lambda>_ s1. (s1, Ok (ws_id w))))" for w
    by (intro keeps_then keeps_pure)
  from keepsD [OF this g] show "gated (fst (cli_workspace env p s))"
    using g by (simp add: cli_workspace_def Let_def split: option.split)
qed

lemma gate_cli_create_mission:
  "ensures gated (cli_engine (engine_create_mission env t objective w budget stopping)) accepted_gate"
proof (rule ensuresI)
  fix s assume g: "gated s"
  have "accepted_gate m" if "snd (engine_create_mission env t objective w budget stopping s) = Ok m" for m
    using that by (auto simp: engine_create_mission_def Let_def st_then.simps accepted_gate_def Mission_new_def
        past_acceptance_def split: prod.splits result.splits)
  then show "gated (fst (cli_engine (engine_create_mission env t objective w budget stopping) s)) \<and>
      (\<forall>m. snd (cli_engine (engine_create_mission env t objective w budget stopping) s) = Ok m \<longrightarrow> accepted_gate m)"
    using keepsD [OF gate_cli_engine [OF gate_create] g] by (auto simp: cli_engine_def map_err_eq_Ok split: prod.splits)
qed

lemma gate_cli_initial_commit: "accepted_gate m \<Longrightarrow> keeps gated (cli_initial_commit sha m)"
proof (rule keepsI)
  fix s assume m: "accepted_gate m" and g: "gated s"
  have "keeps gated (cli_db (update_mission (set_meta ''initial_commit'' c m)))" for c
    by (auto simp: keeps_def cli_db_def gated_def split: prod.split
        dest: gate_update_mission [OF _ gate_set_meta [OF m, of "''initial_commit''" c]])
  then have "keeps gated (st_then (cli_db (update_mission (set_meta ''initial_commit'' c m))) (\<lambda>_ s1. (s1, Ok r)))" for c and r :: Mission
    by (intro keeps_then keeps_pure)
  from keepsD [OF this g] show "gated (fst (cli_initial_commit sha m s))"
    using g by (simp add: cli_initial_commit_def Let_def split: option.split)
qed

lemma gate_cli_create: "keeps gated (cli_create env canonicalize head path objective title auto_start)"
proof (rule keepsI)
  fix s assume g: "gated s"
  have last: "keeps gated (if auto_start then cli_engine (start_mission env i) else (\<lambda>s1. (s1, r)))" for i r
    by (simp add: gate_cli_engine gate_start keeps_pure)
  have "keeps gated (st_then (cli_engine (engine_create_mission env t objective (Some w) None None)) (\<lambda>m.
      st_then (cli_initial_commit sha m) (\<lambda>m1.
        if auto_start then cli_engine (start_mission env (m_id m1)) else (\<lambda>s1. (s1, Ok m1)))))" for t w sha
    by (rule ensures_keeps [OF ensures_then [OF gate_cli_create_mission, where R = "\<lambda>_. True"]])
      (use keeps_then [OF gate_cli_initial_commit last] in \<open>auto simp: ensures_def keeps_def\<close>)
  note k = keeps_then [OF gate_cli_workspace this]
  show "gated (fst (cli_create env canonicalize head path objective title auto_start s))"
    using g keepsD [OF k g] by (simp add: cli_create_def Let_def split: option.split)
qed

section \<open>The step relation\<close>

text \<open>One operation on the missions and workspaces of a running server, with any environment and
any request. A command of the command line runs in a process of its own on the same store. The
rules on workspaces are the methods of the store that the handlers of routes.rs and the init
command call. The last rule covers every operation outside the mission and workspace tables.\<close>

inductive mission_op :: "MissionEngine \<Rightarrow> MissionEngine \<Rightarrow> bool" where
  create: "mission_op s (fst (create_mission_route env head req s))"
| start: "mission_op s (fst (start_mission env i s))"
| pause: "mission_op s (fst (pause_mission env i s))"
| cancel: "mission_op s (fst (cancel_mission env i s))"
| escalate: "mission_op s (fst (escalate_human env i why s))"
| resolve: "mission_op s (fst (resolve_escalation env i decision s))"
| step: "exec_frame env \<Longrightarrow> mission_op s (fst (step_mission env i s))"
| accept: "mission_op s (s\<lparr>en_store := fst (accept_mission senv i areq (en_store s))\<rparr>)"
| reject: "mission_op s (s\<lparr>en_store := fst (reject_mission senv i rreq (en_store s))\<rparr>)"
| integrate: "mission_op s (s\<lparr>en_store := fst (execute_canonical_integration senv i ireq (en_store s))\<rparr>)"
| cli_accept: "mission_op s (s\<lparr>en_store := fst (cli_accept senv i now branch message (en_store s))\<rparr>)"
| cli_reject: "mission_op s (s\<lparr>en_store := fst (cli_reject senv i why again (en_store s))\<rparr>)"
| cli_integrate: "mission_op s (s\<lparr>en_store := fst (cli_integrate senv i branch message (en_store s))\<rparr>)"
| cli_create: "mission_op s (s\<lparr>en_store := en_store (fst (cli_create env canonicalize head path objective title
    auto_start \<lparr>en_store = en_store s, en_running = []\<rparr>))\<rparr>)"
| new_workspace: "mission_op s (s\<lparr>en_store := fst (create_workspace ws (en_store s))\<rparr>)"
| change_workspace: "mission_op s (s\<lparr>en_store := fst (update_workspace ws (en_store s))\<rparr>)"
| drop_workspace: "mission_op s (s\<lparr>en_store := fst (delete_workspace i (en_store s))\<rparr>)"
| leave: "mission_op s (unmark_running i s)"
| restart: "mission_op s \<lparr>en_store = reconcile_missions renv (en_store s), en_running = []\<rparr>"
| other: "mission_frame (en_store s) db \<Longrightarrow> mission_op s (s\<lparr>en_store := db\<rparr>)"

inductive reachable_missions :: "MissionEngine \<Rightarrow> bool" where
  init: "reachable_missions \<lparr>en_store = db_empty, en_running = []\<rparr>"
| step: "reachable_missions s \<Longrightarrow> mission_op s s' \<Longrightarrow> reachable_missions s'"

lemma mission_op_gate: "mission_op s s' \<Longrightarrow> gated s \<Longrightarrow> gated s'"
proof (induction rule: mission_op.induct)
  case (other s db) then show ?case by (simp add: gated_def gate_frame)
next
  case (restart s renv) then show ?case by (simp add: gated_def gate_reconcile)
next
  case (cli_create s env canonicalize head path objective title auto_start)
  then have "gated \<lparr>en_store = en_store s, en_running = []\<rparr>" by (simp add: gated_def)
  from keepsD [OF gate_cli_create this] show ?case by (simp add: gated_def)
qed (auto simp: gated_def intro: keepsD [OF gate_accept_mission] keepsD [OF gate_reject] keepsD [OF gate_canonical]
    keepsD [OF gate_cli_accept] keepsD [OF gate_cli_reject] keepsD [OF gate_cli_integrate] gate_workspaces
    intro!: keepsD [OF gate_create_route, unfolded gated_def] keepsD [OF gate_start, unfolded gated_def]
      keepsD [OF gate_pause, unfolded gated_def] keepsD [OF gate_cancel, unfolded gated_def]
      keepsD [OF gate_escalate, unfolded gated_def] keepsD [OF gate_resolve, unfolded gated_def]
      keepsD [OF gate_step, unfolded gated_def])

lemma reachable_missions_gate: "reachable_missions s \<Longrightarrow> gated s"
  by (induction rule: reachable_missions.induct) (auto simp: gated_def gate_db_def db_empty_def dest: mission_op_gate)

end
