(* ===== verification/Mission_Decisions.thy ===== *)
theory Mission_Decisions
  imports Mission_Gate
begin

text \<open>The behaviour of the human decisions and of the startup reconciliation on a stored
mission: what a successful integration did, the rollback after a refused one, the
serialisation under the workspace lock, rejection, and the resolution of missions
found integrating.\<close>

section \<open>Stored missions\<close>

lemma api_store_Ok:
  "api_store (update_mission m) db = (db1, Ok ()) \<longleftrightarrow> update_mission m db = (db1, Ok ())"
  by (auto simp: api_store_def split: prod.splits)

lemma get_mission_emit_db [simp]: "get_mission j (emit now i ty db) = get_mission j db"
  by (rule mission_frame_get [OF emit_frame])

lemma refs_emit [simp]: "mission_refs_ok m (emit now i ty db) = mission_refs_ok m db"
  by (simp add: emit_def append_event_def mission_refs_ok_def)

lemma update_Ok_stored:
  assumes "update_mission m1 db = (db1, Ok ())" "get_mission (m_id m1) db = Some m" "m_created_at m1 = m_created_at m"
  shows "get_mission (m_id m1) db1 = Some m1" "mission_refs_ok m1 db1"
    "\<And>q. mission_refs_ok q db1 = mission_refs_ok q db"
    "\<And>j. j \<noteq> m_id m1 \<Longrightarrow> get_mission j db1 = get_mission j db"
proof -
  have h: "tbl_has m_id (m_id m1) (db_missions db)"
    using assms(2) unfolding get_mission_def by (metis option.distinct(1) tbl_get_None)
  have r: "mission_refs_ok m1 db" using assms(1) h by (auto simp: update_mission_def split: if_splits)
  have db1: "db1 = db\<lparr>db_missions := tbl_modify m_id (m_id m1) (\<lambda>r. m1\<lparr>m_created_at := m_created_at r\<rparr>) (db_missions db)\<rparr>"
    using assms(1) r by (simp add: update_mission_Ok)
  show q: "mission_refs_ok q db1 = mission_refs_ok q db" for q by (simp add: db1 mission_refs_ok_def)
  show "mission_refs_ok m1 db1" by (simp add: q r)
  show "get_mission (m_id m1) db1 = Some m1" "\<And>j. j \<noteq> m_id m1 \<Longrightarrow> get_mission j db1 = get_mission j db"
    using get_mission_update [of _ m1 db] assms by auto
qed

lemma intent_simps [simp]:
  "m_id (integration_intent env m t c e) = m_id m" "m_created_at (integration_intent env m t c e) = m_created_at m"
  "m_workspace_id (integration_intent env m t c e) = m_workspace_id m"
  "m_latest_verified_commit (integration_intent env m t c e) = m_latest_verified_commit m"
  "mission_refs_ok (integration_intent env m t c e) db = mission_refs_ok m db"
  "m_state m \<in> {MissionState.Accepted, MissionState.Completed} \<Longrightarrow>
     m_state (integration_intent env m t c e) = MissionState.Integrating"
  by (auto simp: integration_intent_def try_transition_eq mission_refs_ok_def MissionState_can_transition_to_def)

lemma integrated_simps [simp]:
  "m_id (integrated_mission env m t) = m_id m" "m_created_at (integrated_mission env m t) = m_created_at m"
  "m_latest_verified_commit (integrated_mission env m t) = m_latest_verified_commit m"
  "m_state m = MissionState.Integrating \<Longrightarrow> m_state (integrated_mission env m t) = MissionState.Integrated"
  by (auto simp: integrated_mission_def try_transition_eq MissionState_can_transition_to_def)

section \<open>Integration\<close>

lemma integration_finish_Ok:
  assumes "integration_finish env i m t c summary db = (db', Ok r)" "get_mission (m_id m) db = Some m0"
    "m_created_at m = m_created_at m0" "m_state m = MissionState.Integrating" "m_id m = i"
  shows "get_mission i db' = Some (integrated_mission env m t) \<and> ir_verified_commit r = c \<and>
    ir_already_integrated r = Some False \<and> ir_integration_summary r = summary"
proof -
  obtain db1 where u: "update_mission (integrated_mission env m t) db = (db1, Ok ())"
    and r: "db' = emit (se_now env) i ''mission_integrated'' (emit (se_now env) i ''mission_integration_succeeded'' db1)"
      "ir_verified_commit r = c" "ir_already_integrated r = Some False" "ir_integration_summary r = summary"
    using assms(1) by (auto simp: integration_finish_def st_then_Ok api_store_Ok)
  have "get_mission (m_id (integrated_mission env m t)) db1 = Some (integrated_mission env m t)"
    by (rule update_Ok_stored(1) [OF u]) (use assms(2,3) in simp_all)
  then show ?thesis using r assms(5) by simp
qed

definition final_failure :: "Mission \<Rightarrow> bool" where
  "final_failure m = (case m_final_outcome m of Some out \<Rightarrow> \<not> o_success out | None \<Rightarrow> False)"

definition target_of :: "IntegrateMissionRequest \<Rightarrow> string" where
  "target_of req = (case iq_target_branch req of Some b \<Rightarrow> b | None \<Rightarrow> ''main'')"

text \<open>The critical section on a mission that may be integrated, as an equation.\<close>

lemma integration_locked_eq:
  assumes "get_mission i db = Some m" "m_state m \<in> {MissionState.Accepted, MissionState.Completed}"
    "m_latest_verified_commit m = Some c" "\<not> final_failure m"
  shows "integration_locked env i req db =
    (let e = expected_head_of m req; m1 = integration_intent env m (target_of req) c e in
     st_then (api_store (update_mission m1)) (\<lambda>_ db1.
       let db2 = emit (se_now env) i ''mission_integration_started'' db1 in
       case physical_integration env m1 (target_of req) c (iq_commit_message req) e db2 of
         Ok summary \<Rightarrow> integration_finish env i m1 (target_of req) c summary db2
       | Err err \<Rightarrow> integration_rollback env i m1 err db2) db)"
  using assms(2) assms(4) [unfolded final_failure_def]
  unfolding integration_locked_def target_of_def st_then.simps [of "api_mission i"] api_mission_def Let_def
  by (auto simp: assms(1,3))

lemma integration_locked_blocked:
  assumes "integration_locked env i req db = (db', Ok r)" "get_mission i db = Some m"
    "m_state m \<noteq> MissionState.Integrated"
  shows "m_state m \<in> {MissionState.Accepted, MissionState.Completed} \<and> \<not> final_failure m \<and>
    (\<exists>c. m_latest_verified_commit m = Some c)"
  using assms
  by (auto simp: integration_locked_def st_then.simps [of "api_mission i"] api_mission_def final_failure_def
      split: if_splits option.splits)

lemma integration_locked_Ok:
  assumes "integration_locked env i req db = (db', Ok r)" "get_mission i db = Some m"
    "m_state m \<noteq> MissionState.Integrated"
  obtains c db2 m1 where "m_state m \<in> {MissionState.Accepted, MissionState.Completed}"
    "m_latest_verified_commit m = Some c" "\<not> final_failure m"
    "m1 = integration_intent env m (target_of req) c (expected_head_of m req)"
    "physical_integration env m1 (target_of req) c (iq_commit_message req) (expected_head_of m req) db2 =
       Ok (ir_integration_summary r)"
    "db_workspaces db2 = db_workspaces db"
    "get_mission i db' = Some (integrated_mission env m1 (target_of req))"
    "ir_verified_commit r = c" "ir_already_integrated r = Some False"
proof -
  obtain c where c: "m_latest_verified_commit m = Some c" and st: "m_state m \<in> {MissionState.Accepted, MissionState.Completed}"
    and nf: "\<not> final_failure m" using integration_locked_blocked [OF assms] by blast
  let ?e = "expected_head_of m req"
  let ?m1 = "integration_intent env m (target_of req) c ?e"
  have id: "m_id m = i" by (rule get_mission_id [OF assms(2)])
  obtain db1 where u: "update_mission ?m1 db = (db1, Ok ())"
    and k: "(case physical_integration env ?m1 (target_of req) c (iq_commit_message req) ?e
              (emit (se_now env) i ''mission_integration_started'' db1) of
         Ok summary \<Rightarrow> integration_finish env i ?m1 (target_of req) c summary (emit (se_now env) i ''mission_integration_started'' db1)
       | Err err \<Rightarrow> integration_rollback env i ?m1 err (emit (se_now env) i ''mission_integration_started'' db1)) = (db', Ok r)"
    using assms(1) integration_locked_eq [OF assms(2) st c nf] by (auto simp: Let_def st_then_Ok api_store_Ok)
  let ?db2 = "emit (se_now env) i ''mission_integration_started'' db1"
  have g: "get_mission (m_id ?m1) ?db2 = Some ?m1"
    using update_Ok_stored(1) [OF u] assms(2) id by simp
  obtain summary where p: "physical_integration env ?m1 (target_of req) c (iq_commit_message req) ?e ?db2 = Ok summary"
    and f: "integration_finish env i ?m1 (target_of req) c summary ?db2 = (db', Ok r)"
    using k by (auto simp: integration_rollback_def Let_def split: result.splits)
  have fin: "get_mission i db' = Some (integrated_mission env ?m1 (target_of req)) \<and> ir_verified_commit r = c \<and>
      ir_already_integrated r = Some False \<and> ir_integration_summary r = summary"
    by (rule integration_finish_Ok [OF f g]) (use st id in auto)
  have ws: "db_workspaces ?db2 = db_workspaces db"
    using u by (auto simp: update_mission_def emit_def append_event_def split: if_splits)
  show thesis by (rule that [OF st c nf refl _ ws]) (use p fin in auto)
qed

lemma integration_refused:
  assumes "get_mission i db = Some m" "m_state m \<in> {MissionState.Accepted, MissionState.Completed}"
    "m_latest_verified_commit m = Some c" "\<not> final_failure m" "missions_ok db"
    "m_workspace_id m = Some w" "get_workspace w db = Some ws"
    "se_integrate env (ws_canonical_path ws) (target_of req) c (iq_commit_message req) (expected_head_of m req) = Err err"
  obtains db' m' where "integration_locked env i req db = (db', Err (git_error_status err, ''Git integration rejected: '' @ err))"
    "get_mission i db' = Some m'" "m_state m' = MissionState.Accepted" "m_latest_verified_commit m' = Some c"
proof -
  let ?e = "expected_head_of m req"
  let ?m1 = "integration_intent env m (target_of req) c ?e"
  let ?m2 = "set_meta ''integration_error'' (JStr err) (try_transition MissionState.Accepted ?m1)"
  have id: "m_id m = i" by (rule get_mission_id [OF assms(1)])
  have rf: "mission_refs_ok ?m1 db" using missions_ok_get [OF assms(5,1)] by simp
  obtain db1 where u: "update_mission ?m1 db = (db1, Ok ())" using update_mission_Ok [OF rf] by blast
  have g1: "get_mission (m_id ?m1) db1 = Some ?m1"
    by (rule update_Ok_stored(1) [OF u]) (use assms(1) id in simp_all)
  let ?db2 = "emit (se_now env) i ''mission_integration_started'' db1"
  have "db_workspaces ?db2 = db_workspaces db"
    using u by (auto simp: update_mission_def emit_def append_event_def split: if_splits)
  then have p: "physical_integration env ?m1 (target_of req) c (iq_commit_message req) ?e ?db2 = Err err"
    using assms(6-8) by (simp add: physical_integration_def get_workspace_def)
  have r2: "mission_refs_ok ?m2 ?db2"
  proof -
    have "mission_refs_ok ?m2 d = mission_refs_ok ?m1 d" for d
      by (simp add: mission_refs_ok_def set_meta_def try_transition_eq)
    then show ?thesis using update_Ok_stored(2) [OF u, of m] assms(1) id by simp
  qed
  have "update_mission ?m2 ?db2 = (fst (update_mission ?m2 ?db2), Ok ())"
    using update_mission_Ok [OF r2] by simp
  then have g2: "get_mission (m_id ?m2) (fst (update_mission ?m2 ?db2)) = Some ?m2"
    by (rule update_Ok_stored(1) [where m = ?m1]) (use g1 id in \<open>simp_all add: try_transition_eq\<close>)
  have idm: "m_id ?m2 = i" using id by (simp add: try_transition_eq)
  have "integration_locked env i req db =
      (emit (se_now env) i ''mission_integration_failed'' (fst (update_mission ?m2 ?db2)),
       Err (git_error_status err, ''Git integration rejected: '' @ err))"
    using integration_locked_eq [OF assms(1-4)] u p
    by (simp add: Let_def st_then.simps api_store_def integration_rollback_def)
  then show thesis
    by (rule that [of _ ?m2]) (use g2 idm assms(2,3) in \<open>auto simp: try_transition_eq MissionState_can_transition_to_def\<close>)
qed

text \<open>A request that enters the critical section after a successful one finds the mission
integrated and changes nothing.\<close>

lemma integration_locked_again:
  assumes "integration_locked env i req db = (db1, Ok r)" "get_mission i db = Some m"
  shows "\<exists>m1. get_mission i db1 = Some m1 \<and> m_state m1 = MissionState.Integrated \<and>
    integration_locked env' i req' db1 = (db1, Ok (already_integrated m1))"
proof -
  have again: "integration_locked env' i req' d = (d, Ok (already_integrated q))"
    if "get_mission i d = Some q" "m_state q = MissionState.Integrated" for d q
    using that by (simp add: integration_locked_def st_then.simps api_mission_def)
  show ?thesis
  proof (cases "m_state m = MissionState.Integrated")
    case True
    then have "db1 = db" using assms by (auto simp: integration_locked_def st_then_Ok api_mission_def)
    then show ?thesis using again assms(2) True by blast
  next
    case False
    obtain c m1 where "m_state m \<in> {MissionState.Accepted, MissionState.Completed}"
      "m1 = integration_intent env m (target_of req) c (expected_head_of m req)"
      "get_mission i db1 = Some (integrated_mission env m1 (target_of req))"
      by (rule integration_locked_Ok [OF assms False])
    then show ?thesis using again by auto
  qed
qed

section \<open>Rejection\<close>

lemma reject_mission_Ok:
  assumes "reject_mission env i req db = (db', Ok r)" "get_mission i db = Some m"
  obtains m' where "m_state m = MissionState.AwaitingAcceptance \<or> m_state m = MissionState.Accepted"
    "get_mission i db' = Some m'"
    "m_state m' = m_state (try_transition (rr_state r) m)"
    "rr_state r = (if rq_continue_mission req = Some True then MissionState.Replanning else MissionState.Rejected)"
    "m_latest_verified_commit m' = m_latest_verified_commit m" "m_final_outcome m' = m_final_outcome m"
proof -
  have id: "m_id m = i" by (rule get_mission_id [OF assms(2)])
  have e: "st_then (api_mission i) f db = f m db" for f :: "Mission \<Rightarrow> (Db, RejectMissionResponse, api_error) op"
    using assms(2) by (simp add: st_then.simps api_mission_def)
  note a = assms(1) [unfolded reject_mission_def e Let_def]
  have st: "m_state m = MissionState.AwaitingAcceptance \<or> m_state m = MissionState.Accepted"
    using a by (auto split: if_splits)
  have "\<exists>m' db1 ty st. update_mission m' db = (db1, Ok ()) \<and> db' = emit (se_now env) i ty db1 \<and> m_id m' = i \<and>
      m_created_at m' = m_created_at m \<and> m_state m' = m_state (try_transition st m) \<and> rr_state r = st \<and>
      st = (if rq_continue_mission req = Some True then MissionState.Replanning else MissionState.Rejected) \<and>
      m_latest_verified_commit m' = m_latest_verified_commit m \<and> m_final_outcome m' = m_final_outcome m"
  proof (cases "rq_continue_mission req = Some True")
    case True
    let ?m1 = "set_meta ''rejected_for_replan_at'' (JStr (now_text env)) (set_meta ''rejection_reason'' (JStr (rq_reason req))
      (try_transition MissionState.Replanning m))"
    let ?m2 = "?m1\<lparr>m_budget_consumed := (m_budget_consumed ?m1)\<lparr>planner_iterations := planner_iterations (m_budget_consumed ?m1) + 1\<rparr>\<rparr>"
    obtain db1 where "update_mission ?m2 db = (db1, Ok ())" "db' = emit (se_now env) i ''mission_rejected_for_replan'' db1"
      "rr_state r = MissionState.Replanning"
      using a True by (auto simp: st_then_Ok api_store_Ok split: if_splits)
    then show ?thesis using True id by (intro exI [of _ ?m2] exI conjI) (auto simp: try_transition_eq)
  next
    case False
    let ?m2 = "set_meta ''rejection_reason'' (JStr (rq_reason req)) (set_meta ''rejected_at'' (JStr (now_text env))
      (set_meta ''rejected'' (JBool True) (try_transition MissionState.Rejected m)))"
    obtain db1 where "update_mission ?m2 db = (db1, Ok ())" "db' = emit (se_now env) i ''mission_rejected'' db1"
      "rr_state r = MissionState.Rejected"
      using a False by (auto simp: st_then_Ok api_store_Ok split: if_splits)
    then show ?thesis using False id by (intro exI [of _ ?m2] exI conjI) (auto simp: try_transition_eq)
  qed
  then obtain m' db1 ty where u: "update_mission m' db = (db1, Ok ())" and m': "db' = emit (se_now env) i ty db1" "m_id m' = i"
      "m_created_at m' = m_created_at m" "m_state m' = m_state (try_transition (rr_state r) m)"
      "rr_state r = (if rq_continue_mission req = Some True then MissionState.Replanning else MissionState.Rejected)"
      "m_latest_verified_commit m' = m_latest_verified_commit m" "m_final_outcome m' = m_final_outcome m" by blast
  have "get_mission (m_id m') db1 = Some m'" by (rule update_Ok_stored(1) [OF u]) (use assms(2) m' in simp_all)
  then show thesis by (intro that [OF st, of m']) (use m' in simp_all)
qed

section \<open>Reconciliation\<close>

lemma resolve_simps [simp]:
  "m_id (resolve_integrating env m db) = m_id m" "m_created_at (resolve_integrating env m db) = m_created_at m"
  "m_latest_verified_commit (resolve_integrating env m db) = m_latest_verified_commit m"
  "mission_refs_ok (resolve_integrating env m db) d = mission_refs_ok m d"
  "m_state (resolve_integrating env m db) =
     (if commit_on_target env m db then MissionState.Integrated else MissionState.Accepted)"
  by (auto simp: resolve_integrating_def Let_def mission_refs_ok_def)

lemma reconcile_mission_frame:
  "db_workspaces (reconcile_mission env m db) = db_workspaces db"
  "j \<noteq> m_id m \<Longrightarrow> get_mission j (reconcile_mission env m db) = get_mission j db"
  "missions_ok db \<Longrightarrow> missions_ok (reconcile_mission env m db)"
proof -
  let ?u = "fst (update_mission (resolve_integrating env m db) db)"
  have "db_workspaces (emit n i ty d) = db_workspaces d" for n i ty d using emit_frame by (simp add: mission_frame_def)
  moreover have "db_workspaces ?u = db_workspaces db" by (simp add: update_mission_def)
  ultimately show "db_workspaces (reconcile_mission env m db) = db_workspaces db" by (simp add: reconcile_mission_def)
  show "j \<noteq> m_id m \<Longrightarrow> get_mission j (reconcile_mission env m db) = get_mission j db"
    by (simp add: reconcile_mission_def get_mission_update)
  show "missions_ok db \<Longrightarrow> missions_ok (reconcile_mission env m db)"
    by (simp add: reconcile_mission_def mission_frame_ok [OF emit_frame] missions_ok_update)
qed

lemma resolve_cong:
  "db_workspaces d = db_workspaces db \<Longrightarrow> resolve_integrating env m d = resolve_integrating env m db"
  by (simp add: resolve_integrating_def commit_on_target_def get_workspace_def)

definition resolved :: "ReconcileEnv \<Rightarrow> Db \<Rightarrow> Mission \<Rightarrow> Mission" where
  "resolved env db m = (if m_state m = MissionState.Integrating then resolve_integrating env m db else m)"

lemma reconcile_mission_self:
  assumes "get_mission (m_id m) db = Some m" "missions_ok db"
  shows "get_mission (m_id m) (reconcile_mission env m db) = Some (resolved env db m)"
proof (cases "m_state m = MissionState.Integrating")
  case True
  have r: "mission_refs_ok (resolve_integrating env m db) db" using missions_ok_get [OF assms(2,1)] by simp
  have u: "update_mission (resolve_integrating env m db) db =
      (fst (update_mission (resolve_integrating env m db) db), Ok ())" using update_mission_Ok [OF r] by simp
  have "get_mission (m_id (resolve_integrating env m db)) (fst (update_mission (resolve_integrating env m db) db)) =
      Some (resolve_integrating env m db)"
    by (rule update_Ok_stored(1) [OF u, of m]) (use assms(1) in simp_all)
  then show ?thesis using True by (simp add: reconcile_mission_def resolved_def)
qed (use assms in \<open>simp add: reconcile_mission_def resolved_def\<close>)

lemma reconcile_fold:
  assumes "missions_ok d" "distinct (map m_id ms)" "\<forall>m \<in> set ms. get_mission (m_id m) d = Some m"
    "db_workspaces d = db_workspaces db"
  shows "get_mission j (fold (reconcile_mission env) ms d) =
    (if j \<in> m_id ` set ms then map_option (resolved env db) (get_mission j d) else get_mission j d)"
  using assms
proof (induction ms arbitrary: d)
  case (Cons m ms)
  let ?d = "reconcile_mission env m d"
  have self: "get_mission (m_id m) ?d = Some (resolved env db m)"
    using reconcile_mission_self [of m d env] Cons.prems resolve_cong [of d db env m] by (simp add: resolved_def)
  have "get_mission j (fold (reconcile_mission env) ms ?d) =
    (if j \<in> m_id ` set ms then map_option (resolved env db) (get_mission j ?d) else get_mission j ?d)"
  proof (rule Cons.IH)
    show "\<forall>q \<in> set ms. get_mission (m_id q) ?d = Some q"
    proof
      fix q assume q: "q \<in> set ms"
      then have "m_id q \<noteq> m_id m" using Cons.prems(2) by (metis distinct.simps(2) image_eqI list.set_map list.simps(9))
      then show "get_mission (m_id q) ?d = Some q" using Cons.prems(3) q by (simp add: reconcile_mission_frame)
    qed
  qed (use Cons.prems reconcile_mission_frame in simp_all)
  moreover have "m_id m \<notin> m_id ` set ms" using Cons.prems(2) by simp
  ultimately show ?case using self Cons.prems(3) by (cases "j = m_id m") (auto simp: reconcile_mission_frame(2))
qed simp

lemma reconcile_missions_get:
  assumes "missions_ok db"
  shows "get_mission j (reconcile_missions env db) = map_option (resolved env db) (get_mission j db)"
proof -
  have d: "distinct (map m_id (db_missions db))" using assms by (simp add: missions_ok_def)
  have s: "distinct (map m_id (list_missions db))" using d by (simp add: list_missions_def distinct_map)
  have g: "\<forall>m \<in> set (list_missions db). get_mission (m_id m) db = Some m"
    using tbl_get_unique [OF d] by (simp add: list_missions_def get_mission_def)
  have n: "get_mission j db = None" if "j \<notin> m_id ` set (list_missions db)"
    using that by (simp add: list_missions_def get_mission_def tbl_get_None tbl_has_def)
  show ?thesis unfolding reconcile_missions_def using reconcile_fold [OF assms s g refl] n by auto
qed

end
