(* ===== verification/Mission_Properties.thy ===== *)
theory Mission_Properties
  imports Mission_Decisions
begin

text \<open>The properties of the mission engine and of the human decisions on a mission,
each with a concrete instance of its hypotheses.\<close>

section \<open>A small server\<close>

text \<open>An executor that leaves one verified task with a worktree and a commit, an
environment in which every check succeeds, and a mission without stopping checks.\<close>

definition demo_task :: "ident \<Rightarrow> Task" where
  "demo_task w = (Task_new 2 0 w ''t'')\<lparr>t_state := TaskState.Verified,
     t_metadata := JObj [(''commit_sha'', JStr ''c0ffee''), (''worktree_path'', JStr ''/w'')]\<rparr>"

definition demo_executor :: executor where
  "demo_executor w i db = (fst (create_task (demo_task w) db), Ok \<lparr>su_executed_tasks_count = 1,
     su_completed_tasks_count = 1, su_failed_tasks_count = 0, su_discovered_tasks_count = 0, su_active_executions = []\<rparr>)"

definition demo_env :: MissionEnv where
  "demo_env = \<lparr>env_now = 5, env_executor = Some demo_executor, env_path_exists = (\<lambda>_. True),
     env_git_rev_parse = (\<lambda>_. Some (True, ''c0ffee'')), env_git_status = (\<lambda>_. Some ''''),
     env_cargo_test = (\<lambda>_. Some True), env_run = (\<lambda>_ _. Some True)\<rparr>"

definition idle_env :: MissionEnv where
  "idle_env = demo_env\<lparr>env_executor := None\<rparr>"

definition demo_senv :: ServerEnv where
  "demo_senv = \<lparr>se_now = 9, se_rfc3339 = (\<lambda>_. ''now''), se_integrate = (\<lambda>_ _ _ _ _. Ok ''done'')\<rparr>"

definition demo_request :: CreateMissionRequest where
  "demo_request = \<lparr>cq_title = ''t'', cq_objective = ''o'', cq_workspace_id = None, cq_budget = None,
     cq_stopping_condition = Some \<lparr>required_tests_pass = False, working_tree_clean = False,
       required_commit_exists = True, custom_verifier = None\<rparr>,
     cq_backend = None, cq_metadata = None\<rparr>"

definition created :: MissionEngine where
  "created = fst (create_mission_route demo_env (\<lambda>_. None) demo_request \<lparr>en_store = db_empty, en_running = []\<rparr>)"

definition running :: MissionEngine where
  "running = fst (start_mission demo_env 1 created)"

definition stepped :: MissionEngine where
  "stepped = fst (step_mission demo_env 1 running)"

definition accept_request :: AcceptMissionRequest where
  "accept_request = \<lparr>aq_feedback = None, aq_integrate = None, aq_target_branch = None, aq_commit_message = None,
     aq_expected_target_head = None, aq_force = None\<rparr>"

definition accepted :: MissionEngine where
  "accepted = stepped\<lparr>en_store := fst (accept_mission demo_senv 1 accept_request (en_store stepped))\<rparr>"

abbreviation mission_rows :: "MissionEngine \<Rightarrow> (ident \<times> MissionState \<times> StoppingCondition) list" where
  "mission_rows s \<equiv> map (\<lambda>m. (m_id m, m_state m, m_stopping_condition m)) (db_missions (en_store s))"

definition demo_condition :: StoppingCondition where
  "demo_condition = the (cq_stopping_condition demo_request)"

lemma mission_demo_rows:
  "mission_rows running = [(1, MissionState.Planning, demo_condition)]"
  "mission_rows accepted = [(1, MissionState.Accepted, demo_condition)]"
  by code_simp+

lemma one_row:
  assumes "mission_rows s = [(i, st, c)]"
  obtains m where "db_missions (en_store s) = [m]" "get_mission i (en_store s) = Some m" "m_id m = i"
    "m_state m = st" "m_stopping_condition m = c"
  using assms by (cases "db_missions (en_store s)") (auto simp: get_mission_def tbl_get_def)

lemma running_ok: "missions_ok (en_store running)" by code_simp

lemma demo_frame: "exec_frame demo_env"
  using mission_frame_store
  by (auto simp: exec_frame_def demo_env_def demo_executor_def mission_frame_def create_task_def insert_task_row_def)

lemma demo_reachable: "reachable_missions created" "reachable_missions running" "reachable_missions stepped"
  "reachable_missions accepted"
proof -
  show 1: "reachable_missions created"
    unfolding created_def by (rule reachable_missions.step [OF reachable_missions.init mission_op.create])
  show 2: "reachable_missions running"
    unfolding running_def by (rule reachable_missions.step [OF 1 mission_op.start])
  show 3: "reachable_missions stepped"
    unfolding stepped_def by (rule reachable_missions.step [OF 2 mission_op.step [OF demo_frame]])
  show "reachable_missions accepted"
    unfolding accepted_def by (rule reachable_missions.step [OF 3 mission_op.accept])
qed

section \<open>The human gate\<close>

text \<open>The life of a mission of the command line: it is created for a repository without a
workspace, which makes one, and started; a step verifies it; it is accepted with integration,
which git performs in the workspace; at last the workspace is deleted.\<close>

definition cli_started :: MissionEngine where
  "cli_started = \<lparr>en_store = en_store (fst (cli_create demo_env Some (\<lambda>_. Some ''base'') ''/r/app'' ''do it'' None True
     \<lparr>en_store = db_empty, en_running = []\<rparr>)), en_running = []\<rparr>"

definition cli_stepped :: MissionEngine where
  "cli_stepped = fst (step_mission demo_env 1 cli_started)"

definition cli_shipped :: MissionEngine where
  "cli_shipped = cli_stepped\<lparr>en_store := fst (cli_accept demo_senv 1 True None None (en_store cli_stepped))\<rparr>"

definition cli_forgotten :: MissionEngine where
  "cli_forgotten = cli_shipped\<lparr>en_store := fst (delete_workspace 1 (en_store cli_shipped))\<rparr>"

lemma cli_rows:
  "map (\<lambda>m. (m_state m, m_workspace_id m)) (db_missions (en_store cli_started)) = [(MissionState.Planning, Some 1)]"
  "map ws_name (db_workspaces (en_store cli_started)) = [''app'']"
  "map (\<lambda>m. (m_state m, m_workspace_id m)) (db_missions (en_store cli_shipped)) = [(MissionState.Integrated, Some 1)]"
  "map (\<lambda>m. (m_state m, m_workspace_id m)) (db_missions (en_store cli_forgotten)) = [(MissionState.Integrated, None)]"
  by code_simp+

lemma cli_reachable: "reachable_missions cli_forgotten"
proof -
  have 1: "reachable_missions cli_started"
    using reachable_missions.step [OF reachable_missions.init mission_op.cli_create
        [of _ demo_env Some "\<lambda>_. Some ''base''" "''/r/app''" "''do it''" None True]]
    by (simp add: cli_started_def)
  have 2: "reachable_missions cli_stepped"
    unfolding cli_stepped_def by (rule reachable_missions.step [OF 1 mission_op.step [OF demo_frame]])
  have 3: "reachable_missions cli_shipped"
    unfolding cli_shipped_def by (rule reachable_missions.step [OF 2 mission_op.cli_accept])
  show ?thesis
    unfolding cli_forgotten_def by (rule reachable_missions.step [OF 3 mission_op.drop_workspace])
qed

text \<open>C2: whatever operations the engine, the handlers of missions and workspaces, the commands
create, accept, reject and integrate of the command line and restarts perform, in any order, a
mission that is accepted, integrating or integrated has the entry accepted = true in its
metadata. An acceptance writes the entry; a client that creates a mission over HTTP may have
written it too.\<close>

theorem human_gate:
  assumes "reachable_missions s" "m \<in> set (db_missions (en_store s))"
    "m_state m \<in> {MissionState.Accepted, MissionState.Integrating, MissionState.Integrated}"
  shows "json_get ''accepted'' (m_metadata m) = Some (JBool True)"
  using reachable_missions_gate [OF assms(1)] assms(2,3)
  by (auto simp: gated_def gate_db_def accepted_gate_def past_acceptance_def)

theorem human_gate_witness:
  "\<exists>m. db_missions (en_store cli_forgotten) = [m] \<and> m_state m = MissionState.Integrated \<and>
     json_get ''accepted'' (m_metadata m) = Some (JBool True)"
proof -
  obtain m where m: "db_missions (en_store cli_forgotten) = [m]" "m_state m = MissionState.Integrated"
    using cli_rows(4) by auto
  then show ?thesis using human_gate [OF cli_reachable, of m] by simp
qed

text \<open>C12: a step never accepts or integrates a mission, and a step that newly makes it
await acceptance has just evaluated its stopping condition as satisfied.\<close>

theorem step_never_accepts:
  assumes "step_mission env i s = (s', Ok m')" "get_mission i (en_store s) = Some m"
    "missions_ok (en_store s)" "exec_frame env"
  shows "(past_acceptance (m_state m') \<longrightarrow> m_state m' = m_state m) \<and>
    (m_state m' = MissionState.AwaitingAcceptance \<longrightarrow> m_state m \<noteq> MissionState.AwaitingAcceptance \<longrightarrow>
       (\<exists>path. fst (evaluate_stopping_condition env path (m_stopping_condition m))))"
  using assms
proof (cases rule: step_mission_cases)
  case (exhausted why)
  have "m_state m' = m_state (try_transition MissionState.BudgetExhausted m)"
    by (subst halt_exhausted_Ok(1) [OF exhausted(2)]) simp
  then show ?thesis by (auto simp: try_transition_state past_acceptance_def split: if_splits)
qed (auto simp: past_acceptance_def awaiting_mission_def started_def stagnated_def replanned_def try_transition_state
    MissionState_can_transition_to_def split: if_splits)

theorem step_never_accepts_witness:
  "\<exists>path. fst (evaluate_stopping_condition demo_env path demo_condition)"
proof -
  obtain m where m: "get_mission 1 (en_store running) = Some m" "m_state m = MissionState.Planning"
    "m_stopping_condition m = demo_condition" using one_row [OF mission_demo_rows(1)] by metis
  have "map_option m_state (case snd (step_mission demo_env 1 running) of Ok m' \<Rightarrow> Some m' | Err _ \<Rightarrow> None) =
      Some MissionState.AwaitingAcceptance" by code_simp
  then obtain m' where "step_mission demo_env 1 running = (stepped, Ok m')" "m_state m' = MissionState.AwaitingAcceptance"
    by (cases "snd (step_mission demo_env 1 running)") (auto simp: stepped_def prod_eq_iff)
  then show ?thesis using step_never_accepts [OF _ m(1) running_ok demo_frame] m by simp
qed

section \<open>Budgets and liveness\<close>

text \<open>C18: without an executor a step takes no counter of the mission past its limit: the
comparison made before the step and the increments made after it agree at the width
of the counters.\<close>

theorem step_keeps_budget:
  assumes "step_mission env i s = (s', Ok m')" "get_mission i (en_store s) = Some m"
    "engine_ok s" "env_executor env = None" "within_budget m"
  shows "within_budget m'"
  by (rule step_within_budget [OF assms])

theorem step_keeps_budget_witness: "\<exists>m'. snd (step_mission idle_env 1 running) = Ok m' \<and> within_budget m'"
proof -
  obtain m where d: "db_missions (en_store running) = [m]" and m: "get_mission 1 (en_store running) = Some m"
    by (rule one_row [OF mission_demo_rows(1)])
  have "list_all within_budget (db_missions (en_store running))" by code_simp
  then have b: "within_budget m" by (simp add: d)
  have "is_ok (snd (step_mission idle_env 1 running))" by code_simp
  then obtain m' where r: "snd (step_mission idle_env 1 running) = Ok m'"
    by (cases "snd (step_mission idle_env 1 running)") auto
  then have e: "step_mission idle_env 1 running = (fst (step_mission idle_env 1 running), Ok m')"
    by (simp add: prod_eq_iff)
  have "within_budget m'"
    by (rule step_keeps_budget [OF e m]) (use b running_ok in \<open>simp_all add: engine_ok_def idle_env_def\<close>)
  then show ?thesis using r by blast
qed

text \<open>The liveness assessment of a step never sees progress: the snapshot is compared
with itself, so each unverified cycle counts as stagnant whatever was achieved.\<close>

theorem liveness_never_progresses:
  "assess_liveness snapshot m =
    (if max_stagnant_cycles (m_budget m) \<le> stagnant_cycles (m_budget_consumed m) + 1 then Stagnant else Degraded, False)"
  by (rule assess_liveness_eq)

section \<open>Exhausted budgets\<close>

text \<open>A step of an active mission whose budget is exhausted executes nothing: it stores
a failed outcome with the exhausted limit, stops the run and leaves the tasks, the
workflows and every other mission alone; the state becomes budget exhausted where the
lifecycle allows it.\<close>

theorem exhausted_halts:
  assumes "get_mission i (en_store s) = Some m" "missions_ok (en_store s)"
    "\<not> MissionState_is_terminal (m_state m)" "m_state m \<noteq> MissionState.NeedsHuman"
    "has_exhausted (m_budget_consumed m) (m_budget m) = Some why"
  shows "\<exists>s' m' out. step_mission env i s = (s', Ok m') \<and> get_mission i (en_store s') = Some m' \<and>
    \<not> is_running i s' \<and> m_final_outcome m' = Some out \<and> \<not> o_success out \<and> o_completion_reason out = why \<and>
    m_state m' = m_state (try_transition MissionState.BudgetExhausted m) \<and>
    db_tasks (en_store s') = db_tasks (en_store s) \<and> db_workflows (en_store s') = db_workflows (en_store s) \<and>
    (\<forall>j. j \<noteq> i \<longrightarrow> get_mission j (en_store s') = get_mission j (en_store s))"
proof -
  have id: "m_id m = i" by (rule get_mission_id [OF assms(1)])
  have h: "step_mission env i s = halt_exhausted env m why s"
    using assms(3-5) by (simp add: step_mission_def st_then.simps [of "find_mission i"] find_mission_Some [OF assms(1)]
        check_exhaustion_def)
  obtain m1 where m1: "m1 = (try_transition MissionState.BudgetExhausted m)\<lparr>m_final_outcome := Some
       \<lparr>o_success = False, o_summary = ''Mission halted due to budget exhaustion: '' @ why,
        o_verified_commit_sha = m_latest_verified_commit m, o_cycles_count = m_cycle_index m,
        o_completion_reason = why\<rparr>\<rparr>" by blast
  have r: "mission_refs_ok m1 (en_store s)" "m_id m1 = i" "m_created_at m1 = m_created_at m"
    using missions_ok_get [OF assms(2,1)] id by (auto simp: m1 try_transition_eq mission_refs_ok_def)
  obtain db where u: "update_mission m1 (en_store s) = (db, Ok ())" using update_mission_Ok [OF r(1)] by blast
  have e: "step_mission env i s =
      (emit_mission_event env i ''budget_warning'' (unmark_running i (s\<lparr>en_store := db\<rparr>)), Ok m1)"
    unfolding h halt_exhausted_def Let_def m1 [symmetric] st_then.simps by (simp add: on_store_def u id)
  have f: "db_tasks db = db_tasks (en_store s)" "db_workflows db = db_workflows (en_store s)"
    using u by (auto simp: update_mission_def split: if_splits)
  have g: "get_mission (m_id m1) db = Some m1" "\<And>j. j \<noteq> i \<Longrightarrow> get_mission j db = get_mission j (en_store s)"
    using update_Ok_stored [OF u, of m] assms(1) r by auto
  have t: "db_tasks (emit n i ty d) = db_tasks d" "db_workflows (emit n i ty d) = db_workflows d" for n ty d
    by (simp_all add: emit_def append_event_def)
  show ?thesis
    by (intro exI conjI, rule e) (use f g r in \<open>auto simp: m1 t emit_mission_event_def unmark_running_def is_running_def\<close>)
qed

definition poor :: MissionEngine where
  "poor = fst (start_mission demo_env 1 (fst (create_mission_route demo_env (\<lambda>_. None)
     (demo_request\<lparr>cq_budget := Some (MissionBudget_default\<lparr>max_recovery_attempts := 0\<rparr>)\<rparr>)
     \<lparr>en_store = db_empty, en_running = []\<rparr>)))"

theorem exhausted_halts_witness:
  "\<exists>s' m'. step_mission demo_env 1 poor = (s', Ok m') \<and> m_state m' = MissionState.BudgetExhausted \<and>
     db_tasks (en_store s') = []"
proof -
  have "mission_rows poor = [(1, MissionState.Planning, demo_condition)]" by code_simp
  then obtain m where d: "db_missions (en_store poor) = [m]" and m: "get_mission 1 (en_store poor) = Some m"
      "m_state m = MissionState.Planning" by (rule one_row)
  have "map (\<lambda>m. has_exhausted (m_budget_consumed m) (m_budget m) \<noteq> None) (db_missions (en_store poor)) = [True]"
    by code_simp
  then obtain why where w: "has_exhausted (m_budget_consumed m) (m_budget m) = Some why" by (auto simp: d)
  have ok: "missions_ok (en_store poor)" and t: "db_tasks (en_store poor) = []" by code_simp+
  show ?thesis using exhausted_halts [OF m(1) ok _ _ w, of demo_env] m(2) t
    by (auto simp: MissionState_is_terminal_def try_transition_state MissionState_can_transition_to_def)
qed

end
