(* ===== verification/Decision_Properties.thy ===== *)
theory Decision_Properties
  imports Mission_Properties
begin

text \<open>The properties of the human decisions on a mission (acceptance, rejection,
integration) and of the reconciliation at startup.\<close>

section \<open>Integration\<close>

text \<open>What a mission without a stored workspace reports.\<close>

definition unmerged_summary :: "Mission \<Rightarrow> string \<Rightarrow> string" where
  "unmerged_summary m c = ''Mission '' @ CHR 0x27 # m_title m @ CHR 0x27 # '' verified commit '' @ c @
     '' successfully integrated into repository.''"

text \<open>C7: a successful integration of a mission that was not integrated before started from an
accepted or completed mission with a verified commit and no failed outcome, and recorded the
mission as integrated with that commit. When the mission has a stored workspace, git was asked to
integrate exactly that commit, with the branch, message and expected head of the request, and its
answer is reported; when it has none, git was not asked and the summary is a fixed text.\<close>

theorem integration_integrates:
  assumes "execute_canonical_integration env i req db = (db', Ok r)" "get_mission i db = Some m"
    "m_state m \<noteq> MissionState.Integrated"
  shows "\<exists>c m'. m_state m \<in> {MissionState.Accepted, MissionState.Completed} \<and> \<not> final_failure m \<and>
    m_latest_verified_commit m = Some c \<and> ir_verified_commit r = c \<and>
    get_mission i db' = Some m' \<and> m_state m' = MissionState.Integrated \<and> m_latest_verified_commit m' = Some c \<and>
    (\<forall>w ws. m_workspace_id m = Some w \<longrightarrow> get_workspace w db = Some ws \<longrightarrow>
       se_integrate env (ws_canonical_path ws) (target_of req) c (iq_commit_message req) (expected_head_of m req) =
         Ok (ir_integration_summary r)) \<and>
    (Option.bind (m_workspace_id m) (\<lambda>w. get_workspace w db) = None \<longrightarrow> ir_integration_summary r = unmerged_summary m c)"
proof -
  have "integration_locked env i req db = (db', Ok r)"
    using assms by (auto simp: execute_canonical_integration_def st_then.simps [of "api_mission i"] api_mission_def
        integration_precheck_def split: if_splits)
  from this assms(2,3) obtain c db2 m1 where o: "m_state m \<in> {MissionState.Accepted, MissionState.Completed}"
    "m_latest_verified_commit m = Some c" "\<not> final_failure m"
    "m1 = integration_intent env m (target_of req) c (expected_head_of m req)"
    "physical_integration env m1 (target_of req) c (iq_commit_message req) (expected_head_of m req) db2 =
       Ok (ir_integration_summary r)"
    "db_workspaces db2 = db_workspaces db"
    "get_mission i db' = Some (integrated_mission env m1 (target_of req))"
    "ir_verified_commit r = c" by (rule integration_locked_Ok)
  have "m_state m1 = MissionState.Integrating" using o(1) by (simp add: o(4))
  moreover have "m_latest_verified_commit m1 = Some c" "m_workspace_id m1 = m_workspace_id m" "m_title m1 = m_title m"
    by (simp_all add: o(2,4) integration_intent_def set_meta_def try_transition_def Let_def split: option.split result.split)
  ultimately show ?thesis using o(1-3,5-8)
    by (intro exI [of _ c] exI [of _ "integrated_mission env m1 (target_of req)"])
      (auto simp: physical_integration_def get_workspace_def unmerged_summary_def)
qed

definition repo :: Workspace where
  "repo = Workspace_new 3 0 ''repo'' ''/r''"

definition accepted_mission_row :: Mission where
  "accepted_mission_row = (Mission_new 1 0 ''t'' ''o'')\<lparr>m_state := MissionState.Accepted, m_workspace_id := Some 3,
     m_latest_verified_commit := Some ''c0ffee''\<rparr>"

definition repo_db :: Db where
  "repo_db = fst (create_mission accepted_mission_row (fst (create_workspace repo db_empty)))"

definition plain_request :: IntegrateMissionRequest where
  "plain_request = \<lparr>iq_target_branch = None, iq_commit_message = None, iq_expected_target_head = None, iq_force = None\<rparr>"

lemma repo_db_eq: "repo_db = db_empty\<lparr>db_workspaces := [repo], db_missions := [accepted_mission_row]\<rparr>"
  by (simp add: repo_db_def create_workspace_def create_mission_def db_empty_def tbl_has_def mission_refs_ok_def
      fk_ok_def accepted_mission_row_def Mission_new_def repo_def Workspace_new_def)

lemma repo_rows: "get_mission 1 repo_db = Some accepted_mission_row" "get_workspace 3 repo_db = Some repo"
  "missions_ok repo_db"
  by (simp_all add: repo_db_eq get_mission_def get_workspace_def tbl_get_def accepted_mission_row_def Mission_new_def
      repo_def Workspace_new_def missions_ok_def mission_refs_ok_def fk_ok_def tbl_has_def)

lemma row_fields: "m_state accepted_mission_row = MissionState.Accepted" "m_workspace_id accepted_mission_row = Some 3"
  "m_latest_verified_commit accepted_mission_row = Some ''c0ffee''" "\<not> final_failure accepted_mission_row"
  by (simp_all add: accepted_mission_row_def Mission_new_def final_failure_def)

lemma row_id: "m_id accepted_mission_row = 1"
  by (simp add: accepted_mission_row_def Mission_new_def)

definition integrated_db :: Db where
  "integrated_db = fst (execute_canonical_integration demo_senv 1 plain_request repo_db)"

theorem integration_integrates_witness:
  "\<exists>m'. get_mission 1 integrated_db = Some m' \<and> m_state m' = MissionState.Integrated"
proof -
  have "is_ok (snd (execute_canonical_integration demo_senv 1 plain_request repo_db))" by code_simp
  then obtain r where "execute_canonical_integration demo_senv 1 plain_request repo_db = (integrated_db, Ok r)"
    by (cases "snd (execute_canonical_integration demo_senv 1 plain_request repo_db)") (auto simp: integrated_db_def prod_eq_iff)
  from integration_integrates [OF this repo_rows(1)] show ?thesis by (auto simp: row_fields)
qed

text \<open>C17: when git refuses, the request fails with that message and the mission is stored
as accepted again with its verified commit, so it can be retried.\<close>

theorem integration_refused_rolls_back:
  assumes "get_mission i db = Some m" "m_state m \<in> {MissionState.Accepted, MissionState.Completed}"
    "m_latest_verified_commit m = Some c" "\<not> final_failure m" "missions_ok db"
    "m_workspace_id m = Some w" "get_workspace w db = Some ws"
    "se_integrate env (ws_canonical_path ws) (target_of req) c (iq_commit_message req) (expected_head_of m req) = Err err"
  shows "\<exists>db' m'. execute_canonical_integration env i req db =
      (db', Err (git_error_status err, ''Git integration rejected: '' @ err)) \<and>
    get_mission i db' = Some m' \<and> m_state m' = MissionState.Accepted \<and> m_latest_verified_commit m' = Some c"
proof -
  have e: "execute_canonical_integration env i req db = integration_locked env i req db"
    using assms(1,2) by (auto simp: execute_canonical_integration_def st_then.simps [of "api_mission i"] api_mission_def
        integration_precheck_def)
  obtain db' m' where "integration_locked env i req db = (db', Err (git_error_status err, ''Git integration rejected: '' @ err))"
    "get_mission i db' = Some m'" "m_state m' = MissionState.Accepted" "m_latest_verified_commit m' = Some c"
    by (rule integration_refused [OF assms])
  then show ?thesis unfolding e by blast
qed

definition refusing :: ServerEnv where
  "refusing = demo_senv\<lparr>se_integrate := (\<lambda>_ _ _ _ _. Err ''merge conflict'')\<rparr>"

theorem integration_refused_rolls_back_witness:
  "\<exists>db' m'. execute_canonical_integration refusing 1 plain_request repo_db =
      (db', Err (CONFLICT, ''Git integration rejected: merge conflict'')) \<and>
    get_mission 1 db' = Some m' \<and> m_state m' = MissionState.Accepted"
proof -
  have c: "git_error_status ''merge conflict'' = CONFLICT" by code_simp
  have "se_integrate refusing (ws_canonical_path repo) (target_of plain_request) ''c0ffee'' (iq_commit_message plain_request)
      (expected_head_of accepted_mission_row plain_request) = Err ''merge conflict''"
    by (simp add: refusing_def)
  from integration_refused_rolls_back [OF repo_rows(1) _ row_fields(3,4) repo_rows(3) row_fields(2) repo_rows(2) this]
  show ?thesis by (auto simp: row_fields c)
qed

text \<open>Requests are serialised by the workspace lock: once one has integrated a mission,
every later request, also one that passed its check before, changes nothing and reports
that the mission was already integrated.\<close>

theorem integration_once:
  assumes "integration_locked env i req db = (db1, Ok r)" "get_mission i db = Some m"
  shows "\<exists>m1. get_mission i db1 = Some m1 \<and> m_state m1 = MissionState.Integrated \<and>
    integration_locked env' i req' db1 = (db1, Ok (already_integrated m1))"
  by (rule integration_locked_again [OF assms])

theorem integration_once_witness:
  "\<exists>db1 r. integration_locked demo_senv 1 plain_request repo_db = (db1, Ok r) \<and>
     fst (integration_locked refusing 1 plain_request db1) = db1"
proof -
  have "is_ok (snd (integration_locked demo_senv 1 plain_request repo_db))" by code_simp
  then obtain db1 r where r: "integration_locked demo_senv 1 plain_request repo_db = (db1, Ok r)"
    by (cases "integration_locked demo_senv 1 plain_request repo_db"; cases "snd (integration_locked demo_senv 1 plain_request repo_db)") auto
  from integration_once [OF r repo_rows(1), of refusing plain_request] r show ?thesis by auto
qed

section \<open>What is integrated is not always what was accepted\<close>

text \<open>The engine steps a mission that was already accepted, replaces its verified commit
by the one it finds in the workspace, and the integration that follows integrates that
commit without a new decision: the commit accepted here is c0ffee, the one integrated is
bad.\<close>

definition later_env :: MissionEnv where
  "later_env = idle_env\<lparr>env_git_rev_parse := (\<lambda>_. Some (True, ''bad''))\<rparr>"

definition restepped :: MissionEngine where
  "restepped = fst (step_mission later_env 1 \<lparr>en_store = repo_db, en_running = []\<rparr>)"

definition integrated_commit :: "Db \<times> (IntegrateMissionResponse, api_error) result \<Rightarrow> string option" where
  "integrated_commit x = (case snd x of Ok r \<Rightarrow> Some (ir_verified_commit r) | Err _ \<Rightarrow> None)"

theorem accepted_commit_replaced:
  "get_mission 1 repo_db = Some accepted_mission_row \<and> m_latest_verified_commit accepted_mission_row = Some ''c0ffee'' \<and>
   map (\<lambda>m. (m_state m, m_latest_verified_commit m)) (db_missions (en_store restepped)) =
     [(MissionState.Accepted, Some ''bad'')] \<and>
   integrated_commit (execute_canonical_integration demo_senv 1 plain_request (en_store restepped)) = Some ''bad''"
proof (intro conjI)
  show "get_mission 1 repo_db = Some accepted_mission_row" by (rule repo_rows)
  show "m_latest_verified_commit accepted_mission_row = Some ''c0ffee''" by (rule row_fields)
  show "map (\<lambda>m. (m_state m, m_latest_verified_commit m)) (db_missions (en_store restepped)) =
     [(MissionState.Accepted, Some ''bad'')]" by code_simp
  show "integrated_commit (execute_canonical_integration demo_senv 1 plain_request (en_store restepped)) = Some ''bad''"
    by code_simp
qed

text \<open>The command line accepts a mission whose final outcome is a failure, which the
HTTP handler refuses with a conflict and no change.\<close>

definition failed_row :: Mission where
  "failed_row = accepted_mission_row\<lparr>m_state := MissionState.AwaitingAcceptance,
     m_final_outcome := Some \<lparr>o_success = False, o_summary = [], o_verified_commit_sha = None, o_cycles_count = 1,
       o_completion_reason = []\<rparr>\<rparr>"

definition failed_db :: Db where
  "failed_db = fst (create_mission failed_row (fst (create_workspace repo db_empty)))"

theorem cli_accepts_failed_outcome:
  "accept_mission demo_senv 1 accept_request failed_db =
     (failed_db, Err (CONFLICT, ''Cannot accept mission: physical stopping condition verification failed'')) \<and>
   map m_state (db_missions (fst (cli_accept demo_senv 1 False None None failed_db))) = [MissionState.Accepted]"
proof (intro conjI)
  have e: "failed_db = db_empty\<lparr>db_workspaces := [repo], db_missions := [failed_row]\<rparr>"
    by (simp add: failed_db_def create_workspace_def create_mission_def db_empty_def tbl_has_def mission_refs_ok_def
        fk_ok_def failed_row_def accepted_mission_row_def Mission_new_def repo_def Workspace_new_def)
  have g: "get_mission 1 failed_db = Some failed_row"
    by (simp add: e get_mission_def tbl_get_def failed_row_def accepted_mission_row_def Mission_new_def)
  show "accept_mission demo_senv 1 accept_request failed_db =
     (failed_db, Err (CONFLICT, ''Cannot accept mission: physical stopping condition verification failed''))"
    by (simp add: accept_mission_def st_then.simps api_mission_def g failed_row_def accepted_mission_row_def
        del: One_nat_def)
  show "map m_state (db_missions (fst (cli_accept demo_senv 1 False None None failed_db))) = [MissionState.Accepted]"
    by code_simp
qed

section \<open>Rejection\<close>

text \<open>A successful rejection is of a mission awaiting acceptance or accepted, and keeps
its verified commit and outcome. A mission awaiting acceptance takes the state of the
response; an accepted mission rejected for replanning stays accepted, although the
response says that it replans.\<close>

theorem rejection_outcome:
  assumes "reject_mission env i req db = (db', Ok r)" "get_mission i db = Some m"
  shows "\<exists>m'. get_mission i db' = Some m' \<and> m_latest_verified_commit m' = m_latest_verified_commit m \<and>
    m_final_outcome m' = m_final_outcome m \<and>
    rr_state r = (if rq_continue_mission req = Some True then MissionState.Replanning else MissionState.Rejected) \<and>
    (m_state m = MissionState.AwaitingAcceptance \<and> m_state m' = rr_state r \<or>
     m_state m = MissionState.Accepted \<and>
       m_state m' = (if rq_continue_mission req = Some True then MissionState.Accepted else MissionState.Rejected))"
proof -
  obtain m' where o: "m_state m = MissionState.AwaitingAcceptance \<or> m_state m = MissionState.Accepted"
    "get_mission i db' = Some m'" "m_state m' = m_state (try_transition (rr_state r) m)"
    "rr_state r = (if rq_continue_mission req = Some True then MissionState.Replanning else MissionState.Rejected)"
    "m_latest_verified_commit m' = m_latest_verified_commit m" "m_final_outcome m' = m_final_outcome m"
    using reject_mission_Ok [OF assms] by metis
  then show ?thesis
    by (intro exI [of _ m']) (auto simp: try_transition_state MissionState_can_transition_to_def)
qed

definition replan_request :: RejectMissionRequest where
  "replan_request = \<lparr>rq_reason = ''no'', rq_continue_mission = Some True\<rparr>"

theorem rejection_outcome_witness:
  "\<exists>m' r. snd (reject_mission demo_senv 1 replan_request repo_db) = Ok r \<and> rr_state r = MissionState.Replanning \<and>
     get_mission 1 (fst (reject_mission demo_senv 1 replan_request repo_db)) = Some m' \<and>
     m_state m' = MissionState.Accepted"
proof -
  have "is_ok (snd (reject_mission demo_senv 1 replan_request repo_db))" by code_simp
  then obtain db' r where r: "reject_mission demo_senv 1 replan_request repo_db = (db', Ok r)"
    by (cases "reject_mission demo_senv 1 replan_request repo_db"; cases "snd (reject_mission demo_senv 1 replan_request repo_db)") auto
  obtain m' where "get_mission 1 db' = Some m'" "rr_state r = MissionState.Replanning" "m_state m' = MissionState.Accepted"
    using rejection_outcome [OF r repo_rows(1)] by (auto simp: row_fields replan_request_def)
  then show ?thesis using r by (intro exI [of _ m'] exI [of _ r]) simp
qed

section \<open>Restart\<close>

text \<open>C38: when the stored missions have distinct identifiers and valid references, the
reconciliation at startup leaves none of them integrating: such a mission becomes integrated
exactly when it has a stored workspace in which git finds its candidate commit on its target
branch, and accepted otherwise; every other mission is unchanged.\<close>

theorem reconciliation_resolves:
  assumes "missions_ok db"
  shows "get_mission j (reconcile_missions env db) = map_option (resolved env db) (get_mission j db) \<and>
    (\<forall>m. get_mission j db = Some m \<longrightarrow> m_state (resolved env db m) \<noteq> MissionState.Integrating \<and>
       (m_state m = MissionState.Integrating \<longrightarrow>
          m_state (resolved env db m) = (if commit_on_target env m db then MissionState.Integrated else MissionState.Accepted)) \<and>
       (m_state m \<noteq> MissionState.Integrating \<longrightarrow> resolved env db m = m))"
  using reconcile_missions_get [OF assms] by (auto simp: resolved_def)

definition crashed_db :: Db where
  "crashed_db = fst (update_mission (integration_intent demo_senv accepted_mission_row ''main'' ''c0ffee'' None) repo_db)"

definition after_crash :: ReconcileEnv where
  "after_crash = \<lparr>re_now = 20, re_rfc3339 = (\<lambda>_. ''now''), re_is_ancestor = (\<lambda>_ c b. c = ''c0ffee'' \<and> b = ''main''),
     re_has_workspace_store = True\<rparr>"

theorem reconciliation_resolves_witness:
  "map m_state (db_missions crashed_db) = [MissionState.Integrating] \<and>
   (\<exists>m. get_mission 1 (reconcile_missions after_crash crashed_db) = Some m \<and> m_state m = MissionState.Integrated)"
proof
  let ?m = "integration_intent demo_senv accepted_mission_row ''main'' ''c0ffee'' None"
  show "map m_state (db_missions crashed_db) = [MissionState.Integrating]" by code_simp
  have ok: "missions_ok crashed_db" unfolding crashed_db_def by (rule missions_ok_update [OF repo_rows(3)])
  have "mission_refs_ok ?m repo_db" using missions_ok_get [OF repo_rows(3,1)] by simp
  then have "update_mission ?m repo_db = (crashed_db, Ok ())"
    by (auto simp: crashed_db_def update_mission_def tbl_has_def repo_db_eq)
  then have "get_mission (m_id ?m) crashed_db = Some ?m"
    by (rule update_Ok_stored(1) [of _ _ _ accepted_mission_row]) (simp_all add: repo_rows row_id del: One_nat_def)
  then have g: "get_mission 1 crashed_db = Some ?m" by (simp add: row_id)
  have w: "get_workspace 3 crashed_db = Some repo"
    using repo_rows(2) by (simp add: crashed_db_def update_mission_def get_workspace_def)
  have "commit_on_target after_crash ?m crashed_db" using w
    by (simp add: commit_on_target_def after_crash_def candidate_of_def target_branch_of_def row_fields) code_simp
  then show "\<exists>m. get_mission 1 (reconcile_missions after_crash crashed_db) = Some m \<and> m_state m = MissionState.Integrated"
    using reconciliation_resolves [OF ok, of 1 after_crash] g by (simp add: row_fields)
qed

end
