(* ===== verification/Storage_Properties.thy ===== *)
theory Storage_Properties
  imports Storage_Laws Lease_Manager
begin

text \<open>The properties of the store and of the lease manager, with the small database
their instances use.\<close>

section \<open>The store\<close>

text \<open>C3: every history of the store keeps its keys unique and its references valid:
one lease per task, no lease newer than the generation of its task, unique
idempotency keys, dependencies between existing tasks, distinct event numbers.\<close>

theorem reachable_store_integrity:
  assumes "reachable_db db"
  shows "lease_integrity db \<and> command_integrity db \<and> dependency_integrity db \<and> event_integrity db"
  using reachable_db_inv [OF assms] by (simp add: db_inv_def)

definition demo_db :: Db where
  "demo_db = fst (create_task (Task_new 3 0 7 ''b'') (fst (create_task (Task_new 2 0 7 ''a'')
     (fst (create_agent (Agent_new 5 0 ''dev'' ''role'' (ExecutionProfile_new ''cli'' ''m'')) (fst (create_workflow (Workflow_new 7 0 ''w'' ''o'') db_empty)))))))"

lemma demo_db_reachable: "reachable_db demo_db"
  unfolding demo_db_def reachable_db_def
  by (meson db_step.intros(1,3,7) rtranclp.rtrancl_refl rtranclp.rtrancl_into_rtrancl)

theorem reachable_store_integrity_witness:
  "lease_integrity demo_db \<and> length (db_tasks demo_db) = 2"
proof -
  have "length (db_tasks demo_db) = 2" by code_simp
  then show ?thesis using reachable_store_integrity [OF demo_db_reachable] by simp
qed

text \<open>A later grant of a lease on a task carries a strictly larger generation, whatever
the store did in between.\<close>

theorem lease_generations_increase:
  assumes "reachable_db db" "acquire_lease now l db = (db1, Ok g1)" "db_step\<^sup>*\<^sup>* db1 db2"
    "acquire_lease now' l' db2 = (db3, Ok g2)" "l_task_id l' = l_task_id l"
  shows "l_generation g1 < l_generation g2"
  by (rule sqlite_leases.grants_increase [OF reachable_db_inv [OF assms(1)] assms(2-5)])

definition lease1 :: Lease where "lease1 = Lease_new 11 0 2 5 10"
definition lease2 :: Lease where "lease2 = Lease_new 12 20 2 5 10"
definition grant1 :: "Db \<times> (Lease, StorageError) result" where "grant1 = acquire_lease 0 lease1 demo_db"
definition grant2 :: "Db \<times> (Lease, StorageError) result" where "grant2 = acquire_lease 20 lease2 (fst grant1)"

text \<open>The instances are evaluated by rewriting with these facts: the simulation of the
generation bound in unary would not end.\<close>

lemma demo_task_rows: "db_tasks demo_db = [\<lparr>r_task = Task_new 2 0 7 ''a'', r_generation = 0\<rparr>, \<lparr>r_task = Task_new 3 0 7 ''b'', r_generation = 0\<rparr>]"
  by code_simp

lemma demo_rows: "db_leases demo_db = []" "map a_id (db_agents demo_db) = [5]" "db_executions demo_db = []"
  "db_deps demo_db = []"
  by code_simp+

lemma demo_agent: "tbl_has a_id 5 (db_agents demo_db)"
  using demo_rows(2) by (auto simp: tbl_has_def simp flip: set_map)

lemma Task_new_id: "t_id (Task_new i now w s) = i"
  by (simp add: Task_new_def)

lemma row_id_row: "row_id \<lparr>r_task = Task_new i now w s, r_generation = n\<rparr> = i"
  by (simp add: row_id_def Task_new_def)

lemma get_demo_row: "tbl_get row_id 2 [\<lparr>r_task = Task_new 2 0 7 ''a'', r_generation = n\<rparr>, q] =
    Some \<lparr>r_task = Task_new 2 0 7 ''a'', r_generation = n\<rparr>"
  by (simp only: tbl_get_Cons row_id_row simp_thms if_True)

lemma bump_demo_row: "tbl_modify row_id 2 f [\<lparr>r_task = Task_new 2 0 7 ''a'', r_generation = n\<rparr>,
    \<lparr>r_task = Task_new 3 0 7 ''b'', r_generation = m\<rparr>] = [f \<lparr>r_task = Task_new 2 0 7 ''a'', r_generation = n\<rparr>,
    \<lparr>r_task = Task_new 3 0 7 ''b'', r_generation = m\<rparr>]"
  by (simp add: tbl_modify_def row_id_row Task_new_id)

lemma has_demo_row: "tbl_has row_id 2 [\<lparr>r_task = Task_new 2 0 7 ''a'', r_generation = n\<rparr>, q]"
  by (simp add: tbl_has_def row_id_row Task_new_id)

lemma small_generation: "0 < max_generation" "\<not> max_generation \<le> Suc 0"
  by (simp_all add: max_generation_def)

lemmas grant_simps = acquire_lease_def get_lease_by_task_def transaction_def st_then.simps
  increment_lease_generation_def insert_lease_def get_demo_row bump_demo_row has_demo_row
  small_generation

lemma lease_fields [simp]:
  "l_task_id lease1 = 2" "l_agent_id lease1 = 5" "l_id lease1 = 11" "l_expires_at lease1 = 10"
  "l_task_id lease2 = 2" "l_agent_id lease2 = 5" "l_id lease2 = 12" "l_expires_at lease2 = 30"
  by (simp_all add: lease1_def lease2_def Lease_new_def)

lemma no_lease: "tbl_get l_task_id i [] = None" "\<not> tbl_has l_task_id i []" "\<not> tbl_has l_id i []"
  by (simp_all add: tbl_get_def tbl_has_def)

lemma demo_grant1:
  "acquire_lease 0 lease1 demo_db = (demo_db\<lparr>db_tasks := [\<lparr>r_task = Task_new 2 0 7 ''a'', r_generation = 1\<rparr>,
       \<lparr>r_task = Task_new 3 0 7 ''b'', r_generation = 0\<rparr>], db_leases := [lease1\<lparr>l_generation := 1\<rparr>]\<rparr>,
     Ok (lease1\<lparr>l_generation := 1\<rparr>))"
  by (simp add: grant_simps no_lease demo_agent demo_task_rows demo_rows)

lemma demo_grants:
  "acquire_lease 0 lease1 demo_db = (fst grant1, Ok (lease1\<lparr>l_generation := 1\<rparr>))"
  "acquire_lease 20 lease2 (fst grant1) = (fst grant2, Ok (lease2\<lparr>l_generation := 2\<rparr>))"
proof -
  show "acquire_lease 0 lease1 demo_db = (fst grant1, Ok (lease1\<lparr>l_generation := 1\<rparr>))"
    by (simp add: grant1_def demo_grant1)
  have "snd (acquire_lease 20 lease2 (fst grant1)) = Ok (lease2\<lparr>l_generation := 2\<rparr>)"
    unfolding grant1_def demo_grant1 fst_conv
    by (simp add: grant_simps no_lease demo_agent demo_rows delete_leases_def
        tbl_get_Cons [of l_task_id] tbl_delete_def)
  then show "acquire_lease 20 lease2 (fst grant1) = (fst grant2, Ok (lease2\<lparr>l_generation := 2\<rparr>))"
    by (simp add: grant2_def prod_eq_iff)
qed

theorem lease_generations_increase_witness:
  "l_generation (lease1\<lparr>l_generation := 1\<rparr>) < l_generation (lease2\<lparr>l_generation := 2\<rparr>)"
  by (rule lease_generations_increase [OF demo_db_reachable demo_grants(1) rtranclp.rtrancl_refl demo_grants(2)])
    (simp add: lease1_def lease2_def Lease_new_def)

text \<open>C4: once a task has been leased again, the fencing token of the earlier holder is
refused by the lease manager in every later state of the store, at any time.\<close>

theorem stale_holder_fenced:
  assumes "reachable_db db" "acquire_lease now l db = (db1, Ok g1)" "db_step\<^sup>*\<^sup>* db1 db2"
    "acquire_lease now' l' db2 = (db3, Ok g2)" "l_task_id l' = l_task_id l" "db_step\<^sup>*\<^sup>* db3 db4"
  shows "is_err (lm_validate_token (l_task_id l) (l_generation g1) t db4)"
proof (cases "get_lease_by_task (l_task_id l) db4")
  case (Some q)
  have "Lease_validate_token (l_generation g1) t q = Err (GenerationMismatch (l_generation q) (l_generation g1))"
    by (rule sqlite_leases.stale_token_rejected [OF reachable_db_inv [OF assms(1)] assms(2-6) Some])
  then show ?thesis using Some by (simp add: lm_validate_token_def)
qed (simp add: lm_validate_token_def)

theorem stale_holder_fenced_witness: "is_err (lm_validate_token 2 1 25 (fst grant2))"
  using stale_holder_fenced [OF demo_db_reachable demo_grants(1) rtranclp.rtrancl_refl demo_grants(2) _
      rtranclp.rtrancl_refl, of 25]
  by (simp add: lease1_def lease2_def Lease_new_def)

text \<open>A task has at most one lease, and while it is live every acquisition for the
task is refused with a conflict that leaves the store unchanged.\<close>

theorem live_lease_excludes:
  assumes "reachable_db db" "l \<in> set (db_leases db)"
  shows "(\<forall>l' \<in> set (db_leases db). l_task_id l' = l_task_id l \<longrightarrow> l' = l) \<and>
    (now < l_expires_at l \<longrightarrow> l_task_id q = l_task_id l \<longrightarrow>
       acquire_lease now q db = (db, Err (LeaseConflict (l_task_id l))))"
proof -
  have inv: "db_inv db" by (rule reachable_db_inv [OF assms(1)])
  have g: "get_lease_by_task (l_task_id l) db = Some l" using lease_of_unique [OF inv] assms(2) by blast
  have "\<forall>l' \<in> set (db_leases db). l_task_id l' = l_task_id l \<longrightarrow> l' = l"
    using lease_of_unique [OF inv] g by (metis option.inject)
  moreover have "now < l_expires_at l \<Longrightarrow> l_task_id q = l_task_id l \<Longrightarrow>
      acquire_lease now q db = (db, Err (LeaseConflict (l_task_id l)))"
    using sqlite_leases.acquire_excludes [OF inv, of q l now] g by metis
  ultimately show ?thesis by blast
qed

lemma grant1_reachable: "reachable_db (fst grant1)"
  unfolding grant1_def
  using demo_db_reachable db_step.intros(12) unfolding reachable_db_def by (meson rtranclp.rtrancl_into_rtrancl)

theorem live_lease_excludes_witness:
  "acquire_lease 5 lease2 (fst grant1) = (fst grant1, Err (LeaseConflict 2))"
proof -
  have "db_leases (fst grant1) = [lease1\<lparr>l_generation := 1\<rparr>]" by (simp add: grant1_def demo_grant1)
  then have "lease1\<lparr>l_generation := 1\<rparr> \<in> set (db_leases (fst grant1))" by simp
  from live_lease_excludes [OF grant1_reachable this, of 5 lease2] show ?thesis
    by (simp add: lease1_def lease2_def Lease_new_def)
qed

text \<open>A workflow loads as a task graph exactly when its stored dependencies are acyclic
and stay inside the workflow; the graph then has exactly the stored tasks and
dependencies and satisfies the graph invariant.\<close>

theorem load_task_graph_correct:
  "(is_ok (load_task_graph w db) \<longleftrightarrow>
      (\<forall>(i, j) \<in> set (workflow_edges w db). \<exists>t \<in> set (list_tasks_by_workflow w db). t_id t = j) \<and>
      acyclic (set (workflow_edges w db))) \<and>
   (\<forall>g. load_task_graph w db = Ok g \<longrightarrow> graph_inv g \<and> edges g = set (workflow_edges w db) \<and>
      set (task_ids g) = t_id ` set (list_tasks_by_workflow w db))"
  using load_task_graph_iff(2) by (intro conjI load_task_graph_iff(1)) blast

theorem load_task_graph_correct_witness:
  "\<exists>g. load_task_graph 7 demo_db = Ok g \<and> set (task_ids g) = {2, 3}"
proof -
  have e: "workflow_edges 7 demo_db = []" by (simp add: workflow_edges_def demo_rows)
  have t: "map t_id (list_tasks_by_workflow 7 demo_db) = [2, 3]"
    by (simp add: list_tasks_by_workflow_def demo_task_rows Task_new_def)
  then have "is_ok (load_task_graph 7 demo_db)" using load_task_graph_correct [of 7 demo_db] e by (simp add: acyclic_def)
  then obtain g where g: "load_task_graph 7 demo_db = Ok g" by (cases "load_task_graph 7 demo_db") auto
  moreover have "t_id ` set (list_tasks_by_workflow 7 demo_db) = {2, 3}" using arg_cong [OF t, of set] by simp
  ultimately show ?thesis using load_task_graph_correct [of 7 demo_db] by metis
qed

text \<open>The transactional decomposition commits child dependencies that form a cycle, and
the workflow can no longer be loaded as a task graph.\<close>

definition cyclic_db :: Db where
  "cyclic_db = fst (decompose_task_transactional 9 2 [Task_new 4 9 7 ''c'', Task_new 5 9 7 ''d'']
     [(4, 5), (5, 4)] [5] demo_db)"

theorem decompose_commits_cycle:
  "snd (decompose_task_transactional 9 2 [Task_new 4 9 7 ''c'', Task_new 5 9 7 ''d'']
     [(4, 5), (5, 4)] [5] demo_db) = Ok () \<and>
   is_err (load_task_graph 7 cyclic_db)"
proof -
  have "snd (decompose_task_transactional 9 2 [Task_new 4 9 7 ''c'', Task_new 5 9 7 ''d'']
     [(4, 5), (5, 4)] [5] demo_db) = Ok ()" by code_simp
  moreover have "\<not> is_ok (load_task_graph 7 cyclic_db)" by code_simp
  ultimately show ?thesis by (metis result.exhaust_disc)
qed

end
