(* ===== verification/State_Properties.thy ===== *)
theory State_Properties
  imports Entities
begin

text \<open>The properties of the lifecycle tables and of the state codecs.\<close>

section \<open>Lifecycles\<close>

text \<open>A task that starts in another state and is driven by accepted transitions to
verified has been awaiting verification on the way.\<close>

theorem verified_needs_verification:
  assumes "run_transitions TaskState_transition_to s ts = Ok TaskState.Verified" "s \<noteq> TaskState.Verified"
  shows "TaskState.AwaitingVerification \<in> set (s # ts)"
proof -
  have "\<exists>g \<in> {TaskState.AwaitingVerification}. g \<in> set (s # ts)"
    by (rule task_lc.run_gate [of "{TaskState.Verified}", OF _ assms(1)])
      (use assms(2) in \<open>auto simp: TaskState_can_transition_to_def split: TaskState.splits\<close>)
  then show ?thesis by simp
qed

theorem verified_needs_verification_witness:
  "run_transitions TaskState_transition_to TaskState.Ready [TaskState.Assigned, TaskState.Running,
     TaskState.AwaitingVerification, TaskState.Verified] = Ok TaskState.Verified \<and>
   TaskState.AwaitingVerification \<in> set [TaskState.Ready, TaskState.Assigned, TaskState.Running,
     TaskState.AwaitingVerification, TaskState.Verified]"
proof -
  have r: "run_transitions TaskState_transition_to TaskState.Ready [TaskState.Assigned, TaskState.Running,
     TaskState.AwaitingVerification, TaskState.Verified] = Ok TaskState.Verified" by code_simp
  show ?thesis using verified_needs_verification [OF r] r by simp
qed

text \<open>C19: the text of a state, quoted and padded with white space in any amount, parses
back to the state, for each of the six state machines.\<close>

theorem state_text_roundtrip:
  assumes "\<forall>c \<in> set u. is_whitespace c" "\<forall>c \<in> set v. is_whitespace c"
  shows "TaskState_from_str (u @ replicate j quote_char @ TaskState_as_str t @ replicate k quote_char @ v) = Ok t \<and>
    AgentState_from_str (u @ replicate j quote_char @ AgentState_as_str a @ replicate k quote_char @ v) = Ok a \<and>
    WorkflowState_from_str (u @ replicate j quote_char @ WorkflowState_as_str w @ replicate k quote_char @ v) = Ok w \<and>
    ExecutionState_from_str (u @ replicate j quote_char @ ExecutionState_as_str x @ replicate k quote_char @ v) = Ok x \<and>
    CommandState_from_str (u @ replicate j quote_char @ CommandState_as_str c @ replicate k quote_char @ v) = Ok c \<and>
    MissionState_from_str (u @ replicate j quote_char @ MissionState_as_str m @ replicate k quote_char @ v) = Ok m"
  by (intro conjI task_codec.parse_padded agent_codec.parse_padded workflow_codec.parse_padded
      execution_codec.parse_padded command_codec.parse_padded mission_codec.parse_padded assms)

theorem state_text_roundtrip_witness:
  "TaskState_from_str (''  '' @ [quote_char] @ TaskState_as_str TaskState.NeedsHuman @ [quote_char] @ '' '') =
     Ok TaskState.NeedsHuman"
proof -
  have w: "\<forall>c \<in> set ''  ''. is_whitespace c" "\<forall>c \<in> set '' ''. is_whitespace c" by code_simp+
  from state_text_roundtrip [OF w, of 1 TaskState.NeedsHuman 1] show ?thesis by simp
qed

end
