(* ===== verification/Graph_Properties.thy ===== *)
theory Graph_Properties
  imports Graph_Queries
begin

text \<open>The properties of the task graph (plexis-core, graph.rs), each with a concrete
instance of its hypotheses.\<close>

section \<open>Task graph\<close>

text \<open>C1: every task graph that the public operations can build, on any branch and in any
order, is well-formed and has no dependency cycle.\<close>

theorem reachable_graph_acyclic:
  assumes "reachable_graph g"
  shows "graph_wf g \<and> acyclic (edges g)"
  using reachable_graph_inv [OF assms] by (simp add: graph_inv_def)

definition two_tasks :: TaskGraph where
  "two_tasks = fst (add_dependency 2 1 (add_task (Task_new 2 0 9 ''b'') (add_task (Task_new 1 0 9 ''a'') graph_new)))"

lemma two_tasks_reachable: "reachable_graph two_tasks"
  unfolding two_tasks_def reachable_graph_def
  by (meson step_add_task step_add_dependency rtranclp.rtrancl_refl rtranclp.rtrancl_into_rtrancl)

theorem reachable_graph_acyclic_witness: "graph_wf two_tasks \<and> acyclic (edges two_tasks)"
  using reachable_graph_acyclic [OF two_tasks_reachable] .

text \<open>C11: topological sorting of a well-formed graph never underflows an in-degree; it
succeeds exactly on the acyclic graphs, and then lists every task once, each after
all tasks it depends on.\<close>

theorem topological_sort_correct:
  assumes "graph_wf g"
  shows "(acyclic (edges g) \<longleftrightarrow> is_ok (topological_sort d g)) \<and>
    (\<forall>order. topological_sort d g = Ok order \<longrightarrow>
       distinct order \<and> set order = set (task_ids g) \<and> respects_deps g order)"
  using topological_sort_Ok [OF assms] by (metis result.collapse(1) result.disc(1))

theorem topological_sort_correct_witness:
  "topological_sort 0 two_tasks = Ok [1, 2] \<and> respects_deps two_tasks [1, 2]"
proof -
  have "topological_sort 0 two_tasks = Ok [1, 2]" by code_simp
  then show ?thesis
    using topological_sort_correct [of two_tasks 0] reachable_graph_inv [OF two_tasks_reachable]
    by (simp add: graph_inv_def)
qed

text \<open>Adding a dependency to a graph without cycles succeeds exactly when both tasks
exist, differ, and the prerequisite does not already depend on the task; it then adds
that one edge, and on every error the graph is the one before the call.\<close>

theorem add_dependency_decides:
  assumes "graph_inv g"
  shows "(is_ok (snd (add_dependency i j g)) \<longleftrightarrow>
      i \<noteq> j \<and> contains_task i g \<and> contains_task j g \<and> (j, i) \<notin> (edges g)\<^sup>*) \<and>
    (if is_ok (snd (add_dependency i j g))
     then edges (fst (add_dependency i j g)) = insert (i, j) (edges g) \<and> g_tasks (fst (add_dependency i j g)) = g_tasks g
     else fst (add_dependency i j g) = g)"
  using add_dependency_cases [OF assms, of i j] add_dependency_edges [OF assms]
  by (auto simp: contains_task_iff)

theorem add_dependency_decides_witness:
  "is_err (snd (add_dependency 1 2 two_tasks)) \<and> fst (add_dependency 1 2 two_tasks) = two_tasks"
proof -
  have "\<not> is_ok (snd (add_dependency 1 2 two_tasks))" by code_simp
  then show ?thesis
    using add_dependency_decides [OF reachable_graph_inv [OF two_tasks_reachable], of 1 2]
    by (metis result.exhaust_disc)
qed

text \<open>The runnable tasks are exactly the unassigned ready or backlog tasks all of
whose dependencies are verified, each listed once, by descending priority and then by
age.\<close>

theorem find_runnable_tasks_correct:
  assumes "graph_wf g"
  shows "(\<forall>i. i \<in> set (find_runnable_tasks g) \<longleftrightarrow>
      (\<exists>t. get_task i g = Some t \<and> t_state t \<in> {TaskState.Ready, TaskState.Backlog} \<and>
        t_assigned_agent_id t = None \<and>
        (\<forall>j. (i, j) \<in> edges g \<longrightarrow> (\<exists>u. get_task j g = Some u \<and> t_state u = TaskState.Verified)))) \<and>
    distinct (find_runnable_tasks g) \<and>
    sorted (map (\<lambda>i. run_key (the (get_task i g))) (find_runnable_tasks g))"
  using runnable_ids [OF assms] runnable_distinct [OF assms] runnable_sorted [OF assms]
  by (simp add: is_runnable_iff dependencies_verified_def)

theorem find_runnable_tasks_correct_witness:
  "find_runnable_tasks two_tasks = [1] \<and> distinct (find_runnable_tasks two_tasks)"
proof -
  have "find_runnable_tasks two_tasks = [1]" by code_simp
  then show ?thesis
    using find_runnable_tasks_correct [of two_tasks] reachable_graph_inv [OF two_tasks_reachable]
    by (simp add: graph_inv_def)
qed

text \<open>C16: a successful decomposition keeps the graph acyclic, leaves the tasks and the new
children, and gives exactly the edges of the specification: the old and the internal
ones, the inherited prerequisites of children without any, and each dependent of the
parent moved to the terminal children.\<close>

theorem decompose_task_correct:
  assumes "graph_inv g" "decompose_task p cs cds ts g = (g', Ok ())"
  shows "edges g' = decomposed_edges g p cs cds ts \<and> acyclic (edges g') \<and>
    g_tasks g' = g_tasks (fold add_task cs g) \<and> (\<forall>c \<in> set cs. t_parent_id c = Some p)"
  using decompose_task_effect [OF assms] by (auto simp: graph_inv_def)

definition child :: "ident \<Rightarrow> Task" where
  "child i = (Task_new i 0 9 ''c'')\<lparr>t_parent_id := Some 1\<rparr>"

definition decomposed :: TaskGraph where
  "decomposed = fst (decompose_task 1 [child 3, child 4] [(4, 3)] [4] two_tasks)"

theorem decompose_task_correct_witness:
  "edges decomposed = decomposed_edges two_tasks 1 [child 3, child 4] [(4, 3)] [4] \<and> (2, 4) \<in> edges decomposed"
proof -
  have "snd (decompose_task 1 [child 3, child 4] [(4, 3)] [4] two_tasks) = Ok ()" by code_simp
  then have e: "edges decomposed = decomposed_edges two_tasks 1 [child 3, child 4] [(4, 3)] [4]"
    using decompose_task_correct [OF reachable_graph_inv [OF two_tasks_reachable], of 1 "[child 3, child 4]" "[(4, 3)]" "[4]" decomposed]
    by (metis decomposed_def prod.collapse)
  have "direct_dependencies 2 decomposed = [4]" by code_simp
  then show ?thesis using e by (auto simp: edges_def)
qed

text \<open>Inserting a task between a prerequisite and its dependent replaces the edge by
the path through the new task and keeps the graph acyclic.\<close>

theorem insert_task_between_correct:
  assumes "graph_inv g" "insert_task_between t u d g = (g', Ok ())"
  shows "edges g' = (edges g - {(d, u)}) \<union> {(t_id t, u), (d, t_id t)} \<and> acyclic (edges g') \<and>
    g_tasks g' = g_tasks (add_task t g)"
  using insert_task_between_effect [OF assms] by (auto simp: graph_inv_def)

theorem insert_task_between_correct_witness:
  "snd (insert_task_between (Task_new 5 0 9 ''m'') 1 2 two_tasks) = Ok () \<and>
   (2, 1) \<notin> edges (fst (insert_task_between (Task_new 5 0 9 ''m'') 1 2 two_tasks))"
proof -
  let ?t = "Task_new 5 0 9 ''m''"
  have ok: "snd (insert_task_between ?t 1 2 two_tasks) = Ok ()" by code_simp
  then have "insert_task_between ?t 1 2 two_tasks = (fst (insert_task_between ?t 1 2 two_tasks), Ok ())"
    by (metis prod.collapse)
  from insert_task_between_correct [OF reachable_graph_inv [OF two_tasks_reachable] this] ok
  show ?thesis by (simp add: Task_new_def)
qed

text \<open>When validation reports a cycle, the task it names exists and a cycle can be
reached from it along dependencies; the task itself need not lie on one.\<close>

theorem validate_acyclic_reports:
  assumes "graph_wf g" "validate_acyclic g = Err e"
  shows "\<exists>i j. e = CycleDetected i \<and> contains_task i g \<and> (i, j) \<in> (edges g)\<^sup>* \<and> (j, j) \<in> (edges g)\<^sup>+"
  using validate_acyclic_Err [OF assms] by (auto simp: contains_task_iff)

definition lasso :: TaskGraph where
  "lasso = add_edge 2 3 (add_edge 3 2 (add_edge 1 2 (fold add_task
     [Task_new 1 0 9 ''a'', Task_new 2 0 9 ''b'', Task_new 3 0 9 ''c''] graph_new)))"

lemma task_ids_add_edge: "task_ids (add_edge i j g) = task_ids g"
  by (simp add: add_edge_def task_ids_def)

theorem validate_acyclic_reports_witness:
  "validate_acyclic lasso = Err (CycleDetected 1) \<and>
   (\<exists>j. (1, j) \<in> (edges lasso)\<^sup>* \<and> (j, j) \<in> (edges lasso)\<^sup>+)"
proof -
  let ?g = "fold add_task [Task_new 1 0 9 ''a'', Task_new 2 0 9 ''b'', Task_new 3 0 9 ''c''] graph_new"
  have wf: "graph_wf ?g" using fold_add_task [OF graph_inv_new] unfolding graph_inv_def by blast
  have ids: "set (task_ids ?g) = {1, 2, 3}" by code_simp
  have "graph_wf lasso" unfolding lasso_def
    by (intro graph_wf_add_edge wf) (simp_all only: task_ids_add_edge ids insert_iff simp_thms)
  moreover have "validate_acyclic lasso = Err (CycleDetected 1)" by code_simp
  ultimately show ?thesis using validate_acyclic_reports [of lasso "CycleDetected 1"] by auto
qed

end
