(* ===== verification/Recovery.thy ===== *)
theory Recovery
  imports Mission_Engine Text_Ops
begin

text \<open>The recovery controller of plexis-runtime (recovery.rs): the diagnosis of a failed
task from the text of its failure and the recovery records of the task, and the record
of the decision. The version counter has the width of the source.\<close>

section \<open>Actions\<close>

datatype RecoveryAction =
    RetryWithBackoff u64
  | MutateStrategy string string u32
  | ReassignAgent string
  | ReplanWorkflow string
  | EscalateFatal string

text \<open>The Debug text of an action; the strings that reach it have no character the
Debug form escapes.\<close>

definition debug_str :: "string \<Rightarrow> string" where
  "debug_str s = quote_char # s @ [quote_char]"

fun action_debug :: "RecoveryAction \<Rightarrow> string" where
  "action_debug (RetryWithBackoff n) = ''RetryWithBackoff { delay_secs: '' @ dec_word n @ '' }''"
| "action_debug (MutateStrategy s a v) = ''MutateStrategy { strategy: '' @ debug_str s @ '', adjustment: '' @ debug_str a @
     '', version: '' @ dec_word v @ '' }''"
| "action_debug (ReassignAgent r) = ''ReassignAgent { suggested_role: '' @ debug_str r @ '' }''"
| "action_debug (ReplanWorkflow r) = ''ReplanWorkflow { reason: '' @ debug_str r @ '' }''"
| "action_debug (EscalateFatal r) = ''EscalateFatal { reason: '' @ debug_str r @ '' }''"

section \<open>Diagnosis\<close>

definition next_version :: "string \<Rightarrow> RecoveryRecord list \<Rightarrow> u32" where
  "next_version strategy past =
    foldr max (map rv_strategy_version (filter (\<lambda>r. rv_strategy r = strategy) past)) 0 + 1"

definition mutate :: "string \<Rightarrow> string \<Rightarrow> RecoveryRecord list \<Rightarrow> RecoveryAction \<times> string \<times> u32" where
  "mutate strategy adjustment past =
    (let v = next_version strategy past in (MutateStrategy strategy adjustment v, strategy, v))"

definition classify :: "u32 \<Rightarrow> string \<Rightarrow> RecoveryRecord list \<Rightarrow> RecoveryAction \<times> string \<times> u32" where
  "classify attempt why past =
    (let lower = str_to_lowercase why in
     if str_contains ''rate limited'' lower \<or> str_contains ''connection reset'' lower \<or> str_contains ''gateway timeout'' lower
     then (RetryWithBackoff ((ucast attempt + 1) * 2), ''transient_backoff'', 1)
     else if str_contains ''permission denied'' lower \<or> str_contains ''sandbox'' lower
     then (EscalateFatal ''Sandbox security policy violation cannot be bypassed automatically'', ''security_escalation'', 1)
     else if str_contains ''timeout'' lower \<or> str_contains ''timed out'' lower
     then mutate ''timeout_adaptation'' ''Double execution timeout and refine review instructions'' past
     else if str_contains ''tool'' lower \<or> str_contains ''command failed'' lower \<or> str_contains ''exit code'' lower
     then mutate ''tool_adaptation''
            ''Inspect command error output, use diagnostic tools, and revise parameters'' past
     else mutate ''prompt_refinement''
            ''Deconstruct acceptance criteria step-by-step and verify state incrementally'' past)"

definition consecutive_identical :: "string \<Rightarrow> RecoveryRecord list \<Rightarrow> nat" where
  "consecutive_identical why past = length (takeWhile (\<lambda>r. rv_failure_reason r = why) (rev past))"

section \<open>The controller\<close>

definition recovery_record ::
  "time \<Rightarrow> ident \<Rightarrow> ident \<Rightarrow> ident option \<Rightarrow> u32 \<Rightarrow> string \<Rightarrow> u32 \<Rightarrow> string \<Rightarrow> json \<Rightarrow> string \<Rightarrow> string option \<Rightarrow>
   RecoveryResult \<Rightarrow> Db \<Rightarrow> RecoveryRecord" where
  "recovery_record now task_id workflow_id execution_id attempt strategy version why diagnosis action action_reason result db =
    \<lparr>rv_id = fresh_id (map rv_id (db_recoveries db)), rv_task_id = task_id, rv_workflow_id = workflow_id,
     rv_execution_id = execution_id, rv_attempt = attempt, rv_strategy = strategy, rv_strategy_version = version,
     rv_failure_reason = why, rv_diagnosis = diagnosis, rv_recovery_action = action, rv_action_reason = action_reason,
     rv_result = result, rv_created_at = now, rv_updated_at = now\<rparr>"

definition record_decision :: "(Db \<Rightarrow> RecoveryRecord) \<Rightarrow> (Db, RecoveryRecord, RuntimeError) op" where
  "record_decision r db =
    (case save_recovery_record (r db) db of
       (db', Ok _) \<Rightarrow> (db', Ok (r db))
     | (db', Err e) \<Rightarrow> (db', Err (Storage e)))"

definition exhausted_reason :: "ident \<Rightarrow> u32 \<Rightarrow> u32 \<Rightarrow> string" where
  "exhausted_reason i attempt limit =
    ''Task '' @ single_quoted (decimal i) @ '' exceeded maximum recovery attempts ('' @ dec_word attempt @ ''/'' @
    dec_word limit @ '')''"

definition replan_reason :: "nat \<Rightarrow> string \<Rightarrow> string" where
  "replan_reason n why =
    ''Repeated failure pattern (failed '' @ decimal (n + 1) @ '' times with: '' @ single_quoted why @ '')''"

text \<open>The decision: the action, with the fields of the record that depend on it.\<close>

definition decide ::
  "u32 \<Rightarrow> ident \<Rightarrow> u32 \<Rightarrow> string \<Rightarrow> RecoveryRecord list \<Rightarrow>
   RecoveryAction \<times> string \<times> u32 \<times> json \<times> string \<times> string option \<times> RecoveryResult" where
  "decide limit i attempt why past =
    (if limit \<le> attempt
     then (let m = exhausted_reason i attempt limit in
       (EscalateFatal m, ''fatal_exhaustion'', 1, JObj [(''exceeded_max_attempts'', JBool True)], ''escalate_fatal'',
        Some m, Escalated))
     else
       (let n = consecutive_identical why past in
        if 2 \<le> n
        then (let m = replan_reason n why in
          (ReplanWorkflow m, ''replan_loop_detected'', of_nat (n + 1),
           JObj [(''loop_detected'', JBool True), (''consecutive'', JNum (int n))], ''replan_workflow'', Some m, Escalated))
        else
          (case classify attempt why past of (action, strategy, version) \<Rightarrow>
            (action, strategy, version, JObj [(''failure_text'', JStr why)], action_debug action, None, InProgress))))"

definition diagnose_and_recover ::
  "time \<Rightarrow> u32 \<Rightarrow> Task \<Rightarrow> ident \<Rightarrow> ident option \<Rightarrow> u32 \<Rightarrow> string \<Rightarrow> (Db, RecoveryAction \<times> RecoveryRecord, RuntimeError) op" where
  "diagnose_and_recover now limit t workflow_id execution_id attempt why db =
    (case decide limit (t_id t) attempt why (list_recovery_records_by_task (t_id t) db) of
       (action, strategy, version, diagnosis, text, action_reason, result) \<Rightarrow>
         st_then (record_decision (recovery_record now (t_id t) workflow_id execution_id attempt strategy version why
             diagnosis text action_reason result))
           (\<lambda>r db'. (db', Ok (action, r))) db)"

definition mark_recovered :: "time \<Rightarrow> ident \<Rightarrow> (Db, unit, RuntimeError) op" where
  "mark_recovered now i db =
    (case get_recovery_record i db of
       None \<Rightarrow> (db, Ok ())
     | Some r \<Rightarrow> (case update_recovery_record (RecoveryRecord_mark_succeeded now r) db of
                   (db', q) \<Rightarrow> (db', map_err Storage q)))"

section \<open>Laws\<close>

lemma decide_strategy:
  "decide limit i attempt why past = (MutateStrategy s a v, strategy, version, rest) \<Longrightarrow>
     strategy = s \<and> version = v \<and> v = next_version s past"
  by (auto simp: decide_def classify_def mutate_def Let_def split: if_splits)

lemma max_le_foldr: "x \<in> set xs \<Longrightarrow> x \<le> foldr max xs (0 :: u32)"
  by (induction xs) (auto intro: max.coboundedI2)

lemma word_less_succ: "x \<noteq> - 1 \<Longrightarrow> x < x + 1" for x :: u32
proof -
  assume "x \<noteq> - 1"
  then have "1 + x \<noteq> 0" by (simp add: add_eq_0_iff)
  then show "x < x + 1" using unatSuc [of x] by (simp add: word_less_nat_alt add.commute)
qed

lemma next_version_greater:
  assumes "r \<in> set past" "rv_strategy r = s" "\<forall>q \<in> set past. rv_strategy_version q \<noteq> - 1"
  shows "rv_strategy_version r < next_version s past"
proof -
  let ?vs = "map rv_strategy_version (filter (\<lambda>r. rv_strategy r = s) past)"
  have le: "rv_strategy_version r \<le> foldr max ?vs 0" by (rule max_le_foldr) (use assms(1,2) in auto)
  have "foldr max vs 0 \<in> insert 0 (set vs)" for vs :: "u32 list" by (induction vs) (auto simp: max_def)
  from this [of ?vs] have "foldr max ?vs 0 \<noteq> - 1" using assms(3) by auto
  then have "foldr max ?vs 0 < foldr max ?vs 0 + 1" by (rule word_less_succ)
  then show ?thesis using le unfolding next_version_def by (rule order_le_less_trans [rotated])
qed

lemma diagnose_Ok:
  assumes "diagnose_and_recover now limit t w x attempt why db = (db', Ok (action, r))"
  shows "db' = db\<lparr>db_recoveries := db_recoveries db @ [r]\<rparr>" "\<not> tbl_has rv_id (rv_id r) (db_recoveries db)"
    "rv_task_id r = t_id t" "rv_attempt r = attempt" "rv_failure_reason r = why" "rv_created_at r = now"
    "\<exists>rest. decide limit (t_id t) attempt why (list_recovery_records_by_task (t_id t) db) =
       (action, rv_strategy r, rv_strategy_version r, rest)"
proof -
  obtain strategy version diagnosis shown action_reason result where
    d: "decide limit (t_id t) attempt why (list_recovery_records_by_task (t_id t) db) =
      (action, strategy, version, diagnosis, shown, action_reason, result)"
    and "record_decision (recovery_record now (t_id t) w x attempt strategy version why diagnosis shown action_reason result) db = (db', Ok r)"
    using assms by (auto simp: diagnose_and_recover_def st_then_Ok split: prod.splits)
  then have s: "save_recovery_record r db = (db', Ok ())"
    and r: "r = recovery_record now (t_id t) w x attempt strategy version why diagnosis shown action_reason result db"
    by (auto simp: record_decision_def split: prod.splits result.splits)
  show "db' = db\<lparr>db_recoveries := db_recoveries db @ [r]\<rparr>" "\<not> tbl_has rv_id (rv_id r) (db_recoveries db)"
    using s by (auto simp: save_recovery_record_def split: if_splits)
  show "rv_task_id r = t_id t" "rv_attempt r = attempt" "rv_failure_reason r = why" "rv_created_at r = now"
    "\<exists>rest. decide limit (t_id t) attempt why (list_recovery_records_by_task (t_id t) db) =
       (action, rv_strategy r, rv_strategy_version r, rest)"
    using d by (auto simp: r recovery_record_def)
qed

lemma sort_key_snoc: "\<forall>x \<in> set xs. f x \<le> f y \<Longrightarrow> sort_key f (xs @ [y]) = sort_key f xs @ [y]"
proof (induction xs)
  case (Cons x xs)
  have "insort_key f x (ys @ [y]) = insort_key f x ys @ [y]" if "f x \<le> f y" for ys
    using that by (induction ys) auto
  then show ?case using Cons by simp
qed simp

text \<open>A decision is the last of the records of its task, when attempts are numbered upwards.\<close>

lemma diagnose_last:
  assumes "diagnose_and_recover now limit t w x attempt why db = (db', Ok (action, r))"
    "\<forall>q \<in> set (list_recovery_records_by_task (t_id t) db). rv_attempt q < attempt"
  shows "list_recovery_records_by_task (t_id t) db' = list_recovery_records_by_task (t_id t) db @ [r]"
proof -
  note d = diagnose_Ok [OF assms(1)]
  let ?f = "filter (\<lambda>q. rv_task_id q = t_id t) (db_recoveries db)"
  have "sort_key (\<lambda>q. (unat (rv_attempt q), rv_created_at q)) (?f @ [r]) = sort_key (\<lambda>q. (unat (rv_attempt q), rv_created_at q)) ?f @ [r]"
    by (rule sort_key_snoc)
      (use assms(2) d(4) in \<open>auto simp: list_recovery_records_by_task_def word_less_nat_alt less_eq_prod_simp\<close>)
  then show ?thesis using d(1,3) by (simp add: list_recovery_records_by_task_def)
qed

end
