(* ===== verification/Governance.thy ===== *)
theory Governance
  imports Task_Reconciler
begin

text \<open>The approval gate of plexis-runtime (governance.rs): a request stores a pending
approval and asks the task to wait for a human, a decision is taken once and moves the
task on, and a held task is resumed. Transitions whose result the source ignores leave
the task as it is when they are refused.\<close>

definition attempt_transition :: "time \<Rightarrow> TaskState \<Rightarrow> Task \<Rightarrow> Task" where
  "attempt_transition now s t = (case Task_transition_to now s t of Ok t' \<Rightarrow> t' | Err _ \<Rightarrow> t)"

definition rt_store :: "(Db, 'a, StorageError) op \<Rightarrow> (Db, 'a, RuntimeError) op" where
  "rt_store m db = (case m db of (db', r) \<Rightarrow> (db', map_err Storage r))"

lemma rt_store_Ok [simp]: "rt_store m db = (db', Ok a) \<longleftrightarrow> m db = (db', Ok a)"
  by (cases "m db") (auto simp: rt_store_def)

definition new_approval ::
  "time \<Rightarrow> ident \<Rightarrow> ident \<Rightarrow> ident option \<Rightarrow> string \<Rightarrow> string option \<Rightarrow> Db \<Rightarrow> ApprovalRecord" where
  "new_approval now task_id workflow_id requester descr why db =
    (let a = ApprovalRecord_new (fresh_id (map ap_id (db_approvals db))) now task_id workflow_id descr;
         a1 = (case requester of Some r \<Rightarrow> a\<lparr>ap_requested_by := Some r\<rparr> | None \<Rightarrow> a)
     in case why of Some r \<Rightarrow> a1\<lparr>ap_reason := Some r\<rparr> | None \<Rightarrow> a1)"

definition request_approval ::
  "time \<Rightarrow> ident \<Rightarrow> ident \<Rightarrow> ident option \<Rightarrow> string \<Rightarrow> string option \<Rightarrow> (Db, ApprovalRecord, RuntimeError) op" where
  "request_approval now task_id workflow_id requester descr why db =
    (let a = new_approval now task_id workflow_id requester descr why db in
     st_then (rt_store (create_approval a))
       (\<lambda>_. st_then (\<lambda>db1. case db_get_task task_id db1 of
                       None \<Rightarrow> (db1, Ok ())
                     | Some t \<Rightarrow> rt_store (update_task (attempt_transition now TaskState.NeedsHuman t)) db1)
         (\<lambda>_ db2. (emit_event now ''approval'' (ap_id a) ''approval_requested'' db2, Ok a))) db)"

definition not_found :: "string \<Rightarrow> ident \<Rightarrow> RuntimeError" where
  "not_found what i = InvalidCommand (what @ '' '' @ single_quoted (decimal i) @ '' not found'')"

fun approval_state_debug :: "ApprovalState \<Rightarrow> string" where
  "approval_state_debug ApprovalState.Pending = ''Pending''"
| "approval_state_debug ApprovalState.Approved = ''Approved''"
| "approval_state_debug ApprovalState.Rejected = ''Rejected''"

definition already_decided :: "ident \<Rightarrow> ApprovalState \<Rightarrow> RuntimeError" where
  "already_decided i s =
    InvalidCommand (''Approval '' @ single_quoted (decimal i) @ '' is already in state '' @ single_quoted (approval_state_debug s))"

text \<open>The Display text of a refused transition.\<close>

definition transition_display :: "StateTransitionError \<Rightarrow> string" where
  "transition_display e = ''illegal state transition from '' @ from_state e @ '' to '' @ to_state e @ '': '' @ reason e"

definition decided :: "time \<Rightarrow> bool \<Rightarrow> string option \<Rightarrow> ApprovalRecord \<Rightarrow> (ApprovalRecord, StateTransitionError) result" where
  "decided now approved notes a = (if approved then ApprovalRecord_approve now notes a else ApprovalRecord_reject now notes a)"

definition task_after_decision :: "time \<Rightarrow> bool \<Rightarrow> Task \<Rightarrow> Task" where
  "task_after_decision now approved t =
    (if approved then attempt_transition now TaskState.Ready (t\<lparr>t_assigned_agent_id := None\<rparr>)
     else attempt_transition now TaskState.Failed t)"

definition submit_decision :: "time \<Rightarrow> ident \<Rightarrow> bool \<Rightarrow> string option \<Rightarrow> (Db, ApprovalRecord, RuntimeError) op" where
  "submit_decision now i approved notes db =
    (case get_approval i db of
       None \<Rightarrow> (db, Err (not_found ''Approval'' i))
     | Some a \<Rightarrow>
         if ap_state a \<noteq> ApprovalState.Pending then (db, Err (already_decided i (ap_state a)))
         else (case db_get_task (ap_task_id a) db of
           None \<Rightarrow> (db, Err (not_found ''Task'' (ap_task_id a)))
         | Some t \<Rightarrow>
             (case decided now approved notes a of
                Err e \<Rightarrow> (db, Err (InvalidCommand (transition_display e)))
              | Ok a1 \<Rightarrow>
                  st_then (rt_store (update_approval a1))
                    (\<lambda>_. st_then (rt_store (update_task (task_after_decision now approved t)))
                      (\<lambda>_ db2. (emit_event now ''approval'' i (if approved then ''approval_granted'' else ''approval_rejected'') db2,
                                Ok a1))) db)))"

definition resume_task :: "time \<Rightarrow> ident \<Rightarrow> (Db, Task, RuntimeError) op" where
  "resume_task now i db =
    (case db_get_task i db of
       None \<Rightarrow> (db, Err (not_found ''Task'' i))
     | Some t \<Rightarrow> (let t1 = attempt_transition now TaskState.Ready t in
         st_then (rt_store (update_task t1)) (\<lambda>_ db1. (emit_event now ''task'' i ''task_resumed'' db1, Ok t1)) db))"

end
