(* ===== verification/Verifier.thy ===== *)
theory Verifier
  imports Task_Reconciler
begin

text \<open>The workspace verifier of plexis-runtime (verifier.rs). The file system and the
shell are parameters: what is read at a path below the working directory (None when it
does not exist, the empty text when it cannot be read), and the exit code with the output of a command, or the error that it
could not be started. A length in bytes is that of the UTF-8 encoding.\<close>

record VerifierEnv =
  ve_now :: time
  ve_duration_ms :: u64
  ve_file :: "string \<Rightarrow> string option"
  ve_shell :: "string \<Rightarrow> (int \<times> string \<times> string, string) result"

section \<open>Criteria\<close>

definition nth_part :: "nat \<Rightarrow> string list \<Rightarrow> string option" where
  "nth_part n xs = (if n < length xs then Some (xs ! n) else None)"

fun find_map :: "('a \<Rightarrow> 'b option) \<Rightarrow> 'a list \<Rightarrow> 'b option" where
  "find_map f [] = None"
| "find_map f (x # xs) = (case f x of Some y \<Rightarrow> Some y | None \<Rightarrow> find_map f xs)"

definition or_else :: "'a option \<Rightarrow> 'a option \<Rightarrow> 'a option" where
  "or_else x y = (case x of Some a \<Rightarrow> Some a | None \<Rightarrow> y)"

definition meta_get_str :: "string \<Rightarrow> json \<Rightarrow> string option" where
  "meta_get_str k j = Option.bind (json_get k j) json_str"

definition criteria_val :: "Task \<Rightarrow> json" where
  "criteria_val t = (case json_get ''verification'' (t_metadata t) of Some v \<Rightarrow> v | None \<Rightarrow> JObj [])"

definition typed_target :: "string \<Rightarrow> Task \<Rightarrow> string option" where
  "typed_target kind t =
    (if meta_get_str ''verification_type'' (t_metadata t) = Some kind
     then meta_get_str ''verification_target'' (t_metadata t) else None)"

definition file_criterion :: "string \<Rightarrow> string option" where
  "file_criterion c =
    (if str_contains ''file:'' c
     then Option.bind (nth_part 1 (split_on ''file:'' c)) (\<lambda>s. nth_part 0 (split_whitespace s)) else None)"

definition command_criterion :: "string \<Rightarrow> string option" where
  "command_criterion c =
    (if starts_with ''cmd:'' c \<or> starts_with ''command:'' c
     then map_option str_trim (nth_part 1 (split_on '':'' c)) else None)"

definition expected_file :: "Task \<Rightarrow> string option" where
  "expected_file t =
    or_else (meta_get_str ''file_path'' (criteria_val t))
      (or_else (typed_target ''file_exists'' t) (find_map file_criterion (t_criteria t)))"

definition expected_cmd :: "Task \<Rightarrow> string option" where
  "expected_cmd t =
    or_else (meta_get_str ''command'' (criteria_val t))
      (or_else (typed_target ''command'' t) (find_map command_criterion (t_criteria t)))"

text \<open>The conversion of a JSON integer to i64, and of that to i32, which wraps.\<close>

definition json_i64 :: "json \<Rightarrow> int option" where
  "json_i64 v = (case v of JNum n \<Rightarrow> if - (2 ^ 63) \<le> n \<and> n < 2 ^ 63 then Some n else None | _ \<Rightarrow> None)"

definition as_i32 :: "int \<Rightarrow> int" where
  "as_i32 n = sint (of_int n :: 32 word)"

definition expected_code :: "Task \<Rightarrow> int" where
  "expected_code t =
    (case Option.bind (json_get ''expected_exit_code'' (criteria_val t)) json_i64 of Some n \<Rightarrow> as_i32 n | None \<Rightarrow> 0)"

section \<open>Checks\<close>

definition put :: "string \<Rightarrow> json \<Rightarrow> json \<Rightarrow> json" where
  "put k v j = json_insert k v j"

text \<open>The state of a verification: whether it passed, the reasons, the evidence.\<close>

type_synonym check = "bool \<times> string list \<times> json"

definition file_check :: "VerifierEnv \<Rightarrow> Task \<Rightarrow> check \<Rightarrow> check" where
  "file_check env t st =
    (case (expected_file t, st) of
       (None, _) \<Rightarrow> st
     | (Some rel, passed, reasons, ev) \<Rightarrow>
       (case ve_file env rel of
          None \<Rightarrow> (False, reasons @ [''Required file '' @ single_quoted rel @ '' does not exist in workspace''],
                  put ''file_check'' (JObj [(''file_path'', JStr rel), (''exists'', JBool False)]) ev)
        | Some actual \<Rightarrow>
          (case meta_get_str ''expected_content'' (criteria_val t) of
             Some expected \<Rightarrow>
               if \<not> str_contains expected actual
               then (False, reasons @ [''File '' @ single_quoted rel @ '' does not contain expected substring '' @ single_quoted expected],
                 put ''file_check'' (JObj [(''file_path'', JStr rel), (''exists'', JBool True), (''expected_content'', JStr expected),
                     (''actual_content'', JStr actual), (''matches'', JBool False)])
                   (put ''matches'' (JBool False) (put ''actual_content'' (JStr actual) (put ''expected_content'' (JStr expected)
                     (put ''exists'' (JBool True) (put ''file_path'' (JStr rel) ev))))))
               else (passed, reasons,
                 put ''file_check'' (JObj [(''file_path'', JStr rel), (''exists'', JBool True), (''expected_content'', JStr expected),
                     (''matches'', JBool True), (''file_size_bytes'', JNum (int (utf8_length actual)))])
                   (put ''file_size_bytes'' (JNum (int (utf8_length actual))) (put ''matches'' (JBool True)
                     (put ''expected_content'' (JStr expected) (put ''exists'' (JBool True) (put ''file_path'' (JStr rel) ev))))))
           | None \<Rightarrow> (passed, reasons,
               put ''file_check'' (JObj [(''file_path'', JStr rel), (''exists'', JBool True),
                   (''file_size_bytes'', JNum (int (utf8_length actual)))])
                 (put ''file_size_bytes'' (JNum (int (utf8_length actual))) (put ''exists'' (JBool True)
                   (put ''file_path'' (JStr rel) ev)))))))"

definition command_check :: "VerifierEnv \<Rightarrow> Task \<Rightarrow> check \<Rightarrow> check" where
  "command_check env t st =
    (case (expected_cmd t, st) of
       (None, _) \<Rightarrow> st
     | (Some cmd, passed, reasons, ev) \<Rightarrow>
       (case ve_shell env cmd of
          Ok (code, out, err) \<Rightarrow>
            (passed \<and> code = expected_code t,
             reasons @ (if code \<noteq> expected_code t
               then [''Verification command '' @ single_quoted cmd @ '' failed with exit code '' @ int_text code @
                     '' (expected '' @ int_text (expected_code t) @ ''): '' @ str_trim err] else []),
             put ''command'' (JObj [(''command'', JStr cmd), (''exit_code'', JNum code),
                 (''expected_exit_code'', JNum (expected_code t)), (''stdout_snippet'', JStr (take 500 out)),
                 (''stderr_snippet'', JStr (take 500 err)), (''passed'', JBool (code = expected_code t))]) ev)
        | Err e \<Rightarrow>
            (False, reasons @ [''Failed to execute verification command '' @ single_quoted cmd @ '': '' @ e],
             put ''command'' (JObj [(''command'', JStr cmd), (''error'', JStr e), (''passed'', JBool False)]) ev)))"

definition generic_check :: "Task \<Rightarrow> check \<Rightarrow> check" where
  "generic_check t st =
    (case st of (passed, reasons, ev) \<Rightarrow>
       if expected_file t = None \<and> expected_cmd t = None
       then (passed, reasons, put ''assessed'' (JStr ''generic_completion'')
               (put ''criteria'' (JArr (map JStr (t_criteria t))) ev))
       else st)"

definition verify :: "VerifierEnv \<Rightarrow> ident \<Rightarrow> Task \<Rightarrow> Verification" where
  "verify env fresh t =
    (case generic_check t (command_check env t (file_check env t (True, [], JObj []))) of
       (passed, reasons, ev) \<Rightarrow>
         (let v = Verification_new fresh (ve_now env) (t_id t) ''workspace_inspection''
                    (if passed then Passed else VerificationVerdict.Failed) ev 0
          in if passed then v else Verification_with_failure_reason (join ''; '' reasons) v))"

section \<open>Verification of a task\<close>

text \<open>The task is updated in the memory of the caller too: it is part of the result.\<close>

definition verdict_task :: "time \<Rightarrow> VerificationVerdict \<Rightarrow> Task \<Rightarrow> (Task, StateTransitionError) result" where
  "verdict_task now verdict t =
    (if verdict = Passed
     then (let t1 = (if t_state t = TaskState.Running \<or> t_state t = TaskState.Assigned
                     then (case Task_transition_to now TaskState.AwaitingVerification t of Ok t' \<Rightarrow> t' | Err _ \<Rightarrow> t) else t)
           in Task_transition_to now TaskState.Verified t1)
     else Task_transition_to now TaskState.Failed t)"

definition try_event :: "time \<Rightarrow> string \<Rightarrow> ident \<Rightarrow> string \<Rightarrow> (Db, unit, StorageError) op" where
  "try_event now ty agg event_type db =
    append_event (Event_new (fresh_id (map (e_id \<circ> snd) (db_events db))) now ty agg event_type) db"

definition verify_and_record :: "VerifierEnv \<Rightarrow> Task \<Rightarrow> (Db, Verification \<times> Task, StorageError) op" where
  "verify_and_record env t =
    st_then (try_event (ve_now env) ''task'' (t_id t) ''verification_started'')
      (\<lambda>_ db1.
        let v = (verify env (fresh_id (map v_id (db_verifications db1))) t)\<lparr>v_duration_ms := ve_duration_ms env\<rparr> in
        st_then (create_verification v)
          (\<lambda>_ db2. case verdict_task (ve_now env) (v_verdict v) t of
             Err e \<Rightarrow> (db2, Err (StateTransition e))
           | Ok t1 \<Rightarrow>
               st_then (update_task t1)
                 (\<lambda>_. st_then (try_event (ve_now env) ''task'' (t_id t) ''verification_completed'')
                   (\<lambda>_ db4. (db4, Ok (v, t1)))) db2) db1)"

end
