(* ===== verification/Resources.thy ===== *)
theory Resources
  imports Lease_Manager
begin

text \<open>The resource limits of plexis-runtime (resources.rs): the tracker of one task, with
counters of the width of the source and durations in milliseconds, and the limiter of
concurrent agents, whose check and increment are two atomic steps that other threads
can come between.\<close>

section \<open>The tracker of a task\<close>

record ResourceLimitsConfig =
  max_steps_per_task :: u32
  max_tool_calls_per_execution :: u32
  max_tokens_per_task :: u64
  max_duration_per_task :: time
  rl_max_concurrent_agents :: nat
  error_spike_threshold :: u32

definition ResourceLimitsConfig_default :: ResourceLimitsConfig where
  "ResourceLimitsConfig_default = \<lparr>max_steps_per_task = 25, max_tool_calls_per_execution = 50,
     max_tokens_per_task = 100000, max_duration_per_task = 600000, rl_max_concurrent_agents = 10,
     error_spike_threshold = 5\<rparr>"

record TaskResourceTracker =
  tr_config :: ResourceLimitsConfig
  start_time :: time
  step_count :: u32
  tool_call_count :: u32
  accumulated_tokens :: u64
  consecutive_errors :: u32

definition TaskResourceTracker_new :: "time \<Rightarrow> ResourceLimitsConfig \<Rightarrow> TaskResourceTracker" where
  "TaskResourceTracker_new now config = \<lparr>tr_config = config, start_time = now, step_count = 0, tool_call_count = 0,
     accumulated_tokens = 0, consecutive_errors = 0\<rparr>"

definition check_time_limit :: "time \<Rightarrow> TaskResourceTracker \<Rightarrow> (unit, RuntimeError) result" where
  "check_time_limit now tr =
    (if max_duration_per_task (tr_config tr) < now - start_time tr then Err (Execution ''Wall-clock timeout'') else Ok ())"

definition record_step :: "time \<Rightarrow> (TaskResourceTracker, unit, RuntimeError) op" where
  "record_step now tr0 =
    (let tr = tr0\<lparr>step_count := step_count tr0 + 1\<rparr> in
     case check_time_limit now tr of
       Err e \<Rightarrow> (tr, Err e)
     | Ok _ \<Rightarrow> if max_steps_per_task (tr_config tr) < step_count tr then (tr, Err (Execution ''maximum steps''))
               else (tr, Ok ()))"

definition record_tool_call :: "time \<Rightarrow> (TaskResourceTracker, unit, RuntimeError) op" where
  "record_tool_call now tr0 =
    (let tr = tr0\<lparr>tool_call_count := tool_call_count tr0 + 1\<rparr> in
     case check_time_limit now tr of
       Err e \<Rightarrow> (tr, Err e)
     | Ok _ \<Rightarrow> if max_tool_calls_per_execution (tr_config tr) < tool_call_count tr
               then (tr, Err (Execution ''maximum tool calls'')) else (tr, Ok ()))"

definition record_tokens :: "u64 \<Rightarrow> (TaskResourceTracker, unit, RuntimeError) op" where
  "record_tokens n tr0 =
    (let tr = tr0\<lparr>accumulated_tokens := accumulated_tokens tr0 + n\<rparr> in
     if max_tokens_per_task (tr_config tr) < accumulated_tokens tr then (tr, Err (Execution ''accumulated tokens''))
     else (tr, Ok ()))"

definition record_error :: "(TaskResourceTracker, unit, RuntimeError) op" where
  "record_error tr0 =
    (let tr = tr0\<lparr>consecutive_errors := consecutive_errors tr0 + 1\<rparr> in
     if error_spike_threshold (tr_config tr) \<le> consecutive_errors tr then (tr, Err (Execution ''Circuit breaker tripped''))
     else (tr, Ok ()))"

definition record_progress :: "TaskResourceTracker \<Rightarrow> TaskResourceTracker" where
  "record_progress tr = tr\<lparr>consecutive_errors := 0\<rparr>"

section \<open>The concurrency limiter\<close>

text \<open>A thread outside holds nothing, one that has loaded the counter is about to compare
the value it saw, one inside holds a permit.\<close>

datatype thread = Outside | Loaded nat | Inside

record limiter =
  active_count :: nat
  threads :: "thread list"

definition limiter_new :: "nat \<Rightarrow> limiter" where
  "limiter_new n = \<lparr>active_count = 0, threads = replicate n Outside\<rparr>"

definition load_count :: "nat \<Rightarrow> limiter \<Rightarrow> limiter" where
  "load_count i l = l\<lparr>threads := (threads l)[i := Loaded (active_count l)]\<rparr>"

definition compare_and_add :: "nat \<Rightarrow> nat \<Rightarrow> nat \<Rightarrow> limiter \<Rightarrow> limiter" where
  "compare_and_add max_concurrent i seen l =
    (if max_concurrent \<le> seen then l\<lparr>threads := (threads l)[i := Outside]\<rparr>
     else l\<lparr>active_count := active_count l + 1, threads := (threads l)[i := Inside]\<rparr>)"

definition drop_permit :: "nat \<Rightarrow> limiter \<Rightarrow> limiter" where
  "drop_permit i l = l\<lparr>active_count := active_count l - 1, threads := (threads l)[i := Outside]\<rparr>"

inductive limiter_step :: "nat \<Rightarrow> limiter \<Rightarrow> limiter \<Rightarrow> bool" for max_concurrent where
  load: "i < length (threads l) \<Longrightarrow> threads l ! i = Outside \<Longrightarrow> limiter_step max_concurrent l (load_count i l)"
| decide: "i < length (threads l) \<Longrightarrow> threads l ! i = Loaded seen \<Longrightarrow>
     limiter_step max_concurrent l (compare_and_add max_concurrent i seen l)"
| release: "i < length (threads l) \<Longrightarrow> threads l ! i = Inside \<Longrightarrow> limiter_step max_concurrent l (drop_permit i l)"

inductive_cases limiter_stepE: "limiter_step n l l'"

definition permits :: "limiter \<Rightarrow> nat" where
  "permits l = length (filter (\<lambda>t. t = Inside) (threads l))"

text \<open>One call of try\_acquire that no other thread interrupts.\<close>

definition try_acquire :: "nat \<Rightarrow> nat \<Rightarrow> limiter \<Rightarrow> limiter \<times> bool" where
  "try_acquire max_concurrent i l =
    (let seen = active_count l; l' = compare_and_add max_concurrent i seen (load_count i l) in (l', seen < max_concurrent))"

end
