(* ===== verification/Execution_Properties.thy ===== *)
theory Execution_Properties
  imports Scheduler Recovery Governance Verifier Resources Storage_Properties "HOL-Library.Code_Target_Nat"
begin

text \<open>The properties of recovery, governance, verification and resource limits.\<close>

section \<open>Verification\<close>

lemma file_check_passed:
  "fst (file_check env t st) \<longleftrightarrow> fst st \<and>
    (\<forall>p. expected_file t = Some p \<longrightarrow> (\<exists>c. ve_file env p = Some c \<and>
       (\<forall>e. meta_get_str ''expected_content'' (criteria_val t) = Some e \<longrightarrow> str_contains e c)))
   \<or> (expected_file t = None \<and> fst st)"
  by (cases st) (auto simp: file_check_def split: option.split)

lemma command_check_passed:
  "fst (command_check env t st) \<longleftrightarrow> fst st \<and>
    (\<forall>c. expected_cmd t = Some c \<longrightarrow> (\<exists>out err. ve_shell env c = Ok (expected_code t, out, err)))"
  by (cases st) (auto simp: command_check_def split: option.split result.split)

lemma generic_check_passed: "fst (generic_check t st) = fst st"
  by (cases st) (simp add: generic_check_def)

lemma verify_fields:
  "v_id (verify env f t) = f" "v_task_id (verify env f t) = t_id t" "v_verdict (verify env f t) \<noteq> Inconclusive"
  by (simp_all add: verify_def Verification_new_def Verification_with_failure_reason_def Let_def split: prod.split)

lemma verify_verdict:
  "v_verdict (verify env f t) = Passed \<longleftrightarrow> fst (generic_check t (command_check env t (file_check env t (True, [], JObj []))))"
  by (simp add: verify_def Verification_new_def Verification_with_failure_reason_def Let_def split: prod.split)

text \<open>C22: when a verification is recorded, its evidence is stored under the task, and the
task is stored as verified if the verdict is passed and as failed otherwise. A passed
verdict means that the expected file exists with the expected content and that the
expected command ended with the expected exit code.\<close>

theorem verified_has_evidence:
  assumes "verify_and_record env t db = (db', Ok (v, t'))"
  shows "get_verification (v_id v) db' = Some v \<and> v_task_id v = t_id t \<and>
    map_option t_state (db_get_task (t_id t) db') = Some (if v_verdict v = Passed then TaskState.Verified else TaskState.Failed) \<and>
    (v_verdict v = Passed \<longrightarrow>
       (\<forall>p. expected_file t = Some p \<longrightarrow> (\<exists>c. ve_file env p = Some c \<and>
          (\<forall>e. meta_get_str ''expected_content'' (criteria_val t) = Some e \<longrightarrow> str_contains e c))) \<and>
       (\<forall>cmd. expected_cmd t = Some cmd \<longrightarrow> (\<exists>out err. ve_shell env cmd = Ok (expected_code t, out, err))))"
proof -
  obtain db1 where 1: "try_event (ve_now env) ''task'' (t_id t) ''verification_started'' db = (db1, Ok ())"
    using assms by (auto simp: verify_and_record_def st_then_Ok)
  define w where "w = (verify env (fresh_id (map v_id (db_verifications db1))) t)\<lparr>v_duration_ms := ve_duration_ms env\<rparr>"
  let ?k = "\<lambda>db2. case verdict_task (ve_now env) (v_verdict w) t of
      Err e \<Rightarrow> (db2, Err (StateTransition e))
    | Ok t1 \<Rightarrow> st_then (update_task t1) (\<lambda>_. st_then (try_event (ve_now env) ''task'' (t_id t) ''verification_completed'')
        (\<lambda>_ db4. (db4, Ok (w, t1)))) db2"
  have "st_then (create_verification w) (\<lambda>_. ?k) db1 = (db', Ok (v, t'))"
    using assms unfolding verify_and_record_def st_then.simps [of "try_event _ _ _ _"] 1 Let_def w_def by simp
  then obtain db2 where 2: "create_verification w db1 = (db2, Ok ())" and r: "?k db2 = (db', Ok (v, t'))"
    unfolding st_then_Ok by auto
  obtain t1 where s: "verdict_task (ve_now env) (v_verdict w) t = Ok t1" using r by (cases "verdict_task (ve_now env) (v_verdict w) t") auto
  obtain db3 where 3: "update_task t' db2 = (db3, Ok ())" and w: "w = v" and t1: "t1 = t'"
    and 4: "try_event (ve_now env) ''task'' (t_id t) ''verification_completed'' db3 = (db', Ok ())"
    using r s by (auto simp: st_then_Ok)
  note v = w_def [unfolded w] and s = s [unfolded w t1] and 2 = 2 [unfolded w]
  have e4: "db_verifications db' = db_verifications db3" "db_tasks db' = db_tasks db3"
    using 4 by (auto simp: try_event_def append_event_def split: if_splits)
  have e3: "db_verifications db3 = db_verifications db2" using 3 by (auto simp: update_task_def split: if_splits)
  have e2: "db_verifications db2 = db_verifications db1 @ [v]" "\<not> tbl_has v_id (v_id v) (db_verifications db1)"
    using 2 by (auto simp: create_verification_def split: if_splits)
  have "get_verification (v_id v) db' = Some v"
    using e2(2) by (simp add: get_verification_def e4 e3 e2(1) tbl_get_append flip: tbl_get_None)
  moreover have id: "v_task_id v = t_id t" by (simp add: v verify_fields)
  moreover have "map_option t_state (db_get_task (t_id t) db') = Some (if v_verdict v = Passed then TaskState.Verified else TaskState.Failed)"
  proof -
    have t': "t_id t' = t_id t" "t_state t' = (if v_verdict v = Passed then TaskState.Verified else TaskState.Failed)"
      using s by (auto simp: verdict_task_def Let_def Task_transition_to_eq_Ok split: if_splits result.splits)
    have "tbl_has row_id (t_id t) (db_tasks db2)" using 3 t' by (auto simp: update_task_def split: if_splits)
    then obtain q where "db_get_task (t_id t) db2 = Some q"
      by (cases "db_get_task (t_id t) db2") (auto simp: db_get_task_def tbl_get_None)
    then have "db_get_task (t_id t) db3 = Some (t'\<lparr>t_workflow_id := t_workflow_id q, t_created_at := t_created_at q\<rparr>)"
      using update_task_Ok(1) [OF 3, of "t_id t"] t' by simp
    moreover have "db_get_task (t_id t) db' = db_get_task (t_id t) db3" using e4(2) by (simp add: db_get_task_def)
    ultimately show ?thesis using t'(2) by simp
  qed
  moreover have "(\<forall>p. expected_file t = Some p \<longrightarrow> (\<exists>c. ve_file env p = Some c \<and>
        (\<forall>e. meta_get_str ''expected_content'' (criteria_val t) = Some e \<longrightarrow> str_contains e c))) \<and>
      (\<forall>cmd. expected_cmd t = Some cmd \<longrightarrow> (\<exists>out err. ve_shell env cmd = Ok (expected_code t, out, err)))"
    if "v_verdict v = Passed"
  proof -
    have "v_verdict (verify env (fresh_id (map v_id (db_verifications db1))) t) = Passed" using that by (simp add: v)
    then have "fst (command_check env t (file_check env t (True, [], JObj [])))"
      by (simp only: verify_verdict generic_check_passed)
    then show ?thesis unfolding command_check_passed file_check_passed by auto
  qed
  ultimately show ?thesis by blast
qed

definition checked_task :: Task where
  "checked_task = (Task_new 2 0 7 ''a'')\<lparr>t_state := TaskState.Running, t_criteria := [''file: out.txt'', ''cmd: make test'']\<rparr>"

definition checked_db :: Db where
  "checked_db = fst (create_task checked_task (fst (create_workflow (Workflow_new 7 0 ''w'' ''o'') db_empty)))"

definition good_env :: VerifierEnv where
  "good_env = \<lparr>ve_now = 5, ve_duration_ms = 1, ve_file = (\<lambda>p. if p = ''out.txt'' then Some ''done'' else None),
     ve_shell = (\<lambda>c. if c = ''make test'' then Ok (0, ''ok'', []) else Ok (1, [], []))\<rparr>"

definition checked :: "Db \<times> (Verification \<times> Task, StorageError) result" where
  "checked = verify_and_record good_env checked_task checked_db"

lemma checked_facts:
  "(case snd checked of Ok (v, _) \<Rightarrow> v_verdict v = Passed | Err _ \<Rightarrow> False)"
  "expected_file checked_task = Some ''out.txt''" "expected_cmd checked_task = Some ''make test''"
  by code_simp+

theorem verified_has_evidence_witness:
  "map_option t_state (db_get_task 2 (fst checked)) = Some TaskState.Verified \<and>
   (\<exists>v. get_verification (v_id v) (fst checked) = Some v \<and> v_verdict v = Passed)"
proof -
  obtain db r where c: "checked = (db, r)" by fastforce
  then obtain v t' where r: "r = Ok (v, t')" "v_verdict v = Passed" using checked_facts(1) [unfolded c snd_conv] by (cases r) auto
  have "t_id checked_task = 2" by (simp add: checked_task_def Task_new_def)
  then show ?thesis using verified_has_evidence [of good_env checked_task checked_db db v t'] c r
    by (auto simp: checked_def)
qed

text \<open>A command criterion ends at its second colon.\<close>

theorem command_criterion_truncated:
  "expected_cmd (checked_task\<lparr>t_criteria := [''cmd: curl http://localhost/health'']\<rparr>) = Some ''curl http''"
  by code_simp

section \<open>Recovery\<close>

text \<open>The third failure of a task in a row with the same reason, in attempts of
increasing number, is never answered with another retry or another strategy: the
workflow is replanned or the task is escalated.\<close>

theorem third_failure_replans:
  assumes "diagnose_and_recover now1 limit t w x1 n1 why db = (db1, Ok (a1, r1))"
    "\<forall>q \<in> set (list_recovery_records_by_task (t_id t) db). rv_attempt q < n1"
    "diagnose_and_recover now2 limit t w x2 n2 why db1 = (db2, Ok (a2, r2))" "n1 < n2"
    "diagnose_and_recover now3 limit t w x3 n3 why db2 = (db3, Ok (a3, r3))"
  shows "(\<exists>m. a3 = ReplanWorkflow m) \<or> (\<exists>m. a3 = EscalateFatal m)"
proof -
  let ?l = "list_recovery_records_by_task (t_id t)"
  have 1: "?l db1 = ?l db @ [r1]" by (rule diagnose_last [OF assms(1,2)])
  have "\<forall>q \<in> set (?l db1). rv_attempt q < n2"
    using assms(2,4) diagnose_Ok(4) [OF assms(1)] unfolding 1 by (auto dest: order.strict_trans)
  then have 2: "?l db2 = ?l db @ [r1, r2]" using diagnose_last [OF assms(3)] 1 by simp
  have "rv_failure_reason r1 = why" "rv_failure_reason r2 = why"
    using diagnose_Ok(5) assms(1,3) by blast+
  then have "2 \<le> consecutive_identical why (?l db2)" by (simp add: consecutive_identical_def 2)
  moreover obtain rest where "decide limit (t_id t) n3 why (?l db2) = (a3, rest)"
    using diagnose_Ok(7) [OF assms(5)] by auto
  ultimately show ?thesis by (auto simp: decide_def Let_def split: if_splits)
qed

definition failing :: "nat \<Rightarrow> Db \<Rightarrow> Db \<times> (RecoveryAction \<times> RecoveryRecord, RuntimeError) result" where
  "failing n db = diagnose_and_recover (int n) 9 checked_task 7 None (of_nat n) ''tests failed'' db"

lemma failing_facts:
  "is_ok (snd (failing 1 checked_db))" "is_ok (snd (failing 2 (fst (failing 1 checked_db))))"
  "is_ok (snd (failing 3 (fst (failing 2 (fst (failing 1 checked_db))))))" "db_recoveries checked_db = []"
  by code_simp+

theorem third_failure_replans_witness:
  "\<exists>a r. snd (failing 3 (fst (failing 2 (fst (failing 1 checked_db))))) = Ok (a, r) \<and>
     ((\<exists>m. a = ReplanWorkflow m) \<or> (\<exists>m. a = EscalateFatal m))"
proof -
  have ok: "is_ok (snd p) \<Longrightarrow> \<exists>db a r. p = (db, Ok (a, r))" for p :: "Db \<times> (RecoveryAction \<times> RecoveryRecord, RuntimeError) result"
    by (cases p; cases "snd p") auto
  obtain db1 a1 r1 where 1: "failing 1 checked_db = (db1, Ok (a1, r1))" using ok failing_facts(1) by blast
  obtain db2 a2 r2 where 2: "failing 2 db1 = (db2, Ok (a2, r2))" using ok failing_facts(2) unfolding 1 by fastforce
  obtain db3 a3 r3 where 3: "failing 3 db2 = (db3, Ok (a3, r3))" using ok failing_facts(3) unfolding 1 fst_conv 2 by fastforce
  have "(\<exists>m. a3 = ReplanWorkflow m) \<or> (\<exists>m. a3 = EscalateFatal m)"
    by (rule third_failure_replans [OF 1 [unfolded failing_def] _ 2 [unfolded failing_def] _ 3 [unfolded failing_def]])
      (simp_all add: list_recovery_records_by_task_def failing_facts(4))
  then show ?thesis by (simp add: 1 2 3 del: One_nat_def)
qed

text \<open>A strategy chosen for a failure carries a version above every version recorded
for the task under that strategy, below the largest value of the counter.\<close>

theorem strategy_versions_increase:
  assumes "diagnose_and_recover now limit t w x n why db = (db', Ok (MutateStrategy s adj v, r))"
    "\<forall>q \<in> set (list_recovery_records_by_task (t_id t) db). rv_strategy_version q \<noteq> - 1"
  shows "rv_strategy r = s \<and> rv_strategy_version r = v \<and> get_recovery_record (rv_id r) db' = Some r \<and>
    (\<forall>q \<in> set (list_recovery_records_by_task (t_id t) db). rv_strategy q = s \<longrightarrow> rv_strategy_version q < v)"
proof -
  note d = diagnose_Ok [OF assms(1)]
  obtain rest where "decide limit (t_id t) n why (list_recovery_records_by_task (t_id t) db) =
      (MutateStrategy s adj v, rv_strategy r, rv_strategy_version r, rest)" using d(7) by blast
  from decide_strategy [OF this] have v: "rv_strategy r = s" "rv_strategy_version r = v"
    "v = next_version s (list_recovery_records_by_task (t_id t) db)" by simp_all
  have "get_recovery_record (rv_id r) db' = Some r"
    using d(2) by (simp add: get_recovery_record_def d(1) tbl_get_append flip: tbl_get_None)
  then show ?thesis using v next_version_greater assms(2) by blast
qed

lemma failing_strategy:
  "(case snd (failing 1 checked_db) of Ok (a, _) \<Rightarrow> a = MutateStrategy ''prompt_refinement''
      ''Deconstruct acceptance criteria step-by-step and verify state incrementally'' 1 | Err _ \<Rightarrow> False)"
  "(case snd (failing 2 (fst (failing 1 checked_db))) of Ok (a, _) \<Rightarrow> a = MutateStrategy ''prompt_refinement''
      ''Deconstruct acceptance criteria step-by-step and verify state incrementally'' 2 | Err _ \<Rightarrow> False)"
  "\<forall>q \<in> set (list_recovery_records_by_task (t_id checked_task) (fst (failing 1 checked_db))). rv_strategy_version q \<noteq> - 1"
  by code_simp+

theorem strategy_versions_increase_witness:
  "\<exists>r. get_recovery_record (rv_id r) (fst (failing 2 (fst (failing 1 checked_db)))) = Some r \<and> rv_strategy_version r = 2"
proof -
  let ?a = "MutateStrategy ''prompt_refinement''
      ''Deconstruct acceptance criteria step-by-step and verify state incrementally'' 2"
  obtain db a r where 2: "failing 2 (fst (failing 1 checked_db)) = (db, Ok (a, r))"
    using failing_strategy(2) by (cases "failing 2 (fst (failing 1 checked_db))";
        cases "snd (failing 2 (fst (failing 1 checked_db)))") auto
  then have "a = ?a" using failing_strategy(2) by simp
  with 2 have "diagnose_and_recover (int 2) 9 checked_task 7 None (of_nat 2) ''tests failed'' (fst (failing 1 checked_db)) = (db, Ok (?a, r))"
    by (simp add: failing_def)
  from strategy_versions_increase [OF this failing_strategy(3)] show ?thesis using 2 by auto
qed

section \<open>Governance\<close>

text \<open>A decision is taken once. The approval is stored with the decision, a task that
waits for a human is stored as ready and unassigned, or as failed, and any later decision
on the approval is refused and changes nothing.\<close>

theorem decision_once:
  assumes "submit_decision now i approved notes db = (db', Ok a)"
  shows "get_approval i db' = Some a \<and> ap_state a = (if approved then ApprovalState.Approved else ApprovalState.Rejected) \<and>
    (\<forall>t. db_get_task (ap_task_id a) db = Some t \<and> t_state t = TaskState.NeedsHuman \<longrightarrow>
       (\<exists>t'. db_get_task (ap_task_id a) db' = Some t' \<and> t_state t' = (if approved then TaskState.Ready else TaskState.Failed) \<and>
          (approved \<longrightarrow> t_assigned_agent_id t' = None))) \<and>
    submit_decision now' i approved' notes' db' = (db', Err (already_decided i (ap_state a)))"
proof -
  obtain p t where p: "get_approval i db = Some p" "ap_state p = ApprovalState.Pending"
    and t: "db_get_task (ap_task_id p) db = Some t" and d: "decided now approved notes p = Ok a"
    and k: "st_then (rt_store (update_approval a))
        (\<lambda>_. st_then (rt_store (update_task (task_after_decision now approved t)))
          (\<lambda>_ db2. (emit_event now ''approval'' i (if approved then ''approval_granted'' else ''approval_rejected'') db2,
                    Ok a))) db = (db', Ok a)"
    using assms by (auto simp: submit_decision_def st_then_Ok split: option.splits if_splits result.splits)
  obtain db1 db2 where 1: "update_approval a db = (db1, Ok ())" and 2: "update_task (task_after_decision now approved t) db1 = (db2, Ok ())"
    and 3: "db' = emit_event now ''approval'' i (if approved then ''approval_granted'' else ''approval_rejected'') db2"
    using k unfolding st_then_Ok rt_store_Ok by auto
  have a: "ap_id a = i" "ap_task_id a = ap_task_id p" "ap_state a = (if approved then ApprovalState.Approved else ApprovalState.Rejected)"
    and fields: "a = p\<lparr>ap_state := ap_state a, ap_reason := ap_reason a, ap_decided_at := ap_decided_at a\<rparr>"
    using d tbl_get_key [of ap_id i "db_approvals db" p] p(1)
    by (auto simp: decided_def ApprovalRecord_approve_def ApprovalRecord_reject_def approval_lc.tr_eq_Ok Let_def get_approval_def
        split: if_splits option.splits)
  have "db_approvals db' = db_approvals db1"
    using 2 by (auto simp: 3 emit_event_def append_event_def update_task_def split: if_splits)
  moreover have "get_approval i db1 = Some a"
    using 1 p(1) fields by (auto simp: update_approval_def get_approval_def tbl_get_modify a(1) split: if_splits)
  ultimately have stored: "get_approval i db' = Some a" by (simp add: get_approval_def)
  have refused: "submit_decision now' i approved' notes' db' = (db', Err (already_decided i (ap_state a)))"
    using stored a(3) by (auto simp: submit_decision_def)
  have "\<exists>t'. db_get_task (ap_task_id a) db' = Some t' \<and> t_state t' = (if approved then TaskState.Ready else TaskState.Failed) \<and>
      (approved \<longrightarrow> t_assigned_agent_id t' = None)" if n: "t_state t = TaskState.NeedsHuman"
  proof -
    let ?t = "task_after_decision now approved t"
    have u: "t_state ?t = (if approved then TaskState.Ready else TaskState.Failed)" "t_id ?t = t_id t"
      "approved \<longrightarrow> t_assigned_agent_id ?t = None"
      using n by (auto simp: task_after_decision_def attempt_transition_def Task_transition_to_def TaskState_transition_to_def
          TaskState_can_transition_to_def)
    have id: "t_id t = ap_task_id p" by (rule db_get_task_id [OF t])
    have "db_get_task (ap_task_id p) db1 = Some t"
      using 1 t by (auto simp: update_approval_def db_get_task_def split: if_splits)
    then have "\<exists>t'. db_get_task (ap_task_id a) db2 = Some t' \<and> t_state t' = t_state ?t \<and> t_assigned_agent_id t' = t_assigned_agent_id ?t"
      using update_task_Ok(1) [OF 2, of "ap_task_id p"] u(2) id a(2) by simp
    moreover have "db_get_task k db' = db_get_task k db2" for k
      by (simp add: 3 db_get_task_def emit_event_def append_event_def)
    ultimately show ?thesis using u by auto
  qed
  then show ?thesis using stored a refused t by auto
qed

definition requested :: "Db \<times> (ApprovalRecord, RuntimeError) result" where
  "requested = request_approval 5 2 7 None ''deploy'' None checked_db"

definition granted :: "Db \<times> (ApprovalRecord, RuntimeError) result" where
  "granted = submit_decision 6 1 True None (fst requested)"

lemma granted_facts:
  "is_ok (snd granted)" "map_option t_state (db_get_task 2 (fst requested)) = Some TaskState.NeedsHuman"
  "(case snd granted of Ok a \<Rightarrow> ap_task_id a = 2 | Err _ \<Rightarrow> False)"
  by code_simp+

theorem decision_once_witness:
  "map_option t_state (db_get_task 2 (fst granted)) = Some TaskState.Ready \<and>
   snd (submit_decision 7 1 False None (fst granted)) = Err (already_decided 1 ApprovalState.Approved)"
proof -
  obtain db r where g0: "granted = (db, r)" by fastforce
  then obtain a where "r = Ok a" using granted_facts(1) [unfolded g0 snd_conv] by (cases r) auto
  with g0 have g: "granted = (db, Ok a)" by simp
  obtain t where "db_get_task 2 (fst requested) = Some t" "t_state t = TaskState.NeedsHuman" using granted_facts(2) by auto
  moreover have "ap_task_id a = 2" using granted_facts(3) by (simp add: g)
  ultimately show ?thesis
    using decision_once [of 6 1 True None "fst requested" db a 7 False None] g by (auto simp: granted_def)
qed

text \<open>A task in the backlog cannot wait for a human: a request for approval leaves it
runnable, although the approval is pending.\<close>

definition backlog_db :: Db where
  "backlog_db = fst (create_task (Task_new 2 0 7 ''a'') (fst (create_workflow (Workflow_new 7 0 ''w'' ''o'') db_empty)))"

theorem pending_approval_runs:
  "(case request_approval 5 2 7 None ''deploy'' None backlog_db of (db, r) \<Rightarrow>
      (case r of Ok a \<Rightarrow> ap_state a = ApprovalState.Pending | Err _ \<Rightarrow> False) \<and>
      length (list_pending_approvals db) = 1 \<and>
      (case load_task_graph 7 db of Ok g \<Rightarrow> find_runnable_tasks g = [2] | Err _ \<Rightarrow> False))"
  by code_simp

section \<open>Limits\<close>

text \<open>The counter of the limiter is the number of permits, whatever the threads do.\<close>

definition limiter_ok :: "limiter \<Rightarrow> bool" where
  "limiter_ok l = (active_count l = permits l)"

lemma count_update:
  "i < length xs \<Longrightarrow> length (filter P (xs[i := y])) + (if P (xs ! i) then 1 else 0) = length (filter P xs) + (if P y then 1 else 0)"
proof (induction xs arbitrary: i)
  case (Cons x xs)
  then show ?case by (cases i) auto
qed simp

lemma limiter_step_ok: "limiter_step n l l' \<Longrightarrow> limiter_ok l \<Longrightarrow> limiter_ok l'"
proof (erule limiter_stepE)
  fix i assume a: "limiter_ok l" "l' = load_count i l" "i < length (threads l)" "threads l ! i = Outside"
  show "limiter_ok l'" using a count_update [of i "threads l" "\<lambda>t. t = Inside" "Loaded (active_count l)"]
    by (simp add: limiter_ok_def permits_def load_count_def)
next
  fix i seen assume a: "limiter_ok l" "l' = compare_and_add n i seen l" "i < length (threads l)" "threads l ! i = Loaded seen"
  show "limiter_ok l'" using a count_update [of i "threads l" "\<lambda>t. t = Inside" Outside]
      count_update [of i "threads l" "\<lambda>t. t = Inside" Inside]
    by (simp add: limiter_ok_def permits_def compare_and_add_def)
next
  fix i assume a: "limiter_ok l" "l' = drop_permit i l" "i < length (threads l)" "threads l ! i = Inside"
  show "limiter_ok l'" using a count_update [of i "threads l" "\<lambda>t. t = Inside" Outside]
    by (simp add: limiter_ok_def permits_def drop_permit_def)
qed

lemma limiter_steps_ok: "(limiter_step n)\<^sup>*\<^sup>* l l' \<Longrightarrow> limiter_ok l \<Longrightarrow> limiter_ok l'"
  by (induction rule: rtranclp_induct) (auto intro: limiter_step_ok)

lemma limiter_new_ok: "limiter_ok (limiter_new k)"
  by (simp add: limiter_ok_def limiter_new_def permits_def)

text \<open>In every interleaving the counter of the limiter is the number of permits held,
and an acquisition that no other thread interrupts never passes the limit; but two threads
that load the counter before either increments it hold two permits under a limit of one.\<close>

theorem limiter_race:
  "((limiter_step n)\<^sup>*\<^sup>* (limiter_new k) l \<longrightarrow> active_count l = permits l \<and>
     (permits l \<le> n \<and> i < k \<and> length (threads l) = k \<and> threads l ! i = Outside \<longrightarrow> permits (fst (try_acquire n i l)) \<le> n)) \<and>
   (\<exists>l2. (limiter_step 1)\<^sup>*\<^sup>* (limiter_new 2) l2 \<and> permits l2 = 2)"
proof (intro conjI impI)
  assume r: "(limiter_step n)\<^sup>*\<^sup>* (limiter_new k) l"
  show e: "active_count l = permits l" using limiter_steps_ok [OF r limiter_new_ok] by (simp add: limiter_ok_def)
  assume i: "permits l \<le> n \<and> i < k \<and> length (threads l) = k \<and> threads l ! i = Outside"
  then show "permits (fst (try_acquire n i l)) \<le> n"
    using e count_update [of i "threads l" "\<lambda>t. t = Inside" Inside] count_update [of i "threads l" "\<lambda>t. t = Inside" Outside]
    by (auto simp: try_acquire_def compare_and_add_def load_count_def permits_def Let_def)
next
  let ?l0 = "limiter_new 2" and ?l1 = "load_count 0 (limiter_new 2)"
  let ?l2 = "load_count 1 ?l1" and ?l3 = "compare_and_add 1 0 0 (load_count 1 ?l1)"
  have "limiter_step 1 ?l0 ?l1" by (rule load) (simp_all add: limiter_new_def)
  moreover have "limiter_step 1 ?l1 ?l2" by (rule load) (simp_all add: limiter_new_def load_count_def numeral_2_eq_2)
  moreover have "limiter_step 1 ?l2 ?l3" by (rule decide) (simp_all add: limiter_new_def load_count_def numeral_2_eq_2)
  moreover have "limiter_step 1 ?l3 (compare_and_add 1 1 0 ?l3)"
    by (rule decide) (simp_all add: limiter_new_def load_count_def compare_and_add_def numeral_2_eq_2)
  ultimately have "(limiter_step 1)\<^sup>*\<^sup>* ?l0 (compare_and_add 1 1 0 ?l3)"
    by (meson converse_rtranclp_into_rtranclp rtranclp.rtrancl_refl)
  moreover have "permits (compare_and_add 1 1 0 ?l3) = 2"
    by (simp add: limiter_new_def load_count_def compare_and_add_def permits_def numeral_2_eq_2)
  ultimately show "\<exists>l2. (limiter_step 1)\<^sup>*\<^sup>* (limiter_new 2) l2 \<and> permits l2 = 2" by blast
qed

theorem limiter_race_witness:
  "permits (fst (try_acquire 1 0 (limiter_new 2))) \<le> 1 \<and> permits (fst (try_acquire 1 0 (limiter_new 2))) = 1"
proof -
  have "permits (fst (try_acquire 1 0 (limiter_new 2))) = 1"
    by (simp add: try_acquire_def limiter_new_def load_count_def compare_and_add_def permits_def numeral_2_eq_2)
  moreover have "permits (fst (try_acquire 1 0 (limiter_new 2))) \<le> 1"
    using limiter_race [of 1 2 "limiter_new 2" 0] by (simp add: limiter_new_def permits_def)
  ultimately show ?thesis by simp
qed

section \<open>Memories\<close>

definition memory_db :: Db where
  "memory_db = fst (save_memory (MemoryRecord_new 2 9 User ''s'' ''new'') (fst (save_memory (MemoryRecord_new 1 5 Project ''s'' ''old'') db_empty)))"

text \<open>The limit of the query is spent on memories of other scopes: an active memory of the
requested scope is not listed, although fewer than the limit are.\<close>

theorem active_memory_hidden:
  "list_active_memories (Some [Project]) None 1 memory_db = [] \<and>
   map mem_id (list_active_memories (Some [Project]) None 2 memory_db) = [1]"
  by code_simp

end
