(* ===== verification/Lease_Refinement.thy ===== *)
theory Lease_Refinement
  imports Storage_Properties
begin

text \<open>The lease methods of the store implement a lock service: the state of the service
is the holder of each task and a counter per task, its operations are grant, release,
expiry and renewal. Every step of the store is one of them or leaves the service as it
is.\<close>

section \<open>The lock service\<close>

type_synonym locks = "(ident \<Rightarrow> Lease option) \<times> (ident \<Rightarrow> nat)"

definition lock_view :: "Db \<Rightarrow> locks" where
  "lock_view db = (\<lambda>i. get_lease_by_task i db, \<lambda>i. get_current_lease_generation i db)"

definition lock_grant :: "Lease \<Rightarrow> locks \<Rightarrow> locks" where
  "lock_grant l s = (case s of (h, n) \<Rightarrow> let i = l_task_id l in
     (h(i \<mapsto> l\<lparr>l_generation := of_nat (n i + 1)\<rparr>), n(i := n i + 1)))"

definition lock_free :: "time \<Rightarrow> ident \<Rightarrow> locks \<Rightarrow> bool" where
  "lock_free now i s = (case fst s i of None \<Rightarrow> True | Some l \<Rightarrow> l_expires_at l \<le> now)"

definition lock_drop :: "(Lease \<Rightarrow> bool) \<Rightarrow> locks \<Rightarrow> locks" where
  "lock_drop P s = (\<lambda>i. case fst s i of None \<Rightarrow> None | Some l \<Rightarrow> if P l then None else Some l, snd s)"

definition lock_renew :: "ident \<Rightarrow> time \<Rightarrow> locks \<Rightarrow> locks" where
  "lock_renew k t s = (\<lambda>i. map_option (\<lambda>l. if l_id l = k then l\<lparr>l_expires_at := t\<rparr> else l) (fst s i), snd s)"

definition lock_bump :: "ident \<Rightarrow> locks \<Rightarrow> locks" where
  "lock_bump i s = (fst s, (snd s)(i := snd s i + 1))"

inductive lock_step :: "locks \<Rightarrow> locks \<Rightarrow> bool" where
  grant: "lock_free now (l_task_id l) s \<Longrightarrow> lock_step s (lock_grant l s)"
| drop: "lock_step s (lock_drop P s)"
| renew: "lock_step s (lock_renew k t s)"
| bump: "lock_step s (lock_bump i s)"

section \<open>The methods\<close>

lemma leases_distinct: "db_inv db \<Longrightarrow> distinct (map l_task_id (db_leases db))"
  by (simp add: db_inv_def lease_integrity_def)

lemma view_delete:
  assumes "db_inv db"
  shows "lock_view (delete_leases P db) = lock_drop P (lock_view db)"
  by (auto simp: lock_view_def lock_drop_def get_lease_by_task_def tbl_get_delete [OF leases_distinct [OF assms]]
      generation_map_of)

lemma view_renew_Ok: "renew_lease k t db = (db', Ok ()) \<Longrightarrow> lock_view db' = lock_renew k t (lock_view db)"
proof -
  have m: "tbl_get l_task_id i (tbl_modify l_id k f rows) = map_option (\<lambda>l. if l_id l = k then f l else l) (tbl_get l_task_id i rows)"
    if "\<And>l. l_task_id (f l) = l_task_id l" for i f rows
    using that by (induction rows) (auto simp: tbl_get_def tbl_modify_def)
  then show "renew_lease k t db = (db', Ok ()) \<Longrightarrow> ?thesis"
    by (auto simp: renew_lease_def lock_view_def lock_renew_def get_lease_by_task_def generation_map_of generations_def m
        split: if_splits)
qed

lemma view_renew: "lock_view (fst (renew_lease k t db)) = lock_renew k t (lock_view db) \<or> fst (renew_lease k t db) = db"
  using view_renew_Ok [of k t db] by (auto simp: renew_lease_def)

lemma view_acquire:
  assumes inv: "db_inv db" and ok: "acquire_lease now l db = (db', Ok g)"
  shows "lock_view db' = lock_grant l (lock_view db)" "lock_free now (l_task_id l) (lock_view db)"
proof -
  obtain n where n: "map_of (generations db) (l_task_id l) = Some n" "g = l\<lparr>l_generation := of_nat (n + 1)\<rparr>"
    "generations db' = bump (l_task_id l) (generations db)"
    "db_leases db' = tbl_delete (\<lambda>q. l_task_id q = l_task_id l) (db_leases db) @ [g]"
    using acquire_lease_Ok [OF assms] by blast
  have "get_current_lease_generation i db' =
      (if i = l_task_id l then n + 1 else get_current_lease_generation i db)" for i
    using n(1) by (simp add: generation_map_of n(3) map_of_bump)
  moreover have "get_current_lease_generation (l_task_id l) db = n" using n(1) by (simp add: generation_map_of)
  moreover have "get_lease_by_task i db' = (if i = l_task_id l then Some g else get_lease_by_task i db)" for i
    by (auto simp: get_lease_by_task_def n(4) tbl_get_append tbl_get_delete [OF leases_distinct [OF inv]] n(2)
        split: option.splits dest: tbl_get_key)
  ultimately show "lock_view db' = lock_grant l (lock_view db)"
    by (auto simp: lock_view_def lock_grant_def Let_def n(2) fun_eq_iff)
  show "lock_free now (l_task_id l) (lock_view db)"
    using acquire_grant(5) [OF assms] by (auto simp: stale_def lock_free_def lock_view_def split: option.splits)
qed

lemma view_increment:
  assumes "increment_lease_generation i db = (db', Ok g)"
  shows "lock_view db' = lock_bump i (lock_view db)"
  using increment_Ok [OF assms]
  by (auto simp: lock_view_def lock_bump_def get_lease_by_task_def generation_map_of map_of_bump fun_eq_iff
      split: option.splits)

text \<open>The other methods leave the view as it is: a new task starts at generation zero, which
is what the view shows of a task that does not exist.\<close>

definition same_view :: "Db \<Rightarrow> Db \<Rightarrow> bool" where
  "same_view db db' = (lock_view db' = lock_view db)"

lemma same_view_order: "reflp same_view" "transp same_view"
  by (auto simp: same_view_def intro!: reflpI transpI)

lemma same_view_same:
  "generations db' = generations db \<Longrightarrow> db_leases db' = db_leases db \<Longrightarrow> same_view db db'"
  by (simp add: same_view_def lock_view_def get_lease_by_task_def generation_map_of)

lemma same_view_insert: "moves same_view (insert_task_row t)"
  unfolding moves_def
proof
  fix db :: Db
  let ?db = "db\<lparr>db_tasks := db_tasks db @ [\<lparr>r_task = t, r_generation = 0\<rparr>]\<rparr>"
  have "generations ?db = generations db @ [(t_id t, 0)]" by (simp add: generations_def)
  then have "same_view db ?db"
    by (auto simp: same_view_def lock_view_def get_lease_by_task_def generation_map_of map_add_def fun_eq_iff split: option.splits)
  then show "same_view db (fst (insert_task_row t db))"
    using reflpD [OF same_view_order(1)] by (simp add: insert_task_row_def)
qed

lemma same_view_decompose: "moves same_view (decompose_task_transactional now p cs cds ts)"
  unfolding moves_def
proof
  fix db :: Db
  have add: "moves same_view (db_add_dependency i j)" for i j
    by (simp add: moves_def db_add_dependency_def same_view_same generations_def)
  have deps: "moves same_view (insert_deps es)" for es
    unfolding insert_deps_def by (rule moves_for_each [OF same_view_order]) (auto simp: add)
  have rem: "moves same_view (db_remove_dependency i j)" for i j
    by (simp add: moves_def db_remove_dependency_def same_view_same generations_def)
  have rew: "moves same_view (rewire_downstream p ts d)" for d
    unfolding rewire_downstream_def by (intro moves_then same_view_order rem deps)
  have dis: "moves same_view (discard_parent now p)"
    by (simp add: moves_def discard_parent_def same_view_same generations_def generations_modify)
  have tx: "moves same_view (transaction m)" if "moves same_view m" for m :: "(Db, unit, StorageError) op"
    using that reflpD [OF same_view_order(1)]
    by (auto simp: moves_def transaction_def split: prod.splits result.splits) (metis fst_conv)
  have "moves same_view (transaction (st_then (for_each (\<lambda>c. insert_task_row (c\<lparr>t_parent_id := Some p\<rparr>)) cs)
      (\<lambda>_. st_then (insert_deps cds) (\<lambda>_. st_then (insert_deps es)
      (\<lambda>_. st_then (for_each (rewire_downstream p ts) ds) (\<lambda>_. discard_parent now p))))))" for es ds
    by (intro tx moves_then moves_for_each same_view_order same_view_insert deps rew dis)
  then show "same_view db (fst (decompose_task_transactional now p cs cds ts db))"
    using reflpD [OF same_view_order(1)] by (simp add: decompose_task_transactional_def Let_def moves_def)
qed

lemma store_step_view:
  assumes inv: "db_inv db" and step: "db_step db db'"
  shows "lock_step (lock_view db) (lock_view db') \<or> same_view db db'"
  using step
proof (cases rule: db_step.cases)
  case (7 t)
  then show ?thesis using same_view_insert by (simp add: create_task_def moves_def)
next
  case (11 now p cs cds ts)
  then show ?thesis using same_view_decompose by (simp add: moves_def)
next
  case (12 now l)
  show ?thesis
  proof (cases "acquire_lease now l db")
    case (Pair d r)
    show ?thesis
    proof (cases r)
      case (Ok g)
      have e: "acquire_lease now l db = (db', Ok g)" using 12 Pair Ok by simp
      show ?thesis unfolding view_acquire(1) [OF inv e] by (rule disjI1, rule lock_step.grant) (rule view_acquire(2) [OF inv e])
    next
      case (Err e)
      then have "db' = db" using 12 Pair acquire_lease_Err by simp
      then show ?thesis by (simp add: same_view_def)
    qed
  qed
next
  case (13 i t)
  then show ?thesis using view_renew [of i t db] lock_step.renew reflpD [OF same_view_order(1)] by metis
next
  case (14 i)
  then have "lock_view db' = lock_drop (\<lambda>l. l_id l = i) (lock_view db)" using view_delete [OF inv] by (simp add: release_lease_def)
  then show ?thesis by (simp add: lock_step.drop)
next
  case (15 now)
  then have "lock_view db' = lock_drop (\<lambda>l. l_expires_at l \<le> now) (lock_view db)"
    using view_delete [OF inv] by (simp add: reclaim_expired_leases_def)
  then show ?thesis by (simp add: lock_step.drop)
next
  case (8 t)
  then show ?thesis using update_task_same same_view_same by (simp add: same_tables_def)
next
  case (41 i)
  show ?thesis
  proof (cases "increment_lease_generation i db")
    case (Pair d r)
    then show ?thesis using 41 view_increment [of i db d] lock_step.bump increment_Err [of i db d]
      by (cases r) (auto simp: same_view_def)
  qed
qed (auto intro!: disjI2 same_view_same simp: create_workflow_def update_workflow_def create_agent_def
    update_agent_def create_session_def update_session_def db_add_dependency_def db_remove_dependency_def
    create_execution_def update_execution_def enqueue_command_def claim_next_queued_command_def
    claim_command_by_id_def claim_row_def update_command_def append_event_def create_approval_def
    update_approval_def prune_historical_records_def mission_table_defs record_table_defs generations_def
    split: list.splits option.splits)

text \<open>C14: the store refines the lock service: along every history each step is a grant on
a free task with the next generation, a removal of leases, a renewal, a generation raised
without a grant, or leaves the view of the service as it is; and the lease methods are
exactly these operations.\<close>

theorem lease_store_refines:
  assumes "reachable_db db"
  shows "(\<forall>db'. db_step db db' \<longrightarrow> lock_step (lock_view db) (lock_view db') \<or> lock_view db' = lock_view db) \<and>
    (\<forall>now l db' g. acquire_lease now l db = (db', Ok g) \<longrightarrow>
       lock_free now (l_task_id l) (lock_view db) \<and> lock_view db' = lock_grant l (lock_view db)) \<and>
    (\<forall>k u db'. renew_lease k u db = (db', Ok ()) \<longrightarrow> lock_view db' = lock_renew k u (lock_view db)) \<and>
    (\<forall>j db' n. increment_lease_generation j db = (db', Ok n) \<longrightarrow> lock_view db' = lock_bump j (lock_view db)) \<and>
    lock_view (fst (release_lease i db)) = lock_drop (\<lambda>l. l_id l = i) (lock_view db) \<and>
    lock_view (fst (reclaim_expired_leases t db)) = lock_drop (\<lambda>l. l_expires_at l \<le> t) (lock_view db)"
proof -
  have inv: "db_inv db" by (rule reachable_db_inv [OF assms])
  show ?thesis
    using store_step_view [OF inv] view_acquire [OF inv] view_delete [OF inv] view_renew_Ok view_increment
    by (auto simp: same_view_def release_lease_def reclaim_expired_leases_def)
qed

theorem lease_store_refines_witness:
  "lock_view (fst grant1) = lock_grant lease1 (lock_view demo_db) \<and> fst (lock_view (fst grant1)) 2 = Some (lease1\<lparr>l_generation := 1\<rparr>)"
proof -
  have "lock_view (fst grant1) = lock_grant lease1 (lock_view demo_db)"
    using lease_store_refines [OF demo_db_reachable] demo_grants(1) by blast
  moreover have "get_current_lease_generation 2 demo_db = 0"
    by (simp add: get_current_lease_generation_def demo_task_rows get_demo_row)
  ultimately show ?thesis by (simp add: lock_grant_def lock_view_def Let_def)
qed

end
