(* ===== verification/Store_References.thy ===== *)
theory Store_References
  imports Reconcile_Laws Storage_Properties
begin

text \<open>Referential integrity of the store: every row of every reachable database refers to
rows that exist, whatever rows other methods insert, update and delete in between. The
keys a row refers to are values of one type, so that integrity is an inclusion.\<close>

section \<open>Keys and references\<close>

datatype Key = WorkflowKey ident | AgentKey ident | SessionKey ident | TaskKey ident | LeaseKey ident

definition opt_key :: "(ident \<Rightarrow> Key) \<Rightarrow> ident option \<Rightarrow> Key set" where
  "opt_key k i = k ` set_option i"

definition task_needs :: "TaskRow \<Rightarrow> Key set" where
  "task_needs r = insert (WorkflowKey (t_workflow_id (r_task r))) (opt_key TaskKey (t_parent_id (r_task r)))"

definition lease_needs :: "Lease \<Rightarrow> Key set" where
  "lease_needs l = {TaskKey (l_task_id l), AgentKey (l_agent_id l)}"

definition execution_needs :: "Execution \<Rightarrow> Key set" where
  "execution_needs x = {TaskKey (x_task_id x), AgentKey (x_agent_id x)} \<union>
     opt_key SessionKey (x_session_id x) \<union> opt_key LeaseKey (x_lease_id x)"

definition message_needs :: "AgentMessage \<Rightarrow> Key set" where
  "message_needs m = insert (WorkflowKey (msg_workflow_id m)) (opt_key TaskKey (msg_task_id m))"

definition plan_needs :: "PlanningRecord \<Rightarrow> Key set" where
  "plan_needs p = insert (WorkflowKey (pl_workflow_id p)) (opt_key TaskKey (pl_parent_task_id p))"

definition present :: "Db \<Rightarrow> Key set" where
  "present db = (WorkflowKey \<circ> w_id) ` set (db_workflows db) \<union> (AgentKey \<circ> a_id) ` set (db_agents db) \<union>
     (SessionKey \<circ> s_id) ` set (db_sessions db) \<union> (TaskKey \<circ> row_id) ` set (db_tasks db) \<union>
     (LeaseKey \<circ> l_id) ` set (db_leases db)"

definition row_needs :: "Db \<Rightarrow> Key set" where
  "row_needs db = (\<Union>s\<in>set (db_sessions db). {AgentKey (s_agent_id s)}) \<union>
     (\<Union>r\<in>set (db_tasks db). task_needs r) \<union>
     (\<Union>l\<in>set (db_leases db). lease_needs l) \<union>
     (\<Union>x\<in>set (db_executions db). execution_needs x)"

definition record_needs :: "Db \<Rightarrow> Key set" where
  "record_needs db = (\<Union>a\<in>set (db_approvals db). {TaskKey (ap_task_id a), WorkflowKey (ap_workflow_id a)}) \<union>
     (\<Union>v\<in>set (db_verifications db). {TaskKey (v_task_id v)}) \<union>
     (\<Union>m\<in>set (db_messages db). message_needs m) \<union>
     (\<Union>p\<in>set (db_plans db). plan_needs p) \<union>
     (\<Union>r\<in>set (db_recoveries db). {TaskKey (rv_task_id r), WorkflowKey (rv_workflow_id r)})"

definition refs_ok :: "Db \<Rightarrow> bool" where
  "refs_ok db = (row_needs db \<union> record_needs db \<subseteq> present db)"

lemma opt_key_simps [simp]: "opt_key k None = {}" "opt_key k (Some i) = {k i}"
  by (simp_all add: opt_key_def)

lemma opt_key_present:
  "opt_key TaskKey i \<subseteq> present db \<longleftrightarrow> fk_ok row_id i (db_tasks db)"
  "opt_key SessionKey i \<subseteq> present db \<longleftrightarrow> fk_ok s_id i (db_sessions db)"
  "opt_key LeaseKey i \<subseteq> present db \<longleftrightarrow> fk_ok l_id i (db_leases db)"
  by (cases i; auto simp: present_def fk_ok_def tbl_has_def)+

lemma key_present:
  "WorkflowKey i \<in> present db \<longleftrightarrow> tbl_has w_id i (db_workflows db)"
  "AgentKey i \<in> present db \<longleftrightarrow> tbl_has a_id i (db_agents db)"
  "SessionKey i \<in> present db \<longleftrightarrow> tbl_has s_id i (db_sessions db)"
  "TaskKey i \<in> present db \<longleftrightarrow> tbl_has row_id i (db_tasks db)"
  "LeaseKey i \<in> present db \<longleftrightarrow> tbl_has l_id i (db_leases db)"
  by (auto simp: present_def tbl_has_def)

text \<open>Integrity survives a step that keeps the keys and adds only references to keys that
are present.\<close>

lemma refs_grow:
  assumes "refs_ok db" "present db \<subseteq> present db'"
    "row_needs db' \<subseteq> row_needs db \<union> present db'" "record_needs db' \<subseteq> record_needs db \<union> present db'"
  shows "refs_ok db'"
  using assms by (fastforce simp: refs_ok_def)

lemma modify_key: "(\<And>r. key r = k \<Longrightarrow> f (g r) = f r) \<Longrightarrow> f ` set (tbl_modify key k g rows) = f ` set rows"
  unfolding tbl_modify_def set_map image_image by (rule image_cong) auto

lemma modify_needs: "(\<And>r. key r = k \<Longrightarrow> n (g r) = n r) \<Longrightarrow> (\<Union>r\<in>set (tbl_modify key k g rows). n r) = (\<Union>r\<in>set rows. n r)"
  by (auto simp: tbl_modify_def split: if_splits)

text \<open>What each method reads and writes of the keys and references.\<close>

lemmas ref_defs = present_def row_needs_def record_needs_def

lemma refs_inserts:
  "refs_ok db \<Longrightarrow> refs_ok (fst (create_workflow w db))"
  "refs_ok db \<Longrightarrow> refs_ok (fst (create_agent a db))"
  "refs_ok db \<Longrightarrow> refs_ok (fst (create_session s db))"
  by (erule refs_grow; auto simp: ref_defs create_workflow_def create_agent_def create_session_def tbl_has_def)+

lemma not_fk_ok: "(case i of None \<Rightarrow> False | Some k \<Rightarrow> \<not> tbl_has key k rows) = (\<not> fk_ok key i rows)"
  by (simp add: fk_ok_def split: option.split)

text \<open>Inserting a row whose references are present.\<close>

lemma present_records [simp]:
  "present (db\<lparr>db_executions := xs\<rparr>) = present db" "present (db\<lparr>db_messages := ms\<rparr>) = present db"
  "present (db\<lparr>db_plans := ps\<rparr>) = present db" "present (db\<lparr>db_approvals := as\<rparr>) = present db"
  "present (db\<lparr>db_verifications := vs\<rparr>) = present db" "present (db\<lparr>db_recoveries := rs\<rparr>) = present db"
  by (simp_all add: present_def)

lemma refs_add:
  assumes "refs_ok db" "N \<subseteq> present db" "present db' = present db"
    "row_needs db' \<union> record_needs db' = row_needs db \<union> record_needs db \<union> N"
  shows "refs_ok db'"
  using assms by (simp add: refs_ok_def)

lemma refs_insert_execution: "refs_ok db \<Longrightarrow> refs_ok (fst (create_execution x db))"
  by (auto simp: create_execution_def not_fk_ok, erule refs_add [where N = "execution_needs x"])
    (simp_all add: execution_needs_def key_present opt_key_present row_needs_def record_needs_def Un_ac)

lemma refs_insert_message: "refs_ok db \<Longrightarrow> refs_ok (fst (send_message m db))"
  by (auto simp: send_message_def, erule refs_add [where N = "message_needs m"])
    (simp_all add: message_needs_def key_present opt_key_present row_needs_def record_needs_def Un_ac)

lemma refs_insert_plan: "refs_ok db \<Longrightarrow> refs_ok (fst (save_plan_record p db))"
  by (auto simp: save_plan_record_def, erule refs_add [where N = "plan_needs p"])
    (simp_all add: plan_needs_def key_present opt_key_present row_needs_def record_needs_def Un_ac)

lemma refs_insert_approval: "refs_ok db \<Longrightarrow> refs_ok (fst (create_approval a db))"
  by (auto simp: create_approval_def, erule refs_add [where N = "{TaskKey (ap_task_id a), WorkflowKey (ap_workflow_id a)}"])
    (simp_all add: key_present row_needs_def record_needs_def Un_ac)

lemma refs_insert_verification: "refs_ok db \<Longrightarrow> refs_ok (fst (create_verification v db))"
  by (auto simp: create_verification_def, erule refs_add [where N = "{TaskKey (v_task_id v)}"])
    (simp_all add: key_present row_needs_def record_needs_def Un_ac)

lemma refs_insert_recovery: "refs_ok db \<Longrightarrow> refs_ok (fst (save_recovery_record r db))"
  by (auto simp: save_recovery_record_def, erule refs_add [where N = "{TaskKey (rv_task_id r), WorkflowKey (rv_workflow_id r)}"])
    (simp_all add: key_present row_needs_def record_needs_def Un_ac)

lemmas refs_insert_rows = refs_inserts refs_insert_execution refs_insert_message refs_insert_plan refs_insert_approval
  refs_insert_verification refs_insert_recovery

lemma refs_insert_task: "keeps refs_ok (insert_task_row t)"
  by (rule keepsI, erule refs_grow) (auto simp: ref_defs insert_task_row_def task_needs_def tbl_has_def opt_key_def split: option.splits)

lemma refs_updates:
  "refs_ok db \<Longrightarrow> refs_ok (fst (update_workflow w db))"
  "refs_ok db \<Longrightarrow> refs_ok (fst (update_agent a db))"
  "refs_ok db \<Longrightarrow> refs_ok (fst (update_session s db))"
  "refs_ok db \<Longrightarrow> refs_ok (fst (update_execution x db))"
  "refs_ok db \<Longrightarrow> refs_ok (fst (update_approval ap db))"
  "refs_ok db \<Longrightarrow> refs_ok (fst (update_recovery_record rv db))"
  "refs_ok db \<Longrightarrow> refs_ok (fst (renew_lease i t db))"
  by (erule refs_grow; simp add: ref_defs update_workflow_def update_agent_def update_session_def update_execution_def
      update_approval_def update_recovery_record_def renew_lease_def modify_key modify_needs execution_needs_def
      lease_needs_def; blast)+

lemma row_needs_tasks:
  "(\<Union>r\<in>set rows. task_needs r) \<subseteq> (\<Union>r\<in>set (db_tasks db). task_needs r) \<union> A \<Longrightarrow>
   row_needs (db\<lparr>db_tasks := rows\<rparr>) \<subseteq> row_needs db \<union> A"
  by (simp add: row_needs_def) blast

lemma refs_update_task: "refs_ok db \<Longrightarrow> refs_ok (fst (update_task t db))"
proof -
  assume ok: "refs_ok db"
  let ?f = "\<lambda>r. r\<lparr>r_task := t\<lparr>t_workflow_id := t_workflow_id (r_task r), t_created_at := t_created_at (r_task r)\<rparr>\<rparr>"
  let ?rows = "tbl_modify row_id (t_id t) ?f (db_tasks db)"
  have "refs_ok (db\<lparr>db_tasks := ?rows\<rparr>)" if p: "fk_ok row_id (t_parent_id t) (db_tasks db)"
  proof (rule refs_grow [OF ok])
    have k: "(\<lambda>r. TaskKey (row_id r)) ` set ?rows = (\<lambda>r. TaskKey (row_id r)) ` set (db_tasks db)"
      by (rule modify_key) simp
    then show pres: "present db \<subseteq> present (db\<lparr>db_tasks := ?rows\<rparr>)" by (simp add: present_def comp_def)
    have "(\<Union>r\<in>set ?rows. task_needs r) \<subseteq> (\<Union>r\<in>set (db_tasks db). task_needs r) \<union> opt_key TaskKey (t_parent_id t)"
      by (auto simp: tbl_modify_def task_needs_def)
    moreover have "opt_key TaskKey (t_parent_id t) \<subseteq> present db" using p by (simp add: opt_key_present)
    ultimately show "row_needs (db\<lparr>db_tasks := ?rows\<rparr>) \<subseteq> row_needs db \<union> present (db\<lparr>db_tasks := ?rows\<rparr>)"
      by (intro row_needs_tasks subset_trans [OF _ Un_mono [OF subset_refl subset_trans [OF _ pres]]])
  qed (simp add: record_needs_def)
  then show ?thesis using ok by (simp add: update_task_def not_fk_ok)
qed

lemma refs_same:
  "refs_ok db \<Longrightarrow> present db' = present db \<Longrightarrow> row_needs db' = row_needs db \<Longrightarrow> record_needs db' = record_needs db \<Longrightarrow>
   refs_ok db'"
  by (simp add: refs_ok_def)

lemma refs_deps: "keeps refs_ok (db_add_dependency i j)" "keeps refs_ok (db_remove_dependency i j)"
    "keeps refs_ok (insert_deps es)" "keeps refs_ok (discard_parent now p)"
proof -
  show 1: "keeps refs_ok (db_add_dependency i j)" for i j
    by (rule keepsI, erule refs_same) (simp_all add: db_add_dependency_def ref_defs)
  show "keeps refs_ok (db_remove_dependency i j)"
    by (rule keepsI, erule refs_same) (simp_all add: db_remove_dependency_def ref_defs)
  show "keeps refs_ok (insert_deps es)" unfolding insert_deps_def by (rule keeps_for_each) (auto simp: 1)
  show "keeps refs_ok (discard_parent now p)"
    by (rule keepsI, erule refs_same) (simp_all add: discard_parent_def ref_defs modify_key modify_needs task_needs_def)
qed

lemma refs_decompose: "keeps refs_ok (decompose_task_transactional now p cs cds ts)"
proof (rule keepsI)
  fix db assume ok: "refs_ok db"
  have "keeps refs_ok (rewire_downstream p ts d)" for d
    unfolding rewire_downstream_def by (intro keeps_then refs_deps)
  then have "keeps refs_ok (transaction (st_then (for_each (\<lambda>c. insert_task_row (c\<lparr>t_parent_id := Some p\<rparr>)) cs)
      (\<lambda>_. st_then (insert_deps cds) (\<lambda>_. st_then (insert_deps es)
      (\<lambda>_. st_then (for_each (rewire_downstream p ts) ds) (\<lambda>_. discard_parent now p))))))" for es ds
    by (intro transaction_inv keeps_then keeps_for_each refs_insert_task refs_deps)
  from keepsD [OF this ok] show "refs_ok (fst (decompose_task_transactional now p cs cds ts db))"
    using ok by (simp add: decompose_task_transactional_def Let_def)
qed

section \<open>Leases\<close>

lemma refs_delete_leases: "refs_ok db \<Longrightarrow> refs_ok (delete_leases P db)"
proof -
  assume ok: "refs_ok db"
  let ?gone = "{k. \<exists>l \<in> set (db_leases db). P l \<and> k = LeaseKey (l_id l)}"
  have p: "present db - ?gone \<subseteq> present (delete_leases P db)"
    by (auto simp: present_def delete_leases_def tbl_delete_def)
  have "row_needs (delete_leases P db) \<subseteq> row_needs db - ?gone"
    by (auto simp: row_needs_def delete_leases_def tbl_delete_def task_needs_def lease_needs_def execution_needs_def
        opt_key_def split: option.splits if_splits)
  moreover have "record_needs (delete_leases P db) \<subseteq> record_needs db - ?gone"
    by (auto simp: record_needs_def delete_leases_def message_needs_def plan_needs_def opt_key_def)
  ultimately show ?thesis using ok p unfolding refs_ok_def by blast
qed

lemma refs_increment: "keeps refs_ok (increment_lease_generation i)"
  by (rule keepsI, erule refs_same)
    (simp_all add: increment_lease_generation_def ref_defs modify_key modify_needs task_needs_def split: option.split)

lemma refs_insert_lease: "keeps refs_ok (insert_lease l)"
  by (rule keepsI, erule refs_grow) (auto simp: ref_defs insert_lease_def lease_needs_def tbl_has_def)

lemma refs_acquire: "keeps refs_ok (acquire_lease now l)"
proof -
  have "keeps refs_ok (\<lambda>db. (delete_leases P db, Ok ()))" for P
    by (rule keepsI) (simp add: refs_delete_leases)
  note k = keepsD [OF transaction_inv [OF keeps_then [OF this keeps_then [OF refs_increment refs_insert_lease]]]]
    keepsD [OF transaction_inv [OF keeps_then [OF refs_increment refs_insert_lease]]]
  show ?thesis
    by (rule keepsI) (simp add: acquire_lease_def k split: option.split)
qed

section \<open>Methods on other tables\<close>

lemma refs_commands:
  "refs_ok db \<Longrightarrow> refs_ok (fst (enqueue_command c db))" "refs_ok db \<Longrightarrow> refs_ok (fst (update_command c db))"
  "refs_ok db \<Longrightarrow> refs_ok (fst (append_event e db))"
  "refs_ok db \<Longrightarrow> refs_ok (fst (claim_next_queued_command now db))"
  "refs_ok db \<Longrightarrow> refs_ok (fst (claim_command_by_id now i db))"
  "refs_ok db \<Longrightarrow> refs_ok (fst (save_memory mm db))" "refs_ok db \<Longrightarrow> refs_ok (fst (update_memory mm db))"
  by (erule refs_same; simp add: ref_defs enqueue_command_def update_command_def append_event_def
      claim_next_queued_command_def claim_command_by_id_def claim_row_def save_memory_def update_memory_def
      split: list.split option.split)+

lemma refs_prune: "refs_ok db \<Longrightarrow> refs_ok (fst (prune_historical_records now db))"
  by (erule refs_grow) (auto simp: ref_defs prune_historical_records_def tbl_delete_def)

lemma refs_missions:
  "refs_ok db \<Longrightarrow> refs_ok (fst (create_workspace ws db))" "refs_ok db \<Longrightarrow> refs_ok (fst (update_workspace ws db))"
  "refs_ok db \<Longrightarrow> refs_ok (fst (delete_workspace i db))" "refs_ok db \<Longrightarrow> refs_ok (fst (create_mission m db))"
  "refs_ok db \<Longrightarrow> refs_ok (fst (update_mission m db))" "refs_ok db \<Longrightarrow> refs_ok (fst (store_checkpoint k db))"
  "refs_ok db \<Longrightarrow> refs_ok (fst (create_cycle cy db))" "refs_ok db \<Longrightarrow> refs_ok (fst (update_cycle cy db))"
  by (erule refs_same; simp add: ref_defs mission_table_defs)+

lemma db_step_refs: "db_step db db' \<Longrightarrow> refs_ok db \<Longrightarrow> refs_ok db'"
  by (erule db_stepE) (simp_all add: refs_insert_rows refs_updates refs_prune
      refs_update_task refs_commands refs_missions refs_delete_leases release_lease_def reclaim_expired_leases_def
      create_task_def keepsD [OF refs_insert_task] keepsD [OF refs_decompose] keepsD [OF refs_acquire] keepsD [OF refs_increment] keepsD [OF refs_deps(1)]
      keepsD [OF refs_deps(2)])

lemma db_steps_refs: "db_step\<^sup>*\<^sup>* db db' \<Longrightarrow> refs_ok db \<Longrightarrow> refs_ok db'"
  by (induction rule: rtranclp_induct) (auto intro: db_step_refs)

lemma refs_empty: "refs_ok db_empty"
  by (simp add: refs_ok_def ref_defs db_empty_def)

text \<open>C15: in every reachable database every reference is to a stored row: the workflow and
parent of a task, the agent of a session, the task and agent of a lease, the task, agent,
session and lease of an execution, and the tasks and workflows of approvals,
verifications, messages, planning and recovery records.\<close>

theorem store_references:
  assumes "reachable_db db"
  shows "row_needs db \<union> record_needs db \<subseteq> present db"
  using db_steps_refs refs_empty assms unfolding reachable_db_def refs_ok_def by blast

theorem store_references_witness:
  "{TaskKey 2, AgentKey 5} \<subseteq> row_needs (fst grant1) \<and> row_needs (fst grant1) \<subseteq> present (fst grant1)"
proof -
  have "reachable_db (fst grant1)"
    using demo_db_reachable db_step.intros(12) unfolding grant1_def reachable_db_def by (meson rtranclp.rtrancl_into_rtrancl)
  from store_references [OF this] have "row_needs (fst grant1) \<subseteq> present (fst grant1)" by blast
  moreover have "db_leases (fst grant1) = [lease1\<lparr>l_generation := 1\<rparr>]" by (simp add: grant1_def demo_grant1)
  then have "{TaskKey 2, AgentKey 5} \<subseteq> row_needs (fst grant1)"
    by (simp add: row_needs_def lease_needs_def lease1_def Lease_new_def)
  ultimately show ?thesis by blast
qed

end
