(* ===== verification/Plan_Validator.thy ===== *)
theory Plan_Validator
  imports Records "HOL-Library.AList"
begin

text \<open>The proposals of the planner (plexis-planner, proposal.rs) and their validation
(validator.rs): identifiers, criteria, dependencies, Kahn's algorithm with the depth of
each task, and the budgets. A usize that counts the elements of a list is a natural
number. The iteration order of the hash tables is a parameter; the panic of the checked
decrement of an in-degree is the value None.\<close>

section \<open>Proposals\<close>

datatype ExecutionStrategy = Parallel | Sequential | Staged

datatype VerificationStrategy = DiskArtifacts | CommandOutput | MultiStep

record ProposedTask =
  pt_temp_id :: string
  pt_objective :: string
  pt_description :: "string option"
  pt_criteria :: "string list"
  pt_required_capabilities :: "string list"
  pt_suggested_role :: "string option"
  pt_priority :: int

record ProposedDependency =
  pd_task_temp_id :: string
  pd_depends_on_temp_id :: string

record PlanProposal =
  pp_objective :: string
  pp_rationale :: string
  pp_tasks :: "ProposedTask list"
  pp_dependencies :: "ProposedDependency list"
  pp_execution_strategy :: ExecutionStrategy
  pp_verification_strategy :: VerificationStrategy

definition PlanProposal_new :: "string \<Rightarrow> string \<Rightarrow> PlanProposal" where
  "PlanProposal_new objective rationale =
    \<lparr>pp_objective = objective, pp_rationale = rationale, pp_tasks = [], pp_dependencies = [],
     pp_execution_strategy = Parallel, pp_verification_strategy = DiskArtifacts\<rparr>"

definition with_task :: "ProposedTask \<Rightarrow> PlanProposal \<Rightarrow> PlanProposal" where
  "with_task t p = p\<lparr>pp_tasks := pp_tasks p @ [t]\<rparr>"

definition with_dependency :: "string \<Rightarrow> string \<Rightarrow> PlanProposal \<Rightarrow> PlanProposal" where
  "with_dependency t d p =
    p\<lparr>pp_dependencies := pp_dependencies p @ [\<lparr>pd_task_temp_id = t, pd_depends_on_temp_id = d\<rparr>]\<rparr>"

record PlannerBudgets =
  max_tasks_per_plan :: nat
  max_workflow_tasks :: nat
  max_decomposition_depth :: nat

definition PlannerBudgets_default :: PlannerBudgets where
  "PlannerBudgets_default =
    \<lparr>max_tasks_per_plan = 50, max_workflow_tasks = 200, max_decomposition_depth = 15\<rparr>"

record PlanValidationReport =
  is_valid :: bool
  report_errors :: "string list"

definition report_ok :: PlanValidationReport where
  "report_ok = \<lparr>is_valid = True, report_errors = []\<rparr>"

definition report_failed :: "string list \<Rightarrow> PlanValidationReport" where
  "report_failed errors = \<lparr>is_valid = False, report_errors = errors\<rparr>"

section \<open>Tasks and dependencies of a proposal\<close>

definition budget_errors :: "PlanProposal \<Rightarrow> PlannerBudgets \<Rightarrow> nat \<Rightarrow> string list" where
  "budget_errors p b existing =
    (let n = length (pp_tasks p) in
     (if max_tasks_per_plan b < n
      then [''Plan proposal exceeds maximum task budget of '' @ decimal (max_tasks_per_plan b) @ '' (contains '' @
            decimal n @ '')''] else []) @
     (if max_workflow_tasks b < existing + n
      then [''Adding '' @ decimal n @ '' tasks exceeds maximum workflow task limit of '' @ decimal (max_workflow_tasks b) @
            '' (workflow currently has '' @ decimal existing @ '')''] else []))"

definition criteria_errors :: "string \<Rightarrow> string list \<Rightarrow> string list" where
  "criteria_errors i cs =
    (if cs = [] then [''Task '' @ single_quoted i @ '' must specify at least one acceptance criterion'']
     else concat (map (\<lambda>(k, c). if str_trim c = []
       then [''Task '' @ single_quoted i @ '' criterion #'' @ decimal (k + 1) @ '' is empty or whitespace''] else [])
       (enumerate 0 cs)))"

text \<open>One task: the identifiers collected so far, and the errors.\<close>

definition check_task :: "nat \<times> ProposedTask \<Rightarrow> string list \<times> string list \<Rightarrow> string list \<times> string list" where
  "check_task it st =
    (case (it, st) of ((idx, t), (ids, errors)) \<Rightarrow>
       let i = str_trim (pt_temp_id t) in
       if i = [] then (ids, errors @ [''Task at index '' @ decimal idx @ '' has an empty temporary id''])
       else
         (if i \<in> set ids then ids else ids @ [i],
          errors @
          (if i \<in> set ids then [''Duplicate task temporary id detected: '' @ single_quoted i] else []) @
          (if str_trim (pt_objective t) = [] then [''Task '' @ single_quoted i @ '' has an empty objective''] else []) @
          criteria_errors i (pt_criteria t)))"

record links =
  in_degree :: "(string \<times> nat) list"
  dependents :: "string \<rightharpoonup> string list"
  link_errors :: "string list"

definition add_link :: "string \<Rightarrow> string \<Rightarrow> links \<Rightarrow> links" where
  "add_link i j s =
    (let current = (case dependents s j of None \<Rightarrow> [] | Some xs \<Rightarrow> xs) in
     if i \<in> set current then s
     else s\<lparr>dependents := (dependents s)(j \<mapsto> current @ [i]),
            in_degree := AList.update i (case map_of (in_degree s) i of None \<Rightarrow> 1 | Some n \<Rightarrow> n + 1) (in_degree s)\<rparr>)"

definition check_dependency :: "string list \<Rightarrow> nat \<times> ProposedDependency \<Rightarrow> links \<Rightarrow> links" where
  "check_dependency ids kd s =
    (case kd of (k, d) \<Rightarrow>
       let i = str_trim (pd_task_temp_id d); j = str_trim (pd_depends_on_temp_id d);
           shown = ''Dependency #'' @ decimal (k + 1) in
       if i = j
       then s\<lparr>link_errors := link_errors s @ [shown @ '' is self-referential: task '' @ single_quoted i @
              '' cannot depend on itself'']\<rparr>
       else
         let s1 = s\<lparr>link_errors := link_errors s @
               (if i \<notin> set ids then [shown @ '' references non-existent task '' @ single_quoted i] else []) @
               (if j \<notin> set ids then [shown @ '' references non-existent prerequisite '' @ single_quoted j] else [])\<rparr>
         in if i \<in> set ids \<and> j \<in> set ids then add_link i j s1 else s1)"

section \<open>Kahn's algorithm with depths\<close>

fun relax_deep :: "'a list \<Rightarrow> nat \<Rightarrow> ('a \<times> nat) list \<Rightarrow> ('a \<rightharpoonup> nat) \<Rightarrow> 'a list
    \<Rightarrow> (('a \<times> nat) list \<times> ('a \<rightharpoonup> nat) \<times> 'a list) option" where
  "relax_deep [] current deg depths queue = Some (deg, depths, queue)"
| "relax_deep (nxt # ns) current deg depths queue =
    (let depths1 = depths(nxt \<mapsto> max (case depths nxt of None \<Rightarrow> 1 | Some d \<Rightarrow> d) (current + 1)) in
     case map_of deg nxt of
       None \<Rightarrow> relax_deep ns current deg depths1 queue
     | Some 0 \<Rightarrow> None
     | Some (Suc d) \<Rightarrow>
         relax_deep ns current (AList.update nxt d deg) depths1 (if d = 0 then queue @ [nxt] else queue))"

lemma update_sum: "map_of deg k = Some (Suc d) \<Longrightarrow> Suc (sum_list (map snd (AList.update k d deg))) = sum_list (map snd deg)"
  by (induction deg) auto

lemma relax_deep_measure:
  "relax_deep ns current deg depths queue = Some (deg', depths', queue') \<Longrightarrow>
   sum_list (map snd deg') + length queue' \<le> sum_list (map snd deg) + length queue"
proof (induction ns arbitrary: deg depths queue)
  case (Cons a ns)
  show ?case
  proof (cases "map_of deg a")
    case (Some n)
    then obtain d where d: "n = Suc d" using Cons.prems by (cases n) (auto simp: Let_def)
    then show ?thesis
      using Cons.prems Some Cons.IH [of "AList.update a d deg" _ "if d = 0 then queue @ [a] else queue"]
        update_sum [of deg a d] by (fastforce simp: Let_def split: if_splits)
  qed (use Cons in \<open>auto simp: Let_def\<close>)
qed simp

text \<open>The loop: order collects the visited tasks, which the source counts.\<close>

function deep_kahn :: "('a list \<Rightarrow> 'a list) \<Rightarrow> ('a \<rightharpoonup> 'a list) \<Rightarrow> ('a \<times> nat) list \<Rightarrow> ('a \<rightharpoonup> nat) \<Rightarrow> 'a list \<Rightarrow> 'a list \<Rightarrow> nat
    \<Rightarrow> (('a \<times> nat) list \<times> ('a \<rightharpoonup> nat) \<times> 'a list \<times> nat) option" where
  "deep_kahn ord down deg depths [] order max_depth = Some (deg, depths, order, max_depth)"
| "deep_kahn ord down deg depths (node # queue) order max_depth =
    (let current = (case depths node of None \<Rightarrow> 1 | Some d \<Rightarrow> d) in
     case (case down node of None \<Rightarrow> Some (deg, depths, queue) | Some ns \<Rightarrow> relax_deep (ord ns) current deg depths queue) of
       None \<Rightarrow> None
     | Some (deg1, depths1, queue1) \<Rightarrow> deep_kahn ord down deg1 depths1 queue1 (order @ [node]) (max max_depth current))"
  by pat_completeness auto
termination
  by (relation "measure (\<lambda>(_, _, deg, _, queue, _, _). sum_list (map snd deg) + length queue)")
    (auto split: option.splits dest: relax_deep_measure)

section \<open>Validation\<close>

definition quoted_list :: "string list \<Rightarrow> string" where
  "quoted_list xs = CHR 0x5B # concat (map (\<lambda>(k, x). (if k = 0 then [] else '', '') @ quote_char # x @ [quote_char]) (enumerate 0 xs)) @ [CHR 0x5D]"

definition depth_errors :: "(string list \<Rightarrow> string list) \<Rightarrow> string list \<Rightarrow> links \<Rightarrow> nat \<Rightarrow> string list option" where
  "depth_errors ord ids s limit =
    (let roots = map fst (filter (\<lambda>(_, d). d = 0) (in_degree s)) in
     case deep_kahn ord (dependents s) (in_degree s) (\<lambda>i. if i \<in> set roots then Some 1 else None) roots []
         (if ids = [] then 0 else 1) of
       None \<Rightarrow> None
     | Some (deg, _, order, max_depth) \<Rightarrow> Some (
         if length order \<noteq> length ids
         then [''Cycle detected in proposed task graph involving tasks: '' @ quoted_list (map fst (filter (\<lambda>(_, d). 0 < d) deg))]
         else if limit < max_depth
         then [''Task graph decomposition depth of '' @ decimal max_depth @ '' exceeds maximum allowed depth of '' @ decimal limit]
         else []))"

definition links_of :: "(string list \<Rightarrow> string list) \<Rightarrow> string list \<Rightarrow> ProposedDependency list \<Rightarrow> string list \<Rightarrow> links" where
  "links_of ord ids ds errors =
    fold (check_dependency ids) (enumerate 0 ds)
      \<lparr>in_degree = map (\<lambda>i. (i, 0)) (ord ids), dependents = (\<lambda>i. if i \<in> set ids then Some [] else None), link_errors = errors\<rparr>"

definition validate_with_budget ::
  "(string list \<Rightarrow> string list) \<Rightarrow> PlanProposal \<Rightarrow> PlannerBudgets \<Rightarrow> nat \<Rightarrow> PlanValidationReport option" where
  "validate_with_budget ord p b existing =
    (if pp_tasks p = [] then Some (report_failed [''Plan proposal must contain at least one task''])
     else
       case fold check_task (enumerate 0 (pp_tasks p)) ([], budget_errors p b existing) of (ids, errors) \<Rightarrow>
       let s = links_of ord ids (pp_dependencies p) errors in
       if link_errors s \<noteq> [] then Some (report_failed (link_errors s))
       else
         case depth_errors ord ids s (max_decomposition_depth b) of
           None \<Rightarrow> None
         | Some [] \<Rightarrow> Some report_ok
         | Some errs \<Rightarrow> Some (report_failed errs))"

definition validate :: "(string list \<Rightarrow> string list) \<Rightarrow> PlanProposal \<Rightarrow> PlanValidationReport option" where
  "validate ord p = validate_with_budget ord p PlannerBudgets_default 0"

end
