(* ===== verification/Plan_Kahn.thy ===== *)
theory Plan_Kahn
  imports Plan_Validator
begin

text \<open>Correctness of the validator's loop on any dependency graph: every task is visited
exactly when the graph is acyclic, no in-degree underflows, and the depth it computes is
the length of the longest chain of prerequisites.\<close>

section \<open>Graphs and iteration orders\<close>

definition hash_order :: "('a list \<Rightarrow> 'a list) \<Rightarrow> bool" where
  "hash_order ord = (\<forall>xs. set (ord xs) = set xs \<and> (distinct xs \<longrightarrow> distinct (ord xs)))"

definition dep_graph :: "'a list \<Rightarrow> ('a \<Rightarrow> 'a list) \<Rightarrow> ('a \<rightharpoonup> 'a list) \<Rightarrow> bool" where
  "dep_graph V deps down =
    (distinct V \<and> (\<forall>i. distinct (deps i)) \<and>
     (\<forall>i j. j \<in> set (deps i) \<longrightarrow> i \<in> set V \<and> j \<in> set V) \<and>
     (\<forall>j \<in> set V. \<exists>ns. down j = Some ns \<and> distinct ns \<and> (\<forall>i. i \<in> set ns \<longleftrightarrow> j \<in> set (deps i))))"

definition dep_edges :: "('a \<Rightarrow> 'a list) \<Rightarrow> ('a \<times> 'a) set" where
  "dep_edges deps = {(i, j). j \<in> set (deps i)}"

definition dep_chain :: "('a \<Rightarrow> 'a list) \<Rightarrow> 'a list \<Rightarrow> bool" where
  "dep_chain deps xs = (xs \<noteq> [] \<and> successively (\<lambda>a b. a \<in> set (deps b)) xs)"

definition open_deps :: "('a \<Rightarrow> 'a list) \<Rightarrow> 'a list \<Rightarrow> 'a \<Rightarrow> 'a list" where
  "open_deps deps visited i = filter (\<lambda>j. j \<notin> set visited) (deps i)"

text \<open>The depth a task has when the given tasks are visited.\<close>

definition depth_at :: "('a \<Rightarrow> 'a list) \<Rightarrow> 'a list \<Rightarrow> ('a \<Rightarrow> nat) \<Rightarrow> 'a \<Rightarrow> nat option" where
  "depth_at deps visited lev i =
    (if deps i = [] then Some 1
     else if set (deps i) \<inter> set visited = {} then None
     else Some (Suc (Max (lev ` (set (deps i) \<inter> set visited)))))"

section \<open>The inner loop\<close>

lemma relax_deep_spec:
  assumes "distinct ns" "\<forall>n \<in> set ns. \<exists>d. map_of deg n = Some (Suc d)"
  shows "\<exists>deg' depths'. relax_deep ns current deg depths queue =
        Some (deg', depths', queue @ filter (\<lambda>n. map_of deg n = Some (Suc 0)) ns) \<and>
    map fst deg' = map fst deg \<and>
    (\<forall>k. map_of deg' k = (if k \<in> set ns then map_option (\<lambda>d. d - 1) (map_of deg k) else map_of deg k)) \<and>
    (\<forall>k. depths' k = (if k \<in> set ns then Some (max (case depths k of None \<Rightarrow> 1 | Some d \<Rightarrow> d) (current + 1)) else depths k))"
  using assms
proof (induction ns arbitrary: deg depths queue)
  case (Cons n ns)
  obtain d where d: "map_of deg n = Some (Suc d)" using Cons.prems by auto
  let ?deg = "AList.update n d deg" and ?q = "if d = 0 then queue @ [n] else queue"
  let ?depths = "depths(n \<mapsto> max (case depths n of None \<Rightarrow> 1 | Some d \<Rightarrow> d) (current + 1))"
  have same: "map_of ?deg k = map_of deg k" if "k \<in> set ns" for k
    using Cons.prems(1) that by (auto simp: update_conv)
  have "n \<in> fst ` set deg" using d by (auto simp: image_iff dest!: map_of_SomeD intro!: bexI)
  then have keys: "map fst ?deg = map fst deg" by (simp add: update_keys)
  have p: "distinct ns" "\<forall>m \<in> set ns. \<exists>d. map_of ?deg m = Some (Suc d)" using Cons.prems same by auto
  from Cons.IH [OF p, of ?depths ?q] obtain deg' depths' where IH: "relax_deep ns current ?deg ?depths ?q =
        Some (deg', depths', ?q @ filter (\<lambda>n. map_of ?deg n = Some (Suc 0)) ns)"
    "map fst deg' = map fst ?deg"
    "\<forall>k. map_of deg' k = (if k \<in> set ns then map_option (\<lambda>d. d - 1) (map_of ?deg k) else map_of ?deg k)"
    "\<forall>k. depths' k = (if k \<in> set ns then Some (max (case ?depths k of None \<Rightarrow> 1 | Some d \<Rightarrow> d) (current + 1)) else ?depths k)"
    by blast
  have "filter (\<lambda>n. map_of ?deg n = Some (Suc 0)) ns = filter (\<lambda>n. map_of deg n = Some (Suc 0)) ns"
    using same by (intro filter_cong) auto
  then have "relax_deep (n # ns) current deg depths queue =
      Some (deg', depths', queue @ filter (\<lambda>n. map_of deg n = Some (Suc 0)) (n # ns))"
    using d IH(1) by (auto simp: Let_def)
  moreover have "map_of deg' k = (if k \<in> set (n # ns) then map_option (\<lambda>d. d - 1) (map_of deg k)
      else map_of deg k)" for k
    using IH(3) d Cons.prems(1) by (auto simp: update_conv)
  moreover have "depths' k = (if k \<in> set (n # ns)
      then Some (max (case depths k of None \<Rightarrow> 1 | Some d \<Rightarrow> d) (current + 1)) else depths k)" for k
    using IH(4) Cons.prems(1) by auto
  ultimately show ?case using IH(2) keys by auto
qed simp

section \<open>The loop invariant\<close>

definition deep_inv :: "'a list \<Rightarrow> ('a \<Rightarrow> 'a list) \<Rightarrow> ('a \<times> nat) list \<Rightarrow> ('a \<rightharpoonup> nat) \<Rightarrow> 'a list \<Rightarrow> 'a list \<Rightarrow> nat \<Rightarrow> bool" where
  "deep_inv V deps deg depths queue order md =
    (distinct (order @ queue) \<and> set (order @ queue) \<subseteq> set V \<and>
     (\<forall>i \<in> set V. map_of deg i = Some (length (open_deps deps order i))) \<and>
     (\<forall>i \<in> set V. i \<in> set (order @ queue) \<longleftrightarrow> open_deps deps order i = []) \<and>
     (\<forall>k < length order. set (deps (order ! k)) \<subseteq> set (take k order)) \<and>
     (\<forall>i \<in> set V. depths i = depth_at deps order (the \<circ> depths) i) \<and>
     md = Max (insert 1 ((the \<circ> depths) ` set order)))"

lemma deep_invD:
  assumes "deep_inv V deps deg depths queue order md"
  shows "distinct (order @ queue)" "set (order @ queue) \<subseteq> set V"
    "\<And>i. i \<in> set V \<Longrightarrow> map_of deg i = Some (length (open_deps deps order i))"
    "\<And>i. i \<in> set V \<Longrightarrow> i \<in> set (order @ queue) \<longleftrightarrow> open_deps deps order i = []"
    "\<And>k. k < length order \<Longrightarrow> set (deps (order ! k)) \<subseteq> set (take k order)"
    "\<And>i. i \<in> set V \<Longrightarrow> depths i = depth_at deps order (the \<circ> depths) i"
    "md = Max (insert 1 ((the \<circ> depths) ` set order))"
  using assms unfolding deep_inv_def by blast+

lemma open_deps_snoc:
  assumes "distinct (deps i)" "n \<notin> set order"
  shows "length (open_deps deps (order @ [n]) i) =
    (if n \<in> set (deps i) then length (open_deps deps order i) - 1 else length (open_deps deps order i))"
proof -
  have "open_deps deps (order @ [n]) i = filter (\<lambda>j. j \<noteq> n) (open_deps deps order i)"
    by (simp add: open_deps_def conj_commute)
  moreover have "distinct (open_deps deps order i)" using assms(1) by (simp add: open_deps_def)
  moreover have "n \<in> set (open_deps deps order i) \<longleftrightarrow> n \<in> set (deps i)"
    using assms(2) by (auto simp: open_deps_def)
  moreover have "filter (\<lambda>j. j \<noteq> n) xs = removeAll n xs" for xs
    by (auto simp: removeAll_filter_not_eq intro: filter_cong)
  ultimately show ?thesis
    by (simp add: distinct_remove1_removeAll [symmetric] length_remove1)
qed

text \<open>Popping a task keeps the depths of the visited tasks and gives its dependents the
depth they have with the task visited.\<close>

lemma depths_snoc:
  assumes dep: "\<And>i. i \<in> set V \<Longrightarrow> depths i = depth_at deps order (the \<circ> depths) i"
    and n: "depths n = Some current" "n \<notin> set order"
    and depths': "\<And>k. depths' k = (if n \<in> set (deps k) then Some (max (case depths k of None \<Rightarrow> 1 | Some d \<Rightarrow> d) (current + 1)) else depths k)"
    and old: "\<And>k. k \<in> insert n (set order) \<Longrightarrow> n \<notin> set (deps k)"
    and i: "i \<in> set V"
  shows "depths' i = depth_at deps (order @ [n]) (the \<circ> depths') i"
proof -
  have lev: "(the \<circ> depths') ` (set (deps i) \<inter> A) = (the \<circ> depths) ` (set (deps i) \<inter> A)" if "A \<subseteq> insert n (set order)" for A
    using that old depths' by (intro image_cong) auto
  show ?thesis
  proof (cases "n \<in> set (deps i)")
    case False
    then have "set (deps i) \<inter> set (order @ [n]) = set (deps i) \<inter> set order" by auto
    moreover have "(the \<circ> depths') ` (set (deps i) \<inter> set order) = (the \<circ> depths) ` (set (deps i) \<inter> set order)"
      by (rule lev) auto
    ultimately show ?thesis using False dep [OF i] depths' [of i] by (simp add: depth_at_def)
  next
    case True
    let ?S = "set (deps i) \<inter> set order"
    have ne: "deps i \<noteq> []" using True by auto
    have s: "set (deps i) \<inter> set (order @ [n]) = insert n ?S" using True by auto
    have "(the \<circ> depths') ` insert n ?S = insert current ((the \<circ> depths) ` ?S)"
      using lev [of "insert n (set order)"] True n(1) by (simp add: Int_insert_right)
    then have r: "depth_at deps (order @ [n]) (the \<circ> depths') i = Some (Suc (Max (insert current ((the \<circ> depths) ` ?S))))"
      using ne by (simp only: depth_at_def s) auto
    show ?thesis
    proof (cases "?S = {}")
      case True
      then have "depths i = None" using dep [OF i] ne by (simp add: depth_at_def)
      then show ?thesis using r True depths' [of i] \<open>n \<in> set (deps i)\<close> by simp
    next
      case False
      then have "depths i = Some (Suc (Max ((the \<circ> depths) ` ?S)))" using dep [OF i] ne by (simp add: depth_at_def)
      then show ?thesis using r False depths' [of i] \<open>n \<in> set (deps i)\<close> by (simp add: max.commute)
    qed
  qed
qed

lemma deep_inv_step:
  assumes g: "dep_graph V deps down" and ord: "hash_order ord" and inv: "deep_inv V deps deg depths (n # queue) order md"
  shows "\<exists>ns deg' depths' queue' current. down n = Some ns \<and> depths n = Some current \<and>
    relax_deep (ord ns) current deg depths queue = Some (deg', depths', queue') \<and>
    deep_inv V deps deg' depths' queue' (order @ [n]) (max md current)"
proof -
  note I = deep_invD [OF inv]
  have n: "n \<notin> set order" "n \<notin> set queue" "n \<in> set V" "open_deps deps order n = []" using I(1,2,4) by auto
  have dd: "distinct (deps i)" for i using g by (simp add: dep_graph_def)
  have dV: "i \<in> set V \<and> j \<in> set V" if "j \<in> set (deps i)" for i j using g that by (simp add: dep_graph_def)
  obtain ns where ns: "down n = Some ns" "distinct ns" "\<And>i. i \<in> set ns \<longleftrightarrow> n \<in> set (deps i)"
    using g n(3) unfolding dep_graph_def by blast
  have o: "set (ord ns) = set ns" "distinct (ord ns)" using ord ns(2) by (auto simp: hash_order_def)
  have done_n: "set (deps n) \<subseteq> set order" using n(4) by (auto simp: open_deps_def filter_empty_conv)
  have "depths n \<noteq> None"
    using I(6) [OF n(3)] done_n by (cases "deps n") (auto simp: depth_at_def)
  then obtain current where c: "depths n = Some current" by auto
  have opened: "n \<in> set (deps i) \<Longrightarrow> open_deps deps order i \<noteq> []" for i
    using n(1) by (auto simp: open_deps_def filter_empty_conv)
  have "\<forall>i \<in> set (ord ns). \<exists>d. map_of deg i = Some (Suc d)"
  proof
    fix i assume "i \<in> set (ord ns)"
    then have "n \<in> set (deps i)" using o ns(3) by simp
    then show "\<exists>d. map_of deg i = Some (Suc d)"
      using I(3) [of i] dV opened by (cases "open_deps deps order i") auto
  qed
  from relax_deep_spec [OF o(2) this, of current depths queue]
  obtain deg' depths' where r: "relax_deep (ord ns) current deg depths queue =
      Some (deg', depths', queue @ filter (\<lambda>n. map_of deg n = Some (Suc 0)) (ord ns))"
    and deg': "\<And>k. map_of deg' k = (if n \<in> set (deps k) then map_option (\<lambda>d. d - 1) (map_of deg k) else map_of deg k)"
    and depths': "\<And>k. depths' k = (if n \<in> set (deps k) then Some (max (case depths k of None \<Rightarrow> 1 | Some d \<Rightarrow> d) (current + 1)) else depths k)"
    unfolding o(1) ns(3) by blast
  let ?q = "queue @ filter (\<lambda>n. map_of deg n = Some (Suc 0)) (ord ns)"
  have len: "length (open_deps deps (order @ [n]) i) =
      (if n \<in> set (deps i) then length (open_deps deps order i) - 1 else length (open_deps deps order i))" for i
    using open_deps_snoc [OF dd n(1)] .
  have new: "i \<in> set V \<and> i \<notin> set (order @ n # queue) \<and> open_deps deps order i \<noteq> []" if "n \<in> set (deps i)" for i
    using I(4) [of i] dV [OF that] opened [OF that] by blast
  have "distinct ((order @ [n]) @ ?q)"
    using I(1) o new ns(3) by auto
  moreover have "set ((order @ [n]) @ ?q) \<subseteq> set V"
    using I(2) o new ns(3) by auto
  moreover have "map_of deg' i = Some (length (open_deps deps (order @ [n]) i))" if "i \<in> set V" for i
    using I(3) [OF that] deg' len by simp
  moreover have "i \<in> set ((order @ [n]) @ ?q) \<longleftrightarrow> open_deps deps (order @ [n]) i = []" if i: "i \<in> set V" for i
  proof (cases "n \<in> set (deps i)")
    case True
    have "i \<in> set ((order @ [n]) @ ?q) \<longleftrightarrow> length (open_deps deps order i) = Suc 0"
      using True new [OF True] I(3) [OF i] o ns(3) by auto
    also have "\<dots> \<longleftrightarrow> length (open_deps deps (order @ [n]) i) = 0"
      using len [of i] True new [OF True] by (cases "open_deps deps order i") auto
    finally show ?thesis by simp
  next
    case False
    then have "open_deps deps (order @ [n]) i = [] \<longleftrightarrow> open_deps deps order i = []"
      using len [of i] by (metis length_0_conv)
    then show ?thesis using I(4) [OF i] False o ns(3) by auto
  qed
  moreover have "set (deps ((order @ [n]) ! k)) \<subseteq> set (take k (order @ [n]))" if "k < length (order @ [n])" for k
    using I(5) [of k] done_n that by (auto simp: nth_append less_Suc_eq)
  moreover have old: "n \<notin> set (deps k)" if "k \<in> insert n (set order)" for k
    using that new [of k] by auto
  then have "depths' i = depth_at deps (order @ [n]) (the \<circ> depths') i" if "i \<in> set V" for i
    using depths_snoc [OF I(6) c n(1) depths' _ that] by blast
  moreover have "max md current = Max (insert 1 ((the \<circ> depths') ` set (order @ [n])))"
  proof -
    have "(the \<circ> depths') ` set (order @ [n]) = insert current ((the \<circ> depths) ` set order)"
      using old depths' c by (auto simp: image_iff)
    then show ?thesis using I(7) by (simp add: insert_commute max.commute)
  qed
  ultimately have "deep_inv V deps deg' depths' ?q (order @ [n]) (max md current)"
    unfolding deep_inv_def by blast
  then show ?thesis using ns(1) c r by blast
qed

lemma deep_kahn_inv:
  assumes "dep_graph V deps down" "hash_order ord" "deep_inv V deps deg depths queue order md"
  shows "\<exists>deg' depths' order' md'. deep_kahn ord down deg depths queue order md = Some (deg', depths', order', md') \<and>
      deep_inv V deps deg' depths' [] order' md'"
  using assms
proof (induction ord down deg depths queue order md rule: deep_kahn.induct)
  case (1 ord down deg depths order md)
  then show ?case by simp
next
  case (2 ord down deg depths n queue order md)
  obtain ns deg' depths' queue' current where s: "down n = Some ns" "depths n = Some current"
    "relax_deep (ord ns) current deg depths queue = Some (deg', depths', queue')"
    "deep_inv V deps deg' depths' queue' (order @ [n]) (max md current)"
    using deep_inv_step [OF 2(2,3,4)] by blast
  have "(case down n of None \<Rightarrow> Some (deg, depths, queue) | Some ns \<Rightarrow> relax_deep (ord ns) current deg depths queue) =
      Some (deg', depths', queue')" "current = (case depths n of None \<Rightarrow> 1 | Some d \<Rightarrow> d)"
    using s by simp_all
  from 2(1) [OF this(2,1) refl refl 2(2,3) s(4)] show ?case using s by simp
qed

section \<open>Acyclicity\<close>

lemma deep_init:
  assumes g: "dep_graph V deps down" and deg: "\<And>i. i \<in> set V \<Longrightarrow> map_of deg i = Some (length (deps i))"
    and keys: "distinct (map fst deg)" "set (map fst deg) = set V"
  shows "deep_inv V deps deg (\<lambda>i. if i \<in> set (map fst (filter (\<lambda>(_, d). d = 0) deg)) then Some 1 else None)
    (map fst (filter (\<lambda>(_, d). d = 0) deg)) [] 1"
proof -
  let ?roots = "map fst (filter (\<lambda>(_, d). d = 0) deg)"
  have roots: "i \<in> set ?roots \<longleftrightarrow> i \<in> set V \<and> deps i = []" for i
  proof -
    have "i \<in> set ?roots \<longleftrightarrow> (i, 0) \<in> set deg" by force
    also have "\<dots> \<longleftrightarrow> map_of deg i = Some 0" using keys(1) by simp
    also have "\<dots> \<longleftrightarrow> i \<in> set V \<and> deps i = []"
      using deg keys(2) by (metis image_set length_0_conv map_of_eq_None_iff option.distinct(1) option.inject)
    finally show ?thesis .
  qed
  have "distinct ?roots" using keys(1) by (simp add: distinct_map_filter)
  moreover have "set ?roots \<subseteq> set V" using roots by blast
  ultimately show ?thesis
    using roots deg by (simp add: deep_inv_def open_deps_def depth_at_def del: set_map)
qed

lemma visited_chain:
  assumes inv: "deep_inv V deps deg depths [] order md" and x: "x \<in> set order"
  shows "\<exists>xs. dep_chain deps xs \<and> last xs = x \<and> length xs = the (depths x)"
    and "dep_chain deps xs \<Longrightarrow> last xs = x \<Longrightarrow> length xs \<le> the (depths x)"
proof -
  note I = deep_invD [OF inv]
  have closed: "set (deps y) \<subseteq> set order" if "y \<in> set order" for y
    using I(5) that by (metis in_set_conv_nth set_take_subset subset_trans)
  have rec: "the (depths y) = (if deps y = [] then 1 else Suc (Max ((the \<circ> depths) ` set (deps y))))"
    if "y \<in> set order" for y
    using I(2,6) closed [OF that] that by (cases "deps y") (auto simp: depth_at_def Int_absorb2)
  show "\<exists>xs. dep_chain deps xs \<and> last xs = x \<and> length xs = the (depths x)"
  proof -
    have "\<exists>xs. dep_chain deps xs \<and> last xs = order ! k \<and> length xs = the (depths (order ! k))" if "k < length order" for k
      using that
    proof (induction k rule: less_induct)
      case (less k)
      let ?y = "order ! k"
      have y: "?y \<in> set order" using less.prems by simp
      show ?case
      proof (cases "deps ?y = []")
        case True
        then show ?thesis using rec [OF y] by (intro exI [of _ "[?y]"]) (simp add: dep_chain_def)
      next
        case False
        have "Max ((the \<circ> depths) ` set (deps ?y)) \<in> (the \<circ> depths) ` set (deps ?y)" using False by (intro Max_in) auto
        then obtain z where z: "z \<in> set (deps ?y)" "the (depths z) = Max ((the \<circ> depths) ` set (deps ?y))" by auto
        then have "z \<in> set (take k order)" using I(5) [OF less.prems] by blast
        then obtain m where m: "m < k" "order ! m = z" using less.prems by (auto simp: in_set_conv_nth)
        then obtain xs where xs: "dep_chain deps xs" "last xs = z" "length xs = the (depths z)"
          using less.IH [of m] less.prems by auto
        then have "dep_chain deps (xs @ [?y])" using z(1) by (auto simp: dep_chain_def successively_append_iff)
        moreover have "length (xs @ [?y]) = the (depths ?y)" using rec [OF y] False xs(3) z(2) by simp
        ultimately show ?thesis by (intro exI [of _ "xs @ [?y]"]) simp
      qed
    qed
    then show ?thesis using x by (metis in_set_conv_nth)
  qed
  show "dep_chain deps xs \<Longrightarrow> last xs = x \<Longrightarrow> length xs \<le> the (depths x)"
    using x
  proof (induction xs arbitrary: x rule: rev_induct)
    case (snoc y xs)
    show ?case
    proof (cases "xs = []")
      case True
      then show ?thesis using rec [OF snoc.prems(3)] by simp
    next
      case False
      have c: "dep_chain deps xs" "last xs \<in> set (deps x)"
        using snoc.prems(1,2) False by (auto simp: dep_chain_def successively_append_iff)
      then have "length xs \<le> the (depths (last xs))" using snoc.IH [OF c(1) refl] closed [OF snoc.prems(3)] by blast
      also have "\<dots> \<le> Max ((the \<circ> depths) ` set (deps x))" using c(2) by (intro Max_ge) auto
      finally show ?thesis using rec [OF snoc.prems(3)] c(2) by (cases "deps x") auto
    qed
  qed (simp add: dep_chain_def)
qed

lemma ordered_acyclic:
  assumes "\<And>k. k < length order \<Longrightarrow> set (deps (order ! k)) \<subseteq> set (take k order)" "distinct order"
    "\<And>i j. j \<in> set (deps i) \<Longrightarrow> i \<in> set order"
  shows "acyclic (dep_edges deps)"
proof -
  let ?pos = "\<lambda>i. THE k. k < length order \<and> order ! k = i"
  have pos: "?pos (order ! k) = k" if "k < length order" for k
    using that assms(2) by (auto intro!: the_equality simp: nth_eq_iff_index_eq)
  have "?pos j < ?pos i" if e: "(i, j) \<in> dep_edges deps" for i j
  proof -
    obtain k where k: "k < length order" "order ! k = i"
      using e assms(3) by (auto simp: dep_edges_def in_set_conv_nth)
    then have "j \<in> set (take k order)" using e assms(1) by (auto simp: dep_edges_def)
    then obtain m where "m < k" "order ! m = j" by (auto simp: in_set_conv_nth)
    then show ?thesis using pos [of k] pos [of m] k by simp
  qed
  then have "(dep_edges deps)\<inverse> \<subseteq> measure ?pos" by auto
  then have "wf ((dep_edges deps)\<inverse>)" using wf_subset wf_measure by blast
  then show ?thesis using wf_acyclic acyclic_converse by blast
qed

lemma all_visited:
  assumes g: "dep_graph V deps down" and inv: "deep_inv V deps deg depths [] order md" and ac: "acyclic (dep_edges deps)"
  shows "set V \<subseteq> set order"
proof (rule ccontr)
  assume "\<not> set V \<subseteq> set order"
  then obtain i where i: "i \<in> set V - set order" by auto
  have sub: "j \<in> set V" if "j \<in> set (deps i)" for i j using g that by (simp add: dep_graph_def)
  have "dep_edges deps \<subseteq> set V \<times> set V" using g by (auto simp: dep_graph_def dep_edges_def)
  then have "finite (dep_edges deps)" by (rule finite_subset) simp
  then have "wf ((dep_edges deps)\<inverse>)" using ac by (rule finite_acyclic_wf_converse)
  from wfE_min [OF this i] obtain z where z: "z \<in> set V - set order"
    "\<And>y. (z, y) \<in> dep_edges deps \<Longrightarrow> y \<notin> set V - set order" by (metis converse_iff)
  then have "open_deps deps order z = []" using sub by (auto simp: open_deps_def filter_empty_conv dep_edges_def)
  then show False using deep_invD(4) [OF inv, of z] z(1) by simp
qed

lemma deep_kahn_result:
  assumes g: "dep_graph V deps down" "hash_order ord" and deg: "\<And>i. i \<in> set V \<Longrightarrow> map_of deg i = Some (length (deps i))"
    and keys: "distinct (map fst deg)" "set (map fst deg) = set V" and ne: "V \<noteq> []"
  obtains deg' depths order md where
    "deep_kahn ord down deg (\<lambda>i. if i \<in> set (map fst (filter (\<lambda>(_, d). d = 0) deg)) then Some 1 else None)
       (map fst (filter (\<lambda>(_, d). d = 0) deg)) [] 1 = Some (deg', depths, order, md)"
    "length order = length V \<longleftrightarrow> acyclic (dep_edges deps)"
    "acyclic (dep_edges deps) \<Longrightarrow> md \<le> b \<longleftrightarrow> (\<forall>xs. dep_chain deps xs \<longrightarrow> length xs \<le> b)"
proof -
  obtain deg' depths order md where
    r: "deep_kahn ord down deg (\<lambda>i. if i \<in> set (map fst (filter (\<lambda>(_, d). d = 0) deg)) then Some 1 else None)
       (map fst (filter (\<lambda>(_, d). d = 0) deg)) [] 1 = Some (deg', depths, order, md)"
    and inv: "deep_inv V deps deg' depths [] order md"
    using deep_kahn_inv [OF g deep_init [OF g(1) deg keys]] by blast
  note I = deep_invD [OF inv]
  have dV: "distinct V" and inV: "\<And>i j. j \<in> set (deps i) \<Longrightarrow> i \<in> set V" using g(1) by (simp_all add: dep_graph_def)
  have "length order = length V \<longleftrightarrow> set order = set V"
    using I(1,2) dV distinct_card [of order] distinct_card [of V]
    by (metis append_Nil2 card_subset_eq finite_set)
  also have "\<dots> \<longleftrightarrow> acyclic (dep_edges deps)"
    using ordered_acyclic [OF I(5)] all_visited [OF g(1) inv] I(1,2) inV by auto
  finally have len: "length order = length V \<longleftrightarrow> acyclic (dep_edges deps)" .
  moreover have "md \<le> b \<longleftrightarrow> (\<forall>xs. dep_chain deps xs \<longrightarrow> length xs \<le> b)" if ac: "acyclic (dep_edges deps)"
  proof -
    have all: "set order = set V" using all_visited [OF g(1) inv ac] I(2) by auto
    have md: "the (depths i) \<le> md" if "i \<in> set V" for i using that all I(7) by (auto intro!: Max_ge)
    have one: "1 \<le> md" using I(7) by (auto intro!: Max_ge)
    have "length xs \<le> md" if xs: "dep_chain deps xs" for xs
    proof (cases "last xs \<in> set V")
      case True
      then show ?thesis using visited_chain(2) [OF inv _ xs refl] md all by fastforce
    next
      case False
      have "butlast xs = []"
      proof (rule ccontr)
        assume b: "butlast xs \<noteq> []"
        have "xs = butlast xs @ [last xs]" using xs by (simp add: dep_chain_def)
        then have "successively (\<lambda>a b. a \<in> set (deps b)) (butlast xs @ [last xs])" using xs by (simp add: dep_chain_def)
        then have "last (butlast xs) \<in> set (deps (last xs))" using b by (simp add: successively_append_iff)
        then show False using inV False by blast
      qed
      then have "length xs - 1 = 0" by (metis length_butlast list.size(3))
      then show ?thesis using one by simp
    qed
    moreover have "\<exists>xs. dep_chain deps xs \<and> md = length xs"
    proof -
      have "md \<in> insert 1 ((the \<circ> depths) ` set order)" unfolding I(7) by (rule Max_in) auto
      moreover have "\<exists>xs. dep_chain deps xs \<and> length xs = the (depths x)" if "x \<in> set order" for x
        using visited_chain(1) [OF inv that] by blast
      moreover have "dep_chain deps [hd V]" by (simp add: dep_chain_def)
      ultimately show ?thesis by force
    qed
    ultimately show ?thesis by (meson order_trans)
  qed
  ultimately show thesis using that [OF r] by blast
qed

end
