(* ===== verification/Plan_Rules.thy ===== *)
theory Plan_Rules
  imports Plan_Kahn
begin

text \<open>What the validator decides: the rules of a well-formed proposal, and the proof that
the validator never panics and accepts exactly the proposals that satisfy them.\<close>

section \<open>The rules\<close>

definition tid :: "ProposedTask \<Rightarrow> string" where
  "tid t = str_trim (pt_temp_id t)"

definition task_ok :: "ProposedTask \<Rightarrow> bool" where
  "task_ok t = (tid t \<noteq> [] \<and> str_trim (pt_objective t) \<noteq> [] \<and> pt_criteria t \<noteq> [] \<and> (\<forall>c \<in> set (pt_criteria t). str_trim c \<noteq> []))"

definition dep_pair :: "ProposedDependency \<Rightarrow> string \<times> string" where
  "dep_pair d = (str_trim (pd_task_temp_id d), str_trim (pd_depends_on_temp_id d))"

definition dep_ok :: "string list \<Rightarrow> ProposedDependency \<Rightarrow> bool" where
  "dep_ok ids d = (case dep_pair d of (i, j) \<Rightarrow> i \<noteq> j \<and> i \<in> set ids \<and> j \<in> set ids)"

definition plan_deps :: "PlanProposal \<Rightarrow> string \<Rightarrow> string list" where
  "plan_deps p i = remdups (map snd (filter (\<lambda>e. fst e = i) (map dep_pair (pp_dependencies p))))"

definition plan_ok :: "PlanProposal \<Rightarrow> PlannerBudgets \<Rightarrow> nat \<Rightarrow> bool" where
  "plan_ok p b existing =
    (pp_tasks p \<noteq> [] \<and> length (pp_tasks p) \<le> max_tasks_per_plan b \<and> existing + length (pp_tasks p) \<le> max_workflow_tasks b \<and>
     distinct (map tid (pp_tasks p)) \<and> list_all task_ok (pp_tasks p) \<and>
     list_all (dep_ok (map tid (pp_tasks p))) (pp_dependencies p) \<and> acyclic (dep_edges (plan_deps p)) \<and>
     (\<forall>xs. dep_chain (plan_deps p) xs \<longrightarrow> length xs \<le> max_decomposition_depth b))"

section \<open>Tasks\<close>

lemma criteria_errors_Nil: "criteria_errors i cs = [] \<longleftrightarrow> cs \<noteq> [] \<and> (\<forall>c \<in> set cs. str_trim c \<noteq> [])"
proof -
  have "set cs = snd ` set (enumerate 0 cs)" by (simp flip: set_map)
  then show ?thesis by (auto simp: criteria_errors_def)
qed

lemma budget_errors_Nil: "budget_errors p b existing = [] \<longleftrightarrow>
    length (pp_tasks p) \<le> max_tasks_per_plan b \<and> existing + length (pp_tasks p) \<le> max_workflow_tasks b"
  by (auto simp: budget_errors_def Let_def)

lemma check_tasks_errors:
  "fold check_task its (ids, errors) = (ids', errors') \<Longrightarrow> errors \<noteq> [] \<Longrightarrow> errors' \<noteq> []"
proof (induction its arbitrary: ids errors)
  case (Cons it its)
  obtain i e where c: "check_task it (ids, errors) = (i, e)" by fastforce
  have "e \<noteq> []" using c Cons.prems(2) by (auto simp: check_task_def Let_def split: prod.splits if_splits)
  then show ?case using Cons.IH [of i e] Cons.prems(1) c by simp
qed simp

lemma check_tasks:
  assumes "fold check_task its (ids, []) = (ids', errors')" "distinct ids"
  shows "(errors' = [] \<longleftrightarrow> distinct (ids @ map (tid \<circ> snd) its) \<and> (\<forall>it \<in> set its. task_ok (snd it))) \<and>
    (errors' = [] \<longrightarrow> ids' = ids @ map (tid \<circ> snd) its)"
  using assms
proof (induction its arbitrary: ids)
  case (Cons it its)
  obtain idx t where it: "it = (idx, t)" by fastforce
  show ?case
  proof (cases "task_ok t \<and> tid t \<notin> set ids")
    case True
    then have "check_task it (ids, []) = (ids @ [tid t], [])"
      using criteria_errors_Nil [of "tid t" "pt_criteria t"] by (simp add: check_task_def it task_ok_def tid_def)
    then show ?thesis using Cons.IH [of "ids @ [tid t]"] Cons.prems True by (auto simp: it)
  next
    case False
    obtain i e where c: "check_task it (ids, []) = (i, e)" by fastforce
    have "e \<noteq> []" using c False criteria_errors_Nil [of "tid t" "pt_criteria t"]
      by (auto simp: check_task_def it task_ok_def tid_def Let_def split: if_splits)
    then have "errors' \<noteq> []" using check_tasks_errors [of its i e] Cons.prems(1) c by simp
    then show ?thesis using False by (auto simp: it)
  qed
qed auto

section \<open>Dependencies\<close>

definition links_inv :: "string list \<Rightarrow> (string \<times> string) set \<Rightarrow> links \<Rightarrow> bool" where
  "links_inv ids E s =
    (distinct (map fst (in_degree s)) \<and> fst ` set (in_degree s) = set ids \<and> finite E \<and>
     (\<forall>i \<in> set ids. map_of (in_degree s) i = Some (card {j. (i, j) \<in> E})) \<and>
     (\<forall>j \<in> set ids. \<exists>ns. dependents s j = Some ns \<and> distinct ns \<and> (\<forall>i. i \<in> set ns \<longleftrightarrow> (i, j) \<in> E)))"

lemma add_link_inv:
  assumes inv: "links_inv ids E s" and ij: "i \<in> set ids" "j \<in> set ids"
  shows "links_inv ids (insert (i, j) E) (add_link i j s)"
proof -
  obtain ns where ns: "dependents s j = Some ns" "distinct ns" "\<And>i. i \<in> set ns \<longleftrightarrow> (i, j) \<in> E"
    using inv ij(2) unfolding links_inv_def by blast
  show ?thesis
  proof (cases "(i, j) \<in> E")
    case True
    then show ?thesis using inv ns by (simp add: add_link_def insert_absorb)
  next
    case False
    have deg: "map_of (in_degree s) i = Some (card {j. (i, j) \<in> E})" using inv ij(1) by (simp add: links_inv_def)
    let ?deg = "AList.update i (card {j. (i, j) \<in> E} + 1) (in_degree s)"
    have s': "add_link i j s = s\<lparr>dependents := (dependents s)(j \<mapsto> ns @ [i]), in_degree := ?deg\<rparr>"
      using False ns deg by (simp add: add_link_def)
    have mem: "i \<in> fst ` set (in_degree s)" using inv ij(1) by (simp add: links_inv_def)
    then have keys: "map fst ?deg = map fst (in_degree s)" by (simp add: update_keys)
    have fin: "finite {l. (k, l) \<in> E}" for k
    proof -
      have "{l. (k, l) \<in> E} \<subseteq> snd ` E" by force
      then show ?thesis using inv by (simp add: links_inv_def finite_subset)
    qed
    have "{l. (i, l) \<in> insert (i, j) E} = insert j {l. (i, l) \<in> E}" by auto
    then have "card {l. (i, l) \<in> insert (i, j) E} = card {l. (i, l) \<in> E} + 1" using False fin by simp
    moreover have "{l. (k, l) \<in> insert (i, j) E} = {l. (k, l) \<in> E}" if "k \<noteq> i" for k using that by auto
    ultimately have "\<forall>k \<in> set ids. map_of ?deg k = Some (card {l. (k, l) \<in> insert (i, j) E})"
      using inv by (simp add: links_inv_def update_conv)
    moreover have "fst ` set ?deg = set ids" using inv keys by (metis links_inv_def list.set_map)
    moreover have "distinct (map fst ?deg)" using inv keys by (simp add: links_inv_def)
    moreover have "\<exists>ns'. ((dependents s)(j \<mapsto> ns @ [i])) k = Some ns' \<and> distinct ns' \<and> (\<forall>m. m \<in> set ns' \<longleftrightarrow> (m, k) \<in> insert (i, j) E)"
      if "k \<in> set ids" for k
    proof (cases "k = j")
      case True
      then show ?thesis using ns False by auto
    next
      case False
      then show ?thesis using inv that by (auto simp: links_inv_def)
    qed
    ultimately show ?thesis using inv by (simp add: s' links_inv_def)
  qed
qed

lemma links_errors_inv: "links_inv ids E (s\<lparr>link_errors := e\<rparr>) = links_inv ids E s"
  by (simp add: links_inv_def)

lemma add_link_errors [simp]: "link_errors (add_link i j s) = link_errors s"
  by (simp add: add_link_def Let_def)

lemma check_dependency_errors: "link_errors s \<noteq> [] \<Longrightarrow> link_errors (fold (check_dependency ids) kds s) \<noteq> []"
proof (induction kds arbitrary: s)
  case (Cons kd kds)
  have "link_errors (check_dependency ids kd s) \<noteq> []"
    using Cons.prems by (auto simp: check_dependency_def Let_def split: prod.split)
  then show ?case using Cons.IH by simp
qed simp

lemma check_dependencies:
  assumes "links_inv ids E s" "link_errors s = []"
  shows "(link_errors (fold (check_dependency ids) kds s) = [] \<longleftrightarrow> (\<forall>kd \<in> set kds. dep_ok ids (snd kd))) \<and>
    (link_errors (fold (check_dependency ids) kds s) = [] \<longrightarrow>
       links_inv ids (E \<union> (dep_pair \<circ> snd) ` set kds) (fold (check_dependency ids) kds s))"
  using assms
proof (induction kds arbitrary: E s)
  case (Cons kd kds)
  obtain k d i j where kd: "kd = (k, d)" "dep_pair d = (i, j)" by (metis surj_pair)
  have ij: "str_trim (pd_task_temp_id d) = i" "str_trim (pd_depends_on_temp_id d) = j" using kd(2) by (simp_all add: dep_pair_def)
  show ?case
  proof (cases "dep_ok ids d")
    case True
    then have m: "i \<in> set ids" "j \<in> set ids" "i \<noteq> j" by (simp_all add: dep_ok_def kd)
    have same: "s\<lparr>link_errors := []\<rparr> = s" using Cons.prems(2) by (cases s) simp
    then have c: "check_dependency ids kd s = add_link i j s"
      using m Cons.prems(2) by (simp add: check_dependency_def kd ij same)
    have "insert (i, j) E \<union> (dep_pair \<circ> snd) ` set kds = E \<union> (dep_pair \<circ> snd) ` set (kd # kds)" using kd by auto
    then show ?thesis
      using Cons.IH [OF add_link_inv [OF Cons.prems(1) m(1,2)]] Cons.prems(2) True c by (simp add: kd(1))
  next
    case False
    then have "link_errors (check_dependency ids kd s) \<noteq> []"
      by (auto simp: check_dependency_def kd ij dep_ok_def Let_def)
    then show ?thesis using check_dependency_errors False by (simp add: kd(1))
  qed
qed simp

section \<open>The decision\<close>

lemma links_start:
  assumes "hash_order ord" "distinct ids"
  shows "links_inv ids {} \<lparr>in_degree = map (\<lambda>i. (i, 0)) (ord ids), dependents = (\<lambda>i. if i \<in> set ids then Some [] else None), link_errors = []\<rparr>"
proof -
  have "map_of (map (\<lambda>i. (i, 0 :: nat)) xs) i = Some 0" if "i \<in> set xs" for i and xs :: "string list"
    using that by (induction xs) auto
  then show ?thesis using assms by (auto simp: links_inv_def hash_order_def o_def image_image)
qed

lemma links_of_decides:
  assumes "hash_order ord" "distinct ids"
  shows "(link_errors (links_of ord ids ds []) = [] \<longleftrightarrow> list_all (dep_ok ids) ds) \<and>
    (link_errors (links_of ord ids ds []) = [] \<longrightarrow> links_inv ids (dep_pair ` set ds) (links_of ord ids ds []))"
proof -
  have ds: "snd ` set (enumerate 0 ds) = set ds" by (simp flip: set_map)
  have all: "list_all (dep_ok ids) ds \<longleftrightarrow> (\<forall>kd \<in> set (enumerate 0 ds). dep_ok ids (snd kd))"
    unfolding list_all_iff ds [symmetric] by simp
  have im: "dep_pair ` set ds = {} \<union> (dep_pair \<circ> snd) ` set (enumerate 0 ds)"
    unfolding ds [symmetric] image_comp by simp
  show ?thesis
    unfolding links_of_def all im by (rule check_dependencies [OF links_start [OF assms]]) simp
qed

lemma plan_deps_set: "j \<in> set (plan_deps p i) \<longleftrightarrow> (i, j) \<in> dep_pair ` set (pp_dependencies p)"
proof -
  have "set (plan_deps p i) = snd ` {e \<in> dep_pair ` set (pp_dependencies p). fst e = i}" by (auto simp: plan_deps_def)
  moreover have "j \<in> snd ` {e \<in> E. fst e = i} \<longleftrightarrow> (i, j) \<in> E" for E by force
  ultimately show ?thesis by simp
qed

lemma plan_deps_length: "length (plan_deps p i) = card {j. (i, j) \<in> dep_pair ` set (pp_dependencies p)}"
proof -
  have "{j. (i, j) \<in> dep_pair ` set (pp_dependencies p)} = set (plan_deps p i)" using plan_deps_set by auto
  moreover have "distinct (plan_deps p i)" by (simp add: plan_deps_def)
  ultimately show ?thesis by (simp add: distinct_card)
qed

lemma depth_errors_decides:
  assumes "hash_order ord" "distinct ids" "ids \<noteq> []" "list_all (dep_ok ids) (pp_dependencies p)"
    "links_inv ids (dep_pair ` set (pp_dependencies p)) s"
  shows "\<exists>errs. depth_errors ord ids s b = Some errs \<and>
    (errs = [] \<longleftrightarrow> acyclic (dep_edges (plan_deps p)) \<and> (\<forall>xs. dep_chain (plan_deps p) xs \<longrightarrow> length xs \<le> b))"
proof -
  let ?E = "dep_pair ` set (pp_dependencies p)"
  have E: "i \<in> set ids \<and> j \<in> set ids" if e: "(i, j) \<in> ?E" for i j
  proof -
    obtain d where "d \<in> set (pp_dependencies p)" "dep_pair d = (i, j)" using e by (metis imageE)
    then show ?thesis using assms(4) by (auto simp: list_all_iff dep_ok_def)
  qed
  have g: "dep_graph ids (plan_deps p) (dependents s)"
    unfolding dep_graph_def plan_deps_set using assms(2,5) E by (auto simp: links_inv_def plan_deps_def)
  have deg: "map_of (in_degree s) i = Some (length (plan_deps p i))" if "i \<in> set ids" for i
    using assms(5) that by (simp add: links_inv_def plan_deps_length)
  have keys: "distinct (map fst (in_degree s))" "set (map fst (in_degree s)) = set ids"
    using assms(5) by (simp_all add: links_inv_def)
  obtain deg' depths order md where
    "deep_kahn ord (dependents s) (in_degree s)
       (\<lambda>i. if i \<in> set (map fst (filter (\<lambda>(_, d). d = 0) (in_degree s))) then Some 1 else None)
       (map fst (filter (\<lambda>(_, d). d = 0) (in_degree s))) [] 1 = Some (deg', depths, order, md)"
    "length order = length ids \<longleftrightarrow> acyclic (dep_edges (plan_deps p))"
    "acyclic (dep_edges (plan_deps p)) \<Longrightarrow> md \<le> b \<longleftrightarrow> (\<forall>xs. dep_chain (plan_deps p) xs \<longrightarrow> length xs \<le> b)"
    using deep_kahn_result [OF g assms(1) deg keys assms(3)] by blast
  then show ?thesis using assms(3)
    by (cases "acyclic (dep_edges (plan_deps p))"; cases "md \<le> b") (simp_all add: depth_errors_def Let_def not_less)
qed

lemma validate_decides:
  assumes ord: "hash_order ord"
  shows "\<exists>r. validate_with_budget ord p b existing = Some r \<and> (is_valid r \<longleftrightarrow> plan_ok p b existing) \<and>
    (is_valid r \<longleftrightarrow> report_errors r = [])"
proof (cases "pp_tasks p = []")
  case True
  then show ?thesis by (simp add: validate_with_budget_def report_failed_def plan_ok_def)
next
  case False
  obtain ids errors where f: "fold check_task (enumerate 0 (pp_tasks p)) ([], budget_errors p b existing) = (ids, errors)"
    by fastforce
  let ?ids = "map tid (pp_tasks p)" and ?s = "links_of ord ids (pp_dependencies p) errors"
  let ?B = "budget_errors p b existing = []"
  let ?T = "distinct ?ids \<and> list_all task_ok (pp_tasks p)"
  have its: "map (tid \<circ> snd) (enumerate 0 (pp_tasks p)) = ?ids" "snd ` set (enumerate 0 (pp_tasks p)) = set (pp_tasks p)"
    by (simp_all flip: map_map set_map)
  have tasks: "(errors = [] \<longleftrightarrow> ?B \<and> ?T) \<and> (errors = [] \<longrightarrow> ids = ?ids)"
  proof (cases ?B)
    case True
    have "(\<forall>it \<in> set (enumerate 0 (pp_tasks p)). task_ok (snd it)) \<longleftrightarrow> list_all task_ok (pp_tasks p)"
      unfolding list_all_iff its(2) [symmetric] by simp
    then show ?thesis using check_tasks [of "enumerate 0 (pp_tasks p)" "[]" ids errors] f True its(1) by simp
  next
    case False
    then show ?thesis using check_tasks_errors [OF f] by simp
  qed
  show ?thesis
  proof (cases "errors = []")
    case err: False
    then have "link_errors ?s \<noteq> []" unfolding links_of_def by (intro check_dependency_errors) simp
    moreover have "\<not> plan_ok p b existing" using err tasks by (auto simp: plan_ok_def budget_errors_Nil)
    ultimately show ?thesis using False f by (simp add: validate_with_budget_def report_failed_def Let_def)
  next
    case True
    then have t: "?B" "?T" "ids = ?ids" using tasks by simp_all
    have L: "(link_errors ?s = [] \<longleftrightarrow> list_all (dep_ok ids) (pp_dependencies p)) \<and>
        (link_errors ?s = [] \<longrightarrow> links_inv ids (dep_pair ` set (pp_dependencies p)) ?s)"
      using links_of_decides [OF ord, of ids] t True by simp
    show ?thesis
    proof (cases "link_errors ?s = []")
      case bad: False
      then have "\<not> plan_ok p b existing" using L t(3) by (auto simp: plan_ok_def)
      then show ?thesis using bad False f by (simp add: validate_with_budget_def report_failed_def Let_def)
    next
      case good: True
      then have d: "list_all (dep_ok ids) (pp_dependencies p)" "links_inv ids (dep_pair ` set (pp_dependencies p)) ?s" using L by simp_all
      obtain errs where e: "depth_errors ord ids ?s (max_decomposition_depth b) = Some errs"
        "errs = [] \<longleftrightarrow> acyclic (dep_edges (plan_deps p)) \<and> (\<forall>xs. dep_chain (plan_deps p) xs \<longrightarrow> length xs \<le> max_decomposition_depth b)"
        using depth_errors_decides [OF ord _ _ d] t False by auto
      then have "plan_ok p b existing \<longleftrightarrow> errs = []"
        using t d False by (auto simp: plan_ok_def budget_errors_Nil)
      then show ?thesis using e(1) good False f
        by (cases errs) (simp_all add: validate_with_budget_def report_failed_def report_ok_def Let_def)
    qed
  qed
qed

end
