(* ===== verification/Planner.thy ===== *)
theory Planner
  imports Plan_Validator Task_Reconciler
begin

text \<open>The planners of plexis-planner (planner.rs), the application of a plan to the store
(applier.rs) and the diagnosis of failures (diagnoser.rs). The completion a provider
returns for a planning context and the JSON parser are parameters; the panic of the
validator, which cannot happen, is an internal error.\<close>

section \<open>Planning\<close>

datatype PlannerError =
    Provider string
  | Serialization string
  | Validation "string list"
  | Storage string
  | NotFound string
  | Internal string

record PlanningContext =
  pc_workflow_id :: ident
  pc_workspace_id :: "ident option"
  pc_parent_task_id :: "ident option"
  pc_objective :: string
  pc_context :: "string option"
  pc_available_capabilities :: "string list"
  pc_available_roles :: "string list"
  pc_failure_diagnostics :: "string option"

definition PlanningContext_new :: "ident \<Rightarrow> string \<Rightarrow> PlanningContext" where
  "PlanningContext_new workflow_id objective =
    \<lparr>pc_workflow_id = workflow_id, pc_workspace_id = None, pc_parent_task_id = None, pc_objective = objective,
     pc_context = None, pc_available_capabilities = [], pc_available_roles = [], pc_failure_diagnostics = None\<rparr>"

definition str_find :: "string \<Rightarrow> string \<Rightarrow> nat option" where
  "str_find p s = List.find (\<lambda>n. prefix p (drop n s)) [0..<Suc (length s)]"

definition fenced :: "string \<Rightarrow> string \<Rightarrow> string option" where
  "fenced fence s =
    (case str_find fence s of
       None \<Rightarrow> None
     | Some start \<Rightarrow> (let after = drop (start + length fence) s in
         map_option (\<lambda>stop. str_trim (take stop after)) (str_find (replicate 3 (CHR 0x60)) after)))"

definition extract_json_block :: "string \<Rightarrow> string" where
  "extract_json_block s =
    (let t = str_trim s; ticks = replicate 3 (CHR 0x60) in
     case fenced (ticks @ ''json'') t of Some b \<Rightarrow> b
     | None \<Rightarrow> (case fenced ticks t of Some b \<Rightarrow> b | None \<Rightarrow> t))"

record Llm =
  llm_complete :: "PlanningContext \<Rightarrow> (string option, string) result"
  llm_parse :: "string \<Rightarrow> (PlanProposal, string) result"

definition llm_plan :: "Llm \<Rightarrow> PlanningContext \<Rightarrow> (PlanProposal, PlannerError) result" where
  "llm_plan llm ctx =
    and_then (map_err Provider (llm_complete llm ctx)) (\<lambda>content.
      let raw = (case content of Some t \<Rightarrow> t | None \<Rightarrow> []) in
      map_err (\<lambda>e. Serialization (''Failed to parse LLM planner response as PlanProposal JSON: '' @ e @ ''. Raw: '' @ single_quoted raw))
        (llm_parse llm (extract_json_block raw)))"

text \<open>The scripted planner hands out its proposals in order.\<close>

definition scripted_plan :: "(PlanProposal list, PlanProposal, PlannerError) op" where
  "scripted_plan ps =
    (case ps of [] \<Rightarrow> ([], Err (Internal ''ScriptedPlanner has no remaining proposals'')) | p # rest \<Rightarrow> (rest, Ok p))"

section \<open>The rule-based decomposer\<close>

definition is_multi_agent :: "PlanningContext \<Rightarrow> bool" where
  "is_multi_agent ctx =
    (str_contains ''multi-agent'' (str_to_lowercase (pc_objective ctx)) \<or>
     str_contains ''multi_agent'' (str_to_lowercase (pc_objective ctx)) \<or>
     str_contains ''collaborat'' (str_to_lowercase (pc_objective ctx)) \<or>
     str_contains ''multi_agent'' (case pc_context ctx of Some c \<Rightarrow> c | None \<Rightarrow> []) \<or>
     (\<exists>r \<in> set (pc_available_roles ctx). r = ''Investigator'' \<or> r = ''Analyst''))"

definition phase :: "string \<Rightarrow> string \<Rightarrow> string \<Rightarrow> string list \<Rightarrow> string list \<Rightarrow> string \<Rightarrow> int \<Rightarrow> ProposedTask" where
  "phase i objective descr criteria caps role priority =
    \<lparr>pt_temp_id = i, pt_objective = objective, pt_description = Some descr, pt_criteria = criteria,
     pt_required_capabilities = caps, pt_suggested_role = Some role, pt_priority = priority\<rparr>"

definition dep :: "string \<Rightarrow> string \<Rightarrow> ProposedDependency" where
  "dep i j = \<lparr>pd_task_temp_id = i, pd_depends_on_temp_id = j\<rparr>"

definition multi_agent_tasks :: "string \<Rightarrow> ProposedTask list" where
  "multi_agent_tasks goal =
    [phase ''task-1'' (''Investigate repository codebase and diagnose root cause for: '' @ goal)
       (''Inspect source files, verify existing failure manifestations, and isolate fault boundaries for objective: '' @ goal)
       [''diagnostic:root_cause_isolated''] [''filesystem_read'', ''planning''] ''Investigator'' 10,
     phase ''task-2'' (''Analyze repository architecture, dependencies, and test conventions for: '' @ goal)
       (''Inspect build configurations, dependency specifications, and regression test suites for: '' @ goal)
       [''analysis:architecture_reviewed''] [''filesystem_read'', ''review''] ''Analyst'' 10,
     phase ''task-3'' (''Implement core logic changes based on findings for: '' @ goal)
       (''Apply minimal correct code changes based on investigator findings and analyst guidance for: '' @ goal)
       [''impl:code_modified''] [''filesystem_write'', ''shell'', ''git''] ''Developer'' 20,
     phase ''task-4'' (''Independently inspect implementation, run tests, and review diff for: '' @ goal)
       (''Independently execute test suites, audit workspace git diff, and verify regression safety for: '' @ goal)
       [''test:cargo_test_passed'', ''review:approved''] [''test_runner'', ''review''] ''Reviewer'' 30,
     phase ''task-5'' (''Integrate verified branch and record final git commit for: '' @ goal)
       (''Integrate verified worktree branch into repository, perform independent verification, and commit for: '' @ goal)
       [''verification:independent_verified'', ''git:commit_recorded''] [''integration'', ''git''] ''Integrator'' 40]"

definition multi_agent_deps :: "ProposedDependency list" where
  "multi_agent_deps = [dep ''task-3'' ''task-1'', dep ''task-3'' ''task-2'', dep ''task-4'' ''task-3'', dep ''task-5'' ''task-4'']"

definition sequential_tasks :: "string \<Rightarrow> ProposedTask list" where
  "sequential_tasks goal =
    [phase ''task-1'' (''Investigate repository codebase and diagnose root cause for: '' @ goal)
       (''Inspect source files, verify existing failure manifestations, and isolate fault boundaries for objective: '' @ goal)
       [''diagnostic:root_cause_isolated''] [''filesystem_read'', ''planning''] ''Planner'' 10,
     phase ''task-2'' (''Implement core logic changes for: '' @ goal)
       (''Apply atomic code changes, fix algorithms or bugs, and maintain backward compatibility for: '' @ goal)
       [''impl:code_modified''] [''filesystem_write'', ''shell'', ''git''] ''Developer'' 20,
     phase ''task-3'' (''Add regression tests and verify test suite for: '' @ goal)
       (''Implement automated test cases validating edge cases and run test suite for: '' @ goal)
       [''test:cargo_test_passed''] [''test_runner'', ''shell'', ''filesystem_write''] ''Tester'' 30,
     phase ''task-4'' (''Review diff, verify criteria, and obtain human approval for: '' @ goal)
       (''Audit security, inspect workspace git diff, and trigger human approval gate for: '' @ goal)
       [''governance:approval_obtained''] [''review'', ''git''] ''Reviewer'' 40,
     phase ''task-5'' (''Perform independent verification and commit clean working tree for: '' @ goal)
       (''Independently execute verification checks and record git commit for: '' @ goal)
       [''verification:independent_verified'', ''git:commit_recorded''] [''verification'', ''git''] ''Verifier'' 50]"

definition sequential_deps :: "ProposedDependency list" where
  "sequential_deps = [dep ''task-2'' ''task-1'', dep ''task-3'' ''task-2'', dep ''task-4'' ''task-3'', dep ''task-5'' ''task-4'']"

definition decomposer_proposal :: "PlanningContext \<Rightarrow> PlanProposal" where
  "decomposer_proposal ctx =
    \<lparr>pp_objective = pc_objective ctx,
     pp_rationale = ''Autonomous 5-phase verified engineering plan for objective: '' @ pc_objective ctx,
     pp_tasks = (if is_multi_agent ctx then multi_agent_tasks (pc_objective ctx) else sequential_tasks (pc_objective ctx)),
     pp_dependencies = (if is_multi_agent ctx then multi_agent_deps else sequential_deps),
     pp_execution_strategy = Sequential, pp_verification_strategy = MultiStep\<rparr>"

definition decomposer_plan :: "(string list \<Rightarrow> string list) \<Rightarrow> PlanningContext \<Rightarrow> (PlanProposal, PlannerError) result" where
  "decomposer_plan ord ctx =
    (let p = decomposer_proposal ctx in
     case validate ord p of
       None \<Rightarrow> Err (Internal ''attempt to subtract with overflow'')
     | Some r \<Rightarrow> if is_valid r then Ok p else Err (Validation (report_errors r)))"

definition adaptive_plan ::
  "(string list \<Rightarrow> string list) \<Rightarrow> Llm option \<Rightarrow> PlanningContext \<Rightarrow> (PlanProposal, PlannerError) result" where
  "adaptive_plan ord llm ctx =
    (case llm of
       None \<Rightarrow> decomposer_plan ord ctx
     | Some l \<Rightarrow>
         (case llm_plan l ctx of
            Err _ \<Rightarrow> decomposer_plan ord ctx
          | Ok p \<Rightarrow>
              (case validate ord p of
                 None \<Rightarrow> Err (Internal ''attempt to subtract with overflow'')
               | Some r \<Rightarrow> if is_valid r then Ok p else decomposer_plan ord ctx)))"

section \<open>Serialised proposals and error texts\<close>

fun execution_strategy_str :: "ExecutionStrategy \<Rightarrow> string" where
  "execution_strategy_str Parallel = ''parallel''"
| "execution_strategy_str Sequential = ''sequential''"
| "execution_strategy_str Staged = ''staged''"

fun verification_strategy_str :: "VerificationStrategy \<Rightarrow> string" where
  "verification_strategy_str DiskArtifacts = ''disk_artifacts''"
| "verification_strategy_str CommandOutput = ''command_output''"
| "verification_strategy_str MultiStep = ''multi_step''"

definition json_opt :: "string option \<Rightarrow> json" where
  "json_opt s = (case s of Some t \<Rightarrow> JStr t | None \<Rightarrow> JNull)"

definition task_json :: "ProposedTask \<Rightarrow> json" where
  "task_json t = JObj [(''temp_id'', JStr (pt_temp_id t)), (''objective'', JStr (pt_objective t)),
     (''description'', json_opt (pt_description t)), (''criteria'', JArr (map JStr (pt_criteria t))),
     (''required_capabilities'', JArr (map JStr (pt_required_capabilities t))),
     (''suggested_role'', json_opt (pt_suggested_role t)), (''priority'', JNum (pt_priority t))]"

definition proposal_json :: "PlanProposal \<Rightarrow> json" where
  "proposal_json p = JObj [(''objective'', JStr (pp_objective p)), (''rationale'', JStr (pp_rationale p)),
     (''tasks'', JArr (map task_json (pp_tasks p))),
     (''dependencies'', JArr (map (\<lambda>d. JObj [(''task_temp_id'', JStr (pd_task_temp_id d)),
        (''depends_on_temp_id'', JStr (pd_depends_on_temp_id d))]) (pp_dependencies p))),
     (''execution_strategy'', JStr (execution_strategy_str (pp_execution_strategy p))),
     (''verification_strategy'', JStr (verification_strategy_str (pp_verification_strategy p)))]"

fun storage_display :: "StorageError \<Rightarrow> string" where
  "storage_display (Sqlite e) = ''sqlite error: '' @ e"
| "storage_display (StateTransition e) =
     ''state transition error: illegal state transition from '' @ from_state e @ '' to '' @ to_state e @ '': '' @ reason e"
| "storage_display (StorageError.NotFound ty i) = ''entity not found: '' @ ty @ '' with id '' @ single_quoted (decimal i)"
| "storage_display (IdempotencyConflict k) = ''idempotency conflict: command with key '' @ single_quoted k @ '' already exists''"
| "storage_display (LeaseConflict i) = ''lease conflict: task '' @ single_quoted (decimal i) @ '' already has an active lease''"
| "storage_display (Migration e) = ''migration error: '' @ e"

definition pl_store :: "(Db, 'a, StorageError) op \<Rightarrow> (Db, 'a, PlannerError) op" where
  "pl_store m db = (case m db of (db', r) \<Rightarrow> (db', map_err (\<lambda>e. Storage (storage_display e)) r))"

section \<open>Applying a plan\<close>

record PlanApplicationResult =
  pa_plan_id :: ident
  pa_created_tasks :: "(string \<times> ident) list"
  pa_dependencies_created :: nat

record Telemetry =
  tm_provider :: string
  tm_model :: string
  tm_latency_ms :: u64
  tm_prompt_tokens :: "u32 option"
  tm_completion_tokens :: "u32 option"

text \<open>The identifiers of the new tasks are consecutive from the first unused one.\<close>

definition plan_task :: "time \<Rightarrow> PlanningContext \<Rightarrow> ident \<Rightarrow> ProposedTask \<Rightarrow> Task" where
  "plan_task now ctx i pt =
    (let t = (Task_new i now (pc_workflow_id ctx) (pt_objective pt))\<lparr>t_criteria := pt_criteria pt,
                t_priority := pt_priority pt, t_workspace_id := pc_workspace_id ctx\<rparr>;
         t1 = (case pt_description pt of Some d \<Rightarrow> t\<lparr>t_description := Some d\<rparr> | None \<Rightarrow> t);
         t2 = (case pc_parent_task_id ctx of Some p \<Rightarrow> t1\<lparr>t_parent_id := Some p\<rparr> | None \<Rightarrow> t1)
     in if pt_required_capabilities pt \<noteq> [] then Task_with_required_capabilities (pt_required_capabilities pt) t2 else t2)"

definition numbered :: "ident \<Rightarrow> PlanProposal \<Rightarrow> (ident \<times> ProposedTask) list" where
  "numbered base p = enumerate base (pp_tasks p)"

definition plan_tasks :: "time \<Rightarrow> PlanningContext \<Rightarrow> ident \<Rightarrow> PlanProposal \<Rightarrow> Task list" where
  "plan_tasks now ctx base p = map (\<lambda>(i, pt). plan_task now ctx i pt) (numbered base p)"

definition plan_id_map :: "ident \<Rightarrow> PlanProposal \<Rightarrow> (string \<times> ident) list" where
  "plan_id_map base p = fold (\<lambda>(i, pt). AList.update (pt_temp_id pt) i) (numbered base p) []"

definition child_deps :: "(string \<times> ident) list \<Rightarrow> PlanProposal \<Rightarrow> (ident \<times> ident) list" where
  "child_deps ids p =
    List.map_filter (\<lambda>d. case (map_of ids (pd_task_temp_id d), map_of ids (pd_depends_on_temp_id d)) of
      (Some i, Some j) \<Rightarrow> Some (i, j) | _ \<Rightarrow> None) (pp_dependencies p)"

definition root_task :: "time \<Rightarrow> (ident \<times> ident) list \<Rightarrow> Task \<Rightarrow> Task" where
  "root_task now deps t =
    (if t_id t \<notin> fst ` set deps
     then (case Task_transition_to now TaskState.Ready t of Ok t' \<Rightarrow> t' | Err _ \<Rightarrow> t) else t)"

definition store_plan :: "time \<Rightarrow> PlanningContext \<Rightarrow> Task list \<Rightarrow> (ident \<times> ident) list \<Rightarrow> (Db, unit, PlannerError) op" where
  "store_plan now ctx tasks deps =
    (case pc_parent_task_id ctx of
       Some parent \<Rightarrow>
         pl_store (decompose_task_transactional now parent tasks deps
           (filter (\<lambda>i. i \<notin> snd ` set deps) (map t_id tasks)))
     | None \<Rightarrow>
         st_then (for_each (\<lambda>t. pl_store (create_task (root_task now deps t))) tasks)
           (\<lambda>_. for_each (\<lambda>(i, j). pl_store (db_add_dependency i j)) deps))"

definition plan_record :: "time \<Rightarrow> PlanningContext \<Rightarrow> PlanProposal \<Rightarrow> Telemetry \<Rightarrow> Db \<Rightarrow> PlanningRecord" where
  "plan_record now ctx p tm db =
    (PlanningRecord_new (fresh_id (map pl_id (db_plans db))) now (pc_workflow_id ctx) (pc_objective ctx)
       (tm_provider tm) (tm_model tm) (proposal_json p))\<lparr>pl_parent_task_id := pc_parent_task_id ctx\<rparr>"

definition applied_mutations :: "PlanningContext \<Rightarrow> (string \<times> ident) list \<Rightarrow> (ident \<times> ident) list \<Rightarrow> json" where
  "applied_mutations ctx ids deps =
    JObj [(''created_task_count'', JNum (int (length ids))),
      (''created_tasks'', JObj (map (\<lambda>(k, i). (k, JStr (decimal i))) ids)),
      (''dependencies_count'', JNum (int (length deps))),
      (''parent_task_id'', json_opt (map_option decimal (pc_parent_task_id ctx)))]"

definition telemetered :: "Telemetry \<Rightarrow> PlanningRecord \<Rightarrow> PlanningRecord" where
  "telemetered tm = PlanningRecord_with_telemetry (tm_latency_ms tm) (tm_prompt_tokens tm) (tm_completion_tokens tm)"

definition reject_plan :: "time \<Rightarrow> PlanningContext \<Rightarrow> PlanProposal \<Rightarrow> Telemetry \<Rightarrow> string list \<Rightarrow> (Db, PlanApplicationResult, PlannerError) op" where
  "reject_plan now ctx p tm errors db =
    st_then (pl_store (save_plan_record (telemetered tm (PlanningRecord_with_validation False errors (plan_record now ctx p tm db)))))
      (\<lambda>_ db1. (emit_event now ''workflow'' (pc_workflow_id ctx) ''plan_rejected'' db1, Err (Validation errors))) db"

definition apply_plan ::
  "time \<Rightarrow> (string list \<Rightarrow> string list) \<Rightarrow> PlanningContext \<Rightarrow> PlanProposal \<Rightarrow> Telemetry \<Rightarrow> (Db, PlanApplicationResult, PlannerError) op" where
  "apply_plan now ord ctx p tm db =
    (case validate ord p of
       None \<Rightarrow> (db, Err (Internal ''attempt to subtract with overflow''))
     | Some report \<Rightarrow>
         if \<not> is_valid report then reject_plan now ctx p tm (report_errors report) db
         else
           let base = fresh_id (map row_id (db_tasks db));
               ids = plan_id_map base p;
               deps = child_deps ids p
           in st_then (store_plan now ctx (plan_tasks now ctx base p) deps)
                (\<lambda>_ db1. let r = telemetered tm (PlanningRecord_mark_applied (applied_mutations ctx ids deps)
                              (PlanningRecord_with_validation True [] (plan_record now ctx p tm db1))) in
                  st_then (pl_store (save_plan_record r))
                    (\<lambda>_ db2. (emit_event now ''workflow'' (pc_workflow_id ctx) ''plan_applied'' db2,
                       Ok \<lparr>pa_plan_id = pl_id r, pa_created_tasks = ids, pa_dependencies_created = length deps\<rparr>)) db1) db)"

section \<open>Diagnosis of failures\<close>

datatype FailureCategory =
    Transient string
  | MissingArtifact string
  | ContentCriteriaUnmet string
  | PermissionDenied string
  | ExcessiveComplexity string
  | AttemptsExhausted string
  | Unknown string

datatype PlannedRecovery =
    RetrySameStrategy
  | RetryWithFeedback string
  | DecomposeTask
  | ReassignAgent "string list"
  | EscalateHuman string

record RecoveryRecommendation =
  rr_category :: FailureCategory
  rr_rationale :: string
  rr_action :: PlannedRecovery

definition recommend :: "FailureCategory \<Rightarrow> string \<Rightarrow> PlannedRecovery \<Rightarrow> RecoveryRecommendation" where
  "recommend c r a = \<lparr>rr_category = c, rr_rationale = r, rr_action = a\<rparr>"

definition diagnose_verification :: "Task \<Rightarrow> string \<Rightarrow> RecoveryRecommendation" where
  "diagnose_verification t msg =
    (let lower = str_to_lowercase msg in
     if str_contains ''missing file'' lower \<or> str_contains ''file not found'' lower
     then (let f = ''Independent verification failed: '' @ msg @ ''. Ensure the required files are created in the workspace.''
           in recommend (MissingArtifact msg) f (RetryWithFeedback f))
     else if str_contains ''content mismatch'' lower \<or> str_contains ''pattern not found'' lower
     then (let f = ''Independent verification failed: '' @ msg @ ''. Review criteria and update artifact contents.''
           in recommend (ContentCriteriaUnmet msg) f (RetryWithFeedback f))
     else if 2 \<le> t_attempts t
     then recommend (ExcessiveComplexity msg)
       (''Task '' @ single_quoted (decimal (t_id t)) @ '' failed multiple verification attempts; recommend decomposition'') DecomposeTask
     else recommend (ContentCriteriaUnmet msg) msg (RetryWithFeedback (''Verification failed: '' @ msg @ ''. Please fix.'')))"

definition diagnose_execution :: "Task \<Rightarrow> string \<Rightarrow> RecoveryRecommendation" where
  "diagnose_execution t msg =
    (let lower = str_to_lowercase msg in
     if str_contains ''permission denied'' lower \<or> str_contains ''sandbox violation'' lower
     then recommend (PermissionDenied msg) (''Security violation or missing capability: '' @ msg)
       (EscalateHuman (''Security boundary hold: '' @ msg))
     else if str_contains ''timeout'' lower \<or> str_contains ''unavailable'' lower \<or> str_contains ''503'' lower
     then recommend (Transient msg) (''Transient error encountered: '' @ msg) RetrySameStrategy
     else if 2 \<le> t_attempts t
     then recommend (ExcessiveComplexity msg) (''Repeated execution error: '' @ msg) DecomposeTask
     else recommend (Unknown msg) (''Execution failed: '' @ msg)
       (RetryWithFeedback (''Previous run failed with error: '' @ msg @ ''. Adjust implementation.'')))"

definition diagnose :: "Task \<Rightarrow> Execution option \<Rightarrow> Verification option \<Rightarrow> RecoveryRecommendation" where
  "diagnose t exec verif =
    (if t_max_attempts t \<le> t_attempts t
     then (let r = ''Task '' @ single_quoted (decimal (t_id t)) @ '' reached max attempts ('' @ dec_word (t_attempts t) @ ''/'' @
                   dec_word (t_max_attempts t) @ '') without successful verification''
           in recommend (AttemptsExhausted r) r (EscalateHuman r))
     else case verif of
       Some v \<Rightarrow>
         if v_verdict v = VerificationVerdict.Failed
         then diagnose_verification t (case v_failure_reason v of Some m \<Rightarrow> m | None \<Rightarrow> ''Criteria not satisfied'')
         else (case Option.bind exec x_error_message of
                 Some m \<Rightarrow> diagnose_execution t m
               | None \<Rightarrow> recommend (Unknown ''Unspecified failure'') ''No specific error or verification evidence provided'' RetrySameStrategy)
     | None \<Rightarrow>
         (case Option.bind exec x_error_message of
            Some m \<Rightarrow> diagnose_execution t m
          | None \<Rightarrow> recommend (Unknown ''Unspecified failure'') ''No specific error or verification evidence provided'' RetrySameStrategy))"

end
