(* ===== verification/Planner_Properties.thy ===== *)
theory Planner_Properties
  imports Plan_Rules Planner Storage_Laws Verifier "HOL-Library.Code_Target_Nat"
begin

text \<open>The properties of the planner: the decision of the validator, the totality of the
planner with its fallback, and the tasks and dependencies a plan becomes.\<close>

section \<open>Ranked graphs\<close>

lemma ranked_chain:
  assumes "\<And>i j. j \<in> set (deps i) \<Longrightarrow> rank j < (rank i :: nat)" "dep_chain deps xs"
  shows "length xs \<le> rank (last xs) + 1"
  using assms(2)
proof (induction xs rule: rev_induct)
  case (snoc y xs)
  show ?case
  proof (cases "xs = []")
    case False
    then have "dep_chain deps xs" "last xs \<in> set (deps y)" using snoc.prems by (auto simp: dep_chain_def successively_append_iff)
    then show ?thesis using snoc.IH assms(1) [of "last xs" y] by simp
  qed simp
qed (simp add: dep_chain_def)

lemma ranked_acyclic:
  assumes "\<And>i j. j \<in> set (deps i) \<Longrightarrow> rank j < (rank i :: nat)"
  shows "acyclic (dep_edges deps)"
proof -
  have "(dep_edges deps)\<inverse> \<subseteq> measure rank" using assms by (auto simp: dep_edges_def)
  then have "wf ((dep_edges deps)\<inverse>)" using wf_subset wf_measure by blast
  then show ?thesis using wf_acyclic acyclic_converse by blast
qed

section \<open>Validation\<close>

text \<open>C23: the validator never panics, and it accepts exactly the proposals that have tasks
within the budgets with distinct identifiers, objectives and criteria, whose dependencies
relate two of them, form no cycle, and have no chain of prerequisites longer than the
allowed depth, whatever the iteration order of the hash tables.\<close>

theorem plan_valid_iff:
  assumes "hash_order ord"
  shows "\<exists>r. validate_with_budget ord p b existing = Some r \<and> (is_valid r \<longleftrightarrow> plan_ok p b existing) \<and>
    (is_valid r \<longleftrightarrow> report_errors r = [])"
  by (rule validate_decides [OF assms])

definition chain_plan :: "nat \<Rightarrow> PlanProposal" where
  "chain_plan n = \<lparr>pp_objective = ''o'', pp_rationale = [],
     pp_tasks = map (\<lambda>k. phase (decimal k) ''x'' [] [''c''] [] ''r'' 0) [0..<n],
     pp_dependencies = map (\<lambda>k. dep (decimal (k + 1)) (decimal k)) [0..<n - 1],
     pp_execution_strategy = Sequential, pp_verification_strategy = MultiStep\<rparr>"

lemma chain_plan_checks:
  "map_option is_valid (validate_with_budget id (chain_plan 3) \<lparr>max_tasks_per_plan = 3, max_workflow_tasks = 4, max_decomposition_depth = 3\<rparr> 1) = Some True"
  "map_option is_valid (validate_with_budget id (chain_plan 3) \<lparr>max_tasks_per_plan = 3, max_workflow_tasks = 4, max_decomposition_depth = 2\<rparr> 1) = Some False"
  by code_simp+

theorem plan_valid_iff_witness:
  "plan_ok (chain_plan 3) \<lparr>max_tasks_per_plan = 3, max_workflow_tasks = 4, max_decomposition_depth = 3\<rparr> 1 \<and>
   \<not> plan_ok (chain_plan 3) \<lparr>max_tasks_per_plan = 3, max_workflow_tasks = 4, max_decomposition_depth = 2\<rparr> 1"
proof -
  have "hash_order id" by (simp add: hash_order_def)
  from plan_valid_iff [OF this] show ?thesis using chain_plan_checks
    by (metis option.simps(9) option.inject)
qed

section \<open>Planning\<close>

definition phase_rank :: "string \<Rightarrow> nat" where
  "phase_rank s = (if s = ''task-2'' then 1 else if s = ''task-3'' then 2 else if s = ''task-4'' then 3 else if s = ''task-5'' then 4 else 0)"

lemma trim_head: "\<not> is_whitespace c \<Longrightarrow> str_trim (c # s) \<noteq> []"
  by (simp add: str_trim_def trim_by_def dropWhile_eq_Nil_conv)

lemma phase_ids: "str_trim ''task-1'' = ''task-1''" "str_trim ''task-2'' = ''task-2''" "str_trim ''task-3'' = ''task-3''"
  "str_trim ''task-4'' = ''task-4''" "str_trim ''task-5'' = ''task-5''"
  by code_simp+

lemma objective_ok: "\<not> is_whitespace (hd pre) \<Longrightarrow> pre \<noteq> [] \<Longrightarrow> str_trim (pre @ goal) \<noteq> []"
  by (cases pre) (auto intro: trim_head [THEN notE])

lemma criterion_ok: "\<not> is_whitespace (hd c) \<Longrightarrow> c \<noteq> [] \<Longrightarrow> str_trim c \<noteq> []"
  using objective_ok [of c "[]"] by simp

lemma capital_not_space:
  "\<not> is_whitespace CHR ''I''" "\<not> is_whitespace CHR ''A''" "\<not> is_whitespace CHR ''R''" "\<not> is_whitespace CHR ''P''"
  "\<not> is_whitespace CHR ''a''" "\<not> is_whitespace CHR ''d''" "\<not> is_whitespace CHR ''g''" "\<not> is_whitespace CHR ''i''"
  "\<not> is_whitespace CHR ''r''" "\<not> is_whitespace CHR ''t''" "\<not> is_whitespace CHR ''v''"
  by code_simp+

lemma phase_ok:
  "tid (phase i goal descr cs caps role n) = str_trim i"
  "task_ok (phase i goal descr cs caps role n) \<longleftrightarrow>
     str_trim i \<noteq> [] \<and> str_trim goal \<noteq> [] \<and> cs \<noteq> [] \<and> (\<forall>c \<in> set cs. str_trim c \<noteq> [])"
  by (simp_all add: phase_def tid_def task_ok_def)

lemma dep_pair_dep [simp]: "dep_pair (dep i j) = (str_trim i, str_trim j)"
  by (simp add: dep_pair_def dep_def)

lemma decomposer_tasks_ok:
  "map tid (pp_tasks (decomposer_proposal ctx)) = [''task-1'', ''task-2'', ''task-3'', ''task-4'', ''task-5'']"
  "list_all task_ok (pp_tasks (decomposer_proposal ctx))"
  by (simp_all add: decomposer_proposal_def multi_agent_tasks_def sequential_tasks_def phase_ok phase_ids trim_head
      capital_not_space)

lemma decomposer_deps:
  "dep_pair ` set (pp_dependencies (decomposer_proposal ctx)) \<subseteq>
     {(''task-2'', ''task-1''), (''task-3'', ''task-1''), (''task-3'', ''task-2''), (''task-4'', ''task-3''), (''task-5'', ''task-4'')}"
  by (auto simp: decomposer_proposal_def multi_agent_deps_def sequential_deps_def phase_ids)

lemma decomposer_ok: "plan_ok (decomposer_proposal ctx) PlannerBudgets_default 0"
proof -
  let ?p = "decomposer_proposal ctx"
  have rank: "phase_rank j < phase_rank i" if "j \<in> set (plan_deps ?p i)" for i j
    using that decomposer_deps [of ctx] unfolding plan_deps_set by (auto simp: phase_rank_def)
  have "length xs \<le> 15" if xs: "dep_chain (plan_deps ?p) xs" for xs
  proof -
    have "length xs \<le> phase_rank (last xs) + 1" by (rule ranked_chain [OF rank xs])
    then show ?thesis by (auto simp: phase_rank_def split: if_splits)
  qed
  moreover have "length (pp_tasks ?p) = 5"
    using arg_cong [OF decomposer_tasks_ok(1) [of ctx], of length] by simp
  moreover have "list_all (dep_ok (map tid (pp_tasks ?p))) (pp_dependencies ?p)"
    using decomposer_deps [of ctx] unfolding decomposer_tasks_ok(1) by (fastforce simp: list_all_iff dep_ok_def)
  ultimately show ?thesis
    using ranked_acyclic [OF rank] decomposer_tasks_ok [of ctx]
    by (auto simp: plan_ok_def PlannerBudgets_default_def)
qed

text \<open>Planning with the fallback always succeeds, whatever the provider answers or the
parser accepts, with a proposal that satisfies the rules of the validator; without a
provider, or when its proposal is rejected, it is the one of the rule-based decomposer.\<close>

theorem planner_always_plans:
  assumes "hash_order ord"
  shows "\<exists>p. adaptive_plan ord llm ctx = Ok p \<and> plan_ok p PlannerBudgets_default 0 \<and>
    (p = decomposer_proposal ctx \<or> (\<exists>l. llm = Some l \<and> llm_plan l ctx = Ok p))"
proof -
  have v: "\<exists>r. validate ord p = Some r \<and> (is_valid r \<longleftrightarrow> plan_ok p PlannerBudgets_default 0)" for p
    unfolding validate_def using validate_decides [OF assms] by blast
  obtain r where "validate ord (decomposer_proposal ctx) = Some r" "is_valid r" using v decomposer_ok by blast
  then have d: "decomposer_plan ord ctx = Ok (decomposer_proposal ctx)" by (simp add: decomposer_plan_def Let_def)
  show ?thesis
  proof (cases llm)
    case None
    then show ?thesis using d decomposer_ok by (simp add: adaptive_plan_def)
  next
    case (Some l)
    show ?thesis
    proof (cases "llm_plan l ctx")
      case (Ok p)
      obtain r where "validate ord p = Some r" "is_valid r \<longleftrightarrow> plan_ok p PlannerBudgets_default 0" using v by blast
      then show ?thesis using d decomposer_ok Some Ok by (auto simp: adaptive_plan_def)
    qed (use Some d decomposer_ok in \<open>simp add: adaptive_plan_def\<close>)
  qed
qed

theorem planner_always_plans_witness:
  "\<exists>p. adaptive_plan rev (Some \<lparr>llm_complete = (\<lambda>_. Ok (Some ''{}'')), llm_parse = (\<lambda>_. Ok (chain_plan 16))\<rparr>)
       (PlanningContext_new 7 ''ship'') = Ok p \<and> plan_ok p PlannerBudgets_default 0"
proof -
  have "hash_order (rev :: string list \<Rightarrow> string list)" by (simp add: hash_order_def)
  from planner_always_plans [OF this] show ?thesis by blast
qed

section \<open>Applying a plan\<close>

lemma pl_store_Ok [simp]: "pl_store m db = (db', Ok a) \<longleftrightarrow> m db = (db', Ok a)"
  by (auto simp: pl_store_def split: prod.splits)

lemma tbl_get_concat: "tbl_get key k (xs @ ys) = (case tbl_get key k xs of Some r \<Rightarrow> Some r | None \<Rightarrow> tbl_get key k ys)"
  by (induction xs) (auto simp: tbl_get_def)

lemma create_tasks_Ok:
  assumes "for_each (\<lambda>t. pl_store (create_task (f t))) ts db = (db', Ok ())"
  shows "db' = db\<lparr>db_tasks := db_tasks db @ map (\<lambda>t. \<lparr>r_task = f t, r_generation = 0\<rparr>) ts\<rparr>"
  using assms
proof (induction ts arbitrary: db)
  case (Cons t ts)
  then obtain db1 where 1: "create_task (f t) db = (db1, Ok ())" and 2: "for_each (\<lambda>t. pl_store (create_task (f t))) ts db1 = (db', Ok ())"
    by (auto simp: for_each_Cons_Ok)
  have "db1 = db\<lparr>db_tasks := db_tasks db @ [\<lparr>r_task = f t, r_generation = 0\<rparr>]\<rparr>"
    using 1 by (auto simp: create_task_def insert_task_row_def split: if_splits)
  then show ?case using Cons.IH [OF 2] by simp
qed simp

lemma add_dependencies_Ok:
  assumes "for_each (\<lambda>(i, j). pl_store (db_add_dependency i j)) es db = (db', Ok ())"
  shows "\<exists>ds. db' = db\<lparr>db_deps := ds\<rparr> \<and> set ds = set (db_deps db) \<union> set es"
  using assms
proof (induction es arbitrary: db)
  case (Cons e es)
  obtain i j where e: "e = (i, j)" by fastforce
  obtain db1 where 1: "db_add_dependency i j db = (db1, Ok ())"
    and 2: "for_each (\<lambda>(i, j). pl_store (db_add_dependency i j)) es db1 = (db', Ok ())"
    using Cons.prems by (auto simp: for_each_Cons_Ok e)
  have "\<exists>ds. db1 = db\<lparr>db_deps := ds\<rparr> \<and> set ds = insert (i, j) (set (db_deps db))"
  proof (cases "(i, j) \<in> set (db_deps db)")
    case True
    then show ?thesis using 1 by (intro exI [of _ "db_deps db"]) (auto simp: db_add_dependency_def)
  next
    case False
    then show ?thesis using 1 by (intro exI [of _ "db_deps db @ [(i, j)]"]) (auto simp: db_add_dependency_def split: if_splits)
  qed
  then show ?case using Cons.IH [OF 2] by (auto simp: e)
next
  case Nil
  then have "db' = db" by simp
  then show ?case by (intro exI [of _ "db_deps db"]) simp
qed

lemma fold_update_numbered:
  assumes "distinct (map f ts)"
  shows "map_of (fold (\<lambda>(i, t). AList.update (f t) i) (enumerate b ts) xs) = map_of xs ++ map_of (zip (map f ts) [b..<b + length ts])"
  using assms
proof (induction ts arbitrary: b xs)
  case (Cons t ts)
  have range: "[b..<b + length (t # ts)] = b # [Suc b..<Suc b + length ts]" using upt_conv_Cons [of b "b + length (t # ts)"] by (simp del: upt_Suc)
  have "f t \<notin> dom (map_of (zip (map f ts) [Suc b..<Suc b + length ts]))"
    using Cons.prems by (auto simp: dom_map_of_conv_image_fst dest!: set_zip_leftD)
  then have "map_of (AList.update (f t) b xs) ++ map_of (zip (map f ts) [Suc b..<Suc b + length ts]) =
      map_of xs ++ map_of (zip (map f (t # ts)) [b..<b + length (t # ts)])"
    unfolding range by (simp add: update_conv' map_add_upd_left)
  then show ?case using Cons by simp
qed simp

lemma plan_id_map_nth:
  assumes "distinct (map pt_temp_id (pp_tasks p))" "k < length (pp_tasks p)"
  shows "map_of (plan_id_map base p) (pt_temp_id (pp_tasks p ! k)) = Some (base + k)"
proof -
  have "plan_id_map base p = fold (\<lambda>(i, t). AList.update (pt_temp_id t) i) (enumerate base (pp_tasks p)) []"
    by (simp add: plan_id_map_def numbered_def)
  then have "map_of (plan_id_map base p) = map_of (zip (map pt_temp_id (pp_tasks p)) [base..<base + length (pp_tasks p)])"
    using fold_update_numbered [OF assms(1), of base "[]"] by simp
  moreover have "map_of (zip (map pt_temp_id (pp_tasks p)) [base..<base + length (pp_tasks p)]) (map pt_temp_id (pp_tasks p) ! k) =
      Some ([base..<base + length (pp_tasks p)] ! k)"
    by (rule map_of_zip_nth) (use assms in simp_all)
  ultimately show ?thesis using assms(2) by simp
qed

lemma plan_task_fields:
  "t_id (plan_task now ctx i pt) = i" "t_state (plan_task now ctx i pt) = TaskState.Backlog"
  "t_objective (plan_task now ctx i pt) = pt_objective pt" "t_criteria (plan_task now ctx i pt) = pt_criteria pt"
  "t_workflow_id (plan_task now ctx i pt) = pc_workflow_id ctx"
  by (auto simp: plan_task_def Task_new_def Let_def Task_with_required_capabilities_def split: option.split)

lemma root_task_fields:
  "t_id (root_task now es t) = t_id t" "t_objective (root_task now es t) = t_objective t"
  "t_criteria (root_task now es t) = t_criteria t" "t_workflow_id (root_task now es t) = t_workflow_id t"
  "t_state t = TaskState.Backlog \<Longrightarrow> t_state (root_task now es t) = (if t_id t \<in> fst ` set es then TaskState.Backlog else TaskState.Ready)"
  by (auto simp: root_task_def Task_transition_to_def TaskState_transition_to_def TaskState_can_transition_to_def
      split: result.split)

lemma fresh_id_above: "u \<in> set used \<Longrightarrow> u < fresh_id used"
proof -
  assume "u \<in> set used"
  then have "u \<le> foldr max used 0" by (induction used) auto
  then show ?thesis by (simp add: fresh_id_def)
qed

definition written_trimmed :: "PlanProposal \<Rightarrow> bool" where
  "written_trimmed p =
    ((\<forall>t \<in> set (pp_tasks p). str_trim (pt_temp_id t) = pt_temp_id t) \<and>
     (\<forall>d \<in> set (pp_dependencies p). str_trim (pd_task_temp_id d) = pd_task_temp_id d \<and>
        str_trim (pd_depends_on_temp_id d) = pd_depends_on_temp_id d))"

lemma plan_ids_resolve:
  assumes ok: "plan_ok p b n" and tr: "written_trimmed p"
  shows "distinct (map pt_temp_id (pp_tasks p))"
    and "d \<in> set (pp_dependencies p) \<Longrightarrow> \<exists>i j. map_of (plan_id_map base p) (pd_task_temp_id d) = Some i \<and>
      map_of (plan_id_map base p) (pd_depends_on_temp_id d) = Some j"
proof -
  have ids: "map tid (pp_tasks p) = map pt_temp_id (pp_tasks p)" using tr by (simp add: tid_def written_trimmed_def)
  show dist: "distinct (map pt_temp_id (pp_tasks p))" using ok ids by (simp add: plan_ok_def)
  have known: "\<exists>i. map_of (plan_id_map base p) x = Some i" if "x \<in> set (map pt_temp_id (pp_tasks p))" for x
    using plan_id_map_nth [OF dist] that by (auto simp: in_set_conv_nth)
  assume d: "d \<in> set (pp_dependencies p)"
  have "dep_ok (map pt_temp_id (pp_tasks p)) d" using ok d by (simp add: plan_ok_def ids list_all_iff)
  then show "\<exists>i j. map_of (plan_id_map base p) (pd_task_temp_id d) = Some i \<and>
      map_of (plan_id_map base p) (pd_depends_on_temp_id d) = Some j"
    using known tr d by (auto simp: dep_ok_def dep_pair_def written_trimmed_def)
qed

lemma set_filtered: "set (List.map_filter f xs) = {y. \<exists>x \<in> set xs. f x = Some y}"
  by (force simp: List.map_filter_def)

lemma child_deps_set:
  "set (child_deps ids p) = {(i, j). \<exists>d \<in> set (pp_dependencies p). map_of ids (pd_task_temp_id d) = Some i \<and>
     map_of ids (pd_depends_on_temp_id d) = Some j}"
  unfolding child_deps_def set_filtered by (auto split: option.splits)

lemma child_deps_length:
  assumes "\<And>d. d \<in> set (pp_dependencies p) \<Longrightarrow> \<exists>i j. map_of ids (pd_task_temp_id d) = Some i \<and> map_of ids (pd_depends_on_temp_id d) = Some j"
  shows "length (child_deps ids p) = length (pp_dependencies p)"
proof -
  let ?f = "\<lambda>d. case (map_of ids (pd_task_temp_id d), map_of ids (pd_depends_on_temp_id d)) of
      (Some i, Some j) \<Rightarrow> Some (i, j) | _ \<Rightarrow> None"
  have "length (List.map_filter ?f ds) = length ds" if "\<And>d. d \<in> set ds \<Longrightarrow> ?f d \<noteq> None" for ds
    using that by (induction ds) (auto simp: List.map_filter_simps split: option.split)
  moreover have "?f d \<noteq> None" if "d \<in> set (pp_dependencies p)" for d using assms [OF that] by auto
  ultimately show ?thesis unfolding child_deps_def by blast
qed

lemma apply_root_Ok:
  assumes ap: "apply_plan now ord ctx p tm db = (db', Ok res)" and root: "pc_parent_task_id ctx = None"
  shows "\<exists>r ds. validate ord p = Some r \<and> is_valid r \<and>
    pa_created_tasks res = plan_id_map (fresh_id (map row_id (db_tasks db))) p \<and>
    pa_dependencies_created res = length (child_deps (pa_created_tasks res) p) \<and>
    db_tasks db' = db_tasks db @ map (\<lambda>t. \<lparr>r_task = root_task now (child_deps (pa_created_tasks res) p) t, r_generation = 0\<rparr>)
      (plan_tasks now ctx (fresh_id (map row_id (db_tasks db))) p) \<and>
    set (db_deps db') = set (db_deps db) \<union> set (child_deps (pa_created_tasks res) p) \<and>
    map_option pl_status (get_plan_record (pa_plan_id res) db') = Some Applied"
proof -
  obtain r where r: "validate ord p = Some r" "is_valid r"
    using ap by (auto simp: apply_plan_def reject_plan_def st_then.simps pl_store_def split: option.splits if_splits prod.splits result.splits)
  let ?base = "fresh_id (map row_id (db_tasks db))"
  let ?ids = "plan_id_map ?base p"
  let ?deps = "child_deps ?ids p"
  obtain db1 rec db2 where 1: "store_plan now ctx (plan_tasks now ctx ?base p) ?deps db = (db1, Ok ())"
    and 2: "save_plan_record rec db1 = (db2, Ok ())" and st: "pl_status rec = Applied"
    and 3: "db' = emit_event now ''workflow'' (pc_workflow_id ctx) ''plan_applied'' db2"
    and res: "res = \<lparr>pa_plan_id = pl_id rec, pa_created_tasks = ?ids, pa_dependencies_created = length ?deps\<rparr>"
    using ap r by (auto simp: apply_plan_def Let_def st_then_Ok telemetered_def PlanningRecord_with_telemetry_def PlanningRecord_mark_applied_def)
  obtain db0 where c: "for_each (\<lambda>t. pl_store (create_task (root_task now ?deps t))) (plan_tasks now ctx ?base p) db = (db0, Ok ())"
    and d: "for_each (\<lambda>(i, j). pl_store (db_add_dependency i j)) ?deps db0 = (db1, Ok ())"
    using 1 root by (auto simp: store_plan_def st_then_Ok)
  note created = create_tasks_Ok [OF c]
  obtain ds where linked: "db1 = db0\<lparr>db_deps := ds\<rparr>" "set ds = set (db_deps db0) \<union> set ?deps"
    using add_dependencies_Ok [OF d] by blast
  have saved: "db2 = db1\<lparr>db_plans := db_plans db1 @ [rec]\<rparr>" "\<not> tbl_has pl_id (pl_id rec) (db_plans db1)"
    using 2 by (auto simp: save_plan_record_def split: if_splits)
  have "get_plan_record (pl_id rec) db' = Some rec"
    using saved by (simp add: get_plan_record_def 3 emit_event_def append_event_def tbl_get_fresh)
  then show ?thesis
    using r res created linked saved(1) st by (simp add: 3 emit_event_def append_event_def)
qed

lemma row_ids_new: "map row_id (map (\<lambda>t. \<lparr>r_task = root_task now es t, r_generation = 0\<rparr>) (plan_tasks now ctx base p)) = [base..<base + length (pp_tasks p)]"
  by (simp add: plan_tasks_def numbered_def o_def split_def plan_task_fields root_task_fields row_id_def enumerate_eq_zip)

text \<open>C24: applying a plan without a parent task, whose identifiers are written without
surrounding white space, creates for each proposed task one new task of the workflow with
its objective and criteria, ready exactly when it has no prerequisite, and exactly the
proposed dependencies between them; and it stores the plan as applied.\<close>

theorem plan_applied:
  assumes "hash_order ord" "written_trimmed p" "pc_parent_task_id ctx = None"
    "apply_plan now ord ctx p tm db = (db', Ok res)"
  shows "plan_ok p PlannerBudgets_default 0 \<and>
    length (db_tasks db') = length (db_tasks db) + length (pp_tasks p) \<and>
    (\<forall>t \<in> set (pp_tasks p). \<exists>i q. map_of (pa_created_tasks res) (pt_temp_id t) = Some i \<and>
       \<not> tbl_has row_id i (db_tasks db) \<and> db_get_task i db' = Some q \<and> t_workflow_id q = pc_workflow_id ctx \<and>
       t_objective q = pt_objective t \<and> t_criteria q = pt_criteria t \<and>
       t_state q = (if pt_temp_id t \<in> pd_task_temp_id ` set (pp_dependencies p) then TaskState.Backlog else TaskState.Ready)) \<and>
    pa_dependencies_created res = length (pp_dependencies p) \<and>
    set (db_deps db') = set (db_deps db) \<union>
      {(i, j). \<exists>d \<in> set (pp_dependencies p). map_of (pa_created_tasks res) (pd_task_temp_id d) = Some i \<and>
         map_of (pa_created_tasks res) (pd_depends_on_temp_id d) = Some j} \<and>
    map_option pl_status (get_plan_record (pa_plan_id res) db') = Some Applied"
proof -
  let ?base = "fresh_id (map row_id (db_tasks db))"
  let ?ids = "plan_id_map ?base p"
  let ?deps = "child_deps ?ids p"
  let ?row = "\<lambda>t. \<lparr>r_task = root_task now ?deps t, r_generation = 0\<rparr>"
  obtain r where v: "validate ord p = Some r" "is_valid r" and ids: "pa_created_tasks res = ?ids"
    and n: "pa_dependencies_created res = length ?deps"
    and tasks: "db_tasks db' = db_tasks db @ map ?row (plan_tasks now ctx ?base p)"
    and deps: "set (db_deps db') = set (db_deps db) \<union> set ?deps"
    and rec: "map_option pl_status (get_plan_record (pa_plan_id res) db') = Some Applied"
    using apply_root_Ok [OF assms(4,3)] by auto
  have ok: "plan_ok p PlannerBudgets_default 0"
    using v validate_decides [OF assms(1), of p PlannerBudgets_default 0] by (auto simp: validate_def)
  note resolve = plan_ids_resolve [OF ok assms(2)]
  have new: "\<not> tbl_has row_id i (db_tasks db)" if "?base \<le> i" for i
    using that fresh_id_above [of i "map row_id (db_tasks db)"] by (auto simp: tbl_has_def)
  have each: "\<exists>i q. map_of ?ids (pt_temp_id t) = Some i \<and> \<not> tbl_has row_id i (db_tasks db) \<and> db_get_task i db' = Some q \<and>
      t_workflow_id q = pc_workflow_id ctx \<and> t_objective q = pt_objective t \<and> t_criteria q = pt_criteria t \<and>
      t_state q = (if pt_temp_id t \<in> pd_task_temp_id ` set (pp_dependencies p) then TaskState.Backlog else TaskState.Ready)"
    if t: "t \<in> set (pp_tasks p)" for t
  proof -
    obtain k where k: "k < length (pp_tasks p)" "pp_tasks p ! k = t" using t by (auto simp: in_set_conv_nth)
    let ?i = "?base + k" and ?t = "plan_task now ctx (?base + k) t"
    have i: "map_of ?ids (pt_temp_id t) = Some ?i" using plan_id_map_nth [OF resolve(1)] k by fastforce
    have len: "length (plan_tasks now ctx ?base p) = length (pp_tasks p)" by (simp add: plan_tasks_def numbered_def)
    have "plan_tasks now ctx ?base p ! k = ?t" using k by (simp add: plan_tasks_def numbered_def nth_enumerate_eq)
    then have "?t \<in> set (plan_tasks now ctx ?base p)" using k(1) len by (metis nth_mem)
    then have mem: "?row ?t \<in> set (map ?row (plan_tasks now ctx ?base p))" by simp
    have dist: "distinct (map row_id (map ?row (plan_tasks now ctx ?base p)))" unfolding row_ids_new by simp
    have rid: "row_id (?row ?t) = ?i" by (simp add: row_id_def root_task_fields plan_task_fields)
    have "tbl_get row_id ?i (map ?row (plan_tasks now ctx ?base p)) = Some (?row ?t)"
      using tbl_get_unique [OF dist] mem rid by simp
    then have get: "db_get_task ?i db' = Some (root_task now ?deps ?t)"
      using new [of ?i] by (simp add: db_get_task_def tasks tbl_get_concat tbl_get_None [THEN iffD2])
    have "?i \<in> fst ` set ?deps \<longleftrightarrow> pt_temp_id t \<in> pd_task_temp_id ` set (pp_dependencies p)"
    proof
      assume "pt_temp_id t \<in> pd_task_temp_id ` set (pp_dependencies p)"
      then obtain d where d: "d \<in> set (pp_dependencies p)" "pd_task_temp_id d = pt_temp_id t" by auto
      then show "?i \<in> fst ` set ?deps" using resolve(2) [OF d(1), of ?base] i by (force simp: child_deps_set)
    next
      assume "?i \<in> fst ` set ?deps"
      then obtain d where d: "d \<in> set (pp_dependencies p)" "map_of ?ids (pd_task_temp_id d) = Some ?i" by (auto simp: child_deps_set)
      have "dep_ok (map tid (pp_tasks p)) d" using ok d(1) by (simp add: plan_ok_def list_all_iff)
      then have "pd_task_temp_id d \<in> pt_temp_id ` set (pp_tasks p)"
        using assms(2) d(1) by (auto simp: dep_ok_def dep_pair_def written_trimmed_def tid_def)
      then obtain m where m: "m < length (pp_tasks p)" "pd_task_temp_id d = pt_temp_id (pp_tasks p ! m)" by (auto simp: in_set_conv_nth)
      then have "m = k" using plan_id_map_nth [OF resolve(1) m(1), of ?base] d(2) by simp
      then show "pt_temp_id t \<in> pd_task_temp_id ` set (pp_dependencies p)" using m(2) k(2) d(1) by force
    qed
    then show ?thesis using i new [of ?i] get by (simp add: root_task_fields plan_task_fields)
  qed
  have "length (db_tasks db') = length (db_tasks db) + length (pp_tasks p)"
    by (simp add: tasks plan_tasks_def numbered_def)
  then show ?thesis
    using ok each ids n deps rec child_deps_length [OF resolve(2)] by (simp add: child_deps_set)
qed

definition plan_db :: Db where
  "plan_db = fst (create_workflow (Workflow_new 7 0 ''w'' ''o'') db_empty)"

definition cli_telemetry :: Telemetry where
  "cli_telemetry = \<lparr>tm_provider = ''scripted'', tm_model = ''m'', tm_latency_ms = 1, tm_prompt_tokens = None, tm_completion_tokens = None\<rparr>"

definition planned :: "PlanProposal \<Rightarrow> Db \<times> (PlanApplicationResult, PlannerError) result" where
  "planned p = apply_plan 5 id (PlanningContext_new 7 ''o'') p cli_telemetry plan_db"

lemma planned_facts: "is_ok (snd (planned (chain_plan 3)))" "db_deps plan_db = []"
  "length (db_tasks plan_db) = 0" "map pt_temp_id (pp_tasks (chain_plan 3)) = [''0'', ''1'', ''2'']"
  by code_simp+

lemma chain_plan_trimmed: "written_trimmed (chain_plan 3)"
  unfolding written_trimmed_def by code_simp

theorem plan_applied_witness:
  "length (db_tasks (fst (planned (chain_plan 3)))) = 3 \<and>
   (\<exists>res. snd (planned (chain_plan 3)) = Ok res \<and> pa_dependencies_created res = 2)"
proof -
  obtain db r where p: "planned (chain_plan 3) = (db, r)" by fastforce
  then obtain res where r: "r = Ok res" using planned_facts(1) by (cases r) auto
  have "length (pp_tasks (chain_plan 3)) = 3" "length (pp_dependencies (chain_plan 3)) = 2" by (simp_all add: chain_plan_def)
  moreover have "hash_order (id :: string list \<Rightarrow> string list)" "pc_parent_task_id (PlanningContext_new 7 ''o'') = None"
    by (simp_all add: hash_order_def PlanningContext_new_def)
  note plan_applied [OF this(1) chain_plan_trimmed this(2) p [unfolded planned_def r]]
  ultimately show ?thesis using planned_facts(3) p r by simp
qed

text \<open>The validator compares identifiers without surrounding white space, the applier
as they are written: a valid plan whose identifier is padded loses its dependency, and
both tasks become ready at once.\<close>

definition padded_plan :: PlanProposal where
  "padded_plan = with_dependency ''b'' ''a'' (with_task (phase ''b '' ''second'' [] [''c''] [] ''r'' 0)
     (with_task (phase ''a'' ''first'' [] [''c''] [] ''r'' 0) (PlanProposal_new ''o'' [])))"

theorem padded_dependency_dropped:
  "map_option is_valid (validate id padded_plan) = Some True \<and>
   map (\<lambda>r. (t_objective (r_task r), t_state (r_task r))) (db_tasks (fst (planned padded_plan))) =
     [(''first'', TaskState.Ready), (''second'', TaskState.Ready)] \<and>
   db_deps (fst (planned padded_plan)) = []"
  by code_simp

section \<open>Diagnosis\<close>

text \<open>The verifier's message for a missing file is not the one the diagnoser looks for.\<close>

definition missing_file_env :: VerifierEnv where
  "missing_file_env = \<lparr>ve_now = 5, ve_duration_ms = 1, ve_file = (\<lambda>_. None), ve_shell = (\<lambda>_. Ok (0, [], []))\<rparr>"

theorem missing_file_misdiagnosed:
  "rr_category (diagnose (Task_new 2 0 7 ''a'') None
     (Some (verify missing_file_env 1 ((Task_new 2 0 7 ''a'')\<lparr>t_criteria := [''file: out.txt'']\<rparr>)))) =
   ContentCriteriaUnmet ''Required file 'out.txt' does not exist in workspace''"
  by code_simp

end
