(* ===== verification/Redaction.thy ===== *)
theory Redaction
  imports Entities Text_Ops
begin

text \<open>The redaction of secrets in tool output and the secret store of plexis-tools
(redaction.rs, secrets.rs). The matching of a compiled regular expression is a parameter,
one replacement function per expression. The list of the entries of an object is their
iteration order.\<close>

section \<open>Texts\<close>

definition redact_text :: "string \<Rightarrow> string list \<Rightarrow> string" where
  "redact_text s secrets =
    (if s = [] \<or> secrets = [] then s
     else foldl (\<lambda>r secret. str_replace secret ''[REDACTED]'' r) s
            (sort_key (\<lambda>x. - int (utf8_length x)) (filter (\<lambda>x. 3 \<le> utf8_length x) secrets)))"

datatype SecretPattern = Bearer | ApiKey | GoogleKey | GhToken | AwsKey | PrivateKey

type_synonym replacer = "SecretPattern \<Rightarrow> string \<Rightarrow> string \<Rightarrow> string"

definition redact_patterns :: "replacer \<Rightarrow> string \<Rightarrow> string" where
  "redact_patterns re s =
    (if s = [] then s
     else (let s1 = re Bearer ''Bearer [REDACTED]'' s;
               s2 = re ApiKey ''[REDACTED_API_KEY]'' s1;
               s3 = re GoogleKey ''[REDACTED_API_KEY]'' s2;
               s4 = re GhToken ''[REDACTED_GH_TOKEN]'' s3;
               s5 = re AwsKey ''[REDACTED_AWS_KEY]'' s4
           in re PrivateKey ''[REDACTED_PRIVATE_KEY]'' s5))"

definition redact_all :: "replacer \<Rightarrow> string \<Rightarrow> string list \<Rightarrow> string" where
  "redact_all re s secrets = redact_patterns re (redact_text s secrets)"

section \<open>Values\<close>

definition placeholder_slot :: "string \<Rightarrow> nat \<Rightarrow> string" where
  "placeholder_slot p n =
    (if p \<noteq> [] \<and> last p = CHR '']'' then butlast p @ ''#'' @ decimal n @ '']'' else p @ ''#'' @ decimal n)"

lemma decimal_inj: "decimal m = decimal n \<Longrightarrow> m = n"
  using parse_ident_decimal by (metis option.inject)

lemma placeholder_slot_inj: "placeholder_slot p m = placeholder_slot p n \<Longrightarrow> m = n"
  by (auto simp: placeholder_slot_def dest: decimal_inj split: if_splits)

function free_slot :: "string list \<Rightarrow> string \<Rightarrow> nat \<Rightarrow> string" where
  "free_slot keys p n =
    (if placeholder_slot p n \<in> set keys then free_slot keys p (n + 1) else placeholder_slot p n)"
  by pat_completeness auto

termination
proof (relation "measure (\<lambda>(keys, p, n). card {k \<in> set keys. \<exists>m\<ge>n. k = placeholder_slot p m})")
  fix keys p n assume "placeholder_slot p n \<in> set keys"
  then have "{k \<in> set keys. \<exists>m\<ge>n + 1. k = placeholder_slot p m} \<subset> {k \<in> set keys. \<exists>m\<ge>n. k = placeholder_slot p m}"
  proof (intro psubsetI subsetI)
    show "{k \<in> set keys. \<exists>m\<ge>n + 1. k = placeholder_slot p m} \<noteq> {k \<in> set keys. \<exists>m\<ge>n. k = placeholder_slot p m}"
    proof
      assume e: "{k \<in> set keys. \<exists>m\<ge>n + 1. k = placeholder_slot p m} = {k \<in> set keys. \<exists>m\<ge>n. k = placeholder_slot p m}"
      have "placeholder_slot p n \<in> {k \<in> set keys. \<exists>m\<ge>n. k = placeholder_slot p m}"
        using \<open>placeholder_slot p n \<in> set keys\<close> by blast
      then obtain m where "m \<ge> n + 1" "placeholder_slot p n = placeholder_slot p m" unfolding e [symmetric] by blast
      then show False by (auto dest: placeholder_slot_inj)
    qed
  qed (auto intro: exI [of _ "_ :: nat"] Suc_leD)
  then show "((keys, p, n + 1), keys, p, n) \<in> measure (\<lambda>(keys, p, n). card {k \<in> set keys. \<exists>m\<ge>n. k = placeholder_slot p m})"
    by (simp add: psubset_card_mono)
qed simp

declare free_slot.simps [simp del]

definition insert_placeholder_preserving ::
  "string \<Rightarrow> json \<Rightarrow> (string \<times> json) list \<Rightarrow> (string \<times> json) list" where
  "insert_placeholder_preserving p v kvs =
    kvs @ [(if p \<in> set (map fst kvs) then free_slot (map fst kvs) p 2 else p, v)]"

text \<open>The walk both forms of the redaction share, over the function they apply to a
text.\<close>

fun redact_with :: "(string \<Rightarrow> string) \<Rightarrow> json \<Rightarrow> json"
  and redact_entries :: "(string \<Rightarrow> string) \<Rightarrow> (string \<times> json) list \<Rightarrow> (string \<times> json) list \<Rightarrow> (string \<times> json) list" where
  "redact_with f (JStr s) = JStr (f s)"
| "redact_with f (JArr xs) = JArr (map (redact_with f) xs)"
| "redact_with f (JObj kvs) = JObj (redact_entries f kvs [])"
| "redact_with f JNull = JNull"
| "redact_with f (JBool b) = JBool b"
| "redact_with f (JNum n) = JNum n"
| "redact_entries f [] acc = acc"
| "redact_entries f ((k, v) # kvs) acc =
    redact_entries f kvs (insert_placeholder_preserving (f k) (redact_with f v) acc)"

definition redact_value :: "json \<Rightarrow> string list \<Rightarrow> json" where
  "redact_value v secrets = (if secrets = [] then v else redact_with (\<lambda>s. redact_text s secrets) v)"

definition redact_value_all :: "replacer \<Rightarrow> json \<Rightarrow> string list \<Rightarrow> json" where
  "redact_value_all re v secrets = redact_with (\<lambda>s. redact_all re s secrets) v"

section \<open>The secret store\<close>

record SecretAcl =
  acl_agents :: "ident list option"
  acl_tasks :: "ident list option"
  acl_tools :: "string list option"

definition SecretAcl_new :: SecretAcl where
  "SecretAcl_new = \<lparr>acl_agents = None, acl_tasks = None, acl_tools = None\<rparr>"

definition get_or_insert :: "'a \<Rightarrow> 'a list option \<Rightarrow> 'a list option" where
  "get_or_insert x s = Some (List.insert x (case s of Some xs \<Rightarrow> xs | None \<Rightarrow> []))"

definition with_agent :: "ident \<Rightarrow> SecretAcl \<Rightarrow> SecretAcl" where
  "with_agent a acl = acl\<lparr>acl_agents := get_or_insert a (acl_agents acl)\<rparr>"

definition with_task :: "ident \<Rightarrow> SecretAcl \<Rightarrow> SecretAcl" where
  "with_task t acl = acl\<lparr>acl_tasks := get_or_insert t (acl_tasks acl)\<rparr>"

definition with_tool :: "string \<Rightarrow> SecretAcl \<Rightarrow> SecretAcl" where
  "with_tool t acl = acl\<lparr>acl_tools := get_or_insert t (acl_tools acl)\<rparr>"

definition admits :: "'a list option \<Rightarrow> 'a option \<Rightarrow> bool" where
  "admits allowed x =
    (case allowed of None \<Rightarrow> True | Some xs \<Rightarrow> (case x of Some y \<Rightarrow> y \<in> set xs | None \<Rightarrow> False))"

definition is_authorized :: "SecretAcl \<Rightarrow> ident option \<Rightarrow> ident option \<Rightarrow> string option \<Rightarrow> bool" where
  "is_authorized acl agent_id task_id tool_name =
    (admits (acl_agents acl) agent_id \<and> admits (acl_tasks acl) task_id \<and> admits (acl_tools acl) tool_name)"

record SecretEntry =
  se_name :: string
  se_value :: string
  se_acl :: SecretAcl

type_synonym SecretStore = "(string \<times> SecretEntry) list"

definition set_secret :: "string \<Rightarrow> string \<Rightarrow> SecretAcl \<Rightarrow> SecretStore \<Rightarrow> SecretStore" where
  "set_secret name v acl st = AList.update name \<lparr>se_name = name, se_value = v, se_acl = acl\<rparr> st"

definition get_secret :: "string \<Rightarrow> ident option \<Rightarrow> ident option \<Rightarrow> string option \<Rightarrow> SecretStore \<Rightarrow> string option" where
  "get_secret name agent_id task_id tool_name st =
    (case map_of st name of
       None \<Rightarrow> None
     | Some e \<Rightarrow> if is_authorized (se_acl e) agent_id task_id tool_name then Some (se_value e) else None)"

definition get_authorized_secrets ::
  "ident option \<Rightarrow> ident option \<Rightarrow> string option \<Rightarrow> SecretStore \<Rightarrow> (string \<times> string) list" where
  "get_authorized_secrets agent_id task_id tool_name st =
    map (\<lambda>(n, e). (n, se_value e)) (filter (\<lambda>(n, e). is_authorized (se_acl e) agent_id task_id tool_name) st)"

definition all_secret_values :: "SecretStore \<Rightarrow> string list" where
  "all_secret_values st = map (se_value \<circ> snd) st"

section \<open>Laws\<close>

text \<open>The texts of a value: its strings and the keys of its objects.\<close>

fun json_texts :: "json \<Rightarrow> string set" and entry_texts :: "(string \<times> json) list \<Rightarrow> string set" where
  "json_texts (JStr s) = {s}"
| "json_texts (JArr xs) = (\<Union>x \<in> set xs. json_texts x)"
| "json_texts (JObj kvs) = entry_texts kvs"
| "json_texts JNull = {}"
| "json_texts (JBool b) = {}"
| "json_texts (JNum n) = {}"
| "entry_texts [] = {}"
| "entry_texts ((k, v) # kvs) = insert k (json_texts v) \<union> entry_texts kvs"

text \<open>A secret the marker cannot spell: it has no bracket, no number sign, something other
than digits, and is no part of the word in the marker.\<close>

definition markable :: "string \<Rightarrow> bool" where
  "markable s =
    (CHR ''['' \<notin> set s \<and> CHR '']'' \<notin> set s \<and> CHR ''#'' \<notin> set s \<and> \<not> sublist s ''REDACTED'' \<and>
     (\<exists>c \<in> set s. \<not> (48 \<le> (of_char c :: nat) \<and> of_char c \<le> (57 :: nat))))"

lemma markable_marker: "markable s \<Longrightarrow> \<not> sublist s ''[REDACTED]''"
proof
  assume s: "markable s" "sublist s ''[REDACTED]''"
  then have "s \<noteq> []" "CHR ''['' \<notin> set s" "CHR '']'' \<notin> set s" "\<not> sublist s ''REDACTED''" by (auto simp: markable_def)
  then show False
    using s(2) sublist_separator [of "CHR ''[''" s "[]" "''REDACTED]''"] sublist_separator [of "CHR '']''" s "''REDACTED''" "[]"]
    by simp
qed

lemma sublist_join:
  assumes s: "markable s" and "ps \<noteq> []" "sublist s (join ''[REDACTED]'' ps)"
  shows "\<exists>p \<in> set ps. sublist s p"
  using assms(2,3)
proof (induction ps rule: list_nonempty_induct)
  case (cons p ps)
  then obtain q qs where ps: "ps = q # qs" by (cases ps) auto
  have n: "s \<noteq> []" "CHR ''['' \<notin> set s" "CHR '']'' \<notin> set s" "\<not> sublist s ''REDACTED''" using s by (auto simp: markable_def)
  have "sublist s (p @ CHR ''['' # (''REDACTED'' @ CHR '']'' # join ''[REDACTED]'' ps))"
    using cons.prems by (simp add: ps)
  then have "sublist s p \<or> sublist s (join ''[REDACTED]'' ps)"
    using sublist_separator [OF n(2), of p] sublist_separator [OF n(3), of "''REDACTED''"] n(4) by auto
  then show ?case using cons.IH by auto
qed simp_all

lemma join_pieces_nonempty: "split_on sep s \<noteq> []"
  by (subst split_on.simps) (auto split: option.splits)

lemma sublist_replace:
  assumes "markable s" "sep \<noteq> []" "sublist s (str_replace sep ''[REDACTED]'' r)"
  shows "sublist s r" "s \<noteq> sep"
proof -
  obtain p where p: "p \<in> set (split_on sep r)" "sublist s p"
    using sublist_join [OF assms(1) join_pieces_nonempty assms(3) [unfolded str_replace_def]] by blast
  then show "sublist s r" "s \<noteq> sep"
    using split_on_pieces [OF assms(2) p(1)] sublist_order.order.trans by blast+
qed

lemma fold_replace_removes:
  assumes "markable s" "\<forall>x \<in> set xs. x \<noteq> []" "sublist s (foldl (\<lambda>r x. str_replace x ''[REDACTED]'' r) t xs)"
  shows "sublist s t \<and> s \<notin> set xs"
  using assms(2,3)
proof (induction xs arbitrary: t)
  case (Cons x xs)
  then have "sublist s (str_replace x ''[REDACTED]'' t)" "s \<notin> set xs" by auto
  then show ?case using sublist_replace [OF assms(1), of x t] Cons.prems(1) by auto
qed simp

lemma redact_text_removes:
  assumes "markable s" "s \<in> set secrets" "3 \<le> utf8_length s"
  shows "\<not> sublist s (redact_text t secrets)"
proof
  assume c: "sublist s (redact_text t secrets)"
  have n: "s \<noteq> []" "secrets \<noteq> []" using assms by (auto simp: markable_def)
  show False
  proof (cases "t = []")
    case True
    then show ?thesis using c n by (simp add: redact_text_def)
  next
    case False
    let ?xs = "sort_key (\<lambda>x. - int (utf8_length x)) (filter (\<lambda>x. 3 \<le> utf8_length x) secrets)"
    have "\<forall>x \<in> set ?xs. x \<noteq> []" by (auto simp: utf8_length_def)
    from fold_replace_removes [OF assms(1) this] c False n show ?thesis
      using assms(2,3) by (auto simp: redact_text_def)
  qed
qed

lemma entry_texts_append: "entry_texts (xs @ ys) = entry_texts xs \<union> entry_texts ys"
  by (induction xs) auto

text \<open>Every text of a redacted value is a redacted text, or the slot of one.\<close>

definition redacted_text :: "(string \<Rightarrow> string) \<Rightarrow> string \<Rightarrow> bool" where
  "redacted_text f t = (\<exists>u. t = f u \<or> (\<exists>n. t = placeholder_slot (f u) n))"

lemma free_slot_form: "\<exists>m. free_slot keys p n = placeholder_slot p m"
  by (induction keys p n rule: free_slot.induct) (subst free_slot.simps, auto)

lemma free_slot_fresh: "free_slot keys p n \<notin> set keys"
  by (induction keys p n rule: free_slot.induct) (subst free_slot.simps, auto)

lemma redact_with_texts:
  "t \<in> json_texts (redact_with f v) \<Longrightarrow> redacted_text f t"
  "t \<in> entry_texts (redact_entries f kvs acc) \<Longrightarrow> t \<in> entry_texts acc \<or> redacted_text f t"
proof (induction f v and f kvs acc rule: redact_with_redact_entries.induct)
  case (8 f k v kvs acc)
  have "t \<in> entry_texts (insert_placeholder_preserving (f k) (redact_with f v) acc) \<or> redacted_text f t"
    using 8 by simp
  moreover have "redacted_text f (f k)" "redacted_text f (free_slot keys (f k) n)" for keys n
    using free_slot_form [of keys "f k" n] by (auto simp: redacted_text_def)
  ultimately show ?case
    using 8(1) by (auto simp: insert_placeholder_preserving_def entry_texts_append split: if_splits)
qed (auto simp: redacted_text_def)

lemma digits_of_decimal: "c \<in> set (decimal n) \<Longrightarrow> 48 \<le> (of_char c :: nat) \<and> of_char c \<le> (57 :: nat)"
proof (induction n rule: decimal.induct)
  case (1 n)
  then show ?case by (auto simp: decimal.simps [of n] digit_char split: if_splits)
qed

lemma sublist_slot:
  assumes s: "markable s" and "sublist s (placeholder_slot p n)"
  shows "sublist s p"
proof -
  have d: "\<not> sublist s (decimal n)" "\<not> sublist s (decimal n @ '']'')"
  proof -
    show no: "\<not> sublist s (decimal n)"
    proof
      assume "sublist s (decimal n)"
      then have "set s \<subseteq> set (decimal n)" by (auto simp: sublist_def)
      then show False using s digits_of_decimal by (fastforce simp: markable_def)
    qed
    have "s \<noteq> []" "CHR '']'' \<notin> set s" using s by (auto simp: markable_def)
    then show "\<not> sublist s (decimal n @ '']'')" using no sublist_separator [of "CHR '']''" s "decimal n" "[]"] by simp
  qed
  have h: "CHR ''#'' \<notin> set s" using s by (simp add: markable_def)
  show ?thesis
  proof (cases "p \<noteq> [] \<and> last p = CHR '']''")
    case True
    then have "sublist s (butlast p)"
      using assms(2) d sublist_separator [OF h, of "butlast p" "decimal n @ '']''"] by (auto simp: placeholder_slot_def)
    moreover have "sublist (butlast p) p" using True append_butlast_last_id [of p] by (metis sublist_append_rightI)
    ultimately show ?thesis by (rule sublist_order.order.trans)
  next
    case False
    then show ?thesis
      using assms(2) d sublist_separator [OF h, of p "decimal n"] by (auto simp: placeholder_slot_def)
  qed
qed

lemma redacted_value_clean:
  assumes "markable s" "s \<in> set secrets" "3 \<le> utf8_length s" "t \<in> json_texts (redact_value v secrets)"
  shows "\<not> str_contains s t"
proof -
  have "secrets \<noteq> []" using assms(2) by auto
  then obtain u where "t = redact_text u secrets \<or> (\<exists>n. t = placeholder_slot (redact_text u secrets) n)"
    using redact_with_texts(1) [of t "\<lambda>x. redact_text x secrets" v] assms(4) by (auto simp: redact_value_def redacted_text_def)
  then show ?thesis
    using redact_text_removes [OF assms(1-3)] sublist_slot [OF assms(1)] by (auto simp: str_contains_iff)
qed

lemma redact_entries_spec:
  "distinct (map fst acc) \<Longrightarrow>
   distinct (map fst (redact_entries f kvs acc)) \<and>
   map snd (redact_entries f kvs acc) = map snd acc @ map (\<lambda>kv. redact_with f (snd kv)) kvs"
proof (induction kvs arbitrary: acc)
  case (Cons kv kvs)
  obtain k v where kv: "kv = (k, v)" by (cases kv)
  have "distinct (map fst (insert_placeholder_preserving (f k) (redact_with f v) acc))"
    using Cons.prems free_slot_fresh [of "map fst acc" "f k" 2] by (auto simp: insert_placeholder_preserving_def)
  then show ?case using Cons.IH by (simp add: kv insert_placeholder_preserving_def)
qed simp

end
