(* ===== verification/Sandbox.thy ===== *)
theory Sandbox
  imports Workspace_Model Redaction
begin

text \<open>The sandbox of the tools of plexis-tools (sandbox.rs), the context and the output of
an invocation (traits.rs) and its errors (error.rs). The file system is a record of the
questions the code asks it; a resolved path is the list of its components.\<close>

section \<open>Policy\<close>

datatype ToolError =
    PermissionDenied string
  | NotFound string
  | ExecutionFailed string
  | Timeout time
  | ResourceExceeded string
  | InvalidArguments string

text \<open>The Debug text of a duration, given in milliseconds.\<close>

definition duration_debug :: "time \<Rightarrow> string" where
  "duration_debug d =
    (if d = 0 then ''0ns''
     else if d < 1000 then int_text d @ ''ms''
     else int_text (d div 1000) @
       (if d mod 1000 = 0 then []
        else ''.'' @ rev (dropWhile (\<lambda>c. c = CHR ''0'') (rev (tl (int_text (1000 + d mod 1000)))))) @ ''s'')"

fun tool_error_display :: "ToolError \<Rightarrow> string" where
  "tool_error_display (PermissionDenied m) = ''Tool authorization denied by sandbox policy: '' @ m"
| "tool_error_display (NotFound m) = ''Target entity or resource not found: '' @ m"
| "tool_error_display (ExecutionFailed m) = ''Tool execution failed: '' @ m"
| "tool_error_display (Timeout d) = ''Tool execution timed out after '' @ duration_debug d"
| "tool_error_display (ResourceExceeded m) = ''Tool resource limit exceeded: '' @ m"
| "tool_error_display (InvalidArguments m) = ''Invalid arguments supplied to tool: '' @ m"

datatype Capability = FileRead string | FileWrite string | ShellExec string | GitOp string

record ResourceLimits =
  max_duration :: time
  max_output_bytes :: nat
  max_file_size_bytes :: nat

definition ResourceLimits_default :: ResourceLimits where
  "ResourceLimits_default =
    \<lparr>max_duration = 30000, max_output_bytes = 5 * 1024 * 1024, max_file_size_bytes = 20 * 1024 * 1024\<rparr>"

datatype AuthorizationResult = Allowed | Denied string

definition is_allowed :: "AuthorizationResult \<Rightarrow> bool" where
  "is_allowed r = (r = Allowed)"

record SandboxPolicy =
  allowed_read_roots :: "string list"
  allowed_write_roots :: "string list"
  allowed_commands :: "string list option"
  allow_git :: bool
  sp_forbidden_patterns :: "string list"
  limits :: ResourceLimits

definition SandboxPolicy_new :: "string \<Rightarrow> SandboxPolicy" where
  "SandboxPolicy_new root =
    \<lparr>allowed_read_roots = [root], allowed_write_roots = [root], allowed_commands = None, allow_git = True,
     sp_forbidden_patterns = [''.env*'', ''*.pem'', ''*.key'', ''id_rsa*'', ''id_ed25519*'', ''*credential*'', ''*secret*''],
     limits = ResourceLimits_default\<rparr>"

definition with_read_root :: "string \<Rightarrow> SandboxPolicy \<Rightarrow> SandboxPolicy" where
  "with_read_root root p = p\<lparr>allowed_read_roots := allowed_read_roots p @ [root]\<rparr>"

definition with_write_root :: "string \<Rightarrow> SandboxPolicy \<Rightarrow> SandboxPolicy" where
  "with_write_root root p = p\<lparr>allowed_write_roots := allowed_write_roots p @ [root]\<rparr>"

definition matches_glob :: "string \<Rightarrow> string \<Rightarrow> bool" where
  "matches_glob pattern s =
    (pattern = s \<or>
     (pattern \<noteq> [] \<and> last pattern = CHR ''*'' \<and> starts_with (butlast pattern) s) \<or>
     (pattern \<noteq> [] \<and> hd pattern = CHR ''*'' \<and> ends_with (tl pattern) s) \<or>
     (pattern \<noteq> [] \<and> hd pattern = CHR ''*'' \<and> last pattern = CHR ''*'' \<and> 2 < utf8_length pattern \<and>
      str_contains (butlast (tl pattern)) s))"

definition is_forbidden :: "string \<Rightarrow> string list \<Rightarrow> bool" where
  "is_forbidden path patterns =
    list_ex (\<lambda>c. case c of Normal s \<Rightarrow> list_ex (\<lambda>p. matches_glob p s) patterns | _ \<Rightarrow> False) (path_components path)"

text \<open>The normaliser keeps a root component and lets a parent component remove any other
one before it.\<close>

fun normalize_step :: "path_component list \<Rightarrow> path_component \<Rightarrow> path_component list" where
  "normalize_step acc ParentDir = (if 1 < length acc \<or> (acc \<noteq> [] \<and> hd acc \<noteq> RootDir) then butlast acc else acc)"
| "normalize_step acc CurDir = acc"
| "normalize_step acc RootDir = acc @ [RootDir]"
| "normalize_step acc (Normal s) = acc @ [Normal s]"

definition normalize_path :: "string \<Rightarrow> path_component list" where
  "normalize_path path =
    (let cs = foldl normalize_step [] (path_components path) in if cs = [] then [CurDir] else cs)"

definition is_contained_in_any :: "string \<Rightarrow> string list \<Rightarrow> bool" where
  "is_contained_in_any target roots = list_ex (\<lambda>root. prefix (normalize_path root) (normalize_path target)) roots"

definition authorize_path :: "string \<Rightarrow> string \<Rightarrow> string list \<Rightarrow> SandboxPolicy \<Rightarrow> AuthorizationResult" where
  "authorize_path verb path roots p =
    (if is_forbidden path (sp_forbidden_patterns p)
     then Denied (verb @ '' access denied: path '' @ single_quoted path @ '' matches forbidden sensitive pattern'')
     else if is_contained_in_any path roots then Allowed
     else Denied (verb @ '' access denied: path '' @ single_quoted path @ '' escapes allowed '' @ str_to_lowercase verb @ '' roots''))"

definition authorize_shell :: "string \<Rightarrow> SandboxPolicy \<Rightarrow> AuthorizationResult" where
  "authorize_shell cmd p =
    (case List.find (\<lambda>pat. trim_matches CHR ''*'' pat \<noteq> [] \<and> str_contains (trim_matches CHR ''*'' pat) cmd)
            (sp_forbidden_patterns p) of
       Some pat \<Rightarrow> Denied (''Command execution denied: command references forbidden pattern '' @ single_quoted pat)
     | None \<Rightarrow>
         (case allowed_commands p of
            None \<Rightarrow> Allowed
          | Some whitelist \<Rightarrow>
              (let name = (case split_whitespace cmd of [] \<Rightarrow> [] | w # ws \<Rightarrow> w) in
               if name \<in> set whitelist then Allowed
               else Denied (''Command '' @ single_quoted name @ '' is not in the allowed command whitelist''))))"

fun authorize :: "SandboxPolicy \<Rightarrow> Capability \<Rightarrow> AuthorizationResult" where
  "authorize p (FileRead path) = authorize_path ''Read'' path (allowed_read_roots p) p"
| "authorize p (FileWrite path) = authorize_path ''Write'' path (allowed_write_roots p) p"
| "authorize p (ShellExec cmd) = authorize_shell cmd p"
| "authorize p (GitOp op) =
    (if allow_git p then Allowed else Denied ''Git operations are disallowed by sandbox policy'')"

section \<open>Resolution of a path\<close>

type_synonym fs_path = "path_component list"

record PathEnv =
  pe_exists :: "fs_path \<Rightarrow> bool"
  pe_canonicalize :: "fs_path \<Rightarrow> fs_path option"

record Sandbox =
  root_directory :: string
  policy :: SandboxPolicy

definition Sandbox_new :: "string \<Rightarrow> Sandbox" where
  "Sandbox_new root = \<lparr>root_directory = root, policy = SandboxPolicy_new root\<rparr>"

fun component_text :: "path_component \<Rightarrow> string" where
  "component_text RootDir = ''/''"
| "component_text CurDir = ''.''"
| "component_text ParentDir = ''..''"
| "component_text (Normal s) = s"

definition path_text :: "fs_path \<Rightarrow> string" where
  "path_text cs =
    (case cs of RootDir # r \<Rightarrow> ''/'' @ join ''/'' (map component_text r) | _ \<Rightarrow> join ''/'' (map component_text cs))"

definition path_parent :: "fs_path \<Rightarrow> fs_path option" where
  "path_parent cs = (if cs = [] \<or> last cs = RootDir then None else Some (butlast cs))"

function existing_ancestor :: "(fs_path \<Rightarrow> bool) \<Rightarrow> fs_path \<Rightarrow> fs_path option" where
  "existing_ancestor ex cs =
    (case path_parent cs of None \<Rightarrow> None | Some p \<Rightarrow> if ex p then Some p else existing_ancestor ex p)"
  by pat_completeness auto

termination
  by (relation "measure (\<lambda>(ex, cs). length cs)") (auto simp: path_parent_def split: if_splits)

declare existing_ancestor.simps [simp del]

definition symlink_escape :: "string \<Rightarrow> string \<Rightarrow> fs_path \<Rightarrow> fs_path \<Rightarrow> ToolError" where
  "symlink_escape what requested canon root =
    PermissionDenied (what @ '' traversal escape detected: '' @ single_quoted requested @
      (if what = ''Symlink'' then '' resolves to '' else '' parent resolves to '') @ single_quoted (path_text canon) @
      '' outside sandbox root '' @ single_quoted (path_text root))"

definition check_canonical ::
  "PathEnv \<Rightarrow> string \<Rightarrow> string \<Rightarrow> fs_path \<Rightarrow> fs_path \<Rightarrow> (unit, ToolError) result" where
  "check_canonical env what requested root p =
    (case pe_canonicalize env p of
       Some c \<Rightarrow> if prefix root c then Ok () else Err (symlink_escape what requested c root)
     | None \<Rightarrow> Ok ())"

definition resolve_safe_path :: "PathEnv \<Rightarrow> Sandbox \<Rightarrow> string \<Rightarrow> bool \<Rightarrow> (fs_path, ToolError) result" where
  "resolve_safe_path env sb requested for_write =
    (let absolute = (if path_is_absolute requested then requested else path_join (root_directory sb) requested) in
     case authorize (policy sb) (if for_write then FileWrite absolute else FileRead absolute) of
       Denied why \<Rightarrow> Err (PermissionDenied why)
     | Allowed \<Rightarrow>
         (let p = normalize_path absolute in
          and_then
            (case pe_canonicalize env (path_components (root_directory sb)) of
               None \<Rightarrow> Ok ()
             | Some root \<Rightarrow>
                 if pe_exists env p then check_canonical env ''Symlink'' requested root p
                 else (case existing_ancestor (pe_exists env) p of
                         None \<Rightarrow> Ok ()
                       | Some a \<Rightarrow> check_canonical env ''Symlink parent'' requested root a))
            (\<lambda>_. Ok p)))"

section \<open>Invocations\<close>

record ToolOutput =
  to_data :: json
  to_stdout :: "string option"
  to_stderr :: "string option"
  to_exit_code :: "int option"

definition ToolOutput_success :: "json \<Rightarrow> ToolOutput" where
  "ToolOutput_success d = \<lparr>to_data = d, to_stdout = None, to_stderr = None, to_exit_code = Some 0\<rparr>"

definition ToolOutput_text :: "string \<Rightarrow> ToolOutput" where
  "ToolOutput_text s =
    \<lparr>to_data = JObj [(''result'', JStr s)], to_stdout = Some s, to_stderr = None, to_exit_code = Some 0\<rparr>"

definition ToolOutput_process :: "string \<Rightarrow> string \<Rightarrow> int \<Rightarrow> ToolOutput" where
  "ToolOutput_process out err code =
    \<lparr>to_data = JObj [(''stdout'', JStr out), (''stderr'', JStr err), (''exit_code'', JNum code)],
     to_stdout = Some out, to_stderr = Some err, to_exit_code = Some code\<rparr>"

text \<open>The execution backend of a context is part of the environment of the tools.\<close>

record ToolContext =
  tc_agent_id :: ident
  tc_execution_id :: ident
  tc_task_id :: ident
  tc_arguments :: json
  tc_sandbox :: Sandbox
  tc_working_directory :: string
  tc_workspace_path :: "string option"
  tc_secret_store :: "SecretStore option"

definition ToolContext_new :: "ident \<Rightarrow> ident \<Rightarrow> ident \<Rightarrow> json \<Rightarrow> Sandbox \<Rightarrow> string \<Rightarrow> ToolContext" where
  "ToolContext_new agent_id execution_id task_id arguments sandbox working_directory =
    \<lparr>tc_agent_id = agent_id, tc_execution_id = execution_id, tc_task_id = task_id, tc_arguments = arguments,
     tc_sandbox = sandbox, tc_working_directory = working_directory, tc_workspace_path = None, tc_secret_store = None\<rparr>"

definition canonical_or_self :: "PathEnv \<Rightarrow> string \<Rightarrow> fs_path" where
  "canonical_or_self env s =
    (case pe_canonicalize env (path_components s) of Some c \<Rightarrow> c | None \<Rightarrow> path_components s)"

definition validate_confinement :: "PathEnv \<Rightarrow> ToolContext \<Rightarrow> (unit, ToolError) result" where
  "validate_confinement env ctx =
    (case tc_workspace_path ctx of
       None \<Rightarrow> Ok ()
     | Some w \<Rightarrow>
         if prefix (canonical_or_self env w) (canonical_or_self env (tc_working_directory ctx)) then Ok ()
         else Err (PermissionDenied (''Tool execution rejected: working directory '' @ single_quoted (tc_working_directory ctx) @
                '' escapes authorized workspace root '' @ single_quoted w)))"

section \<open>Laws\<close>

lemma normalize_step_keeps:
  "ParentDir \<notin> set acc \<Longrightarrow> ParentDir \<notin> set (normalize_step acc c)"
  by (cases c) (auto dest: in_set_butlastD)

lemma normalize_no_parent: "ParentDir \<notin> set (normalize_path path)"
proof -
  have "ParentDir \<notin> set acc \<Longrightarrow> ParentDir \<notin> set (foldl normalize_step acc cs)" for acc cs
    by (induction cs arbitrary: acc) (simp_all add: normalize_step_keeps)
  then show ?thesis by (simp add: normalize_path_def Let_def)
qed

lemma authorize_path_Allowed:
  "authorize_path verb path roots p = Allowed \<longleftrightarrow>
     \<not> is_forbidden path (sp_forbidden_patterns p) \<and> is_contained_in_any path roots"
  by (simp add: authorize_path_def)

lemma check_canonical_Ok:
  "check_canonical env what requested root p = Ok u \<longleftrightarrow> (\<forall>c. pe_canonicalize env p = Some c \<longrightarrow> prefix root c)"
  by (auto simp: check_canonical_def split: option.splits)

lemma resolve_safe_path_Ok:
  assumes "resolve_safe_path env sb requested for_write = Ok p"
  defines "absolute \<equiv> if path_is_absolute requested then requested else path_join (root_directory sb) requested"
  shows "p = normalize_path absolute" "\<not> is_forbidden absolute (sp_forbidden_patterns (policy sb))"
    "\<exists>root \<in> set (if for_write then allowed_write_roots (policy sb) else allowed_read_roots (policy sb)).
       prefix (normalize_path root) p"
    "pe_canonicalize env (path_components (root_directory sb)) = Some root \<Longrightarrow> pe_exists env p \<Longrightarrow>
       pe_canonicalize env p = Some c \<Longrightarrow> prefix root c"
    "pe_canonicalize env (path_components (root_directory sb)) = Some root \<Longrightarrow> \<not> pe_exists env p \<Longrightarrow>
       existing_ancestor (pe_exists env) p = Some a \<Longrightarrow> pe_canonicalize env a = Some c \<Longrightarrow> prefix root c"
proof -
  have a: "authorize (policy sb) (if for_write then FileWrite absolute else FileRead absolute) = Allowed"
    and p: "p = normalize_path absolute"
    and c: "(case pe_canonicalize env (path_components (root_directory sb)) of
               None \<Rightarrow> Ok ()
             | Some root \<Rightarrow>
                 if pe_exists env p then check_canonical env ''Symlink'' requested root p
                 else (case existing_ancestor (pe_exists env) p of
                         None \<Rightarrow> Ok ()
                       | Some a \<Rightarrow> check_canonical env ''Symlink parent'' requested root a)) = Ok ()"
    using assms(1) unfolding absolute_def [symmetric] resolve_safe_path_def Let_def
    by (auto split: AuthorizationResult.splits)
  show "p = normalize_path absolute" by (rule p)
  show "\<not> is_forbidden absolute (sp_forbidden_patterns (policy sb))"
    using a by (cases for_write) (auto simp: authorize_path_Allowed)
  show "\<exists>root \<in> set (if for_write then allowed_write_roots (policy sb) else allowed_read_roots (policy sb)).
       prefix (normalize_path root) p"
    using a by (cases for_write) (auto simp: authorize_path_Allowed is_contained_in_any_def list_ex_iff p)
  show "pe_canonicalize env (path_components (root_directory sb)) = Some root \<Longrightarrow> pe_exists env p \<Longrightarrow>
       pe_canonicalize env p = Some c \<Longrightarrow> prefix root c"
    using c by (auto simp: check_canonical_Ok)
  show "pe_canonicalize env (path_components (root_directory sb)) = Some root \<Longrightarrow> \<not> pe_exists env p \<Longrightarrow>
       existing_ancestor (pe_exists env) p = Some a \<Longrightarrow> pe_canonicalize env a = Some c \<Longrightarrow> prefix root c"
    using c by (auto simp: check_canonical_Ok)
qed

end
