(* ===== verification/Tools.thy ===== *)
theory Tools
  imports Sandbox
begin

text \<open>The built-in tools of plexis-tools (builtin/filesystem.rs, shell.rs, git.rs), the
execution backends (backend.rs) and the registry (registry.rs). The file system and the
processes are an environment of answers; a tool returns what it reads, changes and runs,
in order, with its result. Arguments are read from an object; a positional array
of arguments is not represented.\<close>

section \<open>The environment\<close>

record CommandSpec =
  cs_command :: string
  cs_working_dir :: string
  cs_env_vars :: "(string \<times> string) list"
  cs_timeout :: time
  cs_max_output_bytes :: nat

definition CommandSpec_new :: "string \<Rightarrow> string \<Rightarrow> CommandSpec" where
  "CommandSpec_new command dir =
    \<lparr>cs_command = command, cs_working_dir = dir, cs_env_vars = [], cs_timeout = 30000,
     cs_max_output_bytes = 5 * 1024 * 1024\<rparr>"

definition with_env :: "string \<Rightarrow> string \<Rightarrow> CommandSpec \<Rightarrow> CommandSpec" where
  "with_env k v s = s\<lparr>cs_env_vars := AList.update k v (cs_env_vars s)\<rparr>"

record CommandResult =
  cres_stdout :: string
  cres_stderr :: string
  cres_exit_code :: int

text \<open>What a spawned process answers: its exit code, when it has one, and its output; the
error when it cannot be spawned; or that it outlived its time.\<close>

datatype process_answer = Finished "int option" string string | SpawnError string | OutOfTime

record ToolEnv = PathEnv +
  te_file_len :: "fs_path \<Rightarrow> (nat, string) result"
  te_read :: "fs_path \<Rightarrow> (string, string) result"
  te_create_dir_all :: "fs_path \<Rightarrow> (unit, string) result"
  te_write :: "fs_path \<Rightarrow> (unit, string) result"
  te_read_dir :: "fs_path \<Rightarrow> ((string \<times> bool \<times> nat, string) result list, string) result"
  te_git :: "string list \<Rightarrow> string \<Rightarrow> (bool \<times> int option \<times> string \<times> string, string) result"
  te_var :: "string \<Rightarrow> string option"
  te_spawn :: "string list \<Rightarrow> string \<Rightarrow> (string \<times> string) list option \<Rightarrow> time \<Rightarrow> process_answer"
  te_backend :: "(CommandSpec \<Rightarrow> (CommandResult, ToolError) result) option"

datatype tool_effect =
    ReadFile fs_path
  | ListDir fs_path
  | CreateDirAll fs_path
  | WriteFile fs_path string
  | RunGit "string list"
  | RunCommand CommandSpec

type_synonym 'a traced = "tool_effect list \<times> ('a, ToolError) result"

type_synonym tool_result = "ToolOutput traced"

text \<open>The question mark operator on traced results.\<close>

fun and_run :: "'a traced \<Rightarrow> ('a \<Rightarrow> 'b traced) \<Rightarrow> 'b traced" where
  "and_run (es, Err e) f = (es, Err e)"
| "and_run (es, Ok a) f = (es @ fst (f a), snd (f a))"

definition quiet :: "('a, ToolError) result \<Rightarrow> 'a traced" where
  "quiet r = ([], r)"

section \<open>Arguments\<close>

definition arg_str :: "string \<Rightarrow> json \<Rightarrow> (string option, string) result" where
  "arg_str k j =
    (case json_get k j of
       None \<Rightarrow> Ok None | Some JNull \<Rightarrow> Ok None | Some (JStr s) \<Rightarrow> Ok (Some s)
     | Some _ \<Rightarrow> Err ''invalid type, expected a string'')"

definition arg_bool :: "string \<Rightarrow> json \<Rightarrow> (bool option, string) result" where
  "arg_bool k j =
    (case json_get k j of
       None \<Rightarrow> Ok None | Some JNull \<Rightarrow> Ok None | Some (JBool b) \<Rightarrow> Ok (Some b)
     | Some _ \<Rightarrow> Err ''invalid type, expected a boolean'')"

definition arg_usize :: "string \<Rightarrow> json \<Rightarrow> (nat option, string) result" where
  "arg_usize k j =
    (case json_get k j of
       None \<Rightarrow> Ok None | Some JNull \<Rightarrow> Ok None
     | Some (JNum n) \<Rightarrow> if 0 \<le> n \<and> n < 2 ^ 64 then Ok (Some (nat n)) else Err ''invalid value, expected usize''
     | Some _ \<Rightarrow> Err ''invalid type, expected usize'')"

definition arg_strs :: "string \<Rightarrow> json \<Rightarrow> (string list option, string) result" where
  "arg_strs k j =
    (case json_get k j of
       None \<Rightarrow> Ok None | Some JNull \<Rightarrow> Ok None
     | Some v \<Rightarrow> (case json_strings v of Some ss \<Rightarrow> Ok (Some ss) | None \<Rightarrow> Err ''invalid type, expected a sequence of strings''))"

definition arg_required :: "string \<Rightarrow> json \<Rightarrow> (string, string) result" where
  "arg_required k j =
    (case json_get k j of
       None \<Rightarrow> Err (''missing field '' @ k) | Some (JStr s) \<Rightarrow> Ok s
     | Some _ \<Rightarrow> Err ''invalid type, expected a string'')"

definition is_jobject :: "json \<Rightarrow> bool" where
  "is_jobject j = (case j of JObj kvs \<Rightarrow> True | _ \<Rightarrow> False)"

record FsArguments =
  fa_action :: string
  fa_path :: "string option"
  fa_paths :: "string list option"
  fa_content :: "string option"
  fa_start_line :: "nat option"
  fa_end_line :: "nat option"
  fa_numbered :: "bool option"
  fa_overwrite :: "bool option"
  fa_search :: "string option"
  fa_replace :: "string option"
  fa_patch :: "string option"

definition parse_fs :: "json \<Rightarrow> (FsArguments, string) result" where
  "parse_fs j =
    (if \<not> is_jobject j then Err ''invalid type, expected struct FsArguments''
     else and_then (arg_required ''action'' j) (\<lambda>action.
      and_then (arg_str ''path'' j) (\<lambda>path. and_then (arg_strs ''paths'' j) (\<lambda>paths.
      and_then (arg_str ''content'' j) (\<lambda>content. and_then (arg_usize ''start_line'' j) (\<lambda>start.
      and_then (arg_usize ''end_line'' j) (\<lambda>stop. and_then (arg_bool ''numbered'' j) (\<lambda>numbered.
      and_then (arg_bool ''overwrite'' j) (\<lambda>overwrite. and_then (arg_str ''search'' j) (\<lambda>search.
      and_then (arg_str ''replace'' j) (\<lambda>replacement. and_then (arg_str ''patch'' j) (\<lambda>patch.
        Ok \<lparr>fa_action = action, fa_path = path, fa_paths = paths, fa_content = content, fa_start_line = start,
            fa_end_line = stop, fa_numbered = numbered, fa_overwrite = overwrite, fa_search = search,
            fa_replace = replacement, fa_patch = patch\<rparr>))))))))))))"

section \<open>Patches\<close>

text \<open>The lines of a text, without their line ends; a last line end begins no line.\<close>

definition strip_cr :: "string \<Rightarrow> string" where
  "strip_cr s = (if s \<noteq> [] \<and> last s = CHR 0x0D then butlast s else s)"

definition str_lines :: "string \<Rightarrow> string list" where
  "str_lines s =
    (let ps = split_on [CHR 0x0A] s
     in map strip_cr (butlast ps) @ (if last ps = [] then [] else [last ps]))"

definition find_sub :: "string \<Rightarrow> string \<Rightarrow> nat option" where
  "find_sub p s = List.find (\<lambda>n. prefix p (drop n s)) [0..<length s + 1]"

definition split_once :: "string \<Rightarrow> string \<Rightarrow> (string \<times> string) option" where
  "split_once p s = map_option (\<lambda>n. (take n s, drop (n + length p) s)) (find_sub p s)"

definition replace_first :: "string \<Rightarrow> string \<Rightarrow> string \<Rightarrow> string" where
  "replace_first p r s = (case find_sub p s of None \<Rightarrow> s | Some n \<Rightarrow> take n s @ r @ drop (n + length p) s)"

fun apply_blocks :: "string \<Rightarrow> string list \<Rightarrow> (string, ToolError) result" where
  "apply_blocks r [] = Ok r"
| "apply_blocks r (part # parts) =
    (case split_once ''======='' part of
       None \<Rightarrow> apply_blocks r parts
     | Some (search_part, rest) \<Rightarrow>
         (case split_once ''>>>>>>>'' rest of
            None \<Rightarrow> apply_blocks r parts
          | Some (replace_part, _) \<Rightarrow>
              (let search = trim_matches CHR 0x0A search_part; replacement = trim_matches CHR 0x0A replace_part in
               if \<not> str_contains search r
               then Err (ExecutionFailed (''Patch search block not found in file: '' @ single_quoted search))
               else apply_blocks (replace_first search replacement r) parts)))"

definition stripped_lines :: "char \<Rightarrow> string list \<Rightarrow> string list" where
  "stripped_lines c ls = map tl (filter (\<lambda>l. l \<noteq> [] \<and> hd l = c) ls)"

definition apply_hunk :: "string list \<Rightarrow> string \<Rightarrow> string list" where
  "apply_hunk ls hunk =
    (let removes = stripped_lines CHR ''-'' (str_lines hunk);
         adds = stripped_lines CHR ''+'' (str_lines hunk);
         full = join newline ls
     in if removes \<noteq> [] \<and> str_contains (join newline removes) full
        then str_lines (replace_first (join newline removes) (join newline adds) full)
        else ls)"

definition apply_patch_content ::
  "string \<Rightarrow> string option \<Rightarrow> string option \<Rightarrow> string option \<Rightarrow> (string, ToolError) result" where
  "apply_patch_content original patch search_opt replace_opt =
    (case search_opt of
       Some search \<Rightarrow>
         if \<not> str_contains search original
         then Err (ExecutionFailed (''Patch target search block not found in file: '' @ single_quoted search))
         else Ok (replace_first search (case replace_opt of Some r \<Rightarrow> r | None \<Rightarrow> []) original)
     | None \<Rightarrow>
         (case patch of
            None \<Rightarrow> Err (InvalidArguments
              (''Either '' @ single_quoted ''search'' @ ''/'' @ single_quoted ''replace'' @ '' or '' @ single_quoted ''patch'' @
               ''/'' @ single_quoted ''content'' @ '' must be provided for patch action''))
          | Some p \<Rightarrow>
              if str_contains ''<<<<<<< SEARCH'' p \<and> str_contains ''======='' p \<and> str_contains ''>>>>>>>'' p
              then apply_blocks original (tl (split_on ''<<<<<<< SEARCH'' p))
              else if str_contains ''@@'' p
              then Ok (join newline
                (foldl apply_hunk (str_lines original) (filter (\<lambda>h. str_trim h \<noteq> []) (split_on ''@@'' p))))
              else Err (InvalidArguments
                ''Patch format not recognized. Use search/replace blocks or unified diff hunks.'')))"

section \<open>The filesystem tool\<close>

definition file_output :: "json \<Rightarrow> string \<Rightarrow> ToolOutput" where
  "file_output d s = \<lparr>to_data = d, to_stdout = Some s, to_stderr = None, to_exit_code = Some 0\<rparr>"

definition required_path :: "string \<Rightarrow> string option \<Rightarrow> (string, ToolError) result" where
  "required_path action p =
    ok_or (InvalidArguments (single_quoted ''path'' @ '' is required for '' @ single_quoted action)) p"

definition failed :: "string \<Rightarrow> string \<Rightarrow> ToolError" where
  "failed what e = ExecutionFailed (what @ '': '' @ e)"

definition pad4 :: "string \<Rightarrow> string" where
  "pad4 s = replicate (4 - length s) CHR '' '' @ s"

definition sliced_lines :: "nat \<Rightarrow> nat \<Rightarrow> string list \<Rightarrow> string list" where
  "sliced_lines start stop ls = (if start < length ls \<and> start \<le> stop then take (stop - start) (drop start ls) else [])"

definition read_output :: "FsArguments \<Rightarrow> string \<Rightarrow> string \<Rightarrow> ToolOutput" where
  "read_output a req content =
    (if fa_start_line a \<noteq> None \<or> fa_end_line a \<noteq> None \<or> fa_numbered a = Some True
     then (let ls = str_lines content;
               total = length ls;
               start = (case fa_start_line a of Some n \<Rightarrow> n | None \<Rightarrow> 1) - 1;
               stop = min (case fa_end_line a of Some n \<Rightarrow> n | None \<Rightarrow> total) total;
               sliced = sliced_lines start stop ls;
               formatted = (if fa_numbered a = Some True \<or> fa_start_line a \<noteq> None
                            then map (\<lambda>(i, l). pad4 (decimal (start + i + 1)) @ '': '' @ l) (enumerate 0 sliced)
                            else sliced);
               s = join newline formatted
           in file_output (JObj [(''path'', JStr req), (''content'', JStr s), (''start_line'', JNum (int start + 1)),
                (''end_line'', JNum (int stop)), (''total_lines'', JNum (int total))]) s)
     else file_output (JObj [(''path'', JStr req), (''content'', JStr content)]) content)"

definition read_at :: "ToolEnv \<Rightarrow> string \<Rightarrow> fs_path \<Rightarrow> string traced" where
  "read_at env what p = ([ReadFile p], map_err (failed what) (te_read env p))"

definition within_size :: "ToolEnv \<Rightarrow> Sandbox \<Rightarrow> fs_path \<Rightarrow> (unit, ToolError) result" where
  "within_size env sb p =
    and_then (map_err (failed ''Failed to read metadata'') (te_file_len env p)) (\<lambda>n.
      if max_file_size_bytes (limits (policy sb)) < n
      then Err (ResourceExceeded (''File size '' @ decimal n @ '' exceeds limit of '' @
             decimal (max_file_size_bytes (limits (policy sb))) @ '' bytes''))
      else Ok ())"

definition existing_file :: "ToolEnv \<Rightarrow> string \<Rightarrow> fs_path \<Rightarrow> (unit, ToolError) result" where
  "existing_file env why p = (if pe_exists env p then Ok () else Err (NotFound why))"

definition read_file :: "ToolEnv \<Rightarrow> Sandbox \<Rightarrow> FsArguments \<Rightarrow> tool_result" where
  "read_file env sb a =
    and_run (quiet (required_path ''read_file'' (fa_path a))) (\<lambda>req.
    and_run (quiet (resolve_safe_path (PathEnv.truncate env) sb req False)) (\<lambda>p.
    and_run (quiet (existing_file env (''File '' @ single_quoted req @ '' not found'') p)) (\<lambda>_.
    and_run (quiet (within_size env sb p)) (\<lambda>_.
    and_run (read_at env ''Failed to read file'' p) (\<lambda>content.
      quiet (Ok (read_output a req content)))))))"

fun read_each :: "ToolEnv \<Rightarrow> Sandbox \<Rightarrow> string list \<Rightarrow> json \<Rightarrow> string list \<Rightarrow> (json \<times> string list) traced" where
  "read_each env sb [] results out = quiet (Ok (results, out))"
| "read_each env sb (p # ps) results out =
    and_run (quiet (resolve_safe_path (PathEnv.truncate env) sb p False)) (\<lambda>safe.
      if \<not> pe_exists env safe
      then read_each env sb ps (json_insert p (JObj [(''error'', JStr ''not found'')]) results)
             (out @ [''--- '' @ p @ '' (NOT FOUND) ---''])
      else and_run (read_at env (''Failed to read file '' @ single_quoted p) safe) (\<lambda>content.
        read_each env sb ps (json_insert p (JObj [(''content'', JStr content)]) results)
          (out @ [''--- '' @ p @ '' ---'' @ newline @ content])))"

definition read_multiple_files :: "ToolEnv \<Rightarrow> Sandbox \<Rightarrow> FsArguments \<Rightarrow> tool_result" where
  "read_multiple_files env sb a =
    and_run (quiet (ok_or
        (InvalidArguments (single_quoted ''paths'' @ '' array is required for '' @ single_quoted ''read_multiple_files''))
        (case fa_paths a of Some ps \<Rightarrow> Some ps | None \<Rightarrow> map_option (\<lambda>p. [p]) (fa_path a))))
      (\<lambda>ps. and_run (read_each env sb ps (JObj []) []) (\<lambda>(results, out).
        quiet (Ok (file_output (JObj [(''files'', results), (''count'', JNum (int (length ps)))]) (join newline out)))))"

definition write_at :: "ToolEnv \<Rightarrow> string \<Rightarrow> fs_path \<Rightarrow> string \<Rightarrow> unit traced" where
  "write_at env what p content = ([WriteFile p content], map_err (failed what) (te_write env p))"

definition apply_patch :: "ToolEnv \<Rightarrow> Sandbox \<Rightarrow> FsArguments \<Rightarrow> tool_result" where
  "apply_patch env sb a =
    and_run (quiet (required_path ''apply_patch'' (fa_path a))) (\<lambda>req.
    and_run (quiet (resolve_safe_path (PathEnv.truncate env) sb req True)) (\<lambda>p.
    and_run (quiet (existing_file env (''File '' @ single_quoted req @ '' not found to patch'') p)) (\<lambda>_.
    and_run (read_at env (''Failed to read target file '' @ single_quoted req) p) (\<lambda>original.
    and_run (quiet (apply_patch_content original (case fa_patch a of Some x \<Rightarrow> Some x | None \<Rightarrow> fa_content a)
               (fa_search a) (fa_replace a))) (\<lambda>patched.
    and_run (write_at env ''Failed to write patched file'' p patched) (\<lambda>_.
      quiet (Ok (file_output
        (JObj [(''path'', JStr req), (''status'', JStr ''patched''), (''bytes'', JNum (int (utf8_length patched)))])
        (''Successfully patched '' @ single_quoted req @ '' ('' @ decimal (utf8_length patched) @ '' bytes)'')))))))))"

definition within_limit :: "Sandbox \<Rightarrow> string \<Rightarrow> (unit, ToolError) result" where
  "within_limit sb content =
    (if max_file_size_bytes (limits (policy sb)) < utf8_length content
     then Err (ResourceExceeded (''Content size '' @ decimal (utf8_length content) @ '' exceeds limit of '' @
            decimal (max_file_size_bytes (limits (policy sb))) @ '' bytes''))
     else Ok ())"

definition not_overwritten :: "ToolEnv \<Rightarrow> FsArguments \<Rightarrow> string \<Rightarrow> fs_path \<Rightarrow> (unit, ToolError) result" where
  "not_overwritten env a req p =
    (if fa_overwrite a = Some False \<and> pe_exists env p
     then Err (ExecutionFailed (''File '' @ single_quoted req @ '' already exists and overwrite is false''))
     else Ok ())"

definition make_parent :: "ToolEnv \<Rightarrow> fs_path \<Rightarrow> unit traced" where
  "make_parent env p =
    (case path_parent p of
       None \<Rightarrow> quiet (Ok ())
     | Some d \<Rightarrow> ([CreateDirAll d], map_err (failed ''Failed to create parent directory'') (te_create_dir_all env d)))"

definition write_file :: "ToolEnv \<Rightarrow> Sandbox \<Rightarrow> FsArguments \<Rightarrow> tool_result" where
  "write_file env sb a =
    and_run (quiet (required_path ''write_file'' (fa_path a))) (\<lambda>req.
    and_run (quiet (ok_or (InvalidArguments (single_quoted ''content'' @ '' is required for '' @ single_quoted ''write_file''))
         (fa_content a))) (\<lambda>content.
    and_run (quiet (within_limit sb content)) (\<lambda>_.
    and_run (quiet (resolve_safe_path (PathEnv.truncate env) sb req True)) (\<lambda>p.
    and_run (quiet (not_overwritten env a req p)) (\<lambda>_.
    and_run (make_parent env p) (\<lambda>_.
    and_run (write_at env ''Failed to write file'' p content) (\<lambda>_.
      quiet (Ok (file_output
        (JObj [(''path'', JStr req), (''bytes_written'', JNum (int (utf8_length content))), (''status'', JStr ''written'')])
        (''Successfully wrote '' @ decimal (utf8_length content) @ '' bytes to '' @ req))))))))))"

fun collect_entries :: "(string \<times> bool \<times> nat, string) result list \<Rightarrow> (json list, string) result" where
  "collect_entries [] = Ok []"
| "collect_entries (Err e # es) = Err e"
| "collect_entries (Ok (name, is_dir, bytes) # es) =
    and_then (collect_entries es) (\<lambda>js.
      Ok (JObj [(''name'', JStr name), (''is_dir'', JBool is_dir), (''size_bytes'', JNum (int bytes))] # js))"

definition list_dir :: "ToolEnv \<Rightarrow> Sandbox \<Rightarrow> FsArguments \<Rightarrow> tool_result" where
  "list_dir env sb a =
    (let req = (case fa_path a of Some p \<Rightarrow> p | None \<Rightarrow> ''.'') in
     and_run (quiet (resolve_safe_path (PathEnv.truncate env) sb req False)) (\<lambda>p.
     and_run (quiet (existing_file env (''Directory '' @ single_quoted req @ '' not found'') p)) (\<lambda>_.
     and_run ([ListDir p], map_err (failed ''Failed to list directory'') (te_read_dir env p)) (\<lambda>es.
     and_run (quiet (map_err ExecutionFailed (collect_entries es))) (\<lambda>js.
       quiet (Ok (file_output (JObj [(''path'', JStr req), (''entries'', JArr js)])
                   (''Found '' @ decimal (length js) @ '' entries''))))))))"

definition file_exists :: "ToolEnv \<Rightarrow> Sandbox \<Rightarrow> FsArguments \<Rightarrow> tool_result" where
  "file_exists env sb a =
    and_run (quiet (required_path ''file_exists'' (fa_path a))) (\<lambda>req.
    and_run (quiet (resolve_safe_path (PathEnv.truncate env) sb req False)) (\<lambda>p.
      quiet (Ok (file_output (JObj [(''path'', JStr req), (''exists'', JBool (pe_exists env p))])
        (if pe_exists env p then ''true'' else ''false'')))))"

definition filesystem_tool :: "ToolEnv \<Rightarrow> ToolContext \<Rightarrow> tool_result" where
  "filesystem_tool env ctx =
    (let sb = tc_sandbox ctx in
     and_run (quiet (and_then (validate_confinement (PathEnv.truncate env) ctx) (\<lambda>_.
       map_err (\<lambda>e. InvalidArguments (''Failed to parse filesystem args: '' @ e)) (parse_fs (tc_arguments ctx))))) (\<lambda>a.
         if fa_action a \<in> {''read_file'', ''read''} then read_file env sb a
         else if fa_action a \<in> {''read_multiple_files'', ''multi_read''} then read_multiple_files env sb a
         else if fa_action a \<in> {''apply_patch'', ''patch''} then apply_patch env sb a
         else if fa_action a \<in> {''write_file'', ''write''} then write_file env sb a
         else if fa_action a = ''list_dir'' then list_dir env sb a
         else if fa_action a = ''file_exists'' then file_exists env sb a
         else quiet (Err (InvalidArguments (''Unknown filesystem action: '' @ single_quoted (fa_action a))))))"

end
