(* ===== verification/Tool_Processes.thy ===== *)
theory Tool_Processes
  imports Tools
begin

text \<open>The tools of plexis-tools that run processes (builtin/shell.rs, builtin/git.rs), the
execution backends (backend.rs) and the registry (registry.rs). The panic of a truncation
inside a character is an execution error of its own text.\<close>

section \<open>Execution backends\<close>

text \<open>String::truncate panics inside a character.\<close>

definition truncated_output :: "string \<Rightarrow> nat \<Rightarrow> string \<Rightarrow> (string, ToolError) result" where
  "truncated_output stream n s =
    (if n < utf8_length s
     then (case utf8_take n s of
             None \<Rightarrow> Err (ExecutionFailed ''panic: truncation inside a character'')
           | Some u \<Rightarrow> Ok (u @ newline @ ''... ['' @ stream @ '' truncated by sandbox resource limit]''))
     else Ok s)"

definition finish_process :: "string \<Rightarrow> CommandSpec \<Rightarrow> process_answer \<Rightarrow> (CommandResult, ToolError) result" where
  "finish_process what spec r =
    (case r of
       OutOfTime \<Rightarrow> Err (Timeout (cs_timeout spec))
     | SpawnError e \<Rightarrow> Err (failed (''Failed to spawn '' @ what) e)
     | Finished code out err \<Rightarrow>
         and_then (truncated_output ''stdout'' (cs_max_output_bytes spec) out) (\<lambda>out'.
           and_then (truncated_output ''stderr'' (cs_max_output_bytes spec) err) (\<lambda>err'.
             Ok \<lparr>cres_stdout = out', cres_stderr = err', cres_exit_code = (case code of Some c \<Rightarrow> c | None \<Rightarrow> - 1)\<rparr>)))"

definition path_or_default :: "ToolEnv \<Rightarrow> string" where
  "path_or_default env = (case te_var env ''PATH'' of Some p \<Rightarrow> p | None \<Rightarrow> ''/usr/local/bin:/usr/bin:/bin'')"

definition passed_var :: "ToolEnv \<Rightarrow> string \<Rightarrow> (string \<times> string) list" where
  "passed_var env k = (case te_var env k of Some v \<Rightarrow> [(k, v)] | None \<Rightarrow> [])"

text \<open>The environment of the process is exactly the one given here: it was cleared
before.\<close>

definition host_environment :: "ToolEnv \<Rightarrow> CommandSpec \<Rightarrow> (string \<times> string) list" where
  "host_environment env spec =
    fold (\<lambda>(k, v). AList.update k v) (cs_env_vars spec)
      ((''PATH'', path_or_default env) # passed_var env ''HOME'' @ passed_var env ''USER'' @ passed_var env ''TMPDIR'')"

definition host_execute :: "ToolEnv \<Rightarrow> CommandSpec \<Rightarrow> (CommandResult, ToolError) result" where
  "host_execute env spec =
    finish_process ''shell process'' spec
      (te_spawn env [''sh'', ''-c'', cs_command spec] (cs_working_dir spec) (Some (host_environment env spec)) (cs_timeout spec))"

record BubblewrapBackend =
  bwrap_path :: string
  enable_network :: bool
  additional_ro_binds :: "string list"

definition detect_bwrap :: "ToolEnv \<Rightarrow> (bool \<times> string) option \<Rightarrow> string option" where
  "detect_bwrap env which =
    (case List.find (\<lambda>c. pe_exists env (path_components c)) [''/usr/bin/bwrap'', ''/bin/bwrap'', ''/usr/local/bin/bwrap''] of
       Some c \<Rightarrow> Some c
     | None \<Rightarrow>
         (case which of
            None \<Rightarrow> None
          | Some (success, out) \<Rightarrow> if success \<and> str_trim out \<noteq> [] then Some (str_trim out) else None))"

definition ro_bind_try :: "string \<Rightarrow> string list" where
  "ro_bind_try d = [''--ro-bind-try'', d, d]"

definition existing_home_binds :: "ToolEnv \<Rightarrow> string list" where
  "existing_home_binds env =
    (case te_var env ''HOME'' of
       None \<Rightarrow> []
     | Some home \<Rightarrow>
         concat (map (\<lambda>d. if pe_exists env (path_components d) then ro_bind_try d else [])
           [home, path_join home ''.cargo'', path_join home ''.rustup'']))"

definition bwrap_args :: "ToolEnv \<Rightarrow> BubblewrapBackend \<Rightarrow> CommandSpec \<Rightarrow> string list" where
  "bwrap_args env b spec =
    [''--ro-bind'', ''/usr'', ''/usr''] @
    concat (map ro_bind_try [''/lib'', ''/lib64'', ''/bin'', ''/sbin'', ''/etc'', ''/home'', ''/root'']) @
    [''--proc'', ''/proc'', ''--dev'', ''/dev'', ''--tmpfs'', ''/tmp''] @
    existing_home_binds env @
    concat (map (\<lambda>d. if pe_exists env (path_components d) then [''--ro-bind'', d, d] else []) (additional_ro_binds b)) @
    [''--bind'', cs_working_dir spec, cs_working_dir spec, ''--chdir'', cs_working_dir spec] @
    (if enable_network b
     then [''--unshare-user'', ''--unshare-ipc'', ''--unshare-pid'', ''--unshare-uts'', ''--unshare-cgroup'']
     else [''--unshare-all'']) @
    [''--die-with-parent'', ''--setenv'', ''PATH'', path_or_default env] @
    concat (map (\<lambda>(k, v). [''--setenv'', k, v]) (passed_var env ''HOME'' @ cs_env_vars spec)) @
    [''sh'', ''-c'', cs_command spec]"

text \<open>The program is started in the directory and with the environment of the server.\<close>

definition bwrap_execute :: "ToolEnv \<Rightarrow> BubblewrapBackend \<Rightarrow> CommandSpec \<Rightarrow> (CommandResult, ToolError) result" where
  "bwrap_execute env b spec =
    finish_process ''bwrap sandbox process'' spec
      (te_spawn env (bwrap_path b # bwrap_args env b spec) ''.'' None (cs_timeout spec))"

text \<open>The container backend forwards to the host.\<close>

definition container_execute :: "ToolEnv \<Rightarrow> CommandSpec \<Rightarrow> (CommandResult, ToolError) result" where
  "container_execute env spec = host_execute env spec"

definition default_safe_backend ::
  "ToolEnv \<Rightarrow> (bool \<times> string) option \<Rightarrow> CommandSpec \<Rightarrow> (CommandResult, ToolError) result" where
  "default_safe_backend env which =
    (case detect_bwrap env which of
       Some p \<Rightarrow> bwrap_execute env \<lparr>bwrap_path = p, enable_network = False, additional_ro_binds = []\<rparr>
     | None \<Rightarrow> host_execute env)"

section \<open>The shell tool\<close>

definition parse_shell :: "json \<Rightarrow> (string \<times> nat option, string) result" where
  "parse_shell j =
    (if \<not> is_jobject j then Err ''invalid type, expected struct ShellArguments''
     else and_then (arg_required ''command'' j) (\<lambda>command.
       and_then (arg_usize ''timeout_seconds'' j) (\<lambda>secs. Ok (command, secs))))"

definition shell_spec :: "ToolContext \<Rightarrow> string \<Rightarrow> nat option \<Rightarrow> CommandSpec" where
  "shell_spec ctx command secs =
    (let spec = (CommandSpec_new command (tc_working_directory ctx))
           \<lparr>cs_timeout := (case secs of Some n \<Rightarrow> 1000 * int n | None \<Rightarrow> max_duration (limits (policy (tc_sandbox ctx)))),
            cs_max_output_bytes := max_output_bytes (limits (policy (tc_sandbox ctx)))\<rparr>
     in case tc_secret_store ctx of
          None \<Rightarrow> spec
        | Some st \<Rightarrow> fold (\<lambda>(k, v). with_env k v)
            (get_authorized_secrets (Some (tc_agent_id ctx)) (Some (tc_task_id ctx)) (Some ''shell'') st) spec)"

definition known_secrets :: "ToolContext \<Rightarrow> string list" where
  "known_secrets ctx = (case tc_secret_store ctx of None \<Rightarrow> [] | Some st \<Rightarrow> all_secret_values st)"

definition redacted_output :: "string list \<Rightarrow> CommandResult \<Rightarrow> ToolOutput" where
  "redacted_output secrets r =
    (let out = ToolOutput_process (redact_text (cres_stdout r) secrets) (redact_text (cres_stderr r) secrets)
                 (cres_exit_code r)
     in out\<lparr>to_data := redact_value (to_data out) secrets\<rparr>)"

definition context_backend :: "ToolEnv \<Rightarrow> CommandSpec \<Rightarrow> (CommandResult, ToolError) result" where
  "context_backend env = (case te_backend env of Some b \<Rightarrow> b | None \<Rightarrow> host_execute env)"

definition shell_tool :: "ToolEnv \<Rightarrow> ToolContext \<Rightarrow> tool_result" where
  "shell_tool env ctx =
    and_run (quiet (and_then (validate_confinement (PathEnv.truncate env) ctx) (\<lambda>_.
      map_err (\<lambda>e. InvalidArguments (''Failed to parse shell args: '' @ e)) (parse_shell (tc_arguments ctx)))))
      (\<lambda>(command, secs).
        case authorize (policy (tc_sandbox ctx)) (ShellExec command) of
          Denied why \<Rightarrow> ([], Err (PermissionDenied why))
        | Allowed \<Rightarrow>
            ([RunCommand (shell_spec ctx command secs)],
             and_then (context_backend env (shell_spec ctx command secs)) (\<lambda>r. Ok (redacted_output (known_secrets ctx) r))))"

section \<open>The git tool\<close>

record GitArguments =
  ga_action :: "string option"
  ga_subcommand :: "string option"
  ga_message :: "string option"
  ga_args :: "string list option"
  ga_max_commits :: "nat option"
  ga_branch :: "string option"
  ga_create_branch :: "bool option"
  ga_path :: "string option"
  ga_staged :: "bool option"

definition parse_git :: "json \<Rightarrow> (GitArguments, string) result" where
  "parse_git j =
    (if \<not> is_jobject j then Err ''invalid type, expected struct GitArguments''
     else and_then (arg_str ''action'' j) (\<lambda>action. and_then (arg_str ''subcommand'' j) (\<lambda>sub.
      and_then (arg_str ''message'' j) (\<lambda>message. and_then (arg_strs ''args'' j) (\<lambda>args.
      and_then (arg_usize ''max_commits'' j) (\<lambda>commits. and_then (arg_str ''branch'' j) (\<lambda>branch.
      and_then (arg_bool ''create_branch'' j) (\<lambda>create. and_then (arg_str ''path'' j) (\<lambda>path.
      and_then (arg_bool ''staged'' j) (\<lambda>staged.
        Ok \<lparr>ga_action = action, ga_subcommand = sub, ga_message = message, ga_args = args, ga_max_commits = commits,
            ga_branch = branch, ga_create_branch = create, ga_path = path, ga_staged = staged\<rparr>))))))))))"

definition exit_code :: "int option \<Rightarrow> int" where
  "exit_code c = (case c of Some n \<Rightarrow> n | None \<Rightarrow> - 1)"

definition git_process :: "ToolEnv \<Rightarrow> string \<Rightarrow> string list \<Rightarrow> string \<Rightarrow> tool_result" where
  "git_process env what args dir =
    ([RunGit args],
     (case te_git env args dir of
        Err e \<Rightarrow> Err (failed (''Failed to run git '' @ what) e)
      | Ok (success, code, out, err) \<Rightarrow> Ok (ToolOutput_process out err (exit_code code))))"

definition any_arg :: "GitArguments \<Rightarrow> string list \<Rightarrow> bool" where
  "any_arg a xs = (case ga_args a of None \<Rightarrow> False | Some as \<Rightarrow> list_ex (\<lambda>s. s \<in> set xs) as)"

definition last_plain_arg :: "GitArguments \<Rightarrow> string option" where
  "last_plain_arg a = (case ga_args a of None \<Rightarrow> None | Some as \<Rightarrow> List.find (\<lambda>s. \<not> starts_with ''-'' s) (rev as))"

definition git_diff_args :: "GitArguments \<Rightarrow> string list" where
  "git_diff_args a =
    [''diff''] @ (if ga_staged a = Some True \<or> any_arg a [''--staged'', ''--cached''] then [''--staged''] else []) @
    (case ga_path a of Some p \<Rightarrow> [''--'', p] | None \<Rightarrow> [])"

definition git_checkout :: "ToolEnv \<Rightarrow> GitArguments \<Rightarrow> string \<Rightarrow> tool_result" where
  "git_checkout env a dir =
    and_run (quiet (ok_or (InvalidArguments (single_quoted ''branch'' @ '' is required for '' @ single_quoted ''checkout''))
      (case ga_branch a of Some b \<Rightarrow> Some b | None \<Rightarrow> last_plain_arg a))) (\<lambda>branch.
        git_process env ''checkout''
          ([''checkout''] @ (if ga_create_branch a = Some True \<or> any_arg a [''-b'', ''-B''] then [''-b''] else []) @ [branch])
          dir)"

definition git_branch_args :: "GitArguments \<Rightarrow> string list" where
  "git_branch_args a =
    [''branch''] @ (case ga_branch a of Some b \<Rightarrow> [b] | None \<Rightarrow> (case ga_args a of Some as \<Rightarrow> as | None \<Rightarrow> [''--list'']))"

text \<open>The porcelain output of git is ASCII: a name with other characters is quoted.\<close>

definition conflicted_file :: "string \<Rightarrow> string option" where
  "conflicted_file line =
    (if 3 \<le> length line \<and> take 2 line \<in> {''UU'', ''AA'', ''DD'', ''AU'', ''UD'', ''UA'', ''DU''}
     then Some (str_trim (drop 3 line)) else None)"

definition git_conflicts :: "ToolEnv \<Rightarrow> string \<Rightarrow> tool_result" where
  "git_conflicts env dir =
    ([RunGit [''status'', ''--porcelain'']],
     (case te_git env [''status'', ''--porcelain''] dir of
       Err e \<Rightarrow> Err (failed ''Failed to check git conflicts'' e)
     | Ok (success, code, out, err) \<Rightarrow>
         (let files = List.map_filter conflicted_file (str_lines out);
              message = (if files \<noteq> [] then ''Found '' @ decimal (length files) @ '' conflicted file(s)''
                         else ''No merge conflicts detected'')
          in Ok (file_output (JObj [(''has_conflicts'', JBool (files \<noteq> [])), (''conflicted_files'', JArr (map JStr files)),
               (''message'', JStr message)]) message))))"

definition protected_path :: "string \<Rightarrow> bool" where
  "protected_path p =
    (p = ''Cargo.lock'' \<or> ends_with ''/Cargo.lock'' p \<or> ends_with ''.db'' p \<or> ends_with ''.db-shm'' p \<or>
     ends_with ''.db-wal'' p \<or> str_contains ''plexis.db'' p \<or> str_contains ''sentinel.db'' p)"

definition stage_args :: "GitArguments \<Rightarrow> (string list, ToolError) result" where
  "stage_args a =
    (case ga_path a of
       None \<Rightarrow> Ok [''add'', ''-A'']
     | Some path \<Rightarrow>
         if str_trim path = [] then Ok [''add'', ''-A'']
         else if protected_path (str_trim path)
         then Err (ExecutionFailed (''Staging protected runtime file '' @ single_quoted (str_trim path) @
                '' is strictly prohibited by Sentinel safety governance.''))
         else Ok [''add'', ''--'', str_trim path])"

definition unstage_args :: "string list" where
  "unstage_args =
    [''reset'', ''-q'', ''--'', '':(glob)**/Cargo.lock'', '':(glob)**/target/**'', '':(glob)**/*.db'', '':(glob)**/*.db-shm'',
     '':(glob)**/*.db-wal'', '':(glob)**/plexis.db*'', '':(glob)**/sentinel.db*'', '':(glob)**/*.env*'', '':(glob)**/.env*'',
     '':(glob)**/*.pem'', '':(glob)**/*.key'', '':(glob)**/*credential*'', '':(glob)**/*secret*'', ''Cargo.lock'', ''target'',
     ''*.db'', ''*.db-shm'', ''*.db-wal'', ''plexis.db*'', ''sentinel.db*'', ''*.env*'', ''.env*'']"

definition commit_args :: "string \<Rightarrow> string list" where
  "commit_args message =
    [''-c'', ''user.name=Sentinel Agent'', ''-c'', ''user.email=agent@sentinel.local'', ''commit'', ''-m'', message]"

definition branch_check_args :: "string list" where
  "branch_check_args = [''rev-parse'', ''--abbrev-ref'', ''HEAD'']"

definition on_main :: "ToolEnv \<Rightarrow> string \<Rightarrow> bool" where
  "on_main env dir =
    (case te_git env branch_check_args dir of
       Ok (success, code, out, err) \<Rightarrow> str_trim out = ''main'' | Err e \<Rightarrow> False)"

definition stage_changes :: "ToolEnv \<Rightarrow> string list \<Rightarrow> string \<Rightarrow> unit traced" where
  "stage_changes env add dir =
    ([RunGit add],
     (case te_git env add dir of
        Err e \<Rightarrow> Err (failed ''Failed to run git add'' e)
      | Ok (success, code, out, err) \<Rightarrow> if success then Ok () else Err (failed ''git add failed'' err)))"

definition git_commit :: "ToolEnv \<Rightarrow> GitArguments \<Rightarrow> string \<Rightarrow> tool_result" where
  "git_commit env a dir =
    and_run (quiet (ok_or (InvalidArguments (single_quoted ''message'' @ '' is required for '' @ single_quoted ''commit''))
      (case ga_message a of Some m \<Rightarrow> Some m | None \<Rightarrow> last_plain_arg a))) (\<lambda>message.
     and_run ([RunGit branch_check_args],
        if on_main env dir
        then Err (ExecutionFailed (''Direct agent commits to target branch '' @ single_quoted ''main'' @
               '' are strictly prohibited by Sentinel safety governance. Agent mutations must occur in an isolated worktree.''))
        else Ok ()) (\<lambda>_.
     and_run (quiet (stage_args a)) (\<lambda>add.
     and_run (stage_changes env add dir) (\<lambda>_.
     and_run ([RunGit unstage_args], Ok ()) (\<lambda>_.
       git_process env ''commit'' (commit_args message) dir)))))"

definition git_tool :: "ToolEnv \<Rightarrow> ToolContext \<Rightarrow> tool_result" where
  "git_tool env ctx =
    and_run (quiet (and_then (validate_confinement (PathEnv.truncate env) ctx) (\<lambda>_.
      map_err (\<lambda>e. InvalidArguments (''Failed to parse git args: '' @ e)) (parse_git (tc_arguments ctx))))) (\<lambda>a.
        let action = (case ga_action a of Some x \<Rightarrow> x
                      | None \<Rightarrow> (case ga_subcommand a of Some x \<Rightarrow> x | None \<Rightarrow> ''status''));
            dir = tc_working_directory ctx
        in case authorize (policy (tc_sandbox ctx)) (GitOp action) of
             Denied why \<Rightarrow> ([], Err (PermissionDenied why))
           | Allowed \<Rightarrow>
               if action = ''status'' then git_process env ''status'' [''status'', ''--short''] dir
               else if action = ''diff'' then git_process env ''diff'' (git_diff_args a) dir
               else if action = ''log''
               then git_process env ''log'' [''log'', ''-n'' @ decimal (case ga_max_commits a of Some n \<Rightarrow> n | None \<Rightarrow> 10), ''--oneline''] dir
               else if action = ''checkout'' then git_checkout env a dir
               else if action = ''branch'' then git_process env ''branch'' (git_branch_args a) dir
               else if action \<in> {''conflicts'', ''check_conflicts''} then git_conflicts env dir
               else if action = ''commit'' then git_commit env a dir
               else ([], Err (InvalidArguments (''Unknown git action: '' @ single_quoted action))))"

section \<open>The registry\<close>

type_synonym tool = "ToolEnv \<Rightarrow> ToolContext \<Rightarrow> tool_result"

type_synonym ToolRegistry = "(string \<times> tool) list"

definition register :: "string \<Rightarrow> tool \<Rightarrow> ToolRegistry \<Rightarrow> ToolRegistry" where
  "register name t r = AList.update name t r"

definition standard_suite :: ToolRegistry where
  "standard_suite = register ''git'' git_tool (register ''shell'' shell_tool (register ''filesystem'' filesystem_tool []))"

record ToolInvocationRecord =
  ti_agent_id :: ident
  ti_execution_id :: ident
  ti_task_id :: ident
  ti_tool_name :: string
  ti_arguments :: json
  ti_authorization_result :: AuthorizationResult
  ti_started_at :: time
  ti_ended_at :: "time option"
  ti_result :: "ToolOutput option"
  ti_failure :: "string option"

definition invocation_record ::
  "time \<Rightarrow> time \<Rightarrow> ToolContext \<Rightarrow> string \<Rightarrow> (ToolOutput, ToolError) result \<Rightarrow> ToolInvocationRecord" where
  "invocation_record started ended ctx name r =
    \<lparr>ti_agent_id = tc_agent_id ctx, ti_execution_id = tc_execution_id ctx, ti_task_id = tc_task_id ctx,
     ti_tool_name = name, ti_arguments = tc_arguments ctx,
     ti_authorization_result = (case r of Err (PermissionDenied why) \<Rightarrow> Denied why | _ \<Rightarrow> Allowed),
     ti_started_at = started, ti_ended_at = Some ended,
     ti_result = (case r of Ok out \<Rightarrow> Some out | Err e \<Rightarrow> None),
     ti_failure = (case r of Ok out \<Rightarrow> None | Err (PermissionDenied why) \<Rightarrow> Some why | Err e \<Rightarrow> Some (tool_error_display e))\<rparr>"

definition unknown_record :: "time \<Rightarrow> time \<Rightarrow> ToolContext \<Rightarrow> string \<Rightarrow> string \<Rightarrow> ToolInvocationRecord" where
  "unknown_record started ended ctx name why =
    (invocation_record started ended ctx name (Err (PermissionDenied why)))"

definition invoke ::
  "time \<Rightarrow> time \<Rightarrow> ToolEnv \<Rightarrow> ToolRegistry \<Rightarrow> string \<Rightarrow> ToolContext \<Rightarrow>
   tool_effect list \<times> ToolInvocationRecord \<times> (ToolOutput, ToolError) result" where
  "invoke started ended env registry name ctx =
    (case map_of registry name of
       None \<Rightarrow> (let why = ''Tool '' @ single_quoted name @ '' not registered in registry''
               in ([], unknown_record started ended ctx name why, Err (NotFound why)))
     | Some t \<Rightarrow> (case t env ctx of (effects, r) \<Rightarrow> (effects, invocation_record started ended ctx name r, r)))"

end
