(* ===== verification/Tool_Properties.thy ===== *)
theory Tool_Properties
  imports Tool_Processes "HOL-Library.Code_Target_Nat"
begin

text \<open>The properties of the tools: confinement of the files they touch, redaction of the
secrets they may print, and what the patch and the commit guard miss.\<close>

section \<open>Confinement\<close>

text \<open>Where the operating system opens a path: an existing path at its canonical form; a path
that does not exist at the target of the symbolic link it may be, and otherwise in the
directory it names. link gives the target of a symbolic link, with or without a file behind it,
as an absolute path; at most forty links are followed.\<close>

function open_at :: "PathEnv \<Rightarrow> (fs_path \<Rightarrow> fs_path option) \<Rightarrow> nat \<Rightarrow> fs_path \<Rightarrow> fs_path option" where
  "open_at env link n p =
    (if pe_exists env p then pe_canonicalize env p
     else case link p of
       Some target \<Rightarrow> if n = 0 then None else open_at env link (n - 1) target
     | None \<Rightarrow>
         (case path_parent p of
            None \<Rightarrow> None
          | Some d \<Rightarrow> map_option (\<lambda>c. c @ [last p]) (open_at env link n d)))"
  by pat_completeness auto

termination
  by (relation "measures [\<lambda>(env, link, n, p). n, \<lambda>(env, link, n, p). length p]")
    (auto simp: path_parent_def split: if_splits)

declare open_at.simps [simp del]

definition opened :: "PathEnv \<Rightarrow> (fs_path \<Rightarrow> fs_path option) \<Rightarrow> fs_path \<Rightarrow> fs_path option" where
  "opened env link = open_at env link 40"

text \<open>A path through a symbolic link whose target does not exist.\<close>

definition dangling :: "PathEnv \<Rightarrow> (fs_path \<Rightarrow> fs_path option) \<Rightarrow> fs_path \<Rightarrow> bool" where
  "dangling env link p = (\<exists>q. prefix q p \<and> \<not> pe_exists env q \<and> link q \<noteq> None)"

definition confined :: "PathEnv \<Rightarrow> (fs_path \<Rightarrow> fs_path option) \<Rightarrow> Sandbox \<Rightarrow> string list \<Rightarrow> fs_path \<Rightarrow> bool" where
  "confined env link sb roots p =
    (ParentDir \<notin> set p \<and>
     (\<exists>root \<in> set roots. prefix (normalize_path root) p) \<and>
     (\<forall>n pat. Normal n \<in> set p \<longrightarrow> pat \<in> set (sp_forbidden_patterns (policy sb)) \<longrightarrow> \<not> matches_glob pat n) \<and>
     (\<forall>root c. pe_canonicalize env (path_components (root_directory sb)) = Some root \<longrightarrow>
        \<not> dangling env link p \<longrightarrow> opened env link p = Some c \<longrightarrow> prefix root c))"

lemma open_at_plain:
  assumes "open_at env link n p = Some c" "\<not> dangling env link p" "\<not> pe_exists env p"
  shows "\<exists>a c0. existing_ancestor (pe_exists env) p = Some a \<and> pe_canonicalize env a = Some c0 \<and> prefix c0 c"
  using assms
proof (induction env link n p arbitrary: c rule: open_at.induct)
  case (1 env link n p)
  have l: "link p = None" using 1(4,5) by (auto simp: dangling_def)
  obtain d c1 where d: "path_parent p = Some d" "open_at env link n d = Some c1" "c = c1 @ [last p]"
    using 1(3,5) l unfolding open_at.simps [of env link n p] by (auto split: option.splits)
  have "prefix d p" using d(1) prefixeq_butlast by (auto simp: path_parent_def split: if_splits)
  then have n: "\<not> dangling env link d" using 1(4) prefix_order.order_trans unfolding dangling_def by blast
  show ?case
  proof (cases "pe_exists env d")
    case True
    then show ?thesis using d by (auto simp: existing_ancestor.simps [of _ p] open_at.simps [of env link n d])
  next
    case False
    then show ?thesis
      using 1(1) [OF 1(5) l d(1) d(2) n False] d(1,3) by (auto simp: existing_ancestor.simps [of _ p] intro: prefix_order.order_trans)
  qed
qed

lemma normalize_components: "Normal n \<in> set (normalize_path s) \<Longrightarrow> Normal n \<in> set (path_components s)"
proof -
  have "Normal n \<in> set (foldl normalize_step acc cs) \<Longrightarrow> Normal n \<in> set acc \<union> set cs" for acc cs
  proof (induction cs arbitrary: acc)
    case (Cons c cs)
    then show ?case using Cons.IH [of "normalize_step acc c"] by (cases c) (auto dest: in_set_butlastD split: if_splits)
  qed simp
  from this [of "[]"] show "Normal n \<in> set (normalize_path s) \<Longrightarrow> Normal n \<in> set (path_components s)"
    by (auto simp: normalize_path_def Let_def split: if_splits)
qed

lemma resolve_confined:
  assumes "resolve_safe_path env sb requested for_write = Ok p"
  shows "confined env link sb (if for_write then allowed_write_roots (policy sb) else allowed_read_roots (policy sb)) p"
proof -
  note r = resolve_safe_path_Ok [OF assms]
  have "\<forall>n pat. Normal n \<in> set p \<longrightarrow> pat \<in> set (sp_forbidden_patterns (policy sb)) \<longrightarrow> \<not> matches_glob pat n"
    using r(2) normalize_components unfolding r(1) by (fastforce simp: is_forbidden_def list_ex_iff)
  moreover have "ParentDir \<notin> set p" unfolding r(1) by (rule normalize_no_parent)
  moreover have "prefix root c" if root: "pe_canonicalize env (path_components (root_directory sb)) = Some root"
    and o: "\<not> dangling env link p" "opened env link p = Some c" for root c
  proof (cases "pe_exists env p")
    case True
    then show ?thesis using r(4) root o(2) by (simp add: opened_def open_at.simps [of env link _ p])
  next
    case False
    obtain a c0 where "existing_ancestor (pe_exists env) p = Some a" "pe_canonicalize env a = Some c0" "prefix c0 c"
      using open_at_plain [OF o(2) [unfolded opened_def] o(1) False] by blast
    then show ?thesis using r(5) root False prefix_order.order_trans by blast
  qed
  ultimately show ?thesis using r(3) by (auto simp: confined_def)
qed

text \<open>What an effect of the filesystem tool may be.\<close>

fun effect_confined :: "PathEnv \<Rightarrow> (fs_path \<Rightarrow> fs_path option) \<Rightarrow> Sandbox \<Rightarrow> tool_effect \<Rightarrow> bool" where
  "effect_confined env link sb (ReadFile p) =
    (confined env link sb (allowed_read_roots (policy sb)) p \<or> confined env link sb (allowed_write_roots (policy sb)) p)"
| "effect_confined env link sb (ListDir p) = confined env link sb (allowed_read_roots (policy sb)) p"
| "effect_confined env link sb (CreateDirAll d) =
    (\<exists>p. path_parent p = Some d \<and> confined env link sb (allowed_write_roots (policy sb)) p)"
| "effect_confined env link sb (WriteFile p content) =
    (confined env link sb (allowed_write_roots (policy sb)) p)"
| "effect_confined env link sb (RunGit args) = False"
| "effect_confined env link sb (RunCommand spec) = False"

definition all_confined :: "PathEnv \<Rightarrow> (fs_path \<Rightarrow> fs_path option) \<Rightarrow> Sandbox \<Rightarrow> 'a traced \<Rightarrow> bool" where
  "all_confined env link sb m = list_all (effect_confined env link sb) (fst m)"

lemma confined_run:
  assumes "all_confined env link sb m" "\<And>a. snd m = Ok a \<Longrightarrow> all_confined env link sb (f a)"
  shows "all_confined env link sb (and_run m f)"
proof -
  obtain es r where m: "m = (es, r)" by (cases m)
  show ?thesis using assms unfolding m by (cases r) (auto simp: all_confined_def)
qed

lemma confined_quiet [simp]: "all_confined env link sb (quiet r)"
  by (simp add: all_confined_def quiet_def)

lemma snd_quiet [simp]: "snd (quiet r) = r"
  by (simp add: quiet_def)

lemma confined_read: "confined env' link sb (allowed_read_roots (policy sb)) p \<or> confined env' link sb (allowed_write_roots (policy sb)) p \<Longrightarrow>
    all_confined env' link sb (read_at env what p)"
  by (simp add: all_confined_def read_at_def)

lemma confined_write: "confined env' link sb (allowed_write_roots (policy sb)) p \<Longrightarrow>
    all_confined env' link sb (write_at env what p content)"
  by (simp add: all_confined_def write_at_def)

lemma confined_make_parent: "confined env' link sb (allowed_write_roots (policy sb)) p \<Longrightarrow>
    all_confined env' link sb (make_parent env p)"
  by (auto simp: all_confined_def make_parent_def quiet_def split: option.splits)

lemmas resolve_read = resolve_confined [where for_write = False, simplified]
lemmas resolve_write = resolve_confined [where for_write = True, simplified]

lemma confined_read_each: "all_confined (PathEnv.truncate env) link sb (read_each env sb ps results out)"
proof (induction ps arbitrary: results out)
  case (Cons p ps)
  show ?case
    unfolding read_each.simps
  proof (rule confined_run, simp, unfold snd_quiet)
    fix safe assume "resolve_safe_path (PathEnv.truncate env) sb p False = Ok safe"
    then have c: "confined (PathEnv.truncate env) link sb (allowed_read_roots (policy sb)) safe" by (rule resolve_read)
    show "all_confined (PathEnv.truncate env) link sb
        (if \<not> pe_exists env safe
         then read_each env sb ps (json_insert p (JObj [(''error'', JStr ''not found'')]) results)
                (out @ [''--- '' @ p @ '' (NOT FOUND) ---''])
         else and_run (read_at env (''Failed to read file '' @ single_quoted p) safe)
                (\<lambda>content. read_each env sb ps (json_insert p (JObj [(''content'', JStr content)]) results)
                   (out @ [''--- '' @ p @ '' ---'' @ newline @ content])))"
      using Cons.IH c by (auto intro!: confined_run confined_read)
  qed
qed simp

lemma confined_list_dir: "confined env' link sb (allowed_read_roots (policy sb)) p \<Longrightarrow> all_confined env' link sb ([ListDir p], r)"
  by (simp add: all_confined_def)

lemmas confined_intros = confined_run confined_read confined_write confined_make_parent confined_read_each confined_list_dir

lemma confined_actions:
  "all_confined (PathEnv.truncate env) link sb (read_file env sb a)"
  "all_confined (PathEnv.truncate env) link sb (read_multiple_files env sb a)"
  "all_confined (PathEnv.truncate env) link sb (apply_patch env sb a)"
  "all_confined (PathEnv.truncate env) link sb (write_file env sb a)"
  "all_confined (PathEnv.truncate env) link sb (list_dir env sb a)"
  "all_confined (PathEnv.truncate env) link sb (file_exists env sb a)"
  by (auto simp: read_file_def read_multiple_files_def apply_patch_def write_file_def list_dir_def file_exists_def Let_def
      split: prod.splits intro!: confined_intros dest: resolve_read resolve_write)

text \<open>C9: every file the filesystem tool reads, lists or writes, whatever the arguments of the
agent, is confined: its path has no parent component, lies below an allowed root, and none of
its components matches a forbidden pattern. Where the sandbox root can be resolved, and unless
the path goes through a symbolic link whose target does not exist, the file that is opened,
following symbolic links, lies below the resolved root. Directories are created only for such
files, and no process is run.\<close>

theorem tool_files_confined:
  "effect \<in> set (fst (filesystem_tool env ctx)) \<Longrightarrow> effect_confined (PathEnv.truncate env) link (tc_sandbox ctx) effect"
proof -
  have "all_confined (PathEnv.truncate env) link (tc_sandbox ctx) (filesystem_tool env ctx)"
    unfolding filesystem_tool_def Let_def by (rule confined_run) (simp_all add: confined_actions)
  then show "effect \<in> set (fst (filesystem_tool env ctx)) \<Longrightarrow> effect_confined (PathEnv.truncate env) link (tc_sandbox ctx) effect"
    by (simp add: all_confined_def list_all_iff)
qed

definition demo_env :: ToolEnv where
  "demo_env =
    \<lparr>pe_exists = (\<lambda>p. p \<in> {[RootDir], [RootDir, Normal ''work''], [RootDir, Normal ''work'', Normal ''notes'']}),
     pe_canonicalize = (\<lambda>p. if p = [RootDir, Normal ''work'', Normal ''notes''] then Some [RootDir, Normal ''work'', Normal ''.env'']
                           else Some p),
     te_file_len = (\<lambda>p. Ok 3), te_read = (\<lambda>p. Ok ''K=1''), te_create_dir_all = (\<lambda>p. Ok ()), te_write = (\<lambda>p. Ok ()),
     te_read_dir = (\<lambda>p. Ok []),
     te_git = (\<lambda>args dir. Ok (True, Some 0, if args = branch_check_args then ''master'' else [], [])),
     te_var = (\<lambda>v. None), te_spawn = (\<lambda>args dir vars limit. Finished (Some 0) ''key=tok-abcdef'' []), te_backend = None\<rparr>"

definition demo_context :: "(string \<times> json) list \<Rightarrow> ToolContext" where
  "demo_context args = ToolContext_new 1 2 3 (JObj args) (Sandbox_new ''/work'') ''/work''"

lemma tool_files_confined_witness:
  "effect_confined (PathEnv.truncate demo_env) (\<lambda>p. None) (Sandbox_new ''/work'') (WriteFile [RootDir, Normal ''work'', Normal ''a''] ''x'') \<and>
   opened (PathEnv.truncate demo_env) (\<lambda>p. None) [RootDir, Normal ''work'', Normal ''a''] = Some [RootDir, Normal ''work'', Normal ''a'']"
proof -
  have "WriteFile [RootDir, Normal ''work'', Normal ''a''] ''x'' \<in> set (fst (filesystem_tool demo_env
      (demo_context [(''action'', JStr ''write_file''), (''path'', JStr ''./b/../a''), (''content'', JStr ''x'')])))"
    "opened (PathEnv.truncate demo_env) (\<lambda>p. None) [RootDir, Normal ''work'', Normal ''a''] = Some [RootDir, Normal ''work'', Normal ''a'']"
    by code_simp+
  with tool_files_confined [OF this(1)] show ?thesis by (simp add: demo_context_def ToolContext_new_def)
qed

text \<open>The exception is real: a link of the sandbox to a path outside that does not exist passes
the check as a new file of the sandbox, and the write creates the file outside.\<close>

lemma dangling_link_escapes:
  "fst (filesystem_tool demo_env (demo_context
      [(''action'', JStr ''write_file''), (''path'', JStr ''out''), (''content'', JStr ''x'')])) =
     [CreateDirAll [RootDir, Normal ''work''], WriteFile [RootDir, Normal ''work'', Normal ''out''] ''x''] \<and>
   opened (PathEnv.truncate demo_env)
     (\<lambda>p. if p = [RootDir, Normal ''work'', Normal ''out''] then Some [RootDir, Normal ''cron''] else None)
     [RootDir, Normal ''work'', Normal ''out''] = Some [RootDir, Normal ''cron'']"
  by code_simp

text \<open>The forbidden patterns are matched against the path as it is written: a link with a
harmless name gives access to a forbidden file of the sandbox.\<close>

lemma link_to_forbidden_read:
  "fst (filesystem_tool demo_env (demo_context [(''action'', JStr ''read_file''), (''path'', JStr ''notes'')])) =
     [ReadFile [RootDir, Normal ''work'', Normal ''notes'']] \<and>
   opened (PathEnv.truncate demo_env) link [RootDir, Normal ''work'', Normal ''notes''] = Some [RootDir, Normal ''work'', Normal ''.env''] \<and>
   is_forbidden ''/work/.env'' (sp_forbidden_patterns (SandboxPolicy_new ''/work''))"
proof -
  have "opened (PathEnv.truncate demo_env) link [RootDir, Normal ''work'', Normal ''notes''] = Some [RootDir, Normal ''work'', Normal ''.env'']"
    by (simp add: opened_def open_at.simps [of _ _ _ "[RootDir, Normal ''work'', Normal ''notes'']"] demo_env_def PathEnv.truncate_def)
  moreover have "fst (filesystem_tool demo_env (demo_context [(''action'', JStr ''read_file''), (''path'', JStr ''notes'')])) =
      [ReadFile [RootDir, Normal ''work'', Normal ''notes'']]"
    "is_forbidden ''/work/.env'' (sp_forbidden_patterns (SandboxPolicy_new ''/work''))" by code_simp+
  ultimately show ?thesis by simp
qed

text \<open>A read root the policy adds is of no use: what lies in it is taken for an escape
through a link.\<close>

lemma added_root_refused:
  "authorize (with_read_root ''/usr'' (SandboxPolicy_new ''/work'')) (FileRead ''/usr/lib'') = Allowed \<and>
   is_err (resolve_safe_path (PathEnv.truncate demo_env)
     \<lparr>root_directory = ''/work'', policy = with_read_root ''/usr'' (SandboxPolicy_new ''/work'')\<rparr> ''/usr/lib'' False)"
  by code_simp

section \<open>Secrets\<close>

definition output_texts :: "ToolOutput \<Rightarrow> string set" where
  "output_texts out = json_texts (to_data out) \<union> set_option (to_stdout out) \<union> set_option (to_stderr out)"

lemma and_run_Ok: "and_run m f = (es, Ok b) \<longleftrightarrow> (\<exists>es1 a. m = (es1, Ok a) \<and> es = es1 @ fst (f a) \<and> snd (f a) = Ok b)"
proof -
  obtain es1 r where "m = (es1, r)" by (cases m)
  then show ?thesis by (cases r) auto
qed

lemma shell_tool_Ok:
  assumes "shell_tool env ctx = (es, Ok out)"
  obtains command secs r where "es = [RunCommand (shell_spec ctx command secs)]" "out = redacted_output (known_secrets ctx) r"
    "authorize (policy (tc_sandbox ctx)) (ShellExec command) = Allowed"
proof -
  obtain es1 c where "es = es1 @ fst (case c of (command, secs) \<Rightarrow> (case authorize (policy (tc_sandbox ctx)) (ShellExec command) of
        Denied why \<Rightarrow> ([], Err (PermissionDenied why))
      | Allowed \<Rightarrow> ([RunCommand (shell_spec ctx command secs)],
          and_then (context_backend env (shell_spec ctx command secs)) (\<lambda>r. Ok (redacted_output (known_secrets ctx) r)))))"
    "snd (case c of (command, secs) \<Rightarrow> (case authorize (policy (tc_sandbox ctx)) (ShellExec command) of
        Denied why \<Rightarrow> ([], Err (PermissionDenied why))
      | Allowed \<Rightarrow> ([RunCommand (shell_spec ctx command secs)],
          and_then (context_backend env (shell_spec ctx command secs)) (\<lambda>r. Ok (redacted_output (known_secrets ctx) r))))) = Ok out"
    "es1 = []"
    using assms unfolding shell_tool_def and_run_Ok quiet_def by auto
  then show thesis
    using that [of "fst c" "snd c"] by (cases c; cases "authorize (policy (tc_sandbox ctx)) (ShellExec (fst c))") auto
qed

lemma fold_with_env: "cs_env_vars (fold (\<lambda>(k, v). with_env k v) kvs s) = fold (\<lambda>(k, v). AList.update k v) kvs (cs_env_vars s)"
  by (induction kvs arbitrary: s) (auto simp: with_env_def)

lemma map_of_fold_update: "map_of (fold (\<lambda>(k, v). AList.update k v) kvs xs) k = (case map_of (rev kvs) k of Some v \<Rightarrow> Some v | None \<Rightarrow> map_of xs k)"
  by (induction kvs arbitrary: xs) (auto simp: update_conv map_add_def split: option.splits)

lemma map_of_authorized:
  "distinct (map fst st) \<Longrightarrow> map_of (rev (get_authorized_secrets a t tool st)) n = get_secret n a t tool st"
proof -
  assume d: "distinct (map fst st)"
  have "map fst (get_authorized_secrets a t tool st) = map fst (filter (\<lambda>(n, e). is_authorized (se_acl e) a t tool) st)"
    by (simp add: get_authorized_secrets_def split_def)
  then have "distinct (map fst (get_authorized_secrets a t tool st))" using d by (simp add: distinct_map_filter)
  moreover have "map_of (get_authorized_secrets a t tool st) n = get_secret n a t tool st"
    using d by (induction st) (auto simp: get_authorized_secrets_def get_secret_def map_of_eq_None_iff rev_image_eqI split: option.splits)
  moreover have "map_of (rev xs) = map_of xs" if "distinct (map fst xs)" for xs :: "(string \<times> string) list"
    using that map_of_inject_set [of "rev xs" xs] by (simp add: rev_map [symmetric])
  ultimately show ?thesis by simp
qed

text \<open>C10: a command of the shell tool runs with exactly the secrets whose access list admits
its agent, its task and the tool. When it succeeds, no secret of the store that has at least three
bytes and is markable (not empty, without a bracket or number sign, not made of digits alone, and
no part of the marker's word) appears in what it returns: in a string, in a key or in a stream.\<close>

theorem shell_secrets_guarded:
  assumes "shell_tool env ctx = (es, Ok out)" "tc_secret_store ctx = Some st" "distinct (map fst st)"
  shows "(\<exists>spec. es = [RunCommand spec] \<and>
      (\<forall>n. map_of (cs_env_vars spec) n = get_secret n (Some (tc_agent_id ctx)) (Some (tc_task_id ctx)) (Some ''shell'') st)) \<and>
    (\<forall>s \<in> set (all_secret_values st). markable s \<longrightarrow> 3 \<le> utf8_length s \<longrightarrow>
      (\<forall>t \<in> output_texts out. \<not> str_contains s t))"
proof -
  obtain command secs r where e: "es = [RunCommand (shell_spec ctx command secs)]" "out = redacted_output (known_secrets ctx) r"
    using shell_tool_Ok [OF assms(1)] by metis
  have "map_of (cs_env_vars (shell_spec ctx command secs)) n =
      get_secret n (Some (tc_agent_id ctx)) (Some (tc_task_id ctx)) (Some ''shell'') st" for n
    using map_of_authorized [OF assms(3)]
    by (simp add: shell_spec_def Let_def assms(2) fold_with_env map_of_fold_update CommandSpec_new_def split: option.splits)
  moreover have "\<not> str_contains s t"
    if s: "s \<in> set (all_secret_values st)" "markable s" "3 \<le> utf8_length s" "t \<in> output_texts out" for s t
  proof -
    have k: "s \<in> set (known_secrets ctx)" using s(1) by (simp add: known_secrets_def assms(2))
    consider (data) v where "t \<in> json_texts (redact_value v (known_secrets ctx))" | (stream) u where "t = redact_text u (known_secrets ctx)"
      using s(4) by (auto simp: output_texts_def e(2) redacted_output_def ToolOutput_process_def Let_def)
    then show ?thesis
    proof cases
      case data
      then show ?thesis using redacted_value_clean [OF s(2) k s(3)] by blast
    next
      case stream
      then show ?thesis using redact_text_removes [OF s(2) k s(3)] by (simp add: str_contains_iff)
    qed
  qed
  ultimately show ?thesis using e(1) by auto
qed

definition demo_store :: SecretStore where
  "demo_store = set_secret ''KEY'' ''tok-abcdef'' (with_tool ''shell'' SecretAcl_new) []"

lemma shell_secrets_guarded_witness:
  "\<exists>spec out. shell_tool demo_env ((demo_context [(''command'', JStr ''env'')])\<lparr>tc_secret_store := Some demo_store\<rparr>) =
      ([RunCommand spec], Ok out) \<and> map_of (cs_env_vars spec) ''KEY'' = Some ''tok-abcdef'' \<and>
      \<not> str_contains ''tok-abcdef'' (the (to_stdout out))"
proof -
  let ?ctx = "(demo_context [(''command'', JStr ''env'')])\<lparr>tc_secret_store := Some demo_store\<rparr>"
  have "is_ok (snd (shell_tool demo_env ?ctx))" by code_simp
  then obtain es out where run: "shell_tool demo_env ?ctx = (es, Ok out)"
    by (metis prod.collapse result.collapse(1))
  have st: "tc_secret_store ?ctx = Some demo_store" "distinct (map fst demo_store)" by code_simp+
  have "to_stdout out \<noteq> None"
    using run by (elim shell_tool_Ok) (simp add: redacted_output_def ToolOutput_process_def Let_def)
  moreover have "markable ''tok-abcdef''" "3 \<le> utf8_length ''tok-abcdef''" "''tok-abcdef'' \<in> set (all_secret_values demo_store)"
    "get_secret ''KEY'' (Some (tc_agent_id ?ctx)) (Some (tc_task_id ?ctx)) (Some ''shell'') demo_store = Some ''tok-abcdef''"
    unfolding markable_def str_contains_iff [symmetric] by code_simp+
  ultimately show ?thesis
    using shell_secrets_guarded [OF run st] run by (auto simp: output_texts_def)
qed

section \<open>Patches and commits\<close>

lemma hunks_without_removals:
  "\<forall>h \<in> set hs. stripped_lines CHR ''-'' (str_lines h) = [] \<Longrightarrow> foldl apply_hunk ls hs = ls"
  by (induction hs) (simp_all add: apply_hunk_def Let_def)

text \<open>A unified diff that only adds lines changes nothing: whatever the file and the
diff, when no line of a hunk is a removal, the patch is reported as applied and the file keeps
its lines.\<close>

theorem additions_dropped:
  assumes "str_contains ''@@'' p" "\<not> str_contains ''<<<<<<< SEARCH'' p"
    "\<forall>h \<in> set (split_on ''@@'' p). stripped_lines CHR ''-'' (str_lines h) = []"
  shows "apply_patch_content original (Some p) None None = Ok (join newline (str_lines original))"
proof -
  have "foldl apply_hunk (str_lines original) (filter (\<lambda>h. str_trim h \<noteq> []) (split_on ''@@'' p)) = str_lines original"
    by (rule hunks_without_removals) (use assms(3) in auto)
  then show ?thesis using assms(1,2) by (simp add: apply_patch_content_def)
qed

lemma additions_dropped_witness:
  "apply_patch_content ''one'' (Some (''@@ -1 +1,2 @@'' @ newline @ ''+two'')) None None = Ok ''one''"
proof -
  let ?p = "''@@ -1 +1,2 @@'' @ newline @ ''+two''"
  have "str_contains ''@@'' ?p" "\<not> str_contains ''<<<<<<< SEARCH'' ?p"
    "\<forall>h \<in> set (split_on ''@@'' ?p). stripped_lines CHR ''-'' (str_lines h) = []"
    "join newline (str_lines ''one'') = ''one''"
    by code_simp+
  then show ?thesis using additions_dropped [of ?p "''one''"] by simp
qed

text \<open>The guard of the git tool: on the branch main nothing is staged or committed,
whatever the arguments.\<close>

lemma main_never_committed:
  "on_main env dir \<Longrightarrow>
     set (fst (git_commit env a dir)) \<subseteq> {RunGit branch_check_args} \<and> is_err (snd (git_commit env a dir))"
  by (cases "ga_message a"; cases "last_plain_arg a") (auto simp: git_commit_def quiet_def)

text \<open>On the branch master, which the comment of the guard names beside main, an agent
stages everything and commits.\<close>

theorem master_committed:
  "te_git demo_env branch_check_args ''/work'' = Ok (True, Some 0, ''master'', []) \<and>
   fst (git_tool demo_env (demo_context [(''action'', JStr ''commit''), (''message'', JStr ''m'')])) =
     [RunGit branch_check_args, RunGit [''add'', ''-A''], RunGit unstage_args, RunGit (commit_args ''m'')]"
  by code_simp

end
