(* ===== verification/Protocol.thy ===== *)
theory Protocol
  imports Records Text_Ops
begin

text \<open>The protocol between the runtime and an external agent (plexis-core, protocol.rs), the
registry of its backends (plexis-runtime, backend/mod.rs) and the messages exchanged with a
provider (plexis-providers, types.rs).\<close>

section \<open>Requests\<close>

definition PROTOCOL_VERSION_V1 :: string where
  "PROTOCOL_VERSION_V1 = ''1.0''"

record ExecutionRequest =
  rq_protocol_version :: string
  rq_execution_id :: ident
  rq_agent_id :: ident
  rq_role :: string
  rq_objective :: string
  rq_description :: "string option"
  rq_workspace_path :: string
  rq_environment :: "(string \<times> string) list"
  rq_timeout_secs :: u64
  rq_requested_capabilities :: "string list"
  rq_failure_mode :: "string option"
  rq_delay_ms :: "u64 option"
  rq_execution_policy :: "string option"
  rq_model :: "string option"
  rq_correlation_metadata :: json

definition ExecutionRequest_new :: "ident \<Rightarrow> ident \<Rightarrow> string \<Rightarrow> string \<Rightarrow> string \<Rightarrow> ExecutionRequest" where
  "ExecutionRequest_new execution_id agent_id role objective workspace_path =
    \<lparr>rq_protocol_version = PROTOCOL_VERSION_V1, rq_execution_id = execution_id, rq_agent_id = agent_id,
     rq_role = role, rq_objective = objective, rq_description = None, rq_workspace_path = workspace_path,
     rq_environment = [], rq_timeout_secs = 300, rq_requested_capabilities = [], rq_failure_mode = None,
     rq_delay_ms = None, rq_execution_policy = None, rq_model = None, rq_correlation_metadata = JObj []\<rparr>"

section \<open>Events\<close>

datatype ExecutionEventType =
    Started u32
  | Stdout string
  | Stderr string
  | ToolAction string string json
  | Progress single string
  | Warned string
  | Completed
  | Failed string "int option"
  | Cancelled

record ExecutionEvent =
  ev_protocol_version :: string
  ev_execution_id :: ident
  ev_timestamp :: time
  ev_event :: ExecutionEventType

definition ExecutionEvent_new :: "time \<Rightarrow> ident \<Rightarrow> ExecutionEventType \<Rightarrow> ExecutionEvent" where
  "ExecutionEvent_new now execution_id e =
    \<lparr>ev_protocol_version = PROTOCOL_VERSION_V1, ev_execution_id = execution_id, ev_timestamp = now, ev_event = e\<rparr>"

section \<open>Results\<close>

record ExecutionResult =
  er_protocol_version :: string
  er_execution_id :: ident
  er_exit_code :: int
  er_success :: bool
  er_summary :: string
  er_changed_files :: "string list"
  er_commit_sha :: "string option"
  er_duration_ms :: u64
  er_failure_reason :: "string option"
  er_raw_stdout :: "string option"
  er_raw_stderr :: "string option"
  er_pid :: "u32 option"

definition ExecutionResult_success ::
  "ident \<Rightarrow> string \<Rightarrow> string list \<Rightarrow> string option \<Rightarrow> u64 \<Rightarrow> ExecutionResult" where
  "ExecutionResult_success execution_id summary changed_files commit_sha duration_ms =
    \<lparr>er_protocol_version = PROTOCOL_VERSION_V1, er_execution_id = execution_id, er_exit_code = 0, er_success = True,
     er_summary = summary, er_changed_files = changed_files, er_commit_sha = commit_sha, er_duration_ms = duration_ms,
     er_failure_reason = None, er_raw_stdout = None, er_raw_stderr = None, er_pid = None\<rparr>"

definition ExecutionResult_failure :: "ident \<Rightarrow> int \<Rightarrow> string \<Rightarrow> u64 \<Rightarrow> ExecutionResult" where
  "ExecutionResult_failure execution_id code why duration_ms =
    \<lparr>er_protocol_version = PROTOCOL_VERSION_V1, er_execution_id = execution_id, er_exit_code = code, er_success = False,
     er_summary = ''Execution failed: '' @ why, er_changed_files = [], er_commit_sha = None, er_duration_ms = duration_ms,
     er_failure_reason = Some why, er_raw_stdout = None, er_raw_stderr = None, er_pid = None\<rparr>"

section \<open>Backends\<close>

text \<open>A backend runs the program of an external agent: the events it streams and its result,
or the text of the error.\<close>

record AgentBackend =
  bk_id :: string
  bk_execute :: "ExecutionRequest \<Rightarrow> ExecutionEvent list \<times> (ExecutionResult, string) result"

type_synonym BackendRegistry = "(string \<times> AgentBackend) list"

definition register_backend :: "AgentBackend \<Rightarrow> BackendRegistry \<Rightarrow> BackendRegistry" where
  "register_backend b reg = AList.update (bk_id b) b reg"

section \<open>Provider messages\<close>

datatype ChatRole = SystemRole | UserRole | AssistantRole | ToolRole

record ToolCall =
  tl_id :: string
  tl_name :: string
  tl_arguments :: string

record ChatMessage =
  cm_role :: ChatRole
  cm_content :: "string option"
  cm_tool_calls :: "ToolCall list option"
  cm_tool_call_id :: "string option"
  cm_name :: "string option"

definition ChatMessage_plain :: "ChatRole \<Rightarrow> string \<Rightarrow> ChatMessage" where
  "ChatMessage_plain role content =
    \<lparr>cm_role = role, cm_content = Some content, cm_tool_calls = None, cm_tool_call_id = None, cm_name = None\<rparr>"

definition ChatMessage_with_tools :: "ToolCall list \<Rightarrow> ChatMessage" where
  "ChatMessage_with_tools calls =
    \<lparr>cm_role = AssistantRole, cm_content = None, cm_tool_calls = Some calls, cm_tool_call_id = None, cm_name = None\<rparr>"

definition ChatMessage_tool_response :: "string \<Rightarrow> string \<Rightarrow> ChatMessage" where
  "ChatMessage_tool_response call_id content =
    \<lparr>cm_role = ToolRole, cm_content = Some content, cm_tool_calls = None, cm_tool_call_id = Some call_id, cm_name = None\<rparr>"

record ToolDefinition =
  td_name :: string
  td_description :: string
  td_parameters :: json

definition ToolDefinition_new :: "string \<Rightarrow> string \<Rightarrow> json \<Rightarrow> ToolDefinition" where
  "ToolDefinition_new name description parameters =
    \<lparr>td_name = name, td_description = description, td_parameters = parameters\<rparr>"

record CompletionRequest =
  cr_model :: string
  cr_messages :: "ChatMessage list"
  cr_tools :: "ToolDefinition list"
  cr_temperature :: "single option"
  cr_max_tokens :: "u32 option"

definition CompletionRequest_new :: "string \<Rightarrow> ChatMessage list \<Rightarrow> CompletionRequest" where
  "CompletionRequest_new model messages =
    \<lparr>cr_model = model, cr_messages = messages, cr_tools = [], cr_temperature = None, cr_max_tokens = None\<rparr>"

datatype FinishReason = Stop | ToolCalls | Length | ContentFilter | Other string

record TokenUsage =
  tu_prompt_tokens :: u32
  tu_completion_tokens :: u32
  tu_total_tokens :: u32

definition TokenUsage_default :: TokenUsage where
  "TokenUsage_default = \<lparr>tu_prompt_tokens = 0, tu_completion_tokens = 0, tu_total_tokens = 0\<rparr>"

record CompletionResponse =
  cp_message :: ChatMessage
  cp_usage :: TokenUsage
  cp_finish_reason :: FinishReason

definition CompletionResponse_text :: "string \<Rightarrow> CompletionResponse" where
  "CompletionResponse_text content =
    \<lparr>cp_message = ChatMessage_plain AssistantRole content, cp_usage = TokenUsage_default, cp_finish_reason = Stop\<rparr>"

definition CompletionResponse_tool_calls :: "ToolCall list \<Rightarrow> CompletionResponse" where
  "CompletionResponse_tool_calls calls =
    \<lparr>cp_message = ChatMessage_with_tools calls, cp_usage = TokenUsage_default, cp_finish_reason = ToolCalls\<rparr>"

end
