(* ===== verification/Tool_Schemas.thy ===== *)
theory Tool_Schemas
  imports Protocol
begin

text \<open>The definitions of the tools a provider is told of: those of the built-in tools of
plexis-tools and of the tools the runner of plexis-runtime answers itself.\<close>

definition filesystem_schema :: json where
  "filesystem_schema =
    JObj
     [(''type'', JStr ''object''),
      (''properties'', JObj
       [(''action'', JObj
         [(''type'', JStr ''string''),
          (''enum'', JArr [JStr ''read_file'', JStr ''write_file'', JStr ''list_dir'', JStr ''file_exists'', JStr ''read_multiple_files'', JStr ''apply_patch'']),
          (''description'', JStr ''The filesystem operation to perform'')]),
        (''path'', JObj
         [(''type'', JStr ''string''),
          (''description'', JStr ''Relative or absolute path within the authorized workspace'')]),
        (''paths'', JObj
         [(''type'', JStr ''array''),
          (''items'', JObj [(''type'', JStr ''string'')]),
          (''description'', JStr ''List of paths to read for multi-file inspection'')]),
        (''content'', JObj [(''type'', JStr ''string''), (''description'', JStr ''File contents to write or patch'')]),
        (''start_line'', JObj
         [(''type'', JStr ''integer''),
          (''description'', JStr ''Starting line number (1-indexed) for partial read'')]),
        (''end_line'', JObj
         [(''type'', JStr ''integer''),
          (''description'', JStr ''Ending line number (1-indexed) for partial read'')]),
        (''numbered'', JObj
         [(''type'', JStr ''boolean''),
          (''description'', JStr ''Whether to prefix output lines with line numbers'')]),
        (''overwrite'', JObj
         [(''type'', JStr ''boolean''),
          (''description'', JStr ''Whether to allow overwriting an existing file (defaults to true)'')]),
        (''search'', JObj
         [(''type'', JStr ''string''),
          (''description'', JStr ''Target string or block to replace for patch action'')]),
        (''replace'', JObj
         [(''type'', JStr ''string''),
          (''description'', JStr ''Replacement string or block for patch action'')]),
        (''patch'', JObj
         [(''type'', JStr ''string''),
          (''description'', JStr ''Patch content (diff or search/replace block)'')])]),
      (''required'', JArr [JStr ''action''])]"

definition shell_schema :: json where
  "shell_schema =
    JObj
     [(''type'', JStr ''object''),
      (''properties'', JObj
       [(''command'', JObj
         [(''type'', JStr ''string''),
          (''description'', JStr ''Shell command line to execute in the workspace directory'')]),
        (''timeout_seconds'', JObj
         [(''type'', JStr ''integer''),
          (''description'', JStr ''Optional execution timeout in seconds'')])]),
      (''required'', JArr [JStr ''command''])]"

definition git_schema :: json where
  "git_schema =
    JObj
     [(''type'', JStr ''object''),
      (''properties'', JObj
       [(''action'', JObj
         [(''type'', JStr ''string''),
          (''enum'', JArr [JStr ''status'', JStr ''diff'', JStr ''log'', JStr ''commit'', JStr ''checkout'', JStr ''branch'', JStr ''conflicts'']),
          (''description'', JStr ''Git subcommand to execute'')]),
        (''message'', JObj
         [(''type'', JStr ''string''),
          (''description'', JStr (''Commit message (required for '' @ single_quoted ''commit'' @ '' action)''))]),
        (''branch'', JObj
         [(''type'', JStr ''string''),
          (''description'', JStr (''Branch name (for '' @ single_quoted ''checkout'' @ '' or '' @ single_quoted ''branch'' @ '' action)''))]),
        (''create_branch'', JObj
         [(''type'', JStr ''boolean''),
          (''description'', JStr ''Whether to create a new branch (e.g. checkout -b)'')]),
        (''max_commits'', JObj
         [(''type'', JStr ''integer''),
          (''description'', JStr (''Maximum number of commits to list (for '' @ single_quoted ''log'' @ '' action, default 10)''))]),
        (''staged'', JObj [(''type'', JStr ''boolean''), (''description'', JStr ''Whether to diff staged changes'')]),
        (''path'', JObj [(''type'', JStr ''string''), (''description'', JStr ''Optional file path to scope diff'')])]),
      (''required'', JArr [JStr ''action''])]"

definition send_message_definition :: ToolDefinition where
  "send_message_definition = ToolDefinition_new ''send_message''
    ''Send a durable message to another agent in this workflow''
    (JObj
      [(''type'', JStr ''object''),
       (''properties'', JObj
        [(''to_agent'', JObj [(''type'', JStr ''string''), (''description'', JStr ''Target agent ID'')]),
         (''message_type'', JObj
          [(''type'', JStr ''string''),
           (''enum'', JArr [JStr ''question'', JStr ''request'', JStr ''result'', JStr ''handoff'', JStr ''warning'', JStr ''review'', JStr ''rejection'', JStr ''proposal'', JStr ''artifact_reference''])]),
         (''content'', JObj [(''type'', JStr ''string''), (''description'', JStr ''Text message content'')]),
         (''payload'', JObj [(''type'', JStr ''object''), (''description'', JStr ''Optional structured payload'')])]),
       (''required'', JArr [JStr ''to_agent'', JStr ''message_type'', JStr ''content''])])"

definition request_human_approval_definition :: ToolDefinition where
  "request_human_approval_definition = ToolDefinition_new ''request_human_approval''
    ''Request explicit human authorization before executing a sensitive action''
    (JObj
      [(''type'', JStr ''object''),
       (''properties'', JObj
        [(''description'', JObj [(''type'', JStr ''string''), (''description'', JStr ''Action requiring authorization'')]),
         (''reason'', JObj
          [(''type'', JStr ''string''),
           (''description'', JStr ''Justification for requiring authorization'')])]),
       (''required'', JArr [JStr ''description''])])"

definition save_memory_definition :: ToolDefinition where
  "save_memory_definition = ToolDefinition_new ''save_memory''
    ''Persist a valuable project constraint, architecture decision, or discovery to durable memory''
    (JObj
      [(''type'', JStr ''object''),
       (''properties'', JObj
        [(''content'', JObj
          [(''type'', JStr ''string''),
           (''description'', JStr ''Knowledge, constraint, or insight to persist'')]),
         (''scope'', JObj
          [(''type'', JStr ''string''),
           (''enum'', JArr [JStr ''project'', JStr ''workflow'', JStr ''task'', JStr ''agent'']),
           (''description'', JStr ''Scope of memory visibility (default: project)'')]),
         (''importance'', JObj
          [(''type'', JStr ''number''),
           (''description'', JStr ''Importance score between 0.0 and 1.0 (default: 0.8)'')])]),
       (''required'', JArr [JStr ''content''])])"

definition search_memory_definition :: ToolDefinition where
  "search_memory_definition = ToolDefinition_new ''search_memory''
    ''Retrieve persistent memories matching a text query''
    (JObj
      [(''type'', JStr ''object''),
       (''properties'', JObj
        [(''query'', JObj [(''type'', JStr ''string''), (''description'', JStr ''Text search query'')]),
         (''scope'', JObj
          [(''type'', JStr ''string''),
           (''description'', JStr ''Optional scope filter (project, workflow, task)'')])]),
       (''required'', JArr [JStr ''query''])])"

definition filesystem_definition :: ToolDefinition where
  "filesystem_definition = ToolDefinition_new ''filesystem''
    ''Read, write, inspect, and patch files and directories safely inside the workspace sandbox'' filesystem_schema"

definition shell_definition :: ToolDefinition where
  "shell_definition = ToolDefinition_new ''shell''
    ''Execute a shell command within the sandboxed project workspace with execution timeout and secret isolation''
    shell_schema"

definition git_definition :: ToolDefinition where
  "git_definition = ToolDefinition_new ''git''
    ''Perform Git version control operations (status, diff, log, commit, checkout, branch, conflicts) within the workspace''
    git_schema"

end
