(* ===== verification/Prompt.thy ===== *)
theory Prompt
  imports Protocol
begin

text \<open>The assembly of the prompt of an agent in plexis-runtime (context/mod.rs): what it is
built from, its budget, the tiers in their order, and the record of what was left out. The text
of a score is a parameter. A slice of a text that ends inside a character panics, which is
None.\<close>

section \<open>Budgets and receipts\<close>

record ContextProvenanceItem =
  pi_section :: string
  pi_source_id :: "string option"
  pi_estimated_tokens :: nat
  pi_truncated :: bool

record OmissionReceipt =
  or_section :: string
  or_count :: nat
  or_reason :: string
  or_units_saved :: nat

record ContextProvenance =
  cv_items :: "ContextProvenanceItem list"
  cv_total_estimated_tokens :: nat
  cv_omission_receipts :: "OmissionReceipt list"

record ContextBudget =
  max_input_tokens :: nat
  max_history_turns :: nat
  max_artifact_bytes :: nat
  max_memories :: nat

definition ContextBudget_default :: ContextBudget where
  "ContextBudget_default = \<lparr>max_input_tokens = 8192, max_history_turns = 12, max_artifact_bytes = 4096, max_memories = 5\<rparr>"

definition estimate_tokens :: "nat \<Rightarrow> nat" where
  "estimate_tokens bytes = (bytes + 3) div 4"

record ContextSummary =
  cx_messages :: "ChatMessage list"
  cx_estimated_tokens :: nat
  cx_omitted_messages_count :: nat
  cx_truncated_bytes :: nat
  cx_provenance :: ContextProvenance
  cx_omission_receipts :: "OmissionReceipt list"

record RecoveryAdvice =
  ra_strategy :: string
  ra_strategy_version :: u32
  ra_diagnosis :: string
  ra_action :: string

record ScoredMemory =
  sm_record :: MemoryRecord
  sm_similarity :: single
  sm_importance_score :: single
  sm_recency_score :: single
  sm_total_score :: single

record ContextBuilder =
  cb_agent :: Agent
  cb_workflow_objective :: string
  cb_task :: Task
  cb_system_rules :: "string list"
  cb_dependency_summaries :: "(string \<times> string) list"
  cb_failure_evidence :: "string option"
  cb_recovery_advice :: "RecoveryAdvice option"
  cb_retrieved_memories :: "ScoredMemory list"
  cb_incoming_messages :: "AgentMessage list"
  cb_tool_history :: "(string \<times> string) list"
  cb_workspace_path :: string
  cb_budget :: ContextBudget

definition ContextBuilder_new :: "Agent \<Rightarrow> string \<Rightarrow> Task \<Rightarrow> ContextBuilder" where
  "ContextBuilder_new agent workflow_objective task =
    \<lparr>cb_agent = agent, cb_workflow_objective = workflow_objective, cb_task = task, cb_system_rules = [],
     cb_dependency_summaries = [], cb_failure_evidence = None, cb_recovery_advice = None, cb_retrieved_memories = [],
     cb_incoming_messages = [], cb_tool_history = [], cb_workspace_path = ''.'', cb_budget = ContextBudget_default\<rparr>"

section \<open>The tiers\<close>

text \<open>What is assembled so far: the text for the user, the provenance, the receipts and the
number of bytes cut off.\<close>

record Draft =
  dr_text :: string
  dr_items :: "ContextProvenanceItem list"
  dr_receipts :: "OmissionReceipt list"
  dr_truncated :: nat

definition nat_text :: "nat \<Rightarrow> string" where
  "nat_text n = decimal n"

definition provenance_item :: "string \<Rightarrow> string option \<Rightarrow> bool \<Rightarrow> string \<Rightarrow> ContextProvenanceItem" where
  "provenance_item section_name source truncated s =
    \<lparr>pi_section = section_name, pi_source_id = source, pi_estimated_tokens = estimate_tokens (utf8_length s), pi_truncated = truncated\<rparr>"

definition add_text :: "string \<Rightarrow> Draft \<Rightarrow> Draft" where
  "add_text s d = d\<lparr>dr_text := dr_text d @ s\<rparr>"

definition add_line :: "string \<Rightarrow> string option \<Rightarrow> bool \<Rightarrow> string \<Rightarrow> Draft \<Rightarrow> Draft" where
  "add_line section_name source truncated s d =
    d\<lparr>dr_text := dr_text d @ s, dr_items := dr_items d @ [provenance_item section_name source truncated s]\<rparr>"

definition add_receipt :: "string \<Rightarrow> nat \<Rightarrow> string \<Rightarrow> nat \<Rightarrow> Draft \<Rightarrow> Draft" where
  "add_receipt section_name count_omitted why saved d =
    d\<lparr>dr_receipts := dr_receipts d @
        [\<lparr>or_section = section_name, or_count = count_omitted, or_reason = why, or_units_saved = saved\<rparr>]\<rparr>"

definition system_text :: "ContextBuilder \<Rightarrow> string" where
  "system_text b =
    ''You are an autonomous Plexis agent named '' @ single_quoted (a_display_name (cb_agent b)) @ '' with role '' @
    single_quoted (a_role (cb_agent b)) @ ''.'' @ newline @
    ''Workflow Objective: '' @ cb_workflow_objective b @ newline @
    ''Current Task Objective: '' @ t_objective (cb_task b) @ newline @
    ''Workspace Root: '' @ cb_workspace_path b @ newline @
    ''Declared Capabilities: ['' @ join '', '' (a_capabilities (cb_agent b)) @ '']'' @ newline @
    (if cb_system_rules b = [] then []
     else newline @ ''SYSTEM RULES:'' @ newline @ concat (map (\<lambda>r. ''- '' @ r @ newline) (cb_system_rules b)))"

definition task_text :: "ContextBuilder \<Rightarrow> string" where
  "task_text b =
    ''EXECUTION TASK:'' @ newline @ ''Objective: '' @ t_objective (cb_task b) @ newline @
    (case t_description (cb_task b) of None \<Rightarrow> [] | Some desc \<Rightarrow> ''Description: '' @ desc @ newline) @
    (if t_criteria (cb_task b) = [] then []
     else ''Acceptance Criteria (Independent verifier will inspect these):'' @ newline @
       concat (map (\<lambda>c. ''  * '' @ c @ newline) (t_criteria (cb_task b))))"

definition first_draft :: "ContextBuilder \<Rightarrow> Draft" where
  "first_draft b =
    \<lparr>dr_text = task_text b,
     dr_items = [provenance_item ''system_identity_and_rules'' (Some (decimal (a_id (cb_agent b)))) False (system_text b),
       provenance_item ''task_contract'' (Some (decimal (t_id (cb_task b)))) False (task_text b)],
     dr_receipts = [], dr_truncated = 0\<rparr>"

definition failure_text :: "string \<Rightarrow> RecoveryAdvice option \<Rightarrow> string" where
  "failure_text evidence advice =
    newline @ ''[ATTENTION - PREVIOUS ATTEMPT FAILED]:'' @ newline @ evidence @ newline @
    ''Fix the root cause and ensure all acceptance criteria pass.'' @ newline @
    (case advice of
       None \<Rightarrow> []
     | Some r \<Rightarrow> newline @ ''[RECOVERY STRATEGY (v'' @ dec_word (ra_strategy_version r) @ '') - '' @ ra_strategy r @ '']:'' @ newline @
         ''Diagnosis: '' @ ra_diagnosis r @ newline @ ''Recommended Action: '' @ ra_action r @ newline)"

definition add_failure :: "ContextBuilder \<Rightarrow> Draft \<Rightarrow> Draft" where
  "add_failure b d =
    (case cb_failure_evidence b of
       None \<Rightarrow> d
     | Some evidence \<Rightarrow> add_line ''failure_and_recovery_advice'' None False (failure_text evidence (cb_recovery_advice b)) d)"

definition memory_line :: "(single \<Rightarrow> string) \<Rightarrow> ScoredMemory \<Rightarrow> string" where
  "memory_line show_score m =
    ''* ['' @ MemoryScope_as_str (mem_scope (sm_record m)) @ ''] (Relevance: '' @ show_score (sm_total_score m) @
    '', Source: '' @ mem_source (sm_record m) @ ''): '' @ mem_content (sm_record m) @ newline"

definition add_memories :: "(single \<Rightarrow> string) \<Rightarrow> ContextBuilder \<Rightarrow> Draft \<Rightarrow> Draft" where
  "add_memories show_score b d =
    (if cb_retrieved_memories b = [] then d
     else let total = length (cb_retrieved_memories b);
              kept = min total (max_memories (cb_budget b));
              d1 = (if kept < total
                    then add_receipt ''persistent_memories'' (total - kept) ''Exceeded max_memories budget cap'' ((total - kept) * 64) d
                    else d)
          in fold (\<lambda>m. add_line ''persistent_memory'' (Some (decimal (mem_id (sm_record m)))) False (memory_line show_score m))
               (take kept (cb_retrieved_memories b))
               (add_text (newline @ ''RECALLED PERSISTENT KNOWLEDGE / MEMORY:'' @ newline) d1))"

fun add_artifact :: "nat \<Rightarrow> string \<times> string \<Rightarrow> Draft \<Rightarrow> Draft option" where
  "add_artifact limit (name, content) d =
    (if limit < utf8_length content
     then (case utf8_take limit content of
             None \<Rightarrow> None
           | Some kept \<Rightarrow>
               (let omitted = utf8_length content - limit;
                    d1 = add_receipt (''artifact_summary_'' @ name) 1 ''Exceeded max_artifact_bytes limit'' omitted
                           (d\<lparr>dr_truncated := dr_truncated d + omitted\<rparr>)
                in Some (add_line ''dependency_artifact'' (Some name) True
                     (''--- '' @ name @ '' ---'' @ newline @ kept @ newline @ ''[truncated: omitted '' @ nat_text omitted @ '' bytes]'' @ newline) d1)))
     else Some (add_line ''dependency_artifact'' (Some name) False (''--- '' @ name @ '' ---'' @ newline @ content @ newline) d))"

fun fold_option :: "('a \<Rightarrow> 'b \<Rightarrow> 'b option) \<Rightarrow> 'a list \<Rightarrow> 'b \<Rightarrow> 'b option" where
  "fold_option f [] b = Some b"
| "fold_option f (a # as) b = Option.bind (f a b) (fold_option f as)"

definition add_artifacts :: "ContextBuilder \<Rightarrow> Draft \<Rightarrow> Draft option" where
  "add_artifacts b d =
    (if cb_dependency_summaries b = [] then Some d
     else fold_option (add_artifact (max_artifact_bytes (cb_budget b))) (cb_dependency_summaries b)
            (add_text (newline @ ''PREREQUISITE ARTIFACTS / UPSTREAM CONTEXT:'' @ newline) d))"

fun message_type_debug :: "MessageType \<Rightarrow> string" where
  "message_type_debug Question = ''Question''"
| "message_type_debug Request = ''Request''"
| "message_type_debug Result = ''Result''"
| "message_type_debug Handoff = ''Handoff''"
| "message_type_debug Warning = ''Warning''"
| "message_type_debug Review = ''Review''"
| "message_type_debug Rejection = ''Rejection''"
| "message_type_debug Proposal = ''Proposal''"
| "message_type_debug ArtifactReference = ''ArtifactReference''"

definition peer_line :: "AgentMessage \<Rightarrow> string" where
  "peer_line m =
    ''['' @ message_type_debug (msg_message_type m) @ '' from '' @ decimal (msg_from_agent m) @ '']: '' @ msg_content m @ newline"

definition omitted_messages :: "ContextBuilder \<Rightarrow> nat" where
  "omitted_messages b = length (cb_incoming_messages b) - max_history_turns (cb_budget b)"

definition add_messages :: "ContextBuilder \<Rightarrow> Draft \<Rightarrow> Draft" where
  "add_messages b d =
    (let omitted = omitted_messages b;
         shown = drop omitted (cb_incoming_messages b);
         d1 = (if 0 < omitted
               then add_text (newline @ ''[Note: '' @ nat_text omitted @ '' older messages omitted to conserve context budget]'' @ newline)
                      (add_receipt ''peer_messages'' omitted ''Exceeded max_history_turns'' (omitted * 32) d)
               else d)
     in if shown = [] then d1
        else fold (\<lambda>m. add_line ''peer_message'' (Some (decimal (msg_id m))) False (peer_line m)) shown
               (add_text (newline @ ''RECENT MESSAGES FROM PEER AGENTS:'' @ newline) d1))"

fun add_tool_output :: "string \<times> string \<Rightarrow> Draft \<Rightarrow> Draft option" where
  "add_tool_output (tool, out) d =
    (if 512 < utf8_length out
     then (case utf8_take 512 out of
             None \<Rightarrow> None
           | Some kept \<Rightarrow>
               (let omitted = utf8_length out - 512
                in Some (add_line ''tool_history'' (Some tool) True
                     (''$ '' @ tool @ newline @ kept @ ''... [truncated '' @ nat_text omitted @ '' bytes]'' @ newline)
                     (d\<lparr>dr_truncated := dr_truncated d + omitted\<rparr>))))
     else Some (add_line ''tool_history'' (Some tool) False (''$ '' @ tool @ newline @ out @ newline) d))"

definition add_tool_history :: "ContextBuilder \<Rightarrow> Draft \<Rightarrow> Draft option" where
  "add_tool_history b d =
    (if cb_tool_history b = [] then Some d
     else fold_option add_tool_output (cb_tool_history b)
            (add_text (newline @ ''RECENT EXECUTION TOOL OUTPUTS:'' @ newline) d))"

definition receipt_line :: "OmissionReceipt \<Rightarrow> string" where
  "receipt_line r =
    ''* Omitted/Truncated in '' @ single_quoted (or_section r) @ '': '' @ nat_text (or_count r) @ '' items ('' @ or_reason r @ '')'' @ newline"

definition add_receipts :: "Draft \<Rightarrow> Draft" where
  "add_receipts d =
    (if dr_receipts d = [] then d
     else add_text (newline @ ''[CONTEXT ADVISORY - OMISSION RECEIPTS]:'' @ newline @ concat (map receipt_line (dr_receipts d))) d)"

section \<open>The prompt\<close>

definition draft :: "(single \<Rightarrow> string) \<Rightarrow> ContextBuilder \<Rightarrow> Draft option" where
  "draft show_score b =
    Option.bind (add_artifacts b (add_memories show_score b (add_failure b (first_draft b)))) (\<lambda>d.
      map_option add_receipts (add_tool_history b (add_messages b d)))"

definition build :: "(single \<Rightarrow> string) \<Rightarrow> ContextBuilder \<Rightarrow> ContextSummary option" where
  "build show_score b =
    map_option (\<lambda>d.
      (let tokens = estimate_tokens (utf8_length (system_text b) + utf8_length (dr_text d)) in
       \<lparr>cx_messages = [ChatMessage_plain SystemRole (system_text b), ChatMessage_plain UserRole (dr_text d)],
        cx_estimated_tokens = tokens, cx_omitted_messages_count = omitted_messages b, cx_truncated_bytes = dr_truncated d,
        cx_provenance = \<lparr>cv_items = dr_items d, cv_total_estimated_tokens = tokens, cv_omission_receipts = dr_receipts d\<rparr>,
        cx_omission_receipts = dr_receipts d\<rparr>))
      (draft show_score b)"

end
