(* ===== verification/Runner_Start.thy ===== *)
theory Runner_Start
  imports Governance Recovery Verifier Storage_Records Tool_Processes Tool_Schemas Prompt
begin

text \<open>The agent runner of plexis-runtime (runner.rs), up to the choice of a backend: the
command is decoded and fenced against the lease of its task, a session is found or created,
and the attempt is recorded. The environment holds what the runner is built with and what it
asks from outside; between its turns other threads may change the store. A lease error keeps
no text, the error of a malformed identifier not its cause. Index assignment to a value that
is neither an object nor null panics, which is an execution error of its own text.\<close>

section \<open>The environment\<close>

text \<open>A provider may answer differently in each turn.\<close>

record Provider =
  pv_id :: string
  pv_complete :: "nat \<Rightarrow> CompletionRequest \<Rightarrow> (CompletionResponse, string) result"

record RunnerEnv =
  rn_start :: time
  rn_finish :: time
  rn_cwd :: string
  rn_json :: "string \<Rightarrow> json option"
  rn_show :: "json \<Rightarrow> string"
  rn_single :: "int \<Rightarrow> single"
  rn_number :: "single \<Rightarrow> json"
  rn_worktree :: "string \<Rightarrow> string \<Rightarrow> (string, string) result"
  rn_score :: "single \<Rightarrow> string"
  rn_providers :: "(string \<times> Provider) list"
  rn_registry :: ToolRegistry
  rn_tool_definitions :: "ToolDefinition list"
  rn_tool_env :: "nat \<Rightarrow> nat \<Rightarrow> ToolEnv"
  rn_replacer :: replacer
  rn_world :: "nat \<Rightarrow> Db \<Rightarrow> Db"
  rn_verifier :: "string \<Rightarrow> VerifierEnv"
  rn_recovery :: "u32 option"
  rn_backends :: BackendRegistry
  rn_builtin_backend :: "string \<Rightarrow> AgentBackend"

section \<open>Decoding\<close>

definition invalid :: "string \<Rightarrow> ('a, RuntimeError) result" where
  "invalid m = Err (InvalidCommand m)"

definition payload_ident :: "string \<Rightarrow> json \<Rightarrow> (ident, RuntimeError) result" where
  "payload_ident k payload =
    (case meta_get_str k payload of
       None \<Rightarrow> invalid (''Missing '' @ single_quoted k @ '' in command payload'')
     | Some s \<Rightarrow> (case parse_ident s of Some i \<Rightarrow> Ok i | None \<Rightarrow> invalid (''Invalid '' @ k)))"

definition decode_command :: "Command \<Rightarrow> (ident \<times> ident, RuntimeError) result" where
  "decode_command c =
    (if c_command_type c \<noteq> ExecuteTask then invalid ''Command is not an ExecuteTask command''
     else case c_target c of
       CommandTarget.Agent a \<Rightarrow> and_then (payload_ident ''task_id'' (c_payload c)) (\<lambda>t. Ok (t, a))
     | CommandTarget.Task t \<Rightarrow> and_then (payload_ident ''agent_id'' (c_payload c)) (\<lambda>a. Ok (t, a))
     | _ \<Rightarrow> invalid ''Command is not an ExecuteTask command'')"

section \<open>Fencing\<close>

text \<open>The token is a u64; another value of the key counts as absent.\<close>

definition json_u64 :: "json \<Rightarrow> u64 option" where
  "json_u64 v = (case v of JNum n \<Rightarrow> if 0 \<le> n \<and> n < 2 ^ 64 then Some (of_int n) else None | _ \<Rightarrow> None)"

definition fencing_token :: "Command \<Rightarrow> u64 option" where
  "fencing_token c = Option.bind (json_get ''lease_generation'' (c_payload c)) json_u64"

definition lease_error :: RuntimeError where
  "lease_error = RuntimeError.Lease None"

definition check_fencing :: "time \<Rightarrow> u64 option \<Rightarrow> ident \<Rightarrow> Lease option \<Rightarrow> (unit, RuntimeError) result" where
  "check_fencing now token agent_id lease =
    (case (token, lease) of
       (Some g, Some l) \<Rightarrow>
         if l_agent_id l \<noteq> agent_id then Err lease_error
         else if l_generation l \<noteq> g then Err lease_error
         else if Lease_is_expired l now then Err lease_error
         else Ok ()
     | (Some g, None) \<Rightarrow> Err lease_error
     | (None, Some l) \<Rightarrow>
         if Lease_is_expired l now then Err lease_error
         else if l_agent_id l \<noteq> agent_id then Err lease_error
         else Ok ()
     | (None, None) \<Rightarrow> Ok ())"

section \<open>The attempt\<close>

definition run_event :: "time \<Rightarrow> string \<Rightarrow> ident \<Rightarrow> string \<Rightarrow> (Db, unit, RuntimeError) op" where
  "run_event now ty agg event_type = rt_store (try_event now ty agg event_type)"

definition get_or_create_session :: "time \<Rightarrow> Agent \<Rightarrow> (Db, Session, RuntimeError) op" where
  "get_or_create_session now a db =
    (case List.find Session_is_active (list_sessions_by_agent (a_id a) db) of
       Some s \<Rightarrow> (db, Ok s)
     | None \<Rightarrow>
         (let s = Session_new (fresh_id (map s_id (db_sessions db))) now (a_id a) in
          st_then (rt_store (create_session s)) (\<lambda>_ db1. (db1, Ok s)) db))"

definition started_task :: "time \<Rightarrow> ident \<Rightarrow> Task \<Rightarrow> Task" where
  "started_task now agent_id t =
    (let t1 = t\<lparr>t_attempts := t_attempts t + 1, t_assigned_agent_id := Some agent_id\<rparr> in
     case t_state t of
       TaskState.Backlog \<Rightarrow>
         attempt_transition now TaskState.Running
           (attempt_transition now TaskState.Assigned (attempt_transition now TaskState.Ready t1))
     | TaskState.Ready \<Rightarrow> attempt_transition now TaskState.Running (attempt_transition now TaskState.Assigned t1)
     | TaskState.Assigned \<Rightarrow> attempt_transition now TaskState.Running t1
     | _ \<Rightarrow> t1)"

record Attempt =
  at_task :: Task
  at_agent :: Agent
  at_execution :: Execution
  at_session :: Session

definition new_execution :: "time \<Rightarrow> Task \<Rightarrow> ident \<Rightarrow> ident \<Rightarrow> Db \<Rightarrow> Execution" where
  "new_execution now t agent_id session_id db =
    (Execution_new (fresh_id (map x_id (db_executions db))) now (t_id t) agent_id (t_attempts t))\<lparr>x_session_id := Some session_id\<rparr>"

definition running_execution :: "time \<Rightarrow> Execution \<Rightarrow> (Execution, RuntimeError) result" where
  "running_execution now x = map_err (\<lambda>e. InvalidCommand (transition_display e)) (Execution_mark_running now x)"

definition busy :: "ident \<Rightarrow> Agent \<Rightarrow> Agent" where
  "busy execution_id a = a\<lparr>a_state := AgentState.Busy, a_current_execution_id := Some execution_id\<rparr>"

definition idle :: "Agent \<Rightarrow> Agent" where
  "idle a = a\<lparr>a_state := AgentState.Idle, a_current_execution_id := None\<rparr>"

definition begin_attempt :: "RunnerEnv \<Rightarrow> Task \<Rightarrow> Agent \<Rightarrow> (Db, Attempt, RuntimeError) op" where
  "begin_attempt env t a =
    (let now = rn_start env in
     st_then (get_or_create_session now a) (\<lambda>s.
     st_then (rt_store (update_task (started_task now (a_id a) t))) (\<lambda>_ db1.
       let t1 = started_task now (a_id a) t in
       case running_execution now (new_execution now t1 (a_id a) (s_id s) db1) of
         Err e \<Rightarrow> (db1, Err e)
       | Ok x \<Rightarrow>
           st_then (rt_store (create_execution x)) (\<lambda>_.
           st_then (rt_store (update_agent (busy (x_id x) a))) (\<lambda>_.
           st_then (run_event now ''execution'' (x_id x) ''execution_started'') (\<lambda>_.
           st_then (run_event now ''agent'' (a_id a) ''agent_started'') (\<lambda>_ db2.
             (db2, Ok \<lparr>at_task = t1, at_agent = busy (x_id x) a, at_execution = x, at_session = s\<rparr>))))) db1)))"

definition working_directory :: "RunnerEnv \<Rightarrow> Session \<Rightarrow> string" where
  "working_directory env s = (case s_working_directory s of Some d \<Rightarrow> d | None \<Rightarrow> rn_cwd env)"

section \<open>The choice of a backend\<close>

definition wf_meta :: "string \<Rightarrow> Workflow option \<Rightarrow> json option" where
  "wf_meta k w = Option.bind w (\<lambda>wk. json_get k (w_metadata wk))"

text \<open>The first of the three places that has the key decides, even when it holds no text.\<close>

definition named_backend :: "Task \<Rightarrow> Agent \<Rightarrow> Workflow option \<Rightarrow> string option" where
  "named_backend t a w =
    (case Option.bind (or_else (json_get ''backend'' (t_metadata t))
              (or_else (json_get ''backend'' (a_configuration a)) (wf_meta ''backend'' w))) json_str of
       Some b \<Rightarrow> if b \<in> {''scripted'', ''none'', ''provider''} then None else Some b
     | None \<Rightarrow> None)"

definition external_mode :: "Task \<Rightarrow> Agent \<Rightarrow> Workflow option \<Rightarrow> bool" where
  "external_mode t a w =
    (meta_get_str ''execution_mode'' (t_metadata t) = Some ''external_agent'' \<or>
     meta_get_str ''execution_mode'' (a_configuration a) = Some ''external_agent'' \<or>
     Option.bind (wf_meta ''execution_mode'' w) json_str = Some ''external_agent'' \<or>
     p_provider (a_provider_profile a) = ''external'' \<or> p_provider (a_provider_profile a) = ''fake_agent'')"

definition external_backend_id :: "Task \<Rightarrow> Agent \<Rightarrow> Workflow option \<Rightarrow> string option" where
  "external_backend_id t a w =
    (case named_backend t a w of
       Some b \<Rightarrow> Some b
     | None \<Rightarrow> if external_mode t a w then Some ''fake_agent'' else None)"

section \<open>Isolation\<close>

definition json_bool :: "json \<Rightarrow> bool option" where
  "json_bool v = (case v of JBool b \<Rightarrow> Some b | _ \<Rightarrow> None)"

definition worktree_isolation :: "Task \<Rightarrow> Workflow option \<Rightarrow> bool" where
  "worktree_isolation t w =
    (case or_else (Option.bind (json_get ''worktree_isolation'' (t_metadata t)) json_bool)
            (Option.bind (wf_meta ''worktree_isolation'' w) json_bool) of
       Some b \<Rightarrow> b | None \<Rightarrow> False)"

definition branch_name :: "Agent \<Rightarrow> Task \<Rightarrow> string" where
  "branch_name a t =
    ''agent/'' @ map (\<lambda>c. if c = CHR '' '' \<or> c = CHR ''/'' \<or> c = CHR 0x5C then CHR ''_'' else c)
      (str_to_lowercase (a_role a)) @ ''-'' @ decimal (t_id t)"

definition meta_put :: "string \<Rightarrow> json \<Rightarrow> json \<Rightarrow> (json, RuntimeError) result" where
  "meta_put k x v =
    (case v of
       JObj kvs \<Rightarrow> Ok (json_insert k x v)
     | JNull \<Rightarrow> Ok (JObj [(k, x)])
     | _ \<Rightarrow> Err (Execution ''panic: cannot access key in JSON value''))"

fun meta_puts :: "(string \<times> json) list \<Rightarrow> json \<Rightarrow> (json, RuntimeError) result" where
  "meta_puts [] v = Ok v"
| "meta_puts ((k, x) # kvs) v = and_then (meta_put k x v) (meta_puts kvs)"

definition task_puts :: "(string \<times> json) list \<Rightarrow> Task \<Rightarrow> (Task, RuntimeError) result" where
  "task_puts kvs t = and_then (meta_puts kvs (t_metadata t)) (\<lambda>m. Ok (t\<lparr>t_metadata := m\<rparr>))"

text \<open>The task and the directory the agent works in; a store error of the update is
ignored.\<close>

definition isolate :: "RunnerEnv \<Rightarrow> Task \<Rightarrow> Agent \<Rightarrow> Workflow option \<Rightarrow> string \<Rightarrow> (Db, Task \<times> string, RuntimeError) op" where
  "isolate env t a w dir db =
    (if worktree_isolation t w
     then (case rn_worktree env dir (branch_name a t) of
             Err e \<Rightarrow> (db, Ok (t, dir))
           | Ok p \<Rightarrow>
               (case task_puts [(''worktree_path'', JStr p), (''worktree_branch'', JStr (branch_name a t))] t of
                  Err e \<Rightarrow> (db, Err e)
                | Ok t1 \<Rightarrow> (fst (update_task t1 db), Ok (t1, p))))
     else (db, Ok (t, dir)))"

section \<open>Recovery\<close>

text \<open>Multiplication by five, kept at the largest value, and at least 300.\<close>

definition adapted_timeout :: "json \<Rightarrow> json" where
  "adapted_timeout meta =
    (let cur = (case Option.bind (json_get ''timeout_secs'' meta) json_u64 of Some n \<Rightarrow> uint n | None \<Rightarrow> 300)
     in JNum (max 300 (min (cur * 5) (2 ^ 64 - 1))))"

definition back_to_ready :: "time \<Rightarrow> Task \<Rightarrow> Task" where
  "back_to_ready now t = attempt_transition now TaskState.Ready (t\<lparr>t_assigned_agent_id := None\<rparr>)"

definition stored_quietly :: "(Task, RuntimeError) result \<Rightarrow> (Db, Task, RuntimeError) op" where
  "stored_quietly r db = (case r of Err e \<Rightarrow> (db, Err e) | Ok t \<Rightarrow> (fst (update_task t db), Ok t))"

fun apply_recovery_action :: "time \<Rightarrow> Task \<Rightarrow> RecoveryAction \<Rightarrow> string \<Rightarrow> (Db, Task, RuntimeError) op" where
  "apply_recovery_action now t (MutateStrategy strategy adjustment version) why =
    stored_quietly
      (and_then (task_puts [(''recovery_advice'', JObj [(''strategy'', JStr strategy), (''version'', JNum (uint version)),
           (''failure'', JStr why), (''adjustment'', JStr adjustment)])] t)
        (\<lambda>t1. and_then
          (if strategy = ''timeout_adaptation'' then task_puts [(''timeout_secs'', adapted_timeout (t_metadata t1))] t1 else Ok t1)
          (\<lambda>t2. Ok (back_to_ready now t2))))"
| "apply_recovery_action now t (ReassignAgent role) why =
    stored_quietly
      (and_then (task_puts [(''recovery_advice'', JObj [(''action'', JStr ''reassign_agent''), (''suggested_role'', JStr role),
           (''failure'', JStr why)]), (''suggested_role'', JStr role)] t)
        (\<lambda>t1. Ok (back_to_ready now t1)))"
| "apply_recovery_action now t (RetryWithBackoff delay) why =
    stored_quietly
      (and_then (task_puts [(''recovery_advice'', JObj [(''action'', JStr ''retry_with_backoff''), (''delay_secs'', JNum (uint delay)),
           (''failure'', JStr why)])] t)
        (\<lambda>t1. Ok (back_to_ready now t1)))"
| "apply_recovery_action now t (EscalateFatal fatal) why =
    stored_quietly
      (and_then (task_puts [(''recovery_advice'', JObj [(''action'', JStr ''escalate_fatal''), (''failure'', JStr why),
           (''fatal_reason'', JStr fatal)]), (''fatal_reason'', JStr fatal)] t)
        (\<lambda>t1. Ok (attempt_transition now TaskState.NeedsHuman t1)))"
| "apply_recovery_action now t (ReplanWorkflow r) why = (\<lambda>db. (db, Ok t))"

text \<open>The diagnosis of a failure and its action, when a controller is configured; an error of
the controller is ignored.\<close>

definition recover :: "RunnerEnv \<Rightarrow> Task \<Rightarrow> Execution \<Rightarrow> string \<Rightarrow> (Db, Task, RuntimeError) op" where
  "recover env t x why db =
    (case rn_recovery env of
       None \<Rightarrow> (db, Ok t)
     | Some limit \<Rightarrow>
         (case diagnose_and_recover (rn_finish env) limit t (t_workflow_id t) (Some (x_id x)) (t_attempts t) why db of
            (db1, Err e) \<Rightarrow> (db1, Ok t)
          | (db1, Ok (action, r)) \<Rightarrow> apply_recovery_action (rn_finish env) t action why db1))"

end
