(* ===== verification/Runner_Turns.thy ===== *)
theory Runner_Turns
  imports Runner_Start
begin

text \<open>The interaction of the agent runner with a provider (runner.rs): the inputs of the
prompt, the tools the runner answers itself, the tools of the registry, and the loop of at most
ten turns. The text of a number or value shown to the provider is a parameter. During the
completion of a turn other threads may change the store. The memory of a search is shown with
its identifier, scope, content and importance.\<close>

section \<open>The prompt\<close>

definition json_text_or :: "string \<Rightarrow> string \<Rightarrow> json \<Rightarrow> string" where
  "json_text_or k d v = (case meta_get_str k v of Some s \<Rightarrow> s | None \<Rightarrow> d)"

text \<open>The version is cut to 32 bits.\<close>

definition recovery_advice :: "Task \<Rightarrow> RecoveryAdvice option" where
  "recovery_advice t =
    map_option (\<lambda>advice.
      \<lparr>ra_strategy = json_text_or ''strategy'' ''tool_adaptation'' advice,
       ra_strategy_version = (case Option.bind (json_get ''version'' advice) json_u64 of Some n \<Rightarrow> ucast n | None \<Rightarrow> 1),
       ra_diagnosis = json_text_or ''failure'' ''Previous attempt failed'' advice,
       ra_action = json_text_or ''adjustment'' ''Revise approach based on failure evidence'' advice\<rparr>)
      (json_get ''recovery_advice'' (t_metadata t))"

definition failure_evidence :: "Task \<Rightarrow> Db \<Rightarrow> string option" where
  "failure_evidence t db =
    (if 1 < t_attempts t
     then Option.bind (List.find (\<lambda>v. v_verdict v = VerificationVerdict.Failed) (rev (list_verifications_by_task (t_id t) db)))
            v_failure_reason
     else None)"

text \<open>The scores the runner gives to memories are literals, here as singles: 0.9 and 0.92 for
those of the project, 0.85 and 0.88 for those of the workflow.\<close>

definition injected :: "single \<Rightarrow> single \<Rightarrow> MemoryRecord \<Rightarrow> ScoredMemory" where
  "injected score overall m =
    \<lparr>sm_record = m, sm_similarity = score, sm_importance_score = score, sm_recency_score = single_one, sm_total_score = overall\<rparr>"

definition injected_memories :: "Task \<Rightarrow> Db \<Rightarrow> ScoredMemory list" where
  "injected_memories t db =
    map (injected (15099494 * 2 ^ 125) (15435039 * 2 ^ 125)) (list_memories_by_scope MemoryScope.Project None db) @
    map (injected (14260634 * 2 ^ 125) (14763950 * 2 ^ 125))
      (list_memories_by_scope MemoryScope.Workflow (Some (decimal (t_workflow_id t))) db)"

definition context_builder :: "Agent \<Rightarrow> Task \<Rightarrow> string \<Rightarrow> Db \<Rightarrow> ContextBuilder" where
  "context_builder a t dir db =
    (ContextBuilder_new a (case get_workflow (t_workflow_id t) db of Some w \<Rightarrow> w_objective w | None \<Rightarrow> t_objective t) t)
      \<lparr>cb_workspace_path := dir, cb_incoming_messages := list_messages_for_agent (a_id a) db,
       cb_retrieved_memories := injected_memories t db, cb_recovery_advice := recovery_advice t,
       cb_failure_evidence := failure_evidence t db\<rparr>"

definition tool_definitions :: "RunnerEnv \<Rightarrow> ToolDefinition list" where
  "tool_definitions env =
    rn_tool_definitions env @
    [send_message_definition, request_human_approval_definition, save_memory_definition, search_memory_definition]"

section \<open>One tool call\<close>

text \<open>What the turns carry along: the conversation, the task in memory, whether the work is
taken for finished, and the last error of the provider.\<close>

record Turn =
  tn_messages :: "ChatMessage list"
  tn_task :: Task
  tn_clean :: bool
  tn_error :: "string option"

record CallSite =
  st_agent :: Agent
  st_execution :: Execution
  st_sandbox :: Sandbox
  st_dir :: string
  st_turn :: nat
  st_call :: nat

definition note_event :: "RunnerEnv \<Rightarrow> CallSite \<Rightarrow> string \<Rightarrow> Db \<Rightarrow> Db" where
  "note_event env s event_type db = emit_event (rn_start env) ''execution'' (x_id (st_execution s)) event_type db"

definition answer :: "ToolCall \<Rightarrow> string \<Rightarrow> Turn \<Rightarrow> Turn" where
  "answer call content turn = turn\<lparr>tn_messages := tn_messages turn @ [ChatMessage_tool_response (tl_id call) content]\<rparr>"

definition error_answer :: "RunnerEnv \<Rightarrow> ToolCall \<Rightarrow> string \<Rightarrow> Turn \<Rightarrow> Turn" where
  "error_answer env call e = answer call (rn_show env (JObj [(''error'', JStr e)]))"

definition call_arguments :: "RunnerEnv \<Rightarrow> ToolCall \<Rightarrow> json" where
  "call_arguments env call =
    (case rn_json env (tl_arguments call) of Some v \<Rightarrow> v | None \<Rightarrow> JObj [(''raw'', JStr (tl_arguments call))])"

definition all_message_types :: "MessageType list" where
  "all_message_types = [Question, Request, Result, Handoff, Warning, Review, Rejection, Proposal, ArtifactReference]"

definition parsed_message_type :: "RunnerEnv \<Rightarrow> string \<Rightarrow> MessageType" where
  "parsed_message_type env s =
    (case Option.bind (rn_json env (quote_char # s @ [quote_char])) json_str of
       None \<Rightarrow> Result
     | Some u \<Rightarrow> (case List.find (\<lambda>m. message_type_str m = u) all_message_types of Some m \<Rightarrow> m | None \<Rightarrow> Result))"

definition send_message_call :: "RunnerEnv \<Rightarrow> CallSite \<Rightarrow> ToolCall \<Rightarrow> json \<Rightarrow> Turn \<Rightarrow> Db \<Rightarrow> Db \<times> Turn" where
  "send_message_call env s call args turn db =
    (case parse_ident (json_text_or ''to_agent'' [] args) of
       None \<Rightarrow> (db, error_answer env call ''Invalid to_agent ID'' turn)
     | Some to \<Rightarrow>
         (let m = (AgentMessage_new (fresh_id (map msg_id (db_messages db))) (rn_start env) (a_id (st_agent s)) to
                (t_workflow_id (tn_task turn)) (parsed_message_type env (json_text_or ''message_type'' ''result'' args))
                (json_text_or ''content'' [] args))
                \<lparr>msg_task_id := Some (t_id (tn_task turn)),
                 msg_payload := (case json_get ''payload'' args of Some p \<Rightarrow> p | None \<Rightarrow> JNull)\<rparr>
          in (note_event env s ''tool_completed'' (note_event env s ''message_sent'' (fst (send_message m db))),
              answer call (rn_show env (JObj [(''status'', JStr ''delivered''), (''message_id'', JStr (decimal (msg_id m)))])) turn)))"

text \<open>The Display text of an error of the runtime reaches only the provider; it is a text of
its constructor here.\<close>

definition approval_call ::
  "RunnerEnv \<Rightarrow> CallSite \<Rightarrow> ToolCall \<Rightarrow> json \<Rightarrow> Turn \<Rightarrow> Db \<Rightarrow> Db \<times> Turn \<times> bool" where
  "approval_call env s call args turn db =
    (case request_approval (rn_start env) (t_id (tn_task turn)) (t_workflow_id (tn_task turn)) (Some (a_id (st_agent s)))
            (json_text_or ''description'' ''Action requiring human authorization'' args) (meta_get_str ''reason'' args) db of
       (db1, Ok ap) \<Rightarrow>
         (note_event env s ''tool_completed'' db1,
          (answer call (rn_show env (JObj [(''status'', JStr ''approval_requested''), (''approval_id'', JStr (decimal (ap_id ap))),
              (''state'', JStr ''needs_human'')])) turn)
            \<lparr>tn_task := (tn_task turn)\<lparr>t_state := TaskState.NeedsHuman\<rparr>, tn_clean := True\<rparr>, True)
     | (db1, Err e) \<Rightarrow> (db1, error_answer env call ''approval request failed'' turn, False))"

definition save_scope :: "string \<Rightarrow> MemoryScope" where
  "save_scope s =
    (if s = ''workflow'' then MemoryScope.Workflow
     else if s = ''task'' then MemoryScope.Task
     else if s = ''agent'' then MemoryScope.Agent
     else MemoryScope.Project)"

text \<open>The literal 0.8 as a single.\<close>

definition default_importance :: single where
  "default_importance = 13421773 * 2 ^ 125"

definition saved_memory :: "RunnerEnv \<Rightarrow> CallSite \<Rightarrow> json \<Rightarrow> Task \<Rightarrow> Db \<Rightarrow> MemoryRecord" where
  "saved_memory env s args t db =
    (let scope = save_scope (json_text_or ''scope'' ''project'' args) in
     (MemoryRecord_new (fresh_id (map mem_id (db_memories db))) (rn_start env) scope
        (''agent_'' @ decimal (a_id (st_agent s))) (json_text_or ''content'' [] args))
       \<lparr>mem_importance := (case json_get ''importance'' args of Some (JNum n) \<Rightarrow> rn_single env n | _ \<Rightarrow> default_importance),
        mem_scope_id := (case scope of MemoryScope.Workflow \<Rightarrow> Some (decimal (t_workflow_id t))
                         | MemoryScope.Task \<Rightarrow> Some (decimal (t_id t)) | _ \<Rightarrow> None),
        mem_provenance := MemoryProvenance_default
          \<lparr>originating_workflow_id := Some (t_workflow_id t), originating_task_id := Some (t_id t),
           originating_agent_id := Some (a_id (st_agent s))\<rparr>\<rparr>)"

definition save_memory_call :: "RunnerEnv \<Rightarrow> CallSite \<Rightarrow> ToolCall \<Rightarrow> json \<Rightarrow> Turn \<Rightarrow> Db \<Rightarrow> Db \<times> Turn" where
  "save_memory_call env s call args turn db =
    (if json_text_or ''scope'' ''project'' args = ''system''
     then (note_event env s ''tool_failed'' db,
           answer call ''Error: Access Denied: Agents are not authorized to write to System memory scope'' turn)
     else (let m = saved_memory env s args (tn_task turn) db in
       case save_memory m db of
         (db1, Ok _) \<Rightarrow>
           (note_event env s ''tool_completed'' (note_event env s ''memory_saved'' db1),
            answer call (rn_show env (JObj [(''status'', JStr ''saved''), (''memory_id'', JStr (decimal (mem_id m)))])) turn)
       | (db1, Err e) \<Rightarrow> (db1, error_answer env call ''memory not saved'' turn)))"

definition search_scope :: "string \<Rightarrow> MemoryScope" where
  "search_scope s =
    (if s = ''system'' then MemoryScope.System
     else if s = ''workflow'' then MemoryScope.Workflow
     else if s = ''task'' then MemoryScope.Task
     else MemoryScope.Project)"

fun scope_debug :: "MemoryScope \<Rightarrow> string" where
  "scope_debug MemoryScope.System = ''System''"
| "scope_debug MemoryScope.Project = ''Project''"
| "scope_debug MemoryScope.Workflow = ''Workflow''"
| "scope_debug MemoryScope.Task = ''Task''"
| "scope_debug MemoryScope.Agent = ''Agent''"
| "scope_debug MemoryScope.User = ''User''"
| "scope_debug MemoryScope.Session = ''Session''"
| "scope_debug MemoryScope.Artifact = ''Artifact''"

definition searched_memories :: "json \<Rightarrow> Task \<Rightarrow> Db \<Rightarrow> MemoryRecord list" where
  "searched_memories args t db =
    (let records = (case meta_get_str ''scope'' args of
            Some sc \<Rightarrow> list_memories_by_scope (search_scope sc) None db
          | None \<Rightarrow> list_memories_by_scope MemoryScope.Workflow (Some (decimal (t_workflow_id t))) db);
         query = json_text_or ''query'' [] args
     in filter (\<lambda>r. str_contains (str_to_lowercase query) (str_to_lowercase (mem_content r)) \<or> query = []) records)"

definition memory_json :: "RunnerEnv \<Rightarrow> MemoryRecord \<Rightarrow> json" where
  "memory_json env r =
    JObj [(''id'', JStr (decimal (mem_id r))), (''scope'', JStr (scope_debug (mem_scope r))),
      (''content'', JStr (mem_content r)), (''importance'', rn_number env (mem_importance r))]"

definition search_memory_call :: "RunnerEnv \<Rightarrow> CallSite \<Rightarrow> ToolCall \<Rightarrow> json \<Rightarrow> Turn \<Rightarrow> Db \<Rightarrow> Db \<times> Turn" where
  "search_memory_call env s call args turn db =
    (note_event env s ''tool_completed'' db,
     answer call (rn_show env (JObj [(''results'', JArr (map (memory_json env) (searched_memories args (tn_task turn) db)))])) turn)"

text \<open>A tool of the registry: its output is redacted before it is kept or shown. What it does
to files and processes is not part of the store.\<close>

definition registry_call :: "RunnerEnv \<Rightarrow> CallSite \<Rightarrow> ToolCall \<Rightarrow> json \<Rightarrow> Turn \<Rightarrow> (Db, Turn, RuntimeError) op" where
  "registry_call env s call args turn =
    (let ctx = ToolContext_new (a_id (st_agent s)) (x_id (st_execution s)) (t_id (tn_task turn)) args (st_sandbox s) (st_dir s) in
     case snd (snd (invoke (rn_start env) (rn_start env) (rn_tool_env env (st_turn s) (st_call s)) (rn_registry env)
                      (tl_name call) ctx)) of
       Ok out \<Rightarrow>
         st_then (run_event (rn_start env) ''execution'' (x_id (st_execution s)) ''tool_completed'')
           (\<lambda>_ db. (db, Ok (answer call (rn_show env (redact_value_all (rn_replacer env) (to_data out) [])) turn)))
     | Err e \<Rightarrow>
         st_then (run_event (rn_start env) ''execution'' (x_id (st_execution s)) ''tool_failed'')
           (\<lambda>_ db. (db, Ok (answer call (''Error: '' @ redact_patterns (rn_replacer env) (tool_error_display e)) turn))))"

text \<open>The value tells whether the remaining calls of the turn are skipped.\<close>

definition tool_call :: "RunnerEnv \<Rightarrow> CallSite \<Rightarrow> ToolCall \<Rightarrow> Turn \<Rightarrow> (Db, Turn \<times> bool, RuntimeError) op" where
  "tool_call env s call turn =
    (let args = call_arguments env call in
     st_then (run_event (rn_start env) ''execution'' (x_id (st_execution s)) ''tool_started'') (\<lambda>_ db.
       if tl_name call = ''send_message''
       then (case send_message_call env s call args turn db of (db1, t1) \<Rightarrow> (db1, Ok (t1, False)))
       else if tl_name call = ''request_human_approval''
       then (case approval_call env s call args turn db of (db1, t1, stop) \<Rightarrow> (db1, Ok (t1, stop)))
       else if tl_name call = ''save_memory''
       then (case save_memory_call env s call args turn db of (db1, t1) \<Rightarrow> (db1, Ok (t1, False)))
       else if tl_name call = ''search_memory''
       then (case search_memory_call env s call args turn db of (db1, t1) \<Rightarrow> (db1, Ok (t1, False)))
       else st_then (registry_call env s call args turn) (\<lambda>t1 db1. (db1, Ok (t1, False))) db))"

fun run_calls :: "RunnerEnv \<Rightarrow> CallSite \<Rightarrow> nat \<Rightarrow> ToolCall list \<Rightarrow> Turn \<Rightarrow> (Db, Turn, RuntimeError) op" where
  "run_calls env s i [] turn db = (db, Ok turn)"
| "run_calls env s i (call # calls) turn db =
    st_then (tool_call env (s\<lparr>st_call := i\<rparr>) call turn)
      (\<lambda>(t1, stop). if stop then (\<lambda>db1. (db1, Ok t1)) else run_calls env s (i + 1) calls t1) db"

section \<open>The turns\<close>

definition completion_request :: "RunnerEnv \<Rightarrow> Agent \<Rightarrow> Turn \<Rightarrow> CompletionRequest" where
  "completion_request env a turn =
    (CompletionRequest_new (p_model (a_provider_profile a)) (tn_messages turn))\<lparr>cr_tools := tool_definitions env\<rparr>"

definition answered_turn ::
  "RunnerEnv \<Rightarrow> CallSite \<Rightarrow> ChatMessage \<Rightarrow> Turn \<Rightarrow> (Db, Turn \<times> bool, RuntimeError) op" where
  "answered_turn env s m turn =
    st_then (case cm_content m of
               Some c \<Rightarrow> run_event (rn_start env) ''execution'' (x_id (st_execution s)) ''message_sent''
             | None \<Rightarrow> (\<lambda>db. (db, Ok ())))
      (\<lambda>_. case cm_tool_calls m of
         Some calls \<Rightarrow>
           st_then (run_calls env s 0 calls (turn\<lparr>tn_messages := tn_messages turn @ [m]\<rparr>)) (\<lambda>t1 db. (db, Ok (t1, False)))
       | None \<Rightarrow> (\<lambda>db. (db, Ok (turn\<lparr>tn_clean := True\<rparr>, True))))"

text \<open>One turn; the value tells whether the loop ends.\<close>

definition take_turn ::
  "RunnerEnv \<Rightarrow> Provider \<Rightarrow> CallSite \<Rightarrow> Turn \<Rightarrow> (Db, Turn \<times> bool, RuntimeError) op" where
  "take_turn env p s turn =
    st_then (run_event (rn_start env) ''execution'' (x_id (st_execution s)) ''provider_request_started'') (\<lambda>_ db.
      st_then (run_event (rn_start env) ''execution'' (x_id (st_execution s)) ''provider_request_completed'')
        (\<lambda>_. case pv_complete p (st_turn s) (completion_request env (st_agent s) turn) of
           Err e \<Rightarrow> (\<lambda>db1. (db1, Ok (turn\<lparr>tn_error := Some e\<rparr>, True)))
         | Ok r \<Rightarrow> answered_turn env s (cp_message r) turn)
        (rn_world env (st_turn s) db))"

fun run_turns :: "RunnerEnv \<Rightarrow> Provider \<Rightarrow> CallSite \<Rightarrow> nat list \<Rightarrow> Turn \<Rightarrow> (Db, Turn, RuntimeError) op" where
  "run_turns env p s [] turn db = (db, Ok turn)"
| "run_turns env p s (n # ns) turn db =
    st_then (take_turn env p (s\<lparr>st_turn := n\<rparr>) turn)
      (\<lambda>(t1, stop). if stop then (\<lambda>db1. (db1, Ok t1)) else run_turns env p s ns t1) db"

definition max_turns :: nat where
  "max_turns = 10"

declare run_calls.simps(2) [simp del] run_turns.simps(2) [simp del]

end
