(* ===== verification/Runner.thy ===== *)
theory Runner
  imports Runner_Turns
begin

text \<open>The close of an execution by the agent runner of plexis-runtime (runner.rs), the
execution of a command by a provider and by an external backend. The events a backend streams
are stored when it has finished; what other threads change in the store while it runs comes
before them.\<close>

section \<open>The close\<close>

text \<open>The check before anything is committed: the lease of the task is still the one of the
token.\<close>

definition holds_lease :: "time \<Rightarrow> u64 \<Rightarrow> ident \<Rightarrow> ident \<Rightarrow> Db \<Rightarrow> bool" where
  "holds_lease now g task_id agent_id db =
    (case get_lease_by_task task_id db of
       Some l \<Rightarrow> l_generation l = g \<and> \<not> Lease_is_expired l now \<and> l_agent_id l = agent_id
     | None \<Rightarrow> False)"

definition commit_check :: "time \<Rightarrow> u64 option \<Rightarrow> ident \<Rightarrow> ident \<Rightarrow> (Db, unit, RuntimeError) op" where
  "commit_check now token task_id agent_id db =
    (case token of
       None \<Rightarrow> (db, Ok ())
     | Some g \<Rightarrow> if holds_lease now g task_id agent_id db then (db, Ok ()) else (db, Err lease_error))"

definition finished_execution :: "time \<Rightarrow> string option \<Rightarrow> Execution \<Rightarrow> (Execution, RuntimeError) result" where
  "finished_execution now why x =
    map_err (\<lambda>e. InvalidCommand (transition_display e))
      (case why of None \<Rightarrow> Execution_mark_completed now x | Some r \<Rightarrow> Execution_mark_failed now r x)"

definition store_finished :: "time \<Rightarrow> string option \<Rightarrow> Execution \<Rightarrow> (Db, Execution, RuntimeError) op" where
  "store_finished now why x db =
    (case finished_execution now why x of
       Err e \<Rightarrow> (db, Err e)
     | Ok x1 \<Rightarrow> st_then (rt_store (update_execution x1)) (\<lambda>_ db1. (db1, Ok x1)) db)"

text \<open>Verification of the result, and recovery when it fails.\<close>

definition verify_result :: "RunnerEnv \<Rightarrow> string \<Rightarrow> Task \<Rightarrow> Execution \<Rightarrow> (Db, unit, RuntimeError) op" where
  "verify_result env dir t x =
    st_then (rt_store (verify_and_record (rn_verifier env dir) t)) (\<lambda>(v, t1).
      if v_verdict v = VerificationVerdict.Failed
      then st_then (recover env t1 x (case v_failure_reason v of Some r \<Rightarrow> r | None \<Rightarrow> ''Verification criteria failed''))
             (\<lambda>_ db. (db, Ok ()))
      else (\<lambda>db. (db, Ok ())))"

definition complete_execution :: "RunnerEnv \<Rightarrow> string \<Rightarrow> Task \<Rightarrow> Execution \<Rightarrow> (Db, Execution, RuntimeError) op" where
  "complete_execution env dir t x =
    st_then (store_finished (rn_finish env) None x) (\<lambda>x1.
    st_then (run_event (rn_finish env) ''execution'' (x_id x1) ''execution_completed'') (\<lambda>_.
    st_then (verify_result env dir t x1) (\<lambda>_ db. (db, Ok x1))))"

definition fail_attempt :: "RunnerEnv \<Rightarrow> string \<Rightarrow> Task \<Rightarrow> Execution \<Rightarrow> (Db, Execution, RuntimeError) op" where
  "fail_attempt env why t x =
    (let t1 = attempt_transition (rn_finish env) TaskState.Failed t in
     st_then (store_finished (rn_finish env) (Some why) x) (\<lambda>x1.
     st_then (rt_store (update_task t1)) (\<lambda>_.
     st_then (run_event (rn_finish env) ''execution'' (x_id x1) ''execution_failed'') (\<lambda>_.
     st_then (recover env t1 x1 why) (\<lambda>_ db. (db, Ok x1))))))"

definition release_agent :: "RunnerEnv \<Rightarrow> Command \<Rightarrow> bool \<Rightarrow> Agent \<Rightarrow> (Db, unit, RuntimeError) op" where
  "release_agent env c success a =
    st_then (rt_store (update_agent (idle a))) (\<lambda>_.
      rt_store (update_command (if success then Command_mark_completed (rn_finish env) c
                                else Command_mark_failed (rn_finish env) c)))"

definition hold_for_human :: "Task \<Rightarrow> Agent \<Rightarrow> Execution \<Rightarrow> (Db, Execution, RuntimeError) op" where
  "hold_for_human t a x =
    st_then (rt_store (update_agent (idle a))) (\<lambda>_.
    st_then (rt_store (update_task (t\<lparr>t_assigned_agent_id := None\<rparr>))) (\<lambda>_ db. (db, Ok x)))"

definition close_turns ::
  "RunnerEnv \<Rightarrow> Command \<Rightarrow> string \<Rightarrow> Agent \<Rightarrow> Execution \<Rightarrow> Turn \<Rightarrow> (Db, Execution, RuntimeError) op" where
  "close_turns env c dir a x turn =
    (if tn_clean turn \<and> t_state (tn_task turn) = TaskState.NeedsHuman then hold_for_human (tn_task turn) a x
     else st_then
       (if tn_clean turn then complete_execution env dir (tn_task turn) x
        else fail_attempt env
          (case tn_error turn of Some e \<Rightarrow> e | None \<Rightarrow> ''Turn limit exceeded or execution aborted'') (tn_task turn) x)
       (\<lambda>x1. st_then (release_agent env c (tn_clean turn) a) (\<lambda>_ db. (db, Ok x1))))"

section \<open>Execution by a provider\<close>

text \<open>The provider of the agent, or any registered one.\<close>

definition chosen_provider :: "RunnerEnv \<Rightarrow> Agent \<Rightarrow> (Provider, RuntimeError) result" where
  "chosen_provider env a =
    (case or_else (map_of (rn_providers env) (p_provider (a_provider_profile a)))
            (case rn_providers env of [] \<Rightarrow> None | kv # kvs \<Rightarrow> Some (snd kv)) of
       Some p \<Rightarrow> Ok p
     | None \<Rightarrow> invalid (''No provider registered for agent provider '' @ single_quoted (p_provider (a_provider_profile a))))"

definition execute_with_provider ::
  "RunnerEnv \<Rightarrow> Command \<Rightarrow> Workflow option \<Rightarrow> Attempt \<Rightarrow> (Db, Execution, RuntimeError) op" where
  "execute_with_provider env c w at db =
    (case chosen_provider env (at_agent at) of
       Err e \<Rightarrow> (db, Err e)
     | Ok p \<Rightarrow>
         (let dir = working_directory env (at_session at) in
          st_then (isolate env (at_task at) (at_agent at) w dir) (\<lambda>(t, wdir) db1.
            let site = \<lparr>st_agent = at_agent at, st_execution = at_execution at, st_sandbox = Sandbox_new wdir,
                        st_dir = dir, st_turn = 0, st_call = 0\<rparr>
            in case build (rn_score env) (context_builder (at_agent at) t dir db1) of
                 None \<Rightarrow> (db1, Err (Execution ''panic: slice inside a character''))
               | Some s \<Rightarrow>
                   st_then (run_turns env p site [0..<max_turns]
                     \<lparr>tn_messages = cx_messages s, tn_task = t, tn_clean = False, tn_error = None\<rparr>) (\<lambda>turn.
                   st_then (commit_check (rn_finish env) (fencing_token c) (t_id t) (a_id (at_agent at))) (\<lambda>_.
                     close_turns env c wdir (at_agent at) (at_execution at) turn))
                   (emit_event (rn_start env) ''execution'' (x_id (at_execution at)) ''context_budget_applied'' db1)) db))"

section \<open>Execution by an external backend\<close>

definition chosen_backend :: "RunnerEnv \<Rightarrow> string \<Rightarrow> (AgentBackend, RuntimeError) result" where
  "chosen_backend env b =
    (case map_of (rn_backends env) b of
       Some k \<Rightarrow> Ok k
     | None \<Rightarrow>
         if b = ''fake_agent'' \<or> b = ''gemini_cli'' then Ok (rn_builtin_backend env b)
         else invalid (''External agent backend '' @ single_quoted b @ '' not registered in runner''))"

definition message_line :: "AgentMessage \<Rightarrow> string" where
  "message_line m =
    ''- ['' @ message_type_debug (msg_message_type m) @ ''] '' @ json_text_or ''role'' ''Agent'' (msg_payload m) @ '': '' @
    msg_content m @ newline"

definition prior_findings :: "AgentMessage list \<Rightarrow> string" where
  "prior_findings ms =
    (if ms = [] then []
     else newline @ newline @ ''### Prior Inter-Agent Collaboration & Findings:'' @ newline @ concat (map message_line ms))"

definition integration_note :: "Task \<Rightarrow> string" where
  "integration_note t =
    (case meta_get_str ''integrate_branch'' (t_metadata t) of
       None \<Rightarrow> []
     | Some b \<Rightarrow> newline @ newline @ ''### Integration Objective:'' @ newline @ ''Merge verified changes from branch '' @
         single_quoted b @ '' into target branch, run tests to ensure regression-free status, and commit.'')"

definition backend_request :: "Task \<Rightarrow> Agent \<Rightarrow> Execution \<Rightarrow> string \<Rightarrow> string \<Rightarrow> Db \<Rightarrow> ExecutionRequest" where
  "backend_request t a x dir backend_id db =
    (let rq = ExecutionRequest_new (x_id x) (a_id a) (a_role a) (t_objective t) dir in
     rq\<lparr>rq_timeout_secs := (case Option.bind (json_get ''timeout_secs'' (t_metadata t)) json_u64 of Some n \<Rightarrow> n | None \<Rightarrow> 300),
        rq_description := t_description t,
        rq_failure_mode := meta_get_str ''failure_mode'' (t_metadata t),
        rq_delay_ms := Option.bind (json_get ''delay_ms'' (t_metadata t)) json_u64,
        rq_execution_policy := or_else (meta_get_str ''execution_policy'' (t_metadata t))
          (meta_get_str ''execution_policy'' (a_configuration a)),
        rq_model := or_else (meta_get_str ''model'' (t_metadata t)) (meta_get_str ''model'' (a_configuration a)),
        rq_objective := t_objective t @ prior_findings (list_messages_by_workflow (t_workflow_id t) db) @ integration_note t,
        rq_correlation_metadata := JObj [(''workflow_id'', JStr (decimal (t_workflow_id t))),
          (''task_id'', JStr (decimal (t_id t))), (''backend'', JStr backend_id)]\<rparr>)"

text \<open>The events of a backend that are stored; output goes to the terminal.\<close>

fun stored_event :: "ExecutionEventType \<Rightarrow> string option" where
  "stored_event (ToolAction tool action details) = Some ''tool_action''"
| "stored_event (Progress percentage message) = Some ''progress''"
| "stored_event (Warned message) = Some ''warning''"
| "stored_event _ = None"

definition forward_events :: "time \<Rightarrow> Execution \<Rightarrow> ExecutionEvent list \<Rightarrow> Db \<Rightarrow> Db" where
  "forward_events now x evs db =
    fold (emit_event now ''execution'' (x_id x)) (List.map_filter (stored_event \<circ> ev_event) evs) db"

definition opt_json :: "string option \<Rightarrow> json" where
  "opt_json s = (case s of Some v \<Rightarrow> JStr v | None \<Rightarrow> JNull)"

definition outcome_execution :: "string \<Rightarrow> ExecutionResult \<Rightarrow> Execution \<Rightarrow> (Execution, RuntimeError) result" where
  "outcome_execution b r x =
    and_then (meta_puts ([(''backend'', JStr b), (''exit_code'', JNum (er_exit_code r)), (''summary'', JStr (er_summary r)),
        (''changed_files'', JArr (map JStr (er_changed_files r)))] @
        (case er_commit_sha r of Some s \<Rightarrow> [(''commit_sha'', JStr s)] | None \<Rightarrow> [])) (x_metadata x))
      (\<lambda>m. Ok (x\<lparr>x_metadata := m\<rparr>))"

definition outcome_task :: "string \<Rightarrow> ExecutionResult \<Rightarrow> Task \<Rightarrow> (Task, RuntimeError) result" where
  "outcome_task b r t =
    task_puts ([(''backend'', JStr b), (''changed_files'', JArr (map JStr (er_changed_files r)))] @
      (case er_commit_sha r of Some s \<Rightarrow> [(''commit_sha'', JStr s)] | None \<Rightarrow> [])) t"

definition role_message_type :: "string \<Rightarrow> MessageType" where
  "role_message_type role =
    (let r = str_to_lowercase role in
     if str_contains ''investigat'' r then Result
     else if str_contains ''analyst'' r then Result
     else if str_contains ''developer'' r then Handoff
     else if str_contains ''reviewer'' r then Review
     else Result)"

definition collaboration_message ::
  "time \<Rightarrow> string \<Rightarrow> ExecutionResult \<Rightarrow> Task \<Rightarrow> Agent \<Rightarrow> Db \<Rightarrow> AgentMessage" where
  "collaboration_message now b r t a db =
    (AgentMessage_new (fresh_id (map msg_id (db_messages db))) now (a_id a) (a_id a) (t_workflow_id t)
       (role_message_type (a_role a))
       (if str_trim (er_summary r) \<noteq> [] then er_summary r
        else ''Task '' @ single_quoted (t_objective t) @ '' completed by '' @ a_role a @ '' agent''))
      \<lparr>msg_task_id := Some (t_id t),
       msg_payload := JObj ([(''role'', JStr (a_role a)), (''task_id'', JStr (decimal (t_id t))), (''backend'', JStr b),
          (''changed_files'', JArr (map JStr (er_changed_files r))), (''commit_sha'', opt_json (er_commit_sha r))] @
          (case meta_get_str ''worktree_branch'' (t_metadata t) of Some br \<Rightarrow> [(''branch'', JStr br)] | None \<Rightarrow> []))\<rparr>"

definition succeed_external ::
  "RunnerEnv \<Rightarrow> string \<Rightarrow> string \<Rightarrow> ExecutionResult \<Rightarrow> Task \<Rightarrow> Agent \<Rightarrow> Execution \<Rightarrow> (Db, Execution, RuntimeError) op" where
  "succeed_external env dir b r t a x =
    st_then (store_finished (rn_finish env) None x) (\<lambda>x1.
    st_then (run_event (rn_finish env) ''execution'' (x_id x1) ''execution_completed'') (\<lambda>_ db1.
      st_then (verify_result env dir t x1) (\<lambda>_ db. (db, Ok x1))
        (emit_event (rn_finish env) ''execution'' (x_id x1) ''message_sent''
          (fst (send_message (collaboration_message (rn_finish env) b r t a db1) db1)))))"

definition close_external ::
  "RunnerEnv \<Rightarrow> string \<Rightarrow> string \<Rightarrow> (ExecutionResult, string) result \<Rightarrow> Task \<Rightarrow> Agent \<Rightarrow> Execution \<Rightarrow>
   (Db, Execution \<times> bool, RuntimeError) op" where
  "close_external env dir b outcome t a x db =
    (case outcome of
       Err why \<Rightarrow> st_then (fail_attempt env why t x) (\<lambda>x1 db1. (db1, Ok (x1, False))) db
     | Ok r \<Rightarrow>
         (case and_then (outcome_execution b r x) (\<lambda>x1. and_then (outcome_task b r t) (\<lambda>t1. Ok (x1, t1))) of
            Err e \<Rightarrow> (db, Err e)
          | Ok (x1, t1) \<Rightarrow>
              if er_success r \<and> er_exit_code r = 0
              then st_then (succeed_external env dir b r t1 a x1) (\<lambda>x2 db1. (db1, Ok (x2, True))) db
              else st_then (fail_attempt env
                     (case er_failure_reason r of Some why \<Rightarrow> why
                      | None \<Rightarrow> ''External agent exited with code '' @ int_text (er_exit_code r)) t1 x1)
                     (\<lambda>x2 db1. (db1, Ok (x2, False))) db))"

definition execute_external_backend ::
  "RunnerEnv \<Rightarrow> string \<Rightarrow> Command \<Rightarrow> Attempt \<Rightarrow> (Db, Execution, RuntimeError) op" where
  "execute_external_backend env b c at db =
    (case chosen_backend env b of
       Err e \<Rightarrow> (db, Err e)
     | Ok k \<Rightarrow>
         st_then (isolate env (at_task at) (at_agent at) (get_workflow (t_workflow_id (at_task at)) db)
             (working_directory env (at_session at))) (\<lambda>(t, dir) db1.
           case bk_execute k (backend_request t (at_agent at) (at_execution at) dir b db1) of
             (evs, outcome) \<Rightarrow>
               st_then (commit_check (rn_finish env) (fencing_token c) (t_id t) (a_id (at_agent at))) (\<lambda>_.
               st_then (close_external env dir (bk_id k) outcome t (at_agent at) (at_execution at)) (\<lambda>(x, success).
               st_then (release_agent env c success (at_agent at)) (\<lambda>_ db2. (db2, Ok x))))
               (forward_events (rn_start env) (at_execution at) evs (rn_world env 0 db1))) db)"

section \<open>Execution of a command\<close>

definition load_entities :: "ident \<Rightarrow> ident \<Rightarrow> Db \<Rightarrow> (Task \<times> Agent, RuntimeError) result" where
  "load_entities task_id agent_id db =
    and_then (ok_or (InvalidCommand (''Task '' @ decimal task_id @ '' not found'')) (db_get_task task_id db)) (\<lambda>t.
    and_then (ok_or (InvalidCommand (''Agent '' @ decimal agent_id @ '' not found'')) (get_agent agent_id db)) (\<lambda>a.
      Ok (t, a)))"

definition admitted :: "RunnerEnv \<Rightarrow> Command \<Rightarrow> Db \<Rightarrow> (Task \<times> Agent, RuntimeError) result" where
  "admitted env c db =
    and_then (decode_command c) (\<lambda>(task_id, agent_id).
    and_then (load_entities task_id agent_id db) (\<lambda>(t, a).
    and_then (check_fencing (rn_start env) (fencing_token c) agent_id (get_lease_by_task task_id db)) (\<lambda>_.
      Ok (t, a))))"

definition execute_command :: "RunnerEnv \<Rightarrow> Command \<Rightarrow> (Db, Execution, RuntimeError) op" where
  "execute_command env c db =
    (case admitted env c db of
       Err e \<Rightarrow> (db, Err e)
     | Ok (t, a) \<Rightarrow>
         st_then (begin_attempt env t a) (\<lambda>at db1.
           let w = get_workflow (t_workflow_id (at_task at)) db1 in
           case external_backend_id (at_task at) (at_agent at) w of
             Some b \<Rightarrow> execute_external_backend env b c at db1
           | None \<Rightarrow> execute_with_provider env c w at db1) db)"

end
