(* ===== verification/Runner_Laws.thy ===== *)
theory Runner_Laws
  imports Runner Store_References
begin

text \<open>What the operations of the runner do to the store, for any relation of stores that the
methods they call respect. Up to the check of the lease they create and update rows of other
kinds than those of a commit; the verdict and the close also write commits. The instances are the steps
of the store that leave the missions alone, the set of commits, which only the close changes, the
leases and the executions.\<close>

section \<open>Relations that the methods of the store respect\<close>

named_theorems history "operations that respect a relation of stores"

lemma running_execution_state: "running_execution now x = Ok y \<Longrightarrow> x_state y = ExecutionState.Running"
  by (auto simp: running_execution_def Execution_mark_running_def execution_lc.tr_eq_Ok map_err_eq_Ok and_then_eq_Ok)

locale run_relation =
  fixes R :: "Db \<Rightarrow> Db \<Rightarrow> bool"
  assumes same: "R db db"
    and joined: "R db db1 \<Longrightarrow> R db1 db2 \<Longrightarrow> R db db2"
    and tasks: "R db (fst (update_task t db))"
    and sessions: "R db (fst (create_session s db))"
    and executions: "x_state x = ExecutionState.Running \<Longrightarrow> R db (fst (create_execution x db))"
    and agents: "R db (fst (update_agent a db))"
    and events: "R db (fst (append_event e db))"
    and messages: "R db (fst (send_message m db))"
    and approvals: "R db (fst (create_approval ap db))"
    and memories: "R db (fst (save_memory mem db))"
begin

declare same [history] tasks [history] sessions [history] executions [history] agents [history] events [history]
  messages [history] approvals [history] memories [history]

text \<open>The store an operation starts from may itself be a later one.\<close>

lemma history_then [history]:
  assumes "R db db'" and "R db' (fst (m db'))" and "\<And>a db1. R db1 (fst (f a db1))"
  shows "R db (fst (st_then m f db'))"
proof -
  have "R db' (fst (st_then m f db'))"
    using assms(2,3) by (cases "m db'"; cases "snd (m db')") (auto simp: st_then.simps intro: joined)
  then show ?thesis using assms(1) by (rule joined [rotated])
qed

lemma history_op [history]:
  "R db (fst q) \<Longrightarrow> (\<And>d r. q = (d, r) \<Longrightarrow> R d (fst (f d r))) \<Longrightarrow> R db (fst (case q of (d, r) \<Rightarrow> f d r))"
  by (cases q) (auto intro: joined)

lemma history_pairs [history]:
  fixes p :: "Turn \<times> 'b" and q :: "ExecutionEvent list \<times> 'c" and x :: "Execution \<times> 'd" and t :: "Task \<times> 'e"
  shows "(\<And>y z. p = (y, z) \<Longrightarrow> R db (fst (f y z))) \<Longrightarrow> R db (fst (case p of (y, z) \<Rightarrow> f y z))"
    and "(\<And>y z. q = (y, z) \<Longrightarrow> R db (fst (g y z))) \<Longrightarrow> R db (fst (case q of (y, z) \<Rightarrow> g y z))"
    and "(\<And>y z. x = (y, z) \<Longrightarrow> R db (fst (h y z))) \<Longrightarrow> R db (fst (case x of (y, z) \<Rightarrow> h y z))"
    and "(\<And>y z. t = (y, z) \<Longrightarrow> R db (fst (k y z))) \<Longrightarrow> R db (fst (case t of (y, z) \<Rightarrow> k y z))"
  by (auto split: prod.split)

lemma history_result [history]:
  "(\<And>x. r = Ok x \<Longrightarrow> R db (fst (f x))) \<Longrightarrow> (\<And>e. r = Err e \<Longrightarrow> R db (fst (g e))) \<Longrightarrow>
     R db (fst (case r of Ok x \<Rightarrow> f x | Err e \<Rightarrow> g e))"
  by (cases r) auto

lemma history_option [history]:
  "(\<And>x. r = Some x \<Longrightarrow> R db (fst (f x))) \<Longrightarrow> (r = None \<Longrightarrow> R db (fst g)) \<Longrightarrow>
     R db (fst (case r of Some x \<Rightarrow> f x | None \<Rightarrow> g))"
  by (cases r) auto

lemma history_if [history]:
  "(b \<Longrightarrow> R db (fst m)) \<Longrightarrow> (\<not> b \<Longrightarrow> R db (fst n)) \<Longrightarrow> R db (fst (if b then m else n))"
  by simp

lemma history_let [history]: "R db (fst (f a)) \<Longrightarrow> R db (fst (Let a f))"
  by simp

lemma history_pair [history]: "R db db' \<Longrightarrow> R db (fst (db', r))"
  by simp

lemma history_store [history]: "R db (fst (m db)) \<Longrightarrow> R db (fst (rt_store m db))"
  by (cases "m db") (simp add: rt_store_def)

text \<open>The same shapes with the store as a last argument.\<close>

lemma history_applied [history]:
  "(\<And>x. r = Ok x \<Longrightarrow> R db (fst (f x db))) \<Longrightarrow> (\<And>e. r = Err e \<Longrightarrow> R db (fst (g e db))) \<Longrightarrow>
     R db (fst ((case r of Ok x \<Rightarrow> f x | Err e \<Rightarrow> g e) db))"
  "(\<And>x. q = Some x \<Longrightarrow> R db (fst (f' x db))) \<Longrightarrow> (q = None \<Longrightarrow> R db (fst (g' db))) \<Longrightarrow>
     R db (fst ((case q of Some x \<Rightarrow> f' x | None \<Rightarrow> g') db))"
  "(b \<Longrightarrow> R db (fst (m db))) \<Longrightarrow> (\<not> b \<Longrightarrow> R db (fst (n db))) \<Longrightarrow> R db (fst ((if b then m else n) db))"
  "R db (fst (h a db)) \<Longrightarrow> R db (fst (Let a h db))"
  "(\<And>x y. p = (x, y) \<Longrightarrow> R db (fst (k x y db))) \<Longrightarrow> R db (fst ((case p of (x, y) \<Rightarrow> k x y) db))"
  by (auto split: result.split option.split prod.split)

lemma history_emit [history]: "R db db' \<Longrightarrow> R db (emit_event now ty agg e db')"
  unfolding emit_event_def by (erule joined) (rule events)

lemma history_fst [history]: "R db (fst q) \<Longrightarrow> R db (fst (fst q, r))"
  by simp

lemma history_event [history]: "R db (fst (try_event now ty agg e db))" "R db (fst (run_event now ty agg e db))"
  unfolding run_event_def try_event_def by (intro history)+

lemma history_session [history]: "R db (fst (get_or_create_session now a db))"
  unfolding get_or_create_session_def by (intro history)

lemma history_begin [history]: "R db (fst (begin_attempt env t a db))"
  unfolding begin_attempt_def by (intro history running_execution_state)

lemma history_isolate [history]: "R db (fst (isolate env t a w dir db))"
  unfolding isolate_def by (intro history)

lemma history_approval [history]: "R db (fst (request_approval now task_id w requester descr why db))"
  unfolding request_approval_def by (intro history)

lemma history_send_call [history]: "R db (fst (send_message_call env s call args turn db))"
  unfolding send_message_call_def note_event_def by (intro history)

lemma history_approval_call [history]: "R db (fst (approval_call env s call args turn db))"
  unfolding approval_call_def note_event_def by (intro history)

lemma history_save_call [history]: "R db (fst (save_memory_call env s call args turn db))"
  unfolding save_memory_call_def note_event_def by (intro history)

lemma history_search_call [history]: "R db (fst (search_memory_call env s call args turn db))"
  unfolding search_memory_call_def note_event_def by (intro history)

lemma history_registry_call [history]: "R db (fst (registry_call env s call args turn db))"
  unfolding registry_call_def by (intro history)

lemma history_tool_call [history]: "R db (fst (tool_call env s call turn db))"
  unfolding tool_call_def by (intro history)

lemma history_calls [history]: "R db (fst (run_calls env s i calls turn db))"
proof (induction calls arbitrary: i turn db)
  case (Cons call calls)
  show ?case unfolding run_calls.simps(2) by (intro history Cons.IH)
qed (simp add: same)

lemma history_answered [history]: "R db (fst (answered_turn env s m turn db))"
  unfolding answered_turn_def by (intro history)

text \<open>What other threads do while a provider or a backend works must respect the relation.\<close>

lemma history_turn:
  assumes "\<And>n db. R db (rn_world env n db)"
  shows "R db (fst (take_turn env p s turn db))"
  unfolding take_turn_def by (intro history assms)

lemma history_turns:
  assumes "\<And>n db. R db (rn_world env n db)"
  shows "R db (fst (run_turns env p s ns turn db))"
proof (induction ns arbitrary: turn db)
  case (Cons n ns)
  show ?case unfolding run_turns.simps(2) by (intro history history_turn assms Cons.IH)
qed (simp_all add: same)

lemma history_commit [history]: "R db (fst (commit_check now token i a db))"
  unfolding commit_check_def by (intro history)

lemma history_hold [history]: "R db (fst (hold_for_human t a x db))"
  unfolding hold_for_human_def by (intro history)

lemma history_fold:
  assumes "\<And>x db. R db (f x db)"
  shows "R db (fold f xs db)"
proof (induction xs arbitrary: db)
  case (Cons x xs)
  show ?case using joined [OF assms [of db x] Cons.IH] by simp
qed (simp add: same)

lemma history_forward [history]: "R db db' \<Longrightarrow> R db (forward_events now x evs db')"
  unfolding forward_events_def
  by (erule joined) (rule history_fold, rule history_emit, rule same)

end

section \<open>Relations that verification and recovery respect too\<close>

locale recording_relation = run_relation +
  assumes verifications: "R db (fst (create_verification v db))"
    and recoveries: "R db (fst (save_recovery_record rv db))"
begin

declare verifications [history] recoveries [history]

lemma history_recovery [history]: "R db (fst (apply_recovery_action now t action why db))"
proof -
  have "R db (fst (stored_quietly r db))" for r
    unfolding stored_quietly_def by (intro history)
  then show ?thesis by (cases action) (auto intro: history)
qed

lemma history_diagnose [history]: "R db (fst (diagnose_and_recover now limit t w x attempt why db))"
proof -
  have "R db (fst (record_decision r db))" for r db
    unfolding record_decision_def by (intro history)
  then have "R db (fst (st_then (record_decision r) (\<lambda>r db'. (db', Ok (action, r))) db))" for r and action :: RecoveryAction
    by (intro history)
  then show ?thesis by (auto simp: diagnose_and_recover_def split: prod.split)
qed

lemma history_recover [history]: "R db (fst (recover env t x why db))"
  unfolding recover_def by (intro history) (auto split: prod.split intro: history)

lemma history_verify [history]: "R db (fst (verify_and_record env t db))"
  unfolding verify_and_record_def by (intro history)

lemma history_verify_result [history]: "R db (fst (verify_result env dir t x db))"
  unfolding verify_result_def by (intro history)

end

section \<open>Relations that the close respects too\<close>

locale closing_relation = recording_relation +
  assumes closed_executions: "R db (fst (update_execution x db))"
    and closed_commands: "R db (fst (update_command c db))"
begin

declare closed_executions [history] closed_commands [history]

lemma history_finished [history]: "R db (fst (store_finished now why x db))"
  unfolding store_finished_def by (intro history)

lemma history_complete [history]: "R db (fst (complete_execution env dir t x db))"
  unfolding complete_execution_def by (intro history)

lemma history_fail [history]: "R db (fst (fail_attempt env why t x db))"
  unfolding fail_attempt_def by (intro history)

lemma history_release [history]: "R db (fst (release_agent env c success a db))"
  unfolding release_agent_def by (cases success) (simp_all, (intro history)+)

lemma history_close [history]: "R db (fst (close_turns env c dir a x turn db))"
  unfolding close_turns_def by (intro history)

lemma history_provider:
  assumes "\<And>n db. R db (rn_world env n db)"
  shows "R db (fst (execute_with_provider env c w at db))"
  unfolding execute_with_provider_def by (intro history history_turns assms)

lemma history_succeed [history]: "R db (fst (succeed_external env dir b r t a x db))"
  unfolding succeed_external_def by (intro history)

lemma history_close_external [history]: "R db (fst (close_external env dir b outcome t a x db))"
  unfolding close_external_def by (intro history)

lemma history_external:
  assumes "\<And>n db. R db (rn_world env n db)"
  shows "R db (fst (execute_external_backend env b c at db))"
  unfolding execute_external_backend_def by (intro history assms)

lemma execute_command_history:
  assumes "\<And>n db. R db (rn_world env n db)"
  shows "R db (fst (execute_command env c db))"
  unfolding execute_command_def by (intro history history_external history_provider assms)

end

section \<open>The instances\<close>

text \<open>A step of the store that leaves missions and workspaces alone and deletes no workflow.\<close>

definition quiet_step :: "Db \<Rightarrow> Db \<Rightarrow> bool" where
  "quiet_step db db' = (db_step db db' \<and> mission_frame db db')"

abbreviation steps :: "Db \<Rightarrow> Db \<Rightarrow> bool" where
  "steps \<equiv> quiet_step\<^sup>*\<^sup>*"

lemma steps_store: "steps db db' \<Longrightarrow> db_step\<^sup>*\<^sup>* db db'"
  by (induction rule: rtranclp_induct) (auto simp: quiet_step_def intro: rtranclp.rtrancl_into_rtrancl)

lemma steps_frame: "steps db db' \<Longrightarrow> mission_frame db db'"
  by (induction rule: rtranclp_induct) (auto simp: quiet_step_def intro: mission_frame_trans)

lemma steps_one: "db_step db db' \<Longrightarrow> mission_frame db db' \<Longrightarrow> steps db db'"
  by (simp add: quiet_step_def r_into_rtranclp)

lemma frame_same:
  "db_missions db' = db_missions db \<Longrightarrow> db_workspaces db' = db_workspaces db \<Longrightarrow> db_workflows db' = db_workflows db \<Longrightarrow>
     mission_frame db db'"
  by (simp add: mission_frame_def)

lemmas run_defs = update_task_def create_session_def create_execution_def update_agent_def append_event_def send_message_def
  create_approval_def save_memory_def create_verification_def save_recovery_record_def update_execution_def update_command_def

text \<open>A run is a history of such steps, so every invariant of reachable stores holds after it.\<close>

interpretation store_history: closing_relation steps
  by unfold_locales (rule rtranclp.rtrancl_refl, erule (1) rtranclp_trans,
    (rule steps_one, rule db_step.intros, rule frame_same; simp add: run_defs split: option.split)+)

text \<open>What a run commits: verdicts, decisions of recovery, the state of commands and closed
executions.\<close>

definition commits :: "Db \<Rightarrow> Verification list \<times> RecoveryRecord list \<times> Command list \<times> Execution list" where
  "commits db = (db_verifications db, db_recoveries db, db_commands db,
     filter (\<lambda>x. execution_final (x_state x)) (db_executions db))"

text \<open>Up to the check of the lease a run commits nothing.\<close>

definition keeps_commits :: "Db \<Rightarrow> Db \<Rightarrow> bool" where
  "keeps_commits db db' = (commits db' = commits db)"

interpretation no_commit: run_relation keeps_commits
proof unfold_locales
  fix x :: Execution and db
  assume "x_state x = ExecutionState.Running"
  then show "keeps_commits db (fst (create_execution x db))"
    by (auto simp: keeps_commits_def create_execution_def commits_def execution_final_def split: option.splits)
qed (auto simp: keeps_commits_def, auto simp: commits_def update_task_def create_session_def
    update_agent_def append_event_def send_message_def create_approval_def save_memory_def split: if_splits option.splits)

text \<open>No operation of the run writes a lease, and none but the close changes a stored execution.\<close>

definition keeps_leases :: "Db \<Rightarrow> Db \<Rightarrow> bool" where
  "keeps_leases db db' = (db_leases db' = db_leases db)"

interpretation same_leases: closing_relation keeps_leases
  by unfold_locales (auto simp: keeps_leases_def update_task_def create_session_def create_execution_def update_agent_def
      append_event_def send_message_def create_approval_def save_memory_def create_verification_def save_recovery_record_def
      update_execution_def update_command_def split: if_splits option.splits)

definition keeps_executions :: "Db \<Rightarrow> Db \<Rightarrow> bool" where
  "keeps_executions db db' = (\<forall>i x. get_execution i db = Some x \<longrightarrow> get_execution i db' = Some x)"

lemma keeps_executions_same: "db_executions db' = db_executions db \<Longrightarrow> keeps_executions db db'"
  by (simp add: keeps_executions_def get_execution_def)

interpretation same_executions: recording_relation keeps_executions
proof unfold_locales
  fix x :: Execution and db
  show "keeps_executions db (fst (create_execution x db))"
    by (simp add: keeps_executions_def get_execution_def create_execution_def tbl_get_append split: option.split)
qed (simp add: keeps_executions_same, simp add: keeps_executions_def, auto intro!: keeps_executions_same simp: update_task_def create_session_def update_agent_def append_event_def
    send_message_def create_approval_def save_memory_def create_verification_def save_recovery_record_def split: if_splits option.splits)

end
