(* ===== verification/Runner_Properties.thy ===== *)
theory Runner_Properties
  imports Runner_Laws Runtime_Properties "HOL-Library.Code_Target_Nat"
begin

text \<open>The properties of the agent runner: a command with a stale token starts nothing, a lease
lost during the work commits nothing, what a finished run leaves, a request for approval
does not stop the work.\<close>

section \<open>Fencing\<close>

lemma check_fencing_token:
  "check_fencing now (Some g) agent_id (get_lease_by_task task_id db) =
     (if holds_lease now g task_id agent_id db then Ok () else Err lease_error)"
  by (auto simp: check_fencing_def holds_lease_def split: option.split)

text \<open>C6: a command whose token is not that of a live lease of its agent on its task is
refused, and the refusal leaves the store as it is.\<close>

theorem runner_fenced:
  assumes "decode_command c = Ok (task_id, agent_id)" "fencing_token c = Some g"
    "\<not> holds_lease (rn_start env) g task_id agent_id db"
  shows "fst (execute_command env c db) = db \<and> is_err (snd (execute_command env c db))"
proof -
  have "is_err (admitted env c db)"
    using assms by (auto simp: admitted_def load_entities_def check_fencing_token)
  then show ?thesis by (cases "admitted env c db") (auto simp: execute_command_def)
qed

section \<open>A lease lost during the work\<close>

lemma attempt_transition_id [simp]: "t_id (attempt_transition now st t) = t_id t"
  by (auto simp: attempt_transition_def Task_transition_to_def split: result.split)

lemma started_task_id [simp]: "t_id (started_task now a t) = t_id t"
  by (simp add: started_task_def Let_def split: TaskState.split)

lemma case_result_Ok:
  "(case r of Ok x \<Rightarrow> f x | Err e \<Rightarrow> (db, Err (g e))) = (db', Ok y) \<longleftrightarrow> (\<exists>x. r = Ok x \<and> f x = (db', Ok y))"
  by (cases r) auto

lemma case_option_Ok:
  "(case q of None \<Rightarrow> (db, Err e) | Some x \<Rightarrow> f x) = (db', Ok y) \<longleftrightarrow> (\<exists>x. q = Some x \<and> f x = (db', Ok y))"
  by (cases q) auto

lemma begin_attempt_Ok:
  assumes "begin_attempt env t a db = (db1, Ok at)"
  shows "t_id (at_task at) = t_id t" "a_id (at_agent at) = a_id a"
  using assms by (auto simp: begin_attempt_def Let_def st_then_Ok case_result_Ok busy_def)

lemma task_puts_id: "task_puts kvs t = Ok t1 \<Longrightarrow> t_id t1 = t_id t"
  by (auto simp: task_puts_def)

lemma isolate_Ok: "isolate env t a w dir db = (db1, Ok (t1, p)) \<Longrightarrow> t_id t1 = t_id t"
  by (auto simp: isolate_def task_puts_id split: if_splits result.splits)

text \<open>The hypothesis of the lemmas below: while the provider or the backend works, other threads
may change the store, the leases in particular, but commit nothing.\<close>

definition world_commits_nothing :: "RunnerEnv \<Rightarrow> bool" where
  "world_commits_nothing env = (\<forall>n db. commits (rn_world env n db) = commits db)"

lemma world_keeps: "world_commits_nothing env \<Longrightarrow> keeps_commits db (rn_world env n db)"
  by (simp add: world_commits_nothing_def keeps_commits_def)

text \<open>An operation whose result satisfies P, or else commits nothing and answers as E says.\<close>

definition guarded ::
  "(Db \<times> ('b, RuntimeError) result \<Rightarrow> bool) \<Rightarrow> (('b, RuntimeError) result \<Rightarrow> bool) \<Rightarrow> Db \<Rightarrow> Db \<times> ('b, RuntimeError) result \<Rightarrow> bool" where
  "guarded P E db q = (P q \<or> commits (fst q) = commits db \<and> E (snd q))"

lemma guarded_then:
  assumes "\<And>e. E (Err e)" "keeps_commits db db'" "keeps_commits db' (fst (m db'))"
    "\<And>x d. m db' = (d, Ok x) \<Longrightarrow> guarded P E d (f x d)"
  shows "guarded P E db (st_then m f db')"
proof (cases "m db'")
  case (Pair d r)
  have d: "commits d = commits db" using assms(2,3) by (simp add: keeps_commits_def Pair)
  show ?thesis
  proof (cases r)
    case (Ok x)
    then show ?thesis using assms(4) [of d x] d by (simp add: guarded_def st_then.simps Pair)
  qed (use d assms(1) in \<open>simp add: guarded_def st_then.simps Pair\<close>)
qed

lemma guarded_Err: "(\<And>e. E (Err e)) \<Longrightarrow> guarded P E db (db, Err e)"
  by (simp add: guarded_def)

lemma guarded_option:
  "(\<And>e. E (Err e)) \<Longrightarrow> (\<And>x. q = Some x \<Longrightarrow> guarded P E db (f x)) \<Longrightarrow>
     guarded P E db (case q of None \<Rightarrow> (db, Err e) | Some x \<Rightarrow> f x)"
  by (cases q) (simp_all add: guarded_Err)

lemma guarded_from: "keeps_commits db db' \<Longrightarrow> guarded P E db' q \<Longrightarrow> guarded P E db q"
  by (simp add: guarded_def keeps_commits_def)

text \<open>The two ways to run an attempt reach the check of the lease with nothing committed, so
each is guarded when the check with the close behind it is.\<close>

lemma provider_guarded:
  assumes w: "world_commits_nothing env" and e: "\<And>e. E (Err e)"
    and close: "\<And>wdir turn d. guarded P E d
      (st_then (commit_check (rn_finish env) (fencing_token c) (t_id (at_task at)) (a_id (at_agent at)))
        (\<lambda>_. close_turns env c wdir (at_agent at) (at_execution at) turn) d)"
  shows "guarded P E db (execute_with_provider env c wk at db)"
proof (cases "chosen_provider env (at_agent at)")
  case (Ok p)
  have u: "keeps_commits db (fst (run_turns env p s ns t db))" for s ns t db
    by (rule no_commit.history_turns) (rule world_keeps [OF w])
  show ?thesis unfolding execute_with_provider_def Ok result.case Let_def
    by (rule guarded_then, rule e, intro history, intro history, clarsimp simp only: prod.case, drule isolate_Ok)
      (simp only:, rule guarded_option, rule e, rule guarded_then, rule e, intro history, rule u, rule close)
qed (simp add: execute_with_provider_def guarded_Err e)

lemma external_guarded:
  assumes w: "world_commits_nothing env" and e: "\<And>e. E (Err e)"
    and close: "\<And>t dir k outcome d. guarded P E d
      (st_then (commit_check (rn_finish env) (fencing_token c) (t_id (at_task at)) (a_id (at_agent at)))
        (\<lambda>_. st_then (close_external env dir k outcome t (at_agent at) (at_execution at)) (\<lambda>(x, success).
          st_then (release_agent env c success (at_agent at)) (\<lambda>_ db2. (db2, Ok x)))) d)"
  shows "guarded P E db (execute_external_backend env b c at db)"
proof (cases "chosen_backend env b")
  case (Ok k)
  have u: "keeps_commits db1 (forward_events now x evs (rn_world env 0 db1))" for now x evs db1
    by (rule no_commit.history_forward) (rule world_keeps [OF w])
  show ?thesis unfolding execute_external_backend_def Ok result.case
    by (rule guarded_then, rule e, intro history, intro history, clarsimp simp only: prod.case, drule isolate_Ok)
      (auto intro!: guarded_from [OF u close] split: prod.split)
qed (simp add: execute_external_backend_def guarded_Err e)

lemma admitted_ids:
  assumes "decode_command c = Ok (task_id, agent_id)" "admitted env c db = Ok (t, a)"
  shows "t_id t = task_id" "a_id a = agent_id"
  using assms by (auto simp: admitted_def load_entities_def get_agent_def dest: db_get_task_id tbl_get_key)

lemma execute_guarded:
  assumes w: "world_commits_nothing env" and e: "\<And>e. E (Err e)" and d: "decode_command c = Ok (task_id, agent_id)"
    and turns: "\<And>a x wdir turn d. a_id a = agent_id \<Longrightarrow> guarded P E d
      (st_then (commit_check (rn_finish env) (fencing_token c) task_id agent_id) (\<lambda>_. close_turns env c wdir a x turn) d)"
    and external: "\<And>a x dir k outcome t d. a_id a = agent_id \<Longrightarrow> guarded P E d
      (st_then (commit_check (rn_finish env) (fencing_token c) task_id agent_id)
        (\<lambda>_. st_then (close_external env dir k outcome t a x) (\<lambda>(x, success).
          st_then (release_agent env c success a) (\<lambda>_ db2. (db2, Ok x)))) d)"
  shows "guarded P E db (execute_command env c db)"
proof (cases "admitted env c db")
  case (Ok ta)
  obtain t a where ta: "ta = (t, a)" by fastforce
  note ids = admitted_ids [OF d Ok [unfolded ta]]
  have "guarded P E d' (execute_with_provider env c wk at d')" "guarded P E d' (execute_external_backend env b c at d')"
    if "begin_attempt env t a db = (d', Ok at)" for d' at wk b
  proof -
    note at = begin_attempt_Ok [OF that, unfolded ids]
    show "guarded P E d' (execute_with_provider env c wk at d')"
      by (rule provider_guarded [where E = E, OF w e], unfold at, rule turns, rule at(2))
    show "guarded P E d' (execute_external_backend env b c at d')"
      by (rule external_guarded [where E = E, OF w e], unfold at, rule external, rule at(2))
  qed
  then show ?thesis
    unfolding execute_command_def Ok ta result.case prod.case
    by (intro guarded_then e) (auto simp: Let_def split: option.split intro: history)
qed (simp add: execute_command_def guarded_Err e)

text \<open>Behind the check nothing changes a lease, so a lease that is not held at the end was not
held there.\<close>

lemma checked_guarded:
  assumes "\<And>d. keeps_leases d (fst (f () d))"
  shows "guarded (\<lambda>q. holds_lease now g i a (fst q)) is_err d (st_then (commit_check now (Some g) i a) f d)"
proof (cases "holds_lease now g i a d")
  case True
  then have "holds_lease now g i a (fst (f () d))"
    using assms [of d] by (simp add: keeps_leases_def holds_lease_def get_lease_by_task_def)
  then show ?thesis using True by (simp add: guarded_def st_then.simps commit_check_def)
qed (simp add: guarded_def st_then.simps commit_check_def)

text \<open>C5: when at the end of a run its lease is not held, because other threads, which commit
nothing themselves, took it in whichever turn of the provider or during the work of the backend,
the run ends in an error: it has recorded no verdict and no decision of recovery, closed no
execution and left the command as it was.\<close>

theorem lost_lease_commits_nothing:
  assumes "decode_command c = Ok (task_id, agent_id)" "fencing_token c = Some g" "world_commits_nothing env"
    "\<not> holds_lease (rn_finish env) g task_id agent_id (fst (execute_command env c db))"
  shows "is_err (snd (execute_command env c db)) \<and> commits (fst (execute_command env c db)) = commits db"
proof -
  have "guarded (\<lambda>q. holds_lease (rn_finish env) g task_id agent_id (fst q)) is_err db (execute_command env c db)"
    by (rule execute_guarded [OF assms(3) _ assms(1)]) (simp, unfold assms(2), (rule checked_guarded, intro history)+)
  then show ?thesis using assms(4) by (auto simp: guarded_def)
qed

section \<open>What a finished run leaves\<close>

lemma case_pair_eq: "(case p of (x, y) \<Rightarrow> f x y) = q \<longleftrightarrow> (\<exists>x y. p = (x, y) \<and> f x y = q)"
  by (cases p) auto

definition agent_free :: "ident \<Rightarrow> Db \<Rightarrow> bool" where
  "agent_free i db = (\<exists>b. get_agent i db = Some b \<and> a_state b = AgentState.Idle \<and> a_current_execution_id b = None)"

text \<open>The row of an execution has the fields of a value, and the rows of a command those of another.\<close>

definition execution_stored :: "Execution \<Rightarrow> Db \<Rightarrow> bool" where
  "execution_stored x db = (\<exists>r. get_execution (x_id x) db = Some r \<and> x_state r = x_state x \<and>
     x_started_at r = x_started_at x \<and> x_completed_at r = x_completed_at x \<and>
     x_error_message r = x_error_message x \<and> x_metadata r = x_metadata x)"

definition command_stored :: "Command \<Rightarrow> Db \<Rightarrow> bool" where
  "command_stored k db = (\<forall>r \<in> set (db_commands db). c_id r = c_id k \<longrightarrow>
     c_state r = c_state k \<and> c_attempts r = c_attempts k \<and> c_completed_at r = c_completed_at k)"

definition waits_for_human :: "ident \<Rightarrow> Db \<Rightarrow> bool" where
  "waits_for_human i db = (\<exists>t. db_get_task i db = Some t \<and> t_state t = TaskState.NeedsHuman \<and> t_assigned_agent_id t = None)"

text \<open>What is stored after a run that returns an execution.\<close>

definition run_settled :: "RunnerEnv \<Rightarrow> Command \<Rightarrow> ident \<Rightarrow> ident \<Rightarrow> Execution \<Rightarrow> Db \<Rightarrow> bool" where
  "run_settled env c task_id agent_id x db =
    (agent_free agent_id db \<and>
     (case x_state x of
        ExecutionState.Completed \<Rightarrow>
          x_completed_at x = Some (rn_finish env) \<and> execution_stored x db \<and>
          command_stored (Command_mark_completed (rn_finish env) c) db
      | ExecutionState.Failed \<Rightarrow>
          x_completed_at x = Some (rn_finish env) \<and> x_error_message x \<noteq> None \<and> execution_stored x db \<and>
          command_stored (Command_mark_failed (rn_finish env) c) db
      | ExecutionState.Running \<Rightarrow> waits_for_human task_id db
      | _ \<Rightarrow> False))"

lemma update_agent_frees:
  assumes "update_agent (idle a) db = (db', Ok ())"
  shows "agent_free (a_id a) db'"
proof -
  have id: "a_id (idle a) = a_id a" by (simp add: idle_def)
  then have has: "tbl_has a_id (a_id a) (db_agents db)"
    and db': "db' = db\<lparr>db_agents := tbl_modify a_id (a_id a) (\<lambda>r. (idle a)\<lparr>a_created_at := a_created_at r\<rparr>) (db_agents db)\<rparr>"
    using assms by (auto simp: update_agent_def split: if_splits)
  obtain r where "tbl_get a_id (a_id a) (db_agents db) = Some r" using has by (metis not_None_eq tbl_get_None)
  then have "get_agent (a_id a) db' = Some ((idle a)\<lparr>a_created_at := a_created_at r\<rparr>)"
    by (simp add: get_agent_def db' id tbl_get_overwrite)
  then show ?thesis by (simp add: agent_free_def idle_def)
qed

lemma agent_free_tables [simp]:
  "agent_free i (db\<lparr>db_commands := cs\<rparr>) = agent_free i db" "agent_free i (db\<lparr>db_tasks := ts\<rparr>) = agent_free i db"
  by (simp_all add: agent_free_def get_agent_def)

text \<open>The row of a closed execution outlives the verification, the recovery and the release of
the agent.\<close>

lemma execution_stays: "execution_stored x db \<Longrightarrow> keeps_executions db db' \<Longrightarrow> execution_stored x db'"
  by (auto simp: execution_stored_def keeps_executions_def)

definition closed_as :: "RunnerEnv \<Rightarrow> bool \<Rightarrow> Execution \<Rightarrow> Db \<Rightarrow> bool" where
  "closed_as env success y db =
    (x_completed_at y = Some (rn_finish env) \<and> execution_stored y db \<and>
     (if success then x_state y = ExecutionState.Completed
      else x_state y = ExecutionState.Failed \<and> x_error_message y \<noteq> None))"

lemma closed_stays: "closed_as env success y db \<Longrightarrow> keeps_executions db db' \<Longrightarrow> closed_as env success y db'"
  using execution_stays by (auto simp: closed_as_def)

lemma store_finished_Ok:
  assumes "store_finished (rn_finish env) why x db = (db', Ok y)"
  shows "closed_as env (why = None) y db'"
proof -
  have f: "finished_execution (rn_finish env) why x = Ok y" and u: "update_execution y db = (db', Ok ())"
    using assms by (auto simp: store_finished_def st_then_Ok case_result_Ok)
  have "execution_stored y db'"
  proof -
    have "tbl_has x_id (x_id y) (db_executions db)" using u by (auto simp: update_execution_def split: if_splits)
    then obtain r where "get_execution (x_id y) db = Some r"
      unfolding get_execution_def by (metis not_None_eq tbl_get_None)
    then show ?thesis
      using u by (auto simp: update_execution_def execution_stored_def get_execution_def tbl_get_modify split: if_splits)
  qed
  then show ?thesis
    using f by (auto simp: closed_as_def finished_execution_def Execution_mark_completed_def Execution_mark_failed_def
        execution_lc.tr_eq_Ok map_err_eq_Ok split: option.splits)
qed

lemma release_settles:
  assumes "release_agent env c success a db = (db', Ok ())" "closed_as env success x db"
  shows "run_settled env c i (a_id a) x db'"
proof -
  define k where "k = (if success then Command_mark_completed (rn_finish env) c else Command_mark_failed (rn_finish env) c)"
  obtain db1 where 1: "update_agent (idle a) db = (db1, Ok ())" and 2: "update_command k db1 = (db', Ok ())"
    using assms(1) by (auto simp: release_agent_def st_then_Ok k_def)
  have "agent_free (a_id a) db'"
    using update_agent_frees [OF 1] 2 by (auto simp: update_command_def)
  moreover have "command_stored k db'"
    using 2 by (auto simp: command_stored_def update_command_def tbl_modify_def split: if_splits)
  moreover have "keeps_executions db db'"
    using 1 2 by (auto simp: update_agent_def update_command_def intro!: keeps_executions_same split: if_splits)
  ultimately show ?thesis
    using closed_stays [OF assms(2)] by (cases success) (auto simp: run_settled_def closed_as_def k_def)
qed

lemma attempt_closed:
  "complete_execution env dir t x db = (db', Ok y) \<Longrightarrow> closed_as env True y db'"
  "fail_attempt env why t x db = (db', Ok y) \<Longrightarrow> closed_as env False y db'"
  "succeed_external env dir b r t a x db = (db', Ok y) \<Longrightarrow> closed_as env True y db'"
proof -
  assume "complete_execution env dir t x db = (db', Ok y)"
  then obtain db1 where f: "store_finished (rn_finish env) None x db = (db1, Ok y)"
    and r: "st_then (run_event (rn_finish env) ''execution'' (x_id y) ''execution_completed'') (\<lambda>_.
      st_then (verify_result env dir t y) (\<lambda>_ db. (db, Ok y))) db1 = (db', Ok y)"
    by (auto simp: complete_execution_def st_then_Ok)
  have "keeps_executions db1 (fst (st_then (run_event (rn_finish env) ''execution'' (x_id y) ''execution_completed'') (\<lambda>_.
      st_then (verify_result env dir t y) (\<lambda>_ db. (db, Ok y))) db1))"
    by (intro history)
  then show "closed_as env True y db'" using closed_stays [OF store_finished_Ok [OF f]] r by simp
next
  assume "fail_attempt env why t x db = (db', Ok y)"
  then obtain db1 where f: "store_finished (rn_finish env) (Some why) x db = (db1, Ok y)"
    and r: "st_then (rt_store (update_task (attempt_transition (rn_finish env) TaskState.Failed t))) (\<lambda>_.
      st_then (run_event (rn_finish env) ''execution'' (x_id y) ''execution_failed'') (\<lambda>_.
      st_then (recover env (attempt_transition (rn_finish env) TaskState.Failed t) y why) (\<lambda>_ db. (db, Ok y)))) db1 = (db', Ok y)"
    by (auto simp: fail_attempt_def Let_def st_then_Ok)
  have "keeps_executions db1 (fst (st_then (rt_store (update_task (attempt_transition (rn_finish env) TaskState.Failed t))) (\<lambda>_.
      st_then (run_event (rn_finish env) ''execution'' (x_id y) ''execution_failed'') (\<lambda>_.
      st_then (recover env (attempt_transition (rn_finish env) TaskState.Failed t) y why) (\<lambda>_ db. (db, Ok y)))) db1))"
    by (intro history)
  then show "closed_as env False y db'" using closed_stays [OF store_finished_Ok [OF f]] r by simp
next
  assume "succeed_external env dir b r t a x db = (db', Ok y)"
  then obtain db1 db2 where f: "store_finished (rn_finish env) None x db = (db1, Ok y)"
    and e: "run_event (rn_finish env) ''execution'' (x_id y) ''execution_completed'' db1 = (db2, Ok ())"
    and r: "st_then (verify_result env dir t y) (\<lambda>_ db. (db, Ok y)) (emit_event (rn_finish env) ''execution'' (x_id y)
      ''message_sent'' (fst (send_message (collaboration_message (rn_finish env) b r t a db2) db2))) = (db', Ok y)"
    by (auto simp: succeed_external_def st_then_Ok)
  have "keeps_executions db1 (fst (run_event (rn_finish env) ''execution'' (x_id y) ''execution_completed'' db1))"
    by (intro history)
  moreover have "keeps_executions db2 (fst (st_then (verify_result env dir t y) (\<lambda>_ db. (db, Ok y)) (emit_event (rn_finish env)
      ''execution'' (x_id y) ''message_sent'' (fst (send_message (collaboration_message (rn_finish env) b r t a db2) db2)))))"
    by (intro history)
  ultimately show "closed_as env True y db'"
    using closed_stays [OF closed_stays [OF store_finished_Ok [OF f]]] e r by simp
qed

text \<open>The turns work on one task.\<close>

lemma tool_call_task:
  "tool_call env s call turn db = (db', Ok (t1, stop)) \<Longrightarrow> t_id (tn_task t1) = t_id (tn_task turn)"
  by (auto simp: tool_call_def Let_def st_then_Ok send_message_call_def approval_call_def save_memory_call_def
      search_memory_call_def registry_call_def answer_def error_answer_def split: if_splits option.splits prod.splits result.splits)

lemma run_calls_task:
  "run_calls env s i calls turn db = (db', Ok t1) \<Longrightarrow> t_id (tn_task t1) = t_id (tn_task turn)"
proof (induction calls arbitrary: i turn db)
  case (Cons call calls)
  obtain db1 t2 stop where "tool_call env (s\<lparr>st_call := i\<rparr>) call turn db = (db1, Ok (t2, stop))"
    "(if stop then (db1, Ok t2) else run_calls env s (i + 1) calls t2 db1) = (db', Ok t1)"
    using Cons.prems unfolding run_calls.simps(2) by (auto simp: st_then_Ok split: if_splits prod.splits)
  then show ?case using tool_call_task Cons.IH by (auto split: if_splits)
qed simp

lemma take_turn_task:
  "take_turn env p s turn db = (db', Ok (t1, stop)) \<Longrightarrow> t_id (tn_task t1) = t_id (tn_task turn)"
  by (auto simp: take_turn_def st_then_Ok answered_turn_def split: result.splits option.splits dest!: run_calls_task)

lemma run_turns_task:
  "run_turns env p s ns turn db = (db', Ok t1) \<Longrightarrow> t_id (tn_task t1) = t_id (tn_task turn)"
proof (induction ns arbitrary: turn db)
  case (Cons n ns)
  obtain db1 t2 stop where "take_turn env p (s\<lparr>st_turn := n\<rparr>) turn db = (db1, Ok (t2, stop))"
    "(if stop then (db1, Ok t2) else run_turns env p s ns t2 db1) = (db', Ok t1)"
    using Cons.prems unfolding run_turns.simps(2) by (auto simp: st_then_Ok split: if_splits prod.splits)
  then show ?case using take_turn_task Cons.IH by (auto split: if_splits)
qed simp

lemma hold_settles:
  assumes "hold_for_human t a x db = (db', Ok y)" "x_state x = ExecutionState.Running" "t_state t = TaskState.NeedsHuman"
  shows "run_settled env c (t_id t) (a_id a) y db'"
proof -
  let ?t = "t\<lparr>t_assigned_agent_id := None\<rparr>"
  obtain db1 where 1: "update_agent (idle a) db = (db1, Ok ())" and 2: "update_task ?t db1 = (db', Ok ())" "y = x"
    using assms(1) by (auto simp: hold_for_human_def st_then_Ok)
  have "agent_free (a_id a) db'" using update_agent_frees [OF 1] 2 by (auto simp: update_task_def split: if_splits)
  moreover have "db_get_task (t_id t) db1 \<noteq> None"
    using 2(1) by (auto simp: update_task_def db_get_task_def tbl_get_None split: if_splits)
  then have "waits_for_human (t_id t) db'"
    using update_task_Ok(1) [OF 2(1), of "t_id t"] assms(3) by (auto simp: waits_for_human_def)
  ultimately show ?thesis using assms(2) 2 by (simp add: run_settled_def)
qed

lemma closed_turns:
  assumes "\<not> (tn_clean turn \<and> t_state (tn_task turn) = TaskState.NeedsHuman)"
    "close_turns env c dir a x turn db = (db', Ok y)"
  shows "run_settled env c i (a_id a) y db' \<and> x_state y \<noteq> ExecutionState.Running"
proof -
  obtain db1 where "closed_as env (tn_clean turn) y db1" "release_agent env c (tn_clean turn) a db1 = (db', Ok ())"
    using assms by (auto simp: close_turns_def st_then_Ok split: if_splits dest!: attempt_closed)
  then show ?thesis using release_settles by (auto simp: closed_as_def split: if_splits)
qed

lemma close_turns_settles:
  assumes "close_turns env c dir a x turn db = (db', Ok y)" "x_state x = ExecutionState.Running"
  shows "run_settled env c (t_id (tn_task turn)) (a_id a) y db'"
proof (cases "tn_clean turn \<and> t_state (tn_task turn) = TaskState.NeedsHuman")
  case True
  then show ?thesis using hold_settles [OF _ assms(2)] assms(1) by (simp add: close_turns_def)
qed (use closed_turns assms(1) in blast)

lemma close_external_state:
  "close_external env dir b outcome t a x db = (db', Ok (y, success)) \<Longrightarrow> closed_as env success y db'"
  by (auto simp: close_external_def st_then_Ok case_result_Ok split: result.splits if_splits prod.splits dest!: attempt_closed)

lemma closed_external:
  assumes "st_then (close_external env dir k outcome t a x) (\<lambda>(y, success).
      st_then (release_agent env c success a) (\<lambda>_ db2. (db2, Ok y))) db = (db', Ok y)"
  shows "run_settled env c i (a_id a) y db' \<and> x_state y \<noteq> ExecutionState.Running"
proof -
  obtain db1 success where "close_external env dir k outcome t a x db = (db1, Ok (y, success))"
    "release_agent env c success a db1 = (db', Ok ())"
    using assms by (auto simp: st_then_Ok)
  moreover from this(1) have "closed_as env success y db1" by (rule close_external_state)
  ultimately show ?thesis using release_settles by (auto simp: closed_as_def split: if_splits)
qed

lemma commit_check_same: "commit_check now token i a db = (db', Ok u) \<Longrightarrow> db' = db"
  by (auto simp: commit_check_def split: option.splits if_splits)

lemma provider_settles:
  assumes "execute_with_provider env c w at db = (db', Ok x)" "x_state (at_execution at) = ExecutionState.Running"
  shows "run_settled env c (t_id (at_task at)) (a_id (at_agent at)) x db'"
  using assms(1)
  by (auto simp: execute_with_provider_def case_result_Ok case_option_Ok st_then_Ok Let_def
      dest!: close_turns_settles [OF _ assms(2)] run_turns_task isolate_Ok commit_check_same split: result.splits)

lemma external_settles:
  assumes "execute_external_backend env b c at db = (db', Ok x)"
  shows "run_settled env c i (a_id (at_agent at)) x db'"
  using assms
  by (auto simp: execute_external_backend_def case_result_Ok case_pair_eq st_then_Ok split: result.splits
      dest!: close_external_state intro: release_settles)

text \<open>An execution that is returned running was held for a human, with nothing committed.\<close>

lemma execute_held:
  assumes "decode_command c = Ok (task_id, agent_id)" "world_commits_nothing env"
  shows "guarded (\<lambda>q. \<nexists>x. snd q = Ok x \<and> x_state x = ExecutionState.Running) (\<lambda>_. True) db (execute_command env c db)"
proof (rule execute_guarded [OF assms(2) _ assms(1)])
  fix a :: Agent and x wdir turn d assume a: "a_id a = agent_id"
  have "hold_for_human t a x d = (d', r) \<Longrightarrow> commits d' = commits d" for t d' r
    using no_commit.history_hold [of d t a x] by (simp add: keeps_commits_def)
  then show "guarded (\<lambda>q. \<nexists>x. snd q = Ok x \<and> x_state x = ExecutionState.Running) (\<lambda>_. True) d
      (st_then (commit_check (rn_finish env) (fencing_token c) task_id agent_id) (\<lambda>_. close_turns env c wdir a x turn) d)"
    using closed_turns [of turn env c wdir a x d]
    by (cases "tn_clean turn \<and> t_state (tn_task turn) = TaskState.NeedsHuman"; cases "close_turns env c wdir a x turn d")
      (auto simp: guarded_def st_then.simps commit_check_def close_turns_def split: option.split)
next
  fix a :: Agent and x dir k outcome t d
  show "guarded (\<lambda>q. \<nexists>x. snd q = Ok x \<and> x_state x = ExecutionState.Running) (\<lambda>_. True) d
      (st_then (commit_check (rn_finish env) (fencing_token c) task_id agent_id)
        (\<lambda>_. st_then (close_external env dir k outcome t a x) (\<lambda>(x, success).
          st_then (release_agent env c success a) (\<lambda>_ db2. (db2, Ok x)))) d)"
    using closed_external [of env dir k outcome t a x c d]
    by (auto simp: guarded_def st_then.simps [of "commit_check _ _ _ _"] commit_check_def prod_eq_iff split: option.split)
qed simp

text \<open>C8: what is stored after a run that returns an execution. Its agent is idle without an
execution. Either the execution is stored as completed now and every row of the command as
confirmed; or the execution is stored as failed now, with a reason, and the command as retrying,
or dead when its attempts are used up; or the execution is returned running, and its task is
stored as needing a human and unassigned. In this last case, unless other threads did, nothing
has been committed: no verdict, no decision, no closed execution, no change to a command.\<close>

theorem runner_settles:
  assumes "decode_command c = Ok (task_id, agent_id)" "execute_command env c db = (db', Ok x)"
  shows "run_settled env c task_id agent_id x db' \<and>
    (x_state x = ExecutionState.Running \<longrightarrow> world_commits_nothing env \<longrightarrow> commits db' = commits db)"
proof -
  obtain t a where ad: "admitted env c db = Ok (t, a)"
    using assms(2) by (cases "admitted env c db") (auto simp: execute_command_def)
  note ids = admitted_ids [OF assms(1) ad]
  obtain d at where b: "begin_attempt env t a db = (d, Ok at)"
    and r: "(case external_backend_id (at_task at) (at_agent at) (get_workflow (t_workflow_id (at_task at)) d) of
        Some k \<Rightarrow> execute_external_backend env k c at d
      | None \<Rightarrow> execute_with_provider env c (get_workflow (t_workflow_id (at_task at)) d) at d) = (db', Ok x)"
    using assms(2) by (auto simp: execute_command_def ad st_then_Ok Let_def)
  have run: "x_state (at_execution at) = ExecutionState.Running"
    using b by (auto simp: begin_attempt_def Let_def st_then_Ok case_result_Ok intro: running_execution_state)
  have "run_settled env c task_id agent_id x db'"
    using r provider_settles [OF _ run, of env c _ d db' x] external_settles [of env _ c at d db' x task_id]
      begin_attempt_Ok [OF b] ids by (auto split: option.splits)
  then show ?thesis using execute_held [OF assms(1), of env db] assms(2) by (auto simp: guarded_def)
qed

section \<open>The scheduler with this runner\<close>

definition runner_sched :: "time \<Rightarrow> (Command \<Rightarrow> RunnerEnv) \<Rightarrow> SchedEnv" where
  "runner_sched now envs =
    \<lparr>sd_now = now, sd_run = \<lambda>c db. (case execute_command (envs c) c db of (db1, r) \<Rightarrow> (db1, and_then r (\<lambda>x. Ok ())))\<rparr>"

lemma frame_transaction: "mission_frame db (fst (m db)) \<Longrightarrow> mission_frame db (fst (transaction m db))"
  by (auto simp: transaction_def split: prod.split result.split)

lemma frame_order: "reflp mission_frame" "transp mission_frame"
  by (auto intro!: reflpI transpI intro: mission_frame_trans)

lemma frame_acquire: "mission_frame db (fst (acquire_lease now l db))"
proof -
  have d: "moves mission_frame (\<lambda>db. (delete_leases P db, Ok ()))" for P
    by (simp add: moves_def delete_leases_def frame_same)
  have i: "moves mission_frame (increment_lease_generation i)" for i
    by (simp add: moves_def increment_lease_generation_def frame_same split: option.split)
  have n: "moves mission_frame (insert_lease q)" for q
    by (simp add: moves_def insert_lease_def frame_same)
  note t = moves_then [OF frame_order(2) i n] moves_then [OF frame_order(2) d moves_then [OF frame_order(2) i n]]
  show ?thesis
    by (auto simp: acquire_lease_def intro!: frame_transaction t [unfolded moves_def, rule_format] split: option.split)
qed

lemma history_dispatch [history]:
  "steps db (fst (acquire_lease now l db))" "steps db (fst (release_lease i db))"
  "steps db (fst (enqueue_command c db))" "steps db (fst (claim_command_by_id now i db))"
  by (rule steps_one, rule db_step.intros, rule frame_acquire | rule steps_one, rule db_step.intros, rule frame_same;
    simp add: release_lease_def delete_leases_def enqueue_command_def claim_command_by_id_def claim_row_def split: option.split)+

lemma history_lease_manager [history]:
  "steps db (fst (lm_acquire i now0 now t a ttl db))" "steps db (fst (lm_release i db))"
  unfolding lm_acquire_def lm_release_def by (intro history)+

lemma history_job [history]: "steps db (fst (dispatch_job env w t a l db))"
  unfolding dispatch_job_def enqueue_job_def by (intro history)

lemma history_tasks [history]: "steps db (fst (schedule_tasks env w ids agents jobs db))"
proof (induction ids arbitrary: agents jobs db)
  case (Cons i ids)
  show ?case unfolding schedule_tasks.simps(2) acquire_for_def
    by (intro history Cons.IH rtranclp_trans [OF history_lease_manager(2) Cons.IH])
qed simp

text \<open>A tick: every command runs under an environment in which other threads respect the
store and leave the missions alone.\<close>

definition fair_worlds :: "(Command \<Rightarrow> RunnerEnv) \<Rightarrow> bool" where
  "fair_worlds envs = (\<forall>c n db. steps db (rn_world (envs c) n db))"

lemma history_jobs:
  assumes "fair_worlds envs"
  shows "steps db (fst (run_jobs (runner_sched now envs) js db))"
proof (induction js arbitrary: db)
  case (Cons j js)
  have "steps db (fst (execute_command (envs c) c db))" for c
    by (rule store_history.execute_command_history) (use assms in \<open>simp add: fair_worlds_def\<close>)
  then have "steps db (fst (sd_run (runner_sched now envs) c db))" for c
    by (auto simp: runner_sched_def split: prod.split) (metis fst_conv)
  then have "steps db (fst (run_job (runner_sched now envs) j db))"
    unfolding run_job_def by (intro history)
  then show ?case unfolding run_jobs.simps(2) by (intro history Cons.IH)
qed simp

lemma history_workflows:
  assumes "fair_worlds envs"
  shows "steps db (fst (schedule_workflows (runner_sched now envs) wks db))"
proof (induction wks arbitrary: db)
  case (Cons wk wks)
  have "steps db (fst (schedule_workflow (runner_sched now envs) wk db))" for db
    unfolding schedule_workflow_def by (intro history history_jobs assms)
  then show ?case unfolding schedule_workflows.simps(2) by (intro history Cons.IH)
qed simp

section \<open>Approval\<close>

text \<open>A turn in which the agent asks for approval is not the last: the remaining turns run,
with every tool, although the task waits for a human.\<close>

theorem approval_does_not_stop:
  assumes "run_turns env p s (n # ns) turn db = (db2, Ok turn2)"
    "pv_complete p n (completion_request env (st_agent s) turn) = Ok r"
    "cm_tool_calls (cp_message r) = Some [call]" "tl_name call = ''request_human_approval''"
  shows "\<exists>db0 db1 turn0 turn1 stored.
    approval_call env (s\<lparr>st_turn := n, st_call := 0\<rparr>) call (call_arguments env call) turn0 db0 = (db1, turn1, stored) \<and>
    run_turns env p s ns turn1 db1 = (db2, Ok turn2) \<and>
    (stored \<longrightarrow> t_state (tn_task turn1) = TaskState.NeedsHuman \<and> tn_clean turn1)"
proof -
  let ?turn = "turn\<lparr>tn_messages := tn_messages turn @ [cp_message r]\<rparr>"
  let ?s = "s\<lparr>st_turn := n, st_call := 0\<rparr>"
  obtain db1 db0 t1 stop where t: "take_turn env p (s\<lparr>st_turn := n\<rparr>) turn db = (db1, Ok (t1, stop))"
    and r: "(if stop then (db1, Ok t1) else run_turns env p s ns t1 db1) = (db2, Ok turn2)"
    using assms(1) unfolding run_turns.simps(2) by (auto simp: st_then_Ok split: prod.splits if_splits)
  obtain db0 x where c: "run_calls env (s\<lparr>st_turn := n\<rparr>) 0 [call] ?turn db0 = (db1, Ok t1)" "\<not> stop"
    using t by (auto simp: take_turn_def st_then_Ok assms(2) answered_turn_def assms(3))
  obtain db3 stored where a: "approval_call env ?s call (call_arguments env call) ?turn db3 = (db1, t1, stored)"
    using c(1) unfolding run_calls.simps
    by (auto simp: st_then_Ok tool_call_def Let_def assms(4) case_pair_eq split: if_splits)
  moreover have "stored \<longrightarrow> t_state (tn_task t1) = TaskState.NeedsHuman \<and> tn_clean t1"
    using a by (auto simp: approval_call_def split: prod.splits result.splits)
  ultimately show ?thesis
    by (intro exI [of _ db3] exI [of _ db1] exI [of _ ?turn] exI [of _ t1] exI [of _ stored]) (use r c(2) in simp)
qed

text \<open>An agent that asks for approval in its first turn and is done in its second.\<close>

definition asking_call :: ToolCall where
  "asking_call = \<lparr>tl_id = ''k'', tl_name = ''request_human_approval'', tl_arguments = ''{}''\<rparr>"

definition asking :: Provider where
  "asking = \<lparr>pv_id = ''ollama'', pv_complete = \<lambda>n rq. Ok
     (if n = 0 then CompletionResponse_tool_calls [asking_call]
      else CompletionResponse_text ''done'')\<rparr>"

definition run_env :: RunnerEnv where
  "run_env = \<lparr>rn_start = 100, rn_finish = 200, rn_cwd = ''/work'', rn_json = \<lambda>s. Some (JObj []), rn_show = \<lambda>v. [],
     rn_single = \<lambda>n. 0, rn_number = \<lambda>s. JNull, rn_worktree = \<lambda>d b. Err ''no repository'', rn_score = \<lambda>s. [],
     rn_providers = [(''ollama'', asking)], rn_registry = [], rn_tool_definitions = [],
     rn_tool_env = undefined, rn_replacer = \<lambda>p r s. s, rn_world = \<lambda>n db. db,
     rn_verifier = \<lambda>d. \<lparr>ve_now = 200, ve_duration_ms = 1, ve_file = \<lambda>p. None, ve_shell = \<lambda>c. Err ''none''\<rparr>,
     rn_recovery = None, rn_backends = [], rn_builtin_backend = \<lambda>b. \<lparr>bk_id = b, bk_execute = \<lambda>rq. ([], Err ''none'')\<rparr>\<rparr>"

definition run_command :: Command where
  "run_command = Command_new 9 0 (CommandTarget.Agent 5) ExecuteTask
     (JObj [(''task_id'', JStr (decimal 2)), (''lease_generation'', JNum 1)]) ''k''"

definition leased_db :: Db where
  "leased_db = fst (acquire_lease 0 (Lease_new 11 0 2 5 1000) sched_db)"

lemma run_facts:
  "fencing_token run_command = Some 1" "decode_command run_command = Ok (2, 5)"
  by code_simp+

definition run_site :: CallSite where
  "run_site = \<lparr>st_agent = coder, st_execution = Execution_new 3 100 2 5 1, st_sandbox = Sandbox_new ''/work'',
     st_dir = ''/work'', st_turn = 0, st_call = 0\<rparr>"

definition run_turn :: Turn where
  "run_turn = \<lparr>tn_messages = [], tn_task = coding_task, tn_clean = False, tn_error = None\<rparr>"

lemma asking_runs: "is_ok (snd (run_turns run_env asking run_site [0, 1] run_turn sched_db))"
  by code_simp

theorem approval_does_not_stop_witness:
  "\<exists>db0 db1 turn0 turn1 stored r. approval_call run_env (run_site\<lparr>st_turn := 0, st_call := 0\<rparr>) asking_call
     (call_arguments run_env asking_call) turn0 db0 = (db1, turn1, stored) \<and>
     run_turns run_env asking run_site [1] turn1 db1 = r \<and> is_ok (snd r)"
proof -
  obtain db2 turn2 where r: "run_turns run_env asking run_site (0 # [1]) run_turn sched_db = (db2, Ok turn2)"
    using asking_runs by (cases "run_turns run_env asking run_site [0, 1] run_turn sched_db";
      cases "snd (run_turns run_env asking run_site [0, 1] run_turn sched_db)") auto
  have c: "pv_complete asking 0 (completion_request run_env (st_agent run_site) run_turn) =
      Ok (CompletionResponse_tool_calls [asking_call])"
    by (simp add: asking_def)
  show ?thesis
    using approval_does_not_stop [OF r c, of asking_call]
    by (simp add: CompletionResponse_tool_calls_def ChatMessage_with_tools_def asking_call_def) (metis is_ok_def result.case(1) snd_conv)
qed

section \<open>The properties at concrete inputs\<close>

lemma not_leased: "\<not> holds_lease 100 1 2 5 sched_db"
  by code_simp

theorem runner_fenced_witness:
  "fst (execute_command run_env run_command sched_db) = sched_db \<and> is_err (snd (execute_command run_env run_command sched_db))"
  by (rule runner_fenced [OF run_facts(2) run_facts(1)]) (simp add: run_env_def not_leased)

text \<open>The lease is lost in the second turn of the asking agent.\<close>

definition lost_env :: RunnerEnv where
  "lost_env = run_env\<lparr>rn_world := \<lambda>n db. if n = 1 then db\<lparr>db_leases := []\<rparr> else db\<rparr>"

theorem lost_lease_commits_nothing_witness:
  "holds_lease 100 1 2 5 leased_db \<and> is_err (snd (execute_command lost_env run_command leased_db)) \<and>
   commits (fst (execute_command lost_env run_command leased_db)) = commits leased_db"
proof -
  have "world_commits_nothing lost_env"
    by (simp add: world_commits_nothing_def lost_env_def run_env_def commits_def)
  moreover have "holds_lease 100 1 2 5 leased_db"
    "\<not> holds_lease (rn_finish lost_env) 1 2 5 (fst (execute_command lost_env run_command leased_db))" by code_simp+
  ultimately show ?thesis using lost_lease_commits_nothing [OF run_facts(2) run_facts(1)] by blast
qed

definition external_db :: Db where
  "external_db = fst (update_agent (coder\<lparr>a_provider_profile := ExecutionProfile_new ''fake_agent'' ''m''\<rparr>) leased_db)"

lemma external_runs: "(case execute_command run_env run_command external_db of (db, Ok x) \<Rightarrow> x_state x = ExecutionState.Failed | _ \<Rightarrow> False)"
  by code_simp

theorem runner_settles_witness:
  "\<exists>db x. execute_command run_env run_command external_db = (db, Ok x) \<and> x_state x = ExecutionState.Failed \<and>
     run_settled run_env run_command 2 5 x db"
proof -
  obtain db x where r: "execute_command run_env run_command external_db = (db, Ok x)" "x_state x = ExecutionState.Failed"
    using external_runs by (auto split: prod.splits result.splits)
  show ?thesis using r runner_settles [OF run_facts(2) r(1)] by blast
qed

end
