(* ===== verification/Failover.thy ===== *)
theory Failover
  imports Protocol
begin

text \<open>The routing of completion requests in plexis-providers: errors (error.rs), the retry
policy (reliability.rs), the health of providers (health.rs) and the failover router
(failover.rs). The answer of a provider and the clock depend on the number of calls made
before; the sleep between two attempts shows in the clock only. Durations are milliseconds.
The exponential backoff, a product of floating point numbers, is a parameter of the policy.
The health table is changed by one dispatch at a time.\<close>

section \<open>Errors\<close>

datatype ProviderError =
    Network string
  | Authentication string
  | RateLimited (retry_after_secs: "u64 option")
  | ModelNotFound string
  | InvalidResponse string
  | TimedOutError string
  | Unavailable string
  | ExecutionError string

fun is_transient :: "ProviderError \<Rightarrow> bool" where
  "is_transient (Network m) = True"
| "is_transient (TimedOutError m) = True"
| "is_transient (RateLimited s) = True"
| "is_transient (Unavailable m) = True"
| "is_transient (Authentication m) = False"
| "is_transient (ModelNotFound m) = False"
| "is_transient (InvalidResponse m) = False"
| "is_transient (ExecutionError m) = False"

fun retry_after :: "ProviderError \<Rightarrow> time option" where
  "retry_after (RateLimited (Some secs)) = Some (1000 * uint secs)"
| "retry_after _ = None"

fun provider_error_display :: "ProviderError \<Rightarrow> string" where
  "provider_error_display (Network m) = ''Network error communicating with provider: '' @ m"
| "provider_error_display (Authentication m) = ''Authentication failed for provider: '' @ m"
| "provider_error_display (RateLimited s) = ''Rate limited by provider (retry after '' @
     (case s of None \<Rightarrow> ''None'' | Some n \<Rightarrow> ''Some('' @ dec_word n @ '')'') @ '' seconds)''"
| "provider_error_display (ModelNotFound m) = ''Model not found: '' @ m"
| "provider_error_display (InvalidResponse m) = ''Invalid or malformed response from provider: '' @ m"
| "provider_error_display (TimedOutError m) = ''Request timed out: '' @ m"
| "provider_error_display (Unavailable m) = ''Provider is currently unavailable: '' @ m"
| "provider_error_display (ExecutionError m) = ''Provider execution error: '' @ m"

section \<open>Retries\<close>

record RetryPolicy =
  max_retries :: u32
  initial_backoff :: time
  max_backoff :: time
  backoff_millis :: "u32 \<Rightarrow> time"

definition compute_delay :: "u32 \<Rightarrow> ProviderError \<Rightarrow> RetryPolicy \<Rightarrow> time option" where
  "compute_delay attempt e p =
    (if max_retries p \<le> attempt then None
     else if \<not> is_transient e then None
     else case retry_after e of
       Some explicit \<Rightarrow> Some (min (max explicit (initial_backoff p)) (max_backoff p))
     | None \<Rightarrow> Some (min (backoff_millis p attempt) (max_backoff p)))"

section \<open>Health\<close>

datatype ProviderHealthStatus =
    Healthy
  | Degraded u32
  | Down (down_until: time) string

record HealthEntry =
  he_status :: ProviderHealthStatus
  he_consecutive_failures :: u32
  he_total_successes :: u64
  he_total_failures :: u64
  he_last_error :: "string option"

definition HealthEntry_default :: HealthEntry where
  "HealthEntry_default =
    \<lparr>he_status = Healthy, he_consecutive_failures = 0, he_total_successes = 0, he_total_failures = 0, he_last_error = None\<rparr>"

record ProviderHealthTracker =
  ht_entries :: "string \<Rightarrow> HealthEntry option"
  failure_threshold :: u32
  cooldown_duration :: time

definition ProviderHealthTracker_new :: "u32 \<Rightarrow> time \<Rightarrow> ProviderHealthTracker" where
  "ProviderHealthTracker_new threshold cooldown =
    \<lparr>ht_entries = (\<lambda>i. None), failure_threshold = threshold, cooldown_duration = cooldown\<rparr>"

definition health_entry :: "string \<Rightarrow> ProviderHealthTracker \<Rightarrow> HealthEntry" where
  "health_entry i h = (case ht_entries h i of Some e \<Rightarrow> e | None \<Rightarrow> HealthEntry_default)"

definition put_entry :: "string \<Rightarrow> HealthEntry \<Rightarrow> ProviderHealthTracker \<Rightarrow> ProviderHealthTracker" where
  "put_entry i e h = h\<lparr>ht_entries := (ht_entries h)(i \<mapsto> e)\<rparr>"

definition record_provider_success :: "string \<Rightarrow> ProviderHealthTracker \<Rightarrow> ProviderHealthTracker" where
  "record_provider_success i h =
    (let e = health_entry i h in
     put_entry i (e\<lparr>he_consecutive_failures := 0, he_total_successes := he_total_successes e + 1, he_status := Healthy\<rparr>) h)"

definition failed_status :: "time \<Rightarrow> ProviderError \<Rightarrow> u32 \<Rightarrow> ProviderHealthTracker \<Rightarrow> ProviderHealthStatus" where
  "failed_status now err n h =
    (case retry_after err of
       Some r \<Rightarrow> Down (now + r) ''Rate limited by provider''
     | None \<Rightarrow>
         if failure_threshold h \<le> n
         then Down (now + cooldown_duration h) (''Tripped circuit breaker after '' @ dec_word n @ '' failures'')
         else Degraded n)"

definition record_provider_failure ::
  "time \<Rightarrow> string \<Rightarrow> ProviderError \<Rightarrow> ProviderHealthTracker \<Rightarrow> ProviderHealthTracker" where
  "record_provider_failure now i err h =
    (let e = health_entry i h; n = he_consecutive_failures e + 1 in
     put_entry i (e\<lparr>he_consecutive_failures := n, he_total_failures := he_total_failures e + 1,
         he_last_error := Some (provider_error_display err), he_status := failed_status now err n h\<rparr>) h)"

definition is_available :: "time \<Rightarrow> string \<Rightarrow> ProviderHealthTracker \<Rightarrow> ProviderHealthTracker \<times> bool" where
  "is_available now i h =
    (let e = health_entry i h in
     case he_status e of
       Down until why \<Rightarrow>
         if until \<le> now then (put_entry i (e\<lparr>he_status := Degraded (he_consecutive_failures e)\<rparr>) h, True)
         else (put_entry i e h, False)
     | _ \<Rightarrow> (put_entry i e h, True))"

definition get_status :: "string \<Rightarrow> ProviderHealthTracker \<Rightarrow> ProviderHealthStatus" where
  "get_status i h = (case ht_entries h i of Some e \<Rightarrow> he_status e | None \<Rightarrow> Healthy)"

section \<open>Policies and descriptors\<close>

datatype PrivacyPolicy = LocalOnly | AllowedProviders "string list" | AnyProvider

fun allows :: "PrivacyPolicy \<Rightarrow> string \<Rightarrow> bool \<Rightarrow> bool" where
  "allows LocalOnly i local = local"
| "allows (AllowedProviders allowed) i local = (i \<in> set allowed)"
| "allows AnyProvider i local = True"

record CapabilityRequirement =
  min_reasoning_tier :: "8 word"
  requires_tools :: bool

definition CapabilityRequirement_new :: "8 word \<Rightarrow> bool \<Rightarrow> CapabilityRequirement" where
  "CapabilityRequirement_new tier tools = \<lparr>min_reasoning_tier = tier, requires_tools = tools\<rparr>"

definition CapabilityRequirement_default :: CapabilityRequirement where
  "CapabilityRequirement_default = CapabilityRequirement_new 1 False"

record ProviderDescriptor =
  ds_provider_id :: string
  ds_model_name :: string
  ds_reasoning_tier :: "8 word"
  ds_supports_tools :: bool
  ds_is_local :: bool

definition satisfies :: "PrivacyPolicy \<Rightarrow> CapabilityRequirement \<Rightarrow> ProviderDescriptor \<Rightarrow> bool" where
  "satisfies privacy req d =
    (if \<not> allows privacy (ds_provider_id d) (ds_is_local d) then False
     else if ds_reasoning_tier d < min_reasoning_tier req then False
     else if requires_tools req \<and> \<not> ds_supports_tools d then False
     else True)"

section \<open>The router\<close>

record FailoverDecision =
  fd_from_provider_id :: string
  fd_to_provider_id :: string
  fd_failure_reason :: string
  fd_timestamp :: time

text \<open>A call is the provider it went to and its answer; the log of the calls stands for the
world outside, and its length for the time.\<close>

type_synonym call = "ProviderDescriptor \<times> (CompletionResponse, ProviderError) result"

record Router =
  ro_tracker :: ProviderHealthTracker
  ro_decisions :: "FailoverDecision list"
  ro_calls :: "call list"

record RouterEnv =
  re_providers :: "ProviderDescriptor list"
  re_policy :: RetryPolicy
  re_now :: "nat \<Rightarrow> time"
  re_complete :: "nat \<Rightarrow> ProviderDescriptor \<Rightarrow> CompletionRequest \<Rightarrow> (CompletionResponse, ProviderError) result"

definition router_now :: "RouterEnv \<Rightarrow> Router \<Rightarrow> time" where
  "router_now env s = re_now env (length (ro_calls s))"

fun available_candidates ::
  "RouterEnv \<Rightarrow> PrivacyPolicy \<Rightarrow> CapabilityRequirement \<Rightarrow> ProviderDescriptor list \<Rightarrow> Router \<Rightarrow>
   Router \<times> ProviderDescriptor list" where
  "available_candidates env privacy req [] s = (s, [])"
| "available_candidates env privacy req (d # ds) s =
    (if satisfies privacy req d
     then (case is_available (router_now env s) (ds_provider_id d) (ro_tracker s) of
             (h, ok) \<Rightarrow>
               (case available_candidates env privacy req ds (s\<lparr>ro_tracker := h\<rparr>) of
                  (s1, cs) \<Rightarrow> (s1, if ok then d # cs else cs)))
     else available_candidates env privacy req ds s)"

definition select_candidates ::
  "RouterEnv \<Rightarrow> PrivacyPolicy \<Rightarrow> CapabilityRequirement \<Rightarrow> Router \<Rightarrow> Router \<times> ProviderDescriptor list" where
  "select_candidates env privacy req = available_candidates env privacy req (re_providers env)"

definition call_provider ::
  "RouterEnv \<Rightarrow> CompletionRequest \<Rightarrow> ProviderDescriptor \<Rightarrow> Router \<Rightarrow> Router \<times> (CompletionResponse, ProviderError) result" where
  "call_provider env rq d s =
    (let r = re_complete env (length (ro_calls s)) d rq; s1 = s\<lparr>ro_calls := ro_calls s @ [(d, r)]\<rparr> in
     (s1\<lparr>ro_tracker := (case r of
          Ok resp \<Rightarrow> record_provider_success (ds_provider_id d) (ro_tracker s)
        | Err e \<Rightarrow> record_provider_failure (router_now env s1) (ds_provider_id d) e (ro_tracker s))\<rparr>, r))"

lemma compute_delay_more:
  "compute_delay attempt e p = Some delay \<Longrightarrow> attempt < max_retries p \<and> is_transient e"
  by (auto simp: compute_delay_def not_le split: if_splits)

lemma next_attempt: "attempt < (n :: u32) \<Longrightarrow> unat (attempt + 1) = unat attempt + 1"
  by unat_arith

text \<open>The attempts with one provider, counted from the given one.\<close>

function attempts ::
  "RouterEnv \<Rightarrow> CompletionRequest \<Rightarrow> ProviderDescriptor \<Rightarrow> u32 \<Rightarrow> Router \<Rightarrow>
   Router \<times> (CompletionResponse, ProviderError) result" where
  "attempts env rq d attempt s =
    (case call_provider env rq d s of
       (s1, Ok resp) \<Rightarrow> (s1, Ok resp)
     | (s1, Err e) \<Rightarrow>
         (case compute_delay attempt e (re_policy env) of
            Some delay \<Rightarrow> attempts env rq d (attempt + 1) s1
          | None \<Rightarrow> (s1, Err e)))"
  by pat_completeness auto

termination
proof (relation "measure (\<lambda>(env, rq, d, attempt, s). unat (max_retries (re_policy env)) - unat attempt)")
  fix env rq d attempt s p s1 r e delay
  assume "compute_delay attempt e (re_policy env) = Some delay"
  then have "attempt < max_retries (re_policy env)" by (auto dest: compute_delay_more)
  then show "((env, rq, d, attempt + 1, s1), env, rq, d, attempt, s) \<in>
      measure (\<lambda>(env, rq, d, attempt, s). unat (max_retries (re_policy env)) - unat attempt)"
    by (simp add: next_attempt word_less_nat_alt)
qed simp

declare attempts.simps [simp del]

definition decided ::
  "RouterEnv \<Rightarrow> (string \<times> string) option \<Rightarrow> ProviderDescriptor \<Rightarrow> Router \<Rightarrow> Router" where
  "decided env previous d s =
    (case previous of
       None \<Rightarrow> s
     | Some (from_id, why) \<Rightarrow>
         s\<lparr>ro_decisions := ro_decisions s @
            [\<lparr>fd_from_provider_id = from_id, fd_to_provider_id = ds_provider_id d, fd_failure_reason = why,
              fd_timestamp = router_now env s\<rparr>]\<rparr>)"

fun dispatch ::
  "RouterEnv \<Rightarrow> CompletionRequest \<Rightarrow> (string \<times> string) option \<Rightarrow> ProviderError \<Rightarrow> ProviderDescriptor list \<Rightarrow> Router \<Rightarrow>
   Router \<times> (CompletionResponse, ProviderError) result" where
  "dispatch env rq previous last_error [] s = (s, Err last_error)"
| "dispatch env rq previous last_error (d # ds) s =
    (case attempts env rq d 0 (decided env previous d s) of
       (s1, Ok resp) \<Rightarrow> (s1, Ok resp)
     | (s1, Err e) \<Rightarrow> dispatch env rq (Some (ds_provider_id d, provider_error_display e)) e ds s1)"

definition execute_with_failover ::
  "RouterEnv \<Rightarrow> CompletionRequest \<Rightarrow> PrivacyPolicy \<Rightarrow> CapabilityRequirement \<Rightarrow> Router \<Rightarrow>
   Router \<times> (CompletionResponse, ProviderError) result" where
  "execute_with_failover env rq privacy req s =
    (case select_candidates env privacy req s of
       (s1, cs) \<Rightarrow>
         if cs = []
         then (s1, Err (Unavailable ''No eligible provider available satisfying capability, privacy, and health requirements''))
         else dispatch env rq None (Unavailable ''All candidate providers failed'') cs s1)"

definition router_complete ::
  "RouterEnv \<Rightarrow> CompletionRequest \<Rightarrow> Router \<Rightarrow> Router \<times> (CompletionResponse, ProviderError) result" where
  "router_complete env rq = execute_with_failover env rq AnyProvider CapabilityRequirement_default"

end
