(* ===== verification/Failover_Properties.thy ===== *)
theory Failover_Properties
  imports Failover "HOL-Library.Code_Target_Nat"
begin

text \<open>The properties of the failover router: which providers it calls, how often and in which
order, what it returns and what it records.\<close>

section \<open>The attempts with one provider\<close>

definition failed_call :: "call \<Rightarrow> bool" where
  "failed_call c = is_err (snd c)"

text \<open>The calls a sequence of attempts makes: all to one provider, all but the last failed, and
the last gives the result.\<close>

definition attempt_log :: "ProviderDescriptor \<Rightarrow> nat \<Rightarrow> (CompletionResponse, ProviderError) result \<Rightarrow> call list \<Rightarrow> bool" where
  "attempt_log d n r cs =
    (cs \<noteq> [] \<and> length cs \<le> n \<and> (\<forall>c \<in> set cs. fst c = d) \<and> (\<forall>c \<in> set (butlast cs). failed_call c) \<and> snd (last cs) = r)"

lemma attempt_log_single: "attempt_log d (Suc n) r [(d, r)]"
  by (simp add: attempt_log_def)

lemma attempt_log_Cons: "attempt_log d n r cs \<Longrightarrow> attempt_log d (Suc n) r ((d, Err e) # cs)"
  by (auto simp: attempt_log_def failed_call_def)

lemma call_provider_log:
  assumes "call_provider env rq d s = (s1, r)"
  shows "ro_calls s1 = ro_calls s @ [(d, r)]" "ro_decisions s1 = ro_decisions s"
  using assms by (auto simp: call_provider_def Let_def)

lemma attempts_log:
  assumes "attempts env rq d attempt s = (s', r)" "attempt \<le> max_retries (re_policy env)"
  shows "\<exists>cs. ro_calls s' = ro_calls s @ cs \<and>
    attempt_log d (Suc (unat (max_retries (re_policy env)) - unat attempt)) r cs \<and> ro_decisions s' = ro_decisions s"
  using assms
proof (induction env rq d attempt s arbitrary: s' r rule: attempts.induct)
  case (1 env rq d attempt s)
  obtain s1 r1 where c: "call_provider env rq d s = (s1, r1)" by fastforce
  note log = call_provider_log [OF c]
  show ?case
  proof (cases "\<exists>e delay. r1 = Err e \<and> compute_delay attempt e (re_policy env) = Some delay")
    case False
    then have "s' = s1" "r = r1"
      using "1.prems"(1) c by (cases r1; auto simp: attempts.simps [of env rq d attempt s] split: option.splits)+
    then show ?thesis using log attempt_log_single by (intro exI [of _ "[(d, r)]"]) simp
  next
    case True
    then obtain e delay where e: "r1 = Err e" "compute_delay attempt e (re_policy env) = Some delay" by blast
    have less: "attempt < max_retries (re_policy env)" using compute_delay_more [OF e(2)] by simp
    have "attempts env rq d (attempt + 1) s1 = (s', r)"
      using "1.prems"(1) c e by (simp add: attempts.simps [of env rq d attempt s])
    moreover have "attempt + 1 \<le> max_retries (re_policy env)" using less by unat_arith
    ultimately obtain cs where cs: "ro_calls s' = ro_calls s1 @ cs" "ro_decisions s' = ro_decisions s1"
      "attempt_log d (Suc (unat (max_retries (re_policy env)) - unat (attempt + 1))) r cs"
      using "1.IH" [OF c [symmetric] e] by blast
    have "unat (max_retries (re_policy env)) - unat attempt = Suc (unat (max_retries (re_policy env)) - unat (attempt + 1))"
      using less next_attempt [OF less] by (simp add: word_less_nat_alt)
    then show ?thesis using cs log e attempt_log_Cons
      by (intro exI [of _ "(d, Err e) # cs"]) simp
  qed
qed

section \<open>The candidates\<close>

lemma is_available_again:
  assumes "is_available now i h = (h', ok)"
  shows "snd (is_available now j h') = snd (is_available now j h)"
  using assms by (auto simp: is_available_def put_entry_def health_entry_def Let_def split: ProviderHealthStatus.splits if_splits)

lemma available_candidates_spec:
  assumes "available_candidates env privacy req ds s = (s1, cs)"
  shows "cs = filter (\<lambda>d. satisfies privacy req d \<and> snd (is_available (router_now env s) (ds_provider_id d) (ro_tracker s))) ds"
    "ro_calls s1 = ro_calls s" "ro_decisions s1 = ro_decisions s"
proof -
  have "snd (available_candidates env privacy req ds s) = filter (\<lambda>d. satisfies privacy req d \<and>
      snd (is_available (router_now env s) (ds_provider_id d) (ro_tracker s))) ds \<and>
    ro_calls (fst (available_candidates env privacy req ds s)) = ro_calls s \<and>
    ro_decisions (fst (available_candidates env privacy req ds s)) = ro_decisions s"
  proof (induction ds arbitrary: s)
    case (Cons d ds)
    obtain h ok where a: "is_available (router_now env s) (ds_provider_id d) (ro_tracker s) = (h, ok)" by fastforce
    have "router_now env (s\<lparr>ro_tracker := h\<rparr>) = router_now env s" by (simp add: router_now_def)
    then show ?case using Cons.IH [of "s\<lparr>ro_tracker := h\<rparr>"] Cons.IH [of s] is_available_again [OF a] a
      by (auto split: prod.splits)
  qed simp
  then show "cs = filter (\<lambda>d. satisfies privacy req d \<and>
      snd (is_available (router_now env s) (ds_provider_id d) (ro_tracker s))) ds"
    "ro_calls s1 = ro_calls s" "ro_decisions s1 = ro_decisions s" using assms by simp_all
qed

section \<open>A dispatch\<close>

text \<open>What a dispatch over candidates adds to the log and to the decisions: the providers tried
are the first of the candidates, each decision leads from one of them to the next.\<close>

fun moves :: "string list \<Rightarrow> (string \<times> string) list" where
  "moves (i # j # is) = (i, j) # moves (j # is)"
| "moves is = []"

definition decision_moves :: "FailoverDecision list \<Rightarrow> (string \<times> string) list" where
  "decision_moves ds = map (\<lambda>d. (fd_from_provider_id d, fd_to_provider_id d)) ds"

definition previous_ids :: "(string \<times> string) option \<Rightarrow> string list" where
  "previous_ids p = (case p of None \<Rightarrow> [] | Some (i, why) \<Rightarrow> [i])"

lemma decided_log:
  "ro_calls (decided env p d s) = ro_calls s"
  "decision_moves (ro_decisions (decided env p d s)) =
     decision_moves (ro_decisions s) @ moves (previous_ids p @ [ds_provider_id d])"
  by (auto simp: decided_def decision_moves_def previous_ids_def split: option.split)

lemma moves_append: "moves (is @ j # js) = moves (is @ [j]) @ moves (j # js)"
  by (induction "is" rule: moves.induct) auto

lemma dispatch_log:
  assumes "dispatch env rq p last_error cs s = (s', r)"
  shows "\<exists>logs tried. ro_calls s' = ro_calls s @ concat logs \<and> prefix tried cs \<and> length logs = length tried \<and>
    (cs \<noteq> [] \<longrightarrow> tried \<noteq> []) \<and>
    (\<forall>k < length tried. \<exists>q. attempt_log (tried ! k) (Suc (unat (max_retries (re_policy env)))) q (logs ! k) \<and>
       (q = r \<and> Suc k = length tried \<or> is_err q \<and> Suc k < length tried)) \<and>
    (is_err r \<longrightarrow> tried = cs) \<and> (cs = [] \<longrightarrow> r = Err last_error) \<and>
    decision_moves (ro_decisions s') = decision_moves (ro_decisions s) @ moves (previous_ids p @ map ds_provider_id tried)"
  using assms
proof (induction cs arbitrary: p last_error s)
  case Nil
  then show ?case by (intro exI [of _ "[]"]) (auto simp: previous_ids_def split: option.splits)
next
  case (Cons d cs)
  obtain s1 r1 where a: "attempts env rq d 0 (decided env p d s) = (s1, r1)" by fastforce
  obtain log where l: "ro_calls s1 = ro_calls s @ log" "attempt_log d (Suc (unat (max_retries (re_policy env)))) r1 log"
    "ro_decisions s1 = ro_decisions (decided env p d s)"
    using attempts_log [OF a] decided_log(1) by auto
  show ?case
  proof (cases "is_ok r1 \<or> cs = []")
    case True
    then have "s' = s1" "r = r1" using Cons.prems a by (cases r1; auto)+
    then show ?thesis using l True decided_log(2) [of env p d s]
      by (intro exI [of _ "[log]"] exI [of _ "[d]"]) (auto simp: is_ok_def)
  next
    case False
    then obtain e where e: "r1 = Err e" by (cases r1) auto
    let ?p = "Some (ds_provider_id d, provider_error_display e)"
    have "dispatch env rq ?p e cs s1 = (s', r)" using Cons.prems a e by simp
    from Cons.IH [OF this] obtain logs tried where t: "ro_calls s' = ro_calls s1 @ concat logs" "prefix tried cs"
      "length logs = length tried" "tried \<noteq> []"
      "\<And>k. k < length tried \<Longrightarrow> \<exists>q. attempt_log (tried ! k) (Suc (unat (max_retries (re_policy env)))) q (logs ! k) \<and>
         (q = r \<and> Suc k = length tried \<or> is_err q \<and> Suc k < length tried)"
      "is_err r \<longrightarrow> tried = cs"
      "decision_moves (ro_decisions s') = decision_moves (ro_decisions s1) @ moves (previous_ids ?p @ map ds_provider_id tried)"
      using False by auto
    have "\<exists>q. attempt_log ((d # tried) ! k) (Suc (unat (max_retries (re_policy env)))) q ((log # logs) ! k) \<and>
         (q = r \<and> Suc k = length (d # tried) \<or> is_err q \<and> Suc k < length (d # tried))" if "k < length (d # tried)" for k
      using that t(4) t(5) [of "k - 1"] l(2) e by (cases k) auto
    moreover have "decision_moves (ro_decisions s') =
        decision_moves (ro_decisions s) @ moves (previous_ids p @ map ds_provider_id (d # tried))"
      using t(7) l(3) decided_log(2) [of env p d s] moves_append [of "previous_ids p" "ds_provider_id d" "map ds_provider_id tried"]
      by (simp add: previous_ids_def)
    ultimately show ?thesis using t l
      by (intro exI [of _ "log # logs"] exI [of _ "d # tried"]) simp
  qed
qed

section \<open>The properties\<close>

text \<open>The providers a request may go to: the policy and the requirement admit them, and their
health does at the moment of the choice.\<close>

definition eligible :: "RouterEnv \<Rightarrow> PrivacyPolicy \<Rightarrow> CapabilityRequirement \<Rightarrow> Router \<Rightarrow> ProviderDescriptor list" where
  "eligible env privacy req s =
    filter (\<lambda>d. satisfies privacy req d \<and> snd (is_available (router_now env s) (ds_provider_id d) (ro_tracker s))) (re_providers env)"

lemma failover_calls:
  assumes "execute_with_failover env rq privacy req s = (s', r)"
  shows "\<exists>tried logs. prefix tried (eligible env privacy req s) \<and> length logs = length tried \<and>
    ro_calls s' = ro_calls s @ concat logs \<and>
    (\<forall>k < length tried. \<exists>q. attempt_log (tried ! k) (Suc (unat (max_retries (re_policy env)))) q (logs ! k) \<and>
       (q = r \<and> Suc k = length tried \<or> is_err q \<and> Suc k < length tried)) \<and>
    (is_err r \<longrightarrow> tried = eligible env privacy req s) \<and>
    decision_moves (ro_decisions s') = decision_moves (ro_decisions s) @ moves (map ds_provider_id tried)"
proof -
  obtain s1 cs where c: "available_candidates env privacy req (re_providers env) s = (s1, cs)" by fastforce
  have e: "cs = eligible env privacy req s" using available_candidates_spec(1) [OF c] by (simp add: eligible_def)
  note log = available_candidates_spec(2,3) [OF c]
  show ?thesis
  proof (cases "cs = []")
    case True
    then show ?thesis using assms c e log
      by (intro exI [of _ "[]"]) (auto simp: execute_with_failover_def select_candidates_def)
  next
    case False
    then have "dispatch env rq None (Unavailable ''All candidate providers failed'') cs s1 = (s', r)"
      using assms c by (simp add: execute_with_failover_def select_candidates_def)
    from dispatch_log [OF this] show ?thesis using log unfolding e previous_ids_def by auto
  qed
qed

text \<open>C25: a request goes to the eligible providers in their order, to each at most once more than
the retries of the policy, and to the next only when the last attempt of the one before has
failed; the first answer that is no error is the result, an error means that all of them were
tried. Each move from one provider to the next is recorded as a decision.\<close>

theorem failover_in_order:
  assumes "execute_with_failover env rq privacy req s = (s', r)"
  shows "\<exists>tried logs. prefix tried (eligible env privacy req s) \<and> length logs = length tried \<and>
    ro_calls s' = ro_calls s @ concat logs \<and>
    (\<forall>k < length tried. \<exists>q. attempt_log (tried ! k) (Suc (unat (max_retries (re_policy env)))) q (logs ! k) \<and>
       (q = r \<and> Suc k = length tried \<or> is_err q \<and> Suc k < length tried)) \<and>
    (is_err r \<longrightarrow> tried = eligible env privacy req s) \<and>
    decision_moves (ro_decisions s') = decision_moves (ro_decisions s) @ moves (map ds_provider_id tried)"
  by (rule failover_calls [OF assms])



lemma health_put [simp]: "health_entry i (put_entry i e h) = e"
  by (simp add: health_entry_def put_entry_def)

lemma failed_availability:
  "snd (is_available t i (record_provider_failure now i err h)) =
     (case failed_status now err (he_consecutive_failures (health_entry i h) + 1) h of
        Down until why \<Rightarrow> until \<le> t | _ \<Rightarrow> True)"
  by (simp add: is_available_def record_provider_failure_def Let_def split: ProviderHealthStatus.split)

text \<open>A failure that reaches the threshold takes the provider out until the cooldown has
passed, one with a retry time until that time, whatever its threshold; afterwards it is tried
again, and a success restores it.\<close>

theorem breaker_trips:
  assumes "retry_after err = Some wait \<or>
    retry_after err = None \<and> failure_threshold h \<le> he_consecutive_failures (health_entry i h) + 1 \<and> wait = cooldown_duration h"
  shows "snd (is_available t i (record_provider_failure now i err h)) = (now + wait \<le> t) \<and>
    snd (is_available t i (record_provider_success i (record_provider_failure now i err h)))"
  using assms
  by (auto simp: failed_availability failed_status_def) (simp_all add: is_available_def record_provider_success_def Let_def)

section \<open>Two providers\<close>

text \<open>A local provider that is rate limited for a minute and a remote one that answers.\<close>

definition local_provider :: ProviderDescriptor where
  "local_provider = \<lparr>ds_provider_id = ''ollama'', ds_model_name = ''m'', ds_reasoning_tier = 2, ds_supports_tools = True, ds_is_local = True\<rparr>"

definition remote_provider :: ProviderDescriptor where
  "remote_provider = \<lparr>ds_provider_id = ''openai'', ds_model_name = ''m'', ds_reasoning_tier = 3, ds_supports_tools = True, ds_is_local = False\<rparr>"

definition two_env :: RouterEnv where
  "two_env = \<lparr>re_providers = [local_provider, remote_provider],
     re_policy = \<lparr>max_retries = 1, initial_backoff = 500, max_backoff = 10000, backoff_millis = \<lambda>n. 500\<rparr>,
     re_now = int, re_complete = \<lambda>n d rq. if ds_is_local d then Err (RateLimited (Some 60)) else Ok (CompletionResponse_text ''done'')\<rparr>"

definition fresh_router :: Router where
  "fresh_router = \<lparr>ro_tracker = ProviderHealthTracker_new 3 60000, ro_decisions = [], ro_calls = []\<rparr>"

definition two_run :: "Router \<times> (CompletionResponse, ProviderError) result" where
  "two_run = execute_with_failover two_env (CompletionRequest_new ''m'' []) AnyProvider CapabilityRequirement_default fresh_router"

definition local_run :: "Router \<times> (CompletionResponse, ProviderError) result" where
  "local_run = execute_with_failover two_env (CompletionRequest_new ''m'' []) LocalOnly CapabilityRequirement_default fresh_router"

lemma two_run_facts:
  "is_ok (snd two_run)" "map (ds_provider_id \<circ> fst) (ro_calls (fst two_run)) = [''ollama'', ''ollama'', ''openai'']"
  "map ds_provider_id (eligible two_env AnyProvider CapabilityRequirement_default fresh_router) = [''ollama'', ''openai'']"
  by code_simp+

lemma local_run_facts: "is_err (snd local_run)" "length (ro_calls (fst local_run)) = 2"
  by code_simp+

theorem failover_in_order_witness:
  "\<exists>tried logs. prefix tried (eligible two_env AnyProvider CapabilityRequirement_default fresh_router) \<and>
     ro_calls (fst two_run) = concat logs \<and> decision_moves (ro_decisions (fst two_run)) = moves (map ds_provider_id tried)"
proof -
  have "execute_with_failover two_env (CompletionRequest_new ''m'' []) AnyProvider CapabilityRequirement_default fresh_router =
      (fst two_run, snd two_run)" by (simp add: two_run_def)
  from failover_in_order [OF this] show ?thesis by (auto simp: fresh_router_def decision_moves_def)
qed


theorem breaker_trips_witness:
  "\<not> snd (is_available 10001 ''ollama'' (record_provider_failure 1 ''ollama'' (RateLimited (Some 60)) (ProviderHealthTracker_new 3 60000)))"
  using breaker_trips [of "RateLimited (Some 60)" 60000 "ProviderHealthTracker_new 3 60000" "''ollama''" 10001 1] by simp

end
