(* ===== verification/Prompt_Properties.thy ===== *)
theory Prompt_Properties
  imports Prompt Runner_Turns "HOL-Library.Code_Target_Nat"
begin

text \<open>The properties of the prompt: what is never left out, what is left out and how that is
recorded, and that the prompt of the runner always exists. Every stage only appends, to the
text, to the provenance and to the receipts.\<close>

section \<open>Appending\<close>

named_theorems grows "stages that only append"

definition extends :: "Draft \<Rightarrow> Draft \<Rightarrow> bool" where
  "extends d d' = (prefix (dr_text d) (dr_text d') \<and> prefix (dr_items d) (dr_items d') \<and> prefix (dr_receipts d) (dr_receipts d'))"

lemma extends_refl [grows]: "extends d d"
  by (simp add: extends_def)

lemma extends_trans: "extends d d1 \<Longrightarrow> extends d1 d2 \<Longrightarrow> extends d d2"
  by (auto simp: extends_def prefix_def)

lemma extends_line [grows]: "extends d d1 \<Longrightarrow> extends d (add_line k i t s d1)"
  by (auto simp: extends_def add_line_def intro: prefix_prefix)

lemma extends_text [grows]: "extends d d1 \<Longrightarrow> extends d (add_text s d1)"
  by (auto simp: extends_def add_text_def intro: prefix_prefix)

lemma extends_receipt [grows]: "extends d d1 \<Longrightarrow> extends d (add_receipt k n w u d1)"
  by (auto simp: extends_def add_receipt_def intro: prefix_prefix)

lemma extends_truncated [grows]: "extends d d1 \<Longrightarrow> extends d (d1\<lparr>dr_truncated := n\<rparr>)"
  by (simp add: extends_def)

lemma extends_if [grows]: "(c \<Longrightarrow> extends d d1) \<Longrightarrow> (\<not> c \<Longrightarrow> extends d d2) \<Longrightarrow> extends d (if c then d1 else d2)"
  by simp

lemma extends_let [grows]: "extends d (f a) \<Longrightarrow> extends d (Let a f)"
  by simp

lemma extends_fold [grows]: "(\<And>x d. extends d (f x d)) \<Longrightarrow> extends d d1 \<Longrightarrow> extends d (fold f xs d1)"
proof (induction xs arbitrary: d1)
  case (Cons x xs)
  show ?case using Cons.IH [OF Cons.prems(1) extends_trans [OF Cons.prems(2,1)]] by simp
qed simp

lemma extends_failure: "extends d (add_failure b d)"
  by (auto simp: add_failure_def split: option.split intro: grows)

lemma extends_memories: "extends d (add_memories show_score b d)"
  unfolding add_memories_def by (intro grows)

lemma extends_messages: "extends d (add_messages b d)"
  unfolding add_messages_def by (intro grows)

lemma extends_receipts: "extends d (add_receipts d)"
  unfolding add_receipts_def by (intro grows)

lemma fold_option_extends:
  assumes "\<And>x d d'. f x d = Some d' \<Longrightarrow> extends d d'" "fold_option f xs d = Some d'"
  shows "extends d d'"
  using assms(2)
proof (induction xs arbitrary: d)
  case (Cons x xs)
  then obtain d1 where "f x d = Some d1" "fold_option f xs d1 = Some d'" by (auto simp: bind_eq_Some_conv)
  then show ?case using assms(1) Cons.IH extends_trans by blast
qed (simp add: grows)

lemma extends_artifact: "add_artifact limit p d = Some d' \<Longrightarrow> extends d d'"
  by (cases p) (auto simp: Let_def split: if_splits option.splits intro: grows)

lemma extends_tool: "add_tool_output p d = Some d' \<Longrightarrow> extends d d'"
  by (cases p) (auto simp: Let_def split: if_splits option.splits intro: grows)

lemma extends_artifacts: "add_artifacts b d = Some d' \<Longrightarrow> extends d d'"
  by (auto simp: add_artifacts_def intro: grows split: if_splits dest!: fold_option_extends [OF extends_artifact, rotated])
    (meson extends_text extends_refl extends_trans)

lemma extends_tools: "add_tool_history b d = Some d' \<Longrightarrow> extends d d'"
  by (auto simp: add_tool_history_def intro: grows split: if_splits dest!: fold_option_extends [OF extends_tool, rotated])
    (meson extends_text extends_refl extends_trans)

section \<open>Lines\<close>

text \<open>A line that was added stays.\<close>

definition contains :: "Draft \<Rightarrow> string \<Rightarrow> bool" where
  "contains d s = sublist s (dr_text d)"

lemma contains_extends: "contains d s \<Longrightarrow> extends d d' \<Longrightarrow> contains d' s"
  unfolding contains_def extends_def using sublist_order.order_trans prefix_imp_sublist by blast

lemma contains_line [simp]: "contains (add_line k i t s d) s"
  by (simp add: contains_def add_line_def)

lemma contains_fold:
  assumes "x \<in> set xs"
  shows "contains (fold (\<lambda>x. add_line k (i x) t (line x)) xs d) (line x)"
  using assms
proof (induction xs arbitrary: d)
  case (Cons y ys)
  have "extends d (fold (\<lambda>x. add_line k (i x) t (line x)) ys d)" for d by (intro grows)
  then show ?case using Cons contains_extends [OF contains_line] by fastforce
qed simp

lemma memories_shown:
  assumes "m \<in> set (take (max_memories (cb_budget b)) (cb_retrieved_memories b))"
  shows "contains (add_memories show_score b d) (memory_line show_score m)"
proof -
  have "m \<in> set (take (min (length (cb_retrieved_memories b)) (max_memories (cb_budget b))) (cb_retrieved_memories b))"
    using assms by (auto simp: min_def dest: in_set_takeD)
  then show ?thesis unfolding add_memories_def Let_def by (auto intro: contains_fold)
qed

lemma messages_shown: "m \<in> set (drop (omitted_messages b) (cb_incoming_messages b)) \<Longrightarrow> contains (add_messages b d) (peer_line m)"
  unfolding add_messages_def Let_def by (auto intro: contains_fold)

lemma receipts_shown: "r \<in> set (dr_receipts d) \<Longrightarrow> contains (add_receipts d) (receipt_line r)"
proof -
  assume "r \<in> set (dr_receipts d)"
  then obtain as bs where "dr_receipts d = as @ r # bs" by (meson split_list)
  then have "dr_text (add_receipts d) = (dr_text d @ newline @ ''[CONTEXT ADVISORY - OMISSION RECEIPTS]:'' @ newline @
      concat (map receipt_line as)) @ receipt_line r @ concat (map receipt_line bs)"
    by (simp add: add_receipts_def add_text_def)
  then show ?thesis unfolding contains_def by (metis sublist_appendI)
qed

section \<open>The stages of a prompt\<close>

lemma build_stages:
  assumes "build show_score b = Some s"
  obtains d1 d2 d3 where
    "add_artifacts b (add_memories show_score b (add_failure b (first_draft b))) = Some d1"
    "d2 = add_messages b d1" "add_tool_history b d2 = Some d3"
    "cx_messages s = [ChatMessage_plain SystemRole (system_text b), ChatMessage_plain UserRole (dr_text (add_receipts d3))]"
    "cx_omission_receipts s = dr_receipts d3" "cx_truncated_bytes s = dr_truncated d3"
    "cx_omitted_messages_count s = omitted_messages b"
    "cx_estimated_tokens s = estimate_tokens (utf8_length (system_text b) + utf8_length (dr_text (add_receipts d3)))"
  using assms by (auto simp: build_def draft_def bind_eq_Some_conv Let_def add_receipts_def add_text_def)

lemma first_stage: "extends (first_draft b) (add_memories show_score b (add_failure b (first_draft b)))"
  using extends_failure extends_memories extends_trans by blast

text \<open>The identity of the agent and the contract of the task are never left out. Of the
memories the first ones within the budget are shown, of the messages the last ones, and every
receipt of an omission is shown to the agent.\<close>

theorem prompt_keeps:
  assumes "build show_score b = Some s"
  shows "\<exists>user. cx_messages s = [ChatMessage_plain SystemRole (system_text b), ChatMessage_plain UserRole user] \<and>
    prefix (task_text b) user \<and>
    (\<forall>m \<in> set (take (max_memories (cb_budget b)) (cb_retrieved_memories b)). sublist (memory_line show_score m) user) \<and>
    (\<forall>m \<in> set (drop (omitted_messages b) (cb_incoming_messages b)). sublist (peer_line m) user) \<and>
    (\<forall>r \<in> set (cx_omission_receipts s). sublist (receipt_line r) user)"
proof -
  obtain d1 d2 d3 where st: "add_artifacts b (add_memories show_score b (add_failure b (first_draft b))) = Some d1"
    "d2 = add_messages b d1" "add_tool_history b d2 = Some d3"
    "cx_messages s = [ChatMessage_plain SystemRole (system_text b), ChatMessage_plain UserRole (dr_text (add_receipts d3))]"
    "cx_omission_receipts s = dr_receipts d3"
    using build_stages [OF assms] .
  let ?start = "add_memories show_score b (add_failure b (first_draft b))" and ?fin = "add_receipts d3"
  have e1: "extends ?start d1" by (rule extends_artifacts [OF st(1)])
  have e2: "extends d2 ?fin" using extends_tools [OF st(3)] extends_receipts extends_trans by blast
  have e: "extends ?start ?fin" by (rule extends_trans [OF e1 extends_trans [OF extends_messages e2 [unfolded st(2)]]])
  have "prefix (task_text b) (dr_text ?fin)"
    using extends_trans [OF first_stage e] by (simp add: extends_def first_draft_def)
  moreover have "sublist (memory_line show_score m) (dr_text ?fin)"
    if "m \<in> set (take (max_memories (cb_budget b)) (cb_retrieved_memories b))" for m
    using contains_extends [OF memories_shown [OF that] e] by (simp add: contains_def)
  moreover have "sublist (peer_line m) (dr_text ?fin)" if "m \<in> set (drop (omitted_messages b) (cb_incoming_messages b))" for m
    using contains_extends [OF messages_shown [OF that] e2 [unfolded st(2)]] by (simp add: contains_def)
  moreover have "sublist (receipt_line r) (dr_text ?fin)" if "r \<in> set (dr_receipts d3)" for r
    using receipts_shown [OF that] by (simp add: contains_def)
  ultimately show ?thesis unfolding st(4,5) by blast
qed

section \<open>What is left out\<close>

definition memory_receipts :: "ContextBuilder \<Rightarrow> OmissionReceipt list" where
  "memory_receipts b =
    (let n = length (cb_retrieved_memories b) - max_memories (cb_budget b) in
     if 0 < n then [\<lparr>or_section = ''persistent_memories'', or_count = n, or_reason = ''Exceeded max_memories budget cap'',
       or_units_saved = n * 64\<rparr>] else [])"

definition artifact_receipts :: "nat \<Rightarrow> (string \<times> string) list \<Rightarrow> OmissionReceipt list" where
  "artifact_receipts limit as =
    map (\<lambda>(name, content). \<lparr>or_section = ''artifact_summary_'' @ name, or_count = 1, or_reason = ''Exceeded max_artifact_bytes limit'',
        or_units_saved = utf8_length content - limit\<rparr>)
      (filter (\<lambda>(name, content). limit < utf8_length content) as)"

definition message_receipts :: "ContextBuilder \<Rightarrow> OmissionReceipt list" where
  "message_receipts b =
    (if 0 < omitted_messages b
     then [\<lparr>or_section = ''peer_messages'', or_count = omitted_messages b, or_reason = ''Exceeded max_history_turns'',
       or_units_saved = omitted_messages b * 32\<rparr>] else [])"

text \<open>The bytes of a list of texts beyond a limit for each.\<close>

definition excess :: "nat \<Rightarrow> (string \<times> string) list \<Rightarrow> nat" where
  "excess limit as = sum_list (map (\<lambda>(name, content). utf8_length content - limit) as)"

lemma added_parts [simp]:
  "dr_receipts (add_line k i t s d) = dr_receipts d" "dr_truncated (add_line k i t s d) = dr_truncated d"
  "dr_receipts (add_text s d) = dr_receipts d" "dr_truncated (add_text s d) = dr_truncated d"
  "dr_truncated (add_receipt k n w u d) = dr_truncated d"
  by (simp_all add: add_line_def add_text_def add_receipt_def)

lemma folded_parts [simp]:
  "dr_receipts (fold (\<lambda>x. add_line k (i x) t (line x)) xs d) = dr_receipts d"
  "dr_truncated (fold (\<lambda>x. add_line k (i x) t (line x)) xs d) = dr_truncated d"
  by (induction xs arbitrary: d) simp_all

lemma failure_parts: "dr_receipts (add_failure b d) = dr_receipts d" "dr_truncated (add_failure b d) = dr_truncated d"
  by (simp_all add: add_failure_def split: option.split)

lemma memories_parts:
  "dr_receipts (add_memories show_score b d) = dr_receipts d @ memory_receipts b"
  "dr_truncated (add_memories show_score b d) = dr_truncated d"
  by (auto simp: add_memories_def memory_receipts_def Let_def add_receipt_def min_def)

lemma messages_parts:
  "dr_receipts (add_messages b d) = dr_receipts d @ message_receipts b" "dr_truncated (add_messages b d) = dr_truncated d"
  by (auto simp: add_messages_def message_receipts_def Let_def add_receipt_def)

lemma artifact_parts:
  "fold_option (add_artifact limit) as d = Some d' \<Longrightarrow>
     dr_receipts d' = dr_receipts d @ artifact_receipts limit as \<and> dr_truncated d' = dr_truncated d + excess limit as"
proof (induction as arbitrary: d)
  case (Cons p ps)
  obtain name content where p: "p = (name, content)" by fastforce
  obtain d1 where "add_artifact limit p d = Some d1" "fold_option (add_artifact limit) ps d1 = Some d'"
    using Cons.prems by (auto simp: bind_eq_Some_conv)
  then show ?case using Cons.IH [of d1]
    by (auto simp: p artifact_receipts_def excess_def Let_def add_receipt_def split: if_splits option.splits)
qed (simp add: artifact_receipts_def excess_def)

lemma tool_parts:
  "fold_option add_tool_output as d = Some d' \<Longrightarrow> dr_receipts d' = dr_receipts d \<and> dr_truncated d' = dr_truncated d + excess 512 as"
proof (induction as arbitrary: d)
  case (Cons p ps)
  obtain tool out where p: "p = (tool, out)" by fastforce
  obtain d1 where "add_tool_output p d = Some d1" "fold_option add_tool_output ps d1 = Some d'"
    using Cons.prems by (auto simp: bind_eq_Some_conv)
  then show ?case using Cons.IH [of d1]
    by (auto simp: p excess_def Let_def split: if_splits option.splits)
qed (simp add: excess_def)

text \<open>The account of a prompt is exact. The receipts are those of the memories, of the
artifacts and of the messages beyond their budgets, in this order, and the truncated bytes those of the
artifacts and of the tool outputs beyond theirs (for which there is no receipt); the tokens are
estimated from all bytes, whatever the bound on the tokens.\<close>

theorem prompt_accounts:
  assumes "build show_score b = Some s"
  shows "cx_omission_receipts s =
      memory_receipts b @ artifact_receipts (max_artifact_bytes (cb_budget b)) (cb_dependency_summaries b) @ message_receipts b \<and>
    cx_truncated_bytes s = excess (max_artifact_bytes (cb_budget b)) (cb_dependency_summaries b) + excess 512 (cb_tool_history b) \<and>
    cx_omitted_messages_count s = length (cb_incoming_messages b) - max_history_turns (cb_budget b) \<and>
    cx_estimated_tokens s =
      (\<Sum>m\<leftarrow>cx_messages s. case cm_content m of Some c \<Rightarrow> utf8_length c | None \<Rightarrow> 0) div 4 +
      (if 4 dvd (\<Sum>m\<leftarrow>cx_messages s. case cm_content m of Some c \<Rightarrow> utf8_length c | None \<Rightarrow> 0) then 0 else 1)"
proof -
  obtain d1 d2 d3 where st: "add_artifacts b (add_memories show_score b (add_failure b (first_draft b))) = Some d1"
    "d2 = add_messages b d1" "add_tool_history b d2 = Some d3"
    "cx_messages s = [ChatMessage_plain SystemRole (system_text b), ChatMessage_plain UserRole (dr_text (add_receipts d3))]"
    "cx_omission_receipts s = dr_receipts d3" "cx_truncated_bytes s = dr_truncated d3"
    "cx_omitted_messages_count s = omitted_messages b"
    "cx_estimated_tokens s = estimate_tokens (utf8_length (system_text b) + utf8_length (dr_text (add_receipts d3)))"
    using build_stages [OF assms] .
  have 1: "dr_receipts d1 = memory_receipts b @ artifact_receipts (max_artifact_bytes (cb_budget b)) (cb_dependency_summaries b)"
    "dr_truncated d1 = excess (max_artifact_bytes (cb_budget b)) (cb_dependency_summaries b)"
    using st(1) artifact_parts [of _ "cb_dependency_summaries b"]
    by (auto simp: add_artifacts_def memories_parts failure_parts first_draft_def artifact_receipts_def excess_def split: if_splits)
  have 3: "dr_receipts d3 = dr_receipts d2" "dr_truncated d3 = dr_truncated d2 + excess 512 (cb_tool_history b)"
    using st(3) tool_parts [of "cb_tool_history b"] by (auto simp: add_tool_history_def excess_def split: if_splits)
  have "estimate_tokens n = n div 4 + (if 4 dvd n then 0 else 1)" for n
    unfolding estimate_tokens_def by presburger
  then show ?thesis using 1 3 st messages_parts [of b d1] by (simp add: omitted_messages_def ChatMessage_plain_def)
qed

text \<open>The bound on the input tokens decides nothing.\<close>

abbreviation bounded :: "nat \<Rightarrow> ContextBuilder \<Rightarrow> ContextBuilder" where
  "bounded n b \<equiv> b\<lparr>cb_budget := (cb_budget b)\<lparr>max_input_tokens := n\<rparr>\<rparr>"

lemma bounded_texts: "system_text (bounded n b) = system_text b" "task_text (bounded n b) = task_text b"
  "omitted_messages (bounded n b) = omitted_messages b"
  by (simp_all add: system_text_def task_text_def omitted_messages_def)

lemma bounded_stages:
  "first_draft (bounded n b) = first_draft b" "add_failure (bounded n b) d = add_failure b d"
  "add_memories show_score (bounded n b) d = add_memories show_score b d" "add_artifacts (bounded n b) d = add_artifacts b d"
  "add_messages (bounded n b) d = add_messages b d" "add_tool_history (bounded n b) d = add_tool_history b d"
  unfolding first_draft_def add_failure_def add_memories_def add_artifacts_def add_messages_def add_tool_history_def bounded_texts
  by (simp_all split: option.split)

theorem token_bound_ignored: "build show_score (bounded n b) = build show_score b"
  unfolding build_def draft_def bounded_stages bounded_texts ..

text \<open>The runner shows no artifacts and no tool history, so its prompt exists.\<close>

theorem runner_prompt_exists: "build show_score (context_builder a t dir db) \<noteq> None"
  by (simp add: build_def draft_def add_artifacts_def add_tool_history_def context_builder_def ContextBuilder_new_def)

section \<open>A prompt\<close>

definition small_builder :: ContextBuilder where
  "small_builder =
    (ContextBuilder_new (Agent_new 5 0 ''c'' ''Developer'' (ExecutionProfile_new ''p'' ''m'')) ''o'' (Task_new 2 0 7 ''a''))
      \<lparr>cb_budget := ContextBudget_default\<lparr>max_artifact_bytes := 4, max_history_turns := 1\<rparr>,
       cb_dependency_summaries := [(''x'', ''abcdef'')],
       cb_incoming_messages := [AgentMessage_new 1 0 5 5 7 Result ''old'', AgentMessage_new 2 0 5 5 7 Result ''new'']\<rparr>"

lemma small_builds: "build (\<lambda>s. []) small_builder \<noteq> None"
  by code_simp

theorem prompt_keeps_witness:
  "\<exists>s user. build (\<lambda>s. []) small_builder = Some s \<and> prefix (task_text small_builder) user \<and>
     sublist (peer_line (AgentMessage_new 2 0 5 5 7 Result ''new'')) user"
proof -
  obtain s where s: "build (\<lambda>s. []) small_builder = Some s" using small_builds by blast
  have "AgentMessage_new 2 0 5 5 7 Result ''new'' \<in> set (drop (omitted_messages small_builder) (cb_incoming_messages small_builder))"
    by code_simp
  then show ?thesis using s prompt_keeps [OF s] by blast
qed

theorem prompt_accounts_witness:
  "\<exists>s. build (\<lambda>s. []) small_builder = Some s \<and> cx_truncated_bytes s = 2 \<and> length (cx_omission_receipts s) = 2"
proof -
  obtain s where s: "build (\<lambda>s. []) small_builder = Some s" using small_builds by blast
  have "excess (max_artifact_bytes (cb_budget small_builder)) (cb_dependency_summaries small_builder) +
      excess 512 (cb_tool_history small_builder) = 2"
    "length (memory_receipts small_builder @ artifact_receipts (max_artifact_bytes (cb_budget small_builder))
      (cb_dependency_summaries small_builder) @ message_receipts small_builder) = 2"
    by code_simp+
  then show ?thesis using s prompt_accounts [OF s] by auto
qed

end
