(* ===== verification/Agent_Host.thy ===== *)
theory Agent_Host
  imports Protocol Lease_Manager
begin

text \<open>The supervision of external agents in plexis-runtime: the workspace of a process and its
environment (agent_host/security.rs), and the host that starts, watches, times out and cancels
processes (agent_host/host.rs). What the operating system answers is an environment; the lines
of a process come in the order of their arrival, with a mark for the error stream. The
registry of processes is shared: other threads change it while a process is watched, while
its output is drained and between two locks, each of which is a function of the environment.
The search for the binary of the test agent is not modelled.\<close>

section \<open>The workspace\<close>

definition RESTRICTED_SYSTEM_DIRS :: "string list" where
  "RESTRICTED_SYSTEM_DIRS =
    [''/'', ''/bin'', ''/sbin'', ''/etc'', ''/usr'', ''/boot'', ''/dev'', ''/sys'', ''/proc'', ''/root'', ''/lib'', ''/lib64'']"

record DirEnv =
  dv_exists :: "string \<Rightarrow> bool"
  dv_is_dir :: "string \<Rightarrow> bool"
  dv_canonicalize :: "string \<Rightarrow> (string, string) result"

definition validate_and_canonicalize :: "DirEnv \<Rightarrow> string \<Rightarrow> (string, RuntimeError) result" where
  "validate_and_canonicalize env path =
    (if \<not> dv_exists env path then Err (InvalidCommand (''Workspace path does not exist: '' @ path))
     else if \<not> dv_is_dir env path then Err (InvalidCommand (''Workspace path is not a directory: '' @ path))
     else and_then
       (map_err (\<lambda>e. InvalidCommand (''Failed to canonicalize workspace path '' @ path @ '': '' @ e)) (dv_canonicalize env path))
       (\<lambda>p. if p \<in> set RESTRICTED_SYSTEM_DIRS
            then Err (Security (''Workspace path '' @ single_quoted p @ '' violates boundary: root or system directory forbidden''))
            else Ok p))"

section \<open>The environment of a process\<close>

definition SENSITIVE_SUBSTRINGS :: "string list" where
  "SENSITIVE_SUBSTRINGS = [''KEY'', ''TOKEN'', ''SECRET'', ''PASSWORD'', ''AUTH'', ''PASSWD'', ''CREDENTIAL'', ''PRIVATE'', ''APIKEY'']"

definition ALLOWED_OVERRIDES :: "string list" where
  "ALLOWED_OVERRIDES = [''PLEXIS_AUTH_TOKEN'', ''GEMINI_API_KEY'', ''GOOGLE_API_KEY'', ''GOOGLE_APPLICATION_CREDENTIALS'',
     ''GEMINI_CLI_TRUST_WORKSPACE'', ''GEMINI_CLI_SYSTEM_SETTINGS_PATH'']"

text \<open>The letters 181 and 255 have their upper case outside the range and stay as they are;
223 becomes two letters.\<close>

definition to_upper :: "char \<Rightarrow> string" where
  "to_upper c = (let n = (of_char c :: nat) in
     if (97 \<le> n \<and> n \<le> 122) \<or> (224 \<le> n \<and> n \<le> 254 \<and> n \<noteq> 247) then [char_of (n - 32)]
     else if n = 223 then ''SS'' else [c])"

definition str_to_uppercase :: "string \<Rightarrow> string" where
  "str_to_uppercase s = concat (map to_upper s)"

definition is_sensitive :: "string \<Rightarrow> bool" where
  "is_sensitive key = list_ex (\<lambda>sub. str_contains sub (str_to_uppercase key)) SENSITIVE_SUBSTRINGS"

definition inheritable :: "string \<Rightarrow> bool" where
  "inheritable key = (\<not> is_sensitive key \<or> key \<in> set ALLOWED_OVERRIDES)"

definition put_all :: "(string \<times> string) list \<Rightarrow> (string \<times> string) list \<Rightarrow> (string \<times> string) list" where
  "put_all vars env = fold (\<lambda>(k, v). AList.update k v) vars env"

definition prepare_child_environment ::
  "(string \<times> string) list \<Rightarrow> (string \<times> string) list \<Rightarrow> string \<Rightarrow> string \<Rightarrow> (string \<times> string) list" where
  "prepare_child_environment host custom_vars execution_id workspace_path =
    put_all [(''PLEXIS_EXECUTION_ID'', execution_id), (''PLEXIS_WORKSPACE'', workspace_path), (''PLEXIS_SUPERVISED'', ''1'')]
      (put_all custom_vars (put_all (filter (\<lambda>(k, v). inheritable k) host) []))"

section \<open>The registry\<close>

datatype ProcessState =
    Spawning
  | ProcessRunning u32 u32 time
  | ProcessCompleted int
  | ProcessFailed string "int option"
  | ProcessCancelled
  | ProcessTimedOut

record ActiveProcess =
  pr_execution_id :: ident
  pr_pid :: u32
  pr_pgid :: u32
  pr_state :: ProcessState
  pr_started_at :: time

datatype signal = SIGTERM | SIGKILL

text \<open>The signals sent so far, with their targets, stand for their effects.\<close>

record Host =
  ho_executable_path :: string
  ho_processes :: "(ident \<times> ActiveProcess) list"
  ho_signals :: "(signal \<times> int) list"

definition get_process :: "ident \<Rightarrow> Host \<Rightarrow> ActiveProcess option" where
  "get_process i h = map_of (ho_processes h) i"

definition get_process_state :: "ident \<Rightarrow> Host \<Rightarrow> ProcessState option" where
  "get_process_state i h = map_option pr_state (get_process i h)"

definition list_active_processes :: "Host \<Rightarrow> ActiveProcess list" where
  "list_active_processes h = map snd (ho_processes h)"

definition put_process :: "ident \<Rightarrow> ActiveProcess \<Rightarrow> Host \<Rightarrow> Host" where
  "put_process i p h = h\<lparr>ho_processes := AList.update i p (ho_processes h)\<rparr>"

definition register_process :: "time \<Rightarrow> ident \<Rightarrow> u32 \<Rightarrow> Host \<Rightarrow> Host" where
  "register_process now i pid =
    put_process i \<lparr>pr_execution_id = i, pr_pid = pid, pr_pgid = pid, pr_state = ProcessRunning pid pid now, pr_started_at = now\<rparr>"

definition set_process_state :: "ident \<Rightarrow> ProcessState \<Rightarrow> Host \<Rightarrow> Host" where
  "set_process_state i s h =
    (case get_process i h of None \<Rightarrow> h | Some p \<Rightarrow> put_process i (p\<lparr>pr_state := s\<rparr>) h)"

text \<open>The negated process group as an i32.\<close>

definition terminate_group :: "u32 \<Rightarrow> Host \<Rightarrow> Host" where
  "terminate_group pgid h = h\<lparr>ho_signals := ho_signals h @ [(SIGTERM, - sint pgid), (SIGKILL, - sint pgid)]\<rparr>"

definition cancel_execution :: "ident \<Rightarrow> Host \<Rightarrow> Host \<times> (unit, RuntimeError) result" where
  "cancel_execution i h =
    (case get_process i h of
       None \<Rightarrow> (h, Err (InvalidCommand (''No active process found for execution '' @ decimal i)))
     | Some p \<Rightarrow> (terminate_group (pr_pgid p) (set_process_state i ProcessCancelled h), Ok ()))"

section \<open>Supervision\<close>

datatype wait_answer = Exited "int option" | WaitFailed string | Elapsed

record ProcessEnv =
  pv_dirs :: DirEnv
  pv_vars :: "(string \<times> string) list"
  pv_exists :: "string \<Rightarrow> bool"
  pv_spawn :: "string \<Rightarrow> string list \<Rightarrow> (string \<times> string) list \<Rightarrow> string \<Rightarrow> (u32, string) result"
  pv_write_request :: "(unit, string) result"
  pv_write_newline :: "(unit, string) result"
  pv_flush :: "(unit, string) result"
  pv_lines :: "(bool \<times> string) list"
  pv_wait :: "u64 \<Rightarrow> wait_answer"
  pv_now :: time
  pv_duration_ms :: u64
  pv_watched :: "Host \<Rightarrow> Host"
  pv_drained :: "Host \<Rightarrow> Host"
  pv_between :: "Host \<Rightarrow> Host"
  pv_parse_event :: "string \<Rightarrow> ExecutionEvent option"
  pv_parse_result :: "string \<Rightarrow> ExecutionResult option"

definition exit_code_of :: "int option \<Rightarrow> int" where
  "exit_code_of code = (case code of Some c \<Rightarrow> c | None \<Rightarrow> 1)"

definition captured :: "bool \<Rightarrow> (bool \<times> string) list \<Rightarrow> string" where
  "captured err ls = join newline (map snd (filter (\<lambda>l. fst l = err) ls))"

definition started_process ::
  "ProcessEnv \<Rightarrow> bool \<Rightarrow> string \<Rightarrow> string list \<Rightarrow> string \<Rightarrow> (string \<times> string) list \<Rightarrow> ident \<Rightarrow> (u32, RuntimeError) result" where
  "started_process env agent exe args workspace custom i =
    and_then (validate_and_canonicalize (pv_dirs env) workspace) (\<lambda>dir.
      if \<not> pv_exists env exe \<and> starts_with ''/'' exe
      then Err (InvalidCommand ((if agent then ''Agent'' else ''Command'') @ '' executable not found at: '' @ exe))
      else map_err (\<lambda>e. InvalidCommand (''Failed to spawn '' @
             (if agent then ''external agent executable '' else ''command '') @ exe @ '': '' @ e))
             (pv_spawn env exe args (prepare_child_environment (pv_vars env) custom (decimal i) dir) dir))"

definition send_request :: "ProcessEnv \<Rightarrow> (unit, RuntimeError) result" where
  "send_request env =
    and_then (map_err (\<lambda>e. InvalidCommand (''Failed to write to stdin: '' @ e)) (pv_write_request env)) (\<lambda>_.
    and_then (map_err (\<lambda>e. InvalidCommand (''Failed to write newline: '' @ e)) (pv_write_newline env)) (\<lambda>_.
      map_err (\<lambda>e. InvalidCommand (''Failed to flush stdin: '' @ e)) (pv_flush env)))"

definition timeout_text :: "u64 \<Rightarrow> string" where
  "timeout_text secs = ''Execution timed out after '' @ dec_word secs @ ''s''"

definition timeout_event :: "ProcessEnv \<Rightarrow> ident \<Rightarrow> u64 \<Rightarrow> ExecutionEvent" where
  "timeout_event env i secs = ExecutionEvent_new (pv_now env) i (ExecutionEventType.Failed (timeout_text secs) (Some 124))"

definition wait_failed :: "ident \<Rightarrow> string \<Rightarrow> RuntimeError" where
  "wait_failed i e = Execution (''Process wait failed for execution '' @ decimal i @ '': '' @ e)"

subsection \<open>An agent that speaks the protocol\<close>

text \<open>A line of the output is an event, a result, or text; the last result counts.\<close>

definition agent_event :: "ProcessEnv \<Rightarrow> ident \<Rightarrow> bool \<times> string \<Rightarrow> ExecutionEvent option" where
  "agent_event env i l =
    (if fst l then Some (ExecutionEvent_new (pv_now env) i (Stderr (snd l)))
     else case pv_parse_event env (snd l) of
       Some ev \<Rightarrow> Some ev
     | None \<Rightarrow> if pv_parse_result env (snd l) \<noteq> None then None
               else Some (ExecutionEvent_new (pv_now env) i (Stdout (snd l))))"

definition result_line :: "ProcessEnv \<Rightarrow> bool \<times> string \<Rightarrow> ExecutionResult option" where
  "result_line env l =
    (if fst l \<or> pv_parse_event env (snd l) \<noteq> None then None else pv_parse_result env (snd l))"

definition reported_result :: "ProcessEnv \<Rightarrow> ExecutionResult option" where
  "reported_result env =
    (case rev (List.map_filter (result_line env) (pv_lines env)) of [] \<Rightarrow> None | r # rs \<Rightarrow> Some r)"

definition with_output :: "ProcessEnv \<Rightarrow> u32 \<Rightarrow> ExecutionResult \<Rightarrow> ExecutionResult" where
  "with_output env pid r =
    r\<lparr>er_raw_stdout := Some (captured False (pv_lines env)), er_raw_stderr := Some (captured True (pv_lines env)), er_pid := Some pid\<rparr>"

definition final_result :: "ProcessEnv \<Rightarrow> ident \<Rightarrow> u32 \<Rightarrow> int \<Rightarrow> ExecutionResult" where
  "final_result env i pid code =
    with_output env pid
      (case reported_result env of
         Some r \<Rightarrow> r
       | None \<Rightarrow>
           if code = 0
           then ExecutionResult_success i ''External agent execution completed successfully'' [] None (pv_duration_ms env)
           else ExecutionResult_failure i code
             (let err = str_trim (captured True (pv_lines env)) in
              if err \<noteq> [] then err else ''Process exited with status code '' @ int_text code) (pv_duration_ms env))"

definition exited_state :: "int \<Rightarrow> string \<Rightarrow> ProcessState" where
  "exited_state code why = (if code = 0 then ProcessCompleted 0 else ProcessFailed why (Some code))"

text \<open>A process that has exited keeps the state of a cancellation.\<close>

definition finish_process_state :: "ident \<Rightarrow> int \<Rightarrow> string \<Rightarrow> Host \<Rightarrow> Host" where
  "finish_process_state i code why h =
    (if get_process_state i h = Some ProcessCancelled then h
     else set_process_state i (exited_state code why) h)"

definition spawn_execution ::
  "ProcessEnv \<Rightarrow> ExecutionRequest \<Rightarrow> Host \<Rightarrow> Host \<times> ExecutionEvent list \<times> (ExecutionResult, RuntimeError) result" where
  "spawn_execution env rq h =
    (let i = rq_execution_id rq in
     case started_process env True (ho_executable_path h) [] (rq_workspace_path rq) (rq_environment rq) i of
       Err e \<Rightarrow> (h, [], Err e)
     | Ok pid \<Rightarrow>
         (let h1 = register_process (pv_now env) i pid h in
          case send_request env of
            Err e \<Rightarrow> (h1, [], Err e)
          | Ok _ \<Rightarrow>
              (let events = List.map_filter (agent_event env i) (pv_lines env); h2 = pv_watched env h1 in
               case pv_wait env (max 1 (rq_timeout_secs rq)) of
                 WaitFailed e \<Rightarrow> (terminate_group pid h2, events, Err (wait_failed i e))
               | Elapsed \<Rightarrow>
                   (set_process_state i ProcessTimedOut (pv_drained env (terminate_group pid h2)),
                    events @ [timeout_event env i (rq_timeout_secs rq)],
                    Ok ((ExecutionResult_failure i 124 (timeout_text (rq_timeout_secs rq)) (pv_duration_ms env))\<lparr>er_pid := Some pid\<rparr>))
               | Exited c \<Rightarrow>
                   (let code = exit_code_of c; r = final_result env i pid code in
                    (finish_process_state i code
                       (case er_failure_reason r of Some why \<Rightarrow> why | None \<Rightarrow> ''Exit code '' @ int_text code) (pv_drained env h2),
                     events, Ok r)))))"

subsection \<open>A command with a line parser\<close>

record CommandOutput =
  co_exit_code :: int
  co_stdout :: string
  co_stderr :: string
  co_duration_ms :: u64
  co_timed_out :: bool
  co_cancelled :: bool

text \<open>The parser of the backend, where there is one, may turn a line of the output into an
event.\<close>

definition command_event :: "ProcessEnv \<Rightarrow> (string \<Rightarrow> ExecutionEvent option) \<Rightarrow> ident \<Rightarrow> bool \<times> string \<Rightarrow> ExecutionEvent" where
  "command_event env parse_line i l =
    (if fst l then ExecutionEvent_new (pv_now env) i (Stderr (snd l))
     else case parse_line (snd l) of Some ev \<Rightarrow> ev | None \<Rightarrow> ExecutionEvent_new (pv_now env) i (Stdout (snd l)))"

definition is_cancelled :: "ident \<Rightarrow> Host \<Rightarrow> bool" where
  "is_cancelled i h = (get_process_state i h = Some ProcessCancelled)"

text \<open>The registry is read under one lock and written under another one.\<close>

definition spawn_command_execution ::
  "ProcessEnv \<Rightarrow> ident \<Rightarrow> string \<Rightarrow> string list \<Rightarrow> string \<Rightarrow> (string \<times> string) list \<Rightarrow> u64 \<Rightarrow>
   (string \<Rightarrow> ExecutionEvent option) \<Rightarrow> Host \<Rightarrow> Host \<times> ExecutionEvent list \<times> (CommandOutput, RuntimeError) result" where
  "spawn_command_execution env i command_path args workspace custom_env timeout_secs parse_line h =
    (case started_process env False command_path args workspace custom_env i of
       Err e \<Rightarrow> (h, [], Err e)
     | Ok pid \<Rightarrow>
         (let h2 = pv_watched env (register_process (pv_now env) i pid h);
              events = ExecutionEvent_new (pv_now env) i (Started pid) # map (command_event env parse_line i) (pv_lines env);
              output = (\<lambda>code timed_out cancelled. \<lparr>co_exit_code = code, co_stdout = captured False (pv_lines env),
                 co_stderr = captured True (pv_lines env), co_duration_ms = pv_duration_ms env, co_timed_out = timed_out,
                 co_cancelled = cancelled\<rparr>) in
          case pv_wait env (max 1 timeout_secs) of
            WaitFailed e \<Rightarrow> (terminate_group pid h2, events, Err (wait_failed i e))
          | Elapsed \<Rightarrow>
              (let h3 = pv_drained env (set_process_state i ProcessTimedOut (terminate_group pid h2)) in
               (h3, events @ [timeout_event env i timeout_secs], Ok (output 124 True (is_cancelled i h3))))
          | Exited c \<Rightarrow>
              (let code = exit_code_of c; h3 = pv_drained env h2; h4 = pv_between env h3 in
               (if is_cancelled i h3 then h4 else set_process_state i (exited_state code (''Exit code '' @ int_text code)) h4,
                events, Ok (output code False (is_cancelled i h3))))))"

end
