(* ===== verification/Agent_Host_Properties.thy ===== *)
theory Agent_Host_Properties
  imports Agent_Host "HOL-Library.Code_Target_Nat"
begin

text \<open>The properties of the agent host: what a child process may see of the host's environment,
and what the registry says of a process whatever other threads do meanwhile.\<close>

section \<open>The environment of a child\<close>

lemma map_of_put_all: "map_of (put_all vars env) = map_of env ++ map_of (rev vars)"
  unfolding put_all_def
proof (induction vars arbitrary: env)
  case (Cons v vars)
  then show ?case by (cases v) (simp add: update_conv' fun_upd_def fun_eq_iff map_add_def split: option.split)
qed simp

definition injected_vars :: "string \<Rightarrow> string \<Rightarrow> (string \<times> string) list" where
  "injected_vars i dir = [(''PLEXIS_EXECUTION_ID'', i), (''PLEXIS_WORKSPACE'', dir), (''PLEXIS_SUPERVISED'', ''1'')]"

lemma map_of_filter_key: "map_of (filter (\<lambda>(k, v). P k) xs) k = (if P k then map_of xs k else None)"
  by (induction xs) auto

lemma rev_injected: "map_of (rev (injected_vars i dir)) = map_of (injected_vars i dir)"
  by (rule ext) (simp add: injected_vars_def)

lemma is_sensitive_iff: "is_sensitive k \<longleftrightarrow> (\<exists>w \<in> set SENSITIVE_SUBSTRINGS. sublist w (str_to_uppercase k))"
  by (simp add: is_sensitive_def str_contains_def list_ex_iff sublist_altdef' Bex_def)

section \<open>The registry while others act\<close>

text \<open>The steps of other threads, seen from one execution: they register and settle other
executions, send signals, and cancel any execution.\<close>

inductive others :: "ident \<Rightarrow> Host \<Rightarrow> Host \<Rightarrow> bool" for i :: ident where
  other_registers: "j \<noteq> i \<Longrightarrow> others i h (register_process now j pid h)"
| other_settles: "j \<noteq> i \<Longrightarrow> others i h (set_process_state j s h)"
| other_cancels: "others i h (fst (cancel_execution j h))"
| other_signals: "others i h (terminate_group pgid h)"

lemma get_put_process: "get_process i (put_process j p h) = (if i = j then Some p else get_process i h)"
  by (simp add: get_process_def put_process_def update_conv')

lemma get_signalled [simp]: "get_process i (terminate_group pgid h) = get_process i h"
  by (simp add: get_process_def terminate_group_def)

lemma state_signalled [simp]: "get_process_state i (terminate_group pgid h) = get_process_state i h"
  by (simp add: get_process_state_def)

lemma state_set:
  "get_process_state i (set_process_state j s h) =
    (if i = j then map_option (\<lambda>_. s) (get_process_state i h) else get_process_state i h)"
  by (simp add: get_process_state_def set_process_state_def get_put_process split: option.split)

lemma state_registered:
  "get_process_state i (register_process now j pid h) =
    (if i = j then Some (ProcessRunning pid pid now) else get_process_state i h)"
  by (simp add: get_process_state_def register_process_def get_put_process)

lemma state_cancelled:
  "get_process_state i (fst (cancel_execution j h)) =
    (if i = j then map_option (\<lambda>_. ProcessCancelled) (get_process_state i h) else get_process_state i h)"
  by (auto simp: cancel_execution_def state_set split: option.split) (simp add: get_process_state_def)

lemmas registry_state = state_set state_registered state_cancelled

lemma others_state:
  assumes "(others i)\<^sup>*\<^sup>* h h'" "get_process_state i h = Some s"
  shows "get_process_state i h' = Some s \<or> get_process_state i h' = Some ProcessCancelled"
  using assms(1)
proof (induction rule: rtranclp_induct)
  case (step y z)
  from step.hyps(2) show ?case using step.IH by (cases rule: others.cases) (auto simp: registry_state)
qed (simp add: assms(2))

lemma others_keep_cancelled:
  "(others i)\<^sup>*\<^sup>* h h' \<Longrightarrow> get_process_state i h = Some ProcessCancelled \<Longrightarrow> is_cancelled i h'"
  using others_state by (fastforce simp: is_cancelled_def)

text \<open>What a supervised execution does is, for any other execution, such a step of others.\<close>

definition by_others :: "ident \<Rightarrow> (Host \<Rightarrow> Host) \<Rightarrow> bool" where
  "by_others i f = (\<forall>h. (others i)\<^sup>*\<^sup>* h (f h))"

lemma others_trans: "by_others i f \<Longrightarrow> (others i)\<^sup>*\<^sup>* h h' \<Longrightarrow> (others i)\<^sup>*\<^sup>* h (f h')"
  by (meson by_others_def rtranclp_trans)

lemma others_step: "others i h' h'' \<Longrightarrow> (others i)\<^sup>*\<^sup>* h h' \<Longrightarrow> (others i)\<^sup>*\<^sup>* h h''"
  by (rule rtranclp.rtrancl_into_rtrancl)

lemmas others_intro =
  others_trans others_step [OF other_signals] others_step [OF other_registers] others_step [OF other_settles]

lemma others_finish: "j \<noteq> i \<Longrightarrow> (others i)\<^sup>*\<^sup>* h h' \<Longrightarrow> (others i)\<^sup>*\<^sup>* h (finish_process_state j code why h')"
  by (auto simp: finish_process_state_def intro: others_intro)

lemma spawn_by_others:
  assumes "rq_execution_id rq \<noteq> i" "by_others i (pv_watched env)" "by_others i (pv_drained env)"
  shows "by_others i (\<lambda>h. fst (spawn_execution env rq h))"
proof -
  have "(others i)\<^sup>*\<^sup>* h (fst (spawn_execution env rq h))" for h
    unfolding spawn_execution_def Let_def
    by (simp split: result.split wait_answer.split, intro conjI allI impI;
        (rule rtranclp.rtrancl_refl | rule others_trans [OF assms(2)] | rule others_trans [OF assms(3)] |
         rule others_step [OF other_signals] | rule others_step [OF other_registers [OF assms(1)]] |
         rule others_step [OF other_settles [OF assms(1)]] | rule others_finish [OF assms(1)])+)
  then show ?thesis by (simp add: by_others_def)
qed

lemma others_signal_history: "(others i)\<^sup>*\<^sup>* h h' \<Longrightarrow> set (ho_signals h) \<subseteq> set (ho_signals h')"
proof (induction rule: rtranclp_induct)
  case (step y z)
  from step.hyps(2) have "set (ho_signals y) \<subseteq> set (ho_signals z)"
    by (cases rule: others.cases)
      (auto simp: register_process_def set_process_state_def cancel_execution_def terminate_group_def put_process_def
         split: option.splits)
  with step.IH show ?case by blast
qed simp

lemma signals_set [simp]: "ho_signals (set_process_state i s h) = ho_signals h"
  by (simp add: set_process_state_def put_process_def split: option.split)

section \<open>What the host promises\<close>

text \<open>A child sees the identity of its execution and its workspace, which nothing overrides;
then the variables of the request; and of the host's own variables only those whose name holds
none of the sensitive words in any case of letters, or is one of the permitted ones.\<close>

theorem env_scrubbed:
  "map_of (prepare_child_environment host custom i dir) k =
    (case map_of (injected_vars i dir) k of
       Some v \<Rightarrow> Some v
     | None \<Rightarrow> (case map_of (rev custom) k of
         Some v \<Rightarrow> Some v
       | None \<Rightarrow>
           if (\<exists>w \<in> set SENSITIVE_SUBSTRINGS. sublist w (str_to_uppercase k)) \<and> k \<notin> set ALLOWED_OVERRIDES then None
           else map_of (rev host) k))"
  unfolding prepare_child_environment_def injected_vars_def [symmetric]
  by (simp add: is_sensitive_iff [symmetric] map_of_put_all rev_injected rev_filter map_of_filter_key map_add_def inheritable_def split: option.split)

text \<open>The state of an execution after the steps of others, and of its own.\<close>

lemma watched_state:
  assumes "by_others i (pv_watched env)"
  shows "get_process_state i (pv_watched env (register_process now i pid h)) = Some (ProcessRunning pid pid now) \<or>
    get_process_state i (pv_watched env (register_process now i pid h)) = Some ProcessCancelled"
  using others_state [of i "register_process now i pid h"] assms unfolding by_others_def by (metis state_registered)

lemma known_after:
  assumes "by_others i f" "get_process_state i h \<noteq> None"
  shows "get_process_state i (f h) \<noteq> None"
  using assms others_state unfolding by_others_def by blast

lemma finish_state:
  assumes "get_process_state i h \<noteq> None"
  shows "get_process_state i (finish_process_state i code why h) =
    Some (if is_cancelled i h then ProcessCancelled else exited_state code why)"
  using assms by (auto simp: finish_process_state_def is_cancelled_def state_set)

text \<open>C27: Once a child runs and has its request, the registry tells its end whatever other threads
do: the error of a failed wait leaves it running or cancelled; an elapsed time makes it timed
out with both signals sent to its group and exit code 124; an exit is recorded as such, unless
the execution has been cancelled by then, which nothing overwrites. A cancellation while the
process was watched always counts.\<close>

theorem agent_outcome:
  assumes "by_others i (pv_watched env)" "by_others i (pv_drained env)" "i = rq_execution_id rq"
    "started_process env True (ho_executable_path h) [] (rq_workspace_path rq) (rq_environment rq) i = Ok pid"
    "send_request env = Ok ()" "h2 = pv_watched env (register_process (pv_now env) i pid h)"
    "spawn_execution env rq h = (h', evs, r)"
  shows "case pv_wait env (max 1 (rq_timeout_secs rq)) of
      WaitFailed e \<Rightarrow> is_err r \<and> get_process_state i h' \<in> {Some (ProcessRunning pid pid (pv_now env)), Some ProcessCancelled}
    | Elapsed \<Rightarrow> get_process_state i h' = Some ProcessTimedOut \<and> {(SIGTERM, - sint pid), (SIGKILL, - sint pid)} \<subseteq> set (ho_signals h') \<and>
        (\<exists>x. r = Ok x \<and> er_exit_code x = 124 \<and> \<not> er_success x \<and> er_pid x = Some pid)
    | Exited c \<Rightarrow> (\<exists>x why. r = Ok x \<and> er_pid x = Some pid \<and>
        get_process_state i h' =
          Some (if is_cancelled i (pv_drained env h2) then ProcessCancelled else exited_state (exit_code_of c) why)) \<and>
        (is_cancelled i h2 \<longrightarrow> get_process_state i h' = Some ProcessCancelled)"
proof -
  have w: "get_process_state i h2 = Some (ProcessRunning pid pid (pv_now env)) \<or> get_process_state i h2 = Some ProcessCancelled"
    using watched_state [OF assms(1)] assms(6) by simp
  then have d: "get_process_state i (pv_drained env (terminate_group pid h2)) \<noteq> None" "get_process_state i (pv_drained env h2) \<noteq> None"
    using known_after [OF assms(2)] by (metis option.distinct(1) state_signalled)+
  have sticks: "is_cancelled i h2 \<Longrightarrow> is_cancelled i (pv_drained env h2)"
    using others_keep_cancelled [of i h2 "pv_drained env h2"] assms(2) by (simp add: is_cancelled_def by_others_def)
  have "set (ho_signals (terminate_group pid h2)) \<subseteq> set (ho_signals (pv_drained env (terminate_group pid h2)))"
    using others_signal_history [of i "terminate_group pid h2"] assms(2) by (simp add: by_others_def)
  then have "{(SIGTERM, - sint pid), (SIGKILL, - sint pid)} \<subseteq> set (ho_signals (pv_drained env (terminate_group pid h2)))"
    by (auto simp: terminate_group_def)
  note group = this
  show ?thesis
  proof (cases "pv_wait env (max 1 (rq_timeout_secs rq))")
    case (Exited c)
    have "\<exists>why. h' = finish_process_state i (exit_code_of c) why (pv_drained env h2) \<and> r = Ok (final_result env i pid (exit_code_of c))"
      using assms(3-7) Exited by (auto simp: spawn_execution_def Let_def)
    then show ?thesis using Exited d sticks by (auto simp: finish_state final_result_def with_output_def)
  next
    case (WaitFailed e)
    have "h' = terminate_group pid h2" "r = Err (wait_failed i e)"
      using assms(3-7) WaitFailed by (auto simp: spawn_execution_def Let_def)
    then show ?thesis using WaitFailed w by auto
  next
    case Elapsed
    have h: "h' = set_process_state i ProcessTimedOut (pv_drained env (terminate_group pid h2))"
      "r = Ok ((ExecutionResult_failure i 124 (timeout_text (rq_timeout_secs rq)) (pv_duration_ms env))\<lparr>er_pid := Some pid\<rparr>)"
      using assms(3-7) Elapsed by (auto simp: spawn_execution_def Let_def)
    then show ?thesis using Elapsed d group by (auto simp: state_set ExecutionResult_failure_def)
  qed
qed

text \<open>For a command the answer and the registry agree on a cancellation that came before
the output was drained. The registry is written under a lock of its own: a cancellation that
comes between the two locks has signalled the group, and is overwritten.\<close>

theorem command_outcome:
  assumes "by_others i (pv_watched env)" "by_others i (pv_drained env)" "by_others i (pv_between env)"
    "started_process env False path args ws vars i = Ok pid" "pv_wait env (max 1 secs) = Exited c"
    "h3 = pv_drained env (pv_watched env (register_process (pv_now env) i pid h))"
    "spawn_command_execution env i path args ws vars secs parse h = (h', evs, r)"
  shows "\<exists>x. r = Ok x \<and> co_exit_code x = exit_code_of c \<and> co_cancelled x = is_cancelled i h3 \<and> \<not> co_timed_out x \<and>
      ho_signals h' = ho_signals (pv_between env h3) \<and>
      get_process_state i h' =
        Some (if co_cancelled x then ProcessCancelled else exited_state (exit_code_of c) (''Exit code '' @ int_text (exit_code_of c)))"
proof -
  have "get_process_state i (pv_watched env (register_process (pv_now env) i pid h)) \<noteq> None"
    using watched_state [OF assms(1)] by (metis option.distinct(1))
  then have known: "get_process_state i (pv_between env h3) \<noteq> None"
    using known_after [OF assms(3) known_after [OF assms(2)]] assms(6) by simp
  have sticks: "is_cancelled i h3 \<Longrightarrow> get_process_state i (pv_between env h3) = Some ProcessCancelled"
    using others_keep_cancelled [of i h3] assms(3) by (simp add: is_cancelled_def by_others_def)
  have "h' = (if is_cancelled i h3 then pv_between env h3
      else set_process_state i (exited_state (exit_code_of c) (''Exit code '' @ int_text (exit_code_of c))) (pv_between env h3))"
    "\<exists>x. r = Ok x \<and> co_exit_code x = exit_code_of c \<and> co_cancelled x = is_cancelled i h3 \<and> \<not> co_timed_out x"
    using assms(4-7) by (auto simp: spawn_command_execution_def Let_def)
  then show ?thesis using known sticks by (auto simp: state_set)
qed

section \<open>A child that is cancelled\<close>

definition calm_env :: ProcessEnv where
  "calm_env = \<lparr>pv_dirs = \<lparr>dv_exists = \<lambda>p. True, dv_is_dir = \<lambda>p. True, dv_canonicalize = Ok\<rparr>,
     pv_vars = [(''PATH'', ''/bin''), (''AWS_SECRET'', ''x'')], pv_exists = \<lambda>p. True, pv_spawn = \<lambda>p args vars dir. Ok 41,
     pv_write_request = Ok (), pv_write_newline = Ok (), pv_flush = Ok (), pv_lines = [(False, ''hello'')],
     pv_wait = \<lambda>secs. Exited (Some 0), pv_now = 5, pv_duration_ms = 3, pv_watched = (\<lambda>h. h), pv_drained = (\<lambda>h. h),
     pv_between = (\<lambda>h. h), pv_parse_event = \<lambda>l. None, pv_parse_result = \<lambda>l. None\<rparr>"

definition idle_host :: Host where
  "idle_host = \<lparr>ho_executable_path = ''/opt/agent'', ho_processes = [], ho_signals = []\<rparr>"

definition cancelling :: "ident \<Rightarrow> Host \<Rightarrow> Host" where
  "cancelling i h = fst (cancel_execution i h)"

lemma by_others_id: "by_others i (\<lambda>h. h)"
  by (simp add: by_others_def)

lemma by_others_cancelling: "by_others i (cancelling j)"
  unfolding by_others_def cancelling_def by (blast intro: others.intros)

definition watched_env :: ProcessEnv where
  "watched_env = calm_env\<lparr>pv_watched := cancelling 7\<rparr>"

definition raced_env :: ProcessEnv where
  "raced_env = calm_env\<lparr>pv_between := cancelling 7\<rparr>"

definition host_request :: ExecutionRequest where
  "host_request = ExecutionRequest_new 7 1 ''Developer'' ''objective'' ''/srv/w''"

lemma calm_started:
  "started_process watched_env True ''/opt/agent'' [] ''/srv/w'' [] 7 = Ok 41"
  "started_process raced_env False ''/bin/ls'' [] ''/srv/w'' [] 7 = Ok 41"
  by (simp_all add: started_process_def validate_and_canonicalize_def RESTRICTED_SYSTEM_DIRS_def watched_env_def raced_env_def calm_env_def)

lemma calm_fields:
  "pv_watched watched_env = cancelling 7" "pv_drained watched_env = (\<lambda>h. h)" "send_request watched_env = Ok ()"
  "pv_wait watched_env secs = Exited (Some 0)" "pv_now watched_env = 5" "pv_watched raced_env = (\<lambda>h. h)"
  "pv_drained raced_env = (\<lambda>h. h)" "pv_between raced_env = cancelling 7" "pv_wait raced_env secs = Exited (Some 0)"
  "pv_now raced_env = 5"
  by (simp_all add: watched_env_def raced_env_def calm_env_def send_request_def)

lemma request_fields:
  "rq_execution_id host_request = 7" "rq_workspace_path host_request = ''/srv/w''" "rq_environment host_request = []"
  "ho_executable_path idle_host = ''/opt/agent''"
  by (simp_all add: host_request_def ExecutionRequest_new_def idle_host_def)

theorem agent_outcome_witness:
  "get_process_state 7 (fst (spawn_execution watched_env host_request idle_host)) = Some ProcessCancelled"
proof -
  obtain h' evs r where run: "spawn_execution watched_env host_request idle_host = (h', evs, r)" by (rule prod_cases3)
  have "is_cancelled 7 (cancelling 7 (register_process 5 7 41 idle_host))" by code_simp
  moreover note agent_outcome [where i = 7 and env = watched_env and rq = host_request and h = idle_host and pid = 41
      and ?h2.0 = "cancelling 7 (register_process 5 7 41 idle_host)", unfolded calm_fields request_fields,
      OF by_others_cancelling by_others_id refl calm_started(1) refl refl run]
  ultimately show ?thesis unfolding run by simp
qed

theorem command_outcome_witness:
  "\<exists>x. snd (snd (spawn_command_execution raced_env 7 ''/bin/ls'' [] ''/srv/w'' [] 10 (\<lambda>l. None) idle_host)) = Ok x \<and> \<not> co_cancelled x"
proof -
  obtain h' evs r where run: "spawn_command_execution raced_env 7 ''/bin/ls'' [] ''/srv/w'' [] 10 (\<lambda>l. None) idle_host = (h', evs, r)"
    by (rule prod_cases3)
  have "\<not> is_cancelled 7 (register_process 5 7 41 idle_host)" by code_simp
  moreover note command_outcome [where i = 7 and env = raced_env and h = idle_host and c = "Some 0" and ?h3.0 = "register_process 5 7 41 idle_host",
      unfolded calm_fields, OF by_others_id by_others_id by_others_cancelling calm_started(2) refl refl run]
  ultimately show ?thesis unfolding run by auto
qed

text \<open>There the group has been signalled and the registry says it completed.\<close>

theorem cancellation_overwritten:
  "ho_signals (fst (spawn_command_execution raced_env 7 ''/bin/ls'' [] ''/srv/w'' [] 10 (\<lambda>l. None) idle_host)) = [(SIGTERM, -41), (SIGKILL, -41)]"
  "get_process_state 7 (fst (spawn_command_execution raced_env 7 ''/bin/ls'' [] ''/srv/w'' [] 10 (\<lambda>l. None) idle_host)) = Some (ProcessCompleted 0)"
  by code_simp+

end
