(* ===== verification/Workflow_Executor.thy ===== *)
theory Workflow_Executor
  imports Planner Runner Failover Scheduler
begin

text \<open>The executor of the mission engine (workflow_executor.rs of plexis-server): it plans a
workflow that has no tasks, makes sure of the default agents, and ticks the scheduler until the
workflow stops or nothing moves. The scheduler of each round, with the runner in it, and the
order in which the validator visits a hash map are an environment; the loop takes the number of
rounds it may go. The scripted provider (adapters/scripted.rs of plexis-providers) is here with
the answers the executor gives it.\<close>

section \<open>The scripted provider\<close>

record ScriptedProvider =
  sp_id :: string
  sp_responses :: "(CompletionResponse, ProviderError) result list"
  sp_history :: "CompletionRequest list"

definition ScriptedProvider_new :: "string \<Rightarrow> ScriptedProvider" where
  "ScriptedProvider_new i = \<lparr>sp_id = i, sp_responses = [], sp_history = []\<rparr>"

definition queue_response :: "CompletionResponse \<Rightarrow> ScriptedProvider \<Rightarrow> ScriptedProvider" where
  "queue_response r p = p\<lparr>sp_responses := sp_responses p @ [Ok r]\<rparr>"

definition queue_provider_error :: "ProviderError \<Rightarrow> ScriptedProvider \<Rightarrow> ScriptedProvider" where
  "queue_provider_error e p = p\<lparr>sp_responses := sp_responses p @ [Err e]\<rparr>"

definition queue_error :: "string \<Rightarrow> ScriptedProvider \<Rightarrow> ScriptedProvider" where
  "queue_error e = queue_provider_error (ExecutionError e)"

definition scripted_complete :: "CompletionRequest \<Rightarrow> (ScriptedProvider, CompletionResponse, ProviderError) op" where
  "scripted_complete rq p =
    (let p1 = p\<lparr>sp_history := sp_history p @ [rq]\<rparr> in
     case sp_responses p1 of
       [] \<Rightarrow> (p1, Err (Unavailable ''ScriptedProvider response queue is empty''))
     | r # rest \<Rightarrow> (p1\<lparr>sp_responses := rest\<rparr>, r))"

text \<open>The text of the arguments is the compact JSON of an object with a command.\<close>

definition double_quoted :: "string \<Rightarrow> string" where
  "double_quoted s = CHR 0x22 # s @ [CHR 0x22]"

definition echo_call :: "string \<Rightarrow> string \<Rightarrow> u32 \<times> u32 \<times> u32 \<Rightarrow> CompletionResponse" where
  "echo_call i words usage =
    \<lparr>cp_message = ChatMessage_with_tools [\<lparr>tl_id = i, tl_name = ''shell'',
       tl_arguments = ''{'' @ double_quoted ''command'' @ '':'' @ double_quoted (''echo '' @ single_quoted words) @ ''}''\<rparr>],
     cp_usage = \<lparr>tu_prompt_tokens = fst usage, tu_completion_tokens = fst (snd usage), tu_total_tokens = snd (snd usage)\<rparr>,
     cp_finish_reason = ToolCalls\<rparr>"

definition closing_words :: "string \<Rightarrow> u32 \<times> u32 \<times> u32 \<Rightarrow> CompletionResponse" where
  "closing_words words usage =
    \<lparr>cp_message = ChatMessage_plain AssistantRole words,
     cp_usage = \<lparr>tu_prompt_tokens = fst usage, tu_completion_tokens = fst (snd usage), tu_total_tokens = snd (snd usage)\<rparr>,
     cp_finish_reason = Stop\<rparr>"

definition autonomous_round :: "CompletionResponse list" where
  "autonomous_round =
    [echo_call ''call_investigate'' ''Investigator inspecting repository'' (100, 20, 120),
     closing_words ''Diagnosed defect boundary in src/lib.rs.'' (120, 15, 135),
     echo_call ''call_analysis'' ''Analyst auditing specifications'' (110, 20, 130),
     closing_words ''Analyst verified test requirements in tests/.'' (130, 15, 145),
     echo_call ''call_dev'' ''Developer executing implementation analysis'' (150, 25, 175),
     closing_words ''Developer completed implementation pass.'' (140, 15, 155),
     echo_call ''call_review'' ''Reviewer running regression suite'' (140, 20, 160),
     closing_words ''Reviewer verified tests and approved changes.'' (130, 15, 145)]"

definition populate_autonomous_scripted_responses :: "ScriptedProvider \<Rightarrow> ScriptedProvider" where
  "populate_autonomous_scripted_responses = fold queue_response (concat (replicate 10 autonomous_round))"

section \<open>The environment\<close>

record ExecutorEnv =
  ex_now :: time
  ex_order :: "string list \<Rightarrow> string list"
  ex_temp_dir :: string
  ex_debug :: "string list \<Rightarrow> string"
  ex_sched :: "nat \<Rightarrow> SchedEnv"

section \<open>Planning the objective\<close>

fun planner_error_display :: "ExecutorEnv \<Rightarrow> PlannerError \<Rightarrow> string" where
  "planner_error_display env (PlannerError.Provider e) = ''provider error: '' @ e"
| "planner_error_display env (Serialization e) = ''proposal serialization error: '' @ e"
| "planner_error_display env (Validation es) = ''validation rejected proposal: '' @ ex_debug env es"
| "planner_error_display env (PlannerError.Storage e) = ''storage error: '' @ e"
| "planner_error_display env (PlannerError.NotFound e) = ''entity not found: '' @ e"
| "planner_error_display env (Internal e) = ''planning failed: '' @ e"

definition objective_context :: "Workflow \<Rightarrow> PlanningContext" where
  "objective_context w =
    (PlanningContext_new (w_id w) (w_objective w))
      \<lparr>pc_workspace_id := w_workspace_id w,
       pc_failure_diagnostics := Option.bind (json_get ''failure_diagnostics'' (w_metadata w)) json_str,
       pc_available_roles := [''Investigator'', ''Analyst'', ''Developer'', ''Reviewer'']\<rparr>"

definition decomposer_telemetry :: Telemetry where
  "decomposer_telemetry =
    \<lparr>tm_provider = ''autonomous_decomposer'', tm_model = ''rule_engine_v1'', tm_latency_ms = 10,
     tm_prompt_tokens = None, tm_completion_tokens = None\<rparr>"

text \<open>The backend of a new task: an implementing task goes to the backend of the workflow.\<close>

definition workflow_backend :: "Workflow \<Rightarrow> json" where
  "workflow_backend w = (case json_get ''backend'' (w_metadata w) of Some b \<Rightarrow> b | None \<Rightarrow> JStr ''gemini_cli'')"

definition implementing :: "Task \<Rightarrow> bool" where
  "implementing t =
    (list_ex (str_contains ''impl'') (t_criteria t) \<or> meta_get_str ''suggested_role'' (t_metadata t) = Some ''Developer'')"

definition isolated_task :: "Workflow \<Rightarrow> Task \<Rightarrow> (Task, RuntimeError) result" where
  "isolated_task w t =
    task_puts [(''worktree_isolation'', JBool True),
      (''backend'', if implementing t then workflow_backend w else JStr ''scripted'')] t"

definition isolate_task :: "Workflow \<Rightarrow> ident \<Rightarrow> (Db, unit, string) op" where
  "isolate_task w i db =
    (case db_get_task i db of
       None \<Rightarrow> (db, Ok ())
     | Some t \<Rightarrow>
         (case isolated_task w t of
            Err _ \<Rightarrow> (db, Err ''panic: cannot access key in JSON value'')
          | Ok t' \<Rightarrow> (fst (update_task t' db), Ok ())))"

definition plan_workflow_objective :: "ExecutorEnv \<Rightarrow> Workflow \<Rightarrow> (Db, PlanProposal, string) op" where
  "plan_workflow_objective env w db =
    (if list_tasks_by_workflow (w_id w) db \<noteq> [] then (db, Err ''Workflow already contains tasks'')
     else let ctx = objective_context w; ord = ex_order env in
       case map_err (\<lambda>e. ''AutonomousDecomposer failed: '' @ planner_error_display env e) (decomposer_plan ord ctx) of
         Err e \<Rightarrow> (db, Err e)
       | Ok p \<Rightarrow>
           (case validate ord p of
              None \<Rightarrow> (db, Err ''panic: attempt to subtract with overflow'')
            | Some report \<Rightarrow>
                if \<not> is_valid report then (db, Err (''Plan proposal rejected: '' @ ex_debug env (report_errors report)))
                else st_then
                  (\<lambda>db. case apply_plan (ex_now env) ord ctx p decomposer_telemetry db of
                     (db1, r) \<Rightarrow> (db1, map_err (\<lambda>e. ''Failed to apply plan: '' @ planner_error_display env e) r))
                  (\<lambda>r. st_then (for_each (isolate_task w) (map snd (pa_created_tasks r)))
                    (\<lambda>_ db2. (emit_event (ex_now env) ''workflow'' (w_id w) ''workflow.planned'' db2, Ok p))) db))"

section \<open>The default agents\<close>

definition default_agents :: "(string \<times> string \<times> string list) list" where
  "default_agents =
    [(''Lead Investigator'', ''Investigator'', [''research'', ''filesystem_read'', ''analysis'', ''shell'']),
     (''Repository Analyst'', ''Analyst'', [''analysis'', ''filesystem_read'', ''review'', ''code_search'']),
     (''Software Architect'', ''Planner'', [''planning'', ''filesystem_read'']),
     (''Core Developer'', ''Developer'', [''filesystem_write'', ''shell'', ''git'']),
     (''Code Reviewer'', ''Reviewer'', [''test_runner'', ''review'', ''shell'', ''filesystem_read'']),
     (''Test Engineer'', ''Tester'', [''test_runner'', ''shell'', ''filesystem_write'']),
     (''Technical Writer'', ''TechnicalWriter'', [''filesystem_write'', ''documentation'']),
     (''Quality Verifier'', ''Verifier'', [''verification'', ''integration''])]"

definition create_default_agent :: "time \<Rightarrow> string \<Rightarrow> string \<times> string \<times> string list \<Rightarrow> (Db, unit, StorageError) op" where
  "create_default_agent now dir d db =
    (let a = (Agent_new (fresh_id (map a_id (db_agents db))) now (fst d) (fst (snd d))
           (ExecutionProfile_new ''scripted'' ''default-model''))\<lparr>a_capabilities := snd (snd d)\<rparr>;
         s = (Session_new (fresh_id (map s_id (db_sessions db))) now (a_id a))\<lparr>s_working_directory := Some dir\<rparr> in
     st_then (create_agent a) (\<lambda>_. create_session s) db)"

definition missing_agents :: "Agent list \<Rightarrow> (string \<times> string \<times> string list) list" where
  "missing_agents existing =
    filter (\<lambda>d. \<not> list_ex (\<lambda>a. eq_ignore_ascii_case (a_role a) (fst (snd d))) existing) default_agents"

definition move_session :: "string \<Rightarrow> Session \<Rightarrow> Db \<Rightarrow> Db" where
  "move_session dir s db =
    (if s_working_directory s \<noteq> Some dir then fst (update_session (s\<lparr>s_working_directory := Some dir\<rparr>) db) else db)"

definition move_sessions :: "string \<Rightarrow> Agent \<Rightarrow> Db \<Rightarrow> Db" where
  "move_sessions dir a db = fold (move_session dir) (list_sessions_by_agent (a_id a) db) db"

definition ensure_default_agents :: "ExecutorEnv \<Rightarrow> string option \<Rightarrow> (Db, unit, string) op" where
  "ensure_default_agents env path db =
    (let dir = (case path of Some p \<Rightarrow> p | None \<Rightarrow> ex_temp_dir env @ ''/plexis_workspace'') in
     case for_each (create_default_agent (ex_now env) dir) (missing_agents (list_agents db)) db of
       (db1, Err e) \<Rightarrow> (db1, Err (storage_display e))
     | (db1, Ok _) \<Rightarrow>
         ((case path of None \<Rightarrow> db1 | Some target \<Rightarrow> fold (move_sessions target) (list_agents db1) db1), Ok ()))"

section \<open>The cycle\<close>

definition investigator_done :: "Task list \<Rightarrow> bool" where
  "investigator_done tasks =
    list_ex (\<lambda>t. meta_get_str ''suggested_role'' (t_metadata t) = Some ''Investigator'' \<and>
      (t_state t = TaskState.Verified \<or> t_state t = TaskState.AwaitingVerification)) tasks"

definition has_discovered_task :: "Task list \<Rightarrow> bool" where
  "has_discovered_task tasks =
    list_ex (\<lambda>t. str_contains ''discovered'' (t_objective t) \<or> str_contains ''Discovered'' (t_objective t)) tasks"

definition discovery_message :: "ExecutorEnv \<Rightarrow> ident \<Rightarrow> Db \<Rightarrow> AgentMessage" where
  "discovery_message env workflow_id db =
    AgentMessage_new (fresh_id (map msg_id (db_messages db))) (ex_now env) (fresh_id (map a_id (db_agents db)))
      (fresh_id (map a_id (db_agents db)) + 1) workflow_id MessageType.Proposal
      (''Investigator finding: Discovered missing token validation boundary. '' @
       ''Ensure signature and expiration checks are strictly enforced.'')"

text \<open>A later cycle of a mission hands its backend on.\<close>

definition discovered_task :: "ExecutorEnv \<Rightarrow> Workflow \<Rightarrow> Db \<Rightarrow> Task" where
  "discovered_task env w db =
    (let t = Task_with_required_capabilities [''filesystem_write'', ''shell'', ''git'']
           ((Task_new (fresh_id (map row_id (db_tasks db))) (ex_now env) (w_id w)
             ''Implement discovered requirement: Token signature boundaries and expiry validation'')\<lparr>t_priority := 25\<rparr>);
         cycle = (case Option.bind (json_get ''cycle_index'' (w_metadata w)) json_u64 of Some n \<Rightarrow> n | None \<Rightarrow> 0);
         meta = json_insert ''suggested_role'' (JStr ''Developer'') (t_metadata t) in
     t\<lparr>t_metadata := (case json_get ''backend'' (w_metadata w) of
         Some b \<Rightarrow> if 0 < cycle then json_insert ''backend'' b meta else meta
       | None \<Rightarrow> meta)\<rparr>)"

definition discover :: "ExecutorEnv \<Rightarrow> Workflow \<Rightarrow> Task list \<Rightarrow> WorkflowExecutionSummary \<Rightarrow> Db \<Rightarrow> Db \<times> WorkflowExecutionSummary" where
  "discover env w tasks su db =
    (if investigator_done tasks \<and> \<not> has_discovered_task tasks
     then let db1 = fst (send_message (discovery_message env (w_id w) db) db); t = discovered_task env w db1 in
       case create_task t db1 of
         (db2, Err _) \<Rightarrow> (db2, su)
       | (db2, Ok _) \<Rightarrow>
           ((case tasks of [] \<Rightarrow> db2 | first # _ \<Rightarrow> fst (db_add_dependency (t_id t) (t_id first) db2)),
            su\<lparr>su_discovered_tasks_count := su_discovered_tasks_count su + 1\<rparr>)
     else (db, su))"

definition counted :: "Task list \<Rightarrow> WorkflowExecutionSummary \<Rightarrow> WorkflowExecutionSummary" where
  "counted tasks su =
    su\<lparr>su_completed_tasks_count := length (filter (\<lambda>t. t_state t = TaskState.Verified) tasks),
       su_failed_tasks_count := length (filter (\<lambda>t. t_state t = TaskState.Failed) tasks)\<rparr>"

definition summary_default :: WorkflowExecutionSummary where
  "summary_default =
    \<lparr>su_executed_tasks_count = 0, su_completed_tasks_count = 0, su_failed_tasks_count = 0,
     su_discovered_tasks_count = 0, su_active_executions = []\<rparr>"

text \<open>One round: the new count of empty ticks, or none when the loop ends.\<close>

definition cycle_round ::
  "ExecutorEnv \<Rightarrow> Workflow \<Rightarrow> nat \<Rightarrow> nat \<Rightarrow> WorkflowExecutionSummary \<Rightarrow> Db \<Rightarrow>
   Db \<times> WorkflowExecutionSummary \<times> nat option" where
  "cycle_round env w k empties su db =
    (if map_option w_state (get_workflow (w_id w) db) \<noteq> Some WorkflowState.Active then (db, su, None)
     else let tasks = list_tasks_by_workflow (w_id w) db in
       if list_ex (\<lambda>t. t_state t = TaskState.NeedsHuman) tasks then (db, su, None)
       else case discover env w tasks su db of (db1, su1) \<Rightarrow>
         if tasks \<noteq> [] \<and> list_all (\<lambda>t. TaskState_is_terminal (t_state t)) tasks then (db1, counted tasks su1, None)
         else (case tick (ex_sched env k) db1 of
             (db2, Ok n) \<Rightarrow>
               if 0 < n then (db2, su1\<lparr>su_executed_tasks_count := su_executed_tasks_count su1 + n\<rparr>, Some 0)
               else (db2, su1, if 12 < empties + 1 then None else Some (empties + 1))
           | (db2, Err _) \<Rightarrow> (db2, su1, if 12 < empties + 1 then None else Some (empties + 1))))"

text \<open>The loop, and whether it has ended in the rounds it was given.\<close>

fun cycle_loop ::
  "ExecutorEnv \<Rightarrow> Workflow \<Rightarrow> nat \<Rightarrow> nat \<Rightarrow> nat \<Rightarrow> WorkflowExecutionSummary \<Rightarrow> Db \<Rightarrow> Db \<times> WorkflowExecutionSummary \<times> bool" where
  "cycle_loop env w k 0 empties su db = (db, su, False)"
| "cycle_loop env w k (Suc fuel) empties su db =
    (case cycle_round env w k empties su db of
       (db1, su1, None) \<Rightarrow> (db1, su1, True)
     | (db1, su1, Some empties1) \<Rightarrow> cycle_loop env w (Suc k) fuel empties1 su1 db1)"

definition activate_workflow :: "ExecutorEnv \<Rightarrow> Workflow \<Rightarrow> Db \<Rightarrow> Db" where
  "activate_workflow env w db =
    (if w_state w = WorkflowState.Draft \<or> w_state w = WorkflowState.Paused
     then emit_event (ex_now env) ''workflow'' (w_id w) ''workflow.started''
       (fst (update_workflow (w\<lparr>w_state := (case WorkflowState_transition_to (w_state w) WorkflowState.Active of
          Ok s \<Rightarrow> s | Err _ \<Rightarrow> w_state w)\<rparr>) db))
     else db)"

definition workspace_path_of :: "Workflow \<Rightarrow> Db \<Rightarrow> string option" where
  "workspace_path_of w db = Option.bind (w_workspace_id w) (\<lambda>i. map_option ws_canonical_path (get_workspace i db))"

definition planned_if_empty :: "ExecutorEnv \<Rightarrow> Workflow \<Rightarrow> (Db, unit, RuntimeError) op" where
  "planned_if_empty env w db =
    (if list_tasks_by_workflow (w_id w) db = []
     then (case plan_workflow_objective env w db of
         (db1, Ok _) \<Rightarrow> (db1, Ok ())
       | (db1, Err e) \<Rightarrow> (db1, Err (Execution (''Failed to plan workflow: '' @ e))))
     else (db, Ok ()))"

definition execute_workflow_cycle ::
  "ExecutorEnv \<Rightarrow> nat \<Rightarrow> ident \<Rightarrow> ident \<Rightarrow> (Db, WorkflowExecutionSummary \<times> bool, RuntimeError) op" where
  "execute_workflow_cycle env fuel workflow_id mission_id db =
    (case get_workflow workflow_id db of
       None \<Rightarrow> (db, Err (RuntimeError.NotFound (''Workflow '' @ decimal workflow_id @ '' not found'')))
     | Some w \<Rightarrow>
         st_then (planned_if_empty env w) (\<lambda>_ db1.
           let db2 = activate_workflow env w (fst (ensure_default_agents env (workspace_path_of w db1) db1)) in
           case cycle_loop env w 0 fuel 0 summary_default db2 of
             (db3, su, ended) \<Rightarrow>
               (db3, Ok (if ended then counted (list_tasks_by_workflow workflow_id db3) su else su, ended))) db)"

end
