(* ===== verification/Executor_Properties.thy ===== *)
theory Executor_Properties
  imports Workflow_Executor Runner_Properties Planner_Properties Mission_Properties "HOL-Library.Multiset"
begin

text \<open>The properties of the workflow executor: the composition of planner, store, scheduler and
runner leaves the missions alone, so the loop of a mission that runs it ends; a cycle that goes on executes tasks; and what a freshly planned workflow
holds.\<close>

section \<open>The store through a cycle\<close>

text \<open>Each round runs the scheduler with the agent runner, in an environment whose other threads
respect the store.\<close>

definition fair_executor :: "ExecutorEnv \<Rightarrow> bool" where
  "fair_executor env = (\<forall>k. \<exists>now envs. ex_sched env k = runner_sched now envs \<and> fair_worlds envs)"

lemma history_tick:
  assumes "fair_executor env"
  shows "steps db (fst (tick (ex_sched env k) db))"
  using assms history_workflows unfolding fair_executor_def tick_def by metis

lemma frame_decompose: "mission_frame db (fst (decompose_task_transactional now p cs cds ts db))"
proof -
  have row: "moves mission_frame (insert_task_row t)" for t
    by (simp add: moves_def insert_task_row_def frame_same)
  have add: "moves mission_frame (db_add_dependency i j)" for i j
    by (simp add: moves_def db_add_dependency_def frame_same)
  have deps: "moves mission_frame (insert_deps es)" for es
    unfolding insert_deps_def by (rule moves_for_each [OF frame_order]) (auto simp: add)
  have rem: "moves mission_frame (db_remove_dependency i j)" for i j
    by (simp add: moves_def db_remove_dependency_def frame_same)
  have rew: "moves mission_frame (rewire_downstream p ts d)" for d
    unfolding rewire_downstream_def by (intro moves_then frame_order rem deps)
  have dis: "moves mission_frame (discard_parent now p)"
    by (simp add: moves_def discard_parent_def frame_same)
  have "moves mission_frame (st_then (for_each (\<lambda>c. insert_task_row (c\<lparr>t_parent_id := Some p\<rparr>)) cs)
      (\<lambda>_. st_then (insert_deps cds) (\<lambda>_. st_then (insert_deps es)
      (\<lambda>_. st_then (for_each (rewire_downstream p ts) ds) (\<lambda>_. discard_parent now p)))))" for es ds
    by (intro moves_then moves_for_each frame_order row deps rew dis)
  then show ?thesis
    by (auto simp: decompose_task_transactional_def Let_def moves_def intro!: frame_transaction)
qed

lemma frame_workflow: "mission_frame db (fst (update_workflow w db))"
proof -
  have "w_id ` set (tbl_modify w_id k f rows) = w_id ` set rows" if "\<And>r. w_id (f r) = w_id r" for k f and rows :: "Workflow list"
    using that by (induction rows) (auto simp: tbl_modify_def)
  then show ?thesis by (simp add: mission_frame_def update_workflow_def)
qed

lemma history_planning [history]:
  "steps db (fst (create_task t db))" "steps db (fst (db_add_dependency i j db))" "steps db (fst (save_plan_record r db))"
  "steps db (fst (create_agent a db))" "steps db (fst (update_session s db))" "steps db (fst (update_workflow w db))"
  "steps db (fst (decompose_task_transactional now parent cs cds ts db))"
  by (rule steps_one, rule db_step.intros, rule frame_workflow | rule steps_one, rule db_step.intros, rule frame_decompose |
    rule steps_one, rule db_step.intros, rule frame_same;
    simp add: create_task_def insert_task_row_def db_add_dependency_def save_plan_record_def create_agent_def update_session_def)+

lemma history_pl_store [history]: "steps db (fst (m db)) \<Longrightarrow> steps db (fst (pl_store m db))"
  by (cases "m db") (simp add: pl_store_def)

lemma history_for_each [history]:
  assumes "\<And>x db. steps db (fst (f x db))"
  shows "steps db (fst (for_each f xs db))"
proof (induction xs arbitrary: db)
  case (Cons x xs)
  show ?case unfolding for_each.simps(2) by (intro history assms Cons.IH)
qed simp

lemma steps_fold:
  assumes "\<And>x db. steps db (f x db)"
  shows "steps db (fold f xs db)"
  by (induction xs arbitrary: db) (auto intro: assms rtranclp_trans)

lemma history_apply_plan: "steps db (fst (apply_plan now ord ctx p tm db))"
  unfolding apply_plan_def reject_plan_def store_plan_def Let_def by (intro history)

lemma history_plan_objective: "steps db (fst (plan_workflow_objective env w db))"
  unfolding plan_workflow_objective_def isolate_task_def Let_def by (intro history history_apply_plan)

lemma history_agents: "steps db (fst (ensure_default_agents env path db))"
proof -
  have "steps db (move_session dir s db)" for dir s db
    unfolding move_session_def using history_planning(5) by auto
  then have "steps db (move_sessions dir a db)" for dir a db
    unfolding move_sessions_def by (rule steps_fold)
  then have moved: "steps db (fold (move_sessions dir) as db)" for dir as db by (rule steps_fold)
  have "steps db (fst (create_default_agent now dir d db))" for now dir d db
    unfolding create_default_agent_def Let_def by (intro history)
  then have "steps db (fst (for_each (create_default_agent now dir) ds db))" for now dir ds
    by (rule history_for_each)
  then show ?thesis
    unfolding ensure_default_agents_def Let_def
    by (intro store_history.history_op store_history.history_result store_history.history_pair) (auto split: option.split intro: moved)
qed

lemma history_discover: "steps db (fst (discover env w tasks su db))"
proof -
  let ?linked = "\<lambda>t d. case create_task t d of (d2, Err _) \<Rightarrow> (d2, su)
     | (d2, Ok _) \<Rightarrow> ((case tasks of [] \<Rightarrow> d2 | first # _ \<Rightarrow> fst (db_add_dependency (t_id t) (t_id first) d2)),
         su\<lparr>su_discovered_tasks_count := su_discovered_tasks_count su + 1\<rparr>)"
  have "steps d (fst (?linked t d))" for t d
    by (intro store_history.history_op store_history.history_result store_history.history_pair history_planning)
      (auto split: list.split intro: history_planning)
  note linked = this
  have sent: "steps db (fst (send_message m db))" for m by (intro history)
  show ?thesis
    unfolding discover_def Let_def
    by (intro store_history.history_if store_history.history_pair rtranclp.rtrancl_refl rtranclp_trans [OF sent linked])
qed

lemma history_round:
  assumes "fair_executor env"
  shows "steps db (fst (cycle_round env w k empties su db))"
proof -
  obtain db1 su1 where d: "discover env w (list_tasks_by_workflow (w_id w) db) su db = (db1, su1)" by fastforce
  obtain db2 r where t: "tick (ex_sched env k) db1 = (db2, r)" by fastforce
  have "steps db db1" "steps db1 db2"
    using history_discover [of db env w "list_tasks_by_workflow (w_id w) db" su] history_tick [OF assms, of db1 k] d t by simp_all
  then show ?thesis
    unfolding cycle_round_def Let_def d by (auto simp: t split: result.split)
qed

lemma history_loop:
  assumes "fair_executor env"
  shows "steps db (fst (cycle_loop env w k fuel empties su db))"
proof (induction fuel arbitrary: k empties su db)
  case (Suc fuel)
  obtain db1 su1 e where r: "cycle_round env w k empties su db = (db1, su1, e)" by (rule prod_cases3)
  have "steps db db1" using history_round [OF assms, of db w k empties su] r by simp
  then show ?case using Suc.IH by (auto simp: r split: option.split intro: rtranclp_trans)
qed simp

lemma history_activate: "steps db (activate_workflow env w db)"
  unfolding activate_workflow_def using history_planning(6) by (auto intro: store_history.history_emit)

lemma history_cycle:
  assumes "fair_executor env"
  shows "steps db (fst (execute_workflow_cycle env fuel i m db))"
proof -
  have "steps db (fst (planned_if_empty env w db))" for w
    using history_plan_objective [of db env w] unfolding planned_if_empty_def by (auto split: prod.split result.split)
  moreover have "steps d (fst (let d2 = activate_workflow env w (fst (ensure_default_agents env p d)) in
      case cycle_loop env w 0 fuel 0 summary_default d2 of
        (d3, su, ended) \<Rightarrow> (d3, Ok (if ended then counted (list_tasks_by_workflow i d3) su else su, ended))))" for w p d
  proof -
    let ?d2 = "activate_workflow env w (fst (ensure_default_agents env p d))"
    obtain d3 su ended where l: "cycle_loop env w 0 fuel 0 summary_default ?d2 = (d3, su, ended)" by (rule prod_cases3)
    have "steps d ?d2" using history_agents history_activate by (rule rtranclp_trans)
    also have "steps ?d2 d3" using history_loop [OF assms, of ?d2 w 0 fuel 0 summary_default] l by simp
    finally show ?thesis by (simp add: l)
  qed
  ultimately show ?thesis
    unfolding execute_workflow_cycle_def by (intro store_history.history_option store_history.history_then) simp_all
qed

section \<open>A mission that runs this executor\<close>

text \<open>The executor of the mission engine is the cycle of the workflow executor, with fuel for its
rounds. It leaves the tables of the missions alone.\<close>

definition cycle_executor :: "ExecutorEnv \<Rightarrow> nat \<Rightarrow> executor" where
  "cycle_executor env fuel w i db =
    (case execute_workflow_cycle env fuel w i db of (db', r) \<Rightarrow> (db', and_then r (\<lambda>(su, ended). Ok su)))"

definition runs_cycles :: "MissionEnv \<Rightarrow> bool" where
  "runs_cycles env = (\<exists>xenv fuel. fair_executor xenv \<and> env_executor env = Some (cycle_executor xenv fuel))"

lemma runs_cycles_frame: "runs_cycles env \<Longrightarrow> exec_frame env"
  using steps_frame [OF history_cycle] by (auto simp: runs_cycles_def exec_frame_def cycle_executor_def split: prod.split) (metis fst_conv)

text \<open>C13: the background loop of a running mission ends: after as many rounds as its stagnation
limit leaves, and after one in any case, it has stopped, whatever the checks answer in each round
and whatever its executor does, which is the workflow executor or any other that leaves the
missions alone.\<close>

theorem auto_step_terminates:
  assumes "engine_ok s" "\<forall>env \<in> set envs. runs_cycles env \<or> exec_frame env" "get_mission i (en_store s) = Some m"
    "unat (max_stagnant_cycles (m_budget m)) \<le> length envs + unat (stagnant_cycles (m_budget_consumed m))" "envs \<noteq> []"
  shows "\<exists>s'. auto_step envs i s = Some s'"
  using auto_step_ends [OF assms(1) _ assms(5), of i] assms(2-4) runs_cycles_frame by auto

section \<open>The rounds of a cycle\<close>

lemma discover_executed: "discover env w tasks su db = (db1, su1) \<Longrightarrow> su_executed_tasks_count su1 = su_executed_tasks_count su"
  by (auto simp: discover_def Let_def split: if_splits prod.splits result.splits)

lemma round_progress:
  assumes "cycle_round env w k empties su db = (db1, su1, Some e)"
  shows "(e = 0 \<and> su_executed_tasks_count su < su_executed_tasks_count su1) \<or>
    (e = empties + 1 \<and> e \<le> 12 \<and> su_executed_tasks_count su1 = su_executed_tasks_count su)"
proof -
  obtain d su0 where d: "discover env w (list_tasks_by_workflow (w_id w) db) su db = (d, su0)" by fastforce
  obtain d2 r where t: "tick (ex_sched env k) d = (d2, r)" by fastforce
  show ?thesis
    using assms discover_executed [OF d] unfolding cycle_round_def Let_def d
    by (cases r) (auto simp: t split: if_splits)
qed

lemma round_executed:
  "cycle_round env w k empties su db = (db1, su1, None) \<Longrightarrow> su_executed_tasks_count su \<le> su_executed_tasks_count su1"
  by (auto simp: cycle_round_def Let_def counted_def dest!: discover_executed split: if_splits prod.splits result.splits)

lemma loop_progress:
  assumes "cycle_loop env w k fuel empties su db = (db', su', False)" "empties \<le> 12"
  shows "su_executed_tasks_count su \<le> su_executed_tasks_count su' \<and>
    fuel + empties \<le> 13 * (su_executed_tasks_count su' - su_executed_tasks_count su) + 12"
  using assms
proof (induction fuel arbitrary: k empties su db)
  case (Suc fuel)
  obtain db1 su1 e where r: "cycle_round env w k empties su db = (db1, su1, Some e)"
    and l: "cycle_loop env w (Suc k) fuel e su1 db1 = (db', su', False)"
    using Suc.prems(1) by (auto split: prod.splits option.splits)
  have "e \<le> 12" using round_progress [OF r] by auto
  from Suc.IH [OF l this] show ?case using round_progress [OF r] Suc.prems(2) by auto
qed simp

text \<open>C28: A cycle that has not ended has executed a task at least every thirteen rounds: without
work it ends after the thirteenth empty tick, so a stuck workflow returns to the engine.\<close>

theorem cycle_ends:
  assumes "execute_workflow_cycle env fuel workflow_id mission_id db = (db', Ok (su, ended))"
    "13 * su_executed_tasks_count su + 12 < fuel"
  shows "ended"
proof (rule ccontr)
  assume running: "\<not> ended"
  obtain w d1 where w: "(let d2 = activate_workflow env w (fst (ensure_default_agents env (workspace_path_of w d1) d1)) in
      case cycle_loop env w 0 fuel 0 summary_default d2 of
        (d3, su, ended) \<Rightarrow> (d3, Ok (if ended then counted (list_tasks_by_workflow workflow_id d3) su else su, ended))) =
      (db', Ok (su, ended) :: (WorkflowExecutionSummary \<times> bool, RuntimeError) result)"
    using assms(1) by (auto simp: execute_workflow_cycle_def st_then_Ok split: option.splits)
  let ?d2 = "activate_workflow env w (fst (ensure_default_agents env (workspace_path_of w d1) d1))"
  obtain d3 su0 e where l: "cycle_loop env w 0 fuel 0 summary_default ?d2 = (d3, su0, e)" by (rule prod_cases3)
  then have "cycle_loop env w 0 fuel 0 summary_default ?d2 = (db', su, False)" using w running by (auto simp: Let_def)
  then show False using loop_progress [of env w 0 fuel 0 summary_default ?d2 db' su] assms(2) by (simp add: summary_default_def)
qed

section \<open>The tasks of a planned workflow\<close>

definition isolated :: "Workflow \<Rightarrow> Task \<Rightarrow> Task" where
  "isolated w t = t\<lparr>t_metadata := json_insert ''backend'' (if implementing t then workflow_backend w else JStr ''scripted'')
     (json_insert ''worktree_isolation'' (JBool True) (t_metadata t))\<rparr>"

definition isolated_row :: "Workflow \<Rightarrow> TaskRow \<Rightarrow> TaskRow" where
  "isolated_row w r = r\<lparr>r_task := isolated w (r_task r)\<rparr>"

definition plain_row :: "TaskRow \<Rightarrow> bool" where
  "plain_row r = (t_parent_id (r_task r) = None \<and> (\<exists>kvs. t_metadata (r_task r) = JObj kvs))"

lemma isolated_task_plain: "t_metadata t = JObj kvs \<Longrightarrow> isolated_task w t = Ok (isolated w t)"
  by (simp add: isolated_task_def task_puts_def meta_put_def isolated_def json_insert_def)

lemma isolated_fields [simp]:
  "t_id (isolated w t) = t_id t" "t_workflow_id (isolated w t) = t_workflow_id t" "t_parent_id (isolated w t) = t_parent_id t"
  "t_created_at (isolated w t) = t_created_at t" "t_criteria (isolated w t) = t_criteria t"
  by (simp_all add: isolated_def)

lemma isolated_keeps [simp]: "r_task (isolated_row w r) = isolated w (r_task r)" "row_id (isolated_row w r) = row_id r"
  by (simp_all add: isolated_row_def)

lemma isolate_task_rows:
  assumes "distinct (map row_id (db_tasks db))" "\<And>r. r \<in> set (db_tasks db) \<Longrightarrow> row_id r = i \<Longrightarrow> plain_row r"
    "isolate_task w i db = (db', Ok ())"
  shows "db_tasks db' = map (\<lambda>r. if row_id r = i then isolated_row w r else r) (db_tasks db)"
proof (cases "tbl_get row_id i (db_tasks db)")
  case None
  then have "\<And>r. r \<in> set (db_tasks db) \<Longrightarrow> row_id r \<noteq> i" by (auto simp: tbl_get_None tbl_has_def)
  then show ?thesis using None assms(3) by (auto simp: isolate_task_def db_get_task_def intro!: map_idI [symmetric])
next
  case (Some r)
  have r: "r \<in> set (db_tasks db)" "row_id r = i" using tbl_get_key [OF Some] by simp_all
  have eq: "q = r" if "q \<in> set (db_tasks db)" "row_id q = i" for q
    using that r assms(1) by (auto simp: distinct_map dest: inj_onD)
  obtain kvs where kvs: "t_metadata (r_task r) = JObj kvs" "t_parent_id (r_task r) = None"
    using assms(2) [OF r] by (auto simp: plain_row_def)
  have "tbl_has row_id i (db_tasks db)" using r by (auto simp: tbl_has_def)
  then have "db_tasks db' = tbl_modify row_id i (\<lambda>q. q\<lparr>r_task := (isolated w (r_task r))\<lparr>
      t_workflow_id := t_workflow_id (r_task q), t_created_at := t_created_at (r_task q)\<rparr>\<rparr>) (db_tasks db)"
    using Some assms(3) kvs r(2)
    by (auto simp: isolate_task_def db_get_task_def isolated_task_plain update_task_def)
  also have "\<dots> = map (\<lambda>q. if row_id q = i then isolated_row w q else q) (db_tasks db)"
    unfolding tbl_modify_def by (rule map_cong [OF refl]) (auto dest!: eq simp: isolated_row_def isolated_def)
  finally show ?thesis .
qed

lemma isolate_tasks_rows:
  assumes "for_each (isolate_task w) is db = (db', Ok ())" "distinct (map row_id (db_tasks db))" "distinct is"
    "\<And>r. r \<in> set (db_tasks db) \<Longrightarrow> row_id r \<in> set is \<Longrightarrow> plain_row r"
  shows "db_tasks db' = map (\<lambda>r. if row_id r \<in> set is then isolated_row w r else r) (db_tasks db)"
  using assms
proof (induction "is" arbitrary: db)
  case (Cons i "is")
  obtain db1 where 1: "isolate_task w i db = (db1, Ok ())" and 2: "for_each (isolate_task w) is db1 = (db', Ok ())"
    using Cons.prems(1) by (auto simp: for_each_Cons_Ok)
  have rows: "db_tasks db1 = map (\<lambda>r. if row_id r = i then isolated_row w r else r) (db_tasks db)"
    using isolate_task_rows [OF Cons.prems(2) _ 1] Cons.prems(4) by auto
  have ids: "map row_id (db_tasks db1) = map row_id (db_tasks db)" by (simp add: rows)
  have plain: "plain_row r" if "r \<in> set (db_tasks db1)" "row_id r \<in> set is" for r
  proof -
    have "r \<in> set (db_tasks db)" using that Cons.prems(3) by (auto simp: rows split: if_splits)
    then show ?thesis using that(2) Cons.prems(4) by simp
  qed
  have "db_tasks db' = map (\<lambda>r. if row_id r \<in> set is then isolated_row w r else r) (db_tasks db1)"
    using Cons.IH [OF 2 _ _ plain] Cons.prems(2,3) ids by simp
  then show ?case using Cons.prems(3) by (auto simp: rows)
qed simp

lemma objective_multi:
  "pp_tasks (decomposer_proposal (objective_context w)) = multi_agent_tasks (w_objective w)"
  "pp_dependencies (decomposer_proposal (objective_context w)) = multi_agent_deps"
  "pc_parent_task_id (objective_context w) = None" "pc_workflow_id (objective_context w) = w_id w"
  by (simp_all add: decomposer_proposal_def is_multi_agent_def objective_context_def PlanningContext_new_def)

lemma multi_ids:
  assumes "pp_tasks p = multi_agent_tasks g"
  shows "plan_id_map b p = [(''task-1'', b), (''task-2'', b + 1), (''task-3'', b + 2), (''task-4'', b + 3), (''task-5'', b + 4)]"
  by (simp add: plan_id_map_def numbered_def assms multi_agent_tasks_def phase_def)

lemma planned_task_fields:
  "t_metadata (root_task now es t) = t_metadata t" "t_parent_id (root_task now es t) = t_parent_id t"
  "pc_parent_task_id ctx = None \<Longrightarrow> t_parent_id (plan_task now ctx i pt) = None"
  "t_metadata (plan_task now ctx i pt) =
    JObj (if pt_required_capabilities pt = [] then [] else [(''required_capabilities'', JArr (map JStr (pt_required_capabilities pt)))])"
  by (auto simp: root_task_def Task_transition_to_def plan_task_def Task_new_def Let_def Task_with_required_capabilities_def
      json_insert_def split: option.split result.split)

lemma planned_meta:
  defines "q \<equiv> \<lambda>now es ctx i pt. root_task now es (plan_task now ctx i pt)"
  shows "json_get ''suggested_role'' (t_metadata (isolated w (q now es ctx i pt))) = None"
    "json_get ''worktree_isolation'' (t_metadata (isolated w (q now es ctx i pt))) = Some (JBool True)"
    "json_get ''backend'' (t_metadata (isolated w (q now es ctx i pt))) =
      Some (if list_ex (str_contains ''impl'') (pt_criteria pt) then workflow_backend w else JStr ''scripted'')"
  by (simp_all add: q_def isolated_def json_get_def json_insert_def planned_task_fields implementing_def meta_get_str_def
      root_task_fields plan_task_fields)

lemma objective_planned_rows:
  assumes "hash_order (ex_order env)" "distinct (map row_id (db_tasks db))" "plan_workflow_objective env w db = (db', Ok p)"
  shows "list_tasks_by_workflow (w_id w) db = [] \<and> p = decomposer_proposal (objective_context w) \<and>
    (\<exists>es b. db_tasks db' = db_tasks db @ map (\<lambda>t. isolated_row w \<lparr>r_task = root_task (ex_now env) es t, r_generation = 0\<rparr>)
      (plan_tasks (ex_now env) (objective_context w) b p))"
proof -
  let ?ctx = "objective_context w" and ?p = "decomposer_proposal (objective_context w)" and ?now = "ex_now env"
  let ?base = "fresh_id (map row_id (db_tasks db))"
  have none: "list_tasks_by_workflow (w_id w) db = []"
    using assms(3) by (auto simp: plan_workflow_objective_def split: if_splits)
  obtain db1 res db2 where ap: "apply_plan ?now (ex_order env) ?ctx ?p decomposer_telemetry db = (db1, Ok res)"
    and iso: "for_each (isolate_task w) (map snd (pa_created_tasks res)) db1 = (db2, Ok ())"
    and db': "db' = emit_event ?now ''workflow'' (w_id w) ''workflow.planned'' db2" and p: "p = ?p"
    using assms(3) none
    by (auto simp: plan_workflow_objective_def decomposer_plan_def Let_def st_then_Ok split: option.splits if_splits prod.splits)
  let ?es = "child_deps (pa_created_tasks res) ?p"
  let ?row = "\<lambda>t. \<lparr>r_task = root_task ?now ?es t, r_generation = 0\<rparr>"
  have ids: "pa_created_tasks res = plan_id_map ?base ?p" and rows: "db_tasks db1 = db_tasks db @ map ?row (plan_tasks ?now ?ctx ?base ?p)"
    using apply_root_Ok [OF ap objective_multi(3)] by auto
  have new: "map snd (pa_created_tasks res) = [?base..<?base + 5]"
    by (simp add: ids multi_ids [OF objective_multi(1)] upt_rec)
  have five: "length (pp_tasks ?p) = 5" by (simp add: objective_multi multi_agent_tasks_def)
  have old: "row_id r < ?base" if "r \<in> set (db_tasks db)" for r using that by (simp add: fresh_id_above)
  have rid: "map row_id (map ?row (plan_tasks ?now ?ctx ?base ?p)) = [?base..<?base + 5]" using row_ids_new five by metis
  have dist: "distinct (map row_id (db_tasks db1))"
    unfolding rows map_append rid using assms(2) old by (fastforce simp del: upt_Suc)
  have plain: "plain_row r" if "r \<in> set (db_tasks db1)" "row_id r \<in> set (map snd (pa_created_tasks res))" for r
  proof -
    have "r \<notin> set (db_tasks db)" using that(2) old unfolding new by fastforce
    then show ?thesis using that(1)
      by (auto simp: rows plain_row_def planned_task_fields plan_tasks_def objective_multi(3))
  qed
  have "distinct (map snd (pa_created_tasks res))" unfolding new by simp
  from isolate_tasks_rows [OF iso dist this plain]
  have "db_tasks db2 = map (\<lambda>r. if row_id r \<in> {?base..<?base + 5} then isolated_row w r else r) (db_tasks db1)"
    unfolding new by simp
  also have "\<dots> = db_tasks db @ map (\<lambda>t. isolated_row w (?row t)) (plan_tasks ?now ?ctx ?base ?p)"
  proof -
    let ?f = "\<lambda>r. if row_id r \<in> {?base..<?base + 5} then isolated_row w r else r"
    have "map ?f (db_tasks db) = db_tasks db" by (rule map_idI) (use old in fastforce)
    moreover have "?f (?row t) = isolated_row w (?row t)" if "t \<in> set (plan_tasks ?now ?ctx ?base ?p)" for t
    proof -
      have "row_id (?row t) \<in> set (map row_id (map ?row (plan_tasks ?now ?ctx ?base ?p)))" using that by force
      then show ?thesis unfolding rid by simp
    qed
    then have "map ?f (map ?row (plan_tasks ?now ?ctx ?base ?p)) = map (\<lambda>t. isolated_row w (?row t)) (plan_tasks ?now ?ctx ?base ?p)"
      unfolding map_map by (intro map_cong) auto
    ultimately show ?thesis unfolding rows map_append by simp
  qed
  finally show ?thesis using none p by (auto simp: db' emit_event_def append_event_def)
qed

text \<open>C29: A workflow is planned only when it has no tasks. It then has the five tasks of the
decomposer, each in a worktree of its own; those that implement go to the backend of the
workflow and the others to the scripted provider. The roles the plan suggests reach none of
them, so no task of a planned workflow counts as an investigation whose end triggers the
discovery of further tasks.\<close>

theorem objective_planned:
  assumes "hash_order (ex_order env)" "distinct (map row_id (db_tasks db))" "plan_workflow_objective env w db = (db', Ok p)"
  shows "list_tasks_by_workflow (w_id w) db = [] \<and> p = decomposer_proposal (objective_context w) \<and>
    mset (map t_objective (list_tasks_by_workflow (w_id w) db')) = mset (map pt_objective (pp_tasks p)) \<and>
    (\<forall>t \<in> set (list_tasks_by_workflow (w_id w) db').
       json_get ''worktree_isolation'' (t_metadata t) = Some (JBool True) \<and>
       json_get ''backend'' (t_metadata t) =
         Some (if list_ex (str_contains ''impl'') (t_criteria t) then workflow_backend w else JStr ''scripted'') \<and>
       json_get ''suggested_role'' (t_metadata t) = None) \<and>
    \<not> investigator_done (list_tasks_by_workflow (w_id w) db')"
proof -
  let ?ctx = "objective_context w" and ?now = "ex_now env"
  obtain es b where none: "list_tasks_by_workflow (w_id w) db = []" and p: "p = decomposer_proposal ?ctx"
    and rows: "db_tasks db' = db_tasks db @ map (\<lambda>t. isolated_row w \<lparr>r_task = root_task ?now es t, r_generation = 0\<rparr>)
      (plan_tasks ?now ?ctx b p)"
    using objective_planned_rows [OF assms] by blast
  let ?new = "map (\<lambda>t. isolated w (root_task ?now es t)) (plan_tasks ?now ?ctx b p)"
  have old: "filter (\<lambda>t. t_workflow_id t = w_id w) (map r_task (db_tasks db)) = []"
    using none by (simp add: list_tasks_by_workflow_def) (metis length_0_conv length_sort list.size(3))
  have "filter (\<lambda>t. t_workflow_id t = w_id w) ?new = ?new"
    by (rule filter_True) (auto simp: plan_tasks_def root_task_fields plan_task_fields objective_multi)
  then have tasks: "list_tasks_by_workflow (w_id w) db' = sort_key (\<lambda>t. (- t_priority t, t_created_at t)) ?new"
    using old by (simp add: list_tasks_by_workflow_def rows o_def)
  have meta: "\<exists>i pt. pt \<in> set (pp_tasks p) \<and> t = isolated w (root_task ?now es (plan_task ?now ?ctx i pt)) \<and> t_criteria t = pt_criteria pt"
    if t: "t \<in> set (list_tasks_by_workflow (w_id w) db')" for t
  proof -
    obtain i pt where "(i, pt) \<in> set (numbered b p)" "t = isolated w (root_task ?now es (plan_task ?now ?ctx i pt))"
      using t unfolding tasks by (auto simp: plan_tasks_def)
    then show ?thesis
      by (intro exI [of _ i] exI [of _ pt]) (auto simp: numbered_def enumerate_eq_zip root_task_fields plan_task_fields dest: set_zip_rightD)
  qed
  have "map t_objective ?new = map pt_objective (pp_tasks p)"
    by (rule nth_equalityI)
      (simp_all add: plan_tasks_def numbered_def split_def root_task_fields plan_task_fields isolated_def enumerate_eq_zip)
  then have "mset (map t_objective (list_tasks_by_workflow (w_id w) db')) = mset (map pt_objective (pp_tasks p))"
    unfolding tasks mset_map mset_sort by (metis mset_map)
  moreover have each: "json_get ''worktree_isolation'' (t_metadata t) = Some (JBool True) \<and>
       json_get ''backend'' (t_metadata t) =
         Some (if list_ex (str_contains ''impl'') (t_criteria t) then workflow_backend w else JStr ''scripted'') \<and>
       json_get ''suggested_role'' (t_metadata t) = None" if "t \<in> set (list_tasks_by_workflow (w_id w) db')" for t
    using meta [OF that] planned_meta by metis
  moreover have "\<not> investigator_done (list_tasks_by_workflow (w_id w) db')"
    using each by (auto simp: investigator_done_def list_ex_iff meta_get_str_def)
  ultimately show ?thesis using none p by blast
qed

section \<open>A discovery that comes last\<close>

text \<open>When the investigation is the last task to end, the round that adds the discovered task
still counts the tasks it read before: the cycle ends, and the new task stays in the backlog.\<close>

theorem discovery_left_behind:
  assumes "map_option w_state (get_workflow (w_id w) db) = Some WorkflowState.Active"
    "tasks = list_tasks_by_workflow (w_id w) db" "investigator_done tasks" "\<not> has_discovered_task tasks"
    "list_all (\<lambda>t. TaskState_is_terminal (t_state t)) tasks" "cycle_round env w k empties su db = (db', su', e)"
    "su_discovered_tasks_count su' \<noteq> su_discovered_tasks_count su"
  shows "e = None \<and> (\<exists>t. \<not> tbl_has row_id (t_id t) (db_tasks db) \<and> db_get_task (t_id t) db' = Some t \<and> t_state t = TaskState.Backlog)"
proof -
  have busy: "tasks \<noteq> []" "\<not> list_ex (\<lambda>t. t_state t = TaskState.NeedsHuman) tasks"
    using assms(3,5) by (auto simp: investigator_done_def list_ex_iff list_all_iff TaskState_is_terminal_def)
  obtain d su0 where d: "discover env w tasks su db = (d, su0)" by fastforce
  have r: "db' = d" "su' = counted tasks su0" "e = None"
    using assms(1,5,6) busy d unfolding cycle_round_def Let_def assms(2)[symmetric] by auto
  let ?db1 = "fst (send_message (discovery_message env (w_id w) db) db)"
  let ?t = "discovered_task env w ?db1"
  obtain d2 where c: "create_task ?t ?db1 = (d2, Ok ())" and link: "db_tasks d = db_tasks d2"
    using d assms(3,4,7) r(2)
    by (auto simp: discover_def Let_def counted_def db_add_dependency_def split: prod.splits result.splits list.splits if_splits)
  have same: "db_tasks ?db1 = db_tasks db" by (simp add: send_message_def)
  have new: "\<not> tbl_has row_id (t_id ?t) (db_tasks db)" and rows: "db_tasks d2 = db_tasks db @ [\<lparr>r_task = ?t, r_generation = 0\<rparr>]"
    using c same by (auto simp: create_task_def insert_task_row_def split: if_splits)
  have "t_state ?t = TaskState.Backlog"
    by (simp add: discovered_task_def Let_def Task_with_required_capabilities_def Task_new_def)
  then show ?thesis
    using r new by (intro conjI exI [of _ ?t]) (simp_all add: db_get_task_def link rows tbl_get_fresh)
qed

section \<open>A workflow that is stuck\<close>

definition still_env :: ExecutorEnv where
  "still_env = \<lparr>ex_now = 100, ex_order = (\<lambda>xs. xs), ex_temp_dir = ''/tmp'', ex_debug = (\<lambda>es. []),
     ex_sched = (\<lambda>k. runner_sched 100 (\<lambda>c. run_env))\<rparr>"

definition running_task :: Task where
  "running_task = (Task_new 2 0 7 ''t'')\<lparr>t_state := TaskState.Running\<rparr>"

definition stuck_db :: Db where
  "stuck_db = fst (create_task running_task
     (fst (create_workflow (Workflow_set_state 0 WorkflowState.Active (Workflow_new 7 0 ''w'' ''o'')) db_empty)))"

definition cycling_env :: MissionEnv where
  "cycling_env = Mission_Properties.demo_env\<lparr>env_executor := Some (cycle_executor still_env 20)\<rparr>"

theorem auto_step_terminates_witness: "\<exists>s'. auto_step (replicate 3 cycling_env) 1 running = Some s'"
proof -
  obtain m where d: "db_missions (en_store running) = [m]" and m: "get_mission 1 (en_store running) = Some m"
    by (rule one_row [OF mission_demo_rows(1)])
  have "map (\<lambda>m. max_stagnant_cycles (m_budget m) = 3 \<and> stagnant_cycles (m_budget_consumed m) = 0)
      (db_missions (en_store running)) = [True]" by code_simp
  then have b: "max_stagnant_cycles (m_budget m) = 3 \<and> stagnant_cycles (m_budget_consumed m) = 0"
    by (simp add: d)
  have "fair_executor still_env" by (auto simp: fair_executor_def still_env_def fair_worlds_def run_env_def intro!: exI [of _ 100])
  then have f: "\<forall>env \<in> set (replicate 3 cycling_env). runs_cycles env \<or> exec_frame env"
    by (auto simp: runs_cycles_def cycling_env_def)
  show ?thesis
    by (rule auto_step_terminates [OF _ f m]) (use b running_ok in \<open>simp_all add: engine_ok_def\<close>)
qed

lemma stuck_runs: "(case snd (execute_workflow_cycle still_env 20 7 1 stuck_db) of
    Ok (su, e) \<Rightarrow> su_executed_tasks_count su = 0 | Err x \<Rightarrow> False)"
  by code_simp

theorem cycle_ends_witness:
  "\<exists>su. snd (execute_workflow_cycle still_env 20 7 1 stuck_db) = Ok (su, True)"
proof -
  obtain db' su e where run: "execute_workflow_cycle still_env 20 7 1 stuck_db = (db', Ok (su, e))"
    and n: "su_executed_tasks_count su = 0"
    using stuck_runs by (cases "execute_workflow_cycle still_env 20 7 1 stuck_db") (auto split: result.splits)
  have "e" using cycle_ends [OF run] n by simp
  then show ?thesis using run by simp
qed

lemma objective_runs: "is_ok (snd (plan_workflow_objective still_env (Workflow_new 7 0 ''w'' ''o'') plan_db))"
  "db_tasks plan_db = []"
  by code_simp+

theorem objective_planned_witness:
  "length (list_tasks_by_workflow 7 (fst (plan_workflow_objective still_env (Workflow_new 7 0 ''w'' ''o'') plan_db))) = 5"
proof -
  obtain db' p where run: "plan_workflow_objective still_env (Workflow_new 7 0 ''w'' ''o'') plan_db = (db', Ok p)"
    using objective_runs(1) by (cases "plan_workflow_objective still_env (Workflow_new 7 0 ''w'' ''o'') plan_db"; cases "snd (plan_workflow_objective still_env (Workflow_new 7 0 ''w'' ''o'') plan_db)") auto
  have "hash_order (ex_order still_env)" by (simp add: still_env_def hash_order_def)
  note planned = objective_planned [OF this _ run, unfolded objective_runs(2), simplified]
  have "size (mset (map t_objective (list_tasks_by_workflow 7 db'))) = size (mset (map pt_objective (pp_tasks p)))"
    using planned by (simp add: Workflow_new_def)
  moreover have "length (pp_tasks p) = 5" using planned by (simp add: objective_multi multi_agent_tasks_def)
  ultimately show ?thesis using run by simp
qed

end
