(* ===== verification/Observability.thy ===== *)
theory Observability
  imports Storage_Records Text_Ops
begin

text \<open>The summary of a run (observability.rs of plexis-runtime): the audit trail rebuilt from the
store, the figures and the scan for suspicious texts. The text of the payload of an event, which
the store of the model leaves out, is a parameter. The markdown report is not modelled.\<close>

section \<open>Severities\<close>

datatype AuditSeverity = Info | Warning | Critical

fun severity_rank :: "AuditSeverity \<Rightarrow> nat" where
  "severity_rank Info = 0"
| "severity_rank Warning = 1"
| "severity_rank Critical = 2"

lemma severity_rank_inject [simp]: "severity_rank a = severity_rank b \<longleftrightarrow> a = b"
  by (cases a; cases b) auto

instantiation AuditSeverity :: linorder
begin

definition less_eq_AuditSeverity :: "AuditSeverity \<Rightarrow> AuditSeverity \<Rightarrow> bool" where
  "less_eq_AuditSeverity a b = (severity_rank a \<le> severity_rank b)"

definition less_AuditSeverity :: "AuditSeverity \<Rightarrow> AuditSeverity \<Rightarrow> bool" where
  "less_AuditSeverity a b = (severity_rank a < severity_rank b)"

instance
  by standard (auto simp: less_eq_AuditSeverity_def less_AuditSeverity_def)

end

fun severity_display :: "AuditSeverity \<Rightarrow> string" where
  "severity_display Info = ''INFO''"
| "severity_display Warning = ''WARN''"
| "severity_display Critical = ''CRIT''"

section \<open>The audit trail\<close>

record AuditEvent =
  ae_timestamp :: time
  ae_severity :: AuditSeverity
  ae_source :: string
  ae_entity_type :: string
  ae_entity_id :: string
  ae_action :: string
  ae_detail :: string

record ProvenanceAuditTrail =
  pt_workflow_id :: string
  pt_events :: "AuditEvent list"

definition ProvenanceAuditTrail_new :: "string \<Rightarrow> ProvenanceAuditTrail" where
  "ProvenanceAuditTrail_new i = \<lparr>pt_workflow_id = i, pt_events = []\<rparr>"

definition trail_push :: "AuditEvent \<Rightarrow> ProvenanceAuditTrail \<Rightarrow> ProvenanceAuditTrail" where
  "trail_push e t = t\<lparr>pt_events := pt_events t @ [e]\<rparr>"

definition filter_by_severity :: "AuditSeverity \<Rightarrow> ProvenanceAuditTrail \<Rightarrow> AuditEvent list" where
  "filter_by_severity least t = filter (\<lambda>e. least \<le> ae_severity e) (pt_events t)"

definition count_action :: "string \<Rightarrow> ProvenanceAuditTrail \<Rightarrow> nat" where
  "count_action action t = length (filter (\<lambda>e. str_contains action (ae_action e)) (pt_events t))"

definition or_text :: "string \<Rightarrow> string option \<Rightarrow> string" where
  "or_text d x = (case x of Some s \<Rightarrow> s | None \<Rightarrow> d)"

definition event_audit :: "(Event \<Rightarrow> string) \<Rightarrow> string \<Rightarrow> Event \<Rightarrow> AuditEvent" where
  "event_audit payload kind e =
    \<lparr>ae_timestamp = e_timestamp e, ae_severity = Info, ae_source = ''EventStore'', ae_entity_type = kind,
     ae_entity_id = decimal (e_aggregate_id e), ae_action = e_event_type e, ae_detail = payload e\<rparr>"

definition execution_audit :: "Execution \<Rightarrow> AuditEvent" where
  "execution_audit x =
    \<lparr>ae_timestamp = x_created_at x, ae_severity = (if x_state x = ExecutionState.Failed then Warning else Info),
     ae_source = ''ExecutionStore'', ae_entity_type = ''execution'', ae_entity_id = decimal (x_id x),
     ae_action = ''execution.'' @ ExecutionState_as_str (x_state x), ae_detail = or_text ''ok'' (x_error_message x)\<rparr>"

definition recovery_audit :: "RecoveryRecord \<Rightarrow> AuditEvent" where
  "recovery_audit r =
    \<lparr>ae_timestamp = rv_created_at r, ae_severity = Warning, ae_source = ''RecoveryStore'',
     ae_entity_type = ''recovery'', ae_entity_id = decimal (rv_id r), ae_action = ''recovery.applied'',
     ae_detail = ''strategy='' @ rv_strategy r @ '' action='' @ rv_recovery_action r @ '' reason='' @ or_text ''none'' (rv_action_reason r)\<rparr>"

definition verification_audit :: "Verification \<Rightarrow> AuditEvent" where
  "verification_audit v =
    (let passed = (v_verdict v = VerificationVerdict.Passed) in
     \<lparr>ae_timestamp = v_created_at v, ae_severity = (if passed then Info else Warning), ae_source = ''VerificationStore'',
      ae_entity_type = ''verification'', ae_entity_id = decimal (v_id v),
      ae_action = (if passed then ''verification.passed'' else ''verification.failed''),
      ae_detail = or_text ''no failure reason'' (v_failure_reason v)\<rparr>)"

definition approval_audit :: "ApprovalRecord \<Rightarrow> AuditEvent" where
  "approval_audit a =
    \<lparr>ae_timestamp = ap_created_at a, ae_severity = Info, ae_source = ''ApprovalStore'', ae_entity_type = ''approval'',
     ae_entity_id = decimal (ap_id a), ae_action = ''approval.'' @ ApprovalState_as_str (ap_state a),
     ae_detail = ''action='' @ ap_action_description a @ '' reason='' @ or_text ''none'' (ap_reason a)\<rparr>"

section \<open>The scan\<close>

record SecurityBoundaryAudit =
  sb_sandbox_violations :: "string list"
  sb_credential_exposures :: "string list"
  sb_path_escape_attempts :: "string list"
  sb_privilege_escalations :: "string list"

definition SecurityBoundaryAudit_default :: SecurityBoundaryAudit where
  "SecurityBoundaryAudit_default =
    \<lparr>sb_sandbox_violations = [], sb_credential_exposures = [], sb_path_escape_attempts = [], sb_privilege_escalations = []\<rparr>"

definition is_clean :: "SecurityBoundaryAudit \<Rightarrow> bool" where
  "is_clean s =
    (sb_sandbox_violations s = [] \<and> sb_credential_exposures s = [] \<and> sb_path_escape_attempts s = [] \<and> sb_privilege_escalations s = [])"

definition escapes_path :: "string \<Rightarrow> bool" where
  "escapes_path low = (str_contains ''../'' low \<or> str_contains [CHR 0x2E, CHR 0x2E, CHR 0x5C] low)"

definition exposes_credential :: "string \<Rightarrow> bool" where
  "exposes_credential low = (str_contains ''api_key'' low \<or> str_contains ''token='' low)"

definition escalates :: "string \<Rightarrow> bool" where
  "escalates low = (str_contains ''sudo'' low \<or> str_contains ''privilege'' low)"

definition tagged :: "AuditEvent \<Rightarrow> string \<Rightarrow> string" where
  "tagged e s = ''['' @ ae_entity_id e @ ''] '' @ s"

definition scan_event :: "AuditEvent \<Rightarrow> SecurityBoundaryAudit \<Rightarrow> SecurityBoundaryAudit" where
  "scan_event e s =
    (let low = str_to_lowercase (ae_detail e);
         s1 = (if escapes_path low
           then s\<lparr>sb_path_escape_attempts := sb_path_escape_attempts s @ [tagged e (ae_detail e)]\<rparr> else s);
         s2 = (if exposes_credential low
           then s1\<lparr>sb_credential_exposures := sb_credential_exposures s1 @ [tagged e (ae_action e)]\<rparr> else s1) in
     if escalates low
     then s2\<lparr>sb_privilege_escalations := sb_privilege_escalations s2 @ [tagged e (ae_detail e)]\<rparr> else s2)"

section \<open>The summary\<close>

record RunStats =
  rs_total_tasks :: nat
  rs_verified_tasks :: nat
  rs_failed_tasks :: nat
  rs_needs_human_tasks :: nat
  rs_total_executions :: nat
  rs_successful_executions :: nat
  rs_failed_executions :: nat
  rs_total_recoveries :: nat
  rs_total_verifications :: nat
  rs_passed_verifications :: nat
  rs_human_approvals :: nat
  rs_total_events :: nat

record RunSummary =
  sy_workflow :: Workflow
  sy_tasks :: "Task list"
  sy_stats :: RunStats
  sy_trail :: ProvenanceAuditTrail
  sy_security :: SecurityBoundaryAudit

definition of_tasks :: "(ident \<Rightarrow> Db \<Rightarrow> 'a list) \<Rightarrow> Task list \<Rightarrow> Db \<Rightarrow> 'a list" where
  "of_tasks rows ts db = concat (map (\<lambda>t. rows (t_id t) db) ts)"

definition tally :: "('a \<Rightarrow> bool) \<Rightarrow> 'a list \<Rightarrow> nat" where
  "tally P xs = length (filter P xs)"

definition audit_events :: "(Event \<Rightarrow> string) \<Rightarrow> ident \<Rightarrow> Task list \<Rightarrow> Db \<Rightarrow> AuditEvent list" where
  "audit_events payload i tasks db =
    map (event_audit payload ''workflow'') (list_events_by_aggregate ''workflow'' i db) @
    map (event_audit payload ''task'') (of_tasks (list_events_by_aggregate ''task'') tasks db) @
    map execution_audit (of_tasks list_executions_by_task tasks db) @
    map recovery_audit (of_tasks list_recovery_records_by_task tasks db) @
    map verification_audit (of_tasks list_verifications_by_task tasks db) @
    map approval_audit (of_tasks list_approvals_by_task tasks db)"

definition run_stats :: "ident \<Rightarrow> Task list \<Rightarrow> Db \<Rightarrow> RunStats" where
  "run_stats i tasks db =
    (let xs = of_tasks list_executions_by_task tasks db; vs = of_tasks list_verifications_by_task tasks db in
     \<lparr>rs_total_tasks = length tasks,
      rs_verified_tasks = tally (\<lambda>t. t_state t = TaskState.Verified) tasks,
      rs_failed_tasks = tally (\<lambda>t. t_state t = TaskState.Failed) tasks,
      rs_needs_human_tasks = tally (\<lambda>t. t_state t = TaskState.NeedsHuman) tasks,
      rs_total_executions = length xs,
      rs_successful_executions = tally (\<lambda>x. x_state x = ExecutionState.Completed) xs,
      rs_failed_executions = tally (\<lambda>x. x_state x = ExecutionState.Failed) xs,
      rs_total_recoveries = length (of_tasks list_recovery_records_by_task tasks db),
      rs_total_verifications = length vs,
      rs_passed_verifications = tally (\<lambda>v. v_verdict v = VerificationVerdict.Passed) vs,
      rs_human_approvals = tally (\<lambda>a. ap_state a = ApprovalState.Approved) (of_tasks list_approvals_by_task tasks db),
      rs_total_events = length (list_events_by_aggregate ''workflow'' i db) + length (of_tasks (list_events_by_aggregate ''task'') tasks db)\<rparr>)"

definition build_summary :: "(Event \<Rightarrow> string) \<Rightarrow> ident \<Rightarrow> Db \<Rightarrow> (RunSummary, StorageError) result" where
  "build_summary payload i db =
    (case get_workflow i db of
       None \<Rightarrow> Err (StorageError.NotFound ''Workflow'' i)
     | Some w \<Rightarrow>
         (let tasks = list_tasks_by_workflow i db;
              trail = fold trail_push (audit_events payload i tasks db) (ProvenanceAuditTrail_new (decimal i));
              sorted = trail\<lparr>pt_events := sort_key ae_timestamp (pt_events trail)\<rparr> in
          Ok \<lparr>sy_workflow = w, sy_tasks = tasks, sy_stats = run_stats i tasks db, sy_trail = sorted,
              sy_security = fold scan_event (pt_events sorted) SecurityBoundaryAudit_default\<rparr>))"

end
