(* ===== verification/Observability_Properties.thy ===== *)
theory Observability_Properties
  imports Observability Storage_Invariant Graph_Queries "HOL-Library.Multiset" "HOL-Library.Code_Target_Nat"
begin

text \<open>The summary of a run tells of every record of the tasks of its workflow, once and in the
order of time, and of no other; its scan is clean exactly when no text is suspicious.\<close>

section \<open>The records of the tasks of a workflow\<close>

definition in_workflow :: "Db \<Rightarrow> ident \<Rightarrow> ident \<Rightarrow> bool" where
  "in_workflow db i j = (\<exists>r \<in> set (db_tasks db). row_id r = j \<and> t_workflow_id (r_task r) = i)"

lemma workflow_tasks:
  assumes "distinct (map row_id (db_tasks db))"
  shows "distinct (map t_id (list_tasks_by_workflow i db))"
    and "t_id ` set (list_tasks_by_workflow i db) = {j. in_workflow db i j}"
proof -
  have "distinct (map t_id (map r_task (db_tasks db)))" using assms by (simp add: o_def)
  then show "distinct (map t_id (list_tasks_by_workflow i db))"
    by (simp add: list_tasks_by_workflow_def distinct_map_sort_key distinct_map_filter)
  show "t_id ` set (list_tasks_by_workflow i db) = {j. in_workflow db i j}"
    by (force simp: list_tasks_by_workflow_def in_workflow_def)
qed

lemma of_tasks_mset:
  assumes "distinct (map t_id ts)" "\<And>j. mset (rows j db) = mset (filter (\<lambda>x. owner x = j) table)"
  shows "mset (of_tasks rows ts db) = mset (filter (\<lambda>x. owner x \<in> t_id ` set ts) table)"
  using assms(1)
proof (induction ts)
  case (Cons t ts)
  have "filter_mset (\<lambda>x. owner x = t_id t \<or> owner x \<in> t_id ` set ts) (mset table) =
      filter_mset (\<lambda>x. owner x = t_id t) (mset table) + filter_mset (\<lambda>x. owner x \<in> t_id ` set ts) (mset table)"
    using Cons.prems by (induction table) auto
  then show ?case using Cons assms(2) [of "t_id t"] by (simp add: of_tasks_def)
qed (simp add: of_tasks_def)

lemma workflow_rows:
  fixes i :: ident
  assumes "distinct (map row_id (db_tasks db))"
  defines "ts \<equiv> list_tasks_by_workflow i db"
  shows "mset (of_tasks list_executions_by_task ts db) = mset (filter (\<lambda>x. in_workflow db i (x_task_id x)) (db_executions db))"
    and "mset (of_tasks list_recovery_records_by_task ts db) = mset (filter (\<lambda>x. in_workflow db i (rv_task_id x)) (db_recoveries db))"
    and "mset (of_tasks list_verifications_by_task ts db) = mset (filter (\<lambda>x. in_workflow db i (v_task_id x)) (db_verifications db))"
    and "mset (of_tasks list_approvals_by_task ts db) = mset (filter (\<lambda>x. in_workflow db i (ap_task_id x)) (db_approvals db))"
  using of_tasks_mset [OF workflow_tasks(1) [OF assms(1)], of list_executions_by_task db x_task_id "db_executions db" i]
    of_tasks_mset [OF workflow_tasks(1) [OF assms(1)], of list_recovery_records_by_task db rv_task_id "db_recoveries db" i]
    of_tasks_mset [OF workflow_tasks(1) [OF assms(1)], of list_verifications_by_task db v_task_id "db_verifications db" i]
    of_tasks_mset [OF workflow_tasks(1) [OF assms(1)], of list_approvals_by_task db ap_task_id "db_approvals db" i]
  unfolding ts_def workflow_tasks(2) [OF assms(1)]
  by (simp_all add: list_executions_by_task_def list_recovery_records_by_task_def list_verifications_by_task_def list_approvals_by_task_def)

text \<open>The rows of the event log that belong to the workflow, of its own and of its tasks.\<close>

definition workflow_events :: "Db \<Rightarrow> ident \<Rightarrow> Event list" where
  "workflow_events db i =
    map event_of_row (filter (\<lambda>r. e_aggregate_type (snd r) = ''workflow'' \<and> e_aggregate_id (snd r) = i) (db_events db))"

definition task_events :: "Db \<Rightarrow> ident \<Rightarrow> Event list" where
  "task_events db i =
    map event_of_row (filter (\<lambda>r. e_aggregate_type (snd r) = ''task'' \<and> in_workflow db i (e_aggregate_id (snd r))) (db_events db))"

lemma mset_map_sort [simp]: "mset (map f (sort_key g xs)) = mset (map f xs)"
  by simp

lemma event_rows:
  fixes i :: ident
  assumes "distinct (map row_id (db_tasks db))"
  defines "ts \<equiv> list_tasks_by_workflow i db"
  shows "mset (list_events_by_aggregate ''workflow'' i db) = mset (workflow_events db i)"
    and "mset (of_tasks (list_events_by_aggregate ''task'') ts db) = mset (task_events db i)"
proof -
  let ?rows = "\<lambda>j db. filter (\<lambda>r. e_aggregate_type (snd r) = ''task'' \<and> e_aggregate_id (snd r) = j) (db_events db)"
  show "mset (list_events_by_aggregate ''workflow'' i db) = mset (workflow_events db i)"
    by (simp add: list_events_by_aggregate_def workflow_events_def)
  have "mset (?rows j db) = mset (filter (\<lambda>r. e_aggregate_id (snd r) = j) (filter (\<lambda>r. e_aggregate_type (snd r) = ''task'') (db_events db)))" for j
    by (simp add: filter_filter conj_commute)
  from of_tasks_mset [OF workflow_tasks(1) [OF assms(1)], of ?rows db _ _ i, OF this]
  have rows: "mset (of_tasks ?rows ts db) = mset (filter (\<lambda>r. e_aggregate_type (snd r) = ''task'' \<and> in_workflow db i (e_aggregate_id (snd r))) (db_events db))"
    unfolding ts_def workflow_tasks(2) [OF assms(1)] by (simp add: conj_commute)
  have "mset (of_tasks (list_events_by_aggregate ''task'') us db) = image_mset event_of_row (mset (of_tasks ?rows us db))" for us
    by (induction us) (simp_all add: of_tasks_def list_events_by_aggregate_def)
  then show "mset (of_tasks (list_events_by_aggregate ''task'') ts db) = mset (task_events db i)"
    by (simp add: rows task_events_def)
qed

text \<open>The figures, counted in the tables.\<close>

definition counted :: "Db \<Rightarrow> ident \<Rightarrow> RunStats" where
  "counted db i =
    (let tasks = (\<lambda>P. length (filter (\<lambda>r. t_workflow_id (r_task r) = i \<and> P (t_state (r_task r))) (db_tasks db)));
         executions = (\<lambda>P. length (filter (\<lambda>x. in_workflow db i (x_task_id x) \<and> P (x_state x)) (db_executions db)));
         verifications = (\<lambda>P. length (filter (\<lambda>v. in_workflow db i (v_task_id v) \<and> P (v_verdict v)) (db_verifications db))) in
     \<lparr>rs_total_tasks = tasks (\<lambda>q. True),
      rs_verified_tasks = tasks (\<lambda>q. q = TaskState.Verified),
      rs_failed_tasks = tasks (\<lambda>q. q = TaskState.Failed),
      rs_needs_human_tasks = tasks (\<lambda>q. q = TaskState.NeedsHuman),
      rs_total_executions = executions (\<lambda>q. True),
      rs_successful_executions = executions (\<lambda>q. q = ExecutionState.Completed),
      rs_failed_executions = executions (\<lambda>q. q = ExecutionState.Failed),
      rs_total_recoveries = length (filter (\<lambda>x. in_workflow db i (rv_task_id x)) (db_recoveries db)),
      rs_total_verifications = verifications (\<lambda>v. True),
      rs_passed_verifications = verifications (\<lambda>v. v = VerificationVerdict.Passed),
      rs_human_approvals =
        length (filter (\<lambda>x. in_workflow db i (ap_task_id x) \<and> ap_state x = ApprovalState.Approved) (db_approvals db)),
      rs_total_events = length (workflow_events db i) + length (task_events db i)\<rparr>)"

section \<open>The trail and the figures\<close>

lemma pushed: "pt_events (fold trail_push es t) = pt_events t @ es"
  by (induction es arbitrary: t) (auto simp: trail_push_def)

definition told :: "string \<Rightarrow> RunSummary \<Rightarrow> AuditEvent multiset" where
  "told source s = mset (filter (\<lambda>e. ae_source e = source) (pt_events (sy_trail s)))"

lemma audit_sources:
  "ae_source (event_audit payload k e) = ''EventStore''" "ae_source (execution_audit x) = ''ExecutionStore''"
  "ae_source (recovery_audit r) = ''RecoveryStore''" "ae_source (verification_audit v) = ''VerificationStore''"
  "ae_source (approval_audit a) = ''ApprovalStore''"
  by (simp_all add: event_audit_def execution_audit_def recovery_audit_def verification_audit_def approval_audit_def Let_def)

lemma mset_map_cong: "mset xs = mset ys \<Longrightarrow> mset (map f xs) = mset (map f ys)"
  by (metis mset_map)

lemma length_mset_cong: "mset xs = mset ys \<Longrightarrow> length xs = length ys"
  by (metis size_mset)

lemma tally_mset_cong: "mset xs = mset ys \<Longrightarrow> tally P xs = tally P ys"
  unfolding tally_def by (metis mset_filter size_mset)

lemma scan_clean:
  "is_clean (fold scan_event es s) \<longleftrightarrow> is_clean s \<and> list_all (\<lambda>e. let low = str_to_lowercase (ae_detail e) in
     \<not> escapes_path low \<and> \<not> exposes_credential low \<and> \<not> escalates low) es"
  by (induction es arbitrary: s) (auto simp: scan_event_def is_clean_def Let_def)

lemma default_clean: "is_clean SecurityBoundaryAudit_default"
  by (simp add: is_clean_def SecurityBoundaryAudit_default_def)

lemma tally_filter: "tally P (filter Q xs) = length (filter (\<lambda>x. Q x \<and> P x) xs)"
  by (simp add: tally_def conj_commute)

lemma tally_tasks:
  "tally (\<lambda>t. P (t_state t)) (list_tasks_by_workflow i db) =
     length (filter (\<lambda>r. t_workflow_id (r_task r) = i \<and> P (t_state (r_task r))) (db_tasks db))"
proof -
  have "mset (list_tasks_by_workflow i db) = mset (filter (\<lambda>t. t_workflow_id t = i) (map r_task (db_tasks db)))"
    by (simp add: list_tasks_by_workflow_def)
  from tally_mset_cong [OF this] show ?thesis by (simp add: tally_def filter_map o_def conj_commute)
qed

lemma run_stats_counted:
  assumes "distinct (map row_id (db_tasks db))"
  shows "run_stats i (list_tasks_by_workflow i db) db = counted db i"
proof -
  let ?ts = "list_tasks_by_workflow i db"
  note rows = workflow_rows [OF assms, of i] and events = event_rows [OF assms, of i]
  have len: "length xs = tally (\<lambda>x. True) xs" for xs :: "'a list" by (simp add: tally_def)
  have "length ?ts = length (filter (\<lambda>r. t_workflow_id (r_task r) = i) (db_tasks db))"
    using tally_tasks [of "\<lambda>q. True"] by (simp add: tally_def)
  then show ?thesis
    using length_mset_cong [OF rows(1)] length_mset_cong [OF rows(2)] length_mset_cong [OF rows(3)]
      length_mset_cong [OF events(1)] length_mset_cong [OF events(2)]
      tally_mset_cong [OF rows(1)] tally_mset_cong [OF rows(3)] tally_mset_cong [OF rows(4)]
      tally_tasks [of "\<lambda>q. q = TaskState.Verified"] tally_tasks [of "\<lambda>q. q = TaskState.Failed"]
      tally_tasks [of "\<lambda>q. q = TaskState.NeedsHuman"]
    by (simp add: run_stats_def counted_def Let_def tally_filter)
qed

text \<open>C30: When the identifiers of the stored tasks are distinct, a summary that is made tells of every execution, recovery, verification,
approval and event of the workflow or of its tasks exactly once and of none of another workflow; its trail is in
the order of time, each of its figures is the number of the rows it names, and it is clean
exactly when no detail it tells looks like an escape, a credential or an escalation.\<close>

theorem summary_complete:
  assumes "distinct (map row_id (db_tasks db))" "build_summary payload i db = Ok s"
  shows "sorted (map ae_timestamp (pt_events (sy_trail s))) \<and>
    told ''ExecutionStore'' s = mset (map execution_audit (filter (\<lambda>x. in_workflow db i (x_task_id x)) (db_executions db))) \<and>
    told ''RecoveryStore'' s = mset (map recovery_audit (filter (\<lambda>x. in_workflow db i (rv_task_id x)) (db_recoveries db))) \<and>
    told ''VerificationStore'' s = mset (map verification_audit (filter (\<lambda>x. in_workflow db i (v_task_id x)) (db_verifications db))) \<and>
    told ''ApprovalStore'' s = mset (map approval_audit (filter (\<lambda>x. in_workflow db i (ap_task_id x)) (db_approvals db))) \<and>
    told ''EventStore'' s = mset (map (event_audit payload ''workflow'') (workflow_events db i) @ map (event_audit payload ''task'') (task_events db i)) \<and>
    sy_stats s = counted db i \<and>
    (is_clean (sy_security s) \<longleftrightarrow> list_all (\<lambda>e. let low = str_to_lowercase (ae_detail e) in
       \<not> escapes_path low \<and> \<not> exposes_credential low \<and> \<not> escalates low) (pt_events (sy_trail s)))"
proof -
  let ?ts = "list_tasks_by_workflow i db"
  note rows = workflow_rows [OF assms(1), of i] and events = event_rows [OF assms(1), of i]
  have s: "pt_events (sy_trail s) = sort_key ae_timestamp (audit_events payload i ?ts db)" "sy_stats s = run_stats i ?ts db"
    "sy_security s = fold scan_event (pt_events (sy_trail s)) SecurityBoundaryAudit_default"
    using assms(2) by (auto simp: build_summary_def Let_def pushed ProvenanceAuditTrail_new_def split: option.splits)
  have told: "told src s = mset (filter (\<lambda>e. ae_source e = src) (audit_events payload i ?ts db))" for src
    unfolding told_def s(1) by (metis mset_filter mset_sort)
  have "told ''ExecutionStore'' s = mset (map execution_audit (of_tasks list_executions_by_task ?ts db))"
    "told ''RecoveryStore'' s = mset (map recovery_audit (of_tasks list_recovery_records_by_task ?ts db))"
    "told ''VerificationStore'' s = mset (map verification_audit (of_tasks list_verifications_by_task ?ts db))"
    "told ''ApprovalStore'' s = mset (map approval_audit (of_tasks list_approvals_by_task ?ts db))"
    "told ''EventStore'' s = mset (map (event_audit payload ''workflow'') (list_events_by_aggregate ''workflow'' i db)) +
       mset (map (event_audit payload ''task'') (of_tasks (list_events_by_aggregate ''task'') ?ts db))"
    unfolding told by (simp_all add: audit_events_def filter_map o_def audit_sources)
  note tells = this [unfolded mset_map_cong [OF rows(1)] mset_map_cong [OF rows(2)] mset_map_cong [OF rows(3)] mset_map_cong [OF rows(4)]
    mset_map_cong [OF events(1)] mset_map_cong [OF events(2)]]
  show ?thesis
    using tells by (simp add: s(1,3) s(2) [unfolded run_stats_counted [OF assms(1)]] scan_clean default_clean)
qed

definition told_db :: Db where
  "told_db = fst (create_execution (Execution_new 5 1 2 3 1) (fst (create_task (Task_new 2 0 7 ''t'')
     (fst (create_agent (Agent_new 3 0 ''a'' ''r'' (ExecutionProfile_new ''p'' ''m''))
     (fst (create_workflow (Workflow_new 7 0 ''w'' ''o'') db_empty)))))))"

lemma told_runs: "is_ok (build_summary (\<lambda>e. []) 7 told_db)"
  "distinct (map row_id (db_tasks told_db))" "filter (\<lambda>x. in_workflow told_db 7 (x_task_id x)) (db_executions told_db) = [Execution_new 5 1 2 3 1]"
  by code_simp+

theorem summary_complete_witness:
  "\<exists>s. build_summary (\<lambda>e. []) 7 told_db = Ok s \<and> rs_total_executions (sy_stats s) = 1"
proof -
  obtain s where s: "build_summary (\<lambda>e. []) 7 told_db = Ok s"
    using told_runs(1) by (cases "build_summary (\<lambda>e. []) 7 told_db") auto
  show ?thesis using summary_complete [OF told_runs(2) s] s by (simp add: told_runs(3) counted_def Let_def)
qed

end
