(* ===== verification/Memory_Engine.thy ===== *)
theory Memory_Engine
  imports Prompt Task_Reconciler
begin

text \<open>The memory engine (plexis-memory): the deterministic embedding of a text (embedding.rs), the
similarity of vectors (similarity.rs), the score of a memory (index.rs) and the manager over the
store (manager.rs). Products, quotients, roots and powers of singles round, and are parameters;
the sums of the embedding are multiples of one half, which singles add without rounding as long
as a text has fewer than four million tokens.\<close>

section \<open>Errors and arithmetic\<close>

datatype MemoryError =
    Storage StorageError
  | DimensionMismatch nat nat
  | InvalidEmbedding string
  | NotFound string
  | Serialization string
  | InvalidQuery string

record ScoringWeights =
  wt_similarity :: single
  wt_importance :: single
  wt_recency :: single
  wt_recency_half_life_hours :: single

text \<open>The singles nearest to 0.60, 0.25, 0.15 and 24.\<close>

definition ScoringWeights_default :: ScoringWeights where
  "ScoringWeights_default =
    \<lparr>wt_similarity = 10066330 * 2 ^ 125, wt_importance = single_one div 4, wt_recency = 10066330 * 2 ^ 123,
     wt_recency_half_life_hours = 24 * single_one\<rparr>"

record Arithmetic =
  ar_norm :: "single list \<Rightarrow> single"
  ar_scale :: "single \<Rightarrow> single list \<Rightarrow> single list"
  ar_cosine :: "single list \<Rightarrow> single list \<Rightarrow> single"
  ar_decay :: "int \<Rightarrow> single \<Rightarrow> single"
  ar_total :: "ScoringWeights \<Rightarrow> single \<Rightarrow> single \<Rightarrow> single \<Rightarrow> single"

definition clamp_single :: "single \<Rightarrow> single \<Rightarrow> single \<Rightarrow> single" where
  "clamp_single lo hi x = max lo (min hi x)"

text \<open>The single nearest to 1e-12.\<close>

definition tiny :: single where
  "tiny = 9223372 * 2 ^ 86"

section \<open>Similarity\<close>

definition l2_normalize :: "Arithmetic \<Rightarrow> single list \<Rightarrow> single list" where
  "l2_normalize ar v = (if tiny < ar_norm ar v then ar_scale ar (ar_norm ar v) v else v)"

definition cosine_similarity :: "Arithmetic \<Rightarrow> single list \<Rightarrow> single list \<Rightarrow> (single, MemoryError) result" where
  "cosine_similarity ar a b =
    (if length a \<noteq> length b then Err (DimensionMismatch (length a) (length b))
     else if ar_norm ar a \<le> tiny \<or> ar_norm ar b \<le> tiny then Ok 0
     else Ok (clamp_single (- single_one) single_one (ar_cosine ar a b)))"

section \<open>The embedding of a text\<close>

definition utf8_bytes :: "char \<Rightarrow> 8 word list" where
  "utf8_bytes c = (let n = (of_char c :: nat) in
     if n < 128 then [of_nat n] else [of_nat (192 + n div 64), of_nat (128 + n mod 64)])"

definition as_bytes :: "string \<Rightarrow> 8 word list" where
  "as_bytes s = concat (map utf8_bytes s)"

definition fnv1a_hash :: "8 word list \<Rightarrow> u64" where
  "fnv1a_hash bs = fold (\<lambda>b h. xor h (ucast b) * 0x100000001b3) bs 0xcbf29ce484222325"

text \<open>The alphanumeric characters below U+0100.\<close>

definition is_alphanumeric :: "char \<Rightarrow> bool" where
  "is_alphanumeric c = (let n = (of_char c :: nat) in
     (48 \<le> n \<and> n \<le> 57) \<or> (65 \<le> n \<and> n \<le> 90) \<or> (97 \<le> n \<and> n \<le> 122) \<or>
     n \<in> {170, 178, 179, 181, 185, 186, 188, 189, 190} \<or> (192 \<le> n \<and> n \<noteq> 215 \<and> n \<noteq> 247))"

fun tokens_acc :: "string \<Rightarrow> string \<Rightarrow> string list" where
  "tokens_acc acc [] = (if acc = [] then [] else [rev acc])"
| "tokens_acc acc (c # s) =
    (if is_alphanumeric c \<or> c = CHR ''_'' then tokens_acc (c # acc) s
     else (if acc = [] then [] else [rev acc]) @ tokens_acc [] s)"

definition tokens :: "string \<Rightarrow> string list" where
  "tokens text = tokens_acc [] (str_to_lowercase text)"

definition STOP_WORDS :: "string list" where
  "STOP_WORDS =
    [''a'', ''an'', ''the'', ''in'', ''on'', ''at'', ''to'', ''for'', ''of'', ''with'', ''by'', ''from'', ''as'',
     ''is'', ''are'', ''was'', ''were'', ''be'', ''been'', ''being'', ''have'', ''has'', ''had'', ''do'', ''does'',
     ''did'', ''and'', ''or'', ''but'', ''if'', ''then'', ''else'', ''when'', ''where'', ''why'', ''how'', ''what'',
     ''which'', ''who'', ''whom'', ''this'', ''that'', ''these'', ''those'', ''we'', ''you'', ''they'', ''it'']"

fun windows :: "nat \<Rightarrow> 'a list \<Rightarrow> 'a list list" where
  "windows n [] = []"
| "windows n (x # xs) = (if length (x # xs) < n then [] else take n (x # xs) # windows n xs)"

text \<open>A feature adds its weight, in halves, at the place its hash gives, with the sign of bit 32.\<close>

definition add_feature :: "int \<Rightarrow> 8 word list \<Rightarrow> int list \<Rightarrow> int list" where
  "add_feature weight bs v =
    (let h = fnv1a_hash bs; i = unat h mod length v in
     v[i := v ! i + (if bit h 32 then - weight else weight)])"

definition add_token :: "string \<Rightarrow> int list \<Rightarrow> int list" where
  "add_token t v =
    (if t \<in> set STOP_WORDS then v
     else fold (add_feature 1) (windows 3 (as_bytes t)) (add_feature 3 (as_bytes t) v))"

definition add_bigram :: "string list \<Rightarrow> int list \<Rightarrow> int list" where
  "add_bigram w v = add_feature 4 (as_bytes (w ! 0 @ ''_'' @ w ! 1)) v"

definition raw_embedding :: "nat \<Rightarrow> string \<Rightarrow> int list" where
  "raw_embedding dim text =
    (let ts = tokens text in
     fold add_bigram (windows 2 ts) (fold add_token ts (replicate dim 0)))"

definition deterministic_embed :: "Arithmetic \<Rightarrow> nat \<Rightarrow> string \<Rightarrow> single list" where
  "deterministic_embed ar dim text =
    (if tokens text = [] then replicate dim 0
     else l2_normalize ar (map (\<lambda>x. x * (single_one div 2)) (raw_embedding dim text)))"

section \<open>The score of a memory\<close>

record MemoryQuery =
  mq_text :: "string option"
  mq_embedding :: "single list option"
  mq_scopes :: "MemoryScope list option"
  mq_scope_id :: "string option"
  mq_states :: "MemoryState list option"
  mq_tags :: "string list option"
  mq_min_score :: "single option"
  mq_limit :: nat
  mq_weights :: "ScoringWeights option"

definition MemoryQuery_default :: MemoryQuery where
  "MemoryQuery_default =
    \<lparr>mq_text = None, mq_embedding = None, mq_scopes = None, mq_scope_id = None, mq_states = Some [MemoryState.Active],
     mq_tags = None, mq_min_score = None, mq_limit = 10, mq_weights = None\<rparr>"

text \<open>A half life below 0.1 counts as the single nearest to 0.1.\<close>

definition compute_hybrid_score :: "Arithmetic \<Rightarrow> MemoryRecord \<Rightarrow> single \<Rightarrow> ScoringWeights \<Rightarrow> time \<Rightarrow> ScoredMemory" where
  "compute_hybrid_score ar m similarity weights now =
    (let sim = clamp_single 0 single_one similarity;
         imp = clamp_single 0 single_one (mem_importance m);
         since = (case mem_accessed_at m of Some t \<Rightarrow> t | None \<Rightarrow> mem_updated_at m);
         seconds = max 0 (now - since) div 1000;
         recency = clamp_single 0 single_one (ar_decay ar seconds (max (13421773 * 2 ^ 122) (wt_recency_half_life_hours weights))) in
     \<lparr>sm_record = m, sm_similarity = sim, sm_importance_score = imp, sm_recency_score = recency,
      sm_total_score = ar_total ar weights sim imp recency\<rparr>)"

section \<open>The manager\<close>

record MemoryManager =
  mm_now :: time
  mm_arithmetic :: Arithmetic
  mm_embed :: "string \<Rightarrow> (single list, MemoryError) result"
  mm_default_weights :: ScoringWeights

definition mm_store :: "(Db, 'a, StorageError) op \<Rightarrow> (Db, 'a, MemoryError) op" where
  "mm_store m db = (case m db of (db1, r) \<Rightarrow> (db1, map_err MemoryError.Storage r))"

definition mm_get_memory :: "ident \<Rightarrow> Db \<Rightarrow> (MemoryRecord, MemoryError) result" where
  "mm_get_memory i db = (case get_memory i db of Some m \<Rightarrow> Ok m | None \<Rightarrow> Err (MemoryError.NotFound (decimal i)))"

definition create_memory ::
  "MemoryManager \<Rightarrow> MemoryScope \<Rightarrow> string option \<Rightarrow> string \<Rightarrow> string \<Rightarrow> single \<Rightarrow> MemoryProvenance \<Rightarrow> json \<Rightarrow>
   (Db, MemoryRecord, MemoryError) op" where
  "create_memory mm scope scope_id source content importance provenance metadata db =
    (case mm_embed mm content of
       Err e \<Rightarrow> (db, Err e)
     | Ok v \<Rightarrow>
         (let m = (MemoryRecord_new (fresh_id (map mem_id (db_memories db))) (mm_now mm) scope source content)
              \<lparr>mem_scope_id := scope_id, mem_importance := clamp_single 0 single_one importance,
               mem_provenance := provenance, mem_metadata := metadata, mem_embedding := Some v\<rparr> in
          st_then (mm_store (save_memory m)) (\<lambda>_ db1. (db1, Ok m)) db))"

text \<open>Read, change and write one memory.\<close>

definition change_memory ::
  "ident \<Rightarrow> (MemoryRecord \<Rightarrow> (MemoryRecord, MemoryError) result) \<Rightarrow> (Db, MemoryRecord, MemoryError) op" where
  "change_memory i f db =
    (case and_then (mm_get_memory i db) f of
       Err e \<Rightarrow> (db, Err e)
     | Ok m \<Rightarrow> st_then (mm_store (update_memory m)) (\<lambda>_ db1. (db1, Ok m)) db)"

definition mm_update_memory ::
  "MemoryManager \<Rightarrow> ident \<Rightarrow> string option \<Rightarrow> single option \<Rightarrow> json option \<Rightarrow> (Db, MemoryRecord, MemoryError) op" where
  "mm_update_memory mm i content importance metadata =
    change_memory i (\<lambda>m.
      and_then
        (case content of
           None \<Rightarrow> Ok m
         | Some c \<Rightarrow> if c = mem_content m then Ok m
             else and_then (mm_embed mm c) (\<lambda>v. Ok (m\<lparr>mem_embedding := Some v, mem_content := c\<rparr>)))
        (\<lambda>m1.
          let m2 = (case importance of Some x \<Rightarrow> m1\<lparr>mem_importance := clamp_single 0 single_one x\<rparr> | None \<Rightarrow> m1);
              m3 = (case metadata of Some j \<Rightarrow> m2\<lparr>mem_metadata := j\<rparr> | None \<Rightarrow> m2) in
          Ok (m3\<lparr>mem_updated_at := mm_now mm\<rparr>)))"

definition supersede_memory ::
  "MemoryManager \<Rightarrow> ident \<Rightarrow> string \<Rightarrow> string \<Rightarrow> single \<Rightarrow> MemoryProvenance \<Rightarrow> json \<Rightarrow>
   (Db, MemoryRecord \<times> MemoryRecord, MemoryError) op" where
  "supersede_memory mm i source content importance provenance metadata db =
    (case mm_get_memory i db of
       Err e \<Rightarrow> (db, Err e)
     | Ok m \<Rightarrow>
         st_then (create_memory mm (mem_scope m) (mem_scope_id m) source content importance provenance metadata)
           (\<lambda>n. let m1 = MemoryRecord_supersede_with (mm_now mm) (mem_id n) m in
              st_then (mm_store (update_memory m1)) (\<lambda>_ db1. (db1, Ok (m1, n)))) db)"

definition archive_memory :: "MemoryManager \<Rightarrow> ident \<Rightarrow> (Db, MemoryRecord, MemoryError) op" where
  "archive_memory mm i = change_memory i (\<lambda>m. Ok (MemoryRecord_archive (mm_now mm) m))"

definition soft_delete_memory :: "MemoryManager \<Rightarrow> ident \<Rightarrow> (Db, MemoryRecord, MemoryError) op" where
  "soft_delete_memory mm i = change_memory i (\<lambda>m. Ok (MemoryRecord_soft_delete (mm_now mm) m))"

definition record_access :: "MemoryManager \<Rightarrow> ident \<Rightarrow> Db \<Rightarrow> Db" where
  "record_access mm i db = fst (change_memory i (\<lambda>m. Ok (MemoryRecord_mark_accessed (mm_now mm) m)) db)"

section \<open>Search\<close>

definition query_vector :: "MemoryManager \<Rightarrow> MemoryQuery \<Rightarrow> (single list option, MemoryError) result" where
  "query_vector mm q =
    (case mq_embedding q of
       Some v \<Rightarrow> Ok (Some v)
     | None \<Rightarrow> (case mq_text q of Some t \<Rightarrow> and_then (mm_embed mm t) (\<lambda>v. Ok (Some v)) | None \<Rightarrow> Ok None))"

definition candidates :: "MemoryQuery \<Rightarrow> Db \<Rightarrow> MemoryRecord list" where
  "candidates q db =
    (case mq_scopes q of
       Some scopes \<Rightarrow> concat (map (\<lambda>s. list_memories_by_scope s (mq_scope_id q) db) scopes)
     | None \<Rightarrow> list_active_memories None (mq_scope_id q) 1000 db)"

definition record_tags :: "MemoryRecord \<Rightarrow> string list" where
  "record_tags m =
    (case json_get ''tags'' (mem_metadata m) of Some (JArr vs) \<Rightarrow> List.map_filter json_str vs | _ \<Rightarrow> [])"

definition state_wanted :: "MemoryQuery \<Rightarrow> MemoryRecord \<Rightarrow> bool" where
  "state_wanted q m =
    (case mq_states q of Some states \<Rightarrow> mem_state m \<in> set states | None \<Rightarrow> mem_state m = MemoryState.Active)"

definition tags_wanted :: "MemoryQuery \<Rightarrow> MemoryRecord \<Rightarrow> bool" where
  "tags_wanted q m = (case mq_tags q of Some ts \<Rightarrow> list_all (\<lambda>t. t \<in> set (record_tags m)) ts | None \<Rightarrow> True)"

definition scored :: "MemoryManager \<Rightarrow> MemoryQuery \<Rightarrow> single list option \<Rightarrow> MemoryRecord \<Rightarrow> ScoredMemory" where
  "scored mm q v m =
    (let similarity = (case (v, mem_embedding m) of
         (Some a, Some b) \<Rightarrow> (case cosine_similarity (mm_arithmetic mm) a b of Ok s \<Rightarrow> s | Err _ \<Rightarrow> 0) | _ \<Rightarrow> 0) in
     compute_hybrid_score (mm_arithmetic mm) m similarity
       (case mq_weights q of Some w \<Rightarrow> w | None \<Rightarrow> mm_default_weights mm) (mm_now mm))"

definition score_wanted :: "MemoryQuery \<Rightarrow> ScoredMemory \<Rightarrow> bool" where
  "score_wanted q s = (case mq_min_score q of Some least \<Rightarrow> least \<le> sm_total_score s | None \<Rightarrow> True)"

definition ranked :: "MemoryManager \<Rightarrow> MemoryQuery \<Rightarrow> single list option \<Rightarrow> Db \<Rightarrow> ScoredMemory list" where
  "ranked mm q v db =
    sort_key (\<lambda>s. - sm_total_score s)
      (filter (score_wanted q)
        (map (scored mm q v) (filter (\<lambda>m. state_wanted q m \<and> tags_wanted q m) (candidates q db))))"

definition search_memories :: "MemoryManager \<Rightarrow> MemoryQuery \<Rightarrow> (Db, ScoredMemory list, MemoryError) op" where
  "search_memories mm q db =
    (case query_vector mm q of
       Err e \<Rightarrow> (db, Err e)
     | Ok v \<Rightarrow>
         (let found = take (mq_limit q) (ranked mm q v db) in
          (fold (\<lambda>s. record_access mm (mem_id (sm_record s))) found db, Ok found)))"

end
