(* ===== verification/Memory_Properties.thy ===== *)
theory Memory_Properties
  imports Memory_Engine "HOL-Library.Code_Target_Nat"
begin

text \<open>The properties of the memory engine: what a search returns and what it leaves unchanged, and
how a memory is superseded.\<close>

section \<open>The hash\<close>

text \<open>Published values of the 64-bit FNV-1a hash.\<close>

lemma fnv1a_vectors:
  "fnv1a_hash (as_bytes []) = 0xcbf29ce484222325" "fnv1a_hash (as_bytes ''a'') = 0xaf63dc4c8601ec8c"
  "fnv1a_hash (as_bytes ''foobar'') = 0x85944171f73967e8"
  by code_simp+

section \<open>Access\<close>

definition unread :: "MemoryRecord \<Rightarrow> MemoryRecord" where
  "unread m = m\<lparr>mem_accessed_at := None, mem_access_count := 0\<rparr>"

definition only_read :: "Db \<Rightarrow> Db \<Rightarrow> bool" where
  "only_read db db' =
    ((\<exists>ms. db' = db\<lparr>db_memories := ms\<rparr>) \<and> (\<forall>i. map_option unread (get_memory i db') = map_option unread (get_memory i db)))"

lemma only_read_refl: "only_read db db"
  by (auto simp: only_read_def intro: exI [of _ "db_memories db"])

lemma only_read_trans: "only_read a b \<Longrightarrow> only_read b c \<Longrightarrow> only_read a c"
  by (auto simp: only_read_def)

lemma update_memory_Ok:
  "get_memory i db = Some m0 \<Longrightarrow> mem_id m = i \<Longrightarrow>
    update_memory m db = (db\<lparr>db_memories := tbl_modify mem_id i (\<lambda>r. m\<lparr>mem_created_at := mem_created_at r\<rparr>) (db_memories db)\<rparr>, Ok ())"
  using tbl_get_None [of mem_id i "db_memories db"] by (simp add: update_memory_def get_memory_def)

lemma get_memory_modify:
  "(\<And>r. mem_id (f r) = i) \<Longrightarrow> get_memory j (db\<lparr>db_memories := tbl_modify mem_id i f (db_memories db)\<rparr>) =
    (if j = i then map_option f (get_memory j db) else get_memory j db)"
  by (simp add: get_memory_def tbl_get_overwrite)

lemma get_memory_id: "get_memory i db = Some m \<Longrightarrow> mem_id m = i"
  by (auto simp: get_memory_def dest: tbl_get_key)

lemma access_only_reads: "only_read db (record_access mm i db)"
proof (cases "get_memory i db")
  case None
  then show ?thesis by (simp add: record_access_def change_memory_def mm_get_memory_def only_read_refl)
next
  case (Some m)
  let ?m = "MemoryRecord_mark_accessed (mm_now mm) m"
  let ?db = "db\<lparr>db_memories := tbl_modify mem_id i (\<lambda>r. ?m\<lparr>mem_created_at := mem_created_at r\<rparr>) (db_memories db)\<rparr>"
  have id: "mem_id ?m = i" using get_memory_id [OF Some] by (simp add: MemoryRecord_mark_accessed_def)
  have "record_access mm i db = ?db"
    by (simp add: record_access_def change_memory_def mm_get_memory_def Some mm_store_def st_then.simps update_memory_Ok [OF Some id])
  moreover have "map_option unread (get_memory j ?db) = map_option unread (get_memory j db)" for j
    using Some id by (simp add: get_memory_modify MemoryRecord_mark_accessed_def unread_def)
  ultimately show ?thesis by (auto simp: only_read_def)
qed

lemma accesses_only_read: "only_read db (fold (\<lambda>s. record_access mm (mem_id (sm_record s))) ss db)"
proof (induction ss arbitrary: db)
  case (Cons s ss)
  show ?case using only_read_trans [OF access_only_reads Cons.IH] by simp
qed (simp add: only_read_refl)

section \<open>Search\<close>

lemma list_by_scope_mem:
  "m \<in> set (list_memories_by_scope s sid db) \<longleftrightarrow> m \<in> set (db_memories db) \<and> mem_scope m = s \<and> mem_state m \<noteq> MemoryState.Deleted \<and>
    (case sid of Some x \<Rightarrow> mem_scope_id m = Some x | None \<Rightarrow> True)"
  by (auto simp: list_memories_by_scope_def)

lemma list_active_mem:
  "m \<in> set (list_active_memories None sid n db) \<Longrightarrow> m \<in> set (db_memories db) \<and> mem_state m = MemoryState.Active \<and>
    (case sid of Some x \<Rightarrow> mem_scope_id m = Some x | None \<Rightarrow> True)"
  by (auto simp: list_active_memories_def dest!: in_set_takeD)

lemma candidate_facts:
  assumes "m \<in> set (candidates q db)"
  shows "m \<in> set (db_memories db) \<and> mem_state m \<noteq> MemoryState.Deleted \<and>
    (\<forall>ss. mq_scopes q = Some ss \<longrightarrow> mem_scope m \<in> set ss) \<and> (\<forall>x. mq_scope_id q = Some x \<longrightarrow> mem_scope_id m = Some x)"
  using assms by (auto simp: candidates_def list_by_scope_mem dest!: list_active_mem split: option.splits)

text \<open>A search returns at most the number of memories asked for, the best first, each a memory
of the scopes, states and tags asked for, never a deleted one, with its score; a candidate left
out has no better score than any returned one. Nothing in the store changes but the marks of
access.\<close>

theorem search_best:
  assumes "search_memories mm q db = (db', Ok found)"
  shows "\<exists>v. query_vector mm q = Ok v \<and> length found \<le> mq_limit q \<and> sorted (map (\<lambda>s. - sm_total_score s) found) \<and>
    (\<forall>s \<in> set found. \<exists>m \<in> set (db_memories db). s = scored mm q v m \<and> mem_state m \<noteq> MemoryState.Deleted \<and>
       state_wanted q m \<and> tags_wanted q m \<and> score_wanted q s \<and>
       (\<forall>ss. mq_scopes q = Some ss \<longrightarrow> mem_scope m \<in> set ss) \<and> (\<forall>x. mq_scope_id q = Some x \<longrightarrow> mem_scope_id m = Some x)) \<and>
    (\<forall>m \<in> set (candidates q db). state_wanted q m \<and> tags_wanted q m \<and> score_wanted q (scored mm q v m) \<longrightarrow>
       scored mm q v m \<in> set found \<or>
       length found = mq_limit q \<and> (\<forall>s \<in> set found. sm_total_score (scored mm q v m) \<le> sm_total_score s)) \<and>
    only_read db db'"
proof -
  obtain v where v: "query_vector mm q = Ok v" and f: "found = take (mq_limit q) (ranked mm q v db)"
    and db': "db' = fold (\<lambda>s. record_access mm (mem_id (sm_record s))) found db"
    using assms by (auto simp: search_memories_def Let_def split: result.splits)
  let ?all = "ranked mm q v db" and ?left = "drop (mq_limit q) (ranked mm q v db)"
  have split: "?all = found @ ?left" by (simp add: f)
  have "sorted (map (\<lambda>s. - sm_total_score s) ?all)" by (simp add: ranked_def)
  then have order: "sorted (map (\<lambda>s. - sm_total_score s) found)"
    "\<forall>s \<in> set found. \<forall>t \<in> set ?left. sm_total_score t \<le> sm_total_score s"
    by (subst (asm) split; force simp: sorted_append)+
  have mem: "s \<in> set ?all \<longleftrightarrow> (\<exists>m \<in> set (candidates q db). s = scored mm q v m \<and> state_wanted q m \<and> tags_wanted q m \<and> score_wanted q s)" for s
    by (auto simp: ranked_def)
  have "\<exists>m \<in> set (db_memories db). s = scored mm q v m \<and> mem_state m \<noteq> MemoryState.Deleted \<and>
       state_wanted q m \<and> tags_wanted q m \<and> score_wanted q s \<and>
       (\<forall>ss. mq_scopes q = Some ss \<longrightarrow> mem_scope m \<in> set ss) \<and> (\<forall>x. mq_scope_id q = Some x \<longrightarrow> mem_scope_id m = Some x)"
    if s: "s \<in> set found" for s
  proof -
    obtain m where "m \<in> set (candidates q db)" "s = scored mm q v m" "state_wanted q m" "tags_wanted q m" "score_wanted q s"
      using s mem in_set_takeD [of s] unfolding f by blast
    then show ?thesis using candidate_facts by blast
  qed
  moreover have "scored mm q v m \<in> set found \<or>
       length found = mq_limit q \<and> (\<forall>s \<in> set found. sm_total_score (scored mm q v m) \<le> sm_total_score s)"
    if m: "m \<in> set (candidates q db)" "state_wanted q m \<and> tags_wanted q m \<and> score_wanted q (scored mm q v m)" for m
  proof (cases "scored mm q v m \<in> set found")
    case False
    have "scored mm q v m \<in> set ?all" using m mem by blast
    then have left: "scored mm q v m \<in> set ?left" using False by (subst (asm) split) simp
    then have "length found = mq_limit q" by (cases "mq_limit q < length ?all") (auto simp: f)
    then show ?thesis using left order(2) by blast
  qed simp
  ultimately show ?thesis using v order(1) accesses_only_read by (intro exI [of _ v]) (simp add: db' f)
qed

section \<open>Superseding\<close>

text \<open>C40: Superseding a memory stores one new active memory of the same scope under a new
identifier and makes the old one superseded by it, whatever its state was; every other memory
stays as it is.\<close>

theorem supersede_links:
  assumes "supersede_memory mm i source content importance provenance metadata db = (db', Ok (old, new))"
  shows "get_memory (mem_id new) db = None \<and> get_memory (mem_id new) db' = Some new \<and>
    mem_state new = MemoryState.Active \<and> mem_content new = content \<and>
    (\<exists>m0 m1. get_memory i db = Some m0 \<and> get_memory i db' = Some m1 \<and> mem_scope new = mem_scope m0 \<and>
       mem_scope_id new = mem_scope_id m0 \<and> mem_state m1 = MemoryState.Superseded \<and> mem_superseded_by m1 = Some (mem_id new) \<and>
       mem_content m1 = mem_content m0) \<and>
    (\<forall>j. j \<noteq> i \<and> j \<noteq> mem_id new \<longrightarrow> get_memory j db' = get_memory j db)"
proof -
  obtain m v db1 where m: "get_memory i db = Some m" and v: "mm_embed mm content = Ok v"
    and new: "new = (MemoryRecord_new (fresh_id (map mem_id (db_memories db))) (mm_now mm) (mem_scope m) source content)
        \<lparr>mem_scope_id := mem_scope_id m, mem_importance := clamp_single 0 single_one importance,
         mem_provenance := provenance, mem_metadata := metadata, mem_embedding := Some v\<rparr>"
    and saved: "save_memory new db = (db1, Ok ())"
    and old: "old = MemoryRecord_supersede_with (mm_now mm) (mem_id new) m" and upd: "update_memory old db1 = (db', Ok ())"
    using assms by (auto simp: supersede_memory_def mm_get_memory_def create_memory_def mm_store_def Let_def st_then_Ok map_err_eq_Ok
        split: result.splits option.splits prod.splits)
  have db1: "db1 = db\<lparr>db_memories := db_memories db @ [new]\<rparr>" and absent: "get_memory (mem_id new) db = None"
    using saved by (auto simp: save_memory_def get_memory_def tbl_get_None split: if_splits)
  have get1: "get_memory j db1 = (if j = mem_id new then Some new else get_memory j db)" for j
    using absent by (auto simp: db1 get_memory_def tbl_get_append split: option.split)
  have ne: "i \<noteq> mem_id new" using m absent by auto
  have id: "mem_id old = i" using get_memory_id [OF m] by (simp add: old MemoryRecord_supersede_with_def)
  have "db' = db1\<lparr>db_memories := tbl_modify mem_id i (\<lambda>r. old\<lparr>mem_created_at := mem_created_at r\<rparr>) (db_memories db1)\<rparr>"
    using upd update_memory_Ok [of i db1 m old] id get1 ne m by simp
  then have get2: "get_memory j db' = (if j = i then map_option (\<lambda>r. old\<lparr>mem_created_at := mem_created_at r\<rparr>) (get_memory j db1)
      else get_memory j db1)" for j
    using get_memory_modify [of "\<lambda>r. old\<lparr>mem_created_at := mem_created_at r\<rparr>" i j db1] id by simp
  show ?thesis
    using absent ne m by (simp add: get2 get1) (simp add: new old MemoryRecord_new_def MemoryRecord_supersede_with_def)
qed

section \<open>Two memories\<close>

definition plain_arithmetic :: Arithmetic where
  "plain_arithmetic = \<lparr>ar_norm = (\<lambda>v. single_one), ar_scale = (\<lambda>n v. v), ar_cosine = (\<lambda>a b. single_one),
     ar_decay = (\<lambda>s h. 0), ar_total = (\<lambda>w a b c. b)\<rparr>"

definition plain_manager :: MemoryManager where
  "plain_manager = \<lparr>mm_now = 9, mm_arithmetic = plain_arithmetic, mm_embed = (\<lambda>t. Ok [single_one]),
     mm_default_weights = ScoringWeights_default\<rparr>"

definition two_memories :: Db where
  "two_memories = fst (create_memory plain_manager MemoryScope.Task None ''s'' ''second'' 2 MemoryProvenance_default JNull
     (fst (create_memory plain_manager MemoryScope.Task None ''s'' ''first'' 1 MemoryProvenance_default JNull db_empty)))"

definition best_query :: MemoryQuery where
  "best_query = MemoryQuery_default\<lparr>mq_text := Some ''x'', mq_scopes := Some [MemoryScope.Task], mq_limit := 1\<rparr>"

lemma search_runs: "(case snd (search_memories plain_manager best_query two_memories) of Ok f \<Rightarrow> map (mem_content \<circ> sm_record) f | Err e \<Rightarrow> []) = [''second'']"
  by code_simp

theorem search_best_witness:
  "\<exists>f. snd (search_memories plain_manager best_query two_memories) = Ok f \<and> length f \<le> 1 \<and>
     only_read two_memories (fst (search_memories plain_manager best_query two_memories))"
proof -
  obtain db' f where run: "search_memories plain_manager best_query two_memories = (db', Ok f)"
    using search_runs by (cases "search_memories plain_manager best_query two_memories") (auto split: result.splits)
  have "mq_limit best_query = 1" by (simp add: best_query_def)
  then show ?thesis using search_best [OF run] by (auto simp: run)
qed

lemma supersede_runs: "is_ok (snd (supersede_memory plain_manager 1 ''s'' ''third'' 1 MemoryProvenance_default JNull two_memories))"
  by code_simp

theorem supersede_links_witness:
  "\<exists>m. get_memory 1 (fst (supersede_memory plain_manager 1 ''s'' ''third'' 1 MemoryProvenance_default JNull two_memories)) = Some m \<and>
     mem_state m = MemoryState.Superseded"
proof -
  obtain db' o1 n where run: "supersede_memory plain_manager 1 ''s'' ''third'' 1 MemoryProvenance_default JNull two_memories = (db', Ok (o1, n))"
    using supersede_runs by (cases "supersede_memory plain_manager 1 ''s'' ''third'' 1 MemoryProvenance_default JNull two_memories";
      cases "snd (supersede_memory plain_manager 1 ''s'' ''third'' 1 MemoryProvenance_default JNull two_memories)") auto
  show ?thesis unfolding run using supersede_links [OF run] by auto
qed

end
