(* ===== verification/Api_Routes.thy ===== *)
theory Api_Routes
  imports Memory_Engine Tools Workflow_Executor Mission_Acceptance Governance
begin

text \<open>The authentication of the HTTP server: the tokens (state.rs of plexis-server) and the middleware
in front of every handler, which reads the path, the query and the authorization header of a
request. Then the handlers of plexis-server/src/routes.rs that change workflows, tasks, agents, messages,
commands, approvals and workspaces. A handler reads its identifier from the path of the request. A server is its store
and the executions it has spawned; an execution runs concurrently, as its own rounds. The
metadata of a version control system, which a workspace of the model does not hold, is left out.\<close>

section \<open>Tokens\<close>

fun differences :: "8 word list \<Rightarrow> 8 word list \<Rightarrow> 8 word" where
  "differences (x # xs) (y # ys) = or (xor x y) (differences xs ys)"
| "differences xs ys = 0"

definition constant_time_eq :: "string \<Rightarrow> string \<Rightarrow> bool" where
  "constant_time_eq a b =
    (let x = as_bytes a; y = as_bytes b in length x = length y \<and> differences x y = 0)"

definition active_tokens :: "string \<Rightarrow> string list" where
  "active_tokens spec = filter (\<lambda>t. t \<noteq> []) (map str_trim (split_on '','' spec))"

definition is_authorized_token :: "string option \<Rightarrow> string \<Rightarrow> bool" where
  "is_authorized_token spec candidate =
    (case spec of None \<Rightarrow> True | Some s \<Rightarrow> list_ex (constant_time_eq candidate) (active_tokens s))"

section \<open>The middleware\<close>

record HttpRequest =
  hq_path :: string
  hq_query :: "string option"
  hq_authorization :: "string option"

definition exempt_path :: "string \<Rightarrow> bool" where
  "exempt_path path =
    (path = ''/health'' \<or> path = ''/api/v1/health'' \<or> path = ''/api/v1/system/status'' \<or> path = ''/api/v1/auth/status'' \<or>
     \<not> starts_with ''/api/'' path)"

definition strip_prefix :: "string \<Rightarrow> string \<Rightarrow> string option" where
  "strip_prefix p s = (if prefix p s then Some (drop (length p) s) else None)"

definition header_token :: "HttpRequest \<Rightarrow> string option" where
  "header_token rq = map_option str_trim (Option.bind (hq_authorization rq) (strip_prefix ''Bearer ''))"

definition query_tokens :: "HttpRequest \<Rightarrow> string list" where
  "query_tokens rq =
    (case hq_query rq of
       None \<Rightarrow> []
     | Some q \<Rightarrow> List.map_filter
         (\<lambda>p. case split_once ''='' p of Some (k, v) \<Rightarrow> if k = ''token'' then Some v else None | None \<Rightarrow> None)
         (split_on ''&'' q))"

text \<open>Whether the request goes on to its handler; otherwise the answer is 401.\<close>

definition auth_middleware :: "string option \<Rightarrow> HttpRequest \<Rightarrow> bool" where
  "auth_middleware auth_token rq =
    (if exempt_path (hq_path rq) then True
     else if auth_token = None then True
     else (case header_token rq of Some t \<Rightarrow> is_authorized_token auth_token t | None \<Rightarrow> False) \<or>
       list_ex (is_authorized_token auth_token) (query_tokens rq))"

section \<open>Equality of tokens\<close>

lemma as_bytes_simps [simp]: "as_bytes [] = []" "as_bytes (c # s) = utf8_bytes c @ as_bytes s"
  by (simp_all add: as_bytes_def)

lemma of_nat_byte_inj: "m < 256 \<Longrightarrow> n < 256 \<Longrightarrow> (of_nat m :: 8 word) = of_nat n \<longleftrightarrow> m = n"
proof -
  assume "m < 256" "n < 256"
  then have "unat (of_nat m :: 8 word) = m" "unat (of_nat n :: 8 word) = n" by (simp_all add: unat_of_nat)
  then show ?thesis by metis
qed

lemma char_code_less: "(of_char c :: nat) < 256"
  using nat_of_char_less_256 [of c] by simp

text \<open>The encoding of a character tells where it ends and which character it is.\<close>

lemma utf8_bytes_inj:
  assumes "utf8_bytes c @ u = utf8_bytes d @ v"
  shows "c = d \<and> u = v"
proof -
  let ?m = "of_char c :: nat" and ?n = "of_char d :: nat"
  have less: "?m < 256" "?n < 256" by (rule char_code_less)+
  have "?m = ?n \<and> u = v"
  proof (cases "?m < 128"; cases "?n < 128")
    assume "?m < 128" "?n < 128"
    then show ?thesis using assms less by (simp add: utf8_bytes_def of_nat_byte_inj)
  next
    assume c: "?m < 128" "\<not> ?n < 128"
    then have "(of_nat ?m :: 8 word) = of_nat (192 + ?n div 64)" using assms by (simp add: utf8_bytes_def Let_def)
    moreover have "192 + ?n div 64 < 256" using less_mult_imp_div_less [of ?n 4 64] less by simp
    ultimately have "?m = 192 + ?n div 64" using less of_nat_byte_inj by blast
    then show ?thesis using c by simp
  next
    assume c: "\<not> ?m < 128" "?n < 128"
    then have "(of_nat (192 + ?m div 64) :: 8 word) = of_nat ?n" using assms by (simp add: utf8_bytes_def Let_def)
    moreover have "192 + ?m div 64 < 256" using less_mult_imp_div_less [of ?m 4 64] less by simp
    ultimately have "192 + ?m div 64 = ?n" using less of_nat_byte_inj by blast
    then show ?thesis using c by simp
  next
    assume c: "\<not> ?m < 128" "\<not> ?n < 128"
    then have e: "(of_nat (192 + ?m div 64) :: 8 word) = of_nat (192 + ?n div 64)"
      "(of_nat (128 + ?m mod 64) :: 8 word) = of_nat (128 + ?n mod 64)" "u = v"
      using assms by (simp_all add: utf8_bytes_def Let_def)
    have "192 + ?m div 64 < 256" "192 + ?n div 64 < 256" "128 + ?m mod 64 < 256" "128 + ?n mod 64 < 256"
      using less_mult_imp_div_less [of ?m 4 64] less_mult_imp_div_less [of ?n 4 64] less
        mod_less_divisor [of 64 ?m] mod_less_divisor [of 64 ?n] by linarith+
    then have "192 + ?m div 64 = 192 + ?n div 64" "128 + ?m mod 64 = 128 + ?n mod 64"
      using e(1,2) of_nat_byte_inj by blast+
    then have "?m div 64 = ?n div 64" "?m mod 64 = ?n mod 64" by simp_all
    then show ?thesis using e(3) by (metis div_mult_mod_eq)
  qed
  then show ?thesis by simp
qed

lemma utf8_bytes_nonempty: "utf8_bytes c \<noteq> []"
  by (simp add: utf8_bytes_def Let_def)

lemma as_bytes_inj: "as_bytes a = as_bytes b \<longleftrightarrow> a = b"
proof (induction a arbitrary: b)
  case Nil
  show ?case by (cases b) (auto simp: utf8_bytes_nonempty)
next
  case (Cons c a)
  show ?case
  proof (cases b)
    case (Cons d b')
    then show ?thesis using Cons.IH utf8_bytes_inj [of c "as_bytes a" d "as_bytes b'"] by auto
  qed (simp add: utf8_bytes_nonempty)
qed

lemma differences_zero: "length x = length y \<Longrightarrow> differences x y = 0 \<longleftrightarrow> x = y"
proof (induction x y rule: list_induct2)
  case (Cons x xs y ys)
  have "xor x y = 0 \<longleftrightarrow> x = y"
    by (metis bit.xor_left_self xor.assoc xor.comm_neutral xor_self_eq)
  then show ?case using Cons.IH by (simp add: or_eq_0_iff)
qed simp

theorem constant_time_eq_iff [simp]: "constant_time_eq a b \<longleftrightarrow> a = b"
  by (auto simp: constant_time_eq_def Let_def differences_zero as_bytes_inj)

section \<open>Handlers\<close>

record Api =
  as_db :: Db
  as_spawned :: "ident list"

type_synonym 'a handler = "(Api, 'a, api_error) op"

definition api_db :: "(Db, 'a, StorageError) op \<Rightarrow> 'a handler" where
  "api_db m s = (case m (as_db s) of (db, r) \<Rightarrow>
     (s\<lparr>as_db := db\<rparr>, map_err (\<lambda>e. (INTERNAL_SERVER_ERROR, storage_display e)) r))"

definition api_emit :: "time \<Rightarrow> string \<Rightarrow> ident \<Rightarrow> string \<Rightarrow> Api \<Rightarrow> Api" where
  "api_emit now ty i event_type s = s\<lparr>as_db := emit_event now ty i event_type (as_db s)\<rparr>"

definition api_id :: "string \<Rightarrow> string \<Rightarrow> (ident, api_error) result" where
  "api_id what s = ok_or (BAD_REQUEST, ''Invalid '' @ what @ '' id: '' @ s) (parse_ident s)"

definition api_found :: "string \<Rightarrow> ident \<Rightarrow> 'a option \<Rightarrow> ('a, api_error) result" where
  "api_found what i x = ok_or (NOT_FOUND, what @ '' '' @ decimal i @ '' not found'') x"

definition api_pure :: "('a, api_error) result \<Rightarrow> 'a handler" where
  "api_pure r s = (s, r)"

definition api_workflow :: "string \<Rightarrow> Workflow handler" where
  "api_workflow id_str s =
    (s, and_then (api_id ''workflow'' id_str) (\<lambda>i. api_found ''Workflow'' i (get_workflow i (as_db s))))"

definition spawn_workflow_execution :: "ident \<Rightarrow> Api \<Rightarrow> Api" where
  "spawn_workflow_execution i s = s\<lparr>as_spawned := as_spawned s @ [i]\<rparr>"

section \<open>Workflows\<close>

record CreateWorkflowRequest =
  cw_title :: string
  cw_objective :: string
  cw_workspace_id :: "ident option"
  cw_auto_plan :: "bool option"
  cw_auto_start :: "bool option"
  cw_constraints :: "string option"
  cw_backend :: "string option"
  cw_metadata :: "json option"

definition workflow_metadata :: "CreateWorkflowRequest \<Rightarrow> json \<Rightarrow> (json, api_error) result" where
  "workflow_metadata rq fresh =
    (let meta = (case cw_metadata rq of Some m \<Rightarrow> m | None \<Rightarrow> fresh) in
     and_then (case cw_constraints rq of Some c \<Rightarrow> json_index_set ''constraints'' (JStr c) meta | None \<Rightarrow> Ok meta)
       (\<lambda>meta. case cw_backend rq of
          Some b \<Rightarrow> json_index_set ''backend'' (JStr b) meta
        | None \<Rightarrow> if json_get ''backend'' meta = None then json_index_set ''backend'' (JStr ''gemini_cli'') meta else Ok meta))"

definition api_plan :: "ExecutorEnv \<Rightarrow> Workflow \<Rightarrow> Api \<Rightarrow> Api \<times> (PlanProposal, string) result" where
  "api_plan env w s = (case plan_workflow_objective env w (as_db s) of (db, r) \<Rightarrow> (s\<lparr>as_db := db\<rparr>, r))"

definition create_workflow_route :: "ExecutorEnv \<Rightarrow> CreateWorkflowRequest \<Rightarrow> Workflow handler" where
  "create_workflow_route env rq s =
    (if str_trim (cw_title rq) = [] then (s, Err (BAD_REQUEST, ''Workflow title cannot be empty''))
     else if str_trim (cw_objective rq) = [] then (s, Err (BAD_REQUEST, ''Workflow objective cannot be empty''))
     else
       (let w = Workflow_new (fresh_id (map w_id (db_workflows (as_db s)))) (ex_now env) (cw_title rq) (cw_objective rq);
            w1 = w\<lparr>w_workspace_id := (case cw_workspace_id rq of Some i \<Rightarrow> Some i | None \<Rightarrow> w_workspace_id w)\<rparr> in
        st_then (api_pure (workflow_metadata rq (w_metadata w1)))
          (\<lambda>meta. let w2 = w1\<lparr>w_metadata := meta\<rparr> in
             st_then (api_db (create_workflow w2))
               (\<lambda>_ s. let s1 = (if cw_auto_plan rq \<noteq> Some False then fst (api_plan env w2 s) else s) in
                  (if cw_auto_start rq = Some True then spawn_workflow_execution (w_id w2) s1 else s1, Ok w2))) s))"

definition plan_workflow_route :: "ExecutorEnv \<Rightarrow> string \<Rightarrow> PlanProposal handler" where
  "plan_workflow_route env id_str =
    st_then (api_workflow id_str) (\<lambda>w s.
      case api_plan env w s of (s1, r) \<Rightarrow> (s1, map_err (\<lambda>e. (BAD_REQUEST, e)) r))"

definition start_workflow_route :: "ExecutorEnv \<Rightarrow> string \<Rightarrow> Workflow handler" where
  "start_workflow_route env id_str =
    st_then (api_workflow id_str) (\<lambda>w s.
      let s1 = (if list_tasks_by_workflow (w_id w) (as_db s) = [] then fst (api_plan env w s) else s) in
      if w_state w = WorkflowState.Draft \<or> w_state w = WorkflowState.Paused
      then let w1 = w\<lparr>w_state := (case WorkflowState_transition_to (w_state w) WorkflowState.Active of
               Ok st \<Rightarrow> st | Err _ \<Rightarrow> w_state w)\<rparr> in
        st_then (api_db (update_workflow w1)) (\<lambda>_ s. (spawn_workflow_execution (w_id w) s, Ok w1)) s1
      else (spawn_workflow_execution (w_id w) s1, Ok w))"

text \<open>Pause, resume and cancel: the transition, the row, what follows, the event.\<close>

definition workflow_transition :: "time \<Rightarrow> WorkflowState \<Rightarrow> string \<Rightarrow> (ident \<Rightarrow> Api \<Rightarrow> Api) \<Rightarrow> string \<Rightarrow> Workflow handler" where
  "workflow_transition now target event_type andthen id_str =
    st_then (api_workflow id_str) (\<lambda>w.
      st_then (api_pure (map_err (\<lambda>e. (CONFLICT, transition_display e)) (WorkflowState_transition_to (w_state w) target))) (\<lambda>st.
        let w1 = w\<lparr>w_state := st\<rparr> in
        st_then (api_db (update_workflow w1))
          (\<lambda>_ s. (api_emit now ''workflow'' (w_id w) event_type (andthen (w_id w) s), Ok w1))))"

definition pause_workflow :: "time \<Rightarrow> string \<Rightarrow> Workflow handler" where
  "pause_workflow now = workflow_transition now WorkflowState.Paused ''workflow.paused'' (\<lambda>i s. s)"

definition resume_workflow :: "time \<Rightarrow> string \<Rightarrow> Workflow handler" where
  "resume_workflow now = workflow_transition now WorkflowState.Active ''workflow.resumed'' spawn_workflow_execution"

definition cancel_workflow :: "time \<Rightarrow> string \<Rightarrow> Workflow handler" where
  "cancel_workflow now = workflow_transition now WorkflowState.Cancelled ''workflow.cancelled'' (\<lambda>i s. s)"

section \<open>Tasks and agents\<close>

definition reassign_task :: "time \<Rightarrow> string \<Rightarrow> string \<Rightarrow> Task handler" where
  "reassign_task now id_str agent_str =
    st_then (api_pure (api_id ''task'' id_str)) (\<lambda>i.
    st_then (api_pure (api_id ''agent'' agent_str)) (\<lambda>a.
    st_then (\<lambda>s. (s, api_found ''Task'' i (db_get_task i (as_db s)))) (\<lambda>t.
      let t1 = t\<lparr>t_assigned_agent_id := Some a\<rparr> in
      st_then (api_db (update_task t1)) (\<lambda>_ s. (api_emit now ''task'' i ''task.reassigned'' s, Ok t1)))))"

definition set_agent_state :: "time \<Rightarrow> AgentState \<Rightarrow> string \<Rightarrow> string \<Rightarrow> Agent handler" where
  "set_agent_state now st event_type id_str =
    st_then (api_pure (api_id ''agent'' id_str)) (\<lambda>i.
    st_then (\<lambda>s. (s, api_found ''Agent'' i (get_agent i (as_db s)))) (\<lambda>a.
      let a1 = a\<lparr>a_state := st\<rparr> in
      st_then (api_db (update_agent a1)) (\<lambda>_ s. (api_emit now ''agent'' i event_type s, Ok a1))))"

definition pause_agent :: "time \<Rightarrow> string \<Rightarrow> Agent handler" where
  "pause_agent now = set_agent_state now AgentState.Paused ''agent.paused''"

definition resume_agent :: "time \<Rightarrow> string \<Rightarrow> Agent handler" where
  "resume_agent now = set_agent_state now AgentState.Idle ''agent.resumed''"

definition cancel_agent :: "time \<Rightarrow> string \<Rightarrow> Agent handler" where
  "cancel_agent now = set_agent_state now AgentState.Terminated ''agent.cancelled''"

section \<open>Messages and commands\<close>

record SendAgentMessageRequest =
  sq_content :: string
  sq_message_type :: "string option"
  sq_workflow_id :: "string option"
  sq_task_id :: "string option"

definition message_type_of :: "string option \<Rightarrow> MessageType" where
  "message_type_of t =
    (if t = Some ''request'' then MessageType.Request
     else if t = Some ''question'' then MessageType.Question
     else if t = Some ''warning'' then MessageType.Warning
     else if t = Some ''review'' then MessageType.Review
     else if t = Some ''proposal'' then MessageType.Proposal
     else MessageType.Result)"

text \<open>Without a workflow in the request the newest one takes the message, or a new one.\<close>

definition message_workflow :: "time \<Rightarrow> SendAgentMessageRequest \<Rightarrow> ident handler" where
  "message_workflow now rq s =
    (case sq_workflow_id rq of
       Some w \<Rightarrow> if str_trim w \<noteq> [] then (s, api_id ''workflow'' w)
         else (case list_workflows (as_db s) of
             wk # _ \<Rightarrow> (s, Ok (w_id wk))
           | [] \<Rightarrow> (let d = Workflow_new (fresh_id (map w_id (db_workflows (as_db s)))) now ''System Workflow'' ''Default operator messaging workflow''
               in (fst (api_db (create_workflow d) s), Ok (w_id d))))
     | None \<Rightarrow> (case list_workflows (as_db s) of
             wk # _ \<Rightarrow> (s, Ok (w_id wk))
           | [] \<Rightarrow> (let d = Workflow_new (fresh_id (map w_id (db_workflows (as_db s)))) now ''System Workflow'' ''Default operator messaging workflow''
               in (fst (api_db (create_workflow d) s), Ok (w_id d)))))"

definition send_agent_message :: "time \<Rightarrow> string \<Rightarrow> SendAgentMessageRequest \<Rightarrow> AgentMessage handler" where
  "send_agent_message now id_str rq =
    st_then (api_pure (api_id ''agent'' id_str)) (\<lambda>i.
    st_then (message_workflow now rq) (\<lambda>w s.
      let task = (case sq_task_id rq of Some t \<Rightarrow> if str_trim t \<noteq> [] then parse_ident t else None | None \<Rightarrow> None);
          m = (AgentMessage_new (fresh_id (map msg_id (db_messages (as_db s)))) now (fresh_id (map a_id (db_agents (as_db s)))) i w
            (message_type_of (sq_message_type rq)) (sq_content rq))\<lparr>msg_task_id := task\<rparr> in
      st_then (api_db (send_message m)) (\<lambda>_ s. (api_emit now ''message'' (msg_id m) ''message.sent'' s, Ok m)) s))"

definition enqueue_command_route :: "Command \<Rightarrow> Command handler" where
  "enqueue_command_route c s =
    (if str_trim (c_idempotency_key c) = [] then (s, Err (BAD_REQUEST, ''Command idempotency_key cannot be empty''))
     else (case enqueue_command c (as_db s) of
         (db, Ok _) \<Rightarrow> (s\<lparr>as_db := db\<rparr>, Ok c)
       | (db, Err e) \<Rightarrow> (s\<lparr>as_db := db\<rparr>,
           Err (case e of IdempotencyConflict k \<Rightarrow> (CONFLICT, ''Command with this idempotency key already exists'')
                | _ \<Rightarrow> (INTERNAL_SERVER_ERROR, storage_display e)))))"

section \<open>Approvals\<close>

definition list_approvals_route :: "string option \<Rightarrow> Db \<Rightarrow> ApprovalRecord list" where
  "list_approvals_route status db =
    (case status of
       None \<Rightarrow> list_pending_approvals db
     | Some st \<Rightarrow>
         if eq_ignore_ascii_case st ''all'' then list_all_approvals db
         else if eq_ignore_ascii_case st ''pending'' then list_pending_approvals db
         else filter (\<lambda>a. eq_ignore_ascii_case (ApprovalState_as_str (ap_state a)) st) (list_all_approvals db))"

definition create_approval_gate :: "time \<Rightarrow> ident \<Rightarrow> ident \<Rightarrow> string \<Rightarrow> string option \<Rightarrow> ApprovalRecord handler" where
  "create_approval_gate now workflow_id task_id descr why s =
    (let a = ApprovalRecord_new (fresh_id (map ap_id (db_approvals (as_db s)))) now task_id workflow_id descr;
         a1 = (case why of Some r \<Rightarrow> a\<lparr>ap_reason := Some r\<rparr> | None \<Rightarrow> a) in
     st_then (api_db (create_approval a1)) (\<lambda>_ s. (api_emit now ''approval'' (ap_id a1) ''approval.gate_requested'' s, Ok a1)) s)"

definition api_approval :: "string \<Rightarrow> ApprovalRecord handler" where
  "api_approval id_str s =
    (s, and_then (api_id ''approval'' id_str) (\<lambda>i. api_found ''Approval'' i (get_approval i (as_db s))))"

text \<open>A task that waits for a human goes on: ready and unassigned, or failed.\<close>

definition settle_task :: "time \<Rightarrow> bool \<Rightarrow> ident \<Rightarrow> Db \<Rightarrow> Db" where
  "settle_task now approved i db =
    (case db_get_task i db of
       None \<Rightarrow> db
     | Some t \<Rightarrow>
         if t_state t = TaskState.NeedsHuman
         then fst (update_task (task_after_decision now approved t) db)
         else db)"

definition decide_gate ::
  "time \<Rightarrow> bool \<Rightarrow> (ApprovalRecord \<Rightarrow> (ApprovalRecord, StateTransitionError) result) \<Rightarrow> string \<Rightarrow> ApprovalRecord handler" where
  "decide_gate now approved decision id_str =
    st_then (api_approval id_str) (\<lambda>a.
    st_then (api_pure (map_err (\<lambda>e. (CONFLICT, transition_display e)) (decision a))) (\<lambda>a1.
    st_then (api_db (update_approval a1)) (\<lambda>_ s.
      (api_emit now ''approval'' (ap_id a1) ''approval.gate_decided''
         (s\<lparr>as_db := settle_task now approved (ap_task_id a1) (as_db s)\<rparr>), Ok a1))))"

definition approve_gate :: "time \<Rightarrow> string \<Rightarrow> string option \<Rightarrow> ApprovalRecord handler" where
  "approve_gate now id_str note = decide_gate now True (ApprovalRecord_approve now note) id_str"

definition reject_gate :: "time \<Rightarrow> string \<Rightarrow> string option \<Rightarrow> ApprovalRecord handler" where
  "reject_gate now id_str note =
    decide_gate now False
      (ApprovalRecord_reject now (Some (case note of Some n \<Rightarrow> n | None \<Rightarrow> ''Rejected by operator''))) id_str"

section \<open>Workspaces and retention\<close>

record CreateWorkspacePayload =
  wp_name :: string
  wp_canonical_path :: string
  wp_description :: "string option"
  wp_is_default :: "bool option"
  wp_security_policy :: "WorkspaceSecurityPolicy option"

definition create_workspace_route :: "time \<Rightarrow> CreateWorkspacePayload \<Rightarrow> Workspace handler" where
  "create_workspace_route now rq s =
    (if str_trim (wp_name rq) = [] then (s, Err (BAD_REQUEST, ''Workspace name cannot be empty''))
     else if str_trim (wp_canonical_path rq) = [] then (s, Err (BAD_REQUEST, ''Workspace canonical_path cannot be empty''))
     else
       (let w = Workspace_new (fresh_id (map ws_id (db_workspaces (as_db s)))) now (wp_name rq) (wp_canonical_path rq);
            w1 = w\<lparr>ws_metadata := JObj
              ((case wp_description rq of Some d \<Rightarrow> [(''description'', JStr d)] | None \<Rightarrow> []) @
               (case wp_is_default rq of Some b \<Rightarrow> [(''is_default'', JBool b)] | None \<Rightarrow> []))\<rparr>;
            w2 = (case wp_security_policy rq of Some p \<Rightarrow> w1\<lparr>ws_policy := p\<rparr> | None \<Rightarrow> w1) in
        st_then (api_db (create_workspace w2)) (\<lambda>_ s. (api_emit now ''workspace'' (ws_id w2) ''workspace.created'' s, Ok w2)) s))"

definition update_workspace_route ::
  "time \<Rightarrow> string \<Rightarrow> string option \<Rightarrow> string option \<Rightarrow> WorkspaceSecurityPolicy option \<Rightarrow> Workspace handler" where
  "update_workspace_route now id_str name descr security =
    st_then (\<lambda>s. (s, and_then (api_id ''workspace'' id_str) (\<lambda>i. api_found ''Workspace'' i (get_workspace i (as_db s))))) (\<lambda>w.
      let w1 = (case name of Some n \<Rightarrow> if str_trim n \<noteq> [] then w\<lparr>ws_name := n\<rparr> else w | None \<Rightarrow> w);
          w2 = (case descr of Some d \<Rightarrow> w1\<lparr>ws_metadata := json_insert ''description'' (JStr d) (ws_metadata w1)\<rparr> | None \<Rightarrow> w1);
          w3 = (case security of Some p \<Rightarrow> w2\<lparr>ws_policy := p\<rparr> | None \<Rightarrow> w2);
          w4 = w3\<lparr>ws_updated_at := now\<rparr> in
      st_then (api_db (update_workspace w4)) (\<lambda>_ s. (s, Ok w4)))"

definition delete_workspace_route :: "string \<Rightarrow> unit handler" where
  "delete_workspace_route id_str = st_then (api_pure (api_id ''workspace'' id_str)) (\<lambda>i. api_db (delete_workspace i))"

text \<open>The bound is a date the calendar library can hold, or the handler panics. The text system
is the aggregate of the event; it stands as identifier 0.\<close>

definition prune_retention_records :: "(time \<Rightarrow> bool) \<Rightarrow> time \<Rightarrow> int option \<Rightarrow> RetentionPruneReport handler" where
  "prune_retention_records date_ok now max_age_days =
    (let days = (case max_age_days of Some d \<Rightarrow> d | None \<Rightarrow> 30); cutoff = now - days * 86400000 in
     if \<not> date_ok cutoff then api_pure (Err (INTERNAL_SERVER_ERROR, ''panic: date out of range''))
     else st_then (api_db (prune_historical_records cutoff)) (\<lambda>r s. (api_emit now ''retention'' 0 ''retention.pruned'' s, Ok r)))"

end
