(* ===== verification/Api_Properties.thy ===== *)
theory Api_Properties
  imports Api_Routes
begin

text \<open>Which requests pass the authentication of the HTTP server.\<close>

section \<open>Authentication\<close>

text \<open>C31: With a token configured, a request to a path that is not exempt passes exactly when its
bearer header or a token of its query is, in full, one of the comma-separated parts of the
configuration without its surrounding white space; an empty part lets nobody in.\<close>

theorem auth_guards:
  "auth_middleware auth_token rq =
    (exempt_path (hq_path rq) \<or> auth_token = None \<or>
     (\<exists>spec t. auth_token = Some spec \<and> t \<noteq> [] \<and> t \<in> str_trim ` set (split_on '','' spec) \<and>
       (header_token rq = Some t \<or> t \<in> set (query_tokens rq))))"
  by (cases auth_token; cases "header_token rq")
    (auto simp: auth_middleware_def is_authorized_token_def active_tokens_def list_ex_iff)

end
