(* ===== verification/Api_Views.thy ===== *)
theory Api_Views
  imports Api_Routes
begin

text \<open>What a client of the HTTP server reads: the dashboard, the pages of workflows, the graph of
a workflow, the neighbours of a task, the memories of a scope, the stream of events (routes.rs of
plexis-server) and the terminal of a task (terminal.rs). The JSON of a response is the derived
serialisation of its record. Then the execution the server runs in the background for a started
workflow, with the answers its scripted provider has in store: the sleep between two rounds is the
work of other threads, and each round finds the store as they left it.\<close>

section \<open>The dashboard\<close>

record DashboardSummary =
  ds_total_workflows :: nat
  ds_active_workflows :: nat
  ds_running_tasks :: nat
  ds_verified_tasks :: nat
  ds_total_agents :: nat
  ds_busy_agents :: nat
  ds_pending_approvals :: nat
  ds_recent_failures :: nat
  ds_latest_event_sequence :: nat
  ds_workflows :: "Workflow list"
  ds_active_tasks :: "Task list"
  ds_busy_agents_list :: "Agent list"

definition dashboard_active :: "Workflow \<Rightarrow> bool" where
  "dashboard_active w = (w_state w \<in> {WorkflowState.Active, WorkflowState.Draft, WorkflowState.Paused})"

definition dashboard_summary :: "Db \<Rightarrow> DashboardSummary" where
  "dashboard_summary db =
    (let ws = list_workflows db;
         tasks = concat (map (\<lambda>w. list_tasks_by_workflow (w_id w) db) ws);
         active = filter (\<lambda>t. t_state t \<in> {TaskState.Running, TaskState.Assigned}) tasks;
         agents = list_agents db;
         busy = filter (\<lambda>a. a_state a = AgentState.Busy) agents in
     \<lparr>ds_total_workflows = length ws,
      ds_active_workflows = length (filter dashboard_active ws),
      ds_running_tasks = length active,
      ds_verified_tasks = length (filter (\<lambda>t. t_state t = TaskState.Verified) tasks),
      ds_total_agents = length agents,
      ds_busy_agents = length busy,
      ds_pending_approvals = length (list_pending_approvals db),
      ds_recent_failures = length (filter (\<lambda>t. t_state t = TaskState.Failed) tasks),
      ds_latest_event_sequence = get_latest_event_sequence db,
      ds_workflows = ws,
      ds_active_tasks = active,
      ds_busy_agents_list = busy\<rparr>)"

section \<open>Workflows\<close>

definition list_workflows_by_workspace :: "ident \<Rightarrow> Db \<Rightarrow> Workflow list" where
  "list_workflows_by_workspace i db =
    sort_key (\<lambda>w. - w_created_at w) (filter (\<lambda>w. w_workspace_id w = Some i) (db_workflows db))"

record ListWorkflowsQuery =
  lq_status :: "string option"
  lq_workspace_id :: "string option"
  lq_limit :: "nat option"
  lq_offset :: "nat option"

definition list_workflows_route :: "ListWorkflowsQuery \<Rightarrow> Db \<Rightarrow> Workflow list" where
  "list_workflows_route q db =
    (let ws = (case Option.bind (lq_workspace_id q) parse_ident of
           Some i \<Rightarrow> list_workflows_by_workspace i db
         | None \<Rightarrow> list_workflows db);
         kept = (case lq_status q of
           Some st \<Rightarrow> filter (\<lambda>w. eq_ignore_ascii_case (WorkflowState_as_str (w_state w)) st) ws
         | None \<Rightarrow> ws) in
     take (case lq_limit q of Some n \<Rightarrow> n | None \<Rightarrow> 100) (drop (case lq_offset q of Some n \<Rightarrow> n | None \<Rightarrow> 0) kept))"

section \<open>The graph of a workflow\<close>

record GraphNode =
  gn_id :: ident
  gn_title :: string
  gn_objective :: string
  gn_description :: "string option"
  gn_state :: string
  gn_assigned_agent_id :: "ident option"
  gn_assigned_agent_name :: "string option"
  gn_required_capabilities :: "string list"
  gn_priority :: int
  gn_is_runnable :: bool
  gn_is_blocked :: bool
  gn_verifications_count :: nat
  gn_is_verified :: bool

record GraphEdge =
  ge_from :: ident
  ge_to :: ident
  ge_is_satisfied :: bool

record GraphSummary =
  gs_total :: nat
  gs_pending :: nat
  gs_running :: nat
  gs_verified :: nat
  gs_failed :: nat
  gs_blocked :: nat

record WorkflowGraphResponse =
  gr_workflow_id :: ident
  gr_nodes :: "GraphNode list"
  gr_edges :: "GraphEdge list"
  gr_summary :: GraphSummary

text \<open>A map that is filled in order keeps the last entry of a key.\<close>

definition hash_map :: "('a \<times> 'b) list \<Rightarrow> 'a \<Rightarrow> 'b option" where
  "hash_map kvs = map_of (rev kvs)"

definition task_of :: "Task list \<Rightarrow> ident \<Rightarrow> Task option" where
  "task_of tasks = hash_map (map (\<lambda>t. (t_id t, t)) tasks)"

definition graph_node :: "TaskGraph \<Rightarrow> Task list \<Rightarrow> Agent list \<Rightarrow> Db \<Rightarrow> Task \<Rightarrow> GraphNode" where
  "graph_node g tasks agents db t =
    \<lparr>gn_id = t_id t, gn_title = t_objective t, gn_objective = t_objective t, gn_description = t_description t,
     gn_state = TaskState_as_str (t_state t),
     gn_assigned_agent_id = t_assigned_agent_id t,
     gn_assigned_agent_name = Option.bind (t_assigned_agent_id t) (hash_map (map (\<lambda>a. (a_id a, a_display_name a)) agents)),
     gn_required_capabilities = Task_required_capabilities t,
     gn_priority = t_priority t,
     gn_is_runnable = (t_id t \<in> set (find_runnable_tasks g)),
     gn_is_blocked = list_ex (\<lambda>d. case task_of tasks d of Some u \<Rightarrow> \<not> TaskState_is_terminal (t_state u) | None \<Rightarrow> False)
       (direct_dependencies (t_id t) g),
     gn_verifications_count = length (list_verifications_by_task (t_id t) db),
     gn_is_verified = (t_state t = TaskState.Verified)\<rparr>"

definition graph_edges :: "TaskGraph \<Rightarrow> Task list \<Rightarrow> Task \<Rightarrow> GraphEdge list" where
  "graph_edges g tasks t =
    map (\<lambda>d. \<lparr>ge_from = d, ge_to = t_id t,
        ge_is_satisfied = (case task_of tasks d of Some u \<Rightarrow> t_state u = TaskState.Verified | None \<Rightarrow> False)\<rparr>)
      (direct_dependencies (t_id t) g)"

definition count_node :: "GraphNode \<Rightarrow> GraphSummary \<Rightarrow> GraphSummary" where
  "count_node n s =
    (let s1 = (if gn_is_blocked n then s\<lparr>gs_blocked := gs_blocked s + 1\<rparr> else s) in
     if gn_state n = ''Verified'' then s1\<lparr>gs_verified := gs_verified s1 + 1\<rparr>
     else if gn_state n = ''Running'' \<or> gn_state n = ''Assigned'' then s1\<lparr>gs_running := gs_running s1 + 1\<rparr>
     else if gn_state n = ''Failed'' then s1\<lparr>gs_failed := gs_failed s1 + 1\<rparr>
     else s1\<lparr>gs_pending := gs_pending s1 + 1\<rparr>)"

definition get_workflow_graph :: "string \<Rightarrow> Db \<Rightarrow> (WorkflowGraphResponse, api_error) result" where
  "get_workflow_graph id_str db =
    and_then (api_id ''workflow'' id_str) (\<lambda>i.
    and_then (map_err (\<lambda>e. (INTERNAL_SERVER_ERROR, storage_display e)) (load_task_graph i db)) (\<lambda>g.
      let tasks = list_tasks_by_workflow i db;
          nodes = map (graph_node g tasks (list_agents db) db) tasks in
      Ok \<lparr>gr_workflow_id = i, gr_nodes = nodes, gr_edges = concat (map (graph_edges g tasks) tasks),
          gr_summary = fold count_node nodes
            \<lparr>gs_total = length tasks, gs_pending = 0, gs_running = 0, gs_verified = 0, gs_failed = 0, gs_blocked = 0\<rparr>\<rparr>))"

section \<open>Tasks and memories\<close>

record TaskDependenciesResponse =
  td_task_id :: ident
  td_dependencies :: "Task list"
  td_prerequisites :: "Task list"
  td_dependents :: "Task list"

definition get_task_dependencies :: "string \<Rightarrow> Db \<Rightarrow> (TaskDependenciesResponse, api_error) result" where
  "get_task_dependencies id_str db =
    and_then (api_id ''task'' id_str) (\<lambda>i.
      let up = List.map_filter (\<lambda>d. db_get_task d db) (get_dependencies i db);
          down = List.map_filter (\<lambda>d. db_get_task d db) (get_dependents i db) in
      Ok \<lparr>td_task_id = i, td_dependencies = up, td_prerequisites = up, td_dependents = down\<rparr>)"

definition memory_scope_of :: "string \<Rightarrow> MemoryScope option" where
  "memory_scope_of s = map_of
     [(''user'', MemoryScope.User), (''project'', MemoryScope.Project), (''workflow'', MemoryScope.Workflow),
      (''task'', MemoryScope.Task), (''agent'', MemoryScope.Agent), (''session'', MemoryScope.Session),
      (''artifact'', MemoryScope.Artifact), (''system'', MemoryScope.System)] (str_to_lowercase s)"

definition list_memories_route :: "string option \<Rightarrow> nat option \<Rightarrow> Db \<Rightarrow> MemoryRecord list" where
  "list_memories_route scope limit db =
    (case Option.bind scope memory_scope_of of
       Some sc \<Rightarrow> list_memories_by_scope sc None db
     | None \<Rightarrow> list_active_memories None None (case limit of Some n \<Rightarrow> n | None \<Rightarrow> 100) db)"

section \<open>Events\<close>

definition list_recent_events_route :: "nat option \<Rightarrow> string option \<Rightarrow> ident option \<Rightarrow> Db \<Rightarrow> Event list" where
  "list_recent_events_route limit ty agg db =
    (case (ty, agg) of
       (Some t, Some a) \<Rightarrow> list_events_by_aggregate t a db
     | _ \<Rightarrow> list_recent_events (case limit of Some n \<Rightarrow> n | None \<Rightarrow> 50) db)"

definition list_events_cursor :: "nat option \<Rightarrow> nat option \<Rightarrow> Db \<Rightarrow> Event list" where
  "list_events_cursor after limit db =
    list_events_after (case after of Some n \<Rightarrow> n | None \<Rightarrow> 0) (case limit of Some n \<Rightarrow> n | None \<Rightarrow> 500) db"

definition parse_u64 :: "string \<Rightarrow> nat option" where
  "parse_u64 s =
    (let digits = (case s of c # cs \<Rightarrow> if c = CHR ''+'' then cs else s | [] \<Rightarrow> s) in
     Option.bind (if digits = [] then None else digits_value 0 digits) (\<lambda>n. if n < 2 ^ 64 then Some n else None))"

definition stream_start :: "nat option \<Rightarrow> string option \<Rightarrow> nat" where
  "stream_start after last_event_id =
    (case after of
       Some n \<Rightarrow> n
     | None \<Rightarrow> (case Option.bind last_event_id parse_u64 of Some n \<Rightarrow> n | None \<Rightarrow> 0))"

definition event_sequence :: "Event \<Rightarrow> nat" where
  "event_sequence e = (case e_sequence e of Some n \<Rightarrow> n | None \<Rightarrow> 0)"

text \<open>The store sends every event it appends to a broadcast channel with room for a thousand
values (sqlite/store.rs). The channel is a library: what a subscription receives is a parameter,
the values and at last the error of a receiver that has lagged or whose channel was closed.\<close>

definition event_capacity :: nat where
  "event_capacity = 1000"

datatype delivery = Delivered Event | Lagged nat | Closed

text \<open>The live part: of the events the subscription delivers, those beyond the last one seen, up
to its first error.\<close>

fun live_events :: "nat \<Rightarrow> delivery list \<Rightarrow> Event list" where
  "live_events last_seen (Delivered e # ds) =
    (if last_seen < event_sequence e then e # live_events (event_sequence e) ds else live_events last_seen ds)"
| "live_events last_seen _ = []"

text \<open>The events a connection sends: what it replays from the store, and the live ones.\<close>

definition stream_events :: "nat \<Rightarrow> Db \<Rightarrow> delivery list \<Rightarrow> Event list" where
  "stream_events start db ds =
    (let missed = (if 0 < start then list_events_after start 1000 db else []);
         last_seen = fold (\<lambda>e m. if m < event_sequence e then event_sequence e else m) missed start in
     missed @ live_events last_seen ds)"

section \<open>Terminals\<close>

record TerminalLine =
  tl_timestamp :: time
  tl_stream :: string
  tl_line :: string

record TaskTerminal =
  tt_task_id :: ident
  tt_lines :: "TerminalLine list"
  tt_exit_code :: "int option"
  tt_is_completed :: bool

record TerminalBuffer =
  tb_buffers :: "(ident \<times> TaskTerminal) list"
  tb_max_lines_per_task :: nat

definition TerminalBuffer_with_capacity :: "nat \<Rightarrow> TerminalBuffer" where
  "TerminalBuffer_with_capacity n = \<lparr>tb_buffers = [], tb_max_lines_per_task = n\<rparr>"

definition TerminalBuffer_new :: TerminalBuffer where
  "TerminalBuffer_new = TerminalBuffer_with_capacity 5000"

definition TerminalBuffer_get :: "ident \<Rightarrow> TerminalBuffer \<Rightarrow> TaskTerminal option" where
  "TerminalBuffer_get i b = map_of (tb_buffers b) i"

definition terminal_entry :: "ident \<Rightarrow> TerminalBuffer \<Rightarrow> TaskTerminal" where
  "terminal_entry i b =
    (case TerminalBuffer_get i b of
       Some t \<Rightarrow> t
     | None \<Rightarrow> \<lparr>tt_task_id = i, tt_lines = [], tt_exit_code = None, tt_is_completed = False\<rparr>)"

definition put_terminal :: "ident \<Rightarrow> TaskTerminal \<Rightarrow> TerminalBuffer \<Rightarrow> TerminalBuffer" where
  "put_terminal i t b = b\<lparr>tb_buffers := AList.update i t (tb_buffers b)\<rparr>"

definition terminal_lines :: "replacer \<Rightarrow> time \<Rightarrow> string \<Rightarrow> string \<Rightarrow> TerminalLine list" where
  "terminal_lines re now stream raw =
    map (\<lambda>l. \<lparr>tl_timestamp = now, tl_stream = stream, tl_line = l\<rparr>) (str_lines (redact_patterns re raw))"

definition TerminalBuffer_append :: "replacer \<Rightarrow> time \<Rightarrow> ident \<Rightarrow> string \<Rightarrow> string \<Rightarrow> TerminalBuffer \<Rightarrow> TerminalBuffer" where
  "TerminalBuffer_append re now i stream raw b =
    (let t = terminal_entry i b;
         ls = tt_lines t @ terminal_lines re now stream raw;
         kept = (if tb_max_lines_per_task b < length ls then drop (length ls - tb_max_lines_per_task b) ls else ls) in
     put_terminal i (t\<lparr>tt_lines := kept\<rparr>) b)"

definition TerminalBuffer_complete :: "ident \<Rightarrow> int \<Rightarrow> TerminalBuffer \<Rightarrow> TerminalBuffer" where
  "TerminalBuffer_complete i code b =
    put_terminal i ((terminal_entry i b)\<lparr>tt_exit_code := Some code, tt_is_completed := True\<rparr>) b"

definition api_task :: "string \<Rightarrow> Db \<Rightarrow> (Task, api_error) result" where
  "api_task id_str db = and_then (api_id ''task'' id_str) (\<lambda>i. api_found ''Task'' i (db_get_task i db))"

definition get_task_terminal :: "string \<Rightarrow> TerminalBuffer \<Rightarrow> Db \<Rightarrow> (TaskTerminal, api_error) result" where
  "get_task_terminal id_str b db =
    and_then (api_task id_str db) (\<lambda>t.
      Ok (case TerminalBuffer_get (t_id t) b of
          Some term \<Rightarrow> term
        | None \<Rightarrow>
            \<lparr>tt_task_id = t_id t,
             tt_lines = [\<lparr>tl_timestamp = t_updated_at t, tl_stream = ''system'',
               tl_line = ''Task ['' @ t_objective t @ ''] status: '' @ TaskState_as_str (t_state t)\<rparr>],
             tt_exit_code = (if TaskState_is_terminal (t_state t) then Some (if t_state t = TaskState.Verified then 0 else 1) else None),
             tt_is_completed = TaskState_is_terminal (t_state t)\<rparr>))"

definition post_task_terminal ::
  "replacer \<Rightarrow> time \<Rightarrow> string \<Rightarrow> (string \<times> bool) list \<Rightarrow> int option \<Rightarrow> Db \<Rightarrow> (TerminalBuffer, nat, api_error) op" where
  "post_task_terminal re now id_str posted code db b =
    (case api_task id_str db of
       Err e \<Rightarrow> (b, Err e)
     | Ok t \<Rightarrow>
         (let b1 = fold (\<lambda>(line, is_stderr). TerminalBuffer_append re now (t_id t) (if is_stderr then ''stderr'' else ''stdout'') line)
                posted b in
          ((case code of Some c \<Rightarrow> TerminalBuffer_complete (t_id t) c b1 | None \<Rightarrow> b1), Ok (length posted))))"

section \<open>The scripted answers\<close>

definition json_text_fields :: "(string \<times> string) list \<Rightarrow> string" where
  "json_text_fields kvs = ''{'' @ join '','' (map (\<lambda>(k, v). double_quoted k @ '':'' @ v) kvs) @ ''}''"

definition tool_answer :: "string \<Rightarrow> string \<Rightarrow> (string \<times> string) list \<Rightarrow> u32 \<times> u32 \<times> u32 \<Rightarrow> CompletionResponse" where
  "tool_answer i tool args usage =
    \<lparr>cp_message = ChatMessage_with_tools [\<lparr>tl_id = i, tl_name = tool, tl_arguments = json_text_fields args\<rparr>],
     cp_usage = \<lparr>tu_prompt_tokens = fst usage, tu_completion_tokens = fst (snd usage), tu_total_tokens = snd (snd usage)\<rparr>,
     cp_finish_reason = ToolCalls\<rparr>"

definition escaped_newline :: string where
  "escaped_newline = [CHR 0x5C, CHR ''n'']"

text \<open>The source file the developer writes, as the text of a JSON string.\<close>

definition modulo_source :: string where
  "modulo_source =
    ''pub fn compute(a: i32, b: i32) -> i32 {'' @ escaped_newline @ ''    a + b'' @ escaped_newline @ ''}'' @
    escaped_newline @ escaped_newline @
    ''pub fn modulo(a: i32, b: i32) -> i32 {'' @ escaped_newline @ ''    ((a % b) + b) % b'' @ escaped_newline @ ''}'' @
    escaped_newline"

definition route_responses :: "CompletionResponse list" where
  "route_responses =
    [tool_answer ''call_inspect'' ''filesystem''
       [(''action'', double_quoted ''read_file''), (''path'', double_quoted ''src/lib.rs'')] (150, 45, 195),
     closing_words ''Investigation complete: inspected src/lib.rs, preparing implementation changes.'' (200, 25, 225),
     tool_answer ''call_impl'' ''filesystem''
       [(''action'', double_quoted ''write_file''), (''content'', double_quoted modulo_source), (''overwrite'', ''true''),
        (''path'', double_quoted ''src/lib.rs'')] (250, 60, 310),
     closing_words ''Implementation complete: added modulo function to src/lib.rs.'' (220, 20, 240),
     tool_answer ''call_test'' ''shell'' [(''command'', double_quoted ''cargo test --lib'')] (280, 35, 315),
     closing_words ''Automated test suite completed successfully: cargo test passed.'' (260, 20, 280),
     tool_answer ''call_approval'' ''request_human_approval''
       [(''description'', double_quoted ''Commit and push verified negative modulo feature''),
        (''reason'', double_quoted ''Independent regression test suite verified'')] (300, 40, 340),
     closing_words ''Human approval granted. Signoff confirmed, ready to commit.'' (150, 20, 170),
     tool_answer ''call_git_commit'' ''git''
       [(''action'', double_quoted ''commit''), (''message'', double_quoted ''feat: add negative modulo support'')] (220, 30, 250),
     closing_words ''Verified artifact committed to Git repository.'' (180, 20, 200)]"

definition populate_route_responses :: "ScriptedProvider \<Rightarrow> ScriptedProvider" where
  "populate_route_responses = fold queue_response route_responses"

section \<open>The execution\<close>

text \<open>Before the first round: the default agents, and a workflow that is not active yet.\<close>

definition background_start :: "ExecutorEnv \<Rightarrow> ident \<Rightarrow> Db \<Rightarrow> Db" where
  "background_start env i db =
    (let path = Option.bind (get_workflow i db) (\<lambda>w. workspace_path_of w db);
         db1 = fst (ensure_default_agents env path db) in
     case get_workflow i db1 of Some w \<Rightarrow> activate_workflow env w db1 | None \<Rightarrow> db1)"

text \<open>Every task is at its end.\<close>

definition conclude_workflow :: "ExecutorEnv \<Rightarrow> bool \<Rightarrow> ident \<Rightarrow> Db \<Rightarrow> Db" where
  "conclude_workflow env has_failed i db =
    (case get_workflow i db of
       None \<Rightarrow> db
     | Some w \<Rightarrow>
         (let target = (if has_failed then WorkflowState.Failed else WorkflowState.Completed);
              w1 = w\<lparr>w_state := (case WorkflowState_transition_to (w_state w) target of Ok st \<Rightarrow> st | Err _ \<Rightarrow> w_state w)\<rparr> in
          emit_event (ex_now env) ''workflow'' i (if has_failed then ''workflow.failed'' else ''workflow.completed'')
            (fst (update_workflow w1 db))))"

text \<open>One round: the new count of empty ticks, or none when the execution ends.\<close>

definition background_round :: "ExecutorEnv \<Rightarrow> ident \<Rightarrow> nat \<Rightarrow> nat \<Rightarrow> Db \<Rightarrow> Db \<times> nat option" where
  "background_round env i k empties db =
    (if map_option w_state (get_workflow i db) \<noteq> Some WorkflowState.Active then (db, None)
     else let tasks = list_tasks_by_workflow i db in
       if list_ex (\<lambda>t. t_state t = TaskState.NeedsHuman) tasks then (db, Some empties)
       else if tasks \<noteq> [] \<and> list_all (\<lambda>t. TaskState_is_terminal (t_state t)) tasks
       then (conclude_workflow env (list_ex (\<lambda>t. t_state t = TaskState.Failed) tasks) i db, None)
       else case tick (ex_sched env k) db of
           (db1, r) \<Rightarrow>
             (db1, if (case r of Ok n \<Rightarrow> 0 < n | Err _ \<Rightarrow> False) then Some 0
               else if 40 < empties + 1 then None else Some (empties + 1)))"

fun background_loop :: "ExecutorEnv \<Rightarrow> ident \<Rightarrow> nat \<Rightarrow> nat \<Rightarrow> nat \<Rightarrow> Db \<Rightarrow> Db \<times> bool" where
  "background_loop env i k 0 empties db = (db, False)"
| "background_loop env i k (Suc fuel) empties db =
    (case background_round env i k empties db of
       (db1, None) \<Rightarrow> (db1, True)
     | (db1, Some empties1) \<Rightarrow> background_loop env i (Suc k) fuel empties1 db1)"

text \<open>What the spawned task does, and whether it has ended in the rounds it was given.\<close>

definition workflow_execution :: "ExecutorEnv \<Rightarrow> nat \<Rightarrow> ident \<Rightarrow> Db \<Rightarrow> Db \<times> bool" where
  "workflow_execution env fuel i db = background_loop env i 0 fuel 0 (background_start env i db)"

section \<open>The agent host\<close>

record ExecuteAgentHostRequest =
  eh_workspace_id :: "ident option"
  eh_workspace_path :: "string option"
  eh_backend :: "string option"
  eh_timeout_secs :: "nat option"

text \<open>The directory, the backend and the time of a direct execution; the backend is one of the registry.\<close>

definition execute_agent_host ::
  "(string \<Rightarrow> bool) \<Rightarrow> ExecuteAgentHostRequest \<Rightarrow> Db \<Rightarrow> (string \<times> string \<times> nat, StatusCode \<times> string) result" where
  "execute_agent_host registered rq db =
    and_then
      (case eh_workspace_id rq of
         Some i \<Rightarrow> ok_or (NOT_FOUND, ''Workspace not found'') (map_option ws_canonical_path (get_workspace i db))
       | None \<Rightarrow> ok_or (BAD_REQUEST, ''Either workspace_id or workspace_path must be provided'') (eh_workspace_path rq))
      (\<lambda>path.
        let b = (case eh_backend rq of Some b \<Rightarrow> b | None \<Rightarrow> ''fake_agent'') in
        if registered b then Ok (path, b, case eh_timeout_secs rq of Some n \<Rightarrow> n | None \<Rightarrow> 300)
        else Err (BAD_REQUEST, ''Backend '' @ single_quoted b @ '' not found''))"

end
