(* ===== verification/Api_View_Properties.thy ===== *)
theory Api_View_Properties
  imports Api_Views Store_References
begin

text \<open>What the clients of the HTTP server see and decide: the stream of events has no gap up to the
bounds of its replay and of its channel, the terminal of a task is the end of its output, a decision is stored and settles the task it
is about. A background execution waits for the human, completes a workflow whose tasks are done, and
gives up on one that is stuck.\<close>

section \<open>The stream of events\<close>

text \<open>Rows of the event table in the order they were appended.\<close>

abbreviation ascending :: "(nat \<times> Event) list \<Rightarrow> bool" where
  "ascending rows \<equiv> sorted_wrt (<) (map fst rows)"

lemma event_sequence_row [simp]: "event_sequence (event_of_row r) = fst r"
  by (simp add: event_sequence_def event_of_row_def)

lemma ascending_sort: "ascending rows \<Longrightarrow> sort_key fst rows = rows"
  by (intro sort_key_id_if_sorted) (rule sorted_wrt_mono_rel [of _ "(<)"], simp_all)

fun is_delivered :: "delivery \<Rightarrow> bool" where
  "is_delivered (Delivered e) = True"
| "is_delivered _ = False"

text \<open>The documented behaviour of the channel: a subscription receives the values in the order
they were sent, none left out, until a value it would receive next has been overwritten; the
channel holds at least as many values as its capacity, so an error tells that more than these
have been sent beyond those received.\<close>

definition broadcast_delivers :: "Event list \<Rightarrow> delivery list \<Rightarrow> bool" where
  "broadcast_delivers sent ds =
    (let got = takeWhile is_delivered ds in
     length got \<le> length sent \<and> got = map Delivered (take (length got) sent) \<and>
     (got \<noteq> ds \<longrightarrow> event_capacity < length sent - length got))"

lemma live_ascending:
  assumes "ascending rows" "takeWhile is_delivered ds = map (Delivered \<circ> event_of_row) rows"
  shows "live_events n ds = map event_of_row (filter (\<lambda>r. n < fst r) rows)"
  using assms
proof (induction rows arbitrary: n ds)
  case Nil
  then show ?case by (cases ds; cases "hd ds") auto
next
  case (Cons r rows)
  obtain rest where ds: "ds = Delivered (event_of_row r) # rest" "takeWhile is_delivered rest = map (Delivered \<circ> event_of_row) rows"
    using Cons.prems(2) by (cases ds; cases "hd ds") auto
  have "filter (\<lambda>q. fst r < fst q) rows = rows" using Cons.prems(1) by (auto simp: filter_id_conv)
  moreover have "filter (\<lambda>q. n < fst q) rows = rows" if "n < fst r" using that Cons.prems(1) by (fastforce simp: filter_id_conv)
  ultimately show ?case using Cons.IH [OF _ ds(2)] Cons.prems(1) by (simp add: ds(1))
qed

lemma last_seen_max: "fold (\<lambda>e m. if m < event_sequence e then event_sequence e else m) es n = Max (insert n (event_sequence ` set es))"
proof (induction es arbitrary: n)
  case (Cons e es)
  have "Max (insert n (event_sequence ` set (e # es))) = max n (max (event_sequence e) (Max (insert n (event_sequence ` set es))))"
    by (cases "es = []") (simp_all add: Max_insert2 insert_commute max.left_commute)
  then show ?case using Cons.IH [of "event_sequence e"] Cons.IH [of n]
    by (cases "es = []") (auto simp: max_def)
qed simp

text \<open>The rows the client is sent: those of the replay and those received, whichever reach further.\<close>

lemma stream_rows:
  assumes "ascending (before @ since)" "db_events db = before @ take k since" "0 < start"
    "length (filter (\<lambda>r. start < fst r) (db_events db)) \<le> 1000"
    "takeWhile is_delivered ds = map (Delivered \<circ> event_of_row) (take n since)"
  shows "stream_events start db ds = map event_of_row (filter (\<lambda>r. start < fst r) (before @ take (max k n) since))"
proof -
  let ?E = "filter (\<lambda>r. start < fst r) (before @ take k since)"
  let ?n = "Max (insert start (fst ` set ?E))"
  have whole: "ascending ((before @ take k since) @ drop k since)" using assms(1) by simp
  have sub: "ascending (filter P rows)" if "ascending rows" for P rows
    using that by (simp add: sorted_wrt_map sorted_wrt_filter)
  have parts: "ascending (before @ take k since)" "ascending since"
    using whole assms(1) unfolding map_append sorted_wrt_append by blast+
  have got: "ascending (take n since)" using parts(2) by (simp add: sorted_wrt_take flip: take_map)
  have missed: "list_events_after start 1000 db = map event_of_row ?E"
    using assms(2,4) sub [OF parts(1), of "\<lambda>r. start < fst r"] by (simp add: list_events_after_def ascending_sort del: filter_append)
  have seen: "fold (\<lambda>e m. if m < event_sequence e then event_sequence e else m) (map event_of_row ?E) start = ?n"
    unfolding last_seen_max by (simp add: image_image del: filter_append)
  have old: "\<not> ?n < fst r" if "r \<in> set (take k since)" for r
    using that by (cases "start < fst r") (auto simp: not_less intro!: Max_ge)
  have new: "?n < fst r \<longleftrightarrow> start < fst r" if "r \<in> set (drop k since)" for r
  proof -
    have "\<forall>q\<in>set ?E. fst q < fst r"
      using whole that unfolding map_append [of _ "before @ take k since"] sorted_wrt_append [of _ "map fst (before @ take k since)"]
      by auto
    then show ?thesis by (subst Max_less_iff) (auto simp del: filter_append)
  qed
  have split: "take (max k n) since = take k since @ take (n - k) (drop k since)"
    by (cases "k \<le> n") (simp_all add: take_add [symmetric] max_def)
  have "set (take n since) \<subseteq> set (take k since) \<union> set (take (n - k) (drop k since))"
    using split set_take_subset_set_take [of n "max k n" since] by (auto simp: max_def)
  have "filter (\<lambda>r. ?n < fst r) (take n since) = filter (\<lambda>r. start < fst r) (take (n - k) (drop k since))"
  proof (cases "k \<le> n")
    case True
    then have "take n since = take k since @ take (n - k) (drop k since)" using split by (simp add: max_def)
    moreover have "filter (\<lambda>r. ?n < fst r) (take k since) = []" unfolding filter_empty_conv using old by blast
    moreover have "filter (\<lambda>r. ?n < fst r) (take (n - k) (drop k since)) = filter (\<lambda>r. start < fst r) (take (n - k) (drop k since))"
      by (rule filter_cong [OF refl new]) (auto dest: in_set_takeD)
    ultimately show ?thesis by (simp only: filter_append append_Nil)
  next
    case False
    have "filter (\<lambda>r. ?n < fst r) (take n since) = []"
      unfolding filter_empty_conv using old set_take_subset_set_take [of n k since] False by (meson nat_le_linear subsetD)
    then show ?thesis using False by simp
  qed
  then have live: "live_events ?n ds = map event_of_row (filter (\<lambda>r. start < fst r) (take (n - k) (drop k since)))"
    using live_ascending [OF got assms(5)] by simp
  have "?E @ filter (\<lambda>r. start < fst r) (take (n - k) (drop k since)) = filter (\<lambda>r. start < fst r) (before @ take (max k n) since)"
    by (simp add: split)
  then show ?thesis
    unfolding stream_events_def Let_def if_P [OF assms(3)] missed seen live by (metis map_append)
qed

text \<open>C34: A client that reconnects with the last sequence number it saw, above zero and at most a
thousand events behind, and before whose eyes no event is pruned, is sent a beginning of the later
events, each once and in order, though some of them were committed between the subscription and
the replay. It is sent all of them when the replay or the channel reaches the last one; and the
channel does not fail it as long as no more than a thousand events are appended.\<close>

theorem stream_complete:
  assumes "ascending (before @ since)" "db_events db = before @ take k since" "db_events db' = before @ since"
    "0 < start" "length (filter (\<lambda>r. start < fst r) (db_events db)) \<le> 1000"
    "broadcast_delivers (map event_of_row since) ds"
  shows "prefix (stream_events start db ds) (list_events_after start (length (db_events db')) db') \<and>
    (length since \<le> max k (length (takeWhile is_delivered ds)) \<longrightarrow>
      stream_events start db ds = list_events_after start (length (db_events db')) db') \<and>
    (length since \<le> event_capacity \<longrightarrow> list_all is_delivered ds)"
proof -
  let ?n = "length (takeWhile is_delivered ds)" and ?m = "max k (length (takeWhile is_delivered ds))"
  let ?P = "\<lambda>r. start < fst r"
  have got: "takeWhile is_delivered ds = map (Delivered \<circ> event_of_row) (take ?n since)"
    using assms(6) by (simp add: broadcast_delivers_def Let_def take_map)
  note sent = stream_rows [OF assms(1,2,4,5) got]
  have "ascending (filter ?P (before @ since))"
    using assms(1) by (simp add: sorted_wrt_map sorted_wrt_filter del: filter_append map_append)
  moreover have "length (filter ?P (before @ since)) \<le> length (before @ since)" by (rule length_filter_le)
  ultimately have all: "list_events_after start (length (db_events db')) db' = map event_of_row (filter ?P (before @ since))"
    using assms(3) by (simp add: list_events_after_def ascending_sort del: filter_append length_append)
  have "before @ since = (before @ take ?m since) @ drop ?m since" by simp
  then have "filter ?P (before @ since) = filter ?P (before @ take ?m since) @ filter ?P (drop ?m since)"
    by (metis filter_append)
  then have "prefix (stream_events start db ds) (list_events_after start (length (db_events db')) db')"
    unfolding sent all by (metis map_append prefixI)
  moreover have "length since \<le> ?m \<Longrightarrow> stream_events start db ds = list_events_after start (length (db_events db')) db'"
    unfolding sent all by simp
  moreover have "length since \<le> event_capacity \<Longrightarrow> list_all is_delivered ds"
    using assms(6) by (auto simp: broadcast_delivers_def Let_def list_all_iff takeWhile_eq_all_conv)
  ultimately show ?thesis by blast
qed

section \<open>Terminals\<close>

lemma drop_to_last: "drop (length (drop (length a - n) a @ b) - n) (drop (length a - n) a @ b) = drop (length (a @ b) - n) (a @ b)"
  by (cases "length a \<le> n") (simp_all add: min_def add.commute)

lemma append_lines:
  "tt_lines (terminal_entry i (TerminalBuffer_append re now i stream raw b)) =
     (let ls = tt_lines (terminal_entry i b) @ terminal_lines re now stream raw in drop (length ls - tb_max_lines_per_task b) ls)"
  "tb_max_lines_per_task (TerminalBuffer_append re now i stream raw b) = tb_max_lines_per_task b"
  "j \<noteq> i \<Longrightarrow> TerminalBuffer_get j (TerminalBuffer_append re now i stream raw b) = TerminalBuffer_get j b"
  by (simp_all add: TerminalBuffer_append_def Let_def put_terminal_def terminal_entry_def TerminalBuffer_get_def update_conv')

abbreviation outputs :: "replacer \<Rightarrow> ident \<Rightarrow> (time \<times> string \<times> string) list \<Rightarrow> TerminalBuffer \<Rightarrow> TerminalBuffer" where
  "outputs re i \<equiv> fold (\<lambda>(now, stream, raw). TerminalBuffer_append re now i stream raw)"

abbreviation output_lines :: "replacer \<Rightarrow> (time \<times> string \<times> string) list \<Rightarrow> TerminalLine list" where
  "output_lines re ps \<equiv> concat (map (\<lambda>(now, stream, raw). terminal_lines re now stream raw) ps)"

lemma outputs_lines:
  assumes "tt_lines (terminal_entry i b) = drop (length ls - tb_max_lines_per_task b) ls"
  shows "tt_lines (terminal_entry i (outputs re i ps b)) =
    drop (length (ls @ output_lines re ps) - tb_max_lines_per_task b) (ls @ output_lines re ps)"
  using assms
proof (induction ps arbitrary: b ls)
  case (Cons p ps)
  obtain now stream raw where p: "p = (now, stream, raw)" by (rule prod_cases3)
  let ?b = "TerminalBuffer_append re now i stream raw b" and ?ls = "ls @ terminal_lines re now stream raw"
  have "tt_lines (terminal_entry i ?b) = drop (length ?ls - tb_max_lines_per_task ?b) ?ls"
    unfolding append_lines Let_def Cons.prems by (rule drop_to_last)
  from Cons.IH [OF this] show ?case by (simp add: p append_lines(2))
qed simp

lemma outputs_others: "j \<noteq> i \<Longrightarrow> TerminalBuffer_get j (outputs re i ps b) = TerminalBuffer_get j b"
  by (induction ps arbitrary: b) (auto simp: append_lines(3))

text \<open>C35: After any outputs of a task its terminal shows the last lines of all of them, as many as
the buffer keeps for one task, and the terminals of the other tasks are as they were.\<close>

theorem terminal_keeps_last:
  "tt_lines (terminal_entry i (outputs re i ps (TerminalBuffer_with_capacity n))) =
     drop (length (output_lines re ps) - n) (output_lines re ps) \<and>
   (j = i \<or> TerminalBuffer_get j (outputs re i ps b) = TerminalBuffer_get j b)"
proof -
  have "tt_lines (terminal_entry i (TerminalBuffer_with_capacity n)) = drop (length [] - tb_max_lines_per_task (TerminalBuffer_with_capacity n)) []"
    by (simp add: terminal_entry_def TerminalBuffer_get_def TerminalBuffer_with_capacity_def)
  from outputs_lines [OF this, of re ps] show ?thesis
    using outputs_others [of j i re ps b] by (cases "j = i") (simp_all add: TerminalBuffer_with_capacity_def)
qed

section \<open>The summary of a graph\<close>

lemma shown_states: "TaskState_as_str s \<noteq> ''Verified'' \<and> TaskState_as_str s \<noteq> ''Running'' \<and> TaskState_as_str s \<noteq> ''Assigned'' \<and> TaskState_as_str s \<noteq> ''Failed''"
  by (cases s) simp_all

lemma counts_pending:
  "fold count_node (map (graph_node g tasks agents db) ts) s =
    s\<lparr>gs_pending := gs_pending s + length ts, gs_blocked := gs_blocked s + length (filter gn_is_blocked (map (graph_node g tasks agents db) ts))\<rparr>"
proof (induction ts arbitrary: s)
  case (Cons t ts)
  let ?n = "graph_node g tasks agents db t"
  have st: "gn_state ?n = TaskState_as_str (t_state t)" by (simp add: graph_node_def)
  have "count_node ?n s = s\<lparr>gs_pending := gs_pending s + 1, gs_blocked := gs_blocked s + (if gn_is_blocked ?n then 1 else 0)\<rparr>"
    by (simp add: count_node_def Let_def st shown_states del: TaskState_as_str.simps)
  then show ?case by (simp add: Cons.IH)
qed simp

text \<open>The summary counts a task by capitalised names that no state has as its text, so every
task of the workflow is counted as pending, none as running, verified or failed; only the total and
the blocked tasks are what the nodes show.\<close>

theorem graph_summary:
  assumes "get_workflow_graph id_str db = Ok g"
  shows "gr_summary g =
    \<lparr>gs_total = length (list_tasks_by_workflow (gr_workflow_id g) db), gs_pending = length (list_tasks_by_workflow (gr_workflow_id g) db),
     gs_running = 0, gs_verified = 0, gs_failed = 0, gs_blocked = length (filter gn_is_blocked (gr_nodes g))\<rparr>"
  using assms by (auto simp: get_workflow_graph_def Let_def counts_pending)

section \<open>Examples\<close>

definition numbered :: "nat \<Rightarrow> nat \<times> Event" where
  "numbered n = (n, Event_new n 0 ''task'' 2 ''task.updated'')"

definition events_db :: "nat list \<Rightarrow> Db" where
  "events_db ns = db_empty\<lparr>db_events := map numbered ns\<rparr>"

definition some_deliveries :: "nat list \<Rightarrow> delivery list" where
  "some_deliveries ns = map (Delivered \<circ> event_of_row \<circ> numbered) ns"

theorem stream_complete_witness:
  "map event_sequence (stream_events 2 (events_db [1, 2, 3, 4]) (some_deliveries [4, 5])) = [3, 4, 5]"
proof -
  have "stream_events 2 (events_db [1, 2, 3, 4]) (some_deliveries [4, 5]) =
      list_events_after 2 (length (db_events (events_db [1, 2, 3, 4, 5]))) (events_db [1, 2, 3, 4, 5])"
    using stream_complete [of "map numbered [1, 2, 3]" "map numbered [4, 5]" "events_db [1, 2, 3, 4]" 1
        "events_db [1, 2, 3, 4, 5]" 2 "some_deliveries [4, 5]"]
    by (simp add: numbered_def events_db_def some_deliveries_def broadcast_delivers_def)
  then show ?thesis by (simp add: list_events_after_def events_db_def numbered_def event_sequence_def event_of_row_def Event_new_def)
qed

text \<open>A subscription that has lagged sends nothing more: the response ends there.\<close>

lemma stream_after_lag:
  "stream_events start db (ds @ Lagged n # es) = stream_events start db (ds @ [Lagged n])"
proof -
  have "live_events m (ds @ Lagged n # es) = live_events m (ds @ [Lagged n])" for m
    by (induction m ds rule: live_events.induct) auto
  then show ?thesis by (simp add: stream_events_def)
qed

text \<open>When the newest events are pruned their sequence numbers are given out again: a client that
has seen the fifth event is not sent the next one.\<close>

lemma stream_after_prune:
  "next_rowid (db_events (fst (prune_historical_records 1 (events_db [1, 2, 3, 4, 5])))) = 1"
  "stream_events 5 (events_db []) (some_deliveries [1]) = []"
  by code_simp+

definition graph_db :: Db where
  "graph_db = fst (create_task ((Task_new 2 0 7 ''t'')\<lparr>t_state := TaskState.Running\<rparr>)
     (fst (create_workflow (Workflow_new 7 0 ''w'' ''o'') db_empty)))"

theorem graph_summary_witness:
  "(case get_workflow_graph ''7'' graph_db of Ok g \<Rightarrow> gs_pending (gr_summary g) = 1 \<and> map gn_state (gr_nodes g) = [''running''] | Err _ \<Rightarrow> False)"
proof -
  have run: "(case get_workflow_graph ''7'' graph_db of Ok g \<Rightarrow> map gn_state (gr_nodes g) = [''running''] \<and>
      gr_workflow_id g = 7 | Err _ \<Rightarrow> False)" "length (list_tasks_by_workflow 7 graph_db) = 1"
    by code_simp+
  then obtain g where g: "get_workflow_graph ''7'' graph_db = Ok g" "map gn_state (gr_nodes g) = [''running'']" "gr_workflow_id g = 7"
    by (auto split: result.splits)
  then show ?thesis using graph_summary [OF g(1)] run(2) by simp
qed

section \<open>Decisions\<close>

lemma task_parent:
  assumes "refs_ok db" "db_get_task i db = Some t"
  shows "fk_ok row_id (t_parent_id t) (db_tasks db)"
proof -
  obtain r where "r \<in> set (db_tasks db)" "r_task r = t"
    using assms(2) tbl_get_key by (fastforce simp: db_get_task_def)
  then have "opt_key TaskKey (t_parent_id t) \<subseteq> present db"
    using assms(1) by (auto simp: refs_ok_def row_needs_def task_needs_def)
  then show ?thesis by (simp add: opt_key_present)
qed

lemma settled_fields:
  assumes "t_state t = TaskState.NeedsHuman"
  shows "task_after_decision now approved t = t\<lparr>t_state := (if approved then TaskState.Ready else TaskState.Failed),
    t_assigned_agent_id := (if approved then None else t_assigned_agent_id t), t_updated_at := now\<rparr>"
  using assms by (simp add: task_after_decision_def attempt_transition_def Task_transition_to_def TaskState_transition_to_def
      TaskState_can_transition_to_def)

text \<open>What a decision leaves of the task it is about.\<close>

definition settled :: "bool \<Rightarrow> Task \<Rightarrow> Task option \<Rightarrow> bool" where
  "settled approved t u =
    (if t_state t = TaskState.NeedsHuman
     then map_option t_state u = Some (if approved then TaskState.Ready else TaskState.Failed) \<and>
       Option.bind u t_assigned_agent_id = (if approved then None else t_assigned_agent_id t)
     else u = Some t)"

lemma settle_task_settles:
  assumes "fk_ok row_id (t_parent_id t) (db_tasks db)" "db_get_task i db = Some t"
  shows "settled approved t (db_get_task i (settle_task now approved i db))"
proof (cases "t_state t = TaskState.NeedsHuman")
  case True
  let ?t = "task_after_decision now approved t"
  have id: "t_id t = i" by (rule db_get_task_id [OF assms(2)])
  have "tbl_has row_id i (db_tasks db)" using assms(2) tbl_get_None [of row_id i "db_tasks db"] by (auto simp: db_get_task_def)
  then obtain db1 where u: "update_task ?t db = (db1, Ok ())"
    using assms(1) id by (auto simp: settled_fields [OF True] update_task_def fk_ok_def split: option.splits)
  then have "settle_task now approved i db = db1" using True assms(2) by (simp add: settle_task_def)
  then show ?thesis
    using update_task_Ok(1) [OF u, of i] True id assms(2) by (simp add: settled_def settled_fields [OF True])
next
  case False
  then show ?thesis using assms(2) by (simp add: settled_def settle_task_def)
qed

lemma decision_fields:
  assumes "Governance.decided now approved note p = Ok a"
  shows "ap_state a = (if approved then ApprovalState.Approved else ApprovalState.Rejected)"
    "a = p\<lparr>ap_state := ap_state a, ap_reason := ap_reason a, ap_decided_at := ap_decided_at a\<rparr>"
  using assms by (auto simp: Governance.decided_def ApprovalRecord_approve_def ApprovalRecord_reject_def approval_lc.tr_eq_Ok Let_def
      split: if_splits option.splits)

lemma decide_gate_Ok:
  assumes "decide_gate now approved (Governance.decided now approved note) id_str s = (s', Ok a)"
  obtains p db1 where "get_approval (ap_id a) (as_db s) = Some p" "Governance.decided now approved note p = Ok a"
    "update_approval a (as_db s) = (db1, Ok ())"
    "as_db s' = emit_event now ''approval'' (ap_id a) ''approval.gate_decided'' (settle_task now approved (ap_task_id a) db1)"
proof -
  obtain i p where i: "get_approval i (as_db s) = Some p" "Governance.decided now approved note p = Ok a"
    and k: "st_then (api_db (update_approval a)) (\<lambda>_ s. (api_emit now ''approval'' (ap_id a) ''approval.gate_decided''
         (s\<lparr>as_db := settle_task now approved (ap_task_id a) (as_db s)\<rparr>), Ok a)) s = (s', Ok a)"
    using assms by (auto simp: decide_gate_def st_then_Ok api_approval_def api_pure_def api_found_def split: option.splits)
  have "ap_id p = i" using i(1) tbl_get_key [of ap_id i] by (fastforce simp: get_approval_def)
  moreover have "ap_id a = ap_id p" using decision_fields(2) [OF i(2)] by (metis ApprovalRecord.select_convs(1) ApprovalRecord.surjective ApprovalRecord.update_convs)
  ultimately have id: "ap_id a = i" by simp
  obtain db1 where "update_approval a (as_db s) = (db1, Ok ())"
    "as_db s' = emit_event now ''approval'' (ap_id a) ''approval.gate_decided'' (settle_task now approved (ap_task_id a) db1)"
    using k by (auto simp: st_then_Ok api_db_def api_emit_def split: prod.splits)
  with i id that show thesis by blast
qed

text \<open>C32: A decision taken over HTTP is stored with its approval; a task that waits for a human
becomes ready and loses its agent, or fails; a task in any other state stays as it is.\<close>

theorem gate_decision:
  assumes "refs_ok (as_db s)" "db_get_task (ap_task_id a) (as_db s) = Some t"
    "(if approved then approve_gate now id_str note else reject_gate now id_str note) s = (s', Ok a)"
  shows "get_approval (ap_id a) (as_db s') = Some a \<and>
    ap_state a = (if approved then ApprovalState.Approved else ApprovalState.Rejected) \<and>
    settled approved t (db_get_task (ap_task_id a) (as_db s'))"
proof -
  let ?note = "if approved then note else Some (case note of Some n \<Rightarrow> n | None \<Rightarrow> ''Rejected by operator'')"
  have "Governance.decided now approved ?note = (if approved then ApprovalRecord_approve now note
      else ApprovalRecord_reject now (Some (case note of Some n \<Rightarrow> n | None \<Rightarrow> ''Rejected by operator'')))"
    by (auto simp: Governance.decided_def)
  then have "decide_gate now approved (Governance.decided now approved ?note) id_str s = (s', Ok a)"
    using assms(3) by (cases approved) (simp_all add: approve_gate_def reject_gate_def)
  then obtain p db1 where p: "get_approval (ap_id a) (as_db s) = Some p" "Governance.decided now approved ?note p = Ok a"
    and u: "update_approval a (as_db s) = (db1, Ok ())"
    and s': "as_db s' = emit_event now ''approval'' (ap_id a) ''approval.gate_decided'' (settle_task now approved (ap_task_id a) db1)"
    by (rule decide_gate_Ok)
  note f = decision_fields [OF p(2)]
  have tasks: "db_tasks db1 = db_tasks (as_db s)" using u by (auto simp: update_approval_def split: if_splits)
  have "get_approval (ap_id a) db1 = Some a"
    using u p(1) f(2) by (auto simp: update_approval_def get_approval_def tbl_get_modify split: if_splits)
  moreover have "db_approvals (as_db s') = db_approvals db1"
    by (auto simp: s' emit_event_def append_event_def settle_task_def update_task_def Let_def split: option.splits)
  moreover have "settled approved t (db_get_task (ap_task_id a) (settle_task now approved (ap_task_id a) db1))"
    using task_parent [OF assms(1,2)] assms(2) tasks by (intro settle_task_settles) (simp_all add: db_get_task_def)
  moreover have "db_tasks (as_db s') = db_tasks (settle_task now approved (ap_task_id a) db1)"
    by (simp add: s' emit_event_def append_event_def)
  ultimately show ?thesis using f(1) by (simp add: get_approval_def db_get_task_def)
qed

definition gate_db :: Db where
  "gate_db = fst (create_approval (ApprovalRecord_new 1 5 2 7 ''deploy'')
     (fst (create_task ((Task_new 2 0 7 ''t'')\<lparr>t_state := TaskState.NeedsHuman\<rparr>)
       (fst (create_workflow (Workflow_set_state 0 WorkflowState.Active (Workflow_new 7 0 ''w'' ''o'')) db_empty)))))"

lemma gate_refs: "refs_ok gate_db"
  unfolding gate_db_def by (intro db_step_refs [OF db_step.intros(23)] db_step_refs [OF db_step.intros(7)] db_step_refs [OF db_step.intros(1)] refs_empty)

lemma gate_runs:
  "(case snd (approve_gate 9 ''1'' None \<lparr>as_db = gate_db, as_spawned = []\<rparr>) of Ok a \<Rightarrow> ap_task_id a = 2 \<and> ap_id a = 1 | Err e \<Rightarrow> False)"
  "map_option t_state (db_get_task 2 gate_db) = Some TaskState.NeedsHuman"
  by code_simp+

theorem gate_decision_witness:
  "map_option t_state (db_get_task 2 (as_db (fst (approve_gate 9 ''1'' None \<lparr>as_db = gate_db, as_spawned = []\<rparr>)))) = Some TaskState.Ready"
proof -
  obtain s' r where run: "approve_gate 9 ''1'' None \<lparr>as_db = gate_db, as_spawned = []\<rparr> = (s', r)" by fastforce
  then obtain a where a: "r = Ok a" "ap_task_id a = 2" using gate_runs(1) by (cases r) auto
  obtain t where t: "db_get_task 2 gate_db = Some t" "t_state t = TaskState.NeedsHuman" using gate_runs(2) by auto
  then show ?thesis
    using gate_decision [of "\<lparr>as_db = gate_db, as_spawned = []\<rparr>" a t True 9 "''1''" None s'] run a gate_refs by (simp add: settled_def)
qed

text \<open>An approved gate can be approved again, and each time releases a task that waits.\<close>

lemma gate_repeats:
  "is_ok (snd (approve_gate 10 ''1'' None (fst (approve_gate 9 ''1'' None \<lparr>as_db = gate_db, as_spawned = []\<rparr>))))"
  by code_simp

section \<open>The rounds of an execution\<close>

text \<open>What a round finds, told without the counter of empty ticks.\<close>

datatype round_event = Left | Waiting | Concluding | Working | Idling

definition round_event :: "ExecutorEnv \<Rightarrow> ident \<Rightarrow> nat \<Rightarrow> Db \<Rightarrow> round_event" where
  "round_event env i k db =
    (let tasks = list_tasks_by_workflow i db in
     if map_option w_state (get_workflow i db) \<noteq> Some WorkflowState.Active then Left
     else if list_ex (\<lambda>t. t_state t = TaskState.NeedsHuman) tasks then Waiting
     else if tasks \<noteq> [] \<and> list_all (\<lambda>t. TaskState_is_terminal (t_state t)) tasks then Concluding
     else if (case snd (tick (ex_sched env k) db) of Ok n \<Rightarrow> 0 < n | Err _ \<Rightarrow> False) then Working
     else Idling)"

fun execution_log :: "ExecutorEnv \<Rightarrow> ident \<Rightarrow> nat \<Rightarrow> nat \<Rightarrow> nat \<Rightarrow> Db \<Rightarrow> round_event list" where
  "execution_log env i k 0 empties db = []"
| "execution_log env i k (Suc fuel) empties db =
    round_event env i k db #
    (case background_round env i k empties db of
       (db1, None) \<Rightarrow> []
     | (db1, Some empties1) \<Rightarrow> execution_log env i (Suc k) fuel empties1 db1)"

text \<open>The idle rounds since the last one in which the scheduler ran a command; a round that waits
for a human does not count.\<close>

definition count_idle :: "round_event \<Rightarrow> nat \<Rightarrow> nat" where
  "count_idle e n = (if e = Working then 0 else if e = Idling then n + 1 else n)"

definition idle_rounds :: "round_event list \<Rightarrow> nat" where
  "idle_rounds log = fold count_idle log 0"

definition over :: "round_event list \<Rightarrow> nat \<Rightarrow> bool" where
  "over log n = (log \<noteq> [] \<and> (last log \<in> {Left, Concluding} \<or> last log = Idling \<and> fold count_idle log n = 41))"

lemma failed_not_terminal:
  "list_ex (\<lambda>t. t_state t = TaskState.Failed) ts \<Longrightarrow> \<not> list_all (\<lambda>t. TaskState_is_terminal (t_state t)) ts"
  by (force simp: list_ex_iff list_all_iff TaskState_is_terminal_def)

lemma round_next:
  "snd (background_round env i k n db) =
    (case round_event env i k db of
       Left \<Rightarrow> None | Concluding \<Rightarrow> None | Waiting \<Rightarrow> Some n | Working \<Rightarrow> Some 0
     | Idling \<Rightarrow> if 40 < n + 1 then None else Some (n + 1))"
  by (auto simp: background_round_def round_event_def Let_def split: prod.split result.split)

lemma round_concludes:
  assumes "round_event env i k db = Concluding"
  shows "map_option w_state (get_workflow i (fst (background_round env i k n db))) = Some WorkflowState.Completed"
proof -
  have r: "map_option w_state (get_workflow i db) = Some WorkflowState.Active" "list_tasks_by_workflow i db \<noteq> []"
    "\<not> list_ex (\<lambda>t. t_state t = TaskState.NeedsHuman) (list_tasks_by_workflow i db)"
    "list_all (\<lambda>t. TaskState_is_terminal (t_state t)) (list_tasks_by_workflow i db)"
    using assms by (auto simp: round_event_def Let_def split: if_splits)
  have quiet: "\<not> list_ex (\<lambda>t. t_state t = TaskState.Failed) (list_tasks_by_workflow i db)"
    using failed_not_terminal r(4) by blast
  obtain w where w: "get_workflow i db = Some w" "w_state w = WorkflowState.Active" using r(1) by auto
  have id: "w_id w = i" using w(1) tbl_get_key [of w_id i] by (fastforce simp: get_workflow_def)
  have "map_option w_state (get_workflow i (conclude_workflow env False i db)) = Some WorkflowState.Completed"
    using w id tbl_get_None [of w_id i "db_workflows db"]
    by (simp add: conclude_workflow_def Let_def get_workflow_def emit_event_def append_event_def update_workflow_def tbl_get_modify
        WorkflowState_transition_to_def WorkflowState_can_transition_to_def)
  then show ?thesis using r quiet by (simp add: background_round_def)
qed

lemma over_Cons:
  "log \<noteq> [] \<Longrightarrow> over (e # log) n = over log (count_idle e n)"
  by (simp add: over_def)

lemma loop_log:
  assumes "n \<le> 40"
  shows "snd (background_loop env i k fuel n db) = over (execution_log env i k fuel n db) n \<and>
    (snd (background_loop env i k fuel n db) \<or> length (execution_log env i k fuel n db) = fuel) \<and>
    (execution_log env i k fuel n db \<noteq> [] \<and> last (execution_log env i k fuel n db) = Concluding \<longrightarrow>
      map_option w_state (get_workflow i (fst (background_loop env i k fuel n db))) = Some WorkflowState.Completed)"
  using assms
proof (induction fuel arbitrary: k n db)
  case 0
  then show ?case by (simp add: over_def)
next
  case (Suc fuel)
  obtain db1 r where b: "background_round env i k n db = (db1, r)" by fastforce
  let ?e = "round_event env i k db"
  have r: "r = (case ?e of Left \<Rightarrow> None | Concluding \<Rightarrow> None | Waiting \<Rightarrow> Some n | Working \<Rightarrow> Some 0
     | Idling \<Rightarrow> if 40 < n + 1 then None else Some (n + 1))"
    using round_next [of env i k n db] by (simp add: b)
  show ?case
  proof (cases r)
    case None
    then have "?e \<in> {Left, Concluding} \<or> ?e = Idling \<and> n + 1 = 41" using r Suc.prems by (auto split: round_event.splits if_splits)
    then show ?thesis using b None round_concludes [of env i k db n] by (auto simp: over_def count_idle_def)
  next
    case (Some n1)
    then have n1: "n1 = count_idle ?e n" "n1 \<le> 40" "?e \<notin> {Left, Concluding}" "?e = Idling \<longrightarrow> count_idle ?e n \<noteq> 41"
      using r Suc.prems by (auto simp: count_idle_def split: round_event.splits if_splits)
    note ih = Suc.IH [OF n1(2), of "Suc k" db1]
    have "over (?e # execution_log env i (Suc k) fuel n1 db1) n = over (execution_log env i (Suc k) fuel n1 db1) n1"
      using n1 over_Cons by (cases "execution_log env i (Suc k) fuel n1 db1 = []") (simp_all add: over_def)
    then show ?thesis using ih n1(3) by (auto simp: b Some)
  qed
qed

lemma log_inside:
  "strict_prefix l (execution_log env i k fuel n db) \<Longrightarrow> n \<le> 40 \<Longrightarrow>
     fold count_idle l n \<le> 40 \<and> Left \<notin> set l \<and> Concluding \<notin> set l"
proof (induction fuel arbitrary: k n db l)
  case (Suc fuel)
  obtain db1 r where b: "background_round env i k n db = (db1, r)" by fastforce
  let ?e = "round_event env i k db"
  have r: "r = (case ?e of Left \<Rightarrow> None | Concluding \<Rightarrow> None | Waiting \<Rightarrow> Some n | Working \<Rightarrow> Some 0
     | Idling \<Rightarrow> if 40 < n + 1 then None else Some (n + 1))"
    using round_next [of env i k n db] by (simp add: b)
  show ?case
  proof (cases l)
    case (Cons e rest)
    show ?thesis
    proof (cases r)
      case None
      then show ?thesis using Suc.prems(1) Cons b by (auto simp: strict_prefix_def)
    next
      case (Some n1)
      have n1: "n1 = count_idle ?e n" "n1 \<le> 40" "?e \<notin> {Left, Concluding}"
        using r Some Suc.prems by (auto simp: count_idle_def split: round_event.splits if_splits)
      have "e = ?e" "strict_prefix rest (execution_log env i (Suc k) fuel n1 db1)"
        using Suc.prems(1) Cons b Some by (auto simp: strict_prefix_def)
      then show ?thesis using Suc.IH [OF _ n1(2), of rest "Suc k" db1] n1 Cons by auto
    qed
  qed (use Suc.prems in simp)
qed (simp add: strict_prefix_def)

text \<open>C33: A background execution has ended in the rounds it was given exactly when its last round
found the workflow not active, or every task at its end, or was the forty-first idle one since a
command last ran; before, no forty-one idle rounds went by without a command in between, and one
that has not ended has used all its rounds. A round that waits for a human neither counts nor ends
the execution. When the last round found every task at its end, the workflow is completed.\<close>

theorem execution_paced:
  assumes "background_loop env i k fuel 0 db = (db', ended)" "log = execution_log env i k fuel 0 db"
  shows "(ended \<longleftrightarrow> log \<noteq> [] \<and> (last log = Left \<or> last log = Concluding \<or> last log = Idling \<and> idle_rounds log = 41)) \<and>
    (\<forall>l. strict_prefix l log \<longrightarrow> idle_rounds l \<le> 40 \<and> Left \<notin> set l \<and> Concluding \<notin> set l) \<and>
    (ended \<or> length log = fuel) \<and>
    (log \<noteq> [] \<and> last log = Concluding \<longrightarrow> map_option w_state (get_workflow i db') = Some WorkflowState.Completed)"
  using loop_log [of 0 env i k fuel db] log_inside [of _ env i k fuel 0 db] assms
  by (auto simp: over_def idle_rounds_def)

text \<open>While a task waits for a human the execution goes on without an end and without a tick.\<close>

theorem execution_waits:
  assumes "map_option w_state (get_workflow i db) = Some WorkflowState.Active"
    "list_ex (\<lambda>t. t_state t = TaskState.NeedsHuman) (list_tasks_by_workflow i db)"
  shows "background_loop env i k fuel empties db = (db, False)"
  using assms by (induction fuel arbitrary: k) (simp_all add: background_round_def)

definition idle_executor :: ExecutorEnv where
  "idle_executor = \<lparr>ex_now = 100, ex_order = (\<lambda>xs. xs), ex_temp_dir = ''/tmp'', ex_debug = (\<lambda>es. []),
     ex_sched = (\<lambda>k. \<lparr>sd_now = 100, sd_run = (\<lambda>c db. (db, Ok ()))\<rparr>)\<rparr>"

definition rejected_db :: Db where
  "rejected_db = as_db (fst (reject_gate 9 ''1'' None \<lparr>as_db = gate_db, as_spawned = []\<rparr>))"

text \<open>A failed task is not at its end: after the rejection of a gate the execution idles through
forty-one rounds and ends, and the workflow stays active.\<close>

lemma rejected_stalls:
  "execution_log idle_executor 7 0 100 0 rejected_db = replicate 41 Idling"
  "map t_state (list_tasks_by_workflow 7 rejected_db) = [TaskState.Failed]"
  "map_option w_state (get_workflow 7 (fst (background_loop idle_executor 7 0 100 0 rejected_db))) = Some WorkflowState.Active"
  by code_simp+

theorem execution_paced_witness:
  "snd (background_loop idle_executor 7 0 100 0 rejected_db)"
proof -
  obtain db' ended where run: "background_loop idle_executor 7 0 100 0 rejected_db = (db', ended)" by fastforce
  have "idle_rounds (replicate 41 Idling) = 41" "last (replicate 41 Idling) = Idling" "replicate 41 Idling \<noteq> []" by code_simp+
  then show ?thesis using execution_paced [OF run refl] by (simp add: rejected_stalls(1) run)
qed

end
