(* ===== verification/Git_Client.thy ===== *)
theory Git_Client
  imports Api_Views
begin

text \<open>The git client of plexis-server (git.rs). The git program is a parameter: its answer to a
command may depend on every command before it, so the state of the client is the log of the
commands it has run. An answer is missing when the program cannot be started.\<close>

section \<open>The program\<close>

record GitOutput =
  go_success :: bool
  go_stdout :: string
  go_stderr :: string

type_synonym git_log = "(string \<times> string list) list"

record GitEnv =
  ge_exists :: "string \<Rightarrow> bool"
  ge_run :: "git_log \<Rightarrow> string \<Rightarrow> string list \<Rightarrow> GitOutput option"
  ge_error :: string

definition git :: "GitEnv \<Rightarrow> string \<Rightarrow> string list \<Rightarrow> git_log \<Rightarrow> git_log \<times> GitOutput option" where
  "git env path args log = (log @ [(path, args)], ge_run env log path args)"

text \<open>A command that must be started, with the text of its error.\<close>

definition git_cmd :: "GitEnv \<Rightarrow> string \<Rightarrow> string \<Rightarrow> string list \<Rightarrow> (git_log, GitOutput, string) op" where
  "git_cmd env failure path args log =
    (case git env path args log of (l, reply) \<Rightarrow> (l, ok_or (failure @ '': '' @ ge_error env) reply))"

definition succeeded :: "GitOutput option \<Rightarrow> bool" where
  "succeeded x = (case x of Some out \<Rightarrow> go_success out | None \<Rightarrow> False)"

definition git_trimmed :: "GitOutput option \<Rightarrow> string option" where
  "git_trimmed x = (if succeeded x then map_option (\<lambda>out. str_trim (go_stdout out)) x else None)"

definition missing_path :: "string \<Rightarrow> string" where
  "missing_path path = ''Path '' @ single_quoted path @ '' does not exist''"

section \<open>Status\<close>

record GitFileStatus =
  gf_path :: string
  gf_status :: string
  gf_staged :: bool

record GitStatusResponse =
  gi_branch :: string
  gi_is_clean :: bool
  gi_files :: "GitFileStatus list"
  gi_head_commit :: "string option"

definition index_word :: "char \<Rightarrow> string" where
  "index_word c =
    (if c = CHR ''M'' then ''modified'' else if c = CHR ''A'' then ''added'' else if c = CHR ''D'' then ''deleted''
     else if c = CHR ''R'' then ''renamed'' else ''changed'')"

definition worktree_word :: "char \<Rightarrow> string" where
  "worktree_word c =
    (if c = CHR ''M'' then ''modified'' else if c = CHR ''D'' then ''deleted''
     else if c = CHR ''?'' then ''untracked'' else ''changed'')"

definition ascii :: "char \<Rightarrow> bool" where
  "ascii c = ((of_char c :: nat) < 128)"

text \<open>One line of the porcelain format; the slices are of bytes and panic inside a character.\<close>

definition porcelain_line :: "string \<Rightarrow> GitFileStatus list option" where
  "porcelain_line l =
    (if utf8_length l < 4 then Some []
     else case l of
       x # y # z # rest \<Rightarrow>
         if ascii x \<and> ascii y \<and> ascii z
         then let file = str_trim rest in
           Some ((if x \<noteq> CHR '' '' \<and> x \<noteq> CHR ''?'' then [\<lparr>gf_path = file, gf_status = index_word x, gf_staged = True\<rparr>] else []) @
                 (if y \<noteq> CHR '' '' then [\<lparr>gf_path = file, gf_status = worktree_word y, gf_staged = False\<rparr>] else []))
         else None
     | _ \<Rightarrow> None)"

fun porcelain_files :: "string list \<Rightarrow> (GitFileStatus list, string) result" where
  "porcelain_files [] = Ok []"
| "porcelain_files (l # ls) =
    (case porcelain_line l of
       None \<Rightarrow> Err ''panic: byte index is not a char boundary''
     | Some fs \<Rightarrow> and_then (porcelain_files ls) (\<lambda>gs. Ok (fs @ gs)))"

definition get_git_status :: "GitEnv \<Rightarrow> string \<Rightarrow> (git_log, GitStatusResponse, string) op" where
  "get_git_status env path log =
    (if \<not> ge_exists env path then (log, Err (missing_path path))
     else st_then (git_cmd env ''Failed to run git rev-parse'' path [''rev-parse'', ''--abbrev-ref'', ''HEAD'']) (\<lambda>b log1.
       case git env path [''rev-parse'', ''HEAD''] log1 of (log2, head) \<Rightarrow>
       st_then (git_cmd env ''Failed to run git status'' path [''status'', ''--porcelain=v1'']) (\<lambda>out log3.
         (log3, and_then (porcelain_files (str_lines (go_stdout out))) (\<lambda>files. Ok
           \<lparr>gi_branch = (if go_success b then str_trim (go_stdout b) else ''unknown''),
            gi_is_clean = (files = []), gi_files = files, gi_head_commit = git_trimmed head\<rparr>))) log2) log)"

section \<open>Differences\<close>

record GitDiffResponse =
  gd_diff :: string
  gd_files_changed :: "string list"
  gd_insertions :: nat
  gd_deletions :: nat

definition diff_file :: "string \<Rightarrow> string" where
  "diff_file part =
    (case part of a # b # rest \<Rightarrow> if rest \<noteq> [] \<and> ascii a \<and> b = CHR ''/'' then rest else part | _ \<Rightarrow> part)"

definition diff_line :: "string \<Rightarrow> GitDiffResponse \<Rightarrow> GitDiffResponse" where
  "diff_line l d =
    (case strip_prefix ''diff --git '' l of
       Some rest \<Rightarrow>
         (case split_whitespace rest of
            [] \<Rightarrow> d
          | part # _ \<Rightarrow> d\<lparr>gd_files_changed := gd_files_changed d @ [diff_file part]\<rparr>)
     | None \<Rightarrow>
         if prefix ''+'' l \<and> \<not> prefix ''+++'' l then d\<lparr>gd_insertions := gd_insertions d + 1\<rparr>
         else if prefix ''-'' l \<and> \<not> prefix ''---'' l then d\<lparr>gd_deletions := gd_deletions d + 1\<rparr>
         else d)"

definition parse_diff :: "string \<Rightarrow> GitDiffResponse" where
  "parse_diff s =
    fold diff_line (str_lines s) \<lparr>gd_diff = s, gd_files_changed = [], gd_insertions = 0, gd_deletions = 0\<rparr>"

definition run_diff :: "GitEnv \<Rightarrow> string \<Rightarrow> string \<Rightarrow> string list \<Rightarrow> (git_log, GitDiffResponse, string) op" where
  "run_diff env failure path args log =
    (if \<not> ge_exists env path then (log, Err (missing_path path))
     else st_then (git_cmd env failure path args) (\<lambda>out log1. (log1, Ok (parse_diff (go_stdout out)))) log)"

definition get_git_diff :: "GitEnv \<Rightarrow> string \<Rightarrow> bool \<Rightarrow> (git_log, GitDiffResponse, string) op" where
  "get_git_diff env path staged_only =
    run_diff env ''Failed to run git diff'' path (if staged_only then [''diff'', ''--cached''] else [''diff'', ''HEAD''])"

definition get_git_diff_against :: "GitEnv \<Rightarrow> string \<Rightarrow> string \<Rightarrow> (git_log, GitDiffResponse, string) op" where
  "get_git_diff_against env path base =
    run_diff env (''Failed to run git diff against '' @ single_quoted base) path [''diff'', base]"

definition get_git_diff_range :: "GitEnv \<Rightarrow> string \<Rightarrow> string \<Rightarrow> string \<Rightarrow> (git_log, GitDiffResponse, string) op" where
  "get_git_diff_range env path base target =
    run_diff env (''Failed to run git diff range '' @ single_quoted (base @ ''..'' @ target)) path [''diff'', base @ ''..'' @ target]"

section \<open>Log and commit\<close>

record GitCommitInfo =
  gc_sha :: string
  gc_author_name :: string
  gc_author_email :: string
  gc_timestamp :: int
  gc_message :: string

definition parse_i64 :: "string \<Rightarrow> int option" where
  "parse_i64 s =
    (let negative = prefix ''-'' s; digits = (if prefix ''-'' s \<or> prefix ''+'' s then tl s else s) in
     Option.bind (if digits = [] then None else digits_value 0 digits) (\<lambda>n.
       let v = (if negative then - int n else int n) in
       if - (2 ^ 63) \<le> v \<and> v < 2 ^ 63 then Some v else None))"

definition log_line :: "string \<Rightarrow> GitCommitInfo option" where
  "log_line l =
    (case split_on [CHR 0x00] l of
       sha # name # email # stamp # msg # _ \<Rightarrow>
         Some \<lparr>gc_sha = sha, gc_author_name = name, gc_author_email = email,
           gc_timestamp = (case parse_i64 stamp of Some t \<Rightarrow> t | None \<Rightarrow> 0), gc_message = msg\<rparr>
     | _ \<Rightarrow> None)"

definition get_git_log :: "GitEnv \<Rightarrow> string \<Rightarrow> nat \<Rightarrow> (git_log, GitCommitInfo list, string) op" where
  "get_git_log env path limit log =
    (if \<not> ge_exists env path then (log, Err (missing_path path))
     else st_then (git_cmd env ''Failed to run git log'' path
         [''log'', ''-n'' @ decimal (max limit 1), ''--pretty=format:%H%x00%an%x00%ae%x00%at%x00%s'']) (\<lambda>out log1.
       (log1, Ok (if go_success out then List.map_filter log_line (str_lines (go_stdout out)) else []))) log)"

definition commit_git_changes :: "GitEnv \<Rightarrow> string \<Rightarrow> string \<Rightarrow> (git_log, string \<times> string, string) op" where
  "commit_git_changes env path msg log =
    (if str_trim msg = [] then (log, Err ''Commit message cannot be empty'')
     else st_then (git_cmd env ''Failed to run git add'' path [''add'', ''-A'']) (\<lambda>a log1.
       if \<not> go_success a then (log1, Err ''git add -A failed'')
       else st_then (git_cmd env ''Failed to run git commit'' path [''commit'', ''-m'', msg]) (\<lambda>c log2.
         if \<not> go_success c then (log2, Err (''git commit failed: '' @ go_stdout c @ '' '' @ go_stderr c))
         else st_then (git_cmd env ''Failed to get commit SHA'' path [''rev-parse'', ''HEAD'']) (\<lambda>h log3.
           (log3, Ok (str_trim (go_stdout h), msg))) log2) log1) log)"

record VcsMetadata =
  vm_branch :: "string option"
  vm_remote_url :: "string option"
  vm_head_sha :: "string option"
  vm_is_dirty :: bool

definition nonempty :: "string \<Rightarrow> string option" where
  "nonempty s = (if s = [] then None else Some s)"

definition discover_git_metadata :: "GitEnv \<Rightarrow> string \<Rightarrow> (git_log, VcsMetadata, string) op" where
  "discover_git_metadata env path =
    st_then (get_git_status env path) (\<lambda>st log1.
      case git env path [''config'', ''--get'', ''remote.origin.url''] log1 of (log2, remote) \<Rightarrow>
        (log2, Ok \<lparr>vm_branch = nonempty (gi_branch st), vm_remote_url = Option.bind (git_trimmed remote) nonempty,
                   vm_head_sha = gi_head_commit st, vm_is_dirty = (\<not> gi_is_clean st)\<rparr>))"

section \<open>Integration\<close>

record GitIntegrationResult =
  gr_integrated :: bool
  gr_target_branch :: string
  gr_verified_commit :: string
  gr_merge_commit :: "string option"
  gr_summary :: string

definition is_commit_ancestor :: "GitEnv \<Rightarrow> string \<Rightarrow> string \<Rightarrow> string \<Rightarrow> git_log \<Rightarrow> git_log \<times> bool" where
  "is_commit_ancestor env path ancestor target log =
    (case git env path [''merge-base'', ''--is-ancestor'', ancestor, target] log of (l, reply) \<Rightarrow> (l, succeeded reply))"

definition already_contained ::
  "GitEnv \<Rightarrow> string \<Rightarrow> string \<Rightarrow> string \<Rightarrow> string option \<Rightarrow> git_log \<Rightarrow> git_log \<times> bool" where
  "already_contained env path target commit head log =
    (case head of
       None \<Rightarrow> (log, False)
     | Some h \<Rightarrow> if h = commit then (log, True) else is_commit_ancestor env path commit target log)"

definition head_moved ::
  "GitEnv \<Rightarrow> string \<Rightarrow> string \<Rightarrow> string \<Rightarrow> string option \<Rightarrow> string option \<Rightarrow> git_log \<Rightarrow> git_log \<times> bool" where
  "head_moved env path target commit expected head log =
    (case (expected, head) of
       (Some e, Some h) \<Rightarrow>
         if h \<noteq> e \<and> h \<noteq> commit
         then (case is_commit_ancestor env path commit target log of (l, inside) \<Rightarrow> (l, \<not> inside))
         else (log, False)
     | _ \<Rightarrow> (log, False))"

definition switch_branch :: "GitEnv \<Rightarrow> string \<Rightarrow> string \<Rightarrow> string \<Rightarrow> (git_log, unit, string) op" where
  "switch_branch env path current target log =
    (if current \<noteq> target \<and> current \<noteq> ''unknown''
     then (case git env path [''rev-parse'', ''--verify'', target] log of (log1, found) \<Rightarrow>
       let words = (if succeeded found then [''checkout'', target] else [''checkout'', ''-b'', target]);
           failure = (if succeeded found then ''Failed to checkout target branch '' else ''Failed to create target branch '') @
             single_quoted target in
       st_then (git_cmd env failure path words) (\<lambda>out log2.
         (log2, if go_success out then Ok () else Err (failure @ '': '' @ go_stderr out))) log1)
     else (log, Ok ()))"

definition integrated :: "string \<Rightarrow> string \<Rightarrow> string option \<Rightarrow> string \<Rightarrow> GitIntegrationResult" where
  "integrated target commit head summary =
    \<lparr>gr_integrated = True, gr_target_branch = target, gr_verified_commit = commit, gr_merge_commit = head, gr_summary = summary\<rparr>"

text \<open>First a fast-forward, then a merge commit, which is aborted when it fails.\<close>

definition merge_commit ::
  "GitEnv \<Rightarrow> string \<Rightarrow> string \<Rightarrow> string \<Rightarrow> string \<Rightarrow> (git_log, GitIntegrationResult, string) op" where
  "merge_commit env path target commit msg =
    st_then (git_cmd env ''Failed to execute git merge'' path [''merge'', ''--ff-only'', commit]) (\<lambda>ff log1.
      if go_success ff
      then (case git env path [''rev-parse'', ''HEAD''] log1 of (log2, head) \<Rightarrow>
        (log2, Ok (integrated target commit
          (Some (case head of Some out \<Rightarrow> str_trim (go_stdout out) | None \<Rightarrow> commit))
          (''Fast-forward integrated commit '' @ commit @ '' into branch '' @ single_quoted target))))
      else st_then (git_cmd env ''Failed to execute git merge'' path [''merge'', ''-m'', msg, commit]) (\<lambda>out log2.
        if go_success out
        then (case git env path [''rev-parse'', ''HEAD''] log2 of (log3, head) \<Rightarrow>
          (log3, Ok (integrated target commit (map_option (\<lambda>x. str_trim (go_stdout x)) head)
            (''Successfully merged verified commit '' @ commit @ '' into branch '' @ single_quoted target))))
        else (fst (git env path [''merge'', ''--abort''] log2),
          Err (''Merge conflict detected while integrating commit '' @ commit @ '' into branch '' @ single_quoted target @ '': '' @
            go_stdout out @ '' '' @ go_stderr out))) log1)"

definition integrate_git_commit ::
  "GitEnv \<Rightarrow> string \<Rightarrow> string \<Rightarrow> string \<Rightarrow> string option \<Rightarrow> string option \<Rightarrow> (git_log, GitIntegrationResult, string) op" where
  "integrate_git_commit env path target commit custom_message expected log =
    (if \<not> ge_exists env path then (log, Err (''Repository path '' @ single_quoted path @ '' does not exist''))
     else st_then (get_git_status env path) (\<lambda>st log1.
       if \<not> gi_is_clean st
       then (log1, Err ''Cannot integrate into dirty working tree. Uncommitted changes are present in target repository.'')
       else st_then (git_cmd env ''Failed to inspect verified commit'' path [''cat-file'', ''-t'', commit]) (\<lambda>found log2.
         if \<not> go_success found
         then (log2, Err (''Verified commit '' @ single_quoted commit @ '' not found in repository object database''))
         else (case git env path [''rev-parse'', target] log2 of (log3, reply) \<Rightarrow>
           let head = git_trimmed reply in
           case already_contained env path target commit head log3 of
             (log4, True) \<Rightarrow> (log4, Ok (integrated target commit None
               (''Target branch '' @ single_quoted target @ '' already contains deliverable commit '' @ commit @ ''.'')))
           | (log4, False) \<Rightarrow>
               (case head_moved env path target commit expected head log4 of
                  (log5, True) \<Rightarrow> (log5, Err (''Target branch '' @ single_quoted target @
                    '' has changed since verification. Expected HEAD '' @ or_empty expected @ '', but current HEAD is '' @
                    or_empty head @ ''. Re-verification required before integration.''))
                | (log5, False) \<Rightarrow>
                    st_then (switch_branch env path (gi_branch st) target) (\<lambda>_.
                      merge_commit env path target commit
                        (case custom_message of Some m \<Rightarrow> m | None \<Rightarrow> ''Merge verified Sentinel mission commit'')) log5))) log1) log)"

definition abort_merge_if_in_progress :: "GitEnv \<Rightarrow> string \<Rightarrow> (git_log, unit, string) op" where
  "abort_merge_if_in_progress env path log =
    (if ge_exists env (path_join (path_join path ''.git'') ''MERGE_HEAD'')
     then st_then (git_cmd env ''Failed to abort in-progress git merge'' path [''merge'', ''--abort'']) (\<lambda>out log1.
       (log1, if go_success out then Ok () else Err (''git merge --abort failed: '' @ go_stderr out))) log
     else (log, Ok ()))"

end
