(* ===== verification/Mission_Review.thy ===== *)
theory Mission_Review
  imports Git_Client Mission_Decisions
begin

text \<open>What a human sees of a mission before a decision: its difference, its review package and its
status, the git routes of a workspace, and the handlers that return rows (routes.rs of
plexis-server). A view that asks git threads the log of git's commands.\<close>

section \<open>The difference of a mission\<close>

definition or_else :: "(git_log, 'a, string) op \<Rightarrow> (git_log, 'a, string) op \<Rightarrow> (git_log, 'a, string) op" where
  "or_else m n log = (case m log of (l, Ok x) \<Rightarrow> (l, Ok x) | (l, Err _) \<Rightarrow> n l)"

definition mission_diff ::
  "GitEnv \<Rightarrow> string \<Rightarrow> string option \<Rightarrow> string option \<Rightarrow> (git_log, GitDiffResponse, string) op" where
  "mission_diff env path base verified =
    (case (base, verified) of
       (Some b, Some v) \<Rightarrow>
         if b \<noteq> v then or_else (get_git_diff_range env path b v) (get_git_diff_against env path b)
         else get_git_diff_against env path b
     | (None, Some v) \<Rightarrow> or_else (get_git_diff_range env path (v @ ''^'') v) (get_git_diff env path False)
     | (Some b, None) \<Rightarrow> get_git_diff_against env path b
     | (None, None) \<Rightarrow> get_git_diff env path False)"

record MissionDiffResponse =
  md_mission_id :: ident
  md_base_commit :: "string option"
  md_current_commit :: "string option"
  md_is_clean :: bool
  md_diff :: string
  md_files_changed :: "string list"
  md_insertions :: nat
  md_deletions :: nat

definition view_mission :: "string \<Rightarrow> Db \<Rightarrow> (Mission, api_error) result" where
  "view_mission id_str db =
    and_then (ok_or (BAD_REQUEST, ''Invalid mission ID'') (parse_ident id_str)) (\<lambda>i.
      ok_or (NOT_FOUND, ''Mission not found'') (get_mission i db))"

definition from_git :: "(git_log, 'a, string) op \<Rightarrow> (git_log, 'a, api_error) op" where
  "from_git m log = (case m log of (l, r) \<Rightarrow> (l, map_err (\<lambda>e. (INTERNAL_SERVER_ERROR, e)) r))"

definition mission_workspace :: "Mission \<Rightarrow> Db \<Rightarrow> (Workspace, api_error) result" where
  "mission_workspace m db =
    and_then (ok_or (BAD_REQUEST, ''Mission is not bound to a workspace'') (m_workspace_id m)) (\<lambda>w.
      ok_or (NOT_FOUND, ''Workspace not found'') (get_workspace w db))"

definition get_mission_diff :: "GitEnv \<Rightarrow> string \<Rightarrow> Db \<Rightarrow> (git_log, MissionDiffResponse, api_error) op" where
  "get_mission_diff env id_str db =
    st_then (\<lambda>l. (l, view_mission id_str db)) (\<lambda>m.
    st_then (\<lambda>l. (l, mission_workspace m db)) (\<lambda>ws.
    st_then (from_git (get_git_status env (ws_canonical_path ws))) (\<lambda>st.
    st_then (from_git (mission_diff env (ws_canonical_path ws) (meta_str ''initial_commit'' m) (m_latest_verified_commit m))) (\<lambda>d l.
      (l, Ok \<lparr>md_mission_id = m_id m, md_base_commit = meta_str ''initial_commit'' m, md_current_commit = gi_head_commit st,
              md_is_clean = gi_is_clean st, md_diff = gd_diff d, md_files_changed = gd_files_changed d,
              md_insertions = gd_insertions d, md_deletions = gd_deletions d\<rparr>)))))"

section \<open>The review package\<close>

record ReviewVerificationSummary =
  rs_stopping_condition :: StoppingCondition
  rs_verified_commit :: "string option"
  rs_outcome :: "MissionOutcome option"
  rs_tests_passed :: bool
  rs_tree_clean :: bool
  rs_commit_exists :: bool

record ReviewTimelineItem =
  ri_timestamp :: string
  ri_event_type :: string
  ri_summary :: string

record MissionReviewPackage =
  rp_mission_id :: ident
  rp_title :: string
  rp_objective :: string
  rp_status :: MissionState
  rp_health :: string
  rp_repository :: "string option"
  rp_target_branch :: "string option"
  rp_agent_used :: "string option"
  rp_duration_secs :: u64
  rp_cycles_count :: u32
  rp_total_executions :: u32
  rp_recovery_attempts :: u32
  rp_verification :: ReviewVerificationSummary
  rp_final_commit :: "string option"
  rp_files_changed :: "string list"
  rp_insertions :: nat
  rp_deletions :: nat
  rp_full_diff :: "string option"
  rp_warnings :: "string list"
  rp_audit_timeline :: "ReviewTimelineItem list"
  rp_can_accept :: bool
  rp_can_integrate :: bool
  rp_can_reject :: bool
  rp_verified_target_head :: "string option"
  rp_current_target_head :: "string option"
  rp_reverification_required :: bool

fun health_text :: "MissionHealth \<Rightarrow> string" where
  "health_text MissionHealth.Healthy = ''healthy''"
| "health_text MissionHealth.Stagnant = ''stagnant''"
| "health_text MissionHealth.Stalled = ''stalled''"
| "health_text MissionHealth.Degraded = ''degraded''"
| "health_text MissionHealth.Escalated = ''escalated''"

definition event_summary :: "string \<Rightarrow> string" where
  "event_summary ty =
    (case map_of
       [(''mission_started'', ''Mission autonomous execution started''),
        (''verification_passed'', ''Independent out-of-band physical verifier passed''),
        (''mission_awaiting_acceptance'', ''Mission halted at review boundary; awaiting human acceptance''),
        (''mission_acceptance_recorded'', ''Mission deliverable explicitly accepted by human operator''),
        (''mission_accepted'', ''Mission deliverable explicitly accepted by human operator''),
        (''mission_integration_started'', ''Mission integration into target repository branch started''),
        (''mission_integration_succeeded'', ''Mission changes integrated into target repository branch''),
        (''mission_integrated'', ''Mission changes integrated into target repository branch''),
        (''mission_integration_failed'', ''Mission integration failed and rolled back''),
        (''mission_integration_reconciled'', ''Mission intermediate integration state reconciled on recovery''),
        (''mission_rejected'', ''Mission deliverable rejected''),
        (''mission_rejected_for_replan'', ''Mission rejected with request to replan'')] ty of
       Some s \<Rightarrow> s
     | None \<Rightarrow> str_replace ''_'' '' '' ty)"

definition timeline_item :: "(time \<Rightarrow> string) \<Rightarrow> Event \<Rightarrow> ReviewTimelineItem" where
  "timeline_item rfc3339 e =
    \<lparr>ri_timestamp = rfc3339 (e_timestamp e), ri_event_type = e_event_type e, ri_summary = event_summary (e_event_type e)\<rparr>"

text \<open>The warnings about the target tree: files that are not committed, and a head that has moved.\<close>

definition tree_warnings :: "Mission \<Rightarrow> GitStatusResponse \<Rightarrow> string list" where
  "tree_warnings m st =
    (if gi_is_clean st then []
     else [''Target working tree currently has '' @ decimal (length (gi_files st)) @ '' uncommitted/dirty files'']) @
    (case (meta_str ''initial_commit'' m, gi_head_commit st) of
       (Some base, Some head) \<Rightarrow>
         if head \<noteq> base \<and> m_state m = MissionState.AwaitingAcceptance
         then [''Target branch HEAD ('' @ head @ '') differs from initial base ('' @ base @ '')''] else []
     | _ \<Rightarrow> [])"

definition recovery_warnings :: "Mission \<Rightarrow> string list" where
  "recovery_warnings m =
    (let n = recovery_attempts (m_budget_consumed m) in
     if 0 < n then [''Mission required '' @ dec_word n @ '' recovery attempt(s) during execution''] else [])"

text \<open>What git tells of the workspace, where there is one: the status and the difference, if they
could be read.\<close>

definition repository_view ::
  "GitEnv \<Rightarrow> Mission \<Rightarrow> Workspace option \<Rightarrow> git_log \<Rightarrow> git_log \<times> GitStatusResponse option \<times> GitDiffResponse option" where
  "repository_view env m ws log =
    (case ws of
       None \<Rightarrow> (log, None, None)
     | Some w \<Rightarrow>
         (case get_git_status env (ws_canonical_path w) log of (l1, st) \<Rightarrow>
          case mission_diff env (ws_canonical_path w) (meta_str ''initial_commit'' m) (m_latest_verified_commit m) l1 of (l2, d) \<Rightarrow>
            (l2, (case st of Ok x \<Rightarrow> Some x | Err _ \<Rightarrow> None), (case d of Ok x \<Rightarrow> Some x | Err _ \<Rightarrow> None))))"

definition review_package ::
  "(time \<Rightarrow> string) \<Rightarrow> Db \<Rightarrow> Mission \<Rightarrow> Workspace option \<Rightarrow> GitStatusResponse option \<Rightarrow> GitDiffResponse option \<Rightarrow> MissionReviewPackage" where
  "review_package rfc3339 db m ws status d =
    (let verified_head = meta_str2 ''verified_target_head'' ''initial_commit'' m;
         current_head = Option.bind status gi_head_commit;
         warnings = (case status of Some st \<Rightarrow> tree_warnings m st | None \<Rightarrow> []) @ recovery_warnings m in
     \<lparr>rp_mission_id = m_id m, rp_title = m_title m, rp_objective = m_objective m, rp_status = m_state m,
      rp_health = health_text (m_health_status m), rp_repository = map_option ws_canonical_path ws,
      rp_target_branch = map_option gi_branch status,
      rp_agent_used = Some (case list_cycles (m_id m) db of c # _ \<Rightarrow> cy_phase c | [] \<Rightarrow> ''gemini-3.1-flash-lite''),
      rp_duration_secs = duration_secs (m_budget_consumed m), rp_cycles_count = m_cycle_index m + 1,
      rp_total_executions = total_executions (m_budget_consumed m),
      rp_recovery_attempts = recovery_attempts (m_budget_consumed m),
      rp_verification =
        \<lparr>rs_stopping_condition = m_stopping_condition m, rs_verified_commit = m_latest_verified_commit m,
         rs_outcome = m_final_outcome m,
         rs_tests_passed = (case m_final_outcome m of Some out \<Rightarrow> o_success out | None \<Rightarrow> False),
         rs_tree_clean = list_all (\<lambda>w. \<not> str_contains ''uncommitted/dirty'' w) warnings,
         rs_commit_exists = (m_latest_verified_commit m \<noteq> None)\<rparr>,
      rp_final_commit = m_latest_verified_commit m,
      rp_files_changed = (case d of Some x \<Rightarrow> gd_files_changed x | None \<Rightarrow> []),
      rp_insertions = (case d of Some x \<Rightarrow> gd_insertions x | None \<Rightarrow> 0),
      rp_deletions = (case d of Some x \<Rightarrow> gd_deletions x | None \<Rightarrow> 0),
      rp_full_diff = map_option gd_diff d,
      rp_warnings = warnings,
      rp_audit_timeline = map (timeline_item rfc3339) (list_events_by_aggregate ''mission'' (m_id m) db),
      rp_can_accept = (m_state m = MissionState.AwaitingAcceptance),
      rp_can_integrate = (m_state m = MissionState.Accepted),
      rp_can_reject = (m_state m = MissionState.AwaitingAcceptance \<or> m_state m = MissionState.Accepted),
      rp_verified_target_head = verified_head, rp_current_target_head = current_head,
      rp_reverification_required =
        (case (verified_head, current_head) of
           (Some v, Some c) \<Rightarrow> v \<noteq> c \<and> m_state m = MissionState.AwaitingAcceptance
         | _ \<Rightarrow> False)\<rparr>)"

definition get_mission_review ::
  "GitEnv \<Rightarrow> (time \<Rightarrow> string) \<Rightarrow> string \<Rightarrow> Db \<Rightarrow> (git_log, MissionReviewPackage, api_error) op" where
  "get_mission_review env rfc3339 id_str db log =
    (case view_mission id_str db of
       Err e \<Rightarrow> (log, Err e)
     | Ok m \<Rightarrow>
         (let ws = Option.bind (m_workspace_id m) (\<lambda>w. get_workspace w db) in
          case repository_view env m ws log of (l, status, d) \<Rightarrow> (l, Ok (review_package rfc3339 db m ws status d))))"

record MissionStatusResponse =
  mr_mission :: Mission
  mr_latest_checkpoint :: "MissionCheckpoint option"
  mr_is_running :: bool
  mr_cycles_count :: nat

definition get_mission_status :: "string \<Rightarrow> MissionEngine \<Rightarrow> (MissionStatusResponse, api_error) result" where
  "get_mission_status id_str s =
    and_then (view_mission id_str (en_store s)) (\<lambda>m.
      Ok \<lparr>mr_mission = m, mr_latest_checkpoint = get_latest_checkpoint (m_id m) (en_store s),
          mr_is_running = is_running (m_id m) s, mr_cycles_count = length (list_cycles (m_id m) (en_store s))\<rparr>)"

section \<open>The git routes of a workspace\<close>

definition view_workspace :: "string \<Rightarrow> Db \<Rightarrow> (Workspace, api_error) result" where
  "view_workspace id_str db = and_then (api_id ''workspace'' id_str) (\<lambda>i. api_found ''Workspace'' i (get_workspace i db))"

definition on_workspace :: "string \<Rightarrow> Db \<Rightarrow> (Workspace \<Rightarrow> (git_log, 'a, string) op) \<Rightarrow> (git_log, 'a, api_error) op" where
  "on_workspace id_str db f = st_then (\<lambda>l. (l, view_workspace id_str db)) (\<lambda>ws. from_git (f ws))"

definition workspace_git_status :: "GitEnv \<Rightarrow> string \<Rightarrow> Db \<Rightarrow> (git_log, GitStatusResponse, api_error) op" where
  "workspace_git_status env id_str db = on_workspace id_str db (\<lambda>ws. get_git_status env (ws_canonical_path ws))"

definition workspace_git_diff :: "GitEnv \<Rightarrow> string \<Rightarrow> bool option \<Rightarrow> Db \<Rightarrow> (git_log, GitDiffResponse, api_error) op" where
  "workspace_git_diff env id_str staged db =
    on_workspace id_str db (\<lambda>ws. get_git_diff env (ws_canonical_path ws) (staged = Some True))"

definition workspace_git_log :: "GitEnv \<Rightarrow> string \<Rightarrow> nat option \<Rightarrow> Db \<Rightarrow> (git_log, GitCommitInfo list, api_error) op" where
  "workspace_git_log env id_str limit db =
    on_workspace id_str db (\<lambda>ws. get_git_log env (ws_canonical_path ws) (case limit of Some n \<Rightarrow> n | None \<Rightarrow> 20))"

definition workspace_git_commit ::
  "GitEnv \<Rightarrow> time \<Rightarrow> string \<Rightarrow> string \<Rightarrow> (git_log \<times> Db, string \<times> string, api_error) op" where
  "workspace_git_commit env now id_str msg s =
    (case s of (log, db) \<Rightarrow>
       (case view_workspace id_str db of
          Err e \<Rightarrow> ((log, db), Err e)
        | Ok ws \<Rightarrow>
            (case from_git (commit_git_changes env (ws_canonical_path ws) msg) log of
               (l, Err e) \<Rightarrow> ((l, db), Err e)
             | (l, Ok c) \<Rightarrow> ((l, emit_event now ''workspace'' (ws_id ws) ''git.committed'' db), Ok c))))"

section \<open>Handlers that return rows\<close>

text \<open>Each parses the identifier of its path; a single row that is missing is an error.\<close>

definition rows_of :: "string \<Rightarrow> (ident \<Rightarrow> Db \<Rightarrow> 'a) \<Rightarrow> string \<Rightarrow> Db \<Rightarrow> ('a, api_error) result" where
  "rows_of what f id_str db = and_then (api_id what id_str) (\<lambda>i. Ok (f i db))"

definition row_of :: "string \<Rightarrow> string \<Rightarrow> (ident \<Rightarrow> Db \<Rightarrow> 'a option) \<Rightarrow> string \<Rightarrow> Db \<Rightarrow> ('a, api_error) result" where
  "row_of what name f id_str db = and_then (api_id what id_str) (\<lambda>i. api_found name i (f i db))"

definition list_workflow_tasks_route :: "string \<Rightarrow> Db \<Rightarrow> (Task list, api_error) result" where
  "list_workflow_tasks_route = rows_of ''workflow'' list_tasks_by_workflow"

definition list_workflow_messages_route :: "string \<Rightarrow> Db \<Rightarrow> (AgentMessage list, api_error) result" where
  "list_workflow_messages_route = rows_of ''workflow'' list_messages_by_workflow"

definition list_workflow_recoveries_route :: "string \<Rightarrow> Db \<Rightarrow> (RecoveryRecord list, api_error) result" where
  "list_workflow_recoveries_route = rows_of ''workflow'' list_recovery_records_by_workflow"

definition list_workflow_verifications_route :: "string \<Rightarrow> Db \<Rightarrow> (Verification list, api_error) result" where
  "list_workflow_verifications_route = rows_of ''workflow'' list_verifications_by_workflow"

definition get_task_executions_route :: "string \<Rightarrow> Db \<Rightarrow> (Execution list, api_error) result" where
  "get_task_executions_route = rows_of ''task'' list_executions_by_task"

definition get_task_verifications_route :: "string \<Rightarrow> Db \<Rightarrow> (Verification list, api_error) result" where
  "get_task_verifications_route = rows_of ''task'' list_verifications_by_task"

definition get_task_messages_route :: "string \<Rightarrow> Db \<Rightarrow> (AgentMessage list, api_error) result" where
  "get_task_messages_route = rows_of ''task'' list_messages_by_task"

definition get_task_recoveries_route :: "string \<Rightarrow> Db \<Rightarrow> (RecoveryRecord list, api_error) result" where
  "get_task_recoveries_route = rows_of ''task'' list_recovery_records_by_task"

definition get_agent_sessions_route :: "string \<Rightarrow> Db \<Rightarrow> (Session list, api_error) result" where
  "get_agent_sessions_route = rows_of ''agent'' list_sessions_by_agent"

definition get_agent_messages_route :: "string \<Rightarrow> Db \<Rightarrow> (AgentMessage list, api_error) result" where
  "get_agent_messages_route = rows_of ''agent'' list_messages_for_agent"

text \<open>Asking for the agents creates the default ones that are missing.\<close>

definition list_agents_route :: "ExecutorEnv \<Rightarrow> (Db, Agent list, api_error) op" where
  "list_agents_route env db = (let db1 = fst (ensure_default_agents env None db) in (db1, Ok (list_agents db1)))"

definition get_workflow_route :: "string \<Rightarrow> Db \<Rightarrow> (Workflow, api_error) result" where
  "get_workflow_route = row_of ''workflow'' ''Workflow'' get_workflow"

definition get_agent_route :: "string \<Rightarrow> Db \<Rightarrow> (Agent, api_error) result" where
  "get_agent_route = row_of ''agent'' ''Agent'' get_agent"

definition get_memory_route :: "string \<Rightarrow> Db \<Rightarrow> (MemoryRecord, api_error) result" where
  "get_memory_route = row_of ''memory'' ''Memory'' get_memory"

definition mission_rows :: "(ident \<Rightarrow> Db \<Rightarrow> 'a) \<Rightarrow> string \<Rightarrow> Db \<Rightarrow> ('a, api_error) result" where
  "mission_rows f id_str db = and_then (ok_or (BAD_REQUEST, ''Invalid mission ID'') (parse_ident id_str)) (\<lambda>i. Ok (f i db))"

definition list_mission_checkpoints :: "string \<Rightarrow> Db \<Rightarrow> (MissionCheckpoint list, api_error) result" where
  "list_mission_checkpoints = mission_rows list_checkpoints"

definition list_mission_cycles :: "string \<Rightarrow> Db \<Rightarrow> (MissionCycle list, api_error) result" where
  "list_mission_cycles = mission_rows list_cycles"

end
