(* ===== verification/Review_Properties.thy ===== *)
theory Review_Properties
  imports Mission_Review Decision_Properties
begin

text \<open>The integration of a commit by the git client, whatever the git program answers: which commands it
runs, and what a success and a refusal mean for the repository. And the review package of a mission
against the decisions it offers.\<close>

section \<open>The commands of a run\<close>

abbreviation after :: "git_log \<Rightarrow> string \<Rightarrow> string list list \<Rightarrow> git_log" where
  "after log path cs \<equiv> log @ map (Pair path) cs"

text \<open>A command of a run that the program carried out.\<close>

fun carried_out :: "GitEnv \<Rightarrow> string \<Rightarrow> git_log \<Rightarrow> string list list \<Rightarrow> string list \<Rightarrow> bool" where
  "carried_out env path log [] args = False"
| "carried_out env path log (c # cs) args =
    (c = args \<and> succeeded (ge_run env log path c) \<or> carried_out env path (after log path [c]) cs args)"

lemma carried_out_append [simp]:
  "carried_out env path log (cs @ ds) args \<longleftrightarrow> carried_out env path log cs args \<or> carried_out env path (after log path cs) ds args"
  by (induction cs arbitrary: log) auto

lemma carried_out_in: "carried_out env path log cs args \<Longrightarrow> args \<in> set cs"
  by (induction cs arbitrary: log) auto

text \<open>The commands that change the working tree or a branch.\<close>

definition changing :: "string list \<Rightarrow> bool" where
  "changing c = (take 1 c = [''checkout''] \<or> take 1 c = [''merge''])"

definition merging :: "string list \<Rightarrow> bool" where
  "merging c = (take 1 c = [''merge''])"

lemma merging_changing: "merging c \<Longrightarrow> changing c"
  by (simp add: merging_def changing_def)

lemma kinds [simp]:
  "\<not> changing (''rev-parse'' # c)" "\<not> changing (''status'' # c)" "\<not> changing (''cat-file'' # c)" "\<not> changing (''merge-base'' # c)"
  "merging (''merge'' # c)" "\<not> merging (''checkout'' # c)" "\<not> merging (''rev-parse'' # c)"
  "\<not> merging (''cat-file'' # c)"
  by (simp_all add: changing_def merging_def)

section \<open>The stages\<close>

lemma status_commands:
  assumes "get_git_status env path log = (l, r)"
  obtains cs where "l = after log path cs" "\<forall>c\<in>set cs. \<not> changing c"
proof -
  let ?b = "[''rev-parse'', ''--abbrev-ref'', ''HEAD'']" and ?h = "[''rev-parse'', ''HEAD'']" and ?s = "[''status'', ''--porcelain=v1'']"
  have "l = after log path [] \<or> l = after log path [?b] \<or> l = after log path [?b, ?h, ?s]"
    using assms by (cases "ge_run env log path ?b"; cases "ge_run env (after log path [?b, ?h]) path ?s")
      (auto simp: get_git_status_def git_cmd_def git_def st_then.simps split: if_splits)
  then show thesis using that [of "[]"] that [of "[?b]"] that [of "[?b, ?h, ?s]"] by auto
qed

lemma contained_commands:
  assumes "already_contained env path target commit head log = (l, b)"
  obtains cs where "l = after log path cs" "\<forall>c\<in>set cs. \<not> changing c"
  using assms that [of "[]"] that [of "[[''merge-base'', ''--is-ancestor'', commit, target]]"]
  by (auto simp: already_contained_def is_commit_ancestor_def git_def split: option.splits if_splits)

lemma moved_commands:
  assumes "head_moved env path target commit expected head log = (l, b)"
  obtains cs where "l = after log path cs" "\<forall>c\<in>set cs. \<not> changing c"
  using assms that [of "[]"] that [of "[[''merge-base'', ''--is-ancestor'', commit, target]]"]
  by (auto simp: head_moved_def is_commit_ancestor_def git_def split: option.splits if_splits)

lemma switch_commands:
  assumes "switch_branch env path current target log = (l, r)"
  obtains cs where "l = after log path cs" "\<forall>c\<in>set cs. \<not> merging c"
    "is_ok r \<longleftrightarrow> current = target \<or> current = ''unknown'' \<or>
       carried_out env path log cs [''checkout'', target] \<or> carried_out env path log cs [''checkout'', ''-b'', target]"
proof (cases "current \<noteq> target \<and> current \<noteq> ''unknown''")
  case True
  let ?v = "[''rev-parse'', ''--verify'', target]"
  let ?c = "if succeeded (ge_run env log path ?v) then [''checkout'', target] else [''checkout'', ''-b'', target]"
  have "l = after log path [?v, ?c]" "is_ok r \<longleftrightarrow> succeeded (ge_run env (after log path [?v]) path ?c)"
    using assms True by (cases "ge_run env (after log path [?v]) path ?c";
      auto simp: switch_branch_def git_cmd_def git_def st_then.simps Let_def succeeded_def split: if_splits)+
  then show thesis using True by (intro that [of "[?v, ?c]"]) (auto split: if_splits)
next
  case False
  then show thesis using assms that [of "[]"] by (auto simp: switch_branch_def)
qed

lemma merge_commands:
  fixes path commit msg :: string
  defines "f \<equiv> [''merge'', ''--ff-only'', commit]" and "m \<equiv> [''merge'', ''-m'', msg, commit]"
  assumes "merge_commit env path target commit msg log = (l, r)"
  obtains cs where "l = after log path cs"
    "is_ok r \<longleftrightarrow> carried_out env path log cs f \<or> carried_out env path log cs m"
    "m \<in> set cs \<and> \<not> is_ok r \<longrightarrow> last cs = [''merge'', ''--abort''] \<or> cs = [f, m] \<and> ge_run env (after log path [f]) path m = None"
    "f \<in> set cs" "\<forall>c\<in>set cs. take 1 c \<noteq> [''checkout'']"
proof -
  let ?h = "[''rev-parse'', ''HEAD'']"
  note defs = merge_commit_def git_cmd_def git_def st_then.simps succeeded_def f_def m_def
  consider "ge_run env log path f = None" | out where "ge_run env log path f = Some out" "go_success out"
    | out where "ge_run env log path f = Some out" "\<not> go_success out" by (cases "ge_run env log path f") auto
  then show thesis
  proof cases
    case 1
    then show thesis using assms(3) by (intro that [of "[f]"]) (auto simp: defs)
  next
    case 2
    then show thesis using assms(3) by (intro that [of "[f, ?h]"]) (auto simp: defs)
  next
    case 3
    note ff = this
    consider "ge_run env (after log path [f]) path m = None"
      | out where "ge_run env (after log path [f]) path m = Some out" "go_success out"
      | out where "ge_run env (after log path [f]) path m = Some out" "\<not> go_success out"
      by (cases "ge_run env (after log path [f]) path m") auto
    then show thesis
    proof cases
      case 1
      then show thesis using assms(3) ff by (intro that [of "[f, m]"]) (auto simp: defs)
    next
      case 2
      then show thesis using assms(3) ff by (intro that [of "[f, m, ?h]"]) (auto simp: defs)
    next
      case 3
      then show thesis using assms(3) ff by (intro that [of "[f, m, [''merge'', ''--abort'']]"]) (auto simp: defs)
    qed
  qed
qed

section \<open>The integration\<close>

text \<open>What git said before anything was changed: the tree is clean and the commit is there (with the
branch that is checked out and the log so far), where the target stands, whether it holds the
commit already, and whether it stands elsewhere than expected.\<close>

definition inspected :: "GitEnv \<Rightarrow> string \<Rightarrow> string \<Rightarrow> git_log \<Rightarrow> (git_log \<times> string) option" where
  "inspected env path commit log =
    (case get_git_status env path log of
       (l, Err e) \<Rightarrow> None
     | (l, Ok st) \<Rightarrow>
         if gi_is_clean st \<and> succeeded (ge_run env l path [''cat-file'', ''-t'', commit])
         then Some (after l path [[''cat-file'', ''-t'', commit]], gi_branch st) else None)"

definition target_head :: "GitEnv \<Rightarrow> string \<Rightarrow> string \<Rightarrow> git_log \<Rightarrow> string option" where
  "target_head env path target l = git_trimmed (ge_run env l path [''rev-parse'', target])"

definition holds_commit :: "GitEnv \<Rightarrow> string \<Rightarrow> string \<Rightarrow> string \<Rightarrow> git_log \<Rightarrow> bool" where
  "holds_commit env path target commit l =
    (case target_head env path target l of
       None \<Rightarrow> False
     | Some h \<Rightarrow> h = commit \<or>
         succeeded (ge_run env (after l path [[''rev-parse'', target]]) path [''merge-base'', ''--is-ancestor'', commit, target]))"

definition overtaken :: "GitEnv \<Rightarrow> string \<Rightarrow> string \<Rightarrow> string \<Rightarrow> string option \<Rightarrow> git_log \<Rightarrow> bool" where
  "overtaken env path target commit expected l =
    (let asks = [''merge-base'', ''--is-ancestor'', commit, target] in
     case (expected, target_head env path target l) of
       (Some e, Some h) \<Rightarrow> h \<noteq> e \<and> h \<noteq> commit \<and>
         \<not> succeeded (ge_run env (after l path [[''rev-parse'', target], asks]) path asks)
     | _ \<Rightarrow> False)"

text \<open>What a run of commands from a log, and whether it succeeds, amounts to.\<close>

definition switched_run ::
  "GitEnv \<Rightarrow> string \<Rightarrow> string \<Rightarrow> string \<Rightarrow> string \<Rightarrow> string \<Rightarrow> git_log \<Rightarrow> string list list \<Rightarrow> bool \<Rightarrow> bool" where
  "switched_run env path target commit msg branch log cs ok =
    (let f = [''merge'', ''--ff-only'', commit]; m = [''merge'', ''-m'', msg, commit];
         merged = (carried_out env path log cs f \<or> carried_out env path log cs m);
         switched = (branch = target \<or> branch = ''unknown'' \<or>
           carried_out env path log cs [''checkout'', target] \<or> carried_out env path log cs [''checkout'', ''-b'', target]) in
     ok = merged \<and> (list_ex merging cs = switched) \<and>
     (m \<in> set cs \<and> \<not> ok \<longrightarrow> last cs = [''merge'', ''--abort''] \<or>
        last cs = m \<and> ge_run env (after log path (butlast cs)) path m = None))"

definition safe_run ::
  "GitEnv \<Rightarrow> string \<Rightarrow> string \<Rightarrow> string \<Rightarrow> string \<Rightarrow> string option \<Rightarrow> git_log \<Rightarrow> string list list \<Rightarrow> bool \<Rightarrow> bool" where
  "safe_run env path target commit msg expected log cs ok =
    (case inspected env path commit log of
       None \<Rightarrow> \<not> ok \<and> \<not> list_ex changing cs
     | Some (l, branch) \<Rightarrow>
         if holds_commit env path target commit l then ok \<and> \<not> list_ex changing cs
         else if overtaken env path target commit expected l then \<not> ok \<and> \<not> list_ex changing cs
         else switched_run env path target commit msg branch log cs ok)"

lemma contained_holds:
  assumes "already_contained env path target commit (target_head env path target l) (after l path [[''rev-parse'', target]]) = (l4, b)"
  shows "b = holds_commit env path target commit l"
  using assms by (auto simp: already_contained_def is_commit_ancestor_def git_def holds_commit_def split: option.splits if_splits)

lemma moved_overtaken:
  assumes "already_contained env path target commit (target_head env path target l) (after l path [[''rev-parse'', target]]) = (l4, False)"
    "head_moved env path target commit expected (target_head env path target l) l4 = (l5, b)"
  shows "b = overtaken env path target commit expected l"
  using assms by (auto simp: already_contained_def head_moved_def is_commit_ancestor_def git_def overtaken_def Let_def
      split: option.splits if_splits)

lemma refused_commands:
  assumes "integrate_git_commit env path target commit custom_message expected log = (log', r)"
    "inspected env path commit log = None"
  obtains cs where "log' = after log path cs" "\<forall>c\<in>set cs. \<not> changing c" "\<not> is_ok r"
proof -
  let ?c = "[''cat-file'', ''-t'', commit]"
  obtain l1 r1 where st: "get_git_status env path log = (l1, r1)" by fastforce
  then obtain cs1 where l1: "l1 = after log path cs1" "\<forall>c\<in>set cs1. \<not> changing c" by (rule status_commands)
  note defs = integrate_git_commit_def st_then.simps git_cmd_def git_def st
  have "log' = log \<or> log' = l1 \<or> log' = after l1 path [?c]" "\<not> is_ok r"
    using assms st by (cases r1; cases "ge_run env l1 path ?c";
      auto simp: defs inspected_def succeeded_def split: if_splits)+
  then show thesis using that [of "[]"] that [of cs1] that [of "cs1 @ [?c]"] l1 by auto
qed

lemma inspected_commands:
  assumes "inspected env path commit log = Some (l, branch)"
  obtains cs where "l = after log path cs" "\<forall>c\<in>set cs. \<not> changing c"
proof -
  obtain l1 r1 where st: "get_git_status env path log = (l1, r1)" by fastforce
  then obtain cs1 where "l1 = after log path cs1" "\<forall>c\<in>set cs1. \<not> changing c" by (rule status_commands)
  then show thesis using assms st that [of "cs1 @ [[''cat-file'', ''-t'', commit]]"]
    by (auto simp: inspected_def split: result.splits if_splits)
qed

lemma inspected_run:
  assumes "integrate_git_commit env path target commit custom_message expected log = (log', r)"
    "inspected env path commit log = Some (l, branch)"
    "already_contained env path target commit (target_head env path target l) (after l path [[''rev-parse'', target]]) = (l4, b4)"
    "head_moved env path target commit expected (target_head env path target l) l4 = (l5, b5)"
    "switch_branch env path branch target l5 = (l6, r6)"
    "merge_commit env path target commit (case custom_message of Some m \<Rightarrow> m | None \<Rightarrow> ''Merge verified Sentinel mission commit'') l6 = (l7, r7)"
  shows "(log', is_ok r) = (if b4 then (l4, True) else if b5 then (l5, False)
      else if is_ok r6 then (l7, is_ok r7) else (l6, False))"
proof -
  let ?c = "[''cat-file'', ''-t'', commit]"
  obtain l1 st where st: "get_git_status env path log = (l1, Ok st)" "gi_is_clean st" "succeeded (ge_run env l1 path ?c)"
    and l: "l = after l1 path [?c]" "branch = gi_branch st"
    using assms(2) by (auto simp: inspected_def split: prod.splits result.splits if_splits)
  have ex: "ge_exists env path" using st(1) by (auto simp: get_git_status_def split: if_splits)
  obtain out where out: "ge_run env l1 path ?c = Some out" "go_success out"
    using st(3) by (auto simp: succeeded_def split: option.splits)
  have c4: "already_contained env path target commit (git_trimmed (ge_run env (l1 @ [(path, ?c)]) path [''rev-parse'', target]))
      (l1 @ [(path, ?c), (path, [''rev-parse'', target])]) = (l4, b4)"
    and c5: "head_moved env path target commit expected (git_trimmed (ge_run env (l1 @ [(path, ?c)]) path [''rev-parse'', target])) l4 = (l5, b5)"
    using assms(3,4) by (simp_all add: l target_head_def)
  note run = assms(1) [unfolded integrate_git_commit_def git_cmd_def git_def Let_def]
  show ?thesis
  proof (cases "b4 \<or> b5")
    case True
    then show ?thesis using run ex st(1,2) out c4 c5 by (cases b4) (auto simp: st_then.simps)
  next
    case False
    then show ?thesis using run ex st(1,2) out c4 c5 assms(5,6)
      by (cases r6) (auto simp: st_then.simps l(2))
  qed
qed

lemma carried_out_append_quiet:
  assumes "\<forall>c\<in>set cs. \<not> changing c" "changing args"
  shows "\<not> carried_out env path log cs args"
  using assms carried_out_in by blast

lemma switched_commands:
  assumes quiet: "\<forall>c\<in>set cs. \<not> changing c" "l5 = after log path cs"
    and c6: "switch_branch env path branch target l5 = (l6, r6)"
    and c7: "merge_commit env path target commit msg l6 = (l7, r7)"
    and run: "(log', k) = (if is_ok r6 then (l7, is_ok r7) else (l6, False))"
  obtains cs' where "log' = after log path cs'" "switched_run env path target commit msg branch log cs' k"
proof -
  let ?f = "[''merge'', ''--ff-only'', commit]" and ?m = "[''merge'', ''-m'', msg, commit]"
  let ?a = "[''checkout'', target]" and ?b = "[''checkout'', ''-b'', target]"
  obtain cs6 where l6: "l6 = after l5 path cs6" "\<forall>c\<in>set cs6. \<not> merging c"
    "is_ok r6 \<longleftrightarrow> branch = target \<or> branch = ''unknown'' \<or> carried_out env path l5 cs6 ?a \<or> carried_out env path l5 cs6 ?b"
    by (rule switch_commands [OF c6])
  have ch: "changing ?a" "changing ?b" "changing ?f" "changing ?m" by (simp_all add: changing_def)
  note none = carried_out_append_quiet [OF quiet(1) ch(1)] carried_out_append_quiet [OF quiet(1) ch(2)]
    carried_out_append_quiet [OF quiet(1) ch(3)] carried_out_append_quiet [OF quiet(1) ch(4)]
  have no6: "\<not> carried_out env path l cs6 (''merge'' # c)" "(''merge'' # c) \<notin> set (cs @ cs6)" for l c
    using l6(2) quiet(1) carried_out_in kinds(5) merging_changing by (metis Un_iff set_append)+
  have noex: "\<not> list_ex merging (cs @ cs6)" using l6(2) quiet(1) merging_changing by (auto simp: list_ex_iff)
  show thesis
  proof (cases "is_ok r6")
    case False
    then have "log' = after log path (cs @ cs6)" "\<not> k" using run l6(1) quiet(2) by simp_all
    moreover have "\<not> carried_out env path log (cs @ cs6) ?f" "\<not> carried_out env path log (cs @ cs6) ?m" "?m \<notin> set (cs @ cs6)"
      unfolding carried_out_append using none(3,4) no6 by blast+
    moreover have "\<not> (branch = target \<or> branch = ''unknown'' \<or>
        carried_out env path log (cs @ cs6) ?a \<or> carried_out env path log (cs @ cs6) ?b)"
      unfolding carried_out_append using none(1,2) False l6(3) quiet(2) by blast
    ultimately have "log' = after log path (cs @ cs6)" "switched_run env path target commit msg branch log (cs @ cs6) k"
      unfolding switched_run_def Let_def using noex by blast+
    then show thesis using that by blast
  next
    case True
    obtain cs7 where l7: "l7 = after l6 path cs7"
      "is_ok r7 \<longleftrightarrow> carried_out env path l6 cs7 ?f \<or> carried_out env path l6 cs7 ?m"
      "?m \<in> set cs7 \<and> \<not> is_ok r7 \<longrightarrow> last cs7 = [''merge'', ''--abort''] \<or> cs7 = [?f, ?m] \<and> ge_run env (after l6 path [?f]) path ?m = None"
      "?f \<in> set cs7" "\<forall>c\<in>set cs7. take 1 c \<noteq> [''checkout'']"
      by (rule merge_commands [OF c7])
    let ?all = "(cs @ cs6) @ cs7"
    have l6': "l6 = after log path (cs @ cs6)" using l6(1) quiet(2) by simp
    have log': "log' = after log path ?all" "k = is_ok r7" using True run l7(1) l6' by simp_all
    have "\<not> carried_out env path l6 cs7 (''checkout'' # c)" for c using l7(5) carried_out_in by fastforce
    then have "(branch = target \<or> branch = ''unknown'' \<or> carried_out env path log ?all ?a \<or> carried_out env path log ?all ?b) = True"
      unfolding carried_out_append using True l6(3) quiet(2) by blast
    moreover have "list_ex merging ?all" using l7(4) kinds(5) unfolding list_ex_iff set_append by blast
    moreover have "carried_out env path log ?all ?f \<or> carried_out env path log ?all ?m \<longleftrightarrow> is_ok r7"
      unfolding carried_out_append [of _ _ _ "cs @ cs6"] l7(2) l6' carried_out_append [of _ _ _ cs]
      using none(3,4) no6(1) by blast
    moreover have "?m \<in> set ?all \<and> \<not> is_ok r7 \<Longrightarrow> last ?all = [''merge'', ''--abort''] \<or>
        last ?all = ?m \<and> ge_run env (after log path (butlast ?all)) path ?m = None"
      using no6(2) l7(3,4) l6' by (auto simp: last_append butlast_append)
    ultimately have "switched_run env path target commit msg branch log ?all k"
      unfolding switched_run_def Let_def log'(2) by blast
    then show thesis using that log'(1) by blast
  qed
qed

text \<open>C36: Whatever git answers, an integration switches branches or merges only after it found the
tree clean, the commit present, the target without the commit, and, when a head of the target was
expected and the target has one, the target not moved to another head. In each of these cases
it is over without a change: a success when the target holds the commit already, refused otherwise.
When it goes on it merges exactly when the target was checked out (or is, or the branch is
unknown), succeeds exactly when git carried out one of the merges, and has aborted a merge that failed as its last
command, unless git could not be started for that merge.\<close>

theorem integration_safe:
  assumes "integrate_git_commit env path target commit custom_message expected log = (log', r)"
  shows "\<exists>cs. log' = after log path cs \<and>
    safe_run env path target commit (case custom_message of Some m \<Rightarrow> m | None \<Rightarrow> ''Merge verified Sentinel mission commit'')
      expected log cs (is_ok r)"
proof (cases "inspected env path commit log")
  case None
  then obtain cs where "log' = after log path cs" "\<forall>c\<in>set cs. \<not> changing c" "\<not> is_ok r"
    by (rule refused_commands [OF assms])
  then show ?thesis using None by (intro exI [of _ cs]) (simp add: safe_run_def list_ex_iff)
next
  case (Some x)
  then obtain l branch where ins: "inspected env path commit log = Some (l, branch)" by (cases x) auto
  let ?msg = "case custom_message of Some m \<Rightarrow> m | None \<Rightarrow> ''Merge verified Sentinel mission commit''"
  obtain cs0 where l: "l = after log path cs0" "\<forall>c\<in>set cs0. \<not> changing c" by (rule inspected_commands [OF ins])
  let ?l3 = "after l path [[''rev-parse'', target]]"
  obtain l4 b4 where c4: "already_contained env path target commit (target_head env path target l) ?l3 = (l4, b4)" by fastforce
  then obtain cs4 where l4: "l4 = after ?l3 path cs4" "\<forall>c\<in>set cs4. \<not> changing c" by (rule contained_commands)
  obtain l5 b5 where c5: "head_moved env path target commit expected (target_head env path target l) l4 = (l5, b5)" by fastforce
  then obtain cs5 where l5: "l5 = after l4 path cs5" "\<forall>c\<in>set cs5. \<not> changing c" by (rule moved_commands)
  obtain l6 r6 where c6: "switch_branch env path branch target l5 = (l6, r6)" by fastforce
  obtain l7 r7 where c7: "merge_commit env path target commit ?msg l6 = (l7, r7)" by fastforce
  have run: "(log', is_ok r) = (if b4 then (l4, True) else if b5 then (l5, False)
      else if is_ok r6 then (l7, is_ok r7) else (l6, False))"
    by (rule inspected_run [OF assms ins c4 c5 c6 c7])
  have b4: "b4 = holds_commit env path target commit l" by (rule contained_holds [OF c4])
  let ?cs = "cs0 @ [[''rev-parse'', target]] @ cs4 @ cs5"
  have quiet: "\<forall>c\<in>set ?cs. \<not> changing c" using l(2) l4(2) l5(2) by auto
  have l5': "l5 = after log path ?cs" using l(1) l4(1) l5(1) by simp
  consider "b4" | "\<not> b4" "b5" | "\<not> b4" "\<not> b5" by blast
  then show ?thesis
  proof cases
    case 1
    then have "log' = after log path (cs0 @ [[''rev-parse'', target]] @ cs4)" "is_ok r" using run l(1) l4(1) by simp_all
    then show ?thesis using ins b4 1 quiet by (intro exI [of _ "cs0 @ [[''rev-parse'', target]] @ cs4"]) (auto simp: safe_run_def list_ex_iff)
  next
    case 2
    then have b: "b4 = False" by simp
    from 2 have "overtaken env path target commit expected l" "log' = after log path ?cs" "\<not> is_ok r"
      using moved_overtaken [OF c4 [unfolded b] c5] run l5' by simp_all
    then show ?thesis using ins b4 2 quiet by (intro exI [of _ ?cs]) (auto simp: safe_run_def list_ex_iff)
  next
    case 3
    then have b: "b4 = False" by simp
    from 3 have stays: "\<not> overtaken env path target commit expected l"
      using moved_overtaken [OF c4 [unfolded b] c5] by simp
    have "(log', is_ok r) = (if is_ok r6 then (l7, is_ok r7) else (l6, False))" using 3 run by simp
    then obtain cs where "log' = after log path cs" "switched_run env path target commit ?msg branch log cs (is_ok r)"
      by (rule switched_commands [OF quiet l5' c6 c7])
    then show ?thesis using ins b4 3(1) stays by (intro exI [of _ cs]) (simp add: safe_run_def)
  qed
qed

section \<open>An example\<close>

text \<open>A program that knows the commit, refuses the fast-forward and merges.\<close>

definition merging_git :: GitEnv where
  "merging_git = \<lparr>ge_exists = (\<lambda>p. True),
     ge_run = (\<lambda>log p args. Some \<lparr>go_success = (take 2 args \<noteq> [''merge'', ''--ff-only''] \<and> take 1 args \<noteq> [''merge-base'']),
       go_stdout = (if take 1 args = [''rev-parse''] then ''main'' else []), go_stderr = []\<rparr>),
     ge_error = []\<rparr>"

lemma merging_git_run: "snd (integrate_git_commit merging_git ''/r'' ''main'' ''c0ffee'' None None []) \<noteq> Err e"
  by code_simp

lemma merging_git_stages:
  "case inspected merging_git ''/r'' ''c0ffee'' [] of None \<Rightarrow> False
     | Some (l, branch) \<Rightarrow> branch = ''main'' \<and> \<not> holds_commit merging_git ''/r'' ''main'' ''c0ffee'' l \<and>
         \<not> overtaken merging_git ''/r'' ''main'' ''c0ffee'' None l"
  by code_simp

theorem integration_safe_witness:
  "carried_out merging_git ''/r'' [] (map snd (fst (integrate_git_commit merging_git ''/r'' ''main'' ''c0ffee'' None None [])))
     [''merge'', ''-m'', ''Merge verified Sentinel mission commit'', ''c0ffee'']"
proof -
  let ?f = "[''merge'', ''--ff-only'', ''c0ffee'']" and ?m = "[''merge'', ''-m'', ''Merge verified Sentinel mission commit'', ''c0ffee'']"
  obtain log' r where run: "integrate_git_commit merging_git ''/r'' ''main'' ''c0ffee'' None None [] = (log', r)" by fastforce
  then obtain cs where cs: "log' = after [] ''/r'' cs"
    "safe_run merging_git ''/r'' ''main'' ''c0ffee'' ''Merge verified Sentinel mission commit'' None [] cs (is_ok r)"
    using integration_safe [OF run] by auto
  have "map snd log' = cs" by (simp add: cs(1) comp_def)
  moreover have "is_ok r" using merging_git_run run by (cases r) auto
  ultimately have "carried_out merging_git ''/r'' [] cs ?f \<or> carried_out merging_git ''/r'' [] cs ?m"
    using cs(2) merging_git_stages by (auto simp: safe_run_def switched_run_def Let_def split: option.splits prod.splits)
  moreover have "\<not> carried_out merging_git ''/r'' log cs ?f" for log
    by (induction cs arbitrary: log) (auto simp: merging_git_def succeeded_def)
  ultimately show ?thesis using run \<open>map snd log' = cs\<close> by simp
qed

section \<open>The review and the decisions\<close>

lemma view_mission_Ok:
  "view_mission id_str db = Ok m \<longleftrightarrow> (\<exists>i. parse_ident id_str = Some i \<and> get_mission i db = Some m \<and> m_id m = i)"
  using get_mission_id by (auto simp: view_mission_def)

lemma review_flags:
  assumes "get_mission_review env rfc3339 id_str db log = (l, Ok p)"
  obtains m where "get_mission (rp_mission_id p) db = Some m" "rp_status p = m_state m"
    "rp_can_accept p \<longleftrightarrow> m_state m = MissionState.AwaitingAcceptance" "rp_can_integrate p \<longleftrightarrow> m_state m = MissionState.Accepted"
    "rp_can_reject p \<longleftrightarrow> m_state m = MissionState.AwaitingAcceptance \<or> m_state m = MissionState.Accepted"
    "rp_final_commit p = m_latest_verified_commit m"
proof -
  obtain m where m: "view_mission id_str db = Ok m" using assms by (auto simp: get_mission_review_def split: result.splits)
  obtain l' st d where v: "repository_view env m (Option.bind (m_workspace_id m) (\<lambda>w. get_workspace w db)) log = (l', st, d)"
    by (rule prod_cases3)
  have p: "p = review_package rfc3339 db m (Option.bind (m_workspace_id m) (\<lambda>w. get_workspace w db)) st d"
    using assms m v by (simp add: get_mission_review_def Let_def)
  show thesis using m by (intro that [of m]) (auto simp: p review_package_def Let_def view_mission_Ok)
qed

lemma accept_refused:
  assumes "get_mission i db = Some m" "m_state m \<noteq> MissionState.AwaitingAcceptance"
    "m_state m \<noteq> MissionState.Integrated" "m_state m \<noteq> MissionState.Accepted"
  shows "\<exists>e. accept_mission env i req db = (db, Err e)"
  using assms by (simp add: accept_mission_def st_then.simps api_mission_def)

lemma integrate_refused:
  assumes "get_mission i db = Some m" "m_state m \<noteq> MissionState.Integrated"
    "m_state m \<noteq> MissionState.Accepted" "m_state m \<noteq> MissionState.Completed"
  shows "\<exists>e. execute_canonical_integration env i req db = (db, Err e)"
  using assms by (simp add: execute_canonical_integration_def integration_precheck_def st_then.simps api_mission_def)

lemma reject_refused:
  assumes "get_mission i db = Some m" "m_state m \<noteq> MissionState.AwaitingAcceptance" "m_state m \<noteq> MissionState.Accepted"
  shows "\<exists>e. reject_mission env i req db = (db, Err e)"
  using assms by (simp add: reject_mission_def st_then.simps api_mission_def)

text \<open>C37: After a review, a decision on its mission in the store it was made from is refused
without a change of the store whenever the package says that it cannot be made, with these exceptions, which
may succeed: an acceptance of a mission that is accepted or integrated already, an integration of
one that is integrated already, and the integration of a completed mission, which the package does not offer.\<close>

theorem review_offers:
  assumes "get_mission_review genv rfc3339 id_str db log = (l, Ok p)"
  shows "(\<not> rp_can_accept p \<and> rp_status p \<notin> {MissionState.Accepted, MissionState.Integrated} \<longrightarrow>
       (\<exists>e. accept_mission env (rp_mission_id p) areq db = (db, Err e))) \<and>
    (\<not> rp_can_integrate p \<and> rp_status p \<notin> {MissionState.Completed, MissionState.Integrated} \<longrightarrow>
       (\<exists>e. execute_canonical_integration env (rp_mission_id p) ireq db = (db, Err e))) \<and>
    (\<not> rp_can_reject p \<longrightarrow> (\<exists>e. reject_mission env (rp_mission_id p) rreq db = (db, Err e)))"
proof -
  obtain m where m: "get_mission (rp_mission_id p) db = Some m" "rp_status p = m_state m"
    "rp_can_accept p \<longleftrightarrow> m_state m = MissionState.AwaitingAcceptance" "rp_can_integrate p \<longleftrightarrow> m_state m = MissionState.Accepted"
    "rp_can_reject p \<longleftrightarrow> m_state m = MissionState.AwaitingAcceptance \<or> m_state m = MissionState.Accepted"
    by (rule review_flags [OF assms])
  show ?thesis
    using accept_refused [OF m(1)] integrate_refused [OF m(1)] reject_refused [OF m(1)] m(2-5) by (metis insertCI)
qed

text \<open>The converse does not hold: a mission whose final outcome is a failure is offered for acceptance,
and the request is refused.\<close>

theorem offered_but_refused:
  assumes "get_mission_review genv rfc3339 id_str db log = (l, Ok p)" "rp_can_accept p"
    "rs_outcome (rp_verification p) = Some out" "\<not> o_success out"
  shows "\<not> is_ok (snd (accept_mission env (rp_mission_id p) areq db))"
proof -
  obtain m where m: "view_mission id_str db = Ok m" using assms(1) by (auto simp: get_mission_review_def split: result.splits)
  obtain l' st d where v: "repository_view genv m (Option.bind (m_workspace_id m) (\<lambda>w. get_workspace w db)) log = (l', st, d)"
    by (rule prod_cases3)
  have p: "p = review_package rfc3339 db m (Option.bind (m_workspace_id m) (\<lambda>w. get_workspace w db)) st d"
    using assms(1) m v by (simp add: get_mission_review_def Let_def)
  have "m_state m = MissionState.AwaitingAcceptance" "m_final_outcome m = Some out" "get_mission (rp_mission_id p) db = Some m"
    using assms(2,3) m by (auto simp: p review_package_def Let_def view_mission_Ok)
  then show ?thesis using assms(4) by (auto simp: accept_mission_def st_then.simps api_mission_def split: option.splits)
qed

definition settled_db :: Db where
  "settled_db = fst (reject_mission demo_senv 1 \<lparr>rq_reason = ''no'', rq_continue_mission = None\<rparr> repo_db)"

theorem review_offers_witness:
  "case snd (get_mission_review merging_git (\<lambda>t. []) ''1'' settled_db []) of
     Ok p \<Rightarrow> \<exists>e. execute_canonical_integration demo_senv (rp_mission_id p) plain_request settled_db = (settled_db, Err e)
   | Err e \<Rightarrow> False"
proof -
  have "case snd (get_mission_review merging_git (\<lambda>t. []) ''1'' settled_db []) of
      Ok p \<Rightarrow> rp_status p = MissionState.Rejected \<and> \<not> rp_can_integrate p | Err e \<Rightarrow> False"
    by code_simp
  then obtain l p where p: "get_mission_review merging_git (\<lambda>t. []) ''1'' settled_db [] = (l, Ok p)"
    "rp_status p = MissionState.Rejected" "\<not> rp_can_integrate p"
    by (cases "get_mission_review merging_git (\<lambda>t. []) ''1'' settled_db []") (auto split: result.splits)
  from review_offers [OF p(1), of demo_senv _ plain_request] p show ?thesis by simp
qed

end
