(* ===== verification/Spec2Isabelle.thy ===== *)
theory Spec2Isabelle
  imports Runtime_Properties Decision_Properties Storage_Properties State_Properties Graph_Properties
    Execution_Properties Lease_Refinement Store_References Planner_Properties Tool_Properties Runner_Properties
    Failover_Properties Prompt_Properties Agent_Host_Properties Executor_Properties Observability_Properties
    Memory_Properties Api_Properties Api_View_Properties
    Review_Properties
begin

text \<open>
A model of axonel, an orchestrator of coding agents written in Rust, and the theorems that
make it correct. Paths below are relative to src/crates.

\<^bold>\<open>The program.\<close> A user states a mission. The mission engine
(plexis-runtime/src/mission) plans it (plexis-planner) into a workflow of tasks with
dependencies, which the SQLite store (plexis-storage) keeps. The scheduler selects an agent
for each runnable task, takes a lease on the task with a fencing generation, and enqueues a
command; the runner executes it with a provider, whose tool calls it answers (plexis-tools), or
with an external agent; the verifier checks its result, the recovery controller
decides what to do after a failure, governance asks a human where a policy says so. The engine
checks its stopping condition and leaves the mission waiting for a human, whose acceptance
(plexis-server) integrates the commit into the repository. After a restart the reconciler
returns the store to a state the scheduler can go on from. The components share no memory but
the store: they interact through the rows they read and write, so the composition of the model
is the passing of one database through the operations.

\<^bold>\<open>Common conventions.\<close> A Rust result is the datatype result of Prelude, a panic the
development must exclude is None or an error constructor of its own. A method on a mutable
receiver returns the new receiver; a method of the store is a function from a database to a
database and a result, composed by st_then (the question mark operator). Counters that
wrap or are compared at their width are words (u32, u64). Identifiers, where the source draws a
UUID, are arguments or the least natural number no row of the table has. Time is an integer
reading of the clock, given as an argument. The order of a hash table is that of an association
list or a parameter, so a theorem that holds for every argument holds for every order. Log
lines and the payloads of audit events are left out.

\<^bold>\<open>Theories.\<close>

\<^item> Prelude, Lifecycle, Text_Ops: results and state passing, tables, the string methods
  of the standard library, the locales of lifecycle tables and of string codecs.

\<^item> States, Entities, Records, Mission_Model, Workspace_Model (plexis-core/src: state.rs, task.rs,
  execution.rs, command.rs, lease.rs, agent.rs, session.rs, approval.rs, workflow.rs, event.rs,
  verification.rs, message.rs, planning.rs, memory.rs, recovery.rs, mission.rs, workspace.rs, and
  plexis-runtime/src/mission/budget.rs and liveness.rs): enums with their transition tables and
  column texts, entities and their operations. Every enum interprets the locale of its kind.
  State_Properties: the round trip of the column texts, no way to Verified but through
  verification.

\<^item> Task_Graph (graph.rs of plexis-core), with Graph_Kahn (Kahn's algorithm decides
  acyclicity, no in-degree underflows), Graph_Invariant (every operation keeps the graph
  well-formed and acyclic), Graph_Queries (the exact edges each compound operation leaves) and
  Graph_Properties.

\<^item> Storage, Storage_Missions, Storage_Records, Storage_Commands
  (plexis-storage/src/sqlite/store.rs and migrations/): tables as lists of rows, one definition
  per method. Storage_Invariant: keys, unique columns and lease integrity along every history.
  Store_References: referential integrity. Storage_Laws: what the methods return.
  Lease_Refinement: the lease methods refine an abstract lock service. Storage_Properties.

\<^item> Lease_Manager (lease_manager.rs): the fencing lemmas over the locale of a lease store,
  which the SQLite store interprets.

\<^item> Selection (plexis-providers/src/capabilities.rs, selector.rs), Scheduler (scheduler.rs),
  Task_Reconciler (reconciler.rs), with Reconcile_Laws and Runtime_Properties.

\<^item> Recovery (recovery.rs), Governance (governance.rs), Verifier (verifier.rs), Resources
  (resources.rs), with Execution_Properties.

\<^item> Mission_Engine and Mission_Step (mission/engine.rs, checkpoint.rs, executor.rs),
  Mission_Acceptance (the mission handlers of plexis-server/src/routes.rs and the commands
  create, accept, reject and integrate of cli.rs), Mission_Laws (the cases of a step), Mission_Run (the frame of the
  engine and the background loop), Mission_Gate (all operations on missions and workspaces, of the
  handlers, the command line and a restart, as one step relation with
  the invariant that nothing gets past acceptance without the record of one), Mission_Decisions,
  Mission_Properties, Decision_Properties.

\<^item> Plan_Validator (plexis-planner/src/proposal.rs, validator.rs), Planner (planner.rs,
  applier.rs, diagnoser.rs), Plan_Kahn (the loop of the validator and the depths it computes),
  Plan_Rules (the rules it decides), Planner_Properties.

\<^item> Redaction, Sandbox, Tools, Tool_Processes, Tool_Schemas (plexis-tools/src: redaction.rs,
  secrets.rs, sandbox.rs, traits.rs, builtin/filesystem.rs, shell.rs, git.rs, backend.rs,
  registry.rs): a tool returns the effects it has on files and processes as a trace, and its
  answers come from an environment. Tool_Properties: what is read and written is confined, up to
  links whose target does not exist, and secrets reach the commands they are meant for and, unless they are too
  short or look like a part of a marker, no output.

\<^item> Prompt (context/mod.rs of plexis-runtime): the tiers of a prompt, budgets and receipts.
  Prompt_Properties.

\<^item> Protocol (protocol.rs of plexis-core, types.rs of plexis-providers, backend/mod.rs of
  plexis-runtime), Runner_Start, Runner_Turns and Runner (runner.rs): decoding and fencing, the
  attempt, the turns with a provider and the tool calls, the external backends, the close.
  Runner_Laws: the locale of the relations of stores that the methods called before the check of
  the lease respect, its extensions for the verdict and the close, and their instances, the steps of the
  store that leave the missions alone, the set of commits, the leases and the executions. Runner_Properties: what a
  run commits and what it leaves stored.

\<^item> Failover (error.rs, reliability.rs, health.rs and failover.rs of plexis-providers): retries,
  circuit breaker, candidates and dispatch over a log of calls. Failover_Properties.

\<^item> Agent_Host (agent_host/security.rs, host.rs of plexis-runtime): the environment of a child
  process, the registry of processes and both ways to supervise one. Other threads act on the
  registry between the critical sections, each time as a function of the environment; the
  properties allow them every step that does not settle the execution itself.
  Agent_Host_Properties.

\<^item> Workflow_Executor (workflow_executor.rs of plexis-server, adapters/scripted.rs): the executor
  that plans an empty workflow, makes the default agents and ticks the scheduler with the
  runner. Executor_Properties: the whole composition leaves the missions alone, so the
  background loop of a mission that runs it ends; a cycle without work ends too.

\<^item> Observability (observability.rs of plexis-runtime): the audit trail of a run rebuilt from the
  store, its figures and the scan for suspicious texts. Observability_Properties.

\<^item> Memory_Engine (plexis-memory/src): the features of an embedding, the similarity and score of
  memories, the manager over the store and its search. A single is its multiple of the least
  positive one; operations on singles that round are parameters. Memory_Properties.

\<^item> Api_Routes, Api_Views (routes.rs, state.rs and terminal.rs of
  plexis-server): the tokens and the middleware, the handlers that change the store, the views a
  client reads with the stream of events and the terminals, and the execution a started workflow
  gets in the background. The live part of the stream reads the broadcast channel of the store, which
  fails a reader that falls a thousand events behind. Api_Properties: only a request with an active
  token passes. Api_View_Properties: what
  the decision of a human does and when an execution ends; what the stream sends is in order and
  without a gap, a terminal shows the end of its output.

\<^item> Git_Client (git.rs of plexis-server): status, differences, log, commit and integration over a log
  of the commands that were run; the git program answers as it likes. Review_Properties: an
  integration changes nothing unless its checks pass, succeeds exactly when the target holds the commit or a merge
  succeeds, and aborts a merge that fails.

\<^item> Mission_Review (routes.rs of plexis-server): the review package, the difference and
  the status of a mission, the git routes of a workspace, the handlers that return rows.
  A decision the review does not offer is refused, repetitions and completed missions apart.

\<^bold>\<open>Bounds.\<close> Loops are structural or have a termination proof. The two
worklist loops (Kahn's algorithm in Task_Graph and in Plan_Validator) end because the sum of
the in-degrees and the queue decreases. The background loop of a mission takes fuel, the number
of rounds it may step; the termination property of the loop shows that it needs no more rounds than
its stagnation limit leaves, so that this fuel is enough. The runner takes at most ten turns,
the number in the source. The cycle of a workflow takes the number of its rounds; with
thirteen rounds for each task it executes and thirteen more it ends. A background execution takes
them too: it ends in its forty-first idle round, while a human is asked it has no end.

\<^bold>\<open>Parameters.\<close> Code outside the repository, and processes: the completion of a
provider, the JSON parser, the git program, the shell and the file system, the clock, the
canonicalisation of a path, the regular expressions of the redaction, the text of a score
in a prompt, the programs of external agents, and, in Scheduler, the runner, which
Runner_Properties instantiates. What other threads do to the store while a provider or a backend
works is a parameter of the runner, a function of the store at each turn. No property assumes
more of them than its statement shows.

\<^bold>\<open>Not modelled.\<close> Sockets, routing and the JSON of the HTTP layer, the catalogues it
serves and the web client; GitHub and worktrees; the adapters of
providers and external agents, which are network and process input and output; tracing and
metrics; the text of log lines and the payload of audit events; calculate_cost, a floating point
product that no decision reads; the parsing of the columns of a row, which the types of the
model replace. The manifest lists every part with the reason.
\<close>

end
